(* ===== verification/Prelude.thy ===== *)
theory Prelude
  imports Main "HOL-Library.AList" "HOL-Library.Sublist" "HOL-Library.Word"
begin

section \<open>Shared vocabulary: time, durations, bytes, keyed loops\<close>

text \<open>
  What every component of the watchdog uses of Go and of its standard library.

  \<^item> A \<open>time.Time\<close> is the number of nanoseconds since Go's zero time (1 January of year 1,
    UTC), an unbounded \<open>int\<close>; \<open>IsZero\<close>, \<open>Before\<close>, \<open>After\<close> compare that number.
    \<open>Sub\<close> saturates to the 64-bit range of \<open>time.Duration\<close>, as Go's does.
  \<^item> A \<open>time.Duration\<close> is a signed 64-bit number of nanoseconds, kept as an \<open>int\<close>;
    where the code multiplies or adds durations, the wrap-around is written out with
    \<open>i64\<close>.
  \<^item> A Go string is its list of bytes (\<open>string\<close>). \<open>strings.ToLower\<close>,
    \<open>strings.TrimSpace\<close> and \<open>strings.EqualFold\<close> are the ASCII ones: exact on ASCII
    text, and bytes from 128 up (parts of multi-byte characters) are left as they are.
  \<^item> A Go map that is only read and written by key is a partial function; a loop
    \<open>for k, v := range m\<close> visits the keys in an unspecified order, so it is a \<open>fold\<close>
    over a list of keys that the loop takes as an argument. The locale \<open>keyed_loop\<close> holds
    what such loops share, above all that the order does not matter.
\<close>

named_theorems go_defs \<open>definitions of small helpers that proofs unfold\<close>

subsection \<open>Time\<close>

type_synonym gotime = int
type_synonym duration = int

abbreviation (input) is_zero :: "gotime \<Rightarrow> bool" where
  "is_zero t \<equiv> t = 0"

abbreviation (input) Before :: "gotime \<Rightarrow> gotime \<Rightarrow> bool" where
  "Before t u \<equiv> t < u"

abbreviation (input) After :: "gotime \<Rightarrow> gotime \<Rightarrow> bool" where
  "After t u \<equiv> u < t"

abbreviation (input) Second :: duration where
  "Second \<equiv> 1000000000"

abbreviation (input) Millisecond :: duration where
  "Millisecond \<equiv> 1000000"

abbreviation (input) Minute :: duration where
  "Minute \<equiv> 60 * Second"

abbreviation (input) Hour :: duration where
  "Hour \<equiv> 3600 * Second"

definition min_duration :: duration where
  "min_duration = - (2 ^ 63)"

definition max_duration :: duration where
  "max_duration = 2 ^ 63 - 1"

text \<open>\<open>t.Sub(u)\<close>.\<close>

definition time_sub :: "gotime \<Rightarrow> gotime \<Rightarrow> duration" where
  "time_sub t u = max min_duration (min max_duration (t - u))"

lemmas time_sub_unfold = time_sub_def min_duration_def max_duration_def

lemma time_sub_less_iff [simp]:
  "- (2 ^ 63) \<le> c \<Longrightarrow> c < 2 ^ 63 - 1 \<Longrightarrow> c < time_sub t u \<longleftrightarrow> c < t - u"
  by (auto simp: time_sub_unfold)

lemma less_time_sub_iff [simp]:
  "- (2 ^ 63) < c \<Longrightarrow> c < 2 ^ 63 \<Longrightarrow> time_sub t u < c \<longleftrightarrow> t - u < c"
  by (auto simp: time_sub_unfold)

lemma time_sub_self [simp]: "time_sub t t = 0"
  by (simp add: time_sub_unfold)

text \<open>The result of a 64-bit signed operation.\<close>

definition i64 :: "int \<Rightarrow> int" where
  "i64 x = (x + 2 ^ 63) mod 2 ^ 64 - 2 ^ 63"

lemma i64_id: "- (2 ^ 63) \<le> x \<Longrightarrow> x < 2 ^ 63 \<Longrightarrow> i64 x = x"
  by (simp add: i64_def)

lemma i64_range: "- (2 ^ 63) \<le> i64 x \<and> i64 x < 2 ^ 63"
  by (simp add: i64_def pos_mod_bound [of "2 ^ 64" "x + 2 ^ 63", simplified] less_diff_eq)

text \<open>Go's integer division truncates towards zero.\<close>

definition go_div :: "int \<Rightarrow> int \<Rightarrow> int" where
  "go_div a b = sgn a * sgn b * (\<bar>a\<bar> div \<bar>b\<bar>)"

lemma go_div_pos: "0 \<le> a \<Longrightarrow> 0 < b \<Longrightarrow> go_div a b = a div b"
  by (cases "a = 0") (auto simp: go_div_def sgn_if)

subsection \<open>Bytes and strings\<close>

definition byte :: "char \<Rightarrow> nat" where
  "byte c = of_char c"

definition lower_char :: "char \<Rightarrow> char" where
  "lower_char c = (if 65 \<le> byte c \<and> byte c \<le> 90 then char_of (byte c + 32) else c)"

definition is_space :: "char \<Rightarrow> bool" where
  "is_space c \<longleftrightarrow> byte c = 32 \<or> (9 \<le> byte c \<and> byte c \<le> 13)"

definition is_digit :: "char \<Rightarrow> bool" where
  "is_digit c \<longleftrightarrow> 48 \<le> byte c \<and> byte c \<le> 57"

definition to_lower :: "string \<Rightarrow> string" where
  "to_lower s = map lower_char s"

definition trim_space :: "string \<Rightarrow> string" where
  "trim_space s = rev (dropWhile is_space (rev (dropWhile is_space s)))"

definition equal_fold :: "string \<Rightarrow> string \<Rightarrow> bool" where
  "equal_fold a b \<longleftrightarrow> to_lower a = to_lower b"

fun contains_sub :: "string \<Rightarrow> string \<Rightarrow> bool" where
  "contains_sub [] p = (p = [])"
| "contains_sub (c # cs) p = (prefix p (c # cs) \<or> contains_sub cs p)"

definition trim_prefix :: "string \<Rightarrow> string \<Rightarrow> string" where
  "trim_prefix p s = (if prefix p s then drop (length p) s else s)"

lemma contains_sub_sublist: "contains_sub s p \<longleftrightarrow> sublist p s"
  by (induction s) (auto simp: sublist_Cons_right)

lemma byte_lt: "byte c < 256"
  using of_char_mod_256 [of c, where ?'a = nat] mod_less_divisor [of 256 "of_char c"]
  by (simp add: byte_def)

lemma byte_char_of: "n < 256 \<Longrightarrow> byte (char_of n) = n"
  by (simp add: byte_def of_char_of)

lemma lower_char_idem [simp]: "lower_char (lower_char c) = lower_char c"
  by (auto simp: lower_char_def byte_char_of)

lemma to_lower_idem [simp]: "to_lower (to_lower s) = to_lower s"
  by (simp add: to_lower_def)

lemma to_lower_Nil [simp]: "to_lower [] = []"
  by (simp add: to_lower_def)

lemma to_lower_append: "to_lower (s @ t) = to_lower s @ to_lower t"
  by (simp add: to_lower_def)

lemma length_to_lower [simp]: "length (to_lower s) = length s"
  by (simp add: to_lower_def)

lemma trim_space_Nil [simp]: "trim_space [] = []"
  by (simp add: trim_space_def)

lemma dropWhile_idem [simp]: "dropWhile P (dropWhile P xs) = dropWhile P xs"
  by (induction xs) auto

lemma dropWhile_rev_front:
  "xs = [] \<or> \<not> P (hd xs) \<Longrightarrow>
   rev (dropWhile P (rev xs)) = [] \<or> \<not> P (hd (rev (dropWhile P (rev xs))))"
proof (induction xs rule: rev_induct)
  case Nil
  then show ?case by simp
next
  case (snoc x xs)
  then show ?case by (cases xs) auto
qed

lemma dropWhile_id: "xs = [] \<or> \<not> P (hd xs) \<Longrightarrow> dropWhile P xs = xs"
  by (cases xs) auto

lemma trim_space_front: "dropWhile is_space (trim_space s) = trim_space s"
  unfolding trim_space_def
  by (rule dropWhile_id, rule dropWhile_rev_front) (metis hd_dropWhile)

lemma trim_space_idem [simp]: "trim_space (trim_space s) = trim_space s"
  using trim_space_front [of s] by (simp add: trim_space_def)

text \<open>Lower-case hexadecimal of a byte list, as \<open>hex.EncodeToString\<close> writes it.\<close>

definition hex_digit :: "nat \<Rightarrow> char" where
  "hex_digit n = (if n < 10 then char_of (48 + n) else char_of (87 + n))"

definition hex_encode :: "8 word list \<Rightarrow> string" where
  "hex_encode bs = concat (map (\<lambda>b. [hex_digit (unat b div 16), hex_digit (unat b mod 16)]) bs)"

definition is_hex :: "char \<Rightarrow> bool" where
  "is_hex c \<longleftrightarrow> is_digit c \<or> (97 \<le> byte c \<and> byte c \<le> 102)"

lemma is_hex_hex_digit: "n < 16 \<Longrightarrow> is_hex (hex_digit n)"
  by (auto simp: is_hex_def hex_digit_def is_digit_def byte_char_of)

lemma length_hex_encode: "length (hex_encode bs) = 2 * length bs"
  by (induction bs) (auto simp: hex_encode_def)

lemma hex_encode_is_hex: "list_all is_hex (hex_encode bs)"
proof (induction bs)
  case Nil
  then show ?case by (simp add: hex_encode_def)
next
  case (Cons b bs)
  have "unat b < 256"
    using unsigned_less [of b, where ?'a = nat] by simp
  then have "unat b div 16 < 16"
    by (simp add: less_mult_imp_div_less)
  with Cons show ?case
    by (simp add: hex_encode_def is_hex_hex_digit)
qed

subsection \<open>Options\<close>

definition present :: "'a option \<Rightarrow> bool" where
  "present x \<longleftrightarrow> x \<noteq> None"

lemma present_simps [simp]: "present (Some x)" "\<not> present None"
  by (simp_all add: present_def)

subsection \<open>Loops over the keys of a map\<close>

text \<open>
  The contract of a loop body over a Go map: \<open>get s\<close> is the map inside the program state
  \<open>s\<close>, a step at key \<open>k\<close> writes the map at \<open>k\<close> only, the new entry depends on the
  old entry at \<open>k\<close> and on a part \<open>env s\<close> of the state that no step writes. Then the whole
  loop acts on every key exactly once, whatever order the runtime picked.
\<close>

locale keyed_loop =
  fixes get :: "'s \<Rightarrow> 'k \<Rightarrow> 'v option"
    and env :: "'s \<Rightarrow> 'e"
    and step :: "'k \<Rightarrow> 's \<Rightarrow> 's"
    and act :: "'e \<Rightarrow> 'k \<Rightarrow> 'v option \<Rightarrow> 'v option"
  assumes step_other: "k' \<noteq> k \<Longrightarrow> get (step k s) k' = get s k'"
    and step_own: "get (step k s) k = act (env s) k (get s k)"
    and step_env: "env (step k s) = env s"
begin

lemma loop_env: "env (fold step ks s) = env s"
  by (induction ks arbitrary: s) (auto simp: step_env)

lemma loop_unvisited: "k \<notin> set ks \<Longrightarrow> get (fold step ks s) k = get s k"
  by (induction ks arbitrary: s) (auto simp: step_other)

lemma loop_visited:
  "distinct ks \<Longrightarrow> k \<in> set ks \<Longrightarrow> get (fold step ks s) k = act (env s) k (get s k)"
proof (induction ks arbitrary: s)
  case Nil
  then show ?case by simp
next
  case (Cons j ks)
  then show ?case
    by (cases "j = k") (auto simp: loop_unvisited step_own step_other step_env)
qed

lemma loop_get:
  "distinct ks \<Longrightarrow>
   get (fold step ks s) k = (if k \<in> set ks then act (env s) k (get s k) else get s k)"
  by (simp add: loop_visited loop_unvisited)

lemma loop_order_irrelevant:
  "distinct ks \<Longrightarrow> distinct ks' \<Longrightarrow> set ks = set ks' \<Longrightarrow>
   get (fold step ks s) = get (fold step ks' s)"
  by (rule ext) (simp add: loop_get)

lemma loop_invariant:
  "(\<And>k s. P s \<Longrightarrow> P (step k s)) \<Longrightarrow> P s \<Longrightarrow> P (fold step ks s)"
  by (induction ks arbitrary: s) auto

end

text \<open>An order in which a loop may visit the map \<open>m\<close>.\<close>

definition range_order :: "('k \<rightharpoonup> 'v) \<Rightarrow> 'k list \<Rightarrow> bool" where
  "range_order m ks \<longleftrightarrow> distinct ks \<and> set ks = dom m"

lemma range_order_length: "range_order m ks \<Longrightarrow> length ks = card (dom m)"
  by (metis range_order_def distinct_card)

lemma range_order_distinct: "range_order m ks \<Longrightarrow> distinct ks"
  by (simp add: range_order_def)

lemma fold_preserves:
  "(\<And>x s. x \<in> set xs \<Longrightarrow> P s \<Longrightarrow> P (f x s)) \<Longrightarrow> P s \<Longrightarrow> P (fold f xs s)"
  by (induction xs arbitrary: s) auto

end
