(* ===== verification/Model.thy ===== *)
theory Model
  imports Prelude
begin

section \<open>The data model (model.go)\<close>

text \<open>
  The records of \<open>model.go\<close>, field by field. A field keeps its Go name behind a short prefix
  for its record (\<open>p_\<close> pending, \<open>a_\<close> awaiting, \<open>s_\<close> stopped, \<open>g_\<close> goal stop, \<open>t_\<close> thread,
  \<open>j_\<close> job, \<open>e_\<close> event), since Isabelle's field selectors share one name space. Go's named
  string types are datatypes with one constructor per constant of the source and a last
  constructor for every other string; the zero value of such a type is that constructor on the
  empty string. A Go pointer that may be nil is an \<open>option\<close>: no operation lets a retry record
  be reached through two threads, so a value stands for the pointer.
\<close>

datatype FailureClass =
    classNone
  | classTransient
  | classRateLimit
  | classServer
  | classAuthTransient
  | classAuthLimited
  | classEmptyResponse
  | classUnknown
  | classOther string

record RetryDecision =
  r_Retry :: bool
  r_Class :: FailureClass
  r_MaxAttempts :: int
  r_MaxConsecutive :: int
  r_Reason :: string

record RelevantEvent =
  e_Kind :: string
  e_ThreadID :: string
  e_TurnID :: string
  e_Timestamp :: gotime
  e_ErrorText :: string
  e_FinalKnown :: bool
  e_FinalPresent :: bool
  e_AbortReason :: string
  e_GoalStatus :: string
  e_GoalUpdatedAt :: gotime
  e_ParentThreadID :: string
  e_RecoveryEventID :: string

record PendingRetry =
  p_EventKey :: string
  p_FailedTurnID :: string
  p_FailedAt :: gotime
  p_OriginTurnStartedAt :: gotime
  p_Class :: FailureClass
  p_DueAt :: gotime
  p_CodexHome :: string
  p_RolloutPath :: string
  p_Attempt :: int
  p_MaxAttempts :: int
  p_ConsecutiveRetry :: int
  p_MaxConsecutive :: int
  p_DispatchFailures :: int
  p_ParentNotified :: bool
  p_GoalLimitRestart :: bool

datatype RetryAction =
    actionDispatching
  | actionGoalResume
  | actionGoalActive
  | actionConversationContinue
  | actionSubagentContinue
  | actionGoalBlock
  | actionOther string

record AwaitingRetry =
  a_EventKey :: string
  a_FailedTurnID :: string
  a_FailedAt :: gotime
  a_OriginTurnStartedAt :: gotime
  a_RetryTurnID :: string
  a_Class :: FailureClass
  a_Action :: RetryAction
  a_Attempt :: int
  a_MaxAttempts :: int
  a_ConsecutiveRetry :: int
  a_MaxConsecutive :: int
  a_DispatchFailures :: int
  a_ParentNotified :: bool
  a_GoalLimitRestart :: bool
  a_DispatchStartedAt :: gotime
  a_StartDeadline :: gotime
  a_StartedAt :: gotime
  a_LifecycleChecks :: int
  a_LastLifecycleCheckAt :: gotime
  a_CodexHome :: string
  a_RolloutPath :: string

record GoalStopRequest =
  g_EventKey :: string
  g_Reason :: string
  g_RequestedAt :: gotime
  g_DueAt :: gotime
  g_DispatchFailures :: int

record StoppedRetry =
  s_EventKey :: string
  s_FailedTurnID :: string
  s_FailedAt :: gotime
  s_OriginTurnStartedAt :: gotime
  s_Class :: FailureClass
  s_StoppedAt :: gotime
  s_CodexHome :: string
  s_RolloutPath :: string
  s_Attempts :: int
  s_MaxAttempts :: int
  s_ConsecutiveRetries :: int
  s_MaxConsecutive :: int
  s_Reason :: string
  s_Historical :: bool
  s_TransportBlocked :: "bool option"

record ThreadState =
  t_RecoveryAttempts :: int
  t_ConsecutiveRetries :: int
  t_RecoveryStartedAt :: gotime
  t_LegacyFailures :: int
  t_LastFailureAt :: gotime
  t_LastAutoRetryAt :: gotime
  t_GoalStatus :: string
  t_GoalUpdatedAt :: gotime
  t_GoalObservedAt :: gotime
  t_GoalHeld :: bool
  t_LastStartedTurnID :: string
  t_LastStartedAt :: gotime
  t_LastExternalTurnID :: string
  t_LastExternalTurnAt :: gotime
  t_CurrentTurnProgress :: bool
  t_LastAbortedTurnID :: string
  t_LastAbortedAt :: gotime
  t_Pending :: "PendingRetry option"
  t_Awaiting :: "AwaitingRetry option"
  t_Stopped :: "StoppedRetry option"
  t_GoalStop :: "GoalStopRequest option"

record FileCursor =
  f_Offset :: int
  f_LastSeen :: gotime

record RuntimeState =
  rs_Version :: int
  rs_Initialized :: bool
  rs_Files :: "string \<rightharpoonup> FileCursor"
  rs_Threads :: "string \<rightharpoonup> ThreadState"
  rs_ProcessedEvents :: "string \<rightharpoonup> gotime"

datatype RetryJobKind = jobRecovery | jobGoalBlock

record RetryJob =
  j_Kind :: RetryJobKind
  j_ThreadID :: string
  j_FailedTurnID :: string
  j_FailedAt :: gotime
  j_OriginTurnStartedAt :: gotime
  j_EventKey :: string
  j_Class :: FailureClass
  j_CodexHome :: string
  j_RolloutPath :: string
  j_Attempt :: int
  j_MaxAttempts :: int
  j_ConsecutiveRetry :: int
  j_MaxConsecutive :: int
  j_DispatchFailures :: int
  j_ParentNotified :: bool
  j_GoalLimitRestart :: bool
  j_RecoveryEventID :: string

datatype DispatchOutcome =
    outcomeDispatched
  | outcomeAwaitingStart
  | outcomeUserActive
  | outcomeRetryLater
  | outcomeNotApplicable
  | outcomeOther string

record DispatchResult =
  d_Outcome :: DispatchOutcome
  d_Action :: RetryAction
  d_Reason :: string
  d_ParentNotified :: bool

subsection \<open>Zero values\<close>

definition zero_DispatchResult :: DispatchResult where
  "zero_DispatchResult = \<lparr>d_Outcome = outcomeOther [], d_Action = actionOther [], d_Reason = [],
     d_ParentNotified = False\<rparr>"

definition zero_ThreadState :: ThreadState where
  "zero_ThreadState =
     \<lparr>t_RecoveryAttempts = 0, t_ConsecutiveRetries = 0, t_RecoveryStartedAt = 0,
      t_LegacyFailures = 0, t_LastFailureAt = 0, t_LastAutoRetryAt = 0, t_GoalStatus = [],
      t_GoalUpdatedAt = 0, t_GoalObservedAt = 0, t_GoalHeld = False, t_LastStartedTurnID = [],
      t_LastStartedAt = 0, t_LastExternalTurnID = [], t_LastExternalTurnAt = 0,
      t_CurrentTurnProgress = False, t_LastAbortedTurnID = [], t_LastAbortedAt = 0,
      t_Pending = None, t_Awaiting = None, t_Stopped = None, t_GoalStop = None\<rparr>"

definition zero_RelevantEvent :: RelevantEvent where
  "zero_RelevantEvent =
     \<lparr>e_Kind = [], e_ThreadID = [], e_TurnID = [], e_Timestamp = 0, e_ErrorText = [],
      e_FinalKnown = False, e_FinalPresent = False, e_AbortReason = [], e_GoalStatus = [],
      e_GoalUpdatedAt = 0, e_ParentThreadID = [], e_RecoveryEventID = []\<rparr>"

subsection \<open>What the proved transport allows\<close>

record desktopCapability =
  dc_Transport :: string
  dc_RecoveryMode :: string
  dc_Automatic :: bool
  dc_Reason :: string

definition capabilityForControllerState :: "string \<Rightarrow> bool \<Rightarrow> desktopCapability" where
  "capabilityForControllerState st sharedEnabled =
     (if st = ''ready'' then
        \<lparr>dc_Transport = ''shared_websocket'', dc_RecoveryMode = ''shared_websocket'',
         dc_Automatic = True, dc_Reason = ''verified''\<rparr>
      else if st = ''official_ipc_ready'' then
        \<lparr>dc_Transport = ''official_ipc'', dc_RecoveryMode = ''official_ipc'',
         dc_Automatic = True, dc_Reason = ''verified''\<rparr>
      else if st = ''codex_restart_required'' then
        \<lparr>dc_Transport = ''official_stdio'', dc_RecoveryMode = ''safe_launcher_required'',
         dc_Automatic = False, dc_Reason = ''official_stdio_not_externally_controllable''\<rparr>
      else if st = ''codex_not_running'' then
        \<lparr>dc_Transport = ''stopped'', dc_RecoveryMode = ''none'',
         dc_Automatic = False, dc_Reason = ''codex_not_running''\<rparr>
      else if st = ''codex_app_not_ready'' then
        \<lparr>dc_Transport = ''unknown'', dc_RecoveryMode = ''none'',
         dc_Automatic = False, dc_Reason = ''desktop_connection_not_proven''\<rparr>
      else if st = ''shared_app_server_disabled'' then
        \<lparr>dc_Transport = ''official_stdio'', dc_RecoveryMode = ''none'',
         dc_Automatic = False, dc_Reason = ''shared_backend_disabled''\<rparr>
      else if st \<in> {''shared_app_server_config_invalid'', ''shared_app_server_port_conflict'',
                    ''shared_app_server_port_reserved'', ''shared_app_server_environment_conflict'',
                    ''shared_app_server_ownership_unknown''} then
        (if sharedEnabled then
           \<lparr>dc_Transport = ''unknown'', dc_RecoveryMode = ''none'', dc_Automatic = False, dc_Reason = st\<rparr>
         else
           \<lparr>dc_Transport = ''official_stdio'', dc_RecoveryMode = ''none'', dc_Automatic = False, dc_Reason = st\<rparr>)
      else
        \<lparr>dc_Transport = ''unknown'', dc_RecoveryMode = ''none'', dc_Automatic = False, dc_Reason = st\<rparr>)"

lemma capability_automatic_iff:
  "dc_Automatic (capabilityForControllerState st en) \<longleftrightarrow> st = ''ready'' \<or> st = ''official_ipc_ready''"
  by (simp add: capabilityForControllerState_def)

end
