(* ===== verification/Go_Json.thy ===== *)
theory Go_Json
  imports Prelude
begin

section \<open>JSON as encoding/json reads it\<close>

text \<open>
  The part of Go's \<open>encoding/json\<close> the watchdog relies on: a parser from bytes to a tree of
  values and the decoding of an object's members into the fields of a struct.

  \<^item> A number keeps whether its literal was an integer literal (\<open>JInt\<close>) or had a fraction or
    an exponent (\<open>JFloat m e\<close>, the value \<open>m * 10 ^ e\<close>), because decoding into a Go \<open>int\<close>
    accepts integer literals only. Rounding to float64 and its range are not modelled.
  \<^item> An object keeps its members in the order of the text, with duplicates. Decoding into a
    struct applies them in order (\<open>dec_field\<close>), matching names without regard to case;
    decoding into a Go map keeps the last of equal names (\<open>json_map\<close>).
  \<^item> The parser recurses on fuel; \<open>parse_value_fuel\<close> shows that the fuel \<open>parse_json\<close>
    passes is enough: more fuel never changes the result. Go's nesting limit (10000) and its
    replacement of invalid UTF-8 are not modelled.
\<close>

datatype json =
    JNull
  | JBool bool
  | JInt int
  | JFloat int int
  | JString string
  | JArray "json list"
  | JObject "(string \<times> json) list"

subsection \<open>Scanning\<close>

definition is_ws :: "char \<Rightarrow> bool" where
  "is_ws c \<longleftrightarrow> byte c = 32 \<or> byte c = 9 \<or> byte c = 10 \<or> byte c = 13"

definition skip_ws :: "string \<Rightarrow> string" where
  "skip_ws s = dropWhile is_ws s"

lemma length_skip_ws: "length (skip_ws s) \<le> length s"
  by (simp add: skip_ws_def length_dropWhile_le)

definition digits_value :: "string \<Rightarrow> nat" where
  "digits_value ds = fold (\<lambda>d n. 10 * n + (byte d - 48)) ds 0"

text \<open>The digits after a point or an exponent mark: at least one.\<close>

definition scan_digits :: "string \<Rightarrow> (string \<times> string) option" where
  "scan_digits s =
     (let ds = takeWhile is_digit s
      in if ds = [] then None else Some (ds, dropWhile is_digit s))"

definition scan_fraction :: "string \<Rightarrow> (string \<times> string) option" where
  "scan_fraction s =
     (case s of
        [] \<Rightarrow> Some ([], s)
      | c # cs \<Rightarrow> if c = CHR ''.'' then scan_digits cs else Some ([], s))"

definition scan_exponent :: "string \<Rightarrow> (int option \<times> string) option" where
  "scan_exponent s =
     (case s of
        [] \<Rightarrow> Some (None, s)
      | c # cs \<Rightarrow>
          if c = CHR ''e'' \<or> c = CHR ''E'' then
            (let (sign, rest) =
               (case cs of
                  d # ds \<Rightarrow> if d = CHR ''-'' then (-1, ds) else if d = CHR ''+'' then (1, ds) else (1, cs)
                | [] \<Rightarrow> (1, cs))
             in map_option (\<lambda>(ds, r). (Some (sign * int (digits_value ds)), r)) (scan_digits rest))
          else Some (None, s))"

definition parse_number :: "string \<Rightarrow> (json \<times> string) option" where
  "parse_number s =
     (let (sign, s1) = (case s of c # cs \<Rightarrow> if c = CHR ''-'' then (-1, cs) else (1, s) | [] \<Rightarrow> (1, s))
      in case scan_digits s1 of
           None \<Rightarrow> None
         | Some (ip, s2) \<Rightarrow>
             if hd ip = CHR ''0'' \<and> length ip \<noteq> 1 then None
             else (case scan_fraction s2 of
               None \<Rightarrow> None
             | Some (fp, s3) \<Rightarrow>
                 (case scan_exponent s3 of
                    None \<Rightarrow> None
                  | Some (ex, s4) \<Rightarrow>
                      (let m = sign * int (digits_value (ip @ fp))
                       in Some (if fp = [] \<and> ex = None then JInt m
                                else JFloat m ((case ex of None \<Rightarrow> 0 | Some e \<Rightarrow> e) - int (length fp)), s4)))))"

lemma scan_digits_length: "scan_digits s = Some (ds, r) \<Longrightarrow> length r < length s"
  by (cases s) (auto simp: scan_digits_def Let_def less_Suc_eq_le length_dropWhile_le split: if_splits)

lemma scan_fraction_length: "scan_fraction s = Some (ds, r) \<Longrightarrow> length r \<le> length s"
  by (auto simp: scan_fraction_def dest: scan_digits_length split: list.splits if_splits)

lemma scan_exponent_length: "scan_exponent s = Some (e, r) \<Longrightarrow> length r \<le> length s"
  by (fastforce simp: scan_exponent_def dest: scan_digits_length split: list.splits if_splits)

lemma parse_number_length: "parse_number s = Some (v, r) \<Longrightarrow> length r < length s"
  by (fastforce simp: parse_number_def Let_def
      dest!: scan_digits_length scan_fraction_length scan_exponent_length
      split: list.splits if_splits option.splits prod.splits)

subsection \<open>Strings\<close>

definition hex_value :: "char \<Rightarrow> nat option" where
  "hex_value c =
     (let n = byte c
      in if 48 \<le> n \<and> n \<le> 57 then Some (n - 48)
         else if 97 \<le> n \<and> n \<le> 102 then Some (n - 87)
         else if 65 \<le> n \<and> n \<le> 70 then Some (n - 55)
         else None)"

definition hex4 :: "string \<Rightarrow> nat option" where
  "hex4 ds =
     (case map hex_value ds of
        [Some a, Some b, Some c, Some d] \<Rightarrow> Some (4096 * a + 256 * b + 16 * c + d)
      | _ \<Rightarrow> None)"

definition utf8_encode :: "nat \<Rightarrow> string" where
  "utf8_encode n =
     (if n < 128 then [char_of n]
      else if n < 2048 then [char_of (192 + n div 64), char_of (128 + n mod 64)]
      else if n < 65536 then
        [char_of (224 + n div 4096), char_of (128 + n div 64 mod 64), char_of (128 + n mod 64)]
      else [char_of (240 + n div 262144), char_of (128 + n div 4096 mod 64),
            char_of (128 + n div 64 mod 64), char_of (128 + n mod 64)])"

definition escape_char :: "char \<Rightarrow> string option" where
  "escape_char c =
     (if c = CHR 0x22 then Some [CHR 0x22]
      else if c = CHR 0x5C then Some [CHR 0x5C]
      else if c = CHR ''/'' then Some [CHR ''/'']
      else if c = CHR ''b'' then Some [CHR 0x08]
      else if c = CHR ''f'' then Some [CHR 0x0C]
      else if c = CHR ''n'' then Some [CHR 0x0A]
      else if c = CHR ''r'' then Some [CHR 0x0D]
      else if c = CHR ''t'' then Some [CHR 0x09]
      else None)"

text \<open>
  A \<open>\u\<close> escape: a high surrogate joins a following low one, any other surrogate becomes
  the replacement character U+FFFD. The result is the decoded bytes and the rest.
\<close>

definition unicode_escape :: "string \<Rightarrow> (string \<times> string) option" where
  "unicode_escape s =
     (case hex4 (take 4 s) of
        None \<Rightarrow> None
      | Some u \<Rightarrow>
          (let r = drop 4 s;
               low = (if take 2 r = [CHR 0x5C, CHR ''u''] then hex4 (take 4 (drop 2 r)) else None)
           in if 55296 \<le> u \<and> u < 57344 then
                (case low of
                   Some l \<Rightarrow>
                     if u < 56320 \<and> 56320 \<le> l \<and> l < 57344
                     then Some (utf8_encode (65536 + (u - 55296) * 1024 + (l - 56320)), drop 6 r)
                     else Some (utf8_encode 65533, r)
                 | None \<Rightarrow> Some (utf8_encode 65533, r))
              else Some (utf8_encode u, r)))"

lemma unicode_escape_length: "unicode_escape s = Some (x, r) \<Longrightarrow> length r \<le> length s"
  by (auto simp: unicode_escape_def Let_def split: option.splits if_splits)

text \<open>What follows a backslash.\<close>

definition unescape :: "string \<Rightarrow> (string \<times> string) option" where
  "unescape s =
     (case s of
        [] \<Rightarrow> None
      | e # es \<Rightarrow>
          if e = CHR ''u'' then unicode_escape es
          else map_option (\<lambda>x. (x, es)) (escape_char e))"

lemma unescape_length: "unescape s = Some (x, r) \<Longrightarrow> length r < length s"
  by (auto simp: unescape_def dest: unicode_escape_length split: list.splits if_splits)

text \<open>The characters of a string literal, after its opening quote.\<close>

function parse_chars :: "string \<Rightarrow> (string \<times> string) option" where
  "parse_chars [] = None"
| "parse_chars (c # cs) =
     (if c = CHR 0x22 then Some ([], cs)
      else if c = CHR 0x5C then
        (case unescape cs of
           None \<Rightarrow> None
         | Some (x, r) \<Rightarrow> map_option (\<lambda>(t, r'). (x @ t, r')) (parse_chars r))
      else if byte c < 32 then None
      else map_option (\<lambda>(t, r'). (c # t, r')) (parse_chars cs))"
  by pat_completeness auto
termination
  by (relation "measure length") (auto dest!: unescape_length)

lemma parse_chars_length: "parse_chars s = Some (t, r) \<Longrightarrow> length r < length s"
proof (induction s arbitrary: t rule: parse_chars.induct)
  case 1
  then show ?case by simp
next
  case (2 c cs)
  consider "c = CHR 0x22" | "c = CHR 0x5C" | "c \<noteq> CHR 0x22" "c \<noteq> CHR 0x5C" by blast
  then show ?case
  proof cases
    case 1
    with "2.prems" show ?thesis by simp
  next
    case 2
    with "2.prems" obtain x q t' where q: "unescape cs = Some (x, q)" "parse_chars q = Some (t', r)"
      by (auto split: option.splits)
    have "length r < length q"
      using "2.IH"(1) [OF _ 2 q(1) refl q(2)] 2 by simp
    moreover from q(1) have "length q < length cs" by (rule unescape_length)
    ultimately show ?thesis by simp
  next
    case 3
    with "2.prems" obtain t' where t': "byte c \<ge> 32" "parse_chars cs = Some (t', r)"
      by (auto split: if_splits)
    have "length r < length cs"
      using "2.IH"(2) [OF 3 _ t'(2)] t'(1) by simp
    then show ?thesis by simp
  qed
qed

subsection \<open>Values\<close>

text \<open>A string, a literal name or a number; \<open>s\<close> starts with its first character.\<close>

definition parse_scalar :: "string \<Rightarrow> (json \<times> string) option" where
  "parse_scalar s =
     (if prefix [CHR 0x22] s then map_option (\<lambda>(t, r). (JString t, r)) (parse_chars (drop 1 s))
      else if prefix ''true'' s then Some (JBool True, drop 4 s)
      else if prefix ''false'' s then Some (JBool False, drop 5 s)
      else if prefix ''null'' s then Some (JNull, drop 4 s)
      else parse_number s)"

lemma parse_scalar_length: "parse_scalar s = Some (v, r) \<Longrightarrow> length r < length s"
proof -
  have "prefix p s \<Longrightarrow> 0 < length p \<Longrightarrow> length s - length p < length s" for p :: string
    using prefix_length_le [of p s] by linarith
  from this [of "''true''"] this [of "''false''"] this [of "''null''"] this [of "[CHR 0x22]"]
  show "parse_scalar s = Some (v, r) \<Longrightarrow> length r < length s"
    using parse_number_length [of s v r] parse_chars_length [of "drop 1 s" _ r]
    by (force simp: parse_scalar_def split: if_splits)
qed

text \<open>The next character that is not white space, and what follows it.\<close>

definition next_char :: "string \<Rightarrow> (char \<times> string) option" where
  "next_char s = (case skip_ws s of [] \<Rightarrow> None | c # cs \<Rightarrow> Some (c, cs))"

lemma next_char_length: "next_char s = Some (c, cs) \<Longrightarrow> length cs < length s"
  using length_skip_ws [of s] by (auto simp: next_char_def split: list.splits)

fun parse_value :: "nat \<Rightarrow> string \<Rightarrow> (json \<times> string) option"
  and parse_elements :: "nat \<Rightarrow> string \<Rightarrow> (json list \<times> string) option"
  and parse_members :: "nat \<Rightarrow> string \<Rightarrow> ((string \<times> json) list \<times> string) option" where
  "parse_value 0 s = None"
| "parse_value (Suc n) s =
     (case next_char s of
        None \<Rightarrow> None
      | Some (c, cs) \<Rightarrow>
          if c = CHR ''{'' then
            (case next_char cs of
               None \<Rightarrow> None
             | Some (d, ds) \<Rightarrow>
                 if d = CHR ''}'' then Some (JObject [], ds)
                 else map_option (\<lambda>(ms, r). (JObject ms, r)) (parse_members n cs))
          else if c = CHR ''['' then
            (case next_char cs of
               None \<Rightarrow> None
             | Some (d, ds) \<Rightarrow>
                 if d = CHR '']'' then Some (JArray [], ds)
                 else map_option (\<lambda>(vs, r). (JArray vs, r)) (parse_elements n cs))
          else parse_scalar (c # cs))"
| "parse_elements 0 s = None"
| "parse_elements (Suc n) s =
     (case parse_value n s of
        None \<Rightarrow> None
      | Some (v, r) \<Rightarrow>
          (case next_char r of
             None \<Rightarrow> None
           | Some (c, cs) \<Rightarrow>
               if c = CHR '','' then map_option (\<lambda>(vs, r'). (v # vs, r')) (parse_elements n cs)
               else if c = CHR '']'' then Some ([v], cs)
               else None))"
| "parse_members 0 s = None"
| "parse_members (Suc n) s =
     (case next_char s of
        None \<Rightarrow> None
      | Some (q, qs) \<Rightarrow>
          if q \<noteq> CHR 0x22 then None
          else (case parse_chars qs of
             None \<Rightarrow> None
           | Some (k, r) \<Rightarrow>
               (case next_char r of
                  None \<Rightarrow> None
                | Some (c, cs) \<Rightarrow>
                    if c \<noteq> CHR '':'' then None
                    else (case parse_value n cs of
                       None \<Rightarrow> None
                     | Some (v, r2) \<Rightarrow>
                         (case next_char r2 of
                            None \<Rightarrow> None
                          | Some (d, ds) \<Rightarrow>
                              if d = CHR '','' then map_option (\<lambda>(ms, r'). ((k, v) # ms, r')) (parse_members n ds)
                              else if d = CHR ''}'' then Some ([(k, v)], ds)
                              else None)))))"

text \<open>\<open>json.Unmarshal\<close> into \<open>any\<close>: one value, then nothing but white space.\<close>

definition parse_json :: "string \<Rightarrow> json option" where
  "parse_json s =
     (case parse_value (2 * length s + 1) s of
        None \<Rightarrow> None
      | Some (v, r) \<Rightarrow> if skip_ws r = [] then Some v else None)"

text \<open>Every successful call consumes at least one character.\<close>

lemma parse_value_step_length:
  assumes IH: "\<And>s vs r. parse_elements n s = Some (vs, r) \<Longrightarrow> length r < length s"
      "\<And>s ms r. parse_members n s = Some (ms, r) \<Longrightarrow> length r < length s"
    and "parse_value (Suc n) s = Some (v, r)"
  shows "length r < length s"
proof -
  from assms(3) obtain c cs where c: "next_char s = Some (c, cs)"
    by (auto split: option.splits)
  with assms(3) have
    "(\<exists>d. next_char cs = Some (d, r)) \<or> (\<exists>ms. parse_members n cs = Some (ms, r)) \<or>
     (\<exists>vs. parse_elements n cs = Some (vs, r)) \<or> parse_scalar (c # cs) = Some (v, r)"
    by (auto split: option.splits if_splits)
  then have "length r < length (c # cs)"
    using IH [of cs] next_char_length [of cs] parse_scalar_length [of "c # cs" v r] by fastforce
  with next_char_length [OF c] show ?thesis by simp
qed

lemma parse_elements_step_length:
  assumes IH: "\<And>s v r. parse_value n s = Some (v, r) \<Longrightarrow> length r < length s"
      "\<And>s vs r. parse_elements n s = Some (vs, r) \<Longrightarrow> length r < length s"
    and "parse_elements (Suc n) s = Some (vs, r)"
  shows "length r < length s"
proof -
  from assms(3) obtain v q c cs where q: "parse_value n s = Some (v, q)" "next_char q = Some (c, cs)"
    by (auto split: option.splits)
  with assms(3) have "cs = r \<or> (\<exists>ws. parse_elements n cs = Some (ws, r))"
    by (auto split: if_splits)
  then have "length r \<le> length cs" using IH(2) [of cs] by fastforce
  with IH(1) [OF q(1)] next_char_length [OF q(2)] show ?thesis by simp
qed

lemma parse_members_step_length:
  assumes IH: "\<And>s v r. parse_value n s = Some (v, r) \<Longrightarrow> length r < length s"
      "\<And>s ms r. parse_members n s = Some (ms, r) \<Longrightarrow> length r < length s"
    and "parse_members (Suc n) s = Some (ms, r)"
  shows "length r < length s"
proof -
  from assms(3) obtain q qs where q: "next_char s = Some (q, qs)" "q = CHR 0x22"
    by (auto split: option.splits if_splits)
  with assms(3) obtain k s1 where k: "parse_chars qs = Some (k, s1)"
    by (auto split: option.splits)
  with q assms(3) obtain c cs where c: "next_char s1 = Some (c, cs)" "c = CHR '':''"
    by (auto split: option.splits if_splits)
  with q k assms(3) obtain v s2 where v: "parse_value n cs = Some (v, s2)"
    by (auto split: option.splits)
  with q k c assms(3) obtain d ds where d: "next_char s2 = Some (d, ds)"
    by (auto split: option.splits)
  with q k c v assms(3) have "ds = r \<or> (\<exists>ws. parse_members n ds = Some (ws, r))"
    by (auto split: if_splits)
  then have "length r \<le> length ds" using IH(2) [of ds] by fastforce
  with next_char_length [OF q(1)] parse_chars_length [OF k] next_char_length [OF c(1)]
    IH(1) [OF v] next_char_length [OF d] show ?thesis by simp
qed

lemma parse_consumes:
  "(\<forall>s v r. parse_value n s = Some (v, r) \<longrightarrow> length r < length s) \<and>
   (\<forall>s vs r. parse_elements n s = Some (vs, r) \<longrightarrow> length r < length s) \<and>
   (\<forall>s ms r. parse_members n s = Some (ms, r) \<longrightarrow> length r < length s)"
proof (induction n)
  case 0
  then show ?case by simp
next
  case (Suc n)
  then show ?case
    using parse_value_step_length [of n] parse_elements_step_length [of n]
      parse_members_step_length [of n] by blast
qed

lemmas parse_value_length = parse_consumes [THEN conjunct1, rule_format]

lemma parse_members_more:
  assumes IHv: "\<And>s. 2 * length s + 1 \<le> n \<Longrightarrow> parse_value (Suc n) s = parse_value n s"
    and IHm: "\<And>s. 2 * length s + 2 \<le> n \<Longrightarrow> parse_members (Suc n) s = parse_members n s"
    and len: "2 * length s + 2 \<le> Suc n"
  shows "parse_members (Suc (Suc n)) s = parse_members (Suc n) s"
proof -
  have inner: "parse_value (Suc n) cs = parse_value n cs"
    if "next_char s = Some (q, qs)" "parse_chars qs = Some (k, r)" "next_char r = Some (c, cs)"
    for q qs k r c cs
    using next_char_length [OF that(1)] parse_chars_length [OF that(2)] next_char_length [OF that(3)] len
    by (intro IHv) simp
  have outer: "parse_members (Suc n) ds = parse_members n ds"
    if "next_char s = Some (q, qs)" "parse_chars qs = Some (k, r)" "next_char r = Some (c, cs)"
      "parse_value n cs = Some (v, r2)" "next_char r2 = Some (d, ds)"
    for q qs k r c cs v r2 d ds
    using next_char_length [OF that(1)] parse_chars_length [OF that(2)] next_char_length [OF that(3)]
      parse_value_length [OF that(4)] next_char_length [OF that(5)] len
    by (intro IHm) simp
  show ?thesis
    unfolding parse_members.simps(2) [of "Suc n" s] parse_members.simps(2) [of n s]
    by (intro option.case_cong prod.case_cong if_cong arg_cong [where f = "map_option _"] refl)
      (auto intro: inner outer simp del: parse_value.simps parse_members.simps)
qed

text \<open>More fuel than twice the length of the input never changes a result.\<close>

lemma parse_more_fuel:
  "(\<forall>s. 2 * length s + 1 \<le> n \<longrightarrow> parse_value (Suc n) s = parse_value n s) \<and>
   (\<forall>s. 2 * length s + 2 \<le> n \<longrightarrow> parse_elements (Suc n) s = parse_elements n s) \<and>
   (\<forall>s. 2 * length s + 2 \<le> n \<longrightarrow> parse_members (Suc n) s = parse_members n s)"
proof (induction n)
  case 0
  then show ?case by simp
next
  case (Suc n)
  note IHv = Suc [THEN conjunct1, rule_format] and IHe = Suc [THEN conjunct2, THEN conjunct1, rule_format]
    and IHm = Suc [THEN conjunct2, THEN conjunct2, rule_format]
  have "parse_value (Suc (Suc n)) s = parse_value (Suc n) s" if "2 * length s + 1 \<le> Suc n" for s
  proof (cases "next_char s")
    case None
    then show ?thesis by simp
  next
    case (Some x)
    obtain c cs where x: "x = (c, cs)" by (cases x)
    from next_char_length [OF Some [unfolded x]] that have "2 * length cs + 2 \<le> n" by simp
    from IHe [OF this] IHm [OF this] show ?thesis
      by (simp only: parse_value.simps Some x option.case prod.case)
  qed
  moreover have "parse_elements (Suc (Suc n)) s = parse_elements (Suc n) s"
    if "2 * length s + 2 \<le> Suc n" for s
  proof -
    have v: "parse_value (Suc n) s = parse_value n s" using IHv that by simp
    show ?thesis
    proof (cases "parse_value n s")
      case None
      with v show ?thesis by (simp only: parse_elements.simps option.case)
    next
      case (Some x)
      obtain w r where x: "x = (w, r)" by (cases x)
      have r: "length r < length s" using parse_value_length Some x by blast
      show ?thesis
      proof (cases "next_char r")
        case None
        with v Some x show ?thesis by (simp only: parse_elements.simps option.case prod.case)
      next
        case y: (Some y)
        obtain c cs where yc: "y = (c, cs)" by (cases y)
        from next_char_length [OF y [unfolded yc]] r that have "2 * length cs + 2 \<le> n" by simp
        from IHe [OF this] v Some x y yc show ?thesis
          by (simp only: parse_elements.simps option.case prod.case)
      qed
    qed
  qed
  moreover have "parse_members (Suc (Suc n)) s = parse_members (Suc n) s"
    if "2 * length s + 2 \<le> Suc n" for s
    using IHv IHm that by (rule parse_members_more)
  ultimately show ?case by blast
qed

theorem parse_value_fuel:
  assumes "2 * length s + 1 \<le> n"
  shows "parse_value n s = parse_value (2 * length s + 1) s"
  using assms
proof (induction n rule: nat_induct_at_least)
  case base
  show ?case by simp
next
  case (Suc n)
  then show ?case using parse_more_fuel [of n] by (metis add.commute)
qed

subsection \<open>Decoding\<close>

text \<open>Decoding an object into a Go map keeps the last of equal keys.\<close>

definition json_map :: "(string \<times> json) list \<Rightarrow> (string \<times> json) list" where
  "json_map ms = fold (\<lambda>(k, v). AList.update k v) ms []"

text \<open>Whether a key is present, by its exact name (\<open>map[string]json.RawMessage\<close>).\<close>

definition has_key :: "string \<Rightarrow> (string \<times> json) list \<Rightarrow> bool" where
  "has_key k ms \<longleftrightarrow> list_ex (\<lambda>(k', _). k' = k) ms"

text \<open>
  Decoding the members of an object into one struct field that held \<open>old\<close>: every member whose
  name matches is applied in turn, \<open>null\<close> changes nothing, a value of the wrong type makes
  \<open>Unmarshal\<close> fail (\<open>None\<close>).
\<close>

fun dec_field :: "(json \<Rightarrow> 'a option) \<Rightarrow> string \<Rightarrow> (string \<times> json) list \<Rightarrow> 'a \<Rightarrow> 'a option" where
  "dec_field f name [] old = Some old"
| "dec_field f name ((k, v) # ms) old =
     (if equal_fold k name \<and> v \<noteq> JNull
      then (case f v of None \<Rightarrow> None | Some x \<Rightarrow> dec_field f name ms x)
      else dec_field f name ms old)"

definition json_int :: "json \<Rightarrow> int option" where
  "json_int v = (case v of JInt n \<Rightarrow> if - (2 ^ 63) \<le> n \<and> n < 2 ^ 63 then Some n else None | _ \<Rightarrow> None)"

definition json_bool :: "json \<Rightarrow> bool option" where
  "json_bool v = (case v of JBool b \<Rightarrow> Some b | _ \<Rightarrow> None)"

definition json_string :: "json \<Rightarrow> string option" where
  "json_string v = (case v of JString s \<Rightarrow> Some s | _ \<Rightarrow> None)"

fun json_strings :: "json list \<Rightarrow> string list option" where
  "json_strings [] = Some []"
| "json_strings (v # vs) =
     (case (if v = JNull then Some [] else json_string v, json_strings vs) of
        (Some s, Some ss) \<Rightarrow> Some (s # ss)
      | _ \<Rightarrow> None)"

definition json_string_list :: "json \<Rightarrow> string list option" where
  "json_string_list v = (case v of JArray vs \<Rightarrow> json_strings vs | _ \<Rightarrow> None)"

lemma distinct_json_map: "distinct (map fst (json_map ms))"
proof -
  have "distinct (map fst acc) \<Longrightarrow> distinct (map fst (fold (\<lambda>(k, v). AList.update k v) ms acc))" for acc
    by (induction ms arbitrary: acc) (auto simp: distinct_update)
  then show ?thesis by (simp add: json_map_def)
qed

lemma dec_field_absent: "\<not> list_ex (\<lambda>(k, _). equal_fold k name) ms \<Longrightarrow> dec_field f name ms old = Some old"
  by (induction ms) auto

end
