(* ===== verification/Config.thy ===== *)
theory Config
  imports Go_Json "HOL-Library.Monad_Syntax"
begin

section \<open>Configuration (config.go)\<close>

text \<open>
  The settings record, its defaults, the range checks of \<open>validate\<close> and the migration of
  older files in \<open>loadOrCreateConfigUnlocked\<close>. Reading the file is an argument: the file
  is missing, unreadable, or holds bytes. Writing is an argument too (\<open>write_ok\<close>): whether
  \<open>writeJSONAtomic\<close> succeeds; the result names the record that was written, if one was.
\<close>

record Config =
  c_ConfigVersion :: int
  c_PollIntervalSeconds :: int
  c_InitialDelaySeconds :: int
  c_MaxDelaySeconds :: int
  c_DelayIncrementSeconds :: int
  c_DelayStrategy :: string
  c_MaxConsecutiveRetries :: int
  c_MaxRecoveryAttempts :: int
  c_MaxParallelRetries :: int
  c_StartAckTimeoutSeconds :: int
  c_AuthMaxAttempts :: int
  c_UnknownMaxAttempts :: int
  c_SessionRoots :: "string list"
  c_IncludeDefaultHome :: bool
  c_IncludeCockpitHomes :: bool
  c_PowerShellExecutable :: string
  c_SharedAppServerPort :: int
  c_SharedAppServerEnabled :: bool
  c_SharedAppServerRequested :: bool
  c_ControllerFailureLimit :: int
  c_MemoryLimitMB :: int
  c_SharedAppServerMemoryLimitMB :: int
  c_RetryPrompt :: string
  c_ShowNotifications :: bool

definition legacyRetryPrompt :: string where
  "legacyRetryPrompt = ''Continue the interrupted task from its current state. The previous turn ended because the model provider was temporarily unavailable. First inspect the existing conversation and workspace state, do not repeat completed side effects, then continue toward the user's latest request. Do not discuss the retry mechanism unless it affects the result.''"

text \<open>The two Chinese characters of the source, in UTF-8.\<close>

definition defaultRetryPrompt :: string where
  "defaultRetryPrompt = [CHR 0xE7, CHR 0xBB, CHR 0xA7, CHR 0xE7, CHR 0xBB, CHR 0xAD]"

definition maxRetryPromptRunes :: int where
  "maxRetryPromptRunes = 500"

definition maxConsecutiveRetriesLimit :: int where
  "maxConsecutiveRetriesLimit = 100"

definition maxRecoveryAttemptsLimit :: int where
  "maxRecoveryAttemptsLimit = 1000"

definition minMemoryLimitMB :: int where
  "minMemoryLimitMB = 128"

definition maxMemoryLimitMB :: int where
  "maxMemoryLimitMB = 65536"

definition minSharedServerMemoryLimitMB :: int where
  "minSharedServerMemoryLimitMB = 512"

definition maxSharedServerMemoryLimitMB :: int where
  "maxSharedServerMemoryLimitMB = 65536"

definition currentConfigVersion :: int where
  "currentConfigVersion = 11"

definition legacyDefaultSharedAppServerPort :: int where
  "legacyDefaultSharedAppServerPort = 49321"

definition defaultSharedAppServerPort :: int where
  "defaultSharedAppServerPort = 49621"

lemmas config_limits =
  maxRetryPromptRunes_def maxConsecutiveRetriesLimit_def maxRecoveryAttemptsLimit_def
  minMemoryLimitMB_def maxMemoryLimitMB_def minSharedServerMemoryLimitMB_def
  maxSharedServerMemoryLimitMB_def currentConfigVersion_def
  legacyDefaultSharedAppServerPort_def defaultSharedAppServerPort_def

definition delayStrategyExponential :: string where
  "delayStrategyExponential = ''exponential''"

definition delayStrategyLinear :: string where
  "delayStrategyLinear = ''linear''"

definition delayStrategyFixed :: string where
  "delayStrategyFixed = ''fixed''"

lemmas delay_strategies =
  delayStrategyExponential_def delayStrategyLinear_def delayStrategyFixed_def

definition defaultConfig :: Config where
  "defaultConfig =
     \<lparr>c_ConfigVersion = currentConfigVersion,
      c_PollIntervalSeconds = 2,
      c_InitialDelaySeconds = 5,
      c_MaxDelaySeconds = 300,
      c_DelayIncrementSeconds = 2,
      c_DelayStrategy = delayStrategyExponential,
      c_MaxConsecutiveRetries = 5,
      c_MaxRecoveryAttempts = 15,
      c_MaxParallelRetries = 4,
      c_StartAckTimeoutSeconds = 30,
      c_AuthMaxAttempts = 6,
      c_UnknownMaxAttempts = 3,
      c_SessionRoots = [],
      c_IncludeDefaultHome = True,
      c_IncludeCockpitHomes = True,
      c_PowerShellExecutable = [],
      c_SharedAppServerPort = defaultSharedAppServerPort,
      c_SharedAppServerEnabled = False,
      c_SharedAppServerRequested = False,
      c_ControllerFailureLimit = 3,
      c_MemoryLimitMB = 1024,
      c_SharedAppServerMemoryLimitMB = 4096,
      c_RetryPrompt = defaultRetryPrompt,
      c_ShowNotifications = True\<rparr>"

subsection \<open>Validation\<close>

text \<open>One constructor per error return of \<open>validate\<close>, in its order.\<close>

datatype config_fault =
    badConfigVersion
  | badPollInterval
  | badInitialDelay
  | badDelayIncrement
  | badDelayStrategy
  | badMaxDelay
  | badMaxConsecutive
  | badMaxRecovery
  | badMaxParallel
  | badStartAckTimeout
  | badClassAttempts
  | emptyRetryPrompt
  | longRetryPrompt
  | badPort
  | badControllerFailureLimit
  | badMemoryLimit
  | badSharedMemoryLimit

text \<open>\<open>utf8.RuneCountInString\<close> on valid UTF-8: the bytes that start a character.\<close>

definition rune_count :: "string \<Rightarrow> int" where
  "rune_count s = int (length (filter (\<lambda>c. byte c < 128 \<or> 192 \<le> byte c) s))"

definition validate :: "Config \<Rightarrow> config_fault option" where
  "validate c =
     (if c_ConfigVersion c \<noteq> currentConfigVersion then Some badConfigVersion
      else if c_PollIntervalSeconds c < 1 \<or> c_PollIntervalSeconds c > 60 then Some badPollInterval
      else if c_InitialDelaySeconds c < 1 \<or> c_InitialDelaySeconds c > 3600 then Some badInitialDelay
      else if c_DelayIncrementSeconds c < 1 \<or> c_DelayIncrementSeconds c > 3600 then Some badDelayIncrement
      else if c_DelayStrategy c \<noteq> delayStrategyExponential \<and> c_DelayStrategy c \<noteq> delayStrategyLinear
        \<and> c_DelayStrategy c \<noteq> delayStrategyFixed then Some badDelayStrategy
      else if c_MaxDelaySeconds c < 1 \<or> c_MaxDelaySeconds c > 86400 \<or>
        (c_DelayStrategy c \<noteq> delayStrategyFixed \<and> c_MaxDelaySeconds c < c_InitialDelaySeconds c)
        then Some badMaxDelay
      else if c_MaxConsecutiveRetries c < 1 \<or> c_MaxConsecutiveRetries c > maxConsecutiveRetriesLimit
        then Some badMaxConsecutive
      else if c_MaxRecoveryAttempts c < 1 \<or> c_MaxRecoveryAttempts c > maxRecoveryAttemptsLimit
        then Some badMaxRecovery
      else if c_MaxParallelRetries c < 1 \<or> c_MaxParallelRetries c > 16 then Some badMaxParallel
      else if c_StartAckTimeoutSeconds c < 10 \<or> c_StartAckTimeoutSeconds c > 300
        then Some badStartAckTimeout
      else if c_AuthMaxAttempts c < 1 \<or> c_AuthMaxAttempts c > maxRecoveryAttemptsLimit \<or>
        c_UnknownMaxAttempts c < 1 then Some badClassAttempts
      else if trim_space (c_RetryPrompt c) = [] then Some emptyRetryPrompt
      else if rune_count (c_RetryPrompt c) > maxRetryPromptRunes then Some longRetryPrompt
      else if c_SharedAppServerPort c < 1024 \<or> c_SharedAppServerPort c > 65535 then Some badPort
      else if c_ControllerFailureLimit c < 1 \<or> c_ControllerFailureLimit c > 20
        then Some badControllerFailureLimit
      else if c_MemoryLimitMB c < minMemoryLimitMB \<or> c_MemoryLimitMB c > maxMemoryLimitMB
        then Some badMemoryLimit
      else if c_SharedAppServerMemoryLimitMB c < minSharedServerMemoryLimitMB \<or>
        c_SharedAppServerMemoryLimitMB c > maxSharedServerMemoryLimitMB then Some badSharedMemoryLimit
      else None)"

abbreviation valid_config :: "Config \<Rightarrow> bool" where
  "valid_config c \<equiv> validate c = None"

text \<open>The facts about a valid configuration that the components rely on.\<close>

lemma valid_configD:
  assumes "valid_config c"
  shows "c_ConfigVersion c = 11"
    and "1 \<le> c_PollIntervalSeconds c" "c_PollIntervalSeconds c \<le> 60"
    and "1 \<le> c_InitialDelaySeconds c" "c_InitialDelaySeconds c \<le> 3600"
    and "1 \<le> c_DelayIncrementSeconds c" "c_DelayIncrementSeconds c \<le> 3600"
    and "c_DelayStrategy c \<in> {delayStrategyExponential, delayStrategyLinear, delayStrategyFixed}"
    and "1 \<le> c_MaxDelaySeconds c" "c_MaxDelaySeconds c \<le> 86400"
    and "c_DelayStrategy c \<noteq> delayStrategyFixed \<Longrightarrow> c_InitialDelaySeconds c \<le> c_MaxDelaySeconds c"
    and "1 \<le> c_MaxConsecutiveRetries c" "c_MaxConsecutiveRetries c \<le> 100"
    and "1 \<le> c_MaxRecoveryAttempts c" "c_MaxRecoveryAttempts c \<le> 1000"
    and "1 \<le> c_MaxParallelRetries c" "c_MaxParallelRetries c \<le> 16"
    and "10 \<le> c_StartAckTimeoutSeconds c" "c_StartAckTimeoutSeconds c \<le> 300"
    and "1 \<le> c_AuthMaxAttempts c" "c_AuthMaxAttempts c \<le> 1000"
    and "1 \<le> c_UnknownMaxAttempts c"
    and "1 \<le> c_ControllerFailureLimit c" "c_ControllerFailureLimit c \<le> 20"
    and "1024 \<le> c_SharedAppServerPort c" "c_SharedAppServerPort c \<le> 65535"
    and "128 \<le> c_MemoryLimitMB c" "512 \<le> c_SharedAppServerMemoryLimitMB c"
  using assms by (auto simp: validate_def config_limits not_less split: if_splits)

lemma defaultRetryPrompt_facts:
  "trim_space defaultRetryPrompt = defaultRetryPrompt" "rune_count defaultRetryPrompt = 2"
  by code_simp+

lemma default_config_valid: "valid_config defaultConfig"
  by (simp add: validate_def defaultConfig_def config_limits delay_strategies defaultRetryPrompt_facts)
    (simp add: defaultRetryPrompt_def)

definition recommendedMaxRecoveryAttempts :: int where
  "recommendedMaxRecoveryAttempts = 100"

definition recommendedMaxConsecutiveRetries :: int where
  "recommendedMaxConsecutiveRetries = 20"

text \<open>
  \<open>retrySafetyWarning\<close>: the numbers its message reports, \<open>None\<close> for the empty message.
\<close>

definition retrySafetyWarning :: "Config \<Rightarrow> (int \<times> int) option" where
  "retrySafetyWarning c =
     (if c_MaxRecoveryAttempts c > recommendedMaxRecoveryAttempts \<or>
         c_MaxConsecutiveRetries c > recommendedMaxConsecutiveRetries
      then Some (c_MaxRecoveryAttempts c, c_MaxConsecutiveRetries c) else None)"

subsection \<open>Loading\<close>

text \<open>\<open>json.Unmarshal(data, &cfg)\<close>: the members applied over the values \<open>c\<close> already holds.\<close>

definition decode_config :: "(string \<times> json) list \<Rightarrow> Config \<Rightarrow> Config option" where
  "decode_config ms c =
     do {
       x0 \<leftarrow> dec_field json_int ''config_version'' ms (c_ConfigVersion c);
       x1 \<leftarrow> dec_field json_int ''poll_interval_seconds'' ms (c_PollIntervalSeconds c);
       x2 \<leftarrow> dec_field json_int ''initial_delay_seconds'' ms (c_InitialDelaySeconds c);
       x3 \<leftarrow> dec_field json_int ''max_delay_seconds'' ms (c_MaxDelaySeconds c);
       x4 \<leftarrow> dec_field json_int ''delay_increment_seconds'' ms (c_DelayIncrementSeconds c);
       x5 \<leftarrow> dec_field json_string ''delay_strategy'' ms (c_DelayStrategy c);
       x6 \<leftarrow> dec_field json_int ''max_consecutive_retries'' ms (c_MaxConsecutiveRetries c);
       x7 \<leftarrow> dec_field json_int ''max_recovery_attempts'' ms (c_MaxRecoveryAttempts c);
       x8 \<leftarrow> dec_field json_int ''max_parallel_retries'' ms (c_MaxParallelRetries c);
       x9 \<leftarrow> dec_field json_int ''start_ack_timeout_seconds'' ms (c_StartAckTimeoutSeconds c);
       x10 \<leftarrow> dec_field json_int ''auth_max_attempts'' ms (c_AuthMaxAttempts c);
       x11 \<leftarrow> dec_field json_int ''unknown_max_attempts'' ms (c_UnknownMaxAttempts c);
       x12 \<leftarrow> dec_field json_string_list ''session_roots'' ms (c_SessionRoots c);
       x13 \<leftarrow> dec_field json_bool ''include_default_home'' ms (c_IncludeDefaultHome c);
       x14 \<leftarrow> dec_field json_bool ''include_cockpit_homes'' ms (c_IncludeCockpitHomes c);
       x15 \<leftarrow> dec_field json_string ''powershell_executable'' ms (c_PowerShellExecutable c);
       x16 \<leftarrow> dec_field json_int ''shared_app_server_port'' ms (c_SharedAppServerPort c);
       x17 \<leftarrow> dec_field json_bool ''shared_app_server_enabled'' ms (c_SharedAppServerEnabled c);
       x18 \<leftarrow> dec_field json_bool ''shared_app_server_requested'' ms (c_SharedAppServerRequested c);
       x19 \<leftarrow> dec_field json_int ''controller_failure_limit'' ms (c_ControllerFailureLimit c);
       x20 \<leftarrow> dec_field json_int ''memory_limit_mb'' ms (c_MemoryLimitMB c);
       x21 \<leftarrow> dec_field json_int ''shared_app_server_memory_limit_mb'' ms (c_SharedAppServerMemoryLimitMB c);
       x22 \<leftarrow> dec_field json_string ''retry_prompt'' ms (c_RetryPrompt c);
       x23 \<leftarrow> dec_field json_bool ''show_notifications'' ms (c_ShowNotifications c);
       Some
         \<lparr>c_ConfigVersion = x0,
          c_PollIntervalSeconds = x1,
          c_InitialDelaySeconds = x2,
          c_MaxDelaySeconds = x3,
          c_DelayIncrementSeconds = x4,
          c_DelayStrategy = x5,
          c_MaxConsecutiveRetries = x6,
          c_MaxRecoveryAttempts = x7,
          c_MaxParallelRetries = x8,
          c_StartAckTimeoutSeconds = x9,
          c_AuthMaxAttempts = x10,
          c_UnknownMaxAttempts = x11,
          c_SessionRoots = x12,
          c_IncludeDefaultHome = x13,
          c_IncludeCockpitHomes = x14,
          c_PowerShellExecutable = x15,
          c_SharedAppServerPort = x16,
          c_SharedAppServerEnabled = x17,
          c_SharedAppServerRequested = x18,
          c_ControllerFailureLimit = x19,
          c_MemoryLimitMB = x20,
          c_SharedAppServerMemoryLimitMB = x21,
          c_RetryPrompt = x22,
          c_ShowNotifications = x23\<rparr>
     }"

datatype file_read = FileMissing | FileUnreadable | FileBytes string

datatype config_error =
    configReadFailed
  | configParseFailed
  | configInvalid config_fault
  | configWriteFailed

text \<open>The last member with exactly this name, decoded as an integer; \<open>0\<close> if there is none.\<close>

definition raw_int :: "string \<Rightarrow> (string \<times> json) list \<Rightarrow> int" where
  "raw_int k ms =
     (case map_of (rev ms) k of
        None \<Rightarrow> 0
      | Some v \<Rightarrow> (case json_int v of None \<Rightarrow> 0 | Some n \<Rightarrow> n))"

text \<open>One \<open>if _, found := fields[name]; !found { ...; changed = true }\<close>.\<close>

definition default_field ::
  "(string \<times> json) list \<Rightarrow> string \<Rightarrow> (Config \<Rightarrow> Config) \<Rightarrow> Config \<times> bool \<Rightarrow> Config \<times> bool" where
  "default_field ms name f cc = (if has_key name ms then cc else (f (fst cc), True))"

definition migrate_version :: "(string \<times> json) list \<Rightarrow> Config \<Rightarrow> Config \<times> bool" where
  "migrate_version ms cfg =
     (if \<not> has_key ''config_version'' ms then
        (cfg\<lparr>c_ConfigVersion := currentConfigVersion,
             c_MaxParallelRetries := c_MaxParallelRetries defaultConfig\<rparr>, True)
      else if 1 \<le> c_ConfigVersion cfg \<and> c_ConfigVersion cfg < currentConfigVersion then
        (cfg\<lparr>c_ConfigVersion := currentConfigVersion\<rparr>, True)
      else (cfg, False))"

definition migrate_fields :: "(string \<times> json) list \<Rightarrow> Config \<times> bool \<Rightarrow> Config \<times> bool" where
  "migrate_fields ms cc =
     (if c_ConfigVersion (fst cc) \<noteq> currentConfigVersion then cc
      else
        (let legacyLimit = raw_int ''max_retry_attempts'' ms;
             cc = default_field ms ''shared_app_server_requested''
                    (\<lambda>c. c\<lparr>c_SharedAppServerRequested := c_SharedAppServerEnabled c\<rparr>) cc;
             cc = default_field ms ''max_consecutive_retries''
                    (\<lambda>c. c\<lparr>c_MaxConsecutiveRetries := c_MaxConsecutiveRetries defaultConfig\<rparr>) cc;
             cc = default_field ms ''max_recovery_attempts''
                    (\<lambda>c. c\<lparr>c_MaxRecoveryAttempts :=
                       (if legacyLimit > 0 then legacyLimit else c_MaxRecoveryAttempts defaultConfig)\<rparr>) cc;
             cc = default_field ms ''delay_strategy''
                    (\<lambda>c. c\<lparr>c_DelayStrategy := delayStrategyExponential\<rparr>) cc;
             cc = default_field ms ''delay_increment_seconds''
                    (\<lambda>c. c\<lparr>c_DelayIncrementSeconds := c_DelayIncrementSeconds defaultConfig\<rparr>) cc;
             cc = default_field ms ''shared_app_server_port''
                    (\<lambda>c. c\<lparr>c_SharedAppServerPort := c_SharedAppServerPort defaultConfig\<rparr>) cc;
             cc = default_field ms ''controller_failure_limit''
                    (\<lambda>c. c\<lparr>c_ControllerFailureLimit := c_ControllerFailureLimit defaultConfig\<rparr>) cc;
             cc = default_field ms ''shared_app_server_enabled''
                    (\<lambda>c. c\<lparr>c_SharedAppServerEnabled := c_SharedAppServerEnabled defaultConfig\<rparr>) cc;
             cc = default_field ms ''memory_limit_mb''
                    (\<lambda>c. c\<lparr>c_MemoryLimitMB := c_MemoryLimitMB defaultConfig\<rparr>) cc
         in default_field ms ''shared_app_server_memory_limit_mb''
              (\<lambda>c. c\<lparr>c_SharedAppServerMemoryLimitMB := c_SharedAppServerMemoryLimitMB defaultConfig\<rparr>) cc))"

definition migrate_port :: "int \<Rightarrow> Config \<times> bool \<Rightarrow> Config \<times> bool" where
  "migrate_port sourceConfigVersion cc =
     (if sourceConfigVersion < currentConfigVersion \<and> \<not> c_SharedAppServerEnabled (fst cc) \<and>
         c_SharedAppServerPort (fst cc) = legacyDefaultSharedAppServerPort
      then ((fst cc)\<lparr>c_SharedAppServerPort := defaultSharedAppServerPort\<rparr>, True) else cc)"

definition migrate_prompt :: "Config \<times> bool \<Rightarrow> Config \<times> bool" where
  "migrate_prompt cc =
     (if c_RetryPrompt (fst cc) = legacyRetryPrompt \<or> c_RetryPrompt (fst cc) = ''Continue.''
      then ((fst cc)\<lparr>c_RetryPrompt := defaultRetryPrompt\<rparr>, True) else cc)"

definition migrate_config :: "(string \<times> json) list \<Rightarrow> Config \<Rightarrow> Config \<times> bool" where
  "migrate_config ms cfg =
     migrate_prompt (migrate_port (raw_int ''config_version'' ms) (migrate_fields ms (migrate_version ms cfg)))"

text \<open>The members of the top-level object: \<open>null\<close> leaves the defaults and no fields.\<close>

definition top_members :: "json \<Rightarrow> (string \<times> json) list option" where
  "top_members v = (case v of JObject ms \<Rightarrow> Some ms | JNull \<Rightarrow> Some [] | _ \<Rightarrow> None)"

text \<open>
  What \<open>loadOrCreateConfigUnlocked\<close> does once the bytes are parsed: the configuration in use
  and, if the file was rewritten, its new contents.
\<close>

definition load_parsed_config ::
  "json option \<Rightarrow> bool \<Rightarrow> config_error + Config \<times> Config option" where
  "load_parsed_config parsed write_ok =
     (case Option.bind parsed top_members of
        None \<Rightarrow> Inl configParseFailed
      | Some ms \<Rightarrow>
          (case decode_config ms defaultConfig of
             None \<Rightarrow> Inl configParseFailed
           | Some decoded \<Rightarrow>
               (let (cfg, changed) = migrate_config ms decoded
                in case validate cfg of
                     Some fault \<Rightarrow> Inl (configInvalid fault)
                   | None \<Rightarrow>
                       if changed then
                         (if write_ok then Inr (cfg, Some cfg) else Inl configWriteFailed)
                       else Inr (cfg, None))))"

definition loadOrCreateConfigUnlocked ::
  "file_read \<Rightarrow> bool \<Rightarrow> config_error + Config \<times> Config option" where
  "loadOrCreateConfigUnlocked file write_ok =
     (case file of
        FileMissing \<Rightarrow>
          if write_ok then Inr (defaultConfig, Some defaultConfig) else Inl configWriteFailed
      | FileUnreadable \<Rightarrow> Inl configReadFailed
      | FileBytes bytes \<Rightarrow> load_parsed_config (parse_json bytes) write_ok)"

text \<open>
  \<open>updateConfigFile\<close> (config_lock.go), under the file lock: load, apply one mutation, check,
  write. \<open>write_ok\<close> answers the first and the second write.
\<close>

definition updateConfigFile ::
  "file_read \<Rightarrow> bool \<times> bool \<Rightarrow> (Config \<Rightarrow> config_error + Config) \<Rightarrow> config_error + Config" where
  "updateConfigFile file write_ok mutate =
     (case loadOrCreateConfigUnlocked file (fst write_ok) of
        Inl e \<Rightarrow> Inl e
      | Inr (loaded, _) \<Rightarrow>
          (case mutate loaded of
             Inl e \<Rightarrow> Inl e
           | Inr c \<Rightarrow>
               (case validate c of
                  Some fault \<Rightarrow> Inl (configInvalid fault)
                | None \<Rightarrow> if snd write_ok then Inr c else Inl configWriteFailed)))"

subsection \<open>What loading guarantees\<close>

text \<open>
  The object \<open>json.Marshal\<close> writes for a configuration: the struct's tags in order, the empty
  PowerShell path left out (\<open>omitempty\<close>, moved to the end here, which no reader notices).
\<close>

definition encode_config :: "Config \<Rightarrow> (string \<times> json) list" where
  "encode_config c =
     [(''config_version'', JInt (c_ConfigVersion c)),
      (''poll_interval_seconds'', JInt (c_PollIntervalSeconds c)),
      (''initial_delay_seconds'', JInt (c_InitialDelaySeconds c)),
      (''max_delay_seconds'', JInt (c_MaxDelaySeconds c)),
      (''delay_increment_seconds'', JInt (c_DelayIncrementSeconds c)),
      (''delay_strategy'', JString (c_DelayStrategy c)),
      (''max_consecutive_retries'', JInt (c_MaxConsecutiveRetries c)),
      (''max_recovery_attempts'', JInt (c_MaxRecoveryAttempts c)),
      (''max_parallel_retries'', JInt (c_MaxParallelRetries c)),
      (''start_ack_timeout_seconds'', JInt (c_StartAckTimeoutSeconds c)),
      (''auth_max_attempts'', JInt (c_AuthMaxAttempts c)),
      (''unknown_max_attempts'', JInt (c_UnknownMaxAttempts c)),
      (''session_roots'', JArray (map JString (c_SessionRoots c))),
      (''include_default_home'', JBool (c_IncludeDefaultHome c)),
      (''include_cockpit_homes'', JBool (c_IncludeCockpitHomes c)),
      (''shared_app_server_port'', JInt (c_SharedAppServerPort c)),
      (''shared_app_server_enabled'', JBool (c_SharedAppServerEnabled c)),
      (''shared_app_server_requested'', JBool (c_SharedAppServerRequested c)),
      (''controller_failure_limit'', JInt (c_ControllerFailureLimit c)),
      (''memory_limit_mb'', JInt (c_MemoryLimitMB c)),
      (''shared_app_server_memory_limit_mb'', JInt (c_SharedAppServerMemoryLimitMB c)),
      (''retry_prompt'', JString (c_RetryPrompt c)),
      (''show_notifications'', JBool (c_ShowNotifications c))] @
     (if c_PowerShellExecutable c = [] then []
      else [(''powershell_executable'', JString (c_PowerShellExecutable c))])"

definition config_keys :: "string list" where
  "config_keys = map fst (encode_config defaultConfig) @ [''powershell_executable'']"

lemma map_fst_encode:
  "map fst (encode_config c) =
   (if c_PowerShellExecutable c = [] then butlast config_keys else config_keys)"
  by (simp add: encode_config_def config_keys_def defaultConfig_def)

lemma distinct_config_keys: "distinct (map to_lower config_keys)"
  by code_simp

lemma distinct_encode_config: "distinct (map (to_lower \<circ> fst) (encode_config c))"
proof -
  have "map (to_lower \<circ> fst) (encode_config c) = map to_lower (map fst (encode_config c))"
    by simp
  also have "distinct \<dots>"
    unfolding map_fst_encode using distinct_config_keys distinct_butlast
    by (auto simp: map_butlast)
  finally show ?thesis .
qed

text \<open>With names distinct up to case, decoding a field finds its one member.\<close>

lemma dec_field_member:
  assumes "distinct (map (to_lower \<circ> fst) ms)" and "(k, v) \<in> set ms" and "v \<noteq> JNull" and "f v = Some x"
  shows "dec_field f k ms old = Some x"
  using assms(1,2)
proof (induction ms)
  case Nil
  then show ?case by simp
next
  case (Cons m ms)
  obtain k' v' where m: "m = (k', v')" by (cases m)
  show ?case
  proof (cases "to_lower k' = to_lower k")
    case True
    with Cons.prems m have here: "k' = k" "v' = v" "to_lower k \<notin> (to_lower \<circ> fst) ` set ms"
      by force+
    then have "\<not> list_ex (\<lambda>(j, _). equal_fold j k) ms"
      by (force simp: list_ex_iff equal_fold_def)
    with here m assms(3,4) show ?thesis
      by (simp add: dec_field_absent equal_fold_def)
  next
    case False
    with Cons m show ?thesis by (auto simp: equal_fold_def)
  qed
qed

lemmas dec_encode = dec_field_member [OF distinct_encode_config]

definition int64_config :: "Config \<Rightarrow> bool" where
  "int64_config c \<longleftrightarrow>
     (\<forall>n \<in> {c_ConfigVersion c, c_PollIntervalSeconds c, c_InitialDelaySeconds c, c_MaxDelaySeconds c,
        c_DelayIncrementSeconds c, c_MaxConsecutiveRetries c, c_MaxRecoveryAttempts c,
        c_MaxParallelRetries c, c_StartAckTimeoutSeconds c, c_AuthMaxAttempts c,
        c_UnknownMaxAttempts c, c_SharedAppServerPort c, c_ControllerFailureLimit c,
        c_MemoryLimitMB c, c_SharedAppServerMemoryLimitMB c}. - (2 ^ 63) \<le> n \<and> n < 2 ^ 63)"

lemma encode_config_members:
  "(''config_version'', JInt (c_ConfigVersion c)) \<in> set (encode_config c)"
  "(''poll_interval_seconds'', JInt (c_PollIntervalSeconds c)) \<in> set (encode_config c)"
  "(''initial_delay_seconds'', JInt (c_InitialDelaySeconds c)) \<in> set (encode_config c)"
  "(''max_delay_seconds'', JInt (c_MaxDelaySeconds c)) \<in> set (encode_config c)"
  "(''delay_increment_seconds'', JInt (c_DelayIncrementSeconds c)) \<in> set (encode_config c)"
  "(''delay_strategy'', JString (c_DelayStrategy c)) \<in> set (encode_config c)"
  "(''max_consecutive_retries'', JInt (c_MaxConsecutiveRetries c)) \<in> set (encode_config c)"
  "(''max_recovery_attempts'', JInt (c_MaxRecoveryAttempts c)) \<in> set (encode_config c)"
  "(''max_parallel_retries'', JInt (c_MaxParallelRetries c)) \<in> set (encode_config c)"
  "(''start_ack_timeout_seconds'', JInt (c_StartAckTimeoutSeconds c)) \<in> set (encode_config c)"
  "(''auth_max_attempts'', JInt (c_AuthMaxAttempts c)) \<in> set (encode_config c)"
  "(''unknown_max_attempts'', JInt (c_UnknownMaxAttempts c)) \<in> set (encode_config c)"
  "(''include_default_home'', JBool (c_IncludeDefaultHome c)) \<in> set (encode_config c)"
  "(''include_cockpit_homes'', JBool (c_IncludeCockpitHomes c)) \<in> set (encode_config c)"
  "(''shared_app_server_port'', JInt (c_SharedAppServerPort c)) \<in> set (encode_config c)"
  "(''shared_app_server_enabled'', JBool (c_SharedAppServerEnabled c)) \<in> set (encode_config c)"
  "(''shared_app_server_requested'', JBool (c_SharedAppServerRequested c)) \<in> set (encode_config c)"
  "(''controller_failure_limit'', JInt (c_ControllerFailureLimit c)) \<in> set (encode_config c)"
  "(''memory_limit_mb'', JInt (c_MemoryLimitMB c)) \<in> set (encode_config c)"
  "(''shared_app_server_memory_limit_mb'', JInt (c_SharedAppServerMemoryLimitMB c)) \<in> set (encode_config c)"
  "(''retry_prompt'', JString (c_RetryPrompt c)) \<in> set (encode_config c)"
  "(''show_notifications'', JBool (c_ShowNotifications c)) \<in> set (encode_config c)"
  "(''session_roots'', JArray (map JString (c_SessionRoots c))) \<in> set (encode_config c)"
  by (simp_all add: encode_config_def)

lemma json_strings_JString: "json_strings (map JString ss) = Some ss"
  by (induction ss) (auto simp: json_string_def)

lemma dec_encode_int:
  "(k, JInt n) \<in> set (encode_config c) \<Longrightarrow> - (2 ^ 63) \<le> n \<Longrightarrow> n < 2 ^ 63 \<Longrightarrow>
   dec_field json_int k (encode_config c) old = Some n"
  by (rule dec_encode) (auto simp: json_int_def)

lemma dec_encode_bool:
  "(k, JBool b) \<in> set (encode_config c) \<Longrightarrow> dec_field json_bool k (encode_config c) old = Some b"
  by (rule dec_encode) (auto simp: json_bool_def)

lemma dec_encode_string:
  "(k, JString t) \<in> set (encode_config c) \<Longrightarrow> dec_field json_string k (encode_config c) old = Some t"
  by (rule dec_encode) (auto simp: json_string_def)

lemma dec_encode_string_list:
  "(k, JArray (map JString ts)) \<in> set (encode_config c) \<Longrightarrow>
   dec_field json_string_list k (encode_config c) old = Some ts"
  by (rule dec_encode) (auto simp: json_string_list_def json_strings_JString)

lemma dec_encode_powershell:
  "dec_field json_string ''powershell_executable'' (encode_config c) [] = Some (c_PowerShellExecutable c)"
proof (cases "c_PowerShellExecutable c = []")
  case True
  have "to_lower ''powershell_executable'' \<notin> to_lower ` set (butlast config_keys)"
    by code_simp
  moreover have "map fst (encode_config c) = butlast config_keys"
    using map_fst_encode [of c] True by simp
  ultimately have no: "to_lower ''powershell_executable'' \<notin> to_lower ` fst ` set (encode_config c)"
    by (metis list.set_map)
  have "\<not> list_ex (\<lambda>(k, _). equal_fold k ''powershell_executable'') (encode_config c)"
  proof
    assume "list_ex (\<lambda>(k, _). equal_fold k ''powershell_executable'') (encode_config c)"
    then obtain k v where "(k, v) \<in> set (encode_config c)" "equal_fold k ''powershell_executable''"
      unfolding list_ex_iff by blast
    with no show False unfolding equal_fold_def by (metis fst_conv image_eqI)
  qed
  then show ?thesis unfolding True by (rule dec_field_absent)
next
  case False
  then show ?thesis by (intro dec_encode_string) (simp add: encode_config_def)
qed

lemmas dec_encode_ints =
  encode_config_members(1-5,7-12,15,18-20) [THEN dec_encode_int]

lemmas dec_encode_bools =
  encode_config_members(13,14,16,17,22) [THEN dec_encode_bool]

lemmas dec_encode_strings =
  encode_config_members(6,21) [THEN dec_encode_string]

lemmas dec_encode_roots =
  encode_config_members(23) [THEN dec_encode_string_list]

text \<open>Decoding what was encoded gives the configuration back.\<close>

lemma decode_encode_config:
  "int64_config c \<Longrightarrow> c_PowerShellExecutable d = [] \<Longrightarrow> decode_config (encode_config c) d = Some c"
  by (simp add: decode_config_def int64_config_def dec_encode_powershell dec_encode_roots
      dec_encode_ints dec_encode_bools dec_encode_strings)

text \<open>
  A file that holds every key and the current version needs no migration step, unless its
  prompt is one of the two legacy prompts.
\<close>

lemma has_key_iff: "has_key k ms \<longleftrightarrow> k \<in> set (map fst ms)"
  by (induction ms) (auto simp: has_key_def)

lemma has_key_encode: "k \<in> set (butlast config_keys) \<Longrightarrow> has_key k (encode_config c)"
  unfolding has_key_iff map_fst_encode by (auto dest: in_set_butlastD)

lemma migrated_keys:
  "list_all (\<lambda>k. k \<in> set (butlast config_keys))
     [''config_version'', ''shared_app_server_requested'', ''max_consecutive_retries'',
      ''max_recovery_attempts'', ''delay_strategy'', ''delay_increment_seconds'',
      ''shared_app_server_port'', ''controller_failure_limit'', ''shared_app_server_enabled'',
      ''memory_limit_mb'', ''shared_app_server_memory_limit_mb'']"
  by code_simp

lemma raw_int_encode_version:
  assumes "c_ConfigVersion c = currentConfigVersion"
  shows "raw_int ''config_version'' (encode_config c) = currentConfigVersion"
proof -
  have "distinct (map fst (encode_config c))"
    using distinct_encode_config [of c] by (metis distinct_map map_map)
  then have "map_of (rev (encode_config c)) ''config_version'' = Some (JInt (c_ConfigVersion c))"
    using encode_config_members(1) [of c] by (simp add: distinct_map rev_map)
  with assms show ?thesis
    by (simp add: raw_int_def json_int_def currentConfigVersion_def)
qed

lemma migrate_encoded:
  assumes "c_ConfigVersion c = currentConfigVersion"
    and "c_RetryPrompt c \<noteq> legacyRetryPrompt" "c_RetryPrompt c \<noteq> ''Continue.''"
  shows "migrate_config (encode_config c) c = (c, False)"
  using assms migrated_keys
  by (simp add: migrate_config_def migrate_version_def migrate_fields_def migrate_port_def
      migrate_prompt_def default_field_def has_key_encode raw_int_encode_version Let_def)

lemma migrate_prompt_result:
  "c_RetryPrompt (fst (migrate_prompt cc)) \<noteq> legacyRetryPrompt \<and>
   c_RetryPrompt (fst (migrate_prompt cc)) \<noteq> ''Continue.''"
proof -
  have "defaultRetryPrompt \<noteq> legacyRetryPrompt" "defaultRetryPrompt \<noteq> ''Continue.''"
    by code_simp+
  then show ?thesis by (simp add: migrate_prompt_def)
qed

text \<open>A configuration that loading leaves as it is.\<close>

definition stable_config :: "Config \<Rightarrow> bool" where
  "stable_config c \<longleftrightarrow> valid_config c \<and> c_UnknownMaxAttempts c < 2 ^ 63 \<and>
     c_RetryPrompt c \<noteq> legacyRetryPrompt \<and> c_RetryPrompt c \<noteq> ''Continue.''"

lemma encoded_config_decodes:
  assumes "valid_config c" and "c_UnknownMaxAttempts c < 2 ^ 63"
  shows "decode_config (encode_config c) defaultConfig = Some c"
proof -
  note v = valid_configD [OF assms(1)]
  have "int64_config c"
    using v assms by (auto simp: int64_config_def validate_def config_limits split: if_splits)
  then show ?thesis by (rule decode_encode_config) (simp add: defaultConfig_def)
qed

lemma encoded_config_reloads:
  assumes "stable_config c"
  shows "load_parsed_config (Some (JObject (encode_config c))) write_ok = Inr (c, None)"
proof -
  have c: "valid_config c" "c_UnknownMaxAttempts c < 2 ^ 63"
    "c_RetryPrompt c \<noteq> legacyRetryPrompt" "c_RetryPrompt c \<noteq> ''Continue.''"
    using assms by (simp_all add: stable_config_def)
  have "migrate_config (encode_config c) c = (c, False)"
    using valid_configD(1) [OF c(1)] c(3,4) by (intro migrate_encoded) (simp_all add: currentConfigVersion_def)
  with encoded_config_decodes [OF c(1,2)] c(1) show ?thesis
    by (simp add: load_parsed_config_def top_members_def)
qed

lemma dec_int_below: "dec_field json_int k ms old = Some n \<Longrightarrow> old < 2 ^ 63 \<Longrightarrow> n < 2 ^ 63"
  by (induction ms arbitrary: old) (auto simp: json_int_def split: if_splits json.splits)

lemma bind_SomeE: "Option.bind m f = Some y \<Longrightarrow> (\<And>x. m = Some x \<Longrightarrow> f x = Some y \<Longrightarrow> P) \<Longrightarrow> P"
  by (cases m) auto

lemma decoded_unknown_below:
  "decode_config ms c = Some c' \<Longrightarrow> c_UnknownMaxAttempts c < 2 ^ 63 \<Longrightarrow> c_UnknownMaxAttempts c' < 2 ^ 63"
  unfolding decode_config_def
  apply (elim bind_SomeE)
  apply (drule iffD1 [OF option.inject])
  apply hypsubst
  apply (simp only: Config.select_convs)
  apply (erule dec_int_below)
  apply assumption
  done

lemma default_field_keeps:
  "(\<And>c. c_UnknownMaxAttempts (f c) = c_UnknownMaxAttempts c) \<Longrightarrow>
   c_UnknownMaxAttempts (fst (default_field ms name f cc)) = c_UnknownMaxAttempts (fst cc)"
  by (simp add: default_field_def)

lemma migrate_fields_keeps: "c_UnknownMaxAttempts (fst (migrate_fields ms cc)) = c_UnknownMaxAttempts (fst cc)"
  by (simp add: migrate_fields_def Let_def default_field_keeps)

lemma migrate_keeps_unknown:
  "migrate_config ms c = (c', changed) \<Longrightarrow> c_UnknownMaxAttempts c' = c_UnknownMaxAttempts c"
proof -
  assume "migrate_config ms c = (c', changed)"
  then have "c' = fst (migrate_config ms c)" by simp
  moreover have "c_UnknownMaxAttempts (fst (migrate_prompt cc)) = c_UnknownMaxAttempts (fst cc)"
    "c_UnknownMaxAttempts (fst (migrate_port v cc)) = c_UnknownMaxAttempts (fst cc)"
    "c_UnknownMaxAttempts (fst (migrate_version ms c)) = c_UnknownMaxAttempts c" for v cc
    by (simp_all add: migrate_prompt_def migrate_port_def migrate_version_def)
  ultimately show ?thesis by (simp add: migrate_config_def migrate_fields_keeps)
qed

lemma loaded_config_stable:
  assumes "loadOrCreateConfigUnlocked fr write_ok = Inr (c, written)"
  shows "stable_config c \<and> written \<in> {None, Some c} \<and> (fr = FileMissing \<longrightarrow> c = defaultConfig)"
proof (cases fr)
  case FileMissing
  with assms have "c = defaultConfig" "written = Some defaultConfig"
    by (simp_all add: loadOrCreateConfigUnlocked_def split: if_splits)
  moreover have "c_RetryPrompt defaultConfig \<noteq> legacyRetryPrompt" "c_RetryPrompt defaultConfig \<noteq> ''Continue.''"
    "c_UnknownMaxAttempts defaultConfig < 2 ^ 63"
    by code_simp+
  ultimately show ?thesis using default_config_valid by (simp add: stable_config_def)
next
  case FileUnreadable
  with assms show ?thesis by (simp add: loadOrCreateConfigUnlocked_def)
next
  case (FileBytes bytes)
  with assms obtain ms decoded changed where load:
    "decode_config ms defaultConfig = Some decoded" "migrate_config ms decoded = (c, changed)"
    "valid_config c" "written \<in> {None, Some c}"
    by (auto simp: loadOrCreateConfigUnlocked_def load_parsed_config_def Let_def
        split: option.splits prod.splits if_splits)
  moreover have "c_RetryPrompt c \<noteq> legacyRetryPrompt \<and> c_RetryPrompt c \<noteq> ''Continue.''"
    using migrate_prompt_result load(2) by (metis fst_conv migrate_config_def)
  moreover have "c_UnknownMaxAttempts c < 2 ^ 63"
    using migrate_keeps_unknown [OF load(2)] decoded_unknown_below [OF load(1)] by (simp add: defaultConfig_def)
  ultimately show ?thesis using FileBytes by (simp add: stable_config_def)
qed

text \<open>
  What loading returns passes \<open>validate\<close>, carries no legacy prompt, and is what the file
  holds afterwards whenever a file was written.
\<close>

theorem load_config_sound:
  assumes "loadOrCreateConfigUnlocked fr write_ok = Inr (c, written)"
  shows "valid_config c \<and> c_RetryPrompt c \<noteq> legacyRetryPrompt \<and> written \<in> {None, Some c} \<and>
    (fr = FileMissing \<longrightarrow> c = defaultConfig)"
  using loaded_config_stable [OF assms] by (simp add: stable_config_def)

theorem load_config_sound_witness:
  "loadOrCreateConfigUnlocked FileMissing True = Inr (defaultConfig, Some defaultConfig) \<and>
   valid_config defaultConfig"
proof -
  have load: "loadOrCreateConfigUnlocked FileMissing True = Inr (defaultConfig, Some defaultConfig)"
    by (simp add: loadOrCreateConfigUnlocked_def)
  from load_config_sound [OF this] load show ?thesis by simp
qed

text \<open>
  A configuration that was written is read back unchanged and without a further write
  (the migration is idempotent), for every valid configuration without a legacy prompt.
\<close>

theorem saved_config_reloads:
  assumes "valid_config c" and "c_UnknownMaxAttempts c < 2 ^ 63"
    and "c_RetryPrompt c \<noteq> legacyRetryPrompt" and "c_RetryPrompt c \<noteq> ''Continue.''"
  shows "load_parsed_config (Some (JObject (encode_config c))) write_ok = Inr (c, None)"
  using encoded_config_reloads assms by (simp add: stable_config_def)

definition sample_config :: Config where
  "sample_config = defaultConfig\<lparr>c_RetryPrompt := ''go on''\<rparr>"

theorem saved_config_reloads_witness:
  "load_parsed_config (Some (JObject (encode_config sample_config))) False = Inr (sample_config, None)"
proof (rule saved_config_reloads)
  show "valid_config sample_config" by code_simp
  show "c_UnknownMaxAttempts sample_config < 2 ^ 63" by code_simp
  show "c_RetryPrompt sample_config \<noteq> legacyRetryPrompt" by code_simp
  show "c_RetryPrompt sample_config \<noteq> ''Continue.''" by code_simp
qed

end
