(* ===== verification/Thread_Id.thy ===== *)
theory Thread_Id
  imports Prelude
begin

section \<open>Thread identifiers in file names (scanner.go)\<close>

text \<open>
  The two regular expressions of \<open>scanner.go\<close> over the base name of a rollout path:
  \<open><uuid>[_<uuid>].jsonl\<close> at the end of the name, letters in either case. Both are anchored
  at the end and made of pieces of fixed length, so a match is a suffix of the name of one of
  two shapes, and the leftmost match is the first suffix, from the left, that has one.
  \<open>filepath.Base\<close> is the one for Windows paths with a drive letter: the part after the last
  separator, trailing separators dropped; the shorter names of a bare UNC share are left out.
\<close>

definition is_sep :: "char \<Rightarrow> bool" where
  "is_sep c \<longleftrightarrow> c = CHR ''/'' \<or> byte c = 92"

definition filepath_Base :: "string \<Rightarrow> string" where
  "filepath_Base path =
     (let p = (case path of a # b # rest \<Rightarrow> if b = CHR '':'' then rest else path | _ \<Rightarrow> path);
          q = rev (dropWhile is_sep (rev p));
          b = rev (takeWhile (\<lambda>c. \<not> is_sep c) (rev q))
      in if path = [] then ''.'' else if b = [] then [char_of (92::nat)] else b)"

definition hex_ci :: "char \<Rightarrow> bool" where
  "hex_ci c \<longleftrightarrow> is_hex (lower_char c)"

definition uuid_dashes :: "nat set" where
  "uuid_dashes = {8, 13, 18, 23}"

definition is_uuid :: "string \<Rightarrow> bool" where
  "is_uuid s \<longleftrightarrow> length s = 36 \<and>
     list_all (\<lambda>(i, c). if i \<in> uuid_dashes then c = CHR ''-'' else hex_ci c) (zip [0..<36] s)"

definition jsonl_suffix :: "string \<Rightarrow> bool" where
  "jsonl_suffix s \<longleftrightarrow> to_lower s = ''.jsonl''"

text \<open>\<open>_<uuid>.jsonl\<close>: the turn part of a name, if it has one.\<close>

definition turn_suffix :: "string \<Rightarrow> string option" where
  "turn_suffix s =
     (case s of
        c # rest \<Rightarrow>
          if c = CHR ''_'' \<and> is_uuid (take 36 rest) \<and> jsonl_suffix (drop 36 rest)
          then Some (take 36 rest) else None
      | [] \<Rightarrow> None)"

fun thread_match :: "string \<Rightarrow> string option" where
  "thread_match [] = None"
| "thread_match (c # cs) =
     (let s = c # cs; rest = drop 36 s
      in if is_uuid (take 36 s) \<and> (turn_suffix rest \<noteq> None \<or> jsonl_suffix rest)
         then Some (take 36 s) else thread_match cs)"

fun rollout_match :: "string \<Rightarrow> (string \<times> string) option" where
  "rollout_match [] = None"
| "rollout_match (c # cs) =
     (let s = c # cs; rest = drop 36 s
      in case turn_suffix rest of
           Some turn \<Rightarrow> if is_uuid (take 36 s) then Some (take 36 s, turn) else rollout_match cs
         | None \<Rightarrow> rollout_match cs)"

definition threadIDFromPath :: "string \<Rightarrow> string" where
  "threadIDFromPath path =
     (case thread_match (filepath_Base path) of None \<Rightarrow> [] | Some m \<Rightarrow> to_lower m)"

definition rolloutIDsFromPath :: "string \<Rightarrow> string \<times> string" where
  "rolloutIDsFromPath path =
     (case rollout_match (filepath_Base path) of
        None \<Rightarrow> ([], []) | Some (a, b) \<Rightarrow> (to_lower a, to_lower b))"

subsection \<open>Properties\<close>

lemma hex_ci_lower [simp]: "hex_ci (lower_char c) = hex_ci c"
  by (simp add: hex_ci_def)

lemma lower_dash [simp]: "lower_char CHR ''-'' = CHR ''-''"
  by (simp add: lower_char_def byte_def)

lemma is_uuid_lower: "is_uuid s \<Longrightarrow> is_uuid (to_lower s)"
  by (auto simp: is_uuid_def to_lower_def list_all_iff zip_map2 split: if_splits)

lemma hex_ci_range: "hex_ci c \<Longrightarrow> 48 \<le> byte c \<and> byte c \<le> 102"
  by (auto simp: hex_ci_def is_hex_def is_digit_def lower_char_def byte_char_of split: if_splits)

lemma uuid_char: "is_uuid s \<Longrightarrow> c \<in> set s \<Longrightarrow> hex_ci c \<or> c = CHR ''-''"
proof -
  assume u: "is_uuid s" and c: "c \<in> set s"
  from c obtain i where i: "i < length s" "s ! i = c" by (auto simp: in_set_conv_nth)
  with u have "(i, c) \<in> set (zip [0..<36] s)"
    by (auto simp: is_uuid_def in_set_zip intro!: exI [of _ i])
  with u show ?thesis by (auto simp: is_uuid_def list_all_iff split: if_splits)
qed

lemma uuid_no_sep: "is_uuid s \<Longrightarrow> c \<in> set s \<Longrightarrow> \<not> is_sep c"
proof
  assume "is_uuid s" "c \<in> set s" "is_sep c"
  with uuid_char [of s c] have "hex_ci c \<or> c = CHR ''-''" by simp
  with \<open>is_sep c\<close> show False
    by (auto simp: is_sep_def hex_ci_def is_hex_def is_digit_def lower_char_def byte_def split: if_splits)
qed

lemma thread_match_uuid: "thread_match s = Some m \<Longrightarrow> is_uuid m"
  by (induction s) (auto simp: Let_def split: if_splits)

lemma rollout_match_uuids: "rollout_match s = Some (a, b) \<Longrightarrow> is_uuid a \<and> is_uuid b"
  by (induction s) (auto simp: Let_def turn_suffix_def split: option.splits if_splits list.splits)

lemma rollout_match_thread: "rollout_match s = Some (a, b) \<Longrightarrow> thread_match s \<noteq> None"
  by (induction s) (auto simp: Let_def split: option.splits if_splits)

lemma threadID_lower: "to_lower (threadIDFromPath p) = threadIDFromPath p"
  by (simp add: threadIDFromPath_def split: option.split)

lemma threadID_uuid: "threadIDFromPath p \<noteq> [] \<Longrightarrow> is_uuid (threadIDFromPath p)"
  by (auto simp: threadIDFromPath_def dest: thread_match_uuid intro: is_uuid_lower split: option.splits)

lemma jsonl_suffix_length: "jsonl_suffix r \<Longrightarrow> length r = 6"
  unfolding jsonl_suffix_def by (drule arg_cong [where f = length]) simp

lemma turn_suffix_length: "turn_suffix r \<noteq> None \<Longrightarrow> length r = 43"
  by (auto simp: turn_suffix_def is_uuid_def dest: jsonl_suffix_length split: list.splits if_splits)

lemma uuid_nonempty: "is_uuid t \<Longrightarrow> t \<noteq> []"
  by (auto simp: is_uuid_def)

lemma take_uuid: "is_uuid t \<Longrightarrow> take 36 (t @ r) = t \<and> drop 36 (t @ r) = r"
  by (simp add: is_uuid_def)

lemma jsonl_suffix_jsonl [simp]: "jsonl_suffix ''.jsonl''"
  by code_simp

lemma turn_suffix_of [simp]: "is_uuid u \<Longrightarrow> turn_suffix (CHR ''_'' # u @ ''.jsonl'') = Some u"
  using take_uuid [of u] by (simp add: turn_suffix_def)

lemma match_here:
  assumes "is_uuid t"
  shows "jsonl_suffix r \<or> turn_suffix r \<noteq> None \<Longrightarrow> thread_match (t @ r) = Some t"
    and "turn_suffix r = Some u \<Longrightarrow> rollout_match (t @ r) = Some (t, u)"
proof -
  obtain c cs where t: "t = c # cs" using uuid_nonempty [OF assms] by (cases t) auto
  note uuid = assms take_uuid [OF assms]
  show "thread_match (t @ r) = Some t" if "jsonl_suffix r \<or> turn_suffix r \<noteq> None"
    using uuid that thread_match.simps(2) [of c "cs @ r"] by (auto simp: Let_def t)
  show "rollout_match (t @ r) = Some (t, u)" if "turn_suffix r = Some u"
    using uuid that rollout_match.simps(2) [of c "cs @ r"] by (auto simp: Let_def t)
qed

lemma base_of_path:
  assumes "is_sep sep" and "dir \<noteq> []" and "name \<noteq> []" and "\<forall>c\<in>set name. \<not> is_sep c"
  shows "filepath_Base (dir @ sep # name) = name"
proof -
  have colon: "sep \<noteq> CHR '':''" using assms(1) by (auto simp: is_sep_def byte_def)
  obtain d where d: "(case dir @ sep # name of a # b # rest \<Rightarrow>
      if b = CHR '':'' then rest else dir @ sep # name | _ \<Rightarrow> dir @ sep # name) = d @ sep # name"
  proof (cases dir)
    case (Cons a as)
    show ?thesis
    proof (cases as)
      case Nil
      then show ?thesis using Cons colon that [of "[a]"] by simp
    next
      case (Cons b bs)
      then show ?thesis using \<open>dir = a # as\<close> that [of "if b = CHR '':'' then bs else dir"] by simp
    qed
  qed (use assms(2) in simp)
  have "dropWhile is_sep (rev name @ sep # rev d) = rev name @ sep # rev d"
    using assms(3,4) by (intro dropWhile_id) (cases "rev name"; auto)
  moreover have "takeWhile (\<lambda>c. \<not> is_sep c) (rev name @ sep # rev d) = rev name"
    using assms(1,4) by (subst takeWhile_append2) auto
  ultimately show ?thesis
    using assms(3) unfolding filepath_Base_def Let_def d by simp
qed

lemma thread_match_skip:
  "length s \<notin> {42, 79} \<Longrightarrow> thread_match (c # cs) = thread_match cs" if "s = c # cs"
  using that turn_suffix_length [of "drop 36 s"] jsonl_suffix_length [of "drop 36 s"]
  by (auto simp: Let_def is_uuid_def)

lemma rollout_match_skip:
  "length s \<noteq> 79 \<Longrightarrow> rollout_match (c # cs) = rollout_match cs" if "s = c # cs"
  using that turn_suffix_length [of "drop 36 s"]
  by (auto simp: Let_def is_uuid_def split: option.splits)

lemma thread_match_front:
  "\<forall>n \<le> length pre. 0 < n \<longrightarrow> n + length s \<notin> {42, 79} \<Longrightarrow> thread_match (pre @ s) = thread_match s"
proof (induction pre)
  case (Cons c pre)
  then have "length (c # pre @ s) \<notin> {42, 79}" by auto
  with thread_match_skip [OF refl this] Cons show ?case by simp
qed simp

lemma rollout_match_front:
  "79 \<le> length s \<Longrightarrow> rollout_match (pre @ s) = rollout_match s"
proof (induction pre)
  case (Cons c pre)
  then have "length (c # pre @ s) \<noteq> 79" by auto
  with rollout_match_skip [OF refl this] Cons show ?case by simp
qed simp

text \<open>The names Codex gives: the thread, or the thread and the turn.\<close>

lemma no_sep_jsonl: "c \<in> set ''_.jsonl'' \<Longrightarrow> \<not> is_sep c"
  by (auto simp: is_sep_def byte_def)

lemma thread_of_rollout:
  assumes "is_uuid t" and "is_sep sep" and "dir \<noteq> []" and "length pre < 37" and "\<forall>c\<in>set pre. \<not> is_sep c"
  shows "threadIDFromPath (dir @ sep # pre @ t @ ''.jsonl'') = to_lower t"
proof -
  have "thread_match (pre @ t @ ''.jsonl'') = Some t"
    using match_here(1) [OF assms(1), of "''.jsonl''"] assms(1,4)
    by (subst thread_match_front) (auto simp: is_uuid_def)
  moreover have "filepath_Base (dir @ sep # pre @ t @ ''.jsonl'') = pre @ t @ ''.jsonl''"
    using assms uuid_no_sep no_sep_jsonl uuid_nonempty by (intro base_of_path) auto
  ultimately show ?thesis by (simp add: threadIDFromPath_def)
qed

lemma thread_of_turn_rollout:
  assumes "is_uuid t" and "is_uuid u" and "is_sep sep" and "dir \<noteq> []" and "length pre < 37"
    and "\<forall>c\<in>set pre. \<not> is_sep c"
  shows "threadIDFromPath (dir @ sep # pre @ t @ CHR ''_'' # u @ ''.jsonl'') = to_lower t \<and>
    rolloutIDsFromPath (dir @ sep # pre @ t @ CHR ''_'' # u @ ''.jsonl'') = (to_lower t, to_lower u)"
proof -
  have len: "length t = 36" "length u = 36" using assms(1,2) by (simp_all add: is_uuid_def)
  have "thread_match (pre @ t @ CHR ''_'' # u @ ''.jsonl'') = Some t"
    using match_here(1) [OF assms(1), of "CHR ''_'' # u @ ''.jsonl''"] assms(2) len
    by (subst thread_match_front) auto
  moreover have "rollout_match (pre @ t @ CHR ''_'' # u @ ''.jsonl'') = Some (t, u)"
    using match_here(2) [OF assms(1), of "CHR ''_'' # u @ ''.jsonl''"] assms(2) len
    by (subst rollout_match_front) auto
  moreover have "filepath_Base (dir @ sep # pre @ t @ CHR ''_'' # u @ ''.jsonl'') = pre @ t @ CHR ''_'' # u @ ''.jsonl''"
    using assms uuid_no_sep no_sep_jsonl uuid_nonempty by (intro base_of_path) auto
  ultimately show ?thesis by (simp add: threadIDFromPath_def rolloutIDsFromPath_def)
qed

text \<open>A UUID in lower case.\<close>

definition plain_uuid :: "string \<Rightarrow> bool" where
  "plain_uuid s \<longleftrightarrow> is_uuid s \<and> to_lower s = s"

lemma uuid_no_space: "is_uuid s \<Longrightarrow> c \<in> set s \<Longrightarrow> \<not> is_space c"
  using uuid_char [of s c] hex_ci_range [of c] by (auto simp: is_space_def byte_def)

lemma trim_no_space:
  assumes "\<And>c. c \<in> set s \<Longrightarrow> \<not> is_space c"
  shows "trim_space s = s"
proof -
  have "dropWhile is_space xs = xs" if "set xs \<subseteq> set s" for xs
    using that assms by (cases xs) auto
  then show ?thesis by (simp add: trim_space_def)
qed

lemma plain_uuid_clean: "plain_uuid s \<Longrightarrow> to_lower (trim_space s) = s"
  unfolding plain_uuid_def using trim_no_space uuid_no_space by auto

lemma base_of_uuid:
  assumes "is_uuid t"
  shows "filepath_Base (t @ ''.jsonl'') = t @ ''.jsonl''"
proof -
  obtain a b rest where t: "t = a # b # rest"
    using assms by (cases t; cases "tl t") (auto simp: is_uuid_def)
  have "b \<noteq> CHR '':''"
    using uuid_char [OF assms, of b] t
    by (auto simp: hex_ci_def is_hex_def is_digit_def lower_char_def byte_def split: if_splits)
  moreover have "\<not> is_sep c" if "c \<in> set (t @ ''.jsonl'')" for c
    using that uuid_no_sep [OF assms] by (auto simp: is_sep_def byte_def)
  ultimately show ?thesis
    by (simp add: filepath_Base_def t dropWhile_id)
qed

lemma threadIDFromPath_uuid: "is_uuid t \<Longrightarrow> threadIDFromPath (t @ ''.jsonl'') = to_lower t"
  by (simp add: threadIDFromPath_def base_of_uuid match_here(1))

end
