(* ===== verification/Runner.thy ===== *)
theory Runner
  imports Model Config Thread_Id
begin

section \<open>Dispatch results, controller errors and retry delays (runner.go)\<close>

text \<open>
  What the daemon relies on when a recovery job returns: the checks on a \<open>DispatchResult\<close>,
  the mapping from a Go error to a short reason code, the two lists of reasons of
  \<open>daemon.go\<close>, and the delay before the next attempt. An error value is its chain of wrapped
  errors: a package-level sentinel, a \<open>controllerReasonError\<close>, an error reply of the app server
  (which unwraps to \<open>errAppServerRequest\<close>), a failed call to it with its cause, any other error,
  a \<open>fmt.Errorf("...%w")\<close> around one, or what \<open>errors.Join\<close> makes of two; \<open>errors.Is\<close> and
  \<open>errors.As\<close> walk that tree.
\<close>

subsection \<open>Errors\<close>

datatype sentinel =
    errControllerTimeout
  | errControllerInvalidResult
  | errSharedServerPortReserved
  | errSharedServerPortConflict
  | errSharedServerOwnershipUnknown
  | errSharedServerMigrationDeferred
  | errSharedAppServerEnvironmentConflict
  | errSharedAppServerConfigInvalid
  | errSharedServerUnavailable
  | errAppServerRequest
  | errCodexRestartRequired
  | errSharedAppServerDisabled
  | errResumeSettingsUnavailable
  | errCodexIPCOwnerMissing

datatype go_error =
    Sentinel sentinel
  | controllerReasonError string
  | appServerRequestError string int string
  | appServerCallError string go_error
  | OtherError string
  | Wrapped string go_error
  | Joined go_error go_error

fun errors_Is :: "go_error option \<Rightarrow> sentinel \<Rightarrow> bool" where
  "errors_Is None s = False"
| "errors_Is (Some (Sentinel s')) s = (s' = s)"
| "errors_Is (Some (controllerReasonError _)) s = False"
| "errors_Is (Some (appServerRequestError _ _ _)) s = (s = errAppServerRequest)"
| "errors_Is (Some (appServerCallError _ e)) s = errors_Is (Some e) s"
| "errors_Is (Some (OtherError _)) s = False"
| "errors_Is (Some (Wrapped _ e)) s = errors_Is (Some e) s"
| "errors_Is (Some (Joined e e')) s \<longleftrightarrow> errors_Is (Some e) s \<or> errors_Is (Some e') s"

fun errors_As_reason :: "go_error option \<Rightarrow> string option" where
  "errors_As_reason None = None"
| "errors_As_reason (Some (controllerReasonError r)) = Some r"
| "errors_As_reason (Some (Sentinel _)) = None"
| "errors_As_reason (Some (appServerRequestError _ _ _)) = None"
| "errors_As_reason (Some (appServerCallError _ e)) = errors_As_reason (Some e)"
| "errors_As_reason (Some (OtherError _)) = None"
| "errors_As_reason (Some (Wrapped _ e)) = errors_As_reason (Some e)"
| "errors_As_reason (Some (Joined e e')) =
     (case errors_As_reason (Some e) of Some r \<Rightarrow> Some r | None \<Rightarrow> errors_As_reason (Some e'))"

subsection \<open>Reason codes\<close>

definition reason_char :: "char \<Rightarrow> bool" where
  "reason_char c \<longleftrightarrow> c = CHR ''_'' \<or> c = CHR ''-'' \<or> (97 \<le> byte c \<and> byte c \<le> 122) \<or> is_digit c"

definition safeReasonCode :: "string \<Rightarrow> string" where
  "safeReasonCode value =
     (let v = trim_space value
      in if v = [] \<or> length v > 64 then [] else if list_all reason_char v then v else [])"

definition sentinel_reason :: "go_error option \<Rightarrow> string" where
  "sentinel_reason err =
     (if errors_Is err errControllerTimeout then ''controller_timeout''
      else if errors_Is err errSharedServerPortReserved then ''shared_app_server_port_reserved''
      else if errors_Is err errSharedServerPortConflict then ''shared_app_server_port_conflict''
      else if errors_Is err errSharedServerOwnershipUnknown then ''shared_app_server_ownership_unknown''
      else if errors_Is err errSharedServerMigrationDeferred then ''shared_app_server_migration_deferred''
      else if errors_Is err errSharedAppServerEnvironmentConflict then ''shared_app_server_environment_conflict''
      else if errors_Is err errSharedAppServerConfigInvalid then ''shared_app_server_config_invalid''
      else if errors_Is err errSharedServerUnavailable then ''codex_background_channel_unavailable''
      else if errors_Is err errAppServerRequest then ''codex_background_dispatch_failed''
      else if errors_Is err errControllerInvalidResult then ''controller_invalid_result''
      else if errors_Is err errCodexRestartRequired then ''codex_restart_required''
      else if errors_Is err errSharedAppServerDisabled then ''shared_app_server_disabled''
      else if errors_Is err errResumeSettingsUnavailable then ''thread_settings_unavailable''
      else ''controller_unavailable'')"

definition controllerFailureReason :: "DispatchResult \<Rightarrow> go_error option \<Rightarrow> string" where
  "controllerFailureReason result err =
     (let own = safeReasonCode (d_Reason result);
          wrapped = (case errors_As_reason err of Some r \<Rightarrow> safeReasonCode r | None \<Rightarrow> [])
      in if d_Outcome result \<in> {outcomeRetryLater, outcomeUserActive} \<and> own \<noteq> [] then own
         else if wrapped \<noteq> [] then wrapped
         else sentinel_reason err)"

text \<open>The two switches of \<open>daemon.go\<close>.\<close>

definition controllerFailureNeedsAction :: "string \<Rightarrow> bool" where
  "controllerFailureNeedsAction reason \<longleftrightarrow> reason \<in>
     {''codex_not_running'', ''codex_restart_required'', ''codex_home_not_shared'',
      ''shared_app_server_port_reserved'', ''shared_app_server_port_conflict'',
      ''shared_app_server_environment_conflict'', ''shared_app_server_ownership_unknown'',
      ''shared_app_server_disabled'', ''shared_app_server_config_invalid'',
      ''shared_app_server_migration_deferred'', ''codex_ipc_goal_control_unsupported''}"

definition controllerFailureNeedsFailOpen :: "string \<Rightarrow> bool" where
  "controllerFailureNeedsFailOpen reason \<longleftrightarrow> reason \<in>
     {''shared_app_server_port_reserved'', ''shared_app_server_port_conflict'',
      ''shared_app_server_environment_conflict'', ''shared_app_server_ownership_unknown'',
      ''shared_app_server_config_invalid'', ''codex_background_channel_unavailable'',
      ''codex_background_dispatch_failed'', ''controller_timeout'',
      ''controller_invalid_result'', ''controller_unavailable''}"

subsection \<open>Checking a result\<close>

definition invalid_result :: "string \<Rightarrow> go_error" where
  "invalid_result detail = Wrapped detail (Sentinel errControllerInvalidResult)"

definition validateDispatchResult :: "DispatchResult \<Rightarrow> go_error + DispatchResult" where
  "validateDispatchResult result =
     (let fault = (case d_Outcome result of
            outcomeDispatched \<Rightarrow>
              if d_Action result \<notin> {actionGoalResume, actionConversationContinue,
                                     actionSubagentContinue, actionGoalBlock}
              then Some ''dispatched action'' else None
          | outcomeAwaitingStart \<Rightarrow>
              if d_Action result \<noteq> actionGoalActive then Some ''awaiting action'' else None
          | outcomeUserActive \<Rightarrow> None
          | outcomeRetryLater \<Rightarrow> None
          | outcomeNotApplicable \<Rightarrow>
              if d_Action result \<noteq> actionOther [] \<or> d_Reason result = []
              then Some ''not applicable result'' else None
          | outcomeOther _ \<Rightarrow> Some ''outcome'')
      in case fault of
           Some detail \<Rightarrow> Inl (invalid_result detail)
         | None \<Rightarrow>
             if d_Reason result \<noteq> [] \<and> safeReasonCode (d_Reason result) = []
             then Inl (invalid_result ''reason'') else Inr result)"

definition validateDispatchResultForJob ::
    "RetryJobKind \<Rightarrow> DispatchResult \<Rightarrow> go_error + DispatchResult" where
  "validateDispatchResultForJob kind result =
     (case validateDispatchResult result of
        Inl err \<Rightarrow> Inl err
      | Inr validated \<Rightarrow>
          if d_Outcome validated \<noteq> outcomeDispatched then Inr validated
          else if kind = jobGoalBlock \<and> d_Action validated \<noteq> actionGoalBlock
            then Inl (invalid_result ''goal block action'')
          else if kind \<noteq> jobGoalBlock \<and> d_Action validated = actionGoalBlock
            then Inl (invalid_result ''recovery action'')
          else Inr validated)"

text \<open>
  \<open>Resume\<close>: the controller and the readers it calls are arguments. \<open>settings\<close> is what
  \<open>loadLatestResumeSettings\<close> returned, \<open>prompt\<close> what \<open>retryPrompt\<close> returned; \<open>block\<close> and
  \<open>dispatch\<close> are the controller's two requests; \<open>expired\<close> says that the 30 second context had
  ended when the request returned.
\<close>

definition finish_request ::
    "RetryJobKind \<Rightarrow> bool \<Rightarrow> go_error + DispatchResult \<Rightarrow> go_error + DispatchResult" where
  "finish_request kind expired res =
     (case res of
        Inl err \<Rightarrow> if expired then Inl (Sentinel errControllerTimeout) else Inl err
      | Inr result \<Rightarrow> validateDispatchResultForJob kind result)"

definition Resume ::
    "go_error + 'set \<Rightarrow> go_error + string \<Rightarrow> ('set option \<Rightarrow> go_error + DispatchResult) \<Rightarrow>
     ('set \<Rightarrow> string \<Rightarrow> go_error + DispatchResult) \<Rightarrow> bool \<Rightarrow> RetryJob \<Rightarrow> go_error + DispatchResult" where
  "Resume settings prompt block dispatch expired job =
     (if thread_match (j_ThreadID job @ ''.jsonl'') = None then Inl (OtherError ''invalid thread id'')
      else if j_Kind job = jobGoalBlock then
        finish_request jobGoalBlock expired
          (block (case settings of Inl _ \<Rightarrow> None | Inr loaded \<Rightarrow> Some loaded))
      else (case settings of
          Inl err \<Rightarrow> Inl err
        | Inr loaded \<Rightarrow>
            (case prompt of
               Inl err \<Rightarrow> Inl err
             | Inr text \<Rightarrow> finish_request (j_Kind job) expired (dispatch loaded text))))"

definition powerShellScriptInput :: "string \<Rightarrow> string" where
  "powerShellScriptInput script =
     rev (dropWhile (\<lambda>c. byte c = 13 \<or> byte c = 10) (rev script)) @
     map char_of [13::nat, 10, 13, 10]"

subsection \<open>The delay before the next attempt\<close>

text \<open>
  The two loops of \<open>retryDelay\<close>. The first argument is the number of iterations the loop
  header still allows, \<open>consecutiveRetry - 1\<close> at the start.
\<close>

fun linear_delay :: "nat \<Rightarrow> duration \<Rightarrow> duration \<Rightarrow> duration \<Rightarrow> duration" where
  "linear_delay 0 increment maximum delay = delay"
| "linear_delay (Suc k) increment maximum delay =
     (if \<not> delay < maximum then delay
      else if i64 (maximum - delay) \<le> increment then maximum
      else linear_delay k increment maximum (i64 (delay + increment)))"

fun exponential_delay :: "nat \<Rightarrow> duration \<Rightarrow> duration \<Rightarrow> duration" where
  "exponential_delay 0 maximum delay = delay"
| "exponential_delay (Suc k) maximum delay =
     (if go_div maximum 2 \<le> delay then maximum
      else exponential_delay k maximum (i64 (delay * 2)))"

definition seconds :: "int \<Rightarrow> duration" where
  "seconds n = i64 (n * Second)"

definition retryDelay :: "int \<Rightarrow> Config \<Rightarrow> duration" where
  "retryDelay consecutiveRetry cfg =
     (let n = nat ((if consecutiveRetry < 1 then 1 else consecutiveRetry) - 1);
          delay = seconds (c_InitialDelaySeconds cfg);
          maximum = seconds (c_MaxDelaySeconds cfg)
      in if c_DelayStrategy cfg = delayStrategyFixed then delay
         else if c_DelayStrategy cfg = delayStrategyLinear
           then linear_delay n (seconds (c_DelayIncrementSeconds cfg)) maximum delay
         else (let delay' = exponential_delay n maximum delay
               in if maximum < delay' then maximum else delay'))"

subsection \<open>Properties of results and reasons\<close>

lemma reason_char_not_space: "reason_char c \<Longrightarrow> \<not> is_space c"
  by (auto simp: reason_char_def is_space_def is_digit_def byte_def)

lemma dropWhile_none: "(\<And>c. c \<in> set s \<Longrightarrow> \<not> P c) \<Longrightarrow> dropWhile P s = s"
  by (cases s) auto

lemma trim_reason:
  assumes "list_all reason_char v"
  shows "trim_space v = v"
proof -
  have "dropWhile is_space w = w" if "set w = set v" for w
    using assms that by (intro dropWhile_none) (auto simp: list_all_iff reason_char_not_space)
  from this [of v] this [of "rev v"] show ?thesis by (simp add: trim_space_def)
qed

lemma safeReasonCode_idem: "safeReasonCode (safeReasonCode v) = safeReasonCode v"
  by (auto simp: safeReasonCode_def Let_def trim_reason)

lemma safeReasonCode_shape:
  "safeReasonCode v \<noteq> [] \<Longrightarrow>
   length (safeReasonCode v) \<le> 64 \<and> list_all reason_char (safeReasonCode v) \<and> safeReasonCode v = trim_space v"
  by (auto simp: safeReasonCode_def Let_def split: if_splits)

definition sentinel_reasons :: "string list" where
  "sentinel_reasons =
     [''controller_timeout'', ''shared_app_server_port_reserved'', ''shared_app_server_port_conflict'',
      ''shared_app_server_ownership_unknown'', ''shared_app_server_migration_deferred'',
      ''shared_app_server_environment_conflict'', ''shared_app_server_config_invalid'',
      ''codex_background_channel_unavailable'', ''codex_background_dispatch_failed'',
      ''controller_invalid_result'', ''codex_restart_required'', ''shared_app_server_disabled'',
      ''thread_settings_unavailable'', ''controller_unavailable'']"

lemma sentinel_reason_listed: "sentinel_reason err \<in> set sentinel_reasons"
  by (simp add: sentinel_reason_def sentinel_reasons_def)

lemma sentinel_reasons_safe: "list_all (\<lambda>r. safeReasonCode r = r) sentinel_reasons"
  by code_simp

lemma sentinel_reason_safe: "safeReasonCode (sentinel_reason err) = sentinel_reason err"
  using sentinel_reasons_safe sentinel_reason_listed [of err] by (simp add: list_all_iff)

lemma sentinel_reason_nonempty: "sentinel_reason err \<noteq> []"
  by (simp add: sentinel_reason_def)

subsection \<open>Properties of the delay\<close>

lemma exponential_delay_closed:
  "0 < d \<Longrightarrow> d \<le> M \<Longrightarrow> even M \<Longrightarrow> M < 2 ^ 62 \<Longrightarrow>
   exponential_delay k M d = min M (d * 2 ^ k)"
proof (induction k arbitrary: d)
  case 0
  then show ?case by simp
next
  case (Suc k)
  have half: "go_div M 2 = M div 2"
    using Suc.prems by (simp add: go_div_pos)
  show ?case
  proof (cases "M div 2 \<le> d")
    case True
    with Suc.prems have "M \<le> d * 2" by auto
    also have "\<dots> \<le> d * 2 * 2 ^ k"
      using Suc.prems by (simp add: mult_le_cancel_left1)
    finally show ?thesis using True half by (simp add: mult.assoc)
  next
    case False
    then have "d * 2 \<le> M" by auto
    moreover from this Suc.prems have "i64 (d * 2) = d * 2" by (intro i64_id) auto
    ultimately show ?thesis
      using Suc.IH [of "d * 2"] Suc.prems False half by (simp add: mult.assoc)
  qed
qed

lemma linear_delay_closed:
  "0 < d \<Longrightarrow> d \<le> M \<Longrightarrow> 0 < inc \<Longrightarrow> M < 2 ^ 62 \<Longrightarrow>
   linear_delay k inc M d = min M (d + int k * inc)"
proof (induction k arbitrary: d)
  case 0
  then show ?case by simp
next
  case (Suc k)
  have room: "i64 (M - d) = M - d" by (rule i64_id) (use Suc.prems in auto)
  have "0 \<le> inc * int k" using Suc.prems by simp
  moreover have "int (Suc k) * inc = inc + inc * int k" by (simp add: algebra_simps)
  ultimately have k: "inc \<le> int (Suc k) * inc" by linarith
  consider "d = M" | "d < M" "M - d \<le> inc" | "d < M" "inc < M - d"
    using Suc.prems by linarith
  then show ?case
  proof cases
    case 3
    then have "i64 (d + inc) = d + inc" using Suc.prems by (intro i64_id) auto
    with 3 room show ?thesis
      using Suc.IH [of "d + inc"] Suc.prems by (simp add: algebra_simps)
  next
    case 2
    with k have "M \<le> d + int (Suc k) * inc" by linarith
    with 2 room show ?thesis by (simp add: min_absorb1)
  next
    case 1
    with k have "M \<le> d + int (Suc k) * inc" using Suc.prems by linarith
    with 1 show ?thesis by (simp add: min_absorb1)
  qed
qed

text \<open>The delays a configuration describes, without loops and machine integers.\<close>

definition spec_delay :: "int \<Rightarrow> Config \<Rightarrow> int" where
  "spec_delay n cfg =
     (let k = nat (max n 1 - 1)
      in if c_DelayStrategy cfg = delayStrategyFixed then c_InitialDelaySeconds cfg
         else if c_DelayStrategy cfg = delayStrategyLinear
           then min (c_MaxDelaySeconds cfg) (c_InitialDelaySeconds cfg + int k * c_DelayIncrementSeconds cfg)
         else min (c_MaxDelaySeconds cfg) (c_InitialDelaySeconds cfg * 2 ^ k))"

lemma seconds_id: "0 \<le> n \<Longrightarrow> n \<le> 86400 \<Longrightarrow> seconds n = n * Second"
  unfolding seconds_def by (rule i64_id) auto

lemma valid_delays:
  assumes "valid_config cfg"
  shows "1 \<le> c_InitialDelaySeconds cfg" "c_InitialDelaySeconds cfg \<le> 3600"
    "1 \<le> c_MaxDelaySeconds cfg" "c_MaxDelaySeconds cfg \<le> 86400"
    "1 \<le> c_DelayIncrementSeconds cfg" "c_DelayIncrementSeconds cfg \<le> 3600"
    "c_DelayStrategy cfg \<noteq> delayStrategyFixed \<Longrightarrow> c_InitialDelaySeconds cfg \<le> c_MaxDelaySeconds cfg"
  using assms by (auto simp: validate_def split: if_splits)

lemma min_Second: "min (a * Second) (b * Second) = min a b * Second" for a b :: int
  by (simp add: min_def)

lemma retryDelay_spec:
  assumes "valid_config cfg"
  shows "retryDelay n cfg = spec_delay n cfg * Second"
proof -
  note v = valid_delays [OF assms]
  define k where "k = nat (max n 1 - 1)"
  have k: "nat ((if n < 1 then 1 else n) - 1) = k" by (simp add: k_def max_def)
  have s: "seconds (c_InitialDelaySeconds cfg) = c_InitialDelaySeconds cfg * Second"
    "seconds (c_MaxDelaySeconds cfg) = c_MaxDelaySeconds cfg * Second"
    "seconds (c_DelayIncrementSeconds cfg) = c_DelayIncrementSeconds cfg * Second"
    using v by (simp_all add: seconds_id)
  show ?thesis
  proof (cases "c_DelayStrategy cfg = delayStrategyFixed")
    case True
    then show ?thesis by (simp add: retryDelay_def spec_delay_def s)
  next
    case False
    note le = v(7) [OF False]
    have lin: "linear_delay k (c_DelayIncrementSeconds cfg * Second) (c_MaxDelaySeconds cfg * Second)
        (c_InitialDelaySeconds cfg * Second) =
      min (c_MaxDelaySeconds cfg) (c_InitialDelaySeconds cfg + int k * c_DelayIncrementSeconds cfg) * Second"
      using v le by (subst linear_delay_closed) (auto simp: min_Second [symmetric] algebra_simps)
    have ex: "exponential_delay k (c_MaxDelaySeconds cfg * Second) (c_InitialDelaySeconds cfg * Second) =
      min (c_MaxDelaySeconds cfg) (c_InitialDelaySeconds cfg * 2 ^ k) * Second"
      using v le by (subst exponential_delay_closed) (auto simp: min_Second [symmetric] algebra_simps)
    show ?thesis
      using False by (simp add: retryDelay_def spec_delay_def Let_def s k lin ex k_def [symmetric])
  qed
qed

end
