(* ===== verification/Events.thy ===== *)
theory Events
  imports Model Go_Json
begin

section \<open>Event keys and the text of an error (events.go)\<close>

text \<open>
  The parts of \<open>events.go\<close> that decide what an event means: its key, the identity of a recovery,
  the time of a goal update, whether a completion carries a final message, and the text of a
  provider error. The two library routines the keys are built with are parameters, collected
  in \<open>golib\<close>: SHA-256 as a list of bytes, and \<open>UTC().Format(time.RFC3339Nano)\<close>. A raw JSON
  value is its text.
\<close>

record golib =
  sha256 :: "string \<Rightarrow> 8 word list"
  rfc3339 :: "gotime \<Rightarrow> string"

definition format_bool :: "bool \<Rightarrow> string" where
  "format_bool b = (if b then ''true'' else ''false'')"

definition join_with :: "string \<Rightarrow> string list \<Rightarrow> string" where
  "join_with sep parts = concat (case parts of [] \<Rightarrow> [] | p # ps \<Rightarrow> p # map ((@) sep) ps)"

definition eventDigest :: "golib \<Rightarrow> RelevantEvent \<Rightarrow> string" where
  "eventDigest lib event =
     hex_encode (take 6 (sha256 lib (join_with ''|''
       [e_ErrorText event, format_bool (e_FinalKnown event), format_bool (e_FinalPresent event),
        e_AbortReason event, e_GoalStatus event, rfc3339 lib (e_GoalUpdatedAt event),
        e_ParentThreadID event, e_RecoveryEventID event])))"

definition eventKey :: "golib \<Rightarrow> string \<Rightarrow> RelevantEvent \<Rightarrow> string" where
  "eventKey lib threadID event =
     join_with ''|''
       [threadID, e_Kind event, e_TurnID event, rfc3339 lib (e_Timestamp event), eventDigest lib event]"

definition recoveryEventID :: "golib \<Rightarrow> string \<Rightarrow> string \<Rightarrow> string" where
  "recoveryEventID lib threadID key =
     ''car-'' @ hex_encode (take 12 (sha256 lib (to_lower (trim_space threadID) @ ''|'' @ key)))"

text \<open>\<open>recoveryEventIDPattern\<close>.\<close>

definition recovery_event_id :: "string \<Rightarrow> bool" where
  "recovery_event_id s \<longleftrightarrow> prefix ''car-'' s \<and> length s = 28 \<and> list_all is_hex (drop 4 s)"

text \<open>\<open>time.Unix(0, 0)\<close> on the scale that counts from Go's zero time.\<close>

definition unix_epoch :: gotime where
  "unix_epoch = 62135596800 * Second"

definition persistedGoalTime :: "int \<Rightarrow> gotime \<Rightarrow> gotime" where
  "persistedGoalTime v fallback =
     (if v \<le> 0 then fallback
      else if v > 10000000000 then unix_epoch + v * Millisecond
      else unix_epoch + v * Second)"

text \<open>The result is the pair \<open>(known, present)\<close>.\<close>

definition completionMessageState :: "string \<Rightarrow> bool \<times> bool" where
  "completionMessageState raw =
     (let trimmed = trim_space raw
      in if trimmed = [] then (False, False)
         else if trimmed = ''null'' then (True, False)
         else (case parse_json trimmed of
             Some (JString text) \<Rightarrow> (True, trim_space text \<noteq> [])
           | _ \<Rightarrow> (True, True)))"

definition error_keys :: "string list" where
  "error_keys = [''type'', ''code'', ''message'', ''error'', ''detail'', ''reason'']"

text \<open>The number counts the levels that may still be entered: five, the source's depth 0 to 4.\<close>

fun collectErrorStrings :: "nat \<Rightarrow> json \<Rightarrow> string list \<Rightarrow> string list" where
  "collectErrorStrings 0 v parts = parts"
| "collectErrorStrings (Suc n) v parts =
     (if 12 \<le> length parts then parts
      else case v of
          JString t \<Rightarrow> if trim_space t \<noteq> [] then parts @ [t] else parts
        | JArray vs \<Rightarrow> fold (collectErrorStrings n) vs parts
        | JObject ms \<Rightarrow>
            fold (\<lambda>key ps. case map_of (json_map ms) key of
                None \<Rightarrow> ps | Some item \<Rightarrow> collectErrorStrings n item ps) error_keys parts
        | _ \<Rightarrow> parts)"

definition extractErrorText :: "string \<Rightarrow> string" where
  "extractErrorText raw =
     (let trimmed = trim_space raw
      in if trimmed = [] \<or> trimmed = ''null'' then []
         else (case parse_json trimmed of
             None \<Rightarrow> []
           | Some (JString text) \<Rightarrow> text
           | Some v \<Rightarrow> join_with '' '' (collectErrorStrings 5 v [])))"

subsection \<open>Properties\<close>

lemma recoveryEventID_shape:
  "12 \<le> length (sha256 lib (to_lower (trim_space t) @ ''|'' @ k)) \<Longrightarrow>
   recovery_event_id (recoveryEventID lib t k)"
  by (simp add: recovery_event_id_def recoveryEventID_def length_hex_encode hex_encode_is_hex)

lemma recoveryEventID_case: "recoveryEventID lib (to_lower t) k = recoveryEventID lib t k"
  if "trim_space (to_lower t) = to_lower (trim_space t)"
  by (simp add: recoveryEventID_def that)

text \<open>Text up to the first bar.\<close>

lemma takeWhile_bar: "CHR ''|'' \<notin> set a \<Longrightarrow> takeWhile (\<lambda>c. c \<noteq> CHR ''|'') (a @ CHR ''|'' # r) = a"
  by (induction a) auto

lemma bar_split:
  "CHR ''|'' \<notin> set a \<Longrightarrow> CHR ''|'' \<notin> set b \<Longrightarrow> a @ CHR ''|'' # r = b @ CHR ''|'' # s \<Longrightarrow> a = b \<and> r = s"
  by (metis append_same_eq same_append_eq list.inject takeWhile_bar)

lemma eventKey_unfold:
  "eventKey lib t e =
   t @ CHR ''|'' # e_Kind e @ CHR ''|'' # e_TurnID e @ CHR ''|'' # rfc3339 lib (e_Timestamp e) @
   CHR ''|'' # eventDigest lib e"
  by (simp add: eventKey_def join_with_def)

lemma collectErrorStrings_monotone: "length parts \<le> length (collectErrorStrings n v parts)"
proof (induction n arbitrary: v parts)
  case 0
  then show ?case by simp
next
  case (Suc n)
  have "length ps \<le> length (fold (collectErrorStrings n) vs ps)" for vs ps
    by (induction vs arbitrary: ps) (auto intro: order_trans [OF Suc])
  moreover have "length ps \<le> length (fold (\<lambda>key ps. case map_of (json_map ms) key of
      None \<Rightarrow> ps | Some item \<Rightarrow> collectErrorStrings n item ps) ks ps)" for ms ks ps
    by (induction ks arbitrary: ps) (auto intro: order_trans [OF Suc] split: option.splits)
  ultimately show ?case by (auto split: json.splits)
qed

text \<open>However large the error value, at most twelve strings are collected.\<close>

lemma collectErrorStrings_bound:
  "length parts \<le> 12 \<Longrightarrow> length (collectErrorStrings n v parts) \<le> 12"
proof (induction n arbitrary: v parts)
  case 0
  then show ?case by simp
next
  case (Suc n)
  have "length ps \<le> 12 \<Longrightarrow> length (fold (collectErrorStrings n) vs ps) \<le> 12" for vs ps
    by (rule fold_preserves) (auto intro: Suc.IH)
  moreover have "length ps \<le> 12 \<Longrightarrow> length (fold (\<lambda>key ps. case map_of (json_map ms) key of
      None \<Rightarrow> ps | Some item \<Rightarrow> collectErrorStrings n item ps) ks ps) \<le> 12" for ms ks ps
    by (rule fold_preserves) (auto intro: Suc.IH split: option.splits)
  ultimately show ?case using Suc.prems by (auto split: json.splits)
qed

end
