(* ===== verification/Daemon_State.thy ===== *)
theory Daemon_State
  imports Model Config Runner Events
begin

section \<open>The daemon's state and its thread table (daemon.go)\<close>

text \<open>
  The fields of \<open>daemon\<close> that its operations read and write. Paths, the logger and the
  functions that write files are not state: a write's outcome is an argument of the operation
  that performs it. \<open>active\<close> keeps its insertion order, which nothing observes; \<open>activeCtx\<close>
  says of each registered cancel function whether it has been called. \<open>d_state\<close> is the runtime
  state that is saved to disk.

  The invariant \<open>thread_ok\<close> is what every operation keeps of every thread record: of a pending,
  an awaiting and a stopped retry at most one exists, and a request to stop the goal exists only
  together with the stopped retry it belongs to, whose reason is one of the two goal reasons.
\<close>

record daemon =
  d_config :: Config
  d_startedAt :: gotime
  d_state :: RuntimeState
  d_active :: "(string \<times> RetryJob) list"
  d_activeCtx :: "string \<rightharpoonup> bool"
  d_lastScan :: gotime
  d_lastError :: string
  d_controllerState :: string
  d_lastControllerProbe :: gotime
  d_paused :: bool
  d_memoryUsageBytes :: "64 word"
  d_memoryGuardTriggered :: bool
  d_sharedAppServerMemoryBytes :: "64 word"
  d_sharedAppServerMemoryGuardTriggered :: bool
  d_lastSharedAppServerMemoryCheck :: gotime
  d_stateWriteDeferred :: bool
  d_statusWriteDeferred :: bool

definition threads :: "daemon \<Rightarrow> string \<rightharpoonup> ThreadState" where
  "threads d = rs_Threads (d_state d)"

text \<open>\<open>d.state.Threads[threadID]\<close>, the zero value when there is no entry.\<close>

definition get_thread :: "daemon \<Rightarrow> string \<Rightarrow> ThreadState" where
  "get_thread d threadID = (case threads d threadID of Some t \<Rightarrow> t | None \<Rightarrow> zero_ThreadState)"

definition put_thread :: "string \<Rightarrow> ThreadState \<Rightarrow> daemon \<Rightarrow> daemon" where
  "put_thread threadID t d =
     d\<lparr>d_state := (d_state d)\<lparr>rs_Threads := (rs_Threads (d_state d))(threadID \<mapsto> t)\<rparr>\<rparr>"

text \<open>\<open>if cancel := d.activeCtx[threadID]; cancel != nil { cancel() }\<close>\<close>

definition cancel_ctx :: "string \<Rightarrow> daemon \<Rightarrow> daemon" where
  "cancel_ctx threadID d =
     (case d_activeCtx d threadID of
        None \<Rightarrow> d
      | Some _ \<Rightarrow> d\<lparr>d_activeCtx := (d_activeCtx d)(threadID \<mapsto> True)\<rparr>)"

definition is_active :: "daemon \<Rightarrow> string \<Rightarrow> bool" where
  "is_active d threadID \<longleftrightarrow> map_of (d_active d) threadID \<noteq> None"

definition set_active :: "string \<Rightarrow> RetryJob \<Rightarrow> daemon \<Rightarrow> daemon" where
  "set_active threadID job d = d\<lparr>d_active := AList.update threadID job (d_active d)\<rparr>"

definition drop_active :: "string \<Rightarrow> daemon \<Rightarrow> daemon" where
  "drop_active threadID d = d\<lparr>d_active := AList.delete threadID (d_active d)\<rparr>"

definition drop_ctx :: "string \<Rightarrow> daemon \<Rightarrow> daemon" where
  "drop_ctx threadID d = d\<lparr>d_activeCtx := (d_activeCtx d)(threadID := None)\<rparr>"

text \<open>A loop \<open>for threadID, thread := range d.state.Threads\<close>, in the key order \<open>ks\<close>.\<close>

definition at_thread :: "(string \<Rightarrow> ThreadState \<Rightarrow> daemon \<Rightarrow> daemon) \<Rightarrow> string \<Rightarrow> daemon \<Rightarrow> daemon" where
  "at_thread body threadID d =
     (case threads d threadID of None \<Rightarrow> d | Some thread \<Rightarrow> body threadID thread d)"

definition for_threads ::
    "string list \<Rightarrow> (string \<Rightarrow> ThreadState \<Rightarrow> daemon \<Rightarrow> daemon) \<Rightarrow> daemon \<Rightarrow> daemon" where
  "for_threads ks body d = fold (at_thread body) ks d"

subsection \<open>Looking up what was written\<close>

lemma threads_put [simp]: "threads (put_thread k t d) = (threads d)(k \<mapsto> t)"
  by (simp add: threads_def put_thread_def)

lemma threads_update [simp]:
  "threads (d\<lparr>d_config := c\<rparr>) = threads d"
  "threads (d\<lparr>d_active := al\<rparr>) = threads d"
  "threads (d\<lparr>d_activeCtx := x\<rparr>) = threads d"
  "threads (d\<lparr>d_lastScan := t\<rparr>) = threads d"
  "threads (d\<lparr>d_lastError := s\<rparr>) = threads d"
  "threads (d\<lparr>d_controllerState := s\<rparr>) = threads d"
  "threads (d\<lparr>d_lastControllerProbe := t\<rparr>) = threads d"
  "threads (d\<lparr>d_paused := b\<rparr>) = threads d"
  "threads (d\<lparr>d_memoryUsageBytes := w\<rparr>) = threads d"
  "threads (d\<lparr>d_memoryGuardTriggered := b\<rparr>) = threads d"
  "threads (d\<lparr>d_sharedAppServerMemoryBytes := w\<rparr>) = threads d"
  "threads (d\<lparr>d_sharedAppServerMemoryGuardTriggered := b\<rparr>) = threads d"
  "threads (d\<lparr>d_lastSharedAppServerMemoryCheck := t\<rparr>) = threads d"
  "threads (d\<lparr>d_stateWriteDeferred := b\<rparr>) = threads d"
  "threads (d\<lparr>d_statusWriteDeferred := b\<rparr>) = threads d"
  by (simp_all add: threads_def)

lemma threads_helpers [simp]:
  "threads (cancel_ctx k d) = threads d" "threads (set_active k j d) = threads d"
  "threads (drop_active k d) = threads d" "threads (drop_ctx k d) = threads d"
  by (simp_all add: cancel_ctx_def set_active_def drop_active_def drop_ctx_def split: option.split)

lemma get_thread_put [simp]: "get_thread (put_thread k t d) j = (if j = k then t else get_thread d j)"
  by (simp add: get_thread_def)

lemma put_thread_other [simp]:
  "d_config (put_thread k t d) = d_config d"
  "d_startedAt (put_thread k t d) = d_startedAt d"
  "d_active (put_thread k t d) = d_active d"
  "d_activeCtx (put_thread k t d) = d_activeCtx d"
  "d_lastError (put_thread k t d) = d_lastError d"
  "d_controllerState (put_thread k t d) = d_controllerState d"
  "d_paused (put_thread k t d) = d_paused d"
  "rs_Files (d_state (put_thread k t d)) = rs_Files (d_state d)"
  "rs_ProcessedEvents (d_state (put_thread k t d)) = rs_ProcessedEvents (d_state d)"
  by (simp_all add: put_thread_def)

lemma cancel_ctx_other [simp]:
  "d_config (cancel_ctx k d) = d_config d"
  "d_active (cancel_ctx k d) = d_active d"
  "d_lastError (cancel_ctx k d) = d_lastError d"
  "d_controllerState (cancel_ctx k d) = d_controllerState d"
  "d_paused (cancel_ctx k d) = d_paused d"
  "d_state (cancel_ctx k d) = d_state d"
  by (simp_all add: cancel_ctx_def split: option.split)

lemma set_active_other [simp]:
  "d_config (set_active k j d) = d_config d"
  "d_state (set_active k j d) = d_state d"
  "d_controllerState (set_active k j d) = d_controllerState d"
  "d_paused (set_active k j d) = d_paused d"
  "d_lastError (set_active k j d) = d_lastError d"
  "d_activeCtx (set_active k j d) = d_activeCtx d"
  "d_config (drop_active k d) = d_config d"
  "d_state (drop_active k d) = d_state d"
  "d_controllerState (drop_active k d) = d_controllerState d"
  "d_paused (drop_active k d) = d_paused d"
  "d_lastError (drop_active k d) = d_lastError d"
  "d_activeCtx (drop_active k d) = d_activeCtx d"
  "d_config (drop_ctx k d) = d_config d"
  "d_state (drop_ctx k d) = d_state d"
  "d_active (drop_ctx k d) = d_active d"
  "d_controllerState (drop_ctx k d) = d_controllerState d"
  by (simp_all add: set_active_def drop_active_def drop_ctx_def)

lemma is_active_set [simp]: "is_active (set_active k job d) j \<longleftrightarrow> j = k \<or> is_active d j"
  by (auto simp: is_active_def set_active_def update_conv)

lemma is_active_drop [simp]: "is_active (drop_active k d) j \<longleftrightarrow> j \<noteq> k \<and> is_active d j"
  by (auto simp: is_active_def drop_active_def delete_conv)

lemma is_active_put [simp]:
  "is_active (put_thread k t d) j = is_active d j" "is_active (cancel_ctx k d) j = is_active d j"
  by (simp_all add: is_active_def)

subsection \<open>The invariant of a thread record\<close>

definition goalEmptyResponseStopReason :: string where
  "goalEmptyResponseStopReason = ''goal_empty_response_limit''"

definition goalEmptyResponseBlockFailReason :: string where
  "goalEmptyResponseBlockFailReason = ''goal_empty_response_limit_block_failed''"

definition isGoalEmptyResponseStopReason :: "string \<Rightarrow> bool" where
  "isGoalEmptyResponseStopReason reason \<longleftrightarrow>
     reason = goalEmptyResponseStopReason \<or> reason = goalEmptyResponseBlockFailReason"

definition thread_ok :: "ThreadState \<Rightarrow> bool" where
  "thread_ok t \<longleftrightarrow>
     (t_Pending t = None \<or> t_Awaiting t = None) \<and>
     (t_Stopped t = None \<or> t_Pending t = None \<and> t_Awaiting t = None) \<and>
     (case t_GoalStop t of
        None \<Rightarrow> True
      | Some g \<Rightarrow> (case t_Stopped t of
            None \<Rightarrow> False
          | Some s \<Rightarrow> s_EventKey s = g_EventKey g \<and> isGoalEmptyResponseStopReason (s_Reason s)))"

definition threads_ok :: "daemon \<Rightarrow> bool" where
  "threads_ok d \<longleftrightarrow> (\<forall>k t. threads d k = Some t \<longrightarrow> thread_ok t)"

lemma thread_ok_iff:
  "thread_ok t \<longleftrightarrow>
     (t_Pending t = None \<or> t_Awaiting t = None) \<and>
     (t_Stopped t = None \<or> t_Pending t = None \<and> t_Awaiting t = None) \<and>
     (\<forall>g. t_GoalStop t = Some g \<longrightarrow>
        (\<exists>s. t_Stopped t = Some s \<and> s_EventKey s = g_EventKey g \<and>
             isGoalEmptyResponseStopReason (s_Reason s)))"
  by (auto simp: thread_ok_def split: option.splits)

lemma goal_reasons [simp]:
  "isGoalEmptyResponseStopReason goalEmptyResponseStopReason"
  "isGoalEmptyResponseStopReason goalEmptyResponseBlockFailReason"
  by (simp_all add: isGoalEmptyResponseStopReason_def)

lemma threads_okI: "(\<And>k t. threads d k = Some t \<Longrightarrow> thread_ok t) \<Longrightarrow> threads_ok d"
  by (simp add: threads_ok_def)

lemma threads_okD: "threads_ok d \<Longrightarrow> threads d k = Some t \<Longrightarrow> thread_ok t"
  by (simp add: threads_ok_def)

lemma zero_thread_ok [simp]: "thread_ok zero_ThreadState"
  by (simp add: thread_ok_def zero_ThreadState_def)

lemma get_thread_ok: "threads_ok d \<Longrightarrow> thread_ok (get_thread d k)"
  by (auto simp: get_thread_def dest: threads_okD split: option.split)

lemma put_thread_ok [intro]: "threads_ok d \<Longrightarrow> thread_ok t \<Longrightarrow> threads_ok (put_thread k t d)"
  by (auto simp: threads_ok_def)

lemma threads_ok_cong: "threads d' = threads d \<Longrightarrow> threads_ok d' = threads_ok d"
  by (simp add: threads_ok_def)

lemma threads_ok_helpers [simp]:
  "threads_ok (cancel_ctx k d) = threads_ok d" "threads_ok (set_active k j d) = threads_ok d"
  "threads_ok (drop_active k d) = threads_ok d" "threads_ok (drop_ctx k d) = threads_ok d"
  by (simp_all add: threads_ok_def)

lemmas threads_ok_update [simp] = threads_update [THEN threads_ok_cong]

lemma for_threads_invariant:
  assumes "\<And>k t d. P d \<Longrightarrow> threads d k = Some t \<Longrightarrow> P (body k t d)" and "P d"
  shows "P (for_threads ks body d)"
  unfolding for_threads_def
  by (rule fold_preserves) (use assms in \<open>auto simp: at_thread_def split: option.split\<close>)

lemma for_threads_ok:
  assumes "\<And>k t d. threads_ok d \<Longrightarrow> thread_ok t \<Longrightarrow> threads_ok (body k t d)" and "threads_ok d"
  shows "threads_ok (for_threads ks body d)"
  by (rule for_threads_invariant [where P = threads_ok]) (use assms threads_okD in blast)+

subsection \<open>The contract of a loop over the thread table\<close>

text \<open>
  What the bodies of the daemon's loops over \<open>d.state.Threads\<close> have in common: a body writes no
  other thread, and what it writes to its own depends on that thread and on a part \<open>env\<close> of the
  daemon that the loop does not change. Then each thread ends as its own body left it, in
  whatever order the runtime visits the map.
\<close>

locale thread_loop =
  fixes body :: "string \<Rightarrow> ThreadState \<Rightarrow> daemon \<Rightarrow> daemon"
    and env :: "daemon \<Rightarrow> 'e"
  assumes body_other: "j \<noteq> k \<Longrightarrow> threads (body k t d) j = threads d j"
    and body_env: "env (body k t d) = env d"
    and body_own: "threads d k = threads d' k \<Longrightarrow> env d = env d' \<Longrightarrow>
      threads (body k t d) k = threads (body k t d') k"
begin

lemma at_other: "j \<noteq> k \<Longrightarrow> threads (at_thread body k d) j = threads d j"
  by (simp add: at_thread_def body_other split: option.split)

lemma at_env: "env (at_thread body k d) = env d"
  by (simp add: at_thread_def body_env split: option.split)

lemma loop_env: "env (for_threads ks body d) = env d"
  unfolding for_threads_def by (induction ks arbitrary: d) (simp_all add: at_env)

lemma loop_unvisited: "k \<notin> set ks \<Longrightarrow> threads (for_threads ks body d) k = threads d k"
  unfolding for_threads_def by (induction ks arbitrary: d) (simp_all add: at_other)

lemma loop_thread:
  "distinct ks \<Longrightarrow> k \<in> set ks \<Longrightarrow> threads d k = Some t \<Longrightarrow>
   threads (for_threads ks body d) k = threads (body k t d) k"
proof (induction ks arbitrary: d)
  case (Cons j ks)
  let ?d = "at_thread body j d"
  have unfold: "for_threads (j # ks) body d = for_threads ks body ?d"
    by (simp add: for_threads_def)
  show ?case
  proof (cases "j = k")
    case True
    with Cons.prems have "k \<notin> set ks" by auto
    then show ?thesis
      using True Cons.prems(3) unfolding unfold by (simp add: loop_unvisited at_thread_def)
  next
    case False
    then have "threads ?d k = threads d k" by (simp add: at_other)
    with Cons.IH [of ?d] Cons.prems False show ?thesis
      by (simp add: unfold body_own [of ?d k d] at_env)
  qed
qed simp

lemma loop_absent: "threads d k = None \<Longrightarrow> threads (for_threads ks body d) k = None"
proof (induction ks arbitrary: d)
  case (Cons j ks)
  have "threads (at_thread body j d) k = None"
    using Cons.prems by (cases "j = k") (simp_all add: at_other, simp add: at_thread_def)
  with Cons.IH show ?case by (simp add: for_threads_def)
qed (simp add: for_threads_def)

lemma loop_order:
  assumes "range_order (threads d) ks" and "range_order (threads d) ks'"
  shows "threads (for_threads ks body d) = threads (for_threads ks' body d)"
proof
  fix k
  show "threads (for_threads ks body d) k = threads (for_threads ks' body d) k"
  proof (cases "threads d k")
    case None
    then show ?thesis by (simp add: loop_absent)
  next
    case (Some t)
    then have "k \<in> set ks" "k \<in> set ks'" "distinct ks" "distinct ks'"
      using assms by (auto simp: range_order_def)
    with Some show ?thesis by (simp add: loop_thread)
  qed
qed

end

end
