(* ===== verification/Classifier.thy ===== *)
theory Classifier
  imports Model Config
begin

section \<open>Failure classification (classifier.go)\<close>

text \<open>
  From the text of a provider error to a retry decision. The regular expression
  \<open>statusPattern\<close> is \<open>extractStatus\<close>: the leftmost position at which a key word is followed by
  at most twelve characters that are no digits and then by three digits, the first from 1 to 5.
  Text has been lower-cased before it is matched, so the pattern's own case flag plays no part.
\<close>

subsection \<open>Helpers over text\<close>

definition containsAny :: "string \<Rightarrow> string list \<Rightarrow> bool" where
  "containsAny text candidates \<longleftrightarrow> list_ex (contains_sub text) candidates"

definition digit_value :: "char \<Rightarrow> int" where
  "digit_value c = int (byte c) - 48"

text \<open>\<open>[^0-9]{0,12}([1-5][0-9]{2})\<close> right after a key word.\<close>

definition status_digits :: "string \<Rightarrow> int option" where
  "status_digits rest =
     (let gap = takeWhile (\<lambda>c. \<not> is_digit c) rest
      in if rune_count gap > 12 then None
         else (case dropWhile (\<lambda>c. \<not> is_digit c) rest of
             a # b # c # _ \<Rightarrow>
               if 49 \<le> byte a \<and> byte a \<le> 53 \<and> is_digit b \<and> is_digit c
               then Some (100 * digit_value a + 10 * digit_value b + digit_value c) else None
           | _ \<Rightarrow> None))"

definition status_after :: "string \<Rightarrow> string \<Rightarrow> int option" where
  "status_after keyword s = (if prefix keyword s then status_digits (drop (length keyword) s) else None)"

definition status_keywords :: "string list" where
  "status_keywords = [''status code'', ''status'', ''http'', ''unexpected status'']"

text \<open>The alternatives in the order the pattern tries them.\<close>

fun first_status :: "string list \<Rightarrow> string \<Rightarrow> int option" where
  "first_status [] s = None"
| "first_status (k # ks) s = (case status_after k s of Some n \<Rightarrow> Some n | None \<Rightarrow> first_status ks s)"

fun extractStatus :: "string \<Rightarrow> int" where
  "extractStatus [] = 0"
| "extractStatus (c # cs) =
     (case first_status status_keywords (c # cs) of Some n \<Rightarrow> n | None \<Rightarrow> extractStatus cs)"

text \<open>\<open>strconv.Atoi\<close>.\<close>

definition atoi :: "string \<Rightarrow> int option" where
  "atoi s =
     (let (sign, ds) = (case s of
          c # cs \<Rightarrow> if c = CHR ''-'' then (-1, cs) else if c = CHR ''+'' then (1, cs) else (1, s)
        | [] \<Rightarrow> (1, s));
          n = sign * int (digits_value ds)
      in if ds = [] \<or> \<not> list_all is_digit ds \<or> n < - (2 ^ 63) \<or> 2 ^ 63 \<le> n then None else Some n)"

subsection \<open>The CC Switch wrapper\<close>

definition jsonStringField :: "(string \<times> json) list \<Rightarrow> string \<Rightarrow> string \<times> bool" where
  "jsonStringField value field =
     (case find (\<lambda>(key, _). equal_fold key field) value of
        None \<Rightarrow> ([], False)
      | Some (_, raw) \<Rightarrow> (case raw of JString text \<Rightarrow> (text, True) | _ \<Rightarrow> ([], False)))"

definition jsonStringFieldValue :: "(string \<times> json) list \<Rightarrow> string \<Rightarrow> string" where
  "jsonStringFieldValue value field = fst (jsonStringField value field)"

text \<open>The value of a number with an exponent, when it is an integer.\<close>

definition float_int :: "int \<Rightarrow> int \<Rightarrow> int option" where
  "float_int m e =
     (if 0 \<le> e then Some (m * 10 ^ nat e)
      else if m mod 10 ^ nat (- e) = 0 then Some (m div 10 ^ nat (- e)) else None)"

definition jsonStatusField :: "(string \<times> json) list \<Rightarrow> string \<Rightarrow> int \<times> bool" where
  "jsonStatusField value field =
     (case find (\<lambda>(key, _). equal_fold key field) value of
        None \<Rightarrow> (0, False)
      | Some (_, raw) \<Rightarrow>
          (case raw of
             JInt n \<Rightarrow> (n, True)
           | JFloat m e \<Rightarrow> (case float_int m e of Some n \<Rightarrow> (n, True) | None \<Rightarrow> (0, False))
           | JString t \<Rightarrow>
               (case atoi (trim_space (trim_space (trim_prefix ''http'' (to_lower t)))) of
                  Some n \<Rightarrow> (n, True) | None \<Rightarrow> (0, False))
           | _ \<Rightarrow> (0, False)))"

definition ccSwitchObject :: "(string \<times> json) list \<Rightarrow> bool" where
  "ccSwitchObject typed =
     (let (code, codeOK) = jsonStringField typed ''code'';
          (status, statusOK) = jsonStatusField typed ''upstream_status'';
          message = to_lower (jsonStringFieldValue typed ''message'');
          cause = to_lower (jsonStringFieldValue typed ''cause'')
      in codeOK \<and> equal_fold (trim_space code) ''cc_switch_upstream_error'' \<and>
         statusOK \<and> status = 400 \<and>
         (contains_sub message ''upstream request failed'' \<or> contains_sub cause ''upstream request failed''))"

text \<open>
  The recursion of \<open>matchesCCSwitchUpstreamFailure\<close>: the number is how many more levels may be
  entered (the source counts up from 0 and stops beyond 4), so it always ends.
\<close>

fun matchesCCSwitchUpstreamFailure :: "nat \<Rightarrow> json \<Rightarrow> bool" where
  "matchesCCSwitchUpstreamFailure 0 v = False"
| "matchesCCSwitchUpstreamFailure (Suc n) v =
     (case v of
        JObject ms \<Rightarrow>
          ccSwitchObject (json_map ms) \<or>
          list_ex (matchesCCSwitchUpstreamFailure n) (map snd (json_map ms))
      | JArray vs \<Rightarrow> list_ex (matchesCCSwitchUpstreamFailure n) vs
      | JString t \<Rightarrow>
          (case parse_json (trim_space t) of
             None \<Rightarrow> False
           | Some nested \<Rightarrow> matchesCCSwitchUpstreamFailure n nested)
      | _ \<Rightarrow> False)"

definition isCCSwitchUpstreamFailure :: "string \<Rightarrow> bool" where
  "isCCSwitchUpstreamFailure text =
     (case parse_json (trim_space text) of
        None \<Rightarrow> False
      | Some v \<Rightarrow> matchesCCSwitchUpstreamFailure 5 v)"

subsection \<open>The decision\<close>

definition decide :: "bool \<Rightarrow> FailureClass \<Rightarrow> int \<Rightarrow> string \<Rightarrow> RetryDecision" where
  "decide retry cls maxAttempts reason =
     \<lparr>r_Retry = retry, r_Class = cls, r_MaxAttempts = maxAttempts, r_MaxConsecutive = 0,
      r_Reason = reason\<rparr>"

definition cancel_words :: "string list" where
  "cancel_words =
     [''cancelled by user'', ''canceled by user'', ''user cancelled'', ''user canceled'',
      ''interrupted by user'', ''aborted by user'', ''turn aborted'', ''task was cancelled'']"

definition permanent_words :: "string list" where
  "permanent_words =
     [''context length'', ''maximum context'', ''prompt is too long'', ''input is too long'',
      ''invalid_request'', ''invalid request'', ''invalid payload'', ''malformed'', ''schema error'',
      ''model not found'', ''unknown model'', ''does not exist'', ''approval required'',
      ''permission denied'', ''policy violation'', ''content policy'', ''unsupported parameter'']"

definition auth_transient_words :: "string list" where
  "auth_transient_words =
     [''auth_unavailable'', ''auth unavailable'', ''no auth available'',
      ''no account is currently schedulable'', ''authentication service unavailable'',
      ''login service unavailable'', ''oauth service unavailable'', ''cooling down'', ''cooldown'',
      ''temporarily unavailable authentication'']"

definition rate_limit_words :: "string list" where
  "rate_limit_words =
     [''rate limit'', ''too many requests'', ''quota temporarily'', ''capacity'', ''overloaded'',
      ''try again later'']"

definition network_words :: "string list" where
  "network_words =
     [''connection reset'', ''connection refused'', ''connection closed'', ''connection error'',
      ''failed to connect'', ''could not connect'', ''network error'', ''network is unreachable'',
      ''dns error'', ''name resolution'', ''timed out'', ''timeout'', ''deadline exceeded'',
      ''error sending request'', ''request failed'', ''transport error'', ''broken pipe'',
      ''stream disconnected'', ''stream closed'', ''stream ended'', ''incomplete stream'',
      ''websocket'', ''tls handshake'', ''service unavailable'', ''bad gateway'', ''gateway timeout'']"

definition auth_words :: "string list" where
  "auth_words =
     [''unauthorized'', ''not authenticated'', ''authentication required'', ''login required'',
      ''please log in'', ''token expired'', ''token refresh'', ''invalid api key'',
      ''incorrect api key'', ''credential'', ''access denied'', ''forbidden'']"

text \<open>The cases after the permanent words, on the lower-cased text.\<close>

definition classify_status :: "string \<Rightarrow> Config \<Rightarrow> RetryDecision" where
  "classify_status text cfg =
     (let status = extractStatus text
      in if status = 408 \<or> status = 425 then decide True classTransient 0 ''temporary HTTP status''
         else if status = 429 then decide True classRateLimit 0 ''rate limited''
         else if 500 \<le> status \<and> status \<le> 599 then decide True classServer 0 ''provider server error''
         else if status \<in> {400, 404, 405, 409, 410, 413, 415, 422}
           then decide False classNone 0 ''non-retryable HTTP status''
         else if containsAny text auth_transient_words
           then decide True classAuthTransient 0 ''temporary authentication service failure''
         else if containsAny text rate_limit_words
           then decide True classRateLimit 0 ''provider capacity or rate limit''
         else if containsAny text network_words
           then decide True classTransient 0 ''network or stream failure''
         else if status = 401 \<or> status = 403 \<or> containsAny text auth_words
           then decide True classAuthLimited (c_AuthMaxAttempts cfg) ''authentication may require user action''
         else decide True classUnknown (c_UnknownMaxAttempts cfg) ''unknown provider failure'')"

definition classifyFailure :: "string \<Rightarrow> Config \<Rightarrow> RetryDecision" where
  "classifyFailure errorText cfg =
     (let text = to_lower (trim_space errorText)
      in if text = [] then decide False classNone 0 ''empty error''
         else if containsAny text cancel_words then decide False classNone 0 ''user cancellation''
         else if isCCSwitchUpstreamFailure text
           then decide True classTransient 0 ''CC Switch upstream request failed''
         else if containsAny text permanent_words
           then decide False classNone 0 ''permanent request or policy error''
         else classify_status text cfg)"

definition classifyCompletionFailure :: "RelevantEvent \<Rightarrow> Config \<Rightarrow> RetryDecision" where
  "classifyCompletionFailure event cfg =
     (if trim_space (e_ErrorText event) \<noteq> [] then classifyFailure (e_ErrorText event) cfg
      else if e_FinalKnown event \<and> \<not> e_FinalPresent event
        then decide True classEmptyResponse 0 ''provider completed without a final response''
      else decide False classNone 0 ''successful completion'')"

definition completionSucceeded :: "RelevantEvent \<Rightarrow> bool" where
  "completionSucceeded event \<longleftrightarrow>
     trim_space (e_ErrorText event) = [] \<and> (\<not> e_FinalKnown event \<or> e_FinalPresent event)"

lemma decide_simps [simp]:
  "r_Retry (decide b k n s) = b" "r_Class (decide b k n s) = k"
  "r_MaxAttempts (decide b k n s) = n" "r_MaxConsecutive (decide b k n s) = 0"
  "r_Reason (decide b k n s) = s"
  by (simp_all add: decide_def)

lemmas classify_defs = classifyFailure_def classify_status_def Let_def

end
