(* ===== verification/Thread_Rules.thy ===== *)
theory Thread_Rules
  imports Daemon_State Classifier
begin

section \<open>Decisions over one thread record (goal\_recovery.go, transport\_recovery.go, subagent\_recovery.go, retry\_state.go)\<close>

text \<open>
  The functions without effect that the handlers consult: when a held goal stops a retry, when
  a turn that Codex started by itself is adopted as the retry, when a stopped retry may rejoin
  the automatic chain, and how many attempts a failure class is allowed. Durations of the
  source are its constants.
\<close>

definition maxAutomaticRecoveryDuration :: duration where
  "maxAutomaticRecoveryDuration = 30 * Minute"

definition nativeGoalContinuationWindow :: duration where
  "nativeGoalContinuationWindow = 5 * Second"

definition stoppedRetryDisplayWindow :: duration where
  "stoppedRetryDisplayWindow = Hour"

lemmas window_defs =
  maxAutomaticRecoveryDuration_def nativeGoalContinuationWindow_def stoppedRetryDisplayWindow_def

subsection \<open>Goals\<close>

definition automaticGoalLimitStopped :: "ThreadState \<Rightarrow> bool" where
  "automaticGoalLimitStopped thread \<longleftrightarrow>
     (case t_Stopped thread of None \<Rightarrow> False | Some s \<Rightarrow> isGoalEmptyResponseStopReason (s_Reason s))"

definition goalLimitRestartPending :: "ThreadState \<Rightarrow> bool" where
  "goalLimitRestartPending thread \<longleftrightarrow>
     (case t_Pending thread of None \<Rightarrow> False | Some p \<Rightarrow> p_GoalLimitRestart p) \<or>
     (case t_Awaiting thread of None \<Rightarrow> False | Some a \<Rightarrow> a_GoalLimitRestart a)"

definition goalHoldStatusForReason :: "string \<Rightarrow> string \<times> bool" where
  "goalHoldStatusForReason reason =
     (if reason = ''goal_paused'' then (''paused'', True)
      else if reason = ''goal_completed'' then (''completed'', True)
      else if reason = ''goal_usage_limited'' then (''usageLimited'', True)
      else if reason = ''goal_budget_limited'' then (''budgetLimited'', True)
      else if reason = ''goal_blocked_before_failure'' then (''blocked'', True)
      else if reason = ''goal_status_changed'' \<or> reason = ''goal_status_unsupported'' then ([], True)
      else ([], False))"

definition heldConversationAllowed :: "string \<Rightarrow> gotime \<Rightarrow> gotime \<Rightarrow> bool" where
  "heldConversationAllowed status goalUpdatedAt originTurnStartedAt \<longleftrightarrow>
     (if is_zero originTurnStartedAt \<or> (status \<noteq> ''paused'' \<and> status \<noteq> ''blocked'') then False
      else is_zero goalUpdatedAt \<or> \<not> After goalUpdatedAt originTurnStartedAt)"

definition heldConversationStillAllowed :: "ThreadState \<Rightarrow> string \<Rightarrow> gotime \<Rightarrow> bool" where
  "heldConversationStillAllowed thread status goalUpdatedAt \<longleftrightarrow>
     (let origin = (case t_Pending thread of
            Some p \<Rightarrow> p_OriginTurnStartedAt p
          | None \<Rightarrow> (case t_Awaiting thread of Some a \<Rightarrow> a_OriginTurnStartedAt a | None \<Rightarrow> 0))
      in heldConversationAllowed status goalUpdatedAt origin)"

definition goalBlockedByFailure :: "gotime \<Rightarrow> gotime \<Rightarrow> bool" where
  "goalBlockedByFailure goalUpdatedAt failureAt \<longleftrightarrow>
     (if is_zero goalUpdatedAt \<or> is_zero failureAt then False
      else \<not> Before goalUpdatedAt (failureAt + (-2 * Second)) \<and>
           \<not> After goalUpdatedAt (failureAt + 5 * Second))"

definition goalRequiresHold :: "string \<Rightarrow> gotime \<Rightarrow> gotime \<Rightarrow> bool" where
  "goalRequiresHold status goalUpdatedAt failureAt \<longleftrightarrow>
     (if status = ''active'' then False
      else if status = ''blocked'' then \<not> goalBlockedByFailure goalUpdatedAt failureAt
      else True)"

subsection \<open>Adopting a turn that Codex started\<close>

definition canAdoptNativeGoalTurn :: "ThreadState \<Rightarrow> RelevantEvent \<Rightarrow> bool" where
  "canAdoptNativeGoalTurn thread event \<longleftrightarrow>
     (case t_Pending thread of
        None \<Rightarrow> False
      | Some pending \<Rightarrow>
          if p_Class pending \<noteq> classEmptyResponse \<or> t_GoalStatus thread \<noteq> ''active'' \<or>
             t_GoalHeld thread \<or> e_TurnID event = [] \<or> is_zero (p_FailedAt pending) \<or>
             Before (e_Timestamp event) (p_FailedAt pending)
          then False
          else \<not> After (e_Timestamp event) (p_FailedAt pending + nativeGoalContinuationWindow))"

definition canAdoptSubagentTurn :: "ThreadState \<Rightarrow> RelevantEvent \<Rightarrow> bool" where
  "canAdoptSubagentTurn thread event \<longleftrightarrow>
     (case t_Pending thread of
        None \<Rightarrow> False
      | Some pending \<Rightarrow>
          p_ParentNotified pending \<and> p_Class pending = classEmptyResponse \<and>
          e_TurnID event \<noteq> [] \<and> \<not> is_zero (p_FailedAt pending) \<and>
          \<not> Before (e_Timestamp event) (p_FailedAt pending))"

subsection \<open>Reopening a stopped retry\<close>

definition recovery_start :: "ThreadState \<Rightarrow> StoppedRetry \<Rightarrow> gotime" where
  "recovery_start thread s =
     (if is_zero (t_RecoveryStartedAt thread) then s_FailedAt s else t_RecoveryStartedAt thread)"

definition known_unsent :: "ThreadState \<Rightarrow> StoppedRetry \<Rightarrow> bool" where
  "known_unsent thread s \<longleftrightarrow>
     (let legacyUnsent = (s_TransportBlocked s = None \<and> s_Attempts s = 0 \<and>
            s_ConsecutiveRetries s = 0 \<and> \<not> After (t_LastAutoRetryAt thread) (s_FailedAt s));
          knownUnsent = (s_TransportBlocked s = Some True)
      in knownUnsent \<or> legacyUnsent)"

definition canReopenTransportRetry :: "ThreadState \<Rightarrow> gotime \<Rightarrow> bool" where
  "canReopenTransportRetry thread now \<longleftrightarrow>
     (case t_Stopped thread of
        None \<Rightarrow> False
      | Some s \<Rightarrow>
          let start = recovery_start thread s
          in if s_Historical s \<or> t_Pending thread \<noteq> None \<or> t_Awaiting thread \<noteq> None \<or>
                t_GoalStop thread \<noteq> None \<or> t_GoalHeld thread then False
             else if s_Reason s \<noteq> ''codex_restart_required'' \<and>
                     s_Reason s \<noteq> ''shared_app_server_disabled'' then False
             else if t_GoalStatus thread \<noteq> [] \<and> t_GoalStatus thread \<noteq> ''active'' then False
             else if is_zero start \<or> Before now start \<or>
                     time_sub now start > maxAutomaticRecoveryDuration then False
             else if is_zero (s_FailedAt s) \<or> Before now (s_FailedAt s) \<or>
                     time_sub now (s_FailedAt s) > maxAutomaticRecoveryDuration then False
             else if s_Reason s = ''shared_app_server_disabled'' \<and>
                     (\<not> known_unsent thread s \<or> s_FailedTurnID s = [] \<or> is_zero (s_FailedAt s) \<or>
                      t_LastStartedTurnID thread \<noteq> s_FailedTurnID s \<or>
                      After (t_LastStartedAt thread) (s_FailedAt s)) then False
             else if After (t_LastStartedAt thread) (s_FailedAt s) \<or>
                     After (t_LastExternalTurnAt thread) (s_FailedAt s) \<or>
                     (\<not> is_zero (t_LastAbortedAt thread) \<and>
                      \<not> Before (t_LastAbortedAt thread) (s_FailedAt s)) \<or>
                     (s_FailedTurnID s \<noteq> [] \<and> t_LastAbortedTurnID thread = s_FailedTurnID s) then False
             else True)"

subsection \<open>Limits and counters\<close>

definition externalTurnOrigin :: "ThreadState \<Rightarrow> RelevantEvent \<Rightarrow> gotime" where
  "externalTurnOrigin thread event =
     (if e_TurnID event = [] \<or> e_TurnID event \<noteq> t_LastExternalTurnID thread \<or>
         is_zero (t_LastExternalTurnAt thread) \<or>
         Before (e_Timestamp event) (t_LastExternalTurnAt thread)
      then 0 else t_LastExternalTurnAt thread)"

definition retryLimitsForDecision :: "RetryDecision \<Rightarrow> Config \<Rightarrow> int \<times> int" where
  "retryLimitsForDecision decision config =
     (let recoveryLimit = c_MaxRecoveryAttempts config;
          consecutiveLimit = c_MaxConsecutiveRetries config;
          recoveryLimit = (if r_MaxAttempts decision > 0 \<and> r_MaxAttempts decision < recoveryLimit
                           then r_MaxAttempts decision else recoveryLimit);
          consecutiveLimit =
            (if r_MaxConsecutive decision > 0 then
               (if r_MaxConsecutive decision < consecutiveLimit
                then r_MaxConsecutive decision else consecutiveLimit)
             else if r_MaxAttempts decision > 0 \<and> r_Class decision \<noteq> classUnknown then
               (if r_MaxAttempts decision < consecutiveLimit
                then r_MaxAttempts decision else consecutiveLimit)
             else consecutiveLimit)
      in (recoveryLimit, consecutiveLimit))"

definition retryLimits :: "FailureClass \<Rightarrow> Config \<Rightarrow> int \<times> int" where
  "retryLimits cls config =
     retryLimitsForDecision
       \<lparr>r_Retry = False, r_Class = cls,
        r_MaxAttempts = (case cls of
            classAuthLimited \<Rightarrow> c_AuthMaxAttempts config
          | classUnknown \<Rightarrow> c_UnknownMaxAttempts config
          | _ \<Rightarrow> 0),
        r_MaxConsecutive = 0, r_Reason = []\<rparr> config"

definition completedRetryCount :: "int \<Rightarrow> int" where
  "completedRetryCount nextAttempt = (let completed = nextAttempt - 1 in if completed < 0 then 0 else completed)"

definition retryStopReason :: "int \<Rightarrow> int \<Rightarrow> int \<Rightarrow> int \<Rightarrow> string" where
  "retryStopReason recoveryAttempt recoveryLimit consecutiveRetry consecutiveLimit =
     (if recoveryAttempt > recoveryLimit then ''recovery_attempt_limit''
      else if consecutiveRetry > consecutiveLimit then ''consecutive_retry_limit''
      else ''retry_limit'')"

definition retryStopReasonForClass ::
    "FailureClass \<Rightarrow> Config \<Rightarrow> int \<Rightarrow> int \<Rightarrow> int \<Rightarrow> int \<Rightarrow> string" where
  "retryStopReasonForClass cls config attempt limit consecutive consecutiveLimit =
     (if cls = classAuthLimited \<and>
         ((attempt > limit \<and> limit < c_MaxRecoveryAttempts config \<and> limit = c_AuthMaxAttempts config) \<or>
          (consecutive > consecutiveLimit \<and> consecutiveLimit < c_MaxConsecutiveRetries config \<and>
           consecutiveLimit = c_AuthMaxAttempts config))
      then ''auth_attempt_limit''
      else retryStopReason attempt limit consecutive consecutiveLimit)"

subsection \<open>Facts about the rules\<close>

lemma not_goal_reason [simp]:
  "\<not> isGoalEmptyResponseStopReason ''recovery_attempt_limit''"
  "\<not> isGoalEmptyResponseStopReason ''consecutive_retry_limit''"
  "\<not> isGoalEmptyResponseStopReason ''retry_limit''"
  "\<not> isGoalEmptyResponseStopReason ''auth_attempt_limit''"
  "\<not> isGoalEmptyResponseStopReason ''recovery_time_limit''"
  "\<not> isGoalEmptyResponseStopReason ''codex_restart_required''"
  "\<not> isGoalEmptyResponseStopReason ''shared_app_server_disabled''"
  by (simp_all add: isGoalEmptyResponseStopReason_def goalEmptyResponseStopReason_def
      goalEmptyResponseBlockFailReason_def)

lemma stop_reason_not_goal [simp]:
  "\<not> isGoalEmptyResponseStopReason (retryStopReasonForClass cls c a l n m)"
  by (simp add: retryStopReasonForClass_def retryStopReason_def)

lemma stop_reason_ne [simp]:
  "retryStopReasonForClass cls c a l n m \<noteq> goalEmptyResponseStopReason"
  by (metis goal_reasons(1) stop_reason_not_goal)

lemma time_limit_ne [simp]:
  "''recovery_time_limit'' \<noteq> goalEmptyResponseStopReason"
  by (simp add: goalEmptyResponseStopReason_def)

lemma automaticGoalLimitStopped_None [simp]: "t_Stopped t = None \<Longrightarrow> \<not> automaticGoalLimitStopped t"
  by (simp add: automaticGoalLimitStopped_def)

text \<open>A request to stop the goal makes the thread count as stopped at the goal limit.\<close>

lemma goal_stop_limit:
  "thread_ok t \<Longrightarrow> t_GoalStop t \<noteq> None \<Longrightarrow> automaticGoalLimitStopped t"
  by (auto simp: thread_ok_def automaticGoalLimitStopped_def split: option.splits)

lemma no_goal_stop: "thread_ok t \<Longrightarrow> \<not> automaticGoalLimitStopped t \<Longrightarrow> t_GoalStop t = None"
  using goal_stop_limit by blast

lemma canReopenD:
  assumes "canReopenTransportRetry t now"
  obtains s where "t_Stopped t = Some s" "\<not> s_Historical s" "t_Pending t = None" "t_Awaiting t = None"
    "t_GoalStop t = None" "\<not> t_GoalHeld t"
    "s_Reason s = ''codex_restart_required'' \<or> s_Reason s = ''shared_app_server_disabled''"
    "t_GoalStatus t = [] \<or> t_GoalStatus t = ''active''"
    "s_FailedAt s \<le> now" "now - s_FailedAt s \<le> maxAutomaticRecoveryDuration"
    "t_LastStartedAt t \<le> s_FailedAt s" "t_LastExternalTurnAt t \<le> s_FailedAt s"
    "s_FailedTurnID s = [] \<or> t_LastAbortedTurnID t \<noteq> s_FailedTurnID s"
    "s_Reason s = ''shared_app_server_disabled'' \<Longrightarrow>
       known_unsent t s \<and> s_FailedTurnID s \<noteq> [] \<and> t_LastStartedTurnID t = s_FailedTurnID s"
  using assms unfolding canReopenTransportRetry_def
  by (auto simp: Let_def window_defs split: option.splits if_splits)

lemma completedRetryCount_simps [simp]:
  "0 \<le> completedRetryCount n" "1 \<le> n \<Longrightarrow> completedRetryCount n = n - 1"
  by (simp_all add: completedRetryCount_def)

lemma retryLimits_le:
  "fst (retryLimitsForDecision dec c) \<le> c_MaxRecoveryAttempts c"
  "snd (retryLimitsForDecision dec c) \<le> c_MaxConsecutiveRetries c"
  by (simp_all add: retryLimitsForDecision_def Let_def)

lemma retryLimits_pos:
  "1 \<le> c_MaxRecoveryAttempts c \<Longrightarrow> 1 \<le> fst (retryLimitsForDecision dec c)"
  "1 \<le> c_MaxConsecutiveRetries c \<Longrightarrow> 1 \<le> snd (retryLimitsForDecision dec c)"
  by (simp_all add: retryLimitsForDecision_def Let_def)

lemma retryLimits_classified:
  "r_MaxConsecutive dec = 0 \<Longrightarrow>
   r_MaxAttempts dec = (case r_Class dec of classAuthLimited \<Rightarrow> c_AuthMaxAttempts c
     | classUnknown \<Rightarrow> c_UnknownMaxAttempts c | _ \<Rightarrow> 0) \<Longrightarrow>
   retryLimits (r_Class dec) c = retryLimitsForDecision dec c"
  by (cases "r_Class dec") (simp_all add: retryLimits_def retryLimitsForDecision_def Let_def)

end
