(* ===== verification/Retry_State.thy ===== *)
theory Retry_State
  imports Thread_Rules
begin

section \<open>Event handlers and the life of a retry (retry\_state.go)\<close>

text \<open>
  One definition per method of \<open>retry_state.go\<close>, each a function from the daemon to the daemon.
  A handler receives the copy of the thread record that \<open>handleEventLocked\<close> looked up and
  writes a changed copy back, or returns without writing, exactly where the source does.
\<close>

record sessionRoot =
  sr_Sessions :: string
  sr_ArchivedSessions :: string
  sr_CodexHome :: string

record scannedEvent =
  i_ThreadID :: string
  i_Root :: sessionRoot
  i_RolloutPath :: string
  i_Event :: RelevantEvent
  i_Mirrored :: bool

subsection \<open>Start-up and configuration\<close>

definition pending_of_awaiting :: "AwaitingRetry \<Rightarrow> gotime \<Rightarrow> PendingRetry" where
  "pending_of_awaiting awaiting due =
     \<lparr>p_EventKey = a_EventKey awaiting, p_FailedTurnID = a_FailedTurnID awaiting,
      p_FailedAt = a_FailedAt awaiting, p_OriginTurnStartedAt = a_OriginTurnStartedAt awaiting,
      p_Class = a_Class awaiting, p_DueAt = due, p_CodexHome = a_CodexHome awaiting,
      p_RolloutPath = a_RolloutPath awaiting, p_Attempt = a_Attempt awaiting,
      p_MaxAttempts = a_MaxAttempts awaiting, p_ConsecutiveRetry = a_ConsecutiveRetry awaiting,
      p_MaxConsecutive = a_MaxConsecutive awaiting, p_DispatchFailures = a_DispatchFailures awaiting,
      p_ParentNotified = a_ParentNotified awaiting, p_GoalLimitRestart = a_GoalLimitRestart awaiting\<rparr>"

definition reconcileThread :: "gotime \<Rightarrow> string \<Rightarrow> ThreadState \<Rightarrow> daemon \<Rightarrow> daemon" where
  "reconcileThread now threadID thread d =
     (case t_Awaiting thread of
        None \<Rightarrow> d
      | Some awaiting \<Rightarrow>
          if a_RetryTurnID awaiting \<noteq> [] then d
          else put_thread threadID
                 (thread\<lparr>t_Awaiting := None, t_Pending := Some (pending_of_awaiting awaiting now)\<rparr>) d)"

definition reconcileStartupState :: "gotime \<Rightarrow> string list \<Rightarrow> daemon \<Rightarrow> daemon" where
  "reconcileStartupState now ks d = for_threads ks (reconcileThread now) d"

definition stopPendingRetryLocked :: "string \<Rightarrow> ThreadState \<Rightarrow> gotime \<Rightarrow> daemon \<Rightarrow> daemon" where
  "stopPendingRetryLocked threadID thread now d =
     (case t_Pending thread of
        None \<Rightarrow> d
      | Some pending \<Rightarrow>
          let completedAttempts = completedRetryCount (p_Attempt pending);
              completedConsecutive = completedRetryCount (p_ConsecutiveRetry pending);
              reason = (if p_Class pending = classEmptyResponse \<and> t_GoalStatus thread = ''active''
                then goalEmptyResponseStopReason
                else retryStopReasonForClass (p_Class pending) (d_config d) (p_Attempt pending)
                       (p_MaxAttempts pending) (p_ConsecutiveRetry pending) (p_MaxConsecutive pending));
              thread = thread\<lparr>t_Pending := None, t_Awaiting := None,
                t_RecoveryAttempts := completedAttempts, t_ConsecutiveRetries := completedConsecutive,
                t_Stopped := Some \<lparr>s_EventKey = p_EventKey pending,
                  s_FailedTurnID = p_FailedTurnID pending, s_FailedAt = p_FailedAt pending,
                  s_OriginTurnStartedAt = p_OriginTurnStartedAt pending, s_Class = p_Class pending,
                  s_StoppedAt = now, s_CodexHome = p_CodexHome pending,
                  s_RolloutPath = p_RolloutPath pending, s_Attempts = completedAttempts,
                  s_MaxAttempts = p_MaxAttempts pending, s_ConsecutiveRetries = completedConsecutive,
                  s_MaxConsecutive = p_MaxConsecutive pending, s_Reason = reason,
                  s_Historical = False, s_TransportBlocked = None\<rparr>\<rparr>;
              thread = (if reason = goalEmptyResponseStopReason
                then thread\<lparr>t_GoalStop := Some \<lparr>g_EventKey = p_EventKey pending, g_Reason = reason,
                       g_RequestedAt = now, g_DueAt = now, g_DispatchFailures = 0\<rparr>\<rparr>
                else thread)
          in put_thread threadID thread d)"

text \<open>The loop body of \<open>reloadConfigLocked\<close>, after \<open>d.config\<close> was replaced.\<close>

definition relimitThread :: "gotime \<Rightarrow> string \<Rightarrow> ThreadState \<Rightarrow> daemon \<Rightarrow> daemon" where
  "relimitThread wallclock threadID thread d =
     (let thread = (case t_Awaiting thread of
            None \<Rightarrow> thread
          | Some a \<Rightarrow> thread\<lparr>t_Awaiting := Some (a\<lparr>
              a_MaxAttempts := fst (retryLimits (a_Class a) (d_config d)),
              a_MaxConsecutive := snd (retryLimits (a_Class a) (d_config d))\<rparr>)\<rparr>)
      in case t_Pending thread of
           None \<Rightarrow> if t_Awaiting thread \<noteq> None then put_thread threadID thread d else d
         | Some p \<Rightarrow>
             let (recoveryLimit, consecutiveLimit) = retryLimits (p_Class p) (d_config d);
                 thread = thread\<lparr>t_Pending := Some (p\<lparr>p_MaxAttempts := recoveryLimit,
                            p_MaxConsecutive := consecutiveLimit\<rparr>)\<rparr>
             in if p_Attempt p > recoveryLimit \<or> p_ConsecutiveRetry p > consecutiveLimit
                then stopPendingRetryLocked threadID thread wallclock d
                else put_thread threadID thread d)"

text \<open>
  \<open>loaded\<close> is what \<open>loadOrCreateConfig\<close> returned: the text of its error, or the configuration.
  \<open>wallclock\<close> is the \<open>time.Now()\<close> of the loop.
\<close>

definition reloadConfigLocked ::
    "string + Config \<Rightarrow> gotime \<Rightarrow> string list \<Rightarrow> daemon \<Rightarrow> daemon" where
  "reloadConfigLocked loaded wallclock ks d =
     (case loaded of
        Inl err \<Rightarrow> d\<lparr>d_lastError := err\<rparr>
      | Inr config \<Rightarrow>
          let wasSharedEnabled = c_SharedAppServerEnabled (d_config d);
              d = d\<lparr>d_config := config\<rparr>;
              d = (if \<not> wasSharedEnabled \<and> c_SharedAppServerEnabled config
                   then d\<lparr>d_sharedAppServerMemoryGuardTriggered := False,
                          d_sharedAppServerMemoryBytes := 0, d_lastSharedAppServerMemoryCheck := 0\<rparr>
                   else d);
              d = (if \<not> c_SharedAppServerEnabled config then
                     (if d_controllerState d = ''ready'' \<or> d_controllerState d = ''starting''
                      then d\<lparr>d_controllerState := ''shared_app_server_disabled''\<rparr> else d)
                   else if d_controllerState d = ''shared_app_server_disabled''
                     then d\<lparr>d_controllerState := ''starting''\<rparr> else d)
          in for_threads ks (relimitThread wallclock) d)"

subsection \<open>Cancelling and resetting\<close>

definition cleared :: "ThreadState \<Rightarrow> ThreadState" where
  "cleared thread = thread\<lparr>t_Pending := None, t_Awaiting := None, t_RecoveryAttempts := 0,
     t_ConsecutiveRetries := 0, t_CurrentTurnProgress := False, t_Stopped := None, t_GoalStop := None\<rparr>"

definition cancelRetryLocked :: "string \<Rightarrow> ThreadState \<Rightarrow> daemon \<Rightarrow> daemon" where
  "cancelRetryLocked threadID thread d = put_thread threadID (cleared thread) (cancel_ctx threadID d)"

definition resetRetryStateLocked :: "string \<Rightarrow> ThreadState \<Rightarrow> daemon \<Rightarrow> daemon" where
  "resetRetryStateLocked threadID thread d = put_thread threadID (cleared thread) d"

subsection \<open>Commands from the control panel\<close>

datatype ControlCommandAction =
    commandRetryNow | commandCancelRetry | commandRestartRetry | commandOther string

record ControlCommand =
  cc_Version :: int
  cc_Action :: ControlCommandAction
  cc_ThreadID :: string
  cc_CreatedAt :: gotime

definition restartedRetry :: "StoppedRetry \<Rightarrow> Config \<Rightarrow> gotime \<Rightarrow> PendingRetry" where
  "restartedRetry stopped config now =
     \<lparr>p_EventKey = s_EventKey stopped, p_FailedTurnID = s_FailedTurnID stopped,
      p_FailedAt = s_FailedAt stopped, p_OriginTurnStartedAt = s_OriginTurnStartedAt stopped,
      p_Class = s_Class stopped, p_DueAt = now, p_CodexHome = s_CodexHome stopped,
      p_RolloutPath = s_RolloutPath stopped, p_Attempt = 1,
      p_MaxAttempts = fst (retryLimits (s_Class stopped) config), p_ConsecutiveRetry = 1,
      p_MaxConsecutive = snd (retryLimits (s_Class stopped) config), p_DispatchFailures = 0,
      p_ParentNotified = False,
      p_GoalLimitRestart = isGoalEmptyResponseStopReason (s_Reason stopped)\<rparr>"

definition applyControlCommandLocked :: "ControlCommand \<Rightarrow> gotime \<Rightarrow> daemon \<Rightarrow> daemon" where
  "applyControlCommandLocked command now d =
     (case threads d (cc_ThreadID command) of
        None \<Rightarrow> d
      | Some thread \<Rightarrow>
          (case cc_Action command of
             commandRetryNow \<Rightarrow>
               (case t_Pending thread of
                  None \<Rightarrow> d
                | Some p \<Rightarrow> put_thread (cc_ThreadID command)
                              (thread\<lparr>t_Pending := Some (p\<lparr>p_DueAt := now\<rparr>)\<rparr>) d)
           | commandCancelRetry \<Rightarrow>
               (case t_Pending thread of
                  None \<Rightarrow> d
                | Some _ \<Rightarrow> put_thread (cc_ThreadID command)
                    (thread\<lparr>t_Pending := None, t_RecoveryAttempts := 0, t_ConsecutiveRetries := 0,
                       t_CurrentTurnProgress := False, t_GoalStop := None\<rparr>) d)
           | commandRestartRetry \<Rightarrow>
               (case t_Stopped thread of
                  None \<Rightarrow> d
                | Some stopped \<Rightarrow> put_thread (cc_ThreadID command)
                    (thread\<lparr>t_Stopped := None, t_GoalStop := None, t_GoalHeld := False,
                       t_RecoveryAttempts := 1, t_ConsecutiveRetries := 1, t_RecoveryStartedAt := now,
                       t_Pending := Some (restartedRetry stopped (d_config d) now)\<rparr>)
                    (cancel_ctx (cc_ThreadID command) d))
           | commandOther _ \<Rightarrow> d))"

subsection \<open>Scheduling after a failure\<close>

definition stopped_at_limit ::
    "scannedEvent \<Rightarrow> string \<Rightarrow> gotime \<Rightarrow> ThreadState \<Rightarrow> int \<Rightarrow> int \<Rightarrow> gotime \<Rightarrow> FailureClass \<Rightarrow> int \<times> int \<Rightarrow>
     string \<Rightarrow> ThreadState" where
  "stopped_at_limit item key now thread recoveryAttempt consecutiveRetry originTurnStartedAt cls limits reason =
     (let completedAttempts = completedRetryCount recoveryAttempt;
          completedConsecutive = completedRetryCount consecutiveRetry;
          thread = thread\<lparr>t_Pending := None, t_Awaiting := None,
            t_RecoveryAttempts := completedAttempts, t_ConsecutiveRetries := completedConsecutive,
            t_CurrentTurnProgress := False, t_LastFailureAt := e_Timestamp (i_Event item),
            t_Stopped := Some \<lparr>s_EventKey = key, s_FailedTurnID = e_TurnID (i_Event item),
              s_FailedAt = e_Timestamp (i_Event item), s_OriginTurnStartedAt = originTurnStartedAt,
              s_Class = cls, s_StoppedAt = now, s_CodexHome = sr_CodexHome (i_Root item),
              s_RolloutPath = i_RolloutPath item, s_Attempts = completedAttempts,
              s_MaxAttempts = fst limits, s_ConsecutiveRetries = completedConsecutive,
              s_MaxConsecutive = snd limits, s_Reason = reason, s_Historical = False,
              s_TransportBlocked = None\<rparr>\<rparr>
      in if reason = goalEmptyResponseStopReason
         then thread\<lparr>t_GoalStop := Some \<lparr>g_EventKey = key, g_Reason = reason, g_RequestedAt = now,
                g_DueAt = now, g_DispatchFailures = 0\<rparr>\<rparr>
         else thread)"

definition scheduled ::
    "scannedEvent \<Rightarrow> string \<Rightarrow> gotime \<Rightarrow> ThreadState \<Rightarrow> int \<Rightarrow> int \<Rightarrow> gotime \<Rightarrow> bool \<Rightarrow> FailureClass \<Rightarrow> int \<times> int \<Rightarrow>
     duration \<Rightarrow> ThreadState" where
  "scheduled item key now thread recoveryAttempt consecutiveRetry originTurnStartedAt parentNotified cls limits delay =
     thread\<lparr>t_RecoveryAttempts := recoveryAttempt, t_ConsecutiveRetries := consecutiveRetry,
       t_CurrentTurnProgress := False, t_LastFailureAt := e_Timestamp (i_Event item),
       t_Awaiting := None, t_Stopped := None, t_GoalStop := None,
       t_Pending := Some \<lparr>p_EventKey = key, p_FailedTurnID = e_TurnID (i_Event item),
         p_FailedAt = e_Timestamp (i_Event item), p_OriginTurnStartedAt = originTurnStartedAt,
         p_Class = cls, p_DueAt = now + delay, p_CodexHome = sr_CodexHome (i_Root item),
         p_RolloutPath = i_RolloutPath item, p_Attempt = recoveryAttempt, p_MaxAttempts = fst limits,
         p_ConsecutiveRetry = consecutiveRetry, p_MaxConsecutive = snd limits,
         p_DispatchFailures = 0, p_ParentNotified = parentNotified, p_GoalLimitRestart = False\<rparr>\<rparr>"

text \<open>The bookkeeping before the decision: when the recovery began, and a goal block this failure caused.\<close>

definition failure_prelude :: "scannedEvent \<Rightarrow> gotime \<Rightarrow> ThreadState \<Rightarrow> ThreadState" where
  "failure_prelude item now thread =
     (let thread = (if t_RecoveryAttempts thread = 0 \<and> t_ConsecutiveRetries thread = 0
                    then thread\<lparr>t_RecoveryStartedAt := now\<rparr> else thread);
          thread = (if is_zero (t_RecoveryStartedAt thread)
                    then thread\<lparr>t_RecoveryStartedAt := now\<rparr> else thread)
      in if t_GoalHeld thread \<and> t_GoalStatus thread = ''blocked'' \<and>
            goalBlockedByFailure (t_GoalUpdatedAt thread) (e_Timestamp (i_Event item))
         then thread\<lparr>t_GoalHeld := False\<rparr> else thread)"

definition scheduleFailureLocked ::
    "scannedEvent \<Rightarrow> string \<Rightarrow> gotime \<Rightarrow> ThreadState \<Rightarrow> int \<Rightarrow> int \<Rightarrow> gotime \<Rightarrow> bool \<Rightarrow> daemon \<Rightarrow> daemon" where
  "scheduleFailureLocked item key now thread recoveryAttempt consecutiveRetry originTurnStartedAt parentNotified d =
     (let thread = failure_prelude item now thread
      in if t_GoalHeld thread \<and>
            \<not> heldConversationAllowed (t_GoalStatus thread) (t_GoalUpdatedAt thread) originTurnStartedAt
         then put_thread (i_ThreadID item)
                (thread\<lparr>t_Pending := None, t_Awaiting := None, t_RecoveryAttempts := 0,
                   t_ConsecutiveRetries := 0, t_CurrentTurnProgress := False,
                   t_LastFailureAt := e_Timestamp (i_Event item)\<rparr>) d
         else
           let decision = classifyCompletionFailure (i_Event item) (d_config d)
           in if \<not> r_Retry decision then resetRetryStateLocked (i_ThreadID item) thread d
              else
                let limits = retryLimitsForDecision decision (d_config d);
                    timeLimitExceeded =
                      time_sub now (t_RecoveryStartedAt thread) > maxAutomaticRecoveryDuration
                in if timeLimitExceeded \<or> recoveryAttempt > fst limits \<or> consecutiveRetry > snd limits
                   then
                     let reason =
                       (if r_Class decision = classEmptyResponse \<and> t_GoalStatus thread = ''active''
                        then goalEmptyResponseStopReason
                        else if timeLimitExceeded then ''recovery_time_limit''
                        else retryStopReasonForClass (r_Class decision) (d_config d) recoveryAttempt
                               (fst limits) consecutiveRetry (snd limits))
                     in put_thread (i_ThreadID item)
                          (stopped_at_limit item key now thread recoveryAttempt consecutiveRetry
                             originTurnStartedAt (r_Class decision) limits reason) d
                   else put_thread (i_ThreadID item)
                          (scheduled item key now thread recoveryAttempt consecutiveRetry
                             originTurnStartedAt parentNotified (r_Class decision) limits
                             (retryDelay consecutiveRetry (d_config d))) d)"

subsection \<open>The event handlers\<close>

definition note_external :: "RelevantEvent \<Rightarrow> ThreadState \<Rightarrow> ThreadState" where
  "note_external event thread =
     thread\<lparr>t_LastExternalTurnID := e_TurnID event, t_LastExternalTurnAt := e_Timestamp event\<rparr>"

definition adoptedTurn :: "PendingRetry \<Rightarrow> RelevantEvent \<Rightarrow> RetryAction \<Rightarrow> AwaitingRetry" where
  "adoptedTurn pending event action =
     \<lparr>a_EventKey = p_EventKey pending, a_FailedTurnID = p_FailedTurnID pending,
      a_FailedAt = p_FailedAt pending, a_OriginTurnStartedAt = p_OriginTurnStartedAt pending,
      a_RetryTurnID = e_TurnID event, a_Class = p_Class pending, a_Action = action,
      a_Attempt = p_Attempt pending, a_MaxAttempts = p_MaxAttempts pending,
      a_ConsecutiveRetry = p_ConsecutiveRetry pending, a_MaxConsecutive = p_MaxConsecutive pending,
      a_DispatchFailures = p_DispatchFailures pending, a_ParentNotified = p_ParentNotified pending,
      a_GoalLimitRestart = p_GoalLimitRestart pending, a_DispatchStartedAt = e_Timestamp event,
      a_StartDeadline = 0, a_StartedAt = e_Timestamp event, a_LifecycleChecks = 0,
      a_LastLifecycleCheckAt = 0, a_CodexHome = p_CodexHome pending, a_RolloutPath = p_RolloutPath pending\<rparr>"

definition withinDispatchWindow :: "AwaitingRetry \<Rightarrow> RelevantEvent \<Rightarrow> bool" where
  "withinDispatchWindow awaiting event \<longleftrightarrow>
     \<not> Before (e_Timestamp event) (a_DispatchStartedAt awaiting + (-2 * Second)) \<and>
     (is_zero (a_StartDeadline awaiting) \<or>
      \<not> After (e_Timestamp event) (a_StartDeadline awaiting + 2 * Second))"

definition adoption_action :: "ThreadState \<Rightarrow> RelevantEvent \<Rightarrow> RetryAction option" where
  "adoption_action thread event =
     (if canAdoptNativeGoalTurn thread event then Some actionGoalActive
      else if canAdoptSubagentTurn thread event then Some actionSubagentContinue
      else None)"

definition handleTaskStartedLocked :: "string \<Rightarrow> RelevantEvent \<Rightarrow> ThreadState \<Rightarrow> daemon \<Rightarrow> daemon" where
  "handleTaskStartedLocked threadID event thread d =
     (let thread = thread\<lparr>t_LastStartedTurnID := e_TurnID event,
            t_LastStartedAt := e_Timestamp event, t_CurrentTurnProgress := False\<rparr>
      in if automaticGoalLimitStopped thread then put_thread threadID thread d
         else case t_Awaiting thread of
           Some awaiting \<Rightarrow>
             if a_RetryTurnID awaiting = [] \<and> e_TurnID event \<noteq> [] \<and> withinDispatchWindow awaiting event
             then put_thread threadID
                    (thread\<lparr>t_Awaiting := Some (awaiting\<lparr>a_RetryTurnID := e_TurnID event,
                       a_StartedAt := e_Timestamp event\<rparr>)\<rparr>) d
             else if a_RetryTurnID awaiting = e_TurnID event then d
             else cancelRetryLocked threadID (note_external event thread) d
         | None \<Rightarrow>
             (case t_Pending thread of
                Some pending \<Rightarrow>
                  (case adoption_action thread event of
                     Some action \<Rightarrow>
                       put_thread threadID
                         (thread\<lparr>t_Pending := None, t_LastAutoRetryAt := e_Timestamp event,
                            t_Awaiting := Some (adoptedTurn pending event action)\<rparr>) d
                   | None \<Rightarrow> cancelRetryLocked threadID (note_external event thread) d)
              | None \<Rightarrow>
                  put_thread threadID
                    ((note_external event thread)\<lparr>t_RecoveryAttempts := 0, t_ConsecutiveRetries := 0,
                       t_Stopped := None, t_GoalStop := None\<rparr>) d))"

definition handleTaskUserInputLocked :: "string \<Rightarrow> RelevantEvent \<Rightarrow> ThreadState \<Rightarrow> daemon \<Rightarrow> daemon" where
  "handleTaskUserInputLocked threadID event thread d =
     (if automaticGoalLimitStopped thread then d
      else
        let turnID = (if e_TurnID event = [] then t_LastStartedTurnID thread else e_TurnID event);
            continue = (if t_Pending thread \<noteq> None \<and> turnID \<noteq> [] \<and> turnID = t_LastStartedTurnID thread
                        then cancelRetryLocked threadID thread d else d)
        in case t_Awaiting thread of
             Some awaiting \<Rightarrow>
               if a_RetryTurnID awaiting = turnID then
                 (if a_Action awaiting \<noteq> actionGoalActive \<and> a_Action awaiting \<noteq> actionGoalResume then d
                  else cancelRetryLocked threadID thread d)
               else continue
           | None \<Rightarrow> continue)"

definition handleTaskProgressLocked :: "string \<Rightarrow> RelevantEvent \<Rightarrow> ThreadState \<Rightarrow> daemon \<Rightarrow> daemon" where
  "handleTaskProgressLocked threadID event thread d =
     (case t_Awaiting thread of
        None \<Rightarrow> d
      | Some awaiting \<Rightarrow>
          if a_RetryTurnID awaiting = [] \<or> a_RetryTurnID awaiting \<noteq> t_LastStartedTurnID thread \<or>
             (\<not> is_zero (a_StartedAt awaiting) \<and> Before (e_Timestamp event) (a_StartedAt awaiting))
          then d
          else put_thread threadID (thread\<lparr>t_CurrentTurnProgress := True\<rparr>) d)"

definition handleTurnAbortedLocked :: "string \<Rightarrow> RelevantEvent \<Rightarrow> ThreadState \<Rightarrow> daemon \<Rightarrow> daemon" where
  "handleTurnAbortedLocked threadID event thread d =
     (let abortedTurnID = (if e_TurnID event = [] then t_LastStartedTurnID thread else e_TurnID event);
          thread = thread\<lparr>t_LastAbortedTurnID := abortedTurnID, t_LastAbortedAt := e_Timestamp event\<rparr>
      in if automaticGoalLimitStopped thread then put_thread threadID thread d
         else put_thread threadID (cleared thread) (cancel_ctx threadID d))"

definition handleTaskCompleteLocked ::
    "scannedEvent \<Rightarrow> string \<Rightarrow> gotime \<Rightarrow> ThreadState \<Rightarrow> daemon \<Rightarrow> daemon" where
  "handleTaskCompleteLocked item key now thread d =
     (let event = i_Event item; threadID = i_ThreadID item
      in if automaticGoalLimitStopped thread then put_thread threadID thread d
         else if e_TurnID event \<noteq> [] \<and> e_TurnID event = t_LastAbortedTurnID thread
           then resetRetryStateLocked threadID thread d
         else case t_Awaiting thread of
           Some awaiting \<Rightarrow>
             if a_RetryTurnID awaiting = [] \<or> a_RetryTurnID awaiting \<noteq> e_TurnID event then d
             else if completionSucceeded event then resetRetryStateLocked threadID thread d
             else
               let nextConsecutive = (if t_CurrentTurnProgress thread then 1
                                      else a_ConsecutiveRetry awaiting + 1)
               in scheduleFailureLocked item key now
                    (thread\<lparr>t_CurrentTurnProgress := False, t_Awaiting := None\<rparr>)
                    (a_Attempt awaiting + 1) nextConsecutive (a_OriginTurnStartedAt awaiting)
                    (a_ParentNotified awaiting) d
         | None \<Rightarrow>
             (case t_Pending thread of
                Some pending \<Rightarrow>
                  if p_FailedTurnID pending \<noteq> e_TurnID event then d
                  else if completionSucceeded event then resetRetryStateLocked threadID thread d
                  else d
              | None \<Rightarrow>
                  if completionSucceeded event then resetRetryStateLocked threadID thread d
                  else scheduleFailureLocked item key now (thread\<lparr>t_CurrentTurnProgress := False\<rparr>)
                         1 1 (externalTurnOrigin thread event) False d))"

end
