(* ===== verification/Memory_Guard.thy ===== *)
theory Memory_Guard
  imports Prelude
begin

section \<open>The memory guard (memory\_guard.go)\<close>

text \<open>
  The guard that samples the watchdog's private memory, with its two callbacks as a log of
  calls. \<open>uint64\<close> is \<open>64 word\<close>; its arithmetic wraps as Go's does. The run of the guard is a
  fold over what the successive reads return: the ticker gives it one read after another until
  one of them stops it or the context ends the list.
\<close>

definition memoryCheckInterval :: duration where
  "memoryCheckInterval = 5 * Second"

record memorySample =
  ms_PrivateBytes :: "64 word"
  ms_CheckedAt :: gotime

datatype guard_call = onSample memorySample | onLimit memorySample

record processMemoryGuard =
  mg_limitBytes :: "64 word"
  mg_interval :: duration
  mg_triggered :: bool

definition newProcessMemoryGuard :: "int \<Rightarrow> duration \<Rightarrow> processMemoryGuard" where
  "newProcessMemoryGuard limitMB interval =
     \<lparr>mg_limitBytes = (if limitMB > 0 then word_of_int limitMB * 1024 * 1024 else 0),
      mg_interval = (if interval \<le> 0 then memoryCheckInterval else interval),
      mg_triggered = False\<rparr>"

text \<open>The closure \<open>check\<close>: the guard afterwards, the callbacks it made, whether it stops the loop.\<close>

definition guard_check ::
    "(64 word \<times> gotime) option \<Rightarrow> processMemoryGuard \<Rightarrow> processMemoryGuard \<times> guard_call list \<times> bool" where
  "guard_check read_result g =
     (case read_result of
        None \<Rightarrow> (g, [], False)
      | Some (bytes, checkedAt) \<Rightarrow>
          let sample = \<lparr>ms_PrivateBytes = bytes, ms_CheckedAt = checkedAt\<rparr>
          in if bytes < mg_limitBytes g \<or> mg_triggered g then (g, [onSample sample], False)
             else (g\<lparr>mg_triggered := True\<rparr>, [onSample sample, onLimit sample], True))"

fun guard_loop ::
    "(64 word \<times> gotime) option list \<Rightarrow> processMemoryGuard \<Rightarrow> processMemoryGuard \<times> guard_call list" where
  "guard_loop [] g = (g, [])"
| "guard_loop (r # rs) g =
     (case guard_check r g of
        (g', calls, True) \<Rightarrow> (g', calls)
      | (g', calls, False) \<Rightarrow> (case guard_loop rs g' of (g'', later) \<Rightarrow> (g'', calls @ later)))"

definition guard_run ::
    "(64 word \<times> gotime) option list \<Rightarrow> processMemoryGuard \<Rightarrow> processMemoryGuard \<times> guard_call list" where
  "guard_run reads g = (if mg_limitBytes g = 0 then (g, []) else guard_loop reads g)"

text \<open>The conversion to \<open>int64\<close> reads the word as a signed number.\<close>

definition memoryBytesToMB :: "64 word \<Rightarrow> int" where
  "memoryBytesToMB bytes =
     (if bytes = 0 then 0 else sint ((bytes + 1024 * 1024 - 1) div (1024 * 1024)))"

subsection \<open>Properties\<close>

definition is_limit_call :: "guard_call \<Rightarrow> bool" where
  "is_limit_call c = (case c of onLimit _ \<Rightarrow> True | onSample _ \<Rightarrow> False)"

text \<open>The limit callback runs for the first sample at or over the limit, and for no other.\<close>

definition over_limit :: "64 word \<Rightarrow> (64 word \<times> gotime) option \<Rightarrow> bool" where
  "over_limit limit r = (case r of None \<Rightarrow> False | Some (bytes, _) \<Rightarrow> limit \<le> bytes)"

lemma guard_loop_limit_calls:
  "\<not> mg_triggered g \<Longrightarrow>
   filter is_limit_call (snd (guard_loop rs g)) =
   (case find (over_limit (mg_limitBytes g)) rs of
      Some (Some (bytes, at)) \<Rightarrow> [onLimit \<lparr>ms_PrivateBytes = bytes, ms_CheckedAt = at\<rparr>]
    | _ \<Rightarrow> [])"
proof (induction rs)
  case Nil
  then show ?case by simp
next
  case (Cons r rs)
  then show ?case
    by (cases r) (auto simp: guard_check_def over_limit_def is_limit_call_def Let_def not_le
        split: prod.splits)
qed

lemma limit_bytes_exact:
  assumes "0 < limitMB" and "limitMB \<le> 65536"
  shows "uint (mg_limitBytes (newProcessMemoryGuard limitMB i)) = limitMB * 1048576"
proof -
  have "word_of_int limitMB * 1024 * 1024 = (word_of_int (limitMB * 1048576) :: 64 word)"
    by (simp flip: wi_hom_mult add: mult.commute)
  moreover have "uint (word_of_int (limitMB * 1048576) :: 64 word) = limitMB * 1048576"
    using assms by (simp only: uint_word_of_int) simp
  ultimately show ?thesis
    using assms(1) by (simp only: newProcessMemoryGuard_def processMemoryGuard.simps if_True)
qed

lemma memoryBytesToMB_ceiling:
  assumes "uint bytes \<le> 2 ^ 64 - 2 ^ 20"
  shows "memoryBytesToMB bytes = (uint bytes + 1048575) div 1048576"
proof (cases "bytes = 0")
  case True
  then show ?thesis by (simp add: memoryBytesToMB_def)
next
  case False
  have "uint (bytes + 1024 * 1024 - 1) = uint bytes + 1048575"
  proof -
    have "bytes + 1024 * 1024 - 1 = bytes + 1048575" by simp
    moreover have "uint (bytes + 1048575) = uint bytes + 1048575"
      using assms by (subst uint_plus_if_size) (simp add: word_size)
    ultimately show ?thesis by (simp add: add.commute)
  qed
  then have "uint ((bytes + 1024 * 1024 - 1) div (1024 * 1024)) = (uint bytes + 1048575) div 1048576"
    by (simp add: uint_div)
  moreover have "0 \<le> (uint bytes + 1048575) div 1048576" (is "0 \<le> ?mb")
    by (rule div_int_pos_iff [THEN iffD2]) (use uint_ge_0 [of bytes] in linarith)
  moreover from this have "- (2 ^ 63) \<le> ?mb"
    by (rule order_trans [rotated]) simp
  moreover have "(uint bytes + 1048575) div 1048576 < 2 ^ 63"
    using assms by simp
  ultimately show ?thesis
    using False by (simp add: memoryBytesToMB_def sint_uint signed_take_bit_int_eq_self_iff)
qed

end
