(* ===== verification/Status.thy ===== *)
theory Status
  imports Daemon_State Memory_Guard
begin

section \<open>Persisting the state and publishing the status (daemon.go)\<close>

text \<open>
  The outcome of a file write is an argument. \<open>persistStateLocked\<close> is what remains of it in the
  daemon: the deferred flag and the error text. \<open>statusSnapshot\<close> is the record that
  \<open>writeStatusLocked\<close> writes; the identity of the build and of the process is an argument.
\<close>

definition persistStateLocked :: "bool \<Rightarrow> daemon \<Rightarrow> daemon" where
  "persistStateLocked write_ok d =
     (if \<not> write_ok then d\<lparr>d_stateWriteDeferred := True, d_lastError := ''state_write_deferred''\<rparr>
      else if d_stateWriteDeferred d then
        (let d = d\<lparr>d_stateWriteDeferred := False\<rparr>
         in if d_lastError d = ''state_write_deferred'' then d\<lparr>d_lastError := []\<rparr> else d)
      else d)"

record StatusSnapshot =
  st_BuildSourceHash :: string
  st_DesktopLaunchMode :: string
  st_DesktopTransport :: string
  st_RecoveryMode :: string
  st_AutomaticRecoverySupported :: bool
  st_RecoveryCapabilityReason :: string
  st_Version :: string
  st_Running :: bool
  st_PID :: int
  st_StartedAt :: gotime
  st_LastScanAt :: gotime
  st_WatchedRoots :: int
  st_PendingRetries :: int
  st_ActiveRetries :: int
  st_Paused :: bool
  st_SharedAppServerEnabled :: bool
  st_SharedAppServerRequested :: bool
  st_ControllerState :: string
  st_LastError :: string
  st_MemoryUsageMB :: int
  st_MemoryLimitMB :: int
  st_MemoryGuardTriggered :: bool
  st_SharedAppServerMemoryUsageMB :: int
  st_SharedAppServerMemoryLimitMB :: int
  st_SharedAppServerMemoryGuardTriggered :: bool
  st_RetrySafetyWarning :: "(int \<times> int) option"
  st_LogPath :: string

record process_identity =
  pi_BuildSourceHash :: string
  pi_Version :: string
  pi_PID :: int
  pi_LogPath :: string

definition count_threads :: "(ThreadState \<Rightarrow> bool) \<Rightarrow> string list \<Rightarrow> daemon \<Rightarrow> int" where
  "count_threads P ks d =
     int (length (filter (\<lambda>k. case threads d k of None \<Rightarrow> False | Some t \<Rightarrow> P t) ks))"

definition statusSnapshot ::
    "process_identity \<Rightarrow> bool \<Rightarrow> int \<Rightarrow> string list \<Rightarrow> daemon \<Rightarrow> StatusSnapshot" where
  "statusSnapshot pid running rootCount ks d =
     (let pending = (if running then count_threads (\<lambda>t. t_Pending t \<noteq> None) ks d else 0);
          active = (if running then count_threads (\<lambda>t. t_Awaiting t \<noteq> None) ks d else 0);
          capability = (if running
            then capabilityForControllerState (d_controllerState d) (c_SharedAppServerEnabled (d_config d))
            else capabilityForControllerState ''codex_not_running'' False)
      in \<lparr>st_BuildSourceHash = pi_BuildSourceHash pid, st_DesktopLaunchMode = ''process_scoped'',
          st_DesktopTransport = dc_Transport capability, st_RecoveryMode = dc_RecoveryMode capability,
          st_AutomaticRecoverySupported = dc_Automatic capability,
          st_RecoveryCapabilityReason = dc_Reason capability, st_Version = pi_Version pid,
          st_Running = running, st_PID = pi_PID pid, st_StartedAt = d_startedAt d,
          st_LastScanAt = d_lastScan d, st_WatchedRoots = rootCount, st_PendingRetries = pending,
          st_ActiveRetries = active, st_Paused = d_paused d,
          st_SharedAppServerEnabled = c_SharedAppServerEnabled (d_config d),
          st_SharedAppServerRequested = c_SharedAppServerRequested (d_config d),
          st_ControllerState = d_controllerState d, st_LastError = d_lastError d,
          st_MemoryUsageMB = memoryBytesToMB (d_memoryUsageBytes d),
          st_MemoryLimitMB = c_MemoryLimitMB (d_config d),
          st_MemoryGuardTriggered = d_memoryGuardTriggered d,
          st_SharedAppServerMemoryUsageMB = memoryBytesToMB (d_sharedAppServerMemoryBytes d),
          st_SharedAppServerMemoryLimitMB = c_SharedAppServerMemoryLimitMB (d_config d),
          st_SharedAppServerMemoryGuardTriggered = d_sharedAppServerMemoryGuardTriggered d,
          st_RetrySafetyWarning = retrySafetyWarning (d_config d), st_LogPath = pi_LogPath pid\<rparr>)"

text \<open>What \<open>writeStatusLocked\<close> changes in the daemon.\<close>

definition writeStatusLocked :: "bool \<Rightarrow> daemon \<Rightarrow> daemon" where
  "writeStatusLocked write_ok d =
     (if \<not> write_ok then d\<lparr>d_statusWriteDeferred := True\<rparr>
      else if d_statusWriteDeferred d then d\<lparr>d_statusWriteDeferred := False\<rparr> else d)"

lemma persist_simps [simp]:
  "threads (persistStateLocked ok d) = threads d"
  "d_active (persistStateLocked ok d) = d_active d"
  "d_activeCtx (persistStateLocked ok d) = d_activeCtx d"
  "d_config (persistStateLocked ok d) = d_config d"
  "d_paused (persistStateLocked ok d) = d_paused d"
  "d_state (persistStateLocked ok d) = d_state d"
  "d_controllerState (persistStateLocked ok d) = d_controllerState d"
  by (simp_all add: persistStateLocked_def Let_def)

lemma write_status_simps [simp]:
  "threads (writeStatusLocked ok d) = threads d"
  "d_active (writeStatusLocked ok d) = d_active d"
  "d_activeCtx (writeStatusLocked ok d) = d_activeCtx d"
  "d_config (writeStatusLocked ok d) = d_config d"
  "d_paused (writeStatusLocked ok d) = d_paused d"
  "d_state (writeStatusLocked ok d) = d_state d"
  "d_controllerState (writeStatusLocked ok d) = d_controllerState d"
  "d_lastError (writeStatusLocked ok d) = d_lastError d"
  by (simp_all add: writeStatusLocked_def)

lemma persist_status_ok [simp]:
  "threads_ok (persistStateLocked ok d) = threads_ok d"
  "threads_ok (writeStatusLocked ok d) = threads_ok d"
  by (simp_all add: threads_ok_def)

lemma count_threads_order:
  assumes "range_order (threads d) ks"
  shows "count_threads P ks d = int (card {k. \<exists>t. threads d k = Some t \<and> P t})"
proof -
  have "distinct ks" "set ks = dom (threads d)" using assms by (simp_all add: range_order_def)
  then have "length (filter (\<lambda>k. case threads d k of None \<Rightarrow> False | Some t \<Rightarrow> P t) ks) =
      card (set (filter (\<lambda>k. case threads d k of None \<Rightarrow> False | Some t \<Rightarrow> P t) ks))"
    by (metis distinct_card distinct_filter)
  also have "set (filter (\<lambda>k. case threads d k of None \<Rightarrow> False | Some t \<Rightarrow> P t) ks) =
      {k. \<exists>t. threads d k = Some t \<and> P t}"
    using \<open>set ks = dom (threads d)\<close> by (auto split: option.splits)
  finally show ?thesis by (simp add: count_threads_def)
qed

end
