(* ===== verification/Goal_Recovery.thy ===== *)
theory Goal_Recovery
  imports Retry_State Status
begin

section \<open>Goal updates and the job that stops a goal (goal\_recovery.go, subagent\_recovery.go)\<close>

text \<open>
  The handler of goal updates, the handler of subagent notices, the dispatch of every event to
  its handler, and the job that blocks a goal after too many empty responses. That job is two
  critical sections around a request made without the lock: \<open>goalBlockStart\<close> up to the first
  unlock, \<open>goalBlockFinish\<close> after the request returned.
\<close>

definition set_stopped_reason :: "string \<Rightarrow> ThreadState \<Rightarrow> ThreadState" where
  "set_stopped_reason reason thread =
     thread\<lparr>t_Stopped := map_option (\<lambda>s. s\<lparr>s_Reason := reason\<rparr>) (t_Stopped thread)\<rparr>"

definition hold_statuses :: "string list" where
  "hold_statuses = [''paused'', ''completed'', ''complete'', ''usageLimited'', ''budgetLimited'']"

text \<open>The tail of \<open>handleGoalUpdatedLocked\<close>, for a thread that the goal limit did not stop.\<close>

definition applyGoalHold :: "string \<Rightarrow> RelevantEvent \<Rightarrow> ThreadState \<Rightarrow> daemon \<Rightarrow> daemon" where
  "applyGoalHold threadID event thread d =
     (let thread = thread\<lparr>t_GoalHeld :=
            goalRequiresHold (e_GoalStatus event) (e_GoalUpdatedAt event) (t_LastFailureAt thread)\<rparr>
      in if \<not> t_GoalHeld thread then put_thread threadID thread d
         else if heldConversationStillAllowed thread (e_GoalStatus event) (e_GoalUpdatedAt event)
           then put_thread threadID thread d
         else put_thread threadID (cleared thread) (cancel_ctx threadID d))"

definition staleGoalUpdate :: "ThreadState \<Rightarrow> RelevantEvent \<Rightarrow> bool" where
  "staleGoalUpdate thread event \<longleftrightarrow>
     (\<not> is_zero (t_GoalUpdatedAt thread) \<and> Before (e_GoalUpdatedAt event) (t_GoalUpdatedAt thread)) \<or>
     (\<not> is_zero (t_GoalObservedAt thread) \<and> \<not> After (e_Timestamp event) (t_GoalObservedAt thread))"

definition handleGoalUpdatedLocked :: "string \<Rightarrow> RelevantEvent \<Rightarrow> ThreadState \<Rightarrow> daemon \<Rightarrow> daemon" where
  "handleGoalUpdatedLocked threadID event thread d =
     (if staleGoalUpdate thread event then d
      else
        let previousGoalStatus = t_GoalStatus thread;
            status = e_GoalStatus event;
            thread = thread\<lparr>t_GoalStatus := status, t_GoalUpdatedAt := e_GoalUpdatedAt event,
              t_GoalObservedAt := e_Timestamp event\<rparr>
        in if goalLimitRestartPending thread \<and> status = ''blocked''
             then put_thread threadID (thread\<lparr>t_GoalHeld := True\<rparr>) d
           else if automaticGoalLimitStopped thread \<and> status = ''active'' then
             (if map_option s_Reason (t_Stopped thread) = Some goalEmptyResponseBlockFailReason
                then put_thread threadID (thread\<lparr>t_GoalHeld := True\<rparr>) d
              else if previousGoalStatus \<noteq> ''active'' \<and> t_GoalStop thread = None
                then put_thread threadID
                       (thread\<lparr>t_Stopped := None, t_RecoveryAttempts := 0, t_ConsecutiveRetries := 0,
                          t_CurrentTurnProgress := False, t_GoalHeld := False\<rparr>) d
              else put_thread threadID (thread\<lparr>t_GoalHeld := False\<rparr>) d)
           else if automaticGoalLimitStopped thread \<and>
                   (status = ''blocked'' \<or> status \<in> set hold_statuses)
             then put_thread threadID
                    ((set_stopped_reason goalEmptyResponseStopReason thread)\<lparr>t_GoalStop := None,
                       t_GoalHeld := True\<rparr>)
                    (cancel_ctx threadID d)
           else applyGoalHold threadID event thread d)"

definition handleSubagentRecoveryNoticeLocked ::
    "golib \<Rightarrow> string \<Rightarrow> RelevantEvent \<Rightarrow> ThreadState \<Rightarrow> daemon \<Rightarrow> daemon" where
  "handleSubagentRecoveryNoticeLocked lib threadID event thread d =
     (let markPending = (case t_Pending thread of
            None \<Rightarrow> False
          | Some p \<Rightarrow> e_RecoveryEventID event = recoveryEventID lib threadID (p_EventKey p));
          markAwaiting = (case t_Awaiting thread of
            None \<Rightarrow> False
          | Some a \<Rightarrow> e_RecoveryEventID event = recoveryEventID lib threadID (a_EventKey a))
      in if \<not> markPending \<and> \<not> markAwaiting then d
         else
           let thread = (if markPending
                 then thread\<lparr>t_Pending := map_option (\<lambda>p. p\<lparr>p_ParentNotified := True\<rparr>) (t_Pending thread)\<rparr>
                 else thread);
               thread = (if markAwaiting
                 then thread\<lparr>t_Awaiting := map_option (\<lambda>a. a\<lparr>a_ParentNotified := True\<rparr>) (t_Awaiting thread)\<rparr>
                 else thread)
           in put_thread threadID thread d)"

subsection \<open>One event\<close>

definition mark_processed :: "string \<Rightarrow> gotime \<Rightarrow> daemon \<Rightarrow> daemon" where
  "mark_processed key now d =
     d\<lparr>d_state := (d_state d)\<lparr>rs_ProcessedEvents := (rs_ProcessedEvents (d_state d))(key \<mapsto> now)\<rparr>\<rparr>"

definition dispatch_event ::
    "golib \<Rightarrow> scannedEvent \<Rightarrow> string \<Rightarrow> gotime \<Rightarrow> ThreadState \<Rightarrow> daemon \<Rightarrow> daemon" where
  "dispatch_event lib item key now thread d =
     (let event = i_Event item; threadID = i_ThreadID item; kind = e_Kind event
      in if kind = ''task_started'' then handleTaskStartedLocked threadID event thread d
         else if kind = ''task_user_input'' then handleTaskUserInputLocked threadID event thread d
         else if kind = ''task_progress'' then handleTaskProgressLocked threadID event thread d
         else if kind = ''task_complete'' then handleTaskCompleteLocked item key now thread d
         else if kind = ''turn_aborted'' then handleTurnAbortedLocked threadID event thread d
         else if kind = ''thread_goal_updated'' then handleGoalUpdatedLocked threadID event thread d
         else if kind = ''subagent_recovery_notice''
           then handleSubagentRecoveryNoticeLocked lib threadID event thread d
         else d)"

definition handleEventLocked :: "golib \<Rightarrow> scannedEvent \<Rightarrow> gotime \<Rightarrow> daemon \<Rightarrow> daemon" where
  "handleEventLocked lib item now d =
     (let key = eventKey lib (i_ThreadID item) (i_Event item)
      in if rs_ProcessedEvents (d_state d) key \<noteq> None then d
         else
           let d = mark_processed key now d
           in dispatch_event lib item key now (get_thread d (i_ThreadID item)) d)"

subsection \<open>The goal-block job\<close>

definition goal_stop_current :: "RetryJob \<Rightarrow> ThreadState \<Rightarrow> bool" where
  "goal_stop_current job thread \<longleftrightarrow>
     (case t_GoalStop thread of
        None \<Rightarrow> False
      | Some g \<Rightarrow> g_EventKey g = j_EventKey job \<and> automaticGoalLimitStopped thread)"

text \<open>The first section; the flag says whether the request is made.\<close>

definition goalBlockStart :: "RetryJob \<Rightarrow> daemon \<Rightarrow> daemon \<times> bool" where
  "goalBlockStart job d =
     (if \<not> goal_stop_current job (get_thread d (j_ThreadID job))
      then (drop_active (j_ThreadID job) d, False)
      else (d\<lparr>d_activeCtx := (d_activeCtx d)(j_ThreadID job \<mapsto> False)\<rparr>, True))"

text \<open>\<open>rescheduleGoalBlockLocked\<close>: the thread record afterwards, and the daemon's error text.\<close>

definition rescheduleGoalBlockLocked ::
    "ThreadState \<Rightarrow> gotime \<Rightarrow> string \<Rightarrow> daemon \<Rightarrow> ThreadState \<times> daemon" where
  "rescheduleGoalBlockLocked thread now reason d =
     (case t_GoalStop thread of
        None \<Rightarrow> (thread, d)
      | Some g \<Rightarrow>
          let failures = g_DispatchFailures g + 1
          in if controllerFailureNeedsAction reason \<or>
                failures \<ge> c_ControllerFailureLimit (d_config d)
             then ((set_stopped_reason
                      (if controllerFailureNeedsAction reason then reason
                       else goalEmptyResponseBlockFailReason) thread)\<lparr>t_GoalStop := None, t_GoalHeld := True\<rparr>,
                   d\<lparr>d_lastError := reason\<rparr>)
             else (thread\<lparr>t_GoalStop := Some (g\<lparr>g_DispatchFailures := failures,
                     g_DueAt := now + retryDelay failures (d_config d)\<rparr>)\<rparr>, d))"

definition blocked_goal_status :: "string \<Rightarrow> string" where
  "blocked_goal_status reason =
     (if reason = ''goal_already_paused'' then ''paused''
      else if reason = ''goal_already_completed'' then ''completed''
      else if reason = ''goal_already_usage_limited'' then ''usageLimited''
      else if reason = ''goal_already_budget_limited'' then ''budgetLimited''
      else ''blocked'')"

definition goalBlockFinish ::
    "RetryJob \<Rightarrow> DispatchResult \<Rightarrow> go_error option \<Rightarrow> gotime \<Rightarrow> bool \<Rightarrow> bool \<Rightarrow> daemon \<Rightarrow> daemon" where
  "goalBlockFinish job result err finishedAt state_ok status_ok d =
     (let threadID = j_ThreadID job;
          d = drop_ctx threadID (drop_active threadID d);
          thread = get_thread d threadID
      in if \<not> goal_stop_current job thread then writeStatusLocked status_ok d
         else
           let (thread, d) =
             (if err \<noteq> None \<or> d_Outcome result = outcomeRetryLater \<or> d_Outcome result = outcomeUserActive
              then (let reason = controllerFailureReason result err
                    in rescheduleGoalBlockLocked thread finishedAt reason
                         (d\<lparr>d_controllerState := reason\<rparr>))
              else if d_Outcome result = outcomeDispatched \<and> d_Action result = actionGoalBlock
                then ((set_stopped_reason goalEmptyResponseStopReason thread)
                        \<lparr>t_GoalStop := None, t_GoalStatus := blocked_goal_status (d_Reason result),
                         t_GoalObservedAt := finishedAt, t_GoalHeld := True\<rparr>,
                      d\<lparr>d_controllerState := ''ready''\<rparr>)
              else rescheduleGoalBlockLocked thread finishedAt ''controller_invalid_result'' d)
           in writeStatusLocked status_ok
                (persistStateLocked state_ok (put_thread threadID thread d)))"

subsection \<open>The handlers keep the invariant\<close>

lemma cleared_simps [simp]:
  "t_Pending (cleared t) = None" "t_Awaiting (cleared t) = None" "t_Stopped (cleared t) = None"
  "t_GoalStop (cleared t) = None" "t_RecoveryAttempts (cleared t) = 0"
  "t_ConsecutiveRetries (cleared t) = 0" "t_CurrentTurnProgress (cleared t) = False"
  "t_GoalHeld (cleared t) = t_GoalHeld t" "t_GoalStatus (cleared t) = t_GoalStatus t"
  by (simp_all add: cleared_def)

lemma cleared_ok [simp]: "thread_ok (cleared t)"
  by (simp add: cleared_def thread_ok_iff)

lemmas thread_ok_cases = option.splits if_splits

lemma threads_mark [simp]: "threads (mark_processed key now d) = threads d"
  by (simp add: mark_processed_def threads_def)

lemma mark_ok [simp]: "threads_ok (mark_processed key now d) = threads_ok d"
  by (simp add: threads_ok_def)

lemma cancelRetry_ok: "threads_ok d \<Longrightarrow> threads_ok (cancelRetryLocked k t d)"
  by (auto simp: cancelRetryLocked_def)

lemma resetRetry_ok: "threads_ok d \<Longrightarrow> threads_ok (resetRetryStateLocked k t d)"
  by (auto simp: resetRetryStateLocked_def)

lemma stopPending_ok: "threads_ok d \<Longrightarrow> thread_ok t \<Longrightarrow> threads_ok (stopPendingRetryLocked k t now d)"
  unfolding stopPendingRetryLocked_def Let_def
  by (auto intro!: put_thread_ok simp: thread_ok_iff split: option.splits)

lemma failure_prelude_simps [simp]:
  "t_Pending (failure_prelude i n t) = t_Pending t" "t_Awaiting (failure_prelude i n t) = t_Awaiting t"
  "t_Stopped (failure_prelude i n t) = t_Stopped t" "t_GoalStop (failure_prelude i n t) = t_GoalStop t"
  "t_GoalStatus (failure_prelude i n t) = t_GoalStatus t"
  "t_GoalUpdatedAt (failure_prelude i n t) = t_GoalUpdatedAt t"
  by (simp_all add: failure_prelude_def Let_def)

lemma stopped_at_limit_ok:
  "t_GoalStop t = None \<Longrightarrow> thread_ok (stopped_at_limit i key now t a c org cls lim reason)"
  by (simp add: stopped_at_limit_def Let_def thread_ok_iff)

lemma scheduled_ok: "thread_ok (scheduled i key now t a c org pn cls lim delay)"
  by (simp add: scheduled_def thread_ok_iff)

lemma scheduleFailure_ok:
  "threads_ok d \<Longrightarrow> t_GoalStop t = None \<Longrightarrow> threads_ok (scheduleFailureLocked i key now t a c org pn d)"
  unfolding scheduleFailureLocked_def Let_def
  by (auto intro!: put_thread_ok resetRetry_ok stopped_at_limit_ok scheduled_ok simp: thread_ok_iff)

lemma taskStarted_ok:
  "threads_ok d \<Longrightarrow> thread_ok t \<Longrightarrow> threads_ok (handleTaskStartedLocked k e t d)"
  unfolding handleTaskStartedLocked_def Let_def
  by (auto intro!: put_thread_ok cancelRetry_ok simp: thread_ok_iff note_external_def split: option.splits)

lemma userInput_ok:
  "threads_ok d \<Longrightarrow> threads_ok (handleTaskUserInputLocked k e t d)"
  unfolding handleTaskUserInputLocked_def Let_def by (auto intro!: cancelRetry_ok split: option.splits)

lemma progress_ok:
  "threads_ok d \<Longrightarrow> thread_ok t \<Longrightarrow> threads_ok (handleTaskProgressLocked k e t d)"
  unfolding handleTaskProgressLocked_def
  by (auto intro!: put_thread_ok simp: thread_ok_iff split: option.splits)

lemma aborted_ok:
  "threads_ok d \<Longrightarrow> thread_ok t \<Longrightarrow> threads_ok (handleTurnAbortedLocked k e t d)"
  unfolding handleTurnAbortedLocked_def Let_def
  by (auto intro!: put_thread_ok simp: thread_ok_iff)

lemma complete_ok:
  "threads_ok d \<Longrightarrow> thread_ok t \<Longrightarrow> threads_ok (handleTaskCompleteLocked i key now t d)"
  unfolding handleTaskCompleteLocked_def Let_def
  by (auto intro!: put_thread_ok resetRetry_ok scheduleFailure_ok dest: no_goal_stop split: option.splits)

lemma set_stopped_reason_simps [simp]:
  "t_Pending (set_stopped_reason r t) = t_Pending t" "t_Awaiting (set_stopped_reason r t) = t_Awaiting t"
  "t_Stopped (set_stopped_reason r t) = map_option (\<lambda>s. s\<lparr>s_Reason := r\<rparr>) (t_Stopped t)"
  "t_GoalStop (set_stopped_reason r t) = t_GoalStop t"
  by (simp_all add: set_stopped_reason_def)

lemma applyGoalHold_ok:
  "threads_ok d \<Longrightarrow> thread_ok t \<Longrightarrow> threads_ok (applyGoalHold k e t d)"
  unfolding applyGoalHold_def Let_def by (auto intro!: put_thread_ok simp: thread_ok_iff)

lemma goalUpdated_ok:
  "threads_ok d \<Longrightarrow> thread_ok t \<Longrightarrow> threads_ok (handleGoalUpdatedLocked k e t d)"
  unfolding handleGoalUpdatedLocked_def Let_def
  by (simp add: put_thread_ok applyGoalHold_ok thread_ok_iff)

lemma subagentNotice_ok:
  "threads_ok d \<Longrightarrow> thread_ok t \<Longrightarrow> threads_ok (handleSubagentRecoveryNoticeLocked lib k e t d)"
  unfolding handleSubagentRecoveryNoticeLocked_def Let_def
  by (auto intro!: put_thread_ok simp: thread_ok_iff split: option.splits)

lemma handleEvent_ok: "threads_ok d \<Longrightarrow> threads_ok (handleEventLocked lib item now d)"
  unfolding handleEventLocked_def dispatch_event_def Let_def
  by (simp add: taskStarted_ok userInput_ok progress_ok complete_ok aborted_ok goalUpdated_ok
      subagentNotice_ok get_thread_ok)

lemma goalBlockStart_ok: "threads_ok d \<Longrightarrow> threads_ok (fst (goalBlockStart job d))"
  by (simp add: goalBlockStart_def)

lemma rescheduleGoalBlock_ok:
  "thread_ok t \<Longrightarrow> rescheduleGoalBlockLocked t now r d = (t', d') \<Longrightarrow> thread_ok t' \<and> threads d' = threads d"
  unfolding rescheduleGoalBlockLocked_def Let_def
  by (auto simp: thread_ok_iff split: option.splits if_splits)


lemma threads_goalBlockFinish_ok:
  assumes "threads_ok d"
  shows "threads_ok (goalBlockFinish job res err fin so wo d)"
proof -
  define d1 where "d1 = drop_ctx (j_ThreadID job) (drop_active (j_ThreadID job) d)"
  have d1: "threads_ok d1" "thread_ok (get_thread d1 (j_ThreadID job))"
    using assms by (simp_all add: d1_def get_thread_ok)
  have resched: "threads_ok (put_thread k (fst (rescheduleGoalBlockLocked t fin r d'))
      (snd (rescheduleGoalBlockLocked t fin r d')))"
    if "thread_ok t" "threads_ok d'" for k t r d'
    using rescheduleGoalBlock_ok [OF that(1)] that(2)
    by (metis put_thread_ok prod.collapse threads_ok_cong)
  show ?thesis
    unfolding goalBlockFinish_def Let_def d1_def [symmetric]
    using d1 resched by (auto simp: case_prod_unfold intro!: put_thread_ok) (auto simp: thread_ok_iff)
qed

end
