(* ===== verification/Dispatch.thy ===== *)
theory Dispatch
  imports Goal_Recovery
begin

section \<open>Dispatching, rescheduling and stopping retries (daemon.go)\<close>

text \<open>
  The parts of \<open>daemon.go\<close> that move a retry between pending, awaiting and stopped: reopening
  after the transport came back, expiry of an unacknowledged start, the lifecycle probe of an
  acknowledged turn, dispatch of what is due, and the two critical sections of a recovery job.
  \<open>sort.Slice\<close> is not stable; the model sorts stably a list whose order the loop over the map
  chose, so every order of equal keys that the source can produce arises from some loop order.
\<close>

subsection \<open>Reopening\<close>

definition recordControllerSuccessLocked :: "daemon \<Rightarrow> daemon" where
  "recordControllerSuccessLocked d =
     (if c_SharedAppServerEnabled (d_config d) \<and> d_controllerState d \<noteq> ''official_ipc_ready''
      then d\<lparr>d_controllerState := ''ready''\<rparr> else d)"

definition reopened :: "StoppedRetry \<Rightarrow> gotime \<Rightarrow> int \<Rightarrow> int \<Rightarrow> int \<times> int \<Rightarrow> PendingRetry" where
  "reopened stopped now attempt consecutive limits =
     \<lparr>p_EventKey = s_EventKey stopped, p_FailedTurnID = s_FailedTurnID stopped,
      p_FailedAt = s_FailedAt stopped, p_OriginTurnStartedAt = s_OriginTurnStartedAt stopped,
      p_Class = s_Class stopped, p_DueAt = now, p_CodexHome = s_CodexHome stopped,
      p_RolloutPath = s_RolloutPath stopped, p_Attempt = attempt, p_MaxAttempts = fst limits,
      p_ConsecutiveRetry = consecutive, p_MaxConsecutive = snd limits, p_DispatchFailures = 0,
      p_ParentNotified = False, p_GoalLimitRestart = False\<rparr>"

definition reopenThread :: "gotime \<Rightarrow> string \<Rightarrow> ThreadState \<Rightarrow> daemon \<Rightarrow> daemon" where
  "reopenThread now threadID thread d =
     (if \<not> canReopenTransportRetry thread now \<or> is_active d threadID then d
      else case t_Stopped thread of
        None \<Rightarrow> d
      | Some stopped \<Rightarrow>
          let attempt = s_Attempts stopped + 1;
              consecutive = s_ConsecutiveRetries stopped + 1;
              recoveryLimit = min (fst (retryLimits (s_Class stopped) (d_config d))) (s_MaxAttempts stopped);
              consecutiveLimit =
                min (snd (retryLimits (s_Class stopped) (d_config d))) (s_MaxConsecutive stopped)
          in if attempt > recoveryLimit \<or> consecutive > consecutiveLimit then d
             else put_thread threadID
                    (thread\<lparr>t_Stopped := None,
                       t_RecoveryStartedAt := (if is_zero (t_RecoveryStartedAt thread)
                         then s_FailedAt stopped else t_RecoveryStartedAt thread),
                       t_RecoveryAttempts := attempt, t_ConsecutiveRetries := consecutive,
                       t_Pending := Some (reopened stopped now attempt consecutive
                                            (recoveryLimit, consecutiveLimit))\<rparr>) d)"

definition reopenRestartRequiredLocked :: "gotime \<Rightarrow> string list \<Rightarrow> daemon \<Rightarrow> daemon" where
  "reopenRestartRequiredLocked now ks d =
     (if d_paused d then d else for_threads ks (reopenThread now) d)"

subsection \<open>Stopping before or after a dispatch\<close>

definition stopAwaitingForControllerLocked ::
    "string \<Rightarrow> ThreadState \<Rightarrow> gotime \<Rightarrow> string \<Rightarrow> daemon \<Rightarrow> daemon" where
  "stopAwaitingForControllerLocked threadID thread now reason d =
     (case t_Awaiting thread of
        None \<Rightarrow> d
      | Some awaiting \<Rightarrow>
          let attempts = completedRetryCount (a_Attempt awaiting);
              consecutive = completedRetryCount (a_ConsecutiveRetry awaiting);
              thread = thread\<lparr>t_Pending := None, t_Awaiting := None, t_GoalStop := None,
                t_RecoveryAttempts := attempts, t_ConsecutiveRetries := consecutive,
                t_Stopped := Some \<lparr>s_EventKey = a_EventKey awaiting,
                  s_FailedTurnID = a_FailedTurnID awaiting, s_FailedAt = a_FailedAt awaiting,
                  s_OriginTurnStartedAt = a_OriginTurnStartedAt awaiting, s_Class = a_Class awaiting,
                  s_StoppedAt = now, s_CodexHome = a_CodexHome awaiting,
                  s_RolloutPath = a_RolloutPath awaiting, s_Attempts = attempts,
                  s_MaxAttempts = a_MaxAttempts awaiting, s_ConsecutiveRetries = consecutive,
                  s_MaxConsecutive = a_MaxConsecutive awaiting, s_Reason = reason,
                  s_Historical = False, s_TransportBlocked = None\<rparr>\<rparr>
          in (put_thread threadID thread d)\<lparr>d_lastError := reason\<rparr>)"

definition transport_blocked :: "ThreadState \<Rightarrow> PendingRetry \<Rightarrow> string \<Rightarrow> bool" where
  "transport_blocked thread pending reason \<longleftrightarrow>
     reason = ''shared_app_server_disabled'' \<and> p_DispatchFailures pending = 0 \<and>
     \<not> p_ParentNotified pending \<and> \<not> p_GoalLimitRestart pending \<and> \<not> is_zero (p_FailedAt pending) \<and>
     \<not> After (t_LastAutoRetryAt thread) (p_FailedAt pending)"

definition stopPendingForControllerLocked ::
    "string \<Rightarrow> ThreadState \<Rightarrow> gotime \<Rightarrow> string \<Rightarrow> daemon \<Rightarrow> daemon" where
  "stopPendingForControllerLocked threadID thread now reason d =
     (case t_Pending thread of
        None \<Rightarrow> d
      | Some pending \<Rightarrow>
          let transportBlocked = transport_blocked thread pending reason;
              attempts = completedRetryCount (p_Attempt pending);
              consecutive = completedRetryCount (p_ConsecutiveRetry pending);
              thread = thread\<lparr>t_Pending := None, t_Awaiting := None, t_GoalStop := None,
                t_RecoveryAttempts := attempts, t_ConsecutiveRetries := consecutive,
                t_CurrentTurnProgress := False,
                t_Stopped := Some \<lparr>s_EventKey = p_EventKey pending,
                  s_FailedTurnID = p_FailedTurnID pending, s_FailedAt = p_FailedAt pending,
                  s_OriginTurnStartedAt = p_OriginTurnStartedAt pending, s_Class = p_Class pending,
                  s_StoppedAt = now, s_CodexHome = p_CodexHome pending,
                  s_RolloutPath = p_RolloutPath pending, s_Attempts = attempts,
                  s_MaxAttempts = p_MaxAttempts pending, s_ConsecutiveRetries = consecutive,
                  s_MaxConsecutive = p_MaxConsecutive pending, s_Reason = reason,
                  s_Historical = False, s_TransportBlocked = Some transportBlocked\<rparr>\<rparr>
          in (put_thread threadID thread d)\<lparr>d_lastError := reason\<rparr>)"

definition rescheduleAwaitingWithPolicyLocked ::
    "string \<Rightarrow> ThreadState \<Rightarrow> gotime \<Rightarrow> string \<Rightarrow> bool \<Rightarrow> daemon \<Rightarrow> daemon" where
  "rescheduleAwaitingWithPolicyLocked threadID thread now reason countFailure d =
     (case t_Awaiting thread of
        None \<Rightarrow> d
      | Some awaiting \<Rightarrow>
          let dispatchFailures = a_DispatchFailures awaiting + (if countFailure then 1 else 0)
          in if controllerFailureNeedsAction reason \<or>
                (countFailure \<and> dispatchFailures \<ge> c_ControllerFailureLimit (d_config d))
             then stopAwaitingForControllerLocked threadID thread now reason d
             else
               let delayIndex = (if dispatchFailures < 1 then 1 else dispatchFailures);
                   delay = retryDelay delayIndex (d_config d)
               in put_thread threadID
                    (thread\<lparr>t_Awaiting := None,
                       t_Pending := Some ((pending_of_awaiting awaiting (now + delay))
                                            \<lparr>p_DispatchFailures := dispatchFailures\<rparr>)\<rparr>) d)"

definition rescheduleAwaitingLocked ::
    "string \<Rightarrow> ThreadState \<Rightarrow> gotime \<Rightarrow> string \<Rightarrow> daemon \<Rightarrow> daemon" where
  "rescheduleAwaitingLocked threadID thread now reason d =
     rescheduleAwaitingWithPolicyLocked threadID thread now reason True d"

definition expireThread :: "gotime \<Rightarrow> string \<Rightarrow> ThreadState \<Rightarrow> daemon \<Rightarrow> daemon" where
  "expireThread now threadID thread d =
     (case t_Awaiting thread of
        None \<Rightarrow> d
      | Some awaiting \<Rightarrow>
          if a_RetryTurnID awaiting \<noteq> [] \<or> After (a_StartDeadline awaiting) now then d
          else if is_active d threadID then d
          else rescheduleAwaitingLocked threadID thread now ''start_not_acknowledged'' d)"

definition expireUnacknowledgedLocked :: "gotime \<Rightarrow> string list \<Rightarrow> daemon \<Rightarrow> daemon" where
  "expireUnacknowledgedLocked now ks d = for_threads ks (expireThread now) d"

subsection \<open>The lifecycle probe of an acknowledged turn\<close>

definition awaitingLifecycleConfirmations :: int where
  "awaitingLifecycleConfirmations = 2"

definition awaitingLifecycleProbeInterval :: duration where
  "awaitingLifecycleProbeInterval = 5 * Second"

record awaitingLifecycleCandidate =
  lc_threadID :: string
  lc_eventKey :: string
  lc_turnID :: string
  lc_codexHome :: string

definition lifecycle_started :: "AwaitingRetry \<Rightarrow> gotime" where
  "lifecycle_started awaiting =
     (if is_zero (a_StartedAt awaiting) then a_DispatchStartedAt awaiting else a_StartedAt awaiting)"

definition lifecycle_probe_due :: "Config \<Rightarrow> gotime \<Rightarrow> AwaitingRetry \<Rightarrow> bool" where
  "lifecycle_probe_due config now awaiting \<longleftrightarrow>
     (let startedAt = lifecycle_started awaiting
      in if a_RetryTurnID awaiting = [] then False
         else if is_zero startedAt \<or>
                 time_sub now startedAt < seconds (c_StartAckTimeoutSeconds config) then False
         else if \<not> is_zero (a_LastLifecycleCheckAt awaiting) \<and>
                 time_sub now (a_LastLifecycleCheckAt awaiting) < awaitingLifecycleProbeInterval then False
         else True)"

text \<open>The first section of \<open>reconcileAwaitingLifecycle\<close>: which turns to probe.\<close>

definition collectThread ::
    "gotime \<Rightarrow> string \<Rightarrow> daemon \<times> awaitingLifecycleCandidate list \<Rightarrow>
     daemon \<times> awaitingLifecycleCandidate list" where
  "collectThread now threadID acc =
     (let (d, candidates) = acc
      in case threads d threadID of
           None \<Rightarrow> (d, candidates)
         | Some thread \<Rightarrow>
             (case t_Awaiting thread of
                None \<Rightarrow> (d, candidates)
              | Some awaiting \<Rightarrow>
                  if \<not> lifecycle_probe_due (d_config d) now awaiting then (d, candidates)
                  else (put_thread threadID
                          (thread\<lparr>t_Awaiting := Some (awaiting\<lparr>a_LastLifecycleCheckAt := now\<rparr>)\<rparr>) d,
                        candidates @ [\<lparr>lc_threadID = threadID, lc_eventKey = a_EventKey awaiting,
                          lc_turnID = a_RetryTurnID awaiting, lc_codexHome = a_CodexHome awaiting\<rparr>])))"

definition lifecycleCollect ::
    "gotime \<Rightarrow> string list \<Rightarrow> daemon \<Rightarrow> daemon \<times> awaitingLifecycleCandidate list" where
  "lifecycleCollect now ks d = fold (collectThread now) ks (d, [])"

definition retryThreadIsActive :: "string \<Rightarrow> bool" where
  "retryThreadIsActive status \<longleftrightarrow> status \<in> {''active'', ''running'', ''in_progress''}"

definition advanceInactiveAwaitingLocked :: "string \<Rightarrow> ThreadState \<Rightarrow> gotime \<Rightarrow> daemon \<Rightarrow> daemon" where
  "advanceInactiveAwaitingLocked threadID thread now d =
     (case t_Awaiting thread of
        None \<Rightarrow> d
      | Some awaiting \<Rightarrow>
          let nextAttempt = a_Attempt awaiting + 1;
              nextConsecutive = (if t_CurrentTurnProgress thread then 1
                                 else a_ConsecutiveRetry awaiting + 1)
          in if nextAttempt > a_MaxAttempts awaiting \<or> nextConsecutive > a_MaxConsecutive awaiting
             then
               let completedAttempts = completedRetryCount nextAttempt;
                   completedConsecutive = completedRetryCount nextConsecutive;
                   reason = (if a_Class awaiting = classEmptyResponse \<and> t_GoalStatus thread = ''active''
                     then goalEmptyResponseStopReason
                     else retryStopReasonForClass (a_Class awaiting) (d_config d) nextAttempt
                            (a_MaxAttempts awaiting) nextConsecutive (a_MaxConsecutive awaiting));
                   historicalSince = lifecycle_started awaiting;
                   thread = thread\<lparr>t_Pending := None, t_Awaiting := None,
                     t_RecoveryAttempts := completedAttempts,
                     t_ConsecutiveRetries := completedConsecutive, t_CurrentTurnProgress := False,
                     t_Stopped := Some \<lparr>s_EventKey = a_EventKey awaiting,
                       s_FailedTurnID = a_FailedTurnID awaiting, s_FailedAt = a_FailedAt awaiting,
                       s_OriginTurnStartedAt = a_OriginTurnStartedAt awaiting,
                       s_Class = a_Class awaiting, s_StoppedAt = now,
                       s_CodexHome = a_CodexHome awaiting, s_RolloutPath = a_RolloutPath awaiting,
                       s_Attempts = completedAttempts, s_MaxAttempts = a_MaxAttempts awaiting,
                       s_ConsecutiveRetries = completedConsecutive,
                       s_MaxConsecutive = a_MaxConsecutive awaiting, s_Reason = reason,
                       s_Historical = (\<not> is_zero historicalSince \<and>
                         time_sub now historicalSince > stoppedRetryDisplayWindow),
                       s_TransportBlocked = None\<rparr>\<rparr>;
                   thread = (if reason = goalEmptyResponseStopReason
                     then thread\<lparr>t_GoalStop := Some \<lparr>g_EventKey = a_EventKey awaiting,
                            g_Reason = reason, g_RequestedAt = now, g_DueAt = now,
                            g_DispatchFailures = 0\<rparr>\<rparr>
                     else thread)
               in put_thread threadID thread d
             else
               put_thread threadID
                 (thread\<lparr>t_RecoveryAttempts := nextAttempt, t_ConsecutiveRetries := nextConsecutive,
                    t_CurrentTurnProgress := False, t_Awaiting := None, t_Stopped := None,
                    t_GoalStop := None,
                    t_Pending := Some ((pending_of_awaiting awaiting
                        (now + retryDelay nextConsecutive (d_config d)))
                      \<lparr>p_Attempt := nextAttempt, p_ConsecutiveRetry := nextConsecutive\<rparr>)\<rparr>) d)"

text \<open>The section after the probe of one candidate returned \<open>probe\<close>.\<close>

definition lifecycleApply ::
    "gotime \<Rightarrow> awaitingLifecycleCandidate \<Rightarrow> go_error + string \<Rightarrow> daemon \<Rightarrow> daemon" where
  "lifecycleApply now candidate probe d =
     (let threadID = lc_threadID candidate
      in case threads d threadID of
           None \<Rightarrow> d
         | Some thread \<Rightarrow>
             (case t_Awaiting thread of
                None \<Rightarrow> d
              | Some awaiting \<Rightarrow>
                  if a_EventKey awaiting \<noteq> lc_eventKey candidate \<or>
                     a_RetryTurnID awaiting \<noteq> lc_turnID candidate then d
                  else case probe of
                    Inl err \<Rightarrow>
                      let reason = controllerFailureReason zero_DispatchResult (Some err);
                          d = d\<lparr>d_controllerState := reason\<rparr>;
                          nextFailures = a_DispatchFailures awaiting + 1
                      in if controllerFailureNeedsAction reason \<or>
                            nextFailures \<ge> c_ControllerFailureLimit (d_config d)
                         then stopAwaitingForControllerLocked threadID thread now reason d
                         else put_thread threadID
                                (thread\<lparr>t_Awaiting := Some (awaiting\<lparr>a_DispatchFailures := nextFailures\<rparr>)\<rparr>) d
                  | Inr status \<Rightarrow>
                      let d = recordControllerSuccessLocked d;
                          awaiting = awaiting\<lparr>a_DispatchFailures := 0\<rparr>
                      in if retryThreadIsActive status
                         then put_thread threadID
                                (thread\<lparr>t_Awaiting := Some (awaiting\<lparr>a_LifecycleChecks := 0\<rparr>)\<rparr>) d
                         else
                           let awaiting = awaiting\<lparr>a_LifecycleChecks := a_LifecycleChecks awaiting + 1\<rparr>;
                               thread = thread\<lparr>t_Awaiting := Some awaiting\<rparr>
                           in if a_LifecycleChecks awaiting < awaitingLifecycleConfirmations
                              then put_thread threadID thread d
                              else advanceInactiveAwaitingLocked threadID thread now d))"

subsection \<open>Dispatching what is due\<close>

definition awaitingDispatch :: "PendingRetry \<Rightarrow> gotime \<Rightarrow> Config \<Rightarrow> AwaitingRetry" where
  "awaitingDispatch pending now config =
     \<lparr>a_EventKey = p_EventKey pending, a_FailedTurnID = p_FailedTurnID pending,
      a_FailedAt = p_FailedAt pending, a_OriginTurnStartedAt = p_OriginTurnStartedAt pending,
      a_RetryTurnID = [], a_Class = p_Class pending, a_Action = actionDispatching,
      a_Attempt = p_Attempt pending, a_MaxAttempts = p_MaxAttempts pending,
      a_ConsecutiveRetry = p_ConsecutiveRetry pending, a_MaxConsecutive = p_MaxConsecutive pending,
      a_DispatchFailures = p_DispatchFailures pending, a_ParentNotified = p_ParentNotified pending,
      a_GoalLimitRestart = p_GoalLimitRestart pending, a_DispatchStartedAt = now,
      a_StartDeadline = now + seconds (c_StartAckTimeoutSeconds config), a_StartedAt = 0,
      a_LifecycleChecks = 0, a_LastLifecycleCheckAt = 0, a_CodexHome = p_CodexHome pending,
      a_RolloutPath = p_RolloutPath pending\<rparr>"

definition recoveryJob :: "golib \<Rightarrow> string \<Rightarrow> PendingRetry \<Rightarrow> RetryJob" where
  "recoveryJob lib threadID pending =
     \<lparr>j_Kind = jobRecovery, j_ThreadID = threadID, j_FailedTurnID = p_FailedTurnID pending,
      j_FailedAt = p_FailedAt pending, j_OriginTurnStartedAt = p_OriginTurnStartedAt pending,
      j_EventKey = p_EventKey pending, j_Class = p_Class pending, j_CodexHome = p_CodexHome pending,
      j_RolloutPath = p_RolloutPath pending, j_Attempt = p_Attempt pending,
      j_MaxAttempts = p_MaxAttempts pending, j_ConsecutiveRetry = p_ConsecutiveRetry pending,
      j_MaxConsecutive = p_MaxConsecutive pending, j_DispatchFailures = p_DispatchFailures pending,
      j_ParentNotified = p_ParentNotified pending, j_GoalLimitRestart = p_GoalLimitRestart pending,
      j_RecoveryEventID = recoveryEventID lib threadID (p_EventKey pending)\<rparr>"

definition goalBlockJob :: "string \<Rightarrow> GoalStopRequest \<Rightarrow> ThreadState \<Rightarrow> RetryJob" where
  "goalBlockJob threadID request thread =
     (let job = \<lparr>j_Kind = jobGoalBlock, j_ThreadID = threadID, j_FailedTurnID = [], j_FailedAt = 0,
            j_OriginTurnStartedAt = 0, j_EventKey = g_EventKey request, j_Class = classOther [],
            j_CodexHome = [], j_RolloutPath = [], j_Attempt = 0, j_MaxAttempts = 0,
            j_ConsecutiveRetry = 0, j_MaxConsecutive = 0,
            j_DispatchFailures = g_DispatchFailures request, j_ParentNotified = False,
            j_GoalLimitRestart = False, j_RecoveryEventID = []\<rparr>
      in case t_Stopped thread of
           None \<Rightarrow> job
         | Some s \<Rightarrow> job\<lparr>j_Class := s_Class s, j_Attempt := s_Attempts s, j_CodexHome := s_CodexHome s,
                        j_RolloutPath := s_RolloutPath s\<rparr>)"

text \<open>The goal stops that are due, in the loop's order.\<close>

definition goal_stop_candidates :: "gotime \<Rightarrow> string list \<Rightarrow> daemon \<Rightarrow> (string \<times> GoalStopRequest) list" where
  "goal_stop_candidates now ks d =
     List.map_filter (\<lambda>k. case threads d k of
         None \<Rightarrow> None
       | Some thread \<Rightarrow>
           (case t_GoalStop thread of
              None \<Rightarrow> None
            | Some g \<Rightarrow> if After (g_DueAt g) now \<or> is_active d k then None else Some (k, g))) ks"

fun start_goal_stops ::
    "(string \<times> GoalStopRequest) list \<Rightarrow> int \<Rightarrow> RetryJob list \<Rightarrow> daemon \<Rightarrow> daemon \<times> RetryJob list \<times> int" where
  "start_goal_stops [] available jobs d = (d, jobs, available)"
| "start_goal_stops ((threadID, request) # items) available jobs d =
     (if available = 0 then (d, jobs, available)
      else
        let job = goalBlockJob threadID request (get_thread d threadID)
        in start_goal_stops items (available - 1) (jobs @ [job]) (set_active threadID job d))"

definition no_transport :: "daemon \<Rightarrow> bool" where
  "no_transport d \<longleftrightarrow>
     d_controllerState d \<noteq> ''official_ipc_ready'' \<and>
     (\<not> c_SharedAppServerEnabled (d_config d) \<or>
      d_controllerState d = ''shared_app_server_disabled'' \<or>
      d_controllerState d = ''shared_app_server_config_invalid'')"

definition no_transport_reason :: "daemon \<Rightarrow> string" where
  "no_transport_reason d =
     (if controllerFailureNeedsFailOpen (d_controllerState d) \<or>
         d_controllerState d = ''codex_not_running''
      then d_controllerState d else ''shared_app_server_disabled'')"

definition pending_due :: "gotime \<Rightarrow> ThreadState \<Rightarrow> bool" where
  "pending_due now thread \<longleftrightarrow>
     (case t_Pending thread of None \<Rightarrow> False | Some p \<Rightarrow> \<not> After (p_DueAt p) now) \<and>
     t_Awaiting thread = None"

definition stopUntransported :: "gotime \<Rightarrow> string \<Rightarrow> string \<Rightarrow> ThreadState \<Rightarrow> daemon \<Rightarrow> daemon" where
  "stopUntransported now reason threadID thread d =
     (if pending_due now thread then stopPendingForControllerLocked threadID thread now reason d else d)"

definition held_back :: "ThreadState \<Rightarrow> bool" where
  "held_back thread \<longleftrightarrow>
     t_GoalHeld thread \<and> \<not> goalLimitRestartPending thread \<and>
     \<not> heldConversationStillAllowed thread (t_GoalStatus thread) (t_GoalUpdatedAt thread)"

text \<open>The loop over all threads that drops held retries, stops overdue chains and collects the rest.\<close>

definition considerThread ::
    "gotime \<Rightarrow> string \<Rightarrow> daemon \<times> (string \<times> PendingRetry) list \<Rightarrow> daemon \<times> (string \<times> PendingRetry) list" where
  "considerThread now threadID acc =
     (let (d, candidates) = acc
      in case threads d threadID of
           None \<Rightarrow> (d, candidates)
         | Some thread \<Rightarrow>
             if held_back thread then
               (if t_Pending thread \<noteq> None \<or> t_Awaiting thread \<noteq> None
                then (put_thread threadID
                        (thread\<lparr>t_Pending := None, t_Awaiting := None, t_RecoveryAttempts := 0,
                           t_ConsecutiveRetries := 0, t_CurrentTurnProgress := False,
                           t_Stopped := None\<rparr>) d, candidates)
                else (d, candidates))
             else if \<not> pending_due now thread \<or> is_active d threadID then (d, candidates)
             else if \<not> is_zero (t_RecoveryStartedAt thread) \<and>
                     time_sub now (t_RecoveryStartedAt thread) > maxAutomaticRecoveryDuration
               then (stopPendingForControllerLocked threadID thread now ''recovery_time_limit'' d,
                     candidates)
             else (case t_Pending thread of
                 None \<Rightarrow> (d, candidates)
               | Some pending \<Rightarrow> (d, candidates @ [(threadID, pending)])))"

definition dispatchOne ::
    "golib \<Rightarrow> gotime \<Rightarrow> string \<times> PendingRetry \<Rightarrow> daemon \<times> RetryJob list \<Rightarrow> daemon \<times> RetryJob list" where
  "dispatchOne lib now item acc =
     (let (threadID, pending) = item; (d, jobs) = acc;
          thread = get_thread d threadID;
          job = recoveryJob lib threadID pending
      in (set_active threadID job
            (put_thread threadID
               (thread\<lparr>t_Pending := None, t_LastAutoRetryAt := now,
                  t_Awaiting := Some (awaitingDispatch pending now (d_config d))\<rparr>) d),
          jobs @ [job]))"

definition dispatchDueLocked ::
    "golib \<Rightarrow> gotime \<Rightarrow> string list \<Rightarrow> string list \<Rightarrow> daemon \<Rightarrow> daemon \<times> RetryJob list" where
  "dispatchDueLocked lib now ks1 ks2 d =
     (let available = c_MaxParallelRetries (d_config d) - int (length (d_active d))
      in if available \<le> 0 then (d, [])
         else
           let goalStops = sort_key (\<lambda>(_, g). g_DueAt g) (goal_stop_candidates now ks1 d);
               (d, jobs, available) = start_goal_stops goalStops available [] d
           in if available = 0 then (d, jobs)
              else if d_paused d then (d, jobs)
              else if no_transport d
                then (for_threads ks2 (stopUntransported now (no_transport_reason d)) d, jobs)
              else
                let (d, candidates) = fold (considerThread now) ks2 (d, []);
                    candidates = sort_key (\<lambda>(_, p). p_DueAt p) candidates
                in fold (dispatchOne lib now) (take (nat available) candidates) (d, jobs))"

subsection \<open>A recovery job\<close>

definition job_current :: "RetryJob \<Rightarrow> ThreadState \<Rightarrow> bool" where
  "job_current job thread \<longleftrightarrow>
     (case t_Awaiting thread of
        None \<Rightarrow> False
      | Some a \<Rightarrow> a_EventKey a = j_EventKey job \<and> a_Attempt a = j_Attempt job)"

definition runJobStart :: "RetryJob \<Rightarrow> daemon \<Rightarrow> daemon \<times> bool" where
  "runJobStart job d =
     (let thread = get_thread d (j_ThreadID job)
      in if \<not> job_current job thread \<or>
            (t_GoalHeld thread \<and> \<not> j_GoalLimitRestart job \<and>
             \<not> heldConversationStillAllowed thread (t_GoalStatus thread) (t_GoalUpdatedAt thread))
         then (drop_active (j_ThreadID job) d, False)
         else (d\<lparr>d_activeCtx := (d_activeCtx d)(j_ThreadID job \<mapsto> False)\<rparr>, True))"

definition update_awaiting :: "(AwaitingRetry \<Rightarrow> AwaitingRetry) \<Rightarrow> ThreadState \<Rightarrow> ThreadState" where
  "update_awaiting f thread = thread\<lparr>t_Awaiting := map_option f (t_Awaiting thread)\<rparr>"

text \<open>What the result of a current job does to its thread and to the controller state.\<close>

definition applyJobResult ::
    "RetryJob \<Rightarrow> DispatchResult \<Rightarrow> go_error option \<Rightarrow> gotime \<Rightarrow> ThreadState \<Rightarrow> daemon \<Rightarrow> daemon" where
  "applyJobResult job result err finishedAt thread d =
     (let threadID = j_ThreadID job;
          thread = (if d_ParentNotified result
                    then update_awaiting (\<lambda>a. a\<lparr>a_ParentNotified := True\<rparr>) thread else thread);
          d = (if err = None \<and> d_Outcome result = outcomeDispatched \<and>
                  d_Reason result \<in> {''official_ipc_turn_started'', ''official_ipc_goal_turn_started''}
               then d\<lparr>d_controllerState := ''official_ipc_ready''\<rparr> else d)
      in if err \<noteq> None \<or> d_Outcome result = outcomeRetryLater then
           (let reason = controllerFailureReason result err
            in rescheduleAwaitingWithPolicyLocked threadID thread finishedAt reason True
                 (d\<lparr>d_controllerState := reason\<rparr>))
         else if d_Outcome result = outcomeUserActive then
           rescheduleAwaitingWithPolicyLocked threadID
             (update_awaiting (\<lambda>a. a\<lparr>a_DispatchFailures := 0\<rparr>) thread) finishedAt
             (controllerFailureReason result None) False (recordControllerSuccessLocked d)
         else if d_Outcome result = outcomeNotApplicable then
           (let thread = cleared thread;
                (status, held) = goalHoldStatusForReason (d_Reason result);
                thread = (if held
                  then thread\<lparr>t_GoalHeld := True,
                         t_GoalStatus := (if status \<noteq> [] then status else t_GoalStatus thread)\<rparr>
                  else thread)
            in put_thread threadID thread (recordControllerSuccessLocked d))
         else
           put_thread threadID
             (update_awaiting (\<lambda>a. a\<lparr>a_Action := d_Action result, a_DispatchFailures := 0,
                a_StartDeadline := finishedAt + seconds (c_StartAckTimeoutSeconds (d_config d))\<rparr>) thread)
             (recordControllerSuccessLocked d))"

definition runJobFinish ::
    "RetryJob \<Rightarrow> DispatchResult \<Rightarrow> go_error option \<Rightarrow> gotime \<Rightarrow> bool \<Rightarrow> bool \<Rightarrow> daemon \<Rightarrow> daemon" where
  "runJobFinish job result err finishedAt state_ok status_ok d =
     (let threadID = j_ThreadID job;
          d = drop_ctx threadID (drop_active threadID d);
          thread = get_thread d threadID
      in if \<not> job_current job thread then writeStatusLocked status_ok d
         else writeStatusLocked status_ok
                (persistStateLocked state_ok (applyJobResult job result err finishedAt thread d)))"

end
