(* ===== verification/Dispatch_Lemmas.thy ===== *)
theory Dispatch_Lemmas
  imports Dispatch
begin

section \<open>What the operations of the daemon keep\<close>

text \<open>
  For every operation of \<open>daemon.go\<close>, \<open>retry_state.go\<close> and \<open>goal_recovery.go\<close>: the thread
  invariant is kept, and the frame (which parts of the daemon it leaves alone).
\<close>

subsection \<open>The loops keep the contract\<close>

lemma stopPendingRetry_frame [simp]:
  "j \<noteq> k \<Longrightarrow> threads (stopPendingRetryLocked k t now d) j = threads d j"
  "d_config (stopPendingRetryLocked k t now d) = d_config d"
  by (simp_all add: stopPendingRetryLocked_def Let_def split: option.split)

lemma reschedule_frame [simp]:
  "j \<noteq> k \<Longrightarrow> threads (rescheduleAwaitingWithPolicyLocked k t now r c d) j = threads d j"
  "d_config (rescheduleAwaitingWithPolicyLocked k t now r c d) = d_config d"
  "d_active (rescheduleAwaitingWithPolicyLocked k t now r c d) = d_active d"
  by (simp_all add: rescheduleAwaitingWithPolicyLocked_def stopAwaitingForControllerLocked_def Let_def
      split: option.split)

interpretation reconcile_loop: thread_loop "reconcileThread now" "\<lambda>_. ()" for now
  by unfold_locales (auto simp: reconcileThread_def split: option.splits)

interpretation relimit_loop: thread_loop "relimitThread w" d_config for w
  by unfold_locales
    (auto simp: relimitThread_def stopPendingRetryLocked_def Let_def split: option.splits prod.splits)

interpretation reopen_loop: thread_loop "reopenThread now" "\<lambda>d. (d_config d, d_active d)" for now
  by unfold_locales (auto simp: reopenThread_def Let_def is_active_def split: option.splits)

interpretation expire_loop: thread_loop "expireThread now" "\<lambda>d. (d_config d, d_active d)" for now
  by unfold_locales
    (auto simp: expireThread_def rescheduleAwaitingLocked_def rescheduleAwaitingWithPolicyLocked_def
      stopAwaitingForControllerLocked_def is_active_def Let_def split: option.splits)

interpretation untransported_loop: thread_loop "stopUntransported now r" "\<lambda>_. ()" for now r
  by unfold_locales
    (auto simp: stopUntransported_def stopPendingForControllerLocked_def Let_def split: option.splits)

subsection \<open>The thread invariant\<close>

lemma reconcile_ok: "threads_ok d \<Longrightarrow> threads_ok (reconcileStartupState now ks d)"
  unfolding reconcileStartupState_def
  by (rule for_threads_ok)
    (auto simp: reconcileThread_def thread_ok_iff intro!: put_thread_ok split: option.splits)

lemma relimit_ok: "threads_ok d \<Longrightarrow> thread_ok t \<Longrightarrow> threads_ok (relimitThread w k t d)"
  unfolding relimitThread_def Let_def
  by (auto intro!: put_thread_ok stopPending_ok simp: thread_ok_iff split: option.splits prod.splits)

lemma reload_ok: "threads_ok d \<Longrightarrow> threads_ok (reloadConfigLocked loaded w ks d)"
  unfolding reloadConfigLocked_def Let_def
  by (auto intro!: for_threads_ok relimit_ok split: sum.splits)

lemma control_ok:
  assumes "threads_ok d"
  shows "threads_ok (applyControlCommandLocked c now d)"
proof (cases "threads d (cc_ThreadID c)")
  case None
  then show ?thesis using assms by (simp add: applyControlCommandLocked_def)
next
  case (Some t)
  with assms have "thread_ok t" by (rule threads_okD)
  with assms Some show ?thesis
    by (auto simp: applyControlCommandLocked_def thread_ok_iff intro!: put_thread_ok
        split: option.splits ControlCommandAction.splits)
qed

lemma reopen_ok: "threads_ok d \<Longrightarrow> threads_ok (reopenRestartRequiredLocked now ks d)"
  unfolding reopenRestartRequiredLocked_def
  by (auto intro!: for_threads_ok put_thread_ok simp: reopenThread_def Let_def thread_ok_iff
      elim!: canReopenD split: option.splits)

lemma stopAwaiting_ok:
  "threads_ok d \<Longrightarrow> threads_ok (stopAwaitingForControllerLocked k t now r d)"
  unfolding stopAwaitingForControllerLocked_def Let_def
  by (auto intro!: put_thread_ok simp: thread_ok_iff split: option.splits)

lemma stopPendingForController_ok:
  "threads_ok d \<Longrightarrow> threads_ok (stopPendingForControllerLocked k t now r d)"
  unfolding stopPendingForControllerLocked_def Let_def
  by (auto intro!: put_thread_ok simp: thread_ok_iff split: option.splits)

lemma reschedule_ok:
  "threads_ok d \<Longrightarrow> thread_ok t \<Longrightarrow> threads_ok (rescheduleAwaitingWithPolicyLocked k t now r c d)"
  unfolding rescheduleAwaitingWithPolicyLocked_def Let_def
  by (auto intro!: put_thread_ok stopAwaiting_ok simp: thread_ok_iff split: option.splits)

lemma expire_ok: "threads_ok d \<Longrightarrow> threads_ok (expireUnacknowledgedLocked now ks d)"
  unfolding expireUnacknowledgedLocked_def
  by (auto intro!: for_threads_ok reschedule_ok simp: expireThread_def rescheduleAwaitingLocked_def
      split: option.splits)

lemma collect_ok:
  assumes "threads_ok (fst acc)"
  shows "threads_ok (fst (collectThread now k acc))"
proof (cases "threads (fst acc) k")
  case None
  then show ?thesis using assms by (cases acc) (simp add: collectThread_def)
next
  case (Some t)
  with assms have "thread_ok t" by (rule threads_okD)
  with assms Some show ?thesis
    by (cases acc) (auto simp: collectThread_def thread_ok_iff intro!: put_thread_ok split: option.splits)
qed

lemma lifecycleCollect_ok: "threads_ok d \<Longrightarrow> threads_ok (fst (lifecycleCollect now ks d))"
  unfolding lifecycleCollect_def
  by (rule fold_preserves [where P = "\<lambda>acc. threads_ok (fst acc)"]) (simp_all add: collect_ok)

lemma advance_ok:
  "threads_ok d \<Longrightarrow> thread_ok t \<Longrightarrow> threads_ok (advanceInactiveAwaitingLocked k t now d)"
  unfolding advanceInactiveAwaitingLocked_def Let_def
  by (auto intro!: put_thread_ok simp: thread_ok_iff split: option.splits)

lemma recordSuccess_simps [simp]:
  "threads (recordControllerSuccessLocked d) = threads d"
  "d_active (recordControllerSuccessLocked d) = d_active d"
  "d_config (recordControllerSuccessLocked d) = d_config d"
  "d_activeCtx (recordControllerSuccessLocked d) = d_activeCtx d"
  "d_paused (recordControllerSuccessLocked d) = d_paused d"
  "threads_ok (recordControllerSuccessLocked d) = threads_ok d"
  by (simp_all add: recordControllerSuccessLocked_def)

lemma lifecycleApply_ok:
  assumes "threads_ok d"
  shows "threads_ok (lifecycleApply now c probe d)"
proof (cases "threads d (lc_threadID c)")
  case None
  then show ?thesis using assms by (simp add: lifecycleApply_def)
next
  case (Some t)
  with assms have "thread_ok t" by (rule threads_okD)
  with assms Some show ?thesis
    by (auto simp: lifecycleApply_def Let_def thread_ok_iff
        intro!: put_thread_ok stopAwaiting_ok advance_ok split: option.splits sum.splits)
qed

lemma start_goal_stops_threads [simp]:
  "threads (fst (start_goal_stops items n jobs d)) = threads d"
  by (induction items n jobs d rule: start_goal_stops.induct) (auto simp: Let_def)

lemma consider_ok:
  assumes "threads_ok (fst acc)"
  shows "threads_ok (fst (considerThread now k acc))"
proof (cases "threads (fst acc) k")
  case None
  then show ?thesis using assms by (cases acc) (simp add: considerThread_def)
next
  case (Some t)
  with assms have "thread_ok t" by (rule threads_okD)
  with assms Some show ?thesis
    by (cases acc) (auto simp: considerThread_def thread_ok_iff
        intro!: put_thread_ok stopPendingForController_ok split: option.splits)
qed

subsection \<open>What may be dispatched\<close>

definition dispatchable :: "daemon \<Rightarrow> gotime \<Rightarrow> string \<times> PendingRetry \<Rightarrow> bool" where
  "dispatchable d now item \<longleftrightarrow>
     (\<exists>t. threads d (fst item) = Some t \<and> t_Pending t = Some (snd item) \<and> t_Awaiting t = None \<and>
          p_DueAt (snd item) \<le> now \<and> \<not> held_back t \<and> \<not> is_active d (fst item) \<and>
          (is_zero (t_RecoveryStartedAt t) \<or>
           now - t_RecoveryStartedAt t \<le> maxAutomaticRecoveryDuration))"

lemma stopPendingForController_frame [simp]:
  "j \<noteq> k \<Longrightarrow> threads (stopPendingForControllerLocked k t now r d) j = threads d j"
  "d_active (stopPendingForControllerLocked k t now r d) = d_active d"
  "d_config (stopPendingForControllerLocked k t now r d) = d_config d"
  "is_active (stopPendingForControllerLocked k t now r d) j = is_active d j"
  by (simp_all add: stopPendingForControllerLocked_def Let_def is_active_def split: option.split)

lemma consider_frame:
  assumes "considerThread now k (d, cs) = (d', cs')"
  shows "j \<noteq> k \<Longrightarrow> threads d' j = threads d j" "d_active d' = d_active d" "d_config d' = d_config d"
    "d_activeCtx d' = d_activeCtx d"
    "cs' = cs \<or> (\<exists>p. cs' = cs @ [(k, p)] \<and> d' = d \<and> dispatchable d now (k, p))"
  using assms
  by (auto simp: considerThread_def dispatchable_def pending_due_def window_defs Let_def
      stopPendingForControllerLocked_def split: option.splits if_splits)

lemma consider_none:
  "considerThread now k (d, cs) = (fst (considerThread now k (d, [])), cs @ snd (considerThread now k (d, [])))"
  by (auto simp: considerThread_def split: option.splits)

lemma keep_new:
  "fold (considerThread now) ks (d, cs) = (d', cs') \<Longrightarrow> c \<in> set cs' \<Longrightarrow>
   c \<in> set cs \<or> fst c \<in> set ks"
proof (induction ks arbitrary: d cs)
  case (Cons k ks)
  obtain d1 cs1 where step: "considerThread now k (d, cs) = (d1, cs1)" by fastforce
  with Cons have "c \<in> set cs1 \<or> fst c \<in> set ks" by simp
  with consider_frame(5) [OF step] show ?case by auto
qed simp

lemma fold_consider:
  assumes "fold (considerThread now) ks (d, cs) = (d', cs')" and "distinct ks"
    and "set ks \<inter> fst ` set cs = {}" and "distinct (map fst cs)"
    and "\<forall>c\<in>set cs. dispatchable d now c" and "threads_ok d"
  shows "threads_ok d' \<and> d_active d' = d_active d \<and> d_config d' = d_config d \<and>
    d_activeCtx d' = d_activeCtx d \<and> distinct (map fst cs') \<and> (\<forall>c\<in>set cs'. dispatchable d' now c) \<and>
    (\<forall>j. j \<notin> set ks \<longrightarrow> threads d' j = threads d j) \<and>
    (\<forall>c\<in>set cs'. threads d' (fst c) = threads d (fst c))"
  using assms
proof (induction ks arbitrary: d cs)
  case Nil
  then show ?case by simp
next
  case (Cons k ks)
  obtain d1 cs1 where step: "considerThread now k (d, cs) = (d1, cs1)" by fastforce
  note f = consider_frame [OF step]
  have ok1: "threads_ok d1" using consider_ok [of "(d, cs)" now k] Cons.prems step by simp
  have keep: "dispatchable d1 now c" if "c \<in> set cs" for c
  proof -
    have "fst c \<noteq> k" using that Cons.prems(3) by force
    with f(1) [of "fst c"] f(2) Cons.prems(5) that show ?thesis
      by (auto simp: dispatchable_def is_active_def)
  qed
  have all1: "\<forall>c\<in>set cs1. dispatchable d1 now c" and d1: "distinct (map fst cs1)"
    and s1: "set ks \<inter> fst ` set cs1 = {}"
    using f(5) keep Cons.prems(2-4) by (auto; force)+
  have "fold (considerThread now) ks (d1, cs1) = (d', cs')" using Cons.prems(1) step by simp
  from Cons.IH [OF this _ s1 d1 all1 ok1] Cons.prems(2)
  have ih: "threads_ok d' \<and> d_active d' = d_active d1 \<and> d_config d' = d_config d1 \<and>
    d_activeCtx d' = d_activeCtx d1 \<and> distinct (map fst cs') \<and> (\<forall>c\<in>set cs'. dispatchable d' now c)"
    "\<And>j. j \<notin> set ks \<Longrightarrow> threads d' j = threads d1 j"
    "\<And>c. c \<in> set cs' \<Longrightarrow> threads d' (fst c) = threads d1 (fst c)" by simp_all
  have "threads d' (fst c) = threads d (fst c)" if c: "c \<in> set cs'" for c
  proof (cases "fst c = k \<and> d1 \<noteq> d")
    case False
    then show ?thesis using ih(3) [OF c] f(1) [of "fst c"] by auto
  next
    case True
    from f(5) True have "cs1 = cs" by auto
    with Cons.prems(2,3) True have "fst c \<notin> set ks" "fst c \<notin> fst ` set cs1" by auto
    with keep_new [OF \<open>fold (considerThread now) ks (d1, cs1) = (d', cs')\<close> c] show ?thesis by auto
  qed
  with ih f(1-4) Cons.prems(2) show ?case by auto
qed

lemma consider_dispatchable:
  "dispatchable d now (k, p) \<Longrightarrow> considerThread now k (d, cs) = (d, cs @ [(k, p)])"
  by (auto simp: dispatchable_def considerThread_def pending_due_def window_defs not_less)

text \<open>No thread that may be dispatched is missed.\<close>

lemma fold_consider_complete:
  "fold (considerThread now) ks (d, cs) = (d', cs') \<Longrightarrow> distinct ks \<Longrightarrow>
   set cs \<subseteq> set cs' \<and> (\<forall>k p. k \<in> set ks \<and> dispatchable d now (k, p) \<longrightarrow> (k, p) \<in> set cs')"
proof (induction ks arbitrary: d cs)
  case (Cons k ks)
  obtain d1 cs1 where step: "considerThread now k (d, cs) = (d1, cs1)" by fastforce
  note f = consider_frame [OF step]
  have ih: "set cs1 \<subseteq> set cs'" "\<And>j p. j \<in> set ks \<Longrightarrow> dispatchable d1 now (j, p) \<Longrightarrow> (j, p) \<in> set cs'"
    using Cons.IH [of d1 cs1] Cons.prems step by auto
  have "(j, p) \<in> set cs'" if "j \<in> set (k # ks)" "dispatchable d now (j, p)" for j p
  proof (cases "j = k")
    case True
    with consider_dispatchable [of d now k p cs] that step have "(j, p) \<in> set cs1" by auto
    with ih(1) show ?thesis by blast
  next
    case False
    with f(1,2) that(2) have "dispatchable d1 now (j, p)" by (simp add: dispatchable_def is_active_def)
    with ih(2) that(1) False show ?thesis by simp
  qed
  with ih(1) f(5) show ?case by auto
qed simp

subsection \<open>Dispatching one candidate\<close>

lemma dispatchOne_frame:
  assumes "dispatchOne lib now (k, p) (d, jobs) = (d', jobs')"
  shows "j \<noteq> k \<Longrightarrow> threads d' j = threads d j" "j \<noteq> k \<Longrightarrow> is_active d' j = is_active d j"
    "d_config d' = d_config d" "jobs' = jobs @ [recoveryJob lib k p]" "d_activeCtx d' = d_activeCtx d"
    "d_active d' = AList.update k (recoveryJob lib k p) (d_active d)"
  using assms by (auto simp: dispatchOne_def Let_def set_active_def is_active_def update_conv)

lemma dispatchOne_ok:
  assumes "dispatchOne lib now (k, p) (d, jobs) = (d', jobs')" and "threads_ok d"
    and "dispatchable d now (k, p)"
  shows "threads_ok d'"
proof -
  from assms(3) obtain t where t: "threads d k = Some t" "t_Pending t = Some p" "t_Awaiting t = None"
    by (auto simp: dispatchable_def)
  from threads_okD [OF assms(2) t(1)] assms(1,2) t show ?thesis
    by (auto simp: dispatchOne_def Let_def get_thread_def thread_ok_iff intro!: put_thread_ok)
qed

lemma fold_dispatchOne:
  assumes "fold (dispatchOne lib now) cs (d, jobs) = (d', jobs')" and "distinct (map fst cs)"
    and "\<forall>c\<in>set cs. dispatchable d now c" and "threads_ok d"
  shows "threads_ok d' \<and> d_config d' = d_config d \<and> d_activeCtx d' = d_activeCtx d \<and>
    jobs' = jobs @ map (\<lambda>(k, p). recoveryJob lib k p) cs \<and>
    (\<forall>j. is_active d' j \<longleftrightarrow> is_active d j \<or> j \<in> fst ` set cs) \<and>
    d_active d' = fold (\<lambda>(k, p). AList.update k (recoveryJob lib k p)) cs (d_active d)"
  using assms
proof (induction cs arbitrary: d jobs)
  case Nil
  then show ?case by simp
next
  case (Cons c cs)
  obtain k p where c: "c = (k, p)" by (cases c)
  obtain d1 jobs1 where step: "dispatchOne lib now (k, p) (d, jobs) = (d1, jobs1)" by fastforce
  note f = dispatchOne_frame [OF step]
  have "dispatchable d1 now x" if "x \<in> set cs" for x
  proof -
    have "fst x \<noteq> k" using that Cons.prems(2) c by force
    with f(1,2) [of "fst x"] Cons.prems(3) that show ?thesis by (auto simp: dispatchable_def)
  qed
  moreover have "threads_ok d1"
    using dispatchOne_ok [OF step] Cons.prems c by simp
  moreover have "fold (dispatchOne lib now) cs (d1, jobs1) = (d', jobs')"
    using Cons.prems(1) step c by simp
  ultimately have "threads_ok d' \<and> d_config d' = d_config d1 \<and> d_activeCtx d' = d_activeCtx d1 \<and>
    jobs' = jobs1 @ map (\<lambda>(k, p). recoveryJob lib k p) cs \<and>
    (\<forall>j. is_active d' j \<longleftrightarrow> is_active d1 j \<or> j \<in> fst ` set cs) \<and>
    d_active d' = fold (\<lambda>(k, p). AList.update k (recoveryJob lib k p)) cs (d_active d1)"
    using Cons.IH [of d1 jobs1] Cons.prems(2) by simp
  moreover have "is_active d1 j \<longleftrightarrow> is_active d j \<or> j = k" for j
    using f(6) by (auto simp: is_active_def update_conv)
  ultimately show ?case using f(3-6) c by auto
qed

text \<open>The record a dispatched thread gets.\<close>

definition dispatched_thread :: "ThreadState \<Rightarrow> PendingRetry \<Rightarrow> gotime \<Rightarrow> Config \<Rightarrow> ThreadState" where
  "dispatched_thread thread pending now config =
     thread\<lparr>t_Pending := None, t_LastAutoRetryAt := now,
       t_Awaiting := Some (awaitingDispatch pending now config)\<rparr>"

lemma fold_dispatchOne_threads:
  "fold (dispatchOne lib now) cs (d, jobs) = (d', jobs') \<Longrightarrow> distinct (map fst cs) \<Longrightarrow>
   (\<forall>(k, p)\<in>set cs. threads d' k = Some (dispatched_thread (get_thread d k) p now (d_config d))) \<and>
   (\<forall>j. j \<notin> fst ` set cs \<longrightarrow> threads d' j = threads d j)"
proof (induction cs arbitrary: d jobs)
  case (Cons c cs)
  obtain k p where c: "c = (k, p)" by (cases c)
  obtain d1 jobs1 where step: "dispatchOne lib now (k, p) (d, jobs) = (d1, jobs1)" by fastforce
  note f = dispatchOne_frame [OF step]
  have k: "threads d1 k = Some (dispatched_thread (get_thread d k) p now (d_config d))"
    using step by (auto simp: dispatchOne_def dispatched_thread_def Let_def)
  have "get_thread d1 j = get_thread d j" if "(j, q) \<in> set cs" for j q
  proof -
    have "j \<noteq> k" using that Cons.prems(2) c by (auto simp: image_iff)
    then show ?thesis using f(1) [of j] by (simp add: get_thread_def)
  qed
  moreover have "fold (dispatchOne lib now) cs (d1, jobs1) = (d', jobs')"
    using Cons.prems(1) step c by simp
  ultimately have ih:
    "\<And>j q. (j, q) \<in> set cs \<Longrightarrow> threads d' j = Some (dispatched_thread (get_thread d j) q now (d_config d))"
    "\<And>j. j \<notin> fst ` set cs \<Longrightarrow> threads d' j = threads d1 j"
    using Cons.IH [of d1 jobs1] Cons.prems(2) f(3) by auto
  have "k \<notin> fst ` set cs" using Cons.prems(2) c by simp
  with ih(2) k have "threads d' k = Some (dispatched_thread (get_thread d k) p now (d_config d))" by simp
  with ih f(1) c show ?case by auto
qed simp

subsection \<open>Starting the goal stops\<close>

lemma start_goal_stops_result:
  "0 \<le> n \<Longrightarrow> start_goal_stops items n jobs d = (d', jobs', n') \<Longrightarrow>
   jobs' = jobs @ map (\<lambda>(k, g). goalBlockJob k g (get_thread d k)) (take (nat n) items) \<and>
   n' = n - int (length (take (nat n) items)) \<and> 0 \<le> n' \<and>
   d' = fold (\<lambda>(k, g) d. set_active k (goalBlockJob k g (get_thread d k)) d) (take (nat n) items) d"
proof (induction items n jobs d rule: start_goal_stops.induct)
  case (1 available jobs d)
  then show ?case by simp
next
  case (2 threadID request items available jobs d)
  show ?case
  proof (cases "available = 0")
    case True
    with 2 show ?thesis by simp
  next
    case False
    with 2(2) have n: "nat available = Suc (nat (available - 1))" by simp
    have g: "get_thread (set_active threadID j d) k = get_thread d k" for j k
      by (simp add: get_thread_def)
    from False 2 show ?thesis by (simp add: Let_def n g)
  qed
qed

lemma fold_set_active:
  "is_active (fold (\<lambda>(k, g) d. set_active k (f k g d) d) items d) j \<longleftrightarrow>
     is_active d j \<or> j \<in> fst ` set items"
  "threads (fold (\<lambda>(k, g) d. set_active k (f k g d) d) items d) = threads d"
  "d_config (fold (\<lambda>(k, g) d. set_active k (f k g d) d) items d) = d_config d"
  "d_paused (fold (\<lambda>(k, g) d. set_active k (f k g d) d) items d) = d_paused d"
  "d_activeCtx (fold (\<lambda>(k, g) d. set_active k (f k g d) d) items d) = d_activeCtx d"
  "d_controllerState (fold (\<lambda>(k, g) d. set_active k (f k g d) d) items d) = d_controllerState d"
  by (induction items arbitrary: d) auto

lemma length_update_new: "k \<notin> fst ` set al \<Longrightarrow> length (AList.update k v al) = Suc (length al)"
  by (induction al) auto

lemma is_active_keys: "is_active d k \<longleftrightarrow> k \<in> fst ` set (d_active d)"
  by (simp add: is_active_def map_of_eq_None_iff)

lemma length_fold_set_active:
  "distinct (map fst items) \<Longrightarrow> (\<forall>c\<in>set items. \<not> is_active d (fst c)) \<Longrightarrow>
   length (d_active (fold (\<lambda>(k, g) d. set_active k (f k g d) d) items d)) = length (d_active d) + length items"
proof (induction items arbitrary: d)
  case Nil
  then show ?case by simp
next
  case (Cons c items)
  obtain k g where c: "c = (k, g)" by (cases c)
  let ?d = "set_active k (f k g d) d"
  have "\<forall>c\<in>set items. \<not> is_active ?d (fst c)"
    using Cons.prems c by force
  moreover have "length (d_active ?d) = Suc (length (d_active d))"
    using Cons.prems(2) c by (simp add: set_active_def length_update_new is_active_keys)
  ultimately show ?case using Cons c by simp
qed

lemma distinct_fold_set_active:
  "distinct (map fst (d_active d)) \<Longrightarrow>
   distinct (map fst (d_active (fold (\<lambda>(k, g) d. set_active k (f k g d) d) items d)))"
  by (induction items arbitrary: d) (auto simp: set_active_def distinct_update)

lemma distinct_fold_update:
  "distinct (map fst al) \<Longrightarrow> distinct (map fst (fold (\<lambda>(k, p). AList.update k (f k p)) xs al))"
  by (induction xs arbitrary: al) (auto simp: distinct_update)

lemma goal_stop_candidates_set:
  "(k, g) \<in> set (goal_stop_candidates now ks d) \<longleftrightarrow>
   k \<in> set ks \<and> (\<exists>t. threads d k = Some t \<and> t_GoalStop t = Some g) \<and> g_DueAt g \<le> now \<and> \<not> is_active d k"
proof (induction ks)
  case Nil
  then show ?case by (simp add: goal_stop_candidates_def List.map_filter_simps)
next
  case (Cons j ks)
  then show ?case
    by (cases "threads d j"; cases "t_GoalStop (the (threads d j))")
      (auto simp: goal_stop_candidates_def List.map_filter_simps)
qed

lemma goal_stop_candidates_distinct:
  "distinct ks \<Longrightarrow> distinct (map fst (goal_stop_candidates now ks d))"
proof (induction ks)
  case Nil
  then show ?case by (simp add: goal_stop_candidates_def List.map_filter_simps)
next
  case (Cons k ks)
  have "k \<notin> fst ` set (goal_stop_candidates now ks d)"
    using Cons.prems goal_stop_candidates_set [of k _ now ks d] by force
  with Cons show ?case
    by (auto simp: goal_stop_candidates_def List.map_filter_simps split: option.split)
qed

subsection \<open>The whole dispatch\<close>

text \<open>
  What \<open>dispatchDueLocked\<close> returned, as one fact: \<open>goals\<close> are the goal stops it started,
  \<open>cs\<close> the pending retries it promoted, \<open>dm\<close> the daemon between the two loops.
\<close>

definition dispatch_result ::
    "golib \<Rightarrow> gotime \<Rightarrow> daemon \<Rightarrow> daemon \<Rightarrow> RetryJob list \<Rightarrow> (string \<times> GoalStopRequest) list \<Rightarrow> daemon \<Rightarrow>
     (string \<times> PendingRetry) list \<Rightarrow> bool" where
  "dispatch_result lib now d d' jobs goals dm cs \<longleftrightarrow>
     jobs = map (\<lambda>(k, g). goalBlockJob k g (get_thread d k)) goals @
            map (\<lambda>(k, p). recoveryJob lib k p) cs \<and>
     distinct (map fst goals) \<and> distinct (map fst cs) \<and>
     (\<forall>(k, g)\<in>set goals. \<not> is_active d k \<and> g_DueAt g \<le> now \<and>
        (\<exists>t. threads d k = Some t \<and> t_GoalStop t = Some g)) \<and>
     (\<forall>c\<in>set cs. dispatchable dm now c \<and> threads dm (fst c) = threads d (fst c)) \<and>
     (\<forall>(k, p)\<in>set cs. threads d' k = Some (dispatched_thread (get_thread d k) p now (d_config d))) \<and>
     (\<forall>k. is_active dm k \<longleftrightarrow> is_active d k \<or> k \<in> fst ` set goals) \<and>
     length (d_active dm) = length (d_active d) + length goals \<and>
     d_active d' = fold (\<lambda>(k, p). AList.update k (recoveryJob lib k p)) cs (d_active dm) \<and>
     int (length (d_active d) + length goals + length cs)
       \<le> max (int (length (d_active d))) (c_MaxParallelRetries (d_config d)) \<and>
     d_config d' = d_config d \<and> d_activeCtx d' = d_activeCtx d \<and> threads_ok d' \<and>
     (cs \<noteq> [] \<longrightarrow> \<not> d_paused d \<and> \<not> no_transport d) \<and>
     (distinct (map fst (d_active d)) \<longrightarrow> distinct (map fst (d_active d')))"

lemma no_transport_cong:
  "d_config d' = d_config d \<Longrightarrow> d_controllerState d' = d_controllerState d \<Longrightarrow> no_transport d' = no_transport d"
  by (simp add: no_transport_def)

lemma stopUntransported_frame:
  "d_active (for_threads ks (stopUntransported now r) d) = d_active d \<and>
   d_config (for_threads ks (stopUntransported now r) d) = d_config d \<and>
   d_activeCtx (for_threads ks (stopUntransported now r) d) = d_activeCtx d"
  by (rule for_threads_invariant [where
        P = "\<lambda>x. d_active x = d_active d \<and> d_config x = d_config d \<and> d_activeCtx x = d_activeCtx d"])
    (auto simp: stopUntransported_def stopPendingForControllerLocked_def Let_def split: option.splits)

lemma stopUntransported_ok: "threads_ok d \<Longrightarrow> threads_ok (for_threads ks (stopUntransported now r) d)"
  by (rule for_threads_ok) (auto simp: stopUntransported_def intro!: stopPendingForController_ok)

lemma dispatch_nothing:
  "threads_ok d \<Longrightarrow> dispatch_result lib now d d [] [] d []"
  by (simp add: dispatch_result_def)

lemma dispatch_sound:
  assumes disp: "dispatchDueLocked lib now ks1 ks2 d = (d', jobs)"
    and ks: "distinct ks1" "distinct ks2" and ok: "threads_ok d"
  obtains goals dm cs where "dispatch_result lib now d d' jobs goals dm cs"
    and "cs = [] \<and> (d_paused d \<or> no_transport d \<or>
        c_MaxParallelRetries (d_config d) \<le> int (length (d_active d) + length goals)) \<or>
      (\<exists>n cs0. cs = take n (sort_key (\<lambda>(_, p). p_DueAt p) cs0) \<and>
      int (length (d_active d) + length goals) + int n = c_MaxParallelRetries (d_config d) \<and>
      (\<forall>k p. k \<in> set ks2 \<and> dispatchable d now (k, p) \<and> k \<notin> fst ` set goals \<longrightarrow> (k, p) \<in> set cs0))"
proof (cases "c_MaxParallelRetries (d_config d) - int (length (d_active d)) \<le> 0")
  case True
  with disp have "d' = d" "jobs = []" by (simp_all add: dispatchDueLocked_def)
  then show ?thesis using dispatch_nothing [OF ok] True by (intro that [of "[]" d "[]"]) simp_all
next
  case False
  define n where "n = c_MaxParallelRetries (d_config d) - int (length (d_active d))"
  define items where "items = sort_key (\<lambda>(_, g). g_DueAt g) (goal_stop_candidates now ks1 d)"
  obtain d1 jobs1 n1 where st: "start_goal_stops items n [] d = (d1, jobs1, n1)"
    by (metis prod_cases3)
  define goals where "goals = take (nat n) items"
  have n: "0 < n" using False by (simp add: n_def)
  note r = start_goal_stops_result [OF less_imp_le [OF n] st, folded goals_def]
  have items: "set items = set (goal_stop_candidates now ks1 d)" "distinct (map fst items)"
    using goal_stop_candidates_distinct [OF ks(1), of now d]
    by (auto simp: items_def distinct_map intro: inj_on_subset)
  have dg: "distinct (map fst goals)"
    using items(2) by (simp add: goals_def flip: take_map)
  have goals: "\<forall>(k, g)\<in>set goals. \<not> is_active d k \<and> g_DueAt g \<le> now \<and>
      (\<exists>t. threads d k = Some t \<and> t_GoalStop t = Some g)"
    using items(1) goal_stop_candidates_set [of _ _ now ks1 d] by (auto simp: goals_def dest!: in_set_takeD)
  have d1: "d1 = fold (\<lambda>(k, g) d. set_active k (goalBlockJob k g (get_thread d k)) d) goals d"
    using r by simp
  have act1: "is_active d1 k \<longleftrightarrow> is_active d k \<or> k \<in> fst ` set goals" for k
    by (simp add: d1 fold_set_active)
  have fr1: "threads d1 = threads d" "d_config d1 = d_config d" "d_paused d1 = d_paused d"
    "d_activeCtx d1 = d_activeCtx d" "d_controllerState d1 = d_controllerState d"
    by (simp_all add: d1 fold_set_active)
  have len1: "length (d_active d1) = length (d_active d) + length goals"
    unfolding d1 using dg goals by (intro length_fold_set_active) auto
  have da1: "distinct (map fst (d_active d)) \<longrightarrow> distinct (map fst (d_active d1))"
    by (simp add: d1 distinct_fold_set_active)
  have n1: "0 \<le> n1" "n1 = n - int (length goals)"
    using r by simp_all
  have ok1: "threads_ok d1" using ok fr1(1) by (simp add: threads_ok_def)
  note disp' = disp [unfolded dispatchDueLocked_def Let_def, folded n_def, folded items_def,
      unfolded st prod.case]
  note base = dispatch_result_def n_def [symmetric]
  have bound: "int (length (d_active d) + length goals) + n1 = c_MaxParallelRetries (d_config d)"
    using n1 by (simp add: n_def)
  consider "n1 = 0 \<or> d_paused d" | "n1 \<noteq> 0" "\<not> d_paused d" "no_transport d"
    | "n1 \<noteq> 0" "\<not> d_paused d" "\<not> no_transport d" by blast
  then show ?thesis
  proof cases
    case 1
    with disp' n fr1(3) have "d' = d1" "jobs = jobs1" by (auto split: if_splits)
    then have "dispatch_result lib now d d' jobs goals d1 []"
      using r dg goals da1 act1 fr1 len1 ok1 bound n1 by (simp add: dispatch_result_def)
    then show ?thesis by (rule that) (use 1 bound in auto)
  next
    case 2
    with disp' n fr1 have "d' = for_threads ks2 (stopUntransported now (no_transport_reason d1)) d1"
      "jobs = jobs1" by (auto simp: no_transport_cong [OF fr1(2,5)])
    then have "dispatch_result lib now d d' jobs goals d1 []"
      using r dg goals da1 act1 fr1 len1 bound n1 stopUntransported_ok [OF ok1]
        stopUntransported_frame [of ks2 now "no_transport_reason d1" d1]
      by (simp add: dispatch_result_def)
    then show ?thesis by (rule that) (use 2 in auto)
  next
    case 3
    obtain d2 cs0 where cons: "fold (considerThread now) ks2 (d1, []) = (d2, cs0)" by fastforce
    have f: "threads_ok d2 \<and> d_active d2 = d_active d1 \<and> d_config d2 = d_config d1 \<and>
        d_activeCtx d2 = d_activeCtx d1 \<and> distinct (map fst cs0) \<and>
        (\<forall>c\<in>set cs0. dispatchable d2 now c \<and> threads d2 (fst c) = threads d1 (fst c))"
      using fold_consider [OF cons ks(2)] ok1 by simp
    define cs where "cs = take (nat n1) (sort_key (\<lambda>(_, p). p_DueAt p) cs0)"
    have dcs: "distinct (map fst cs)" "\<forall>c\<in>set cs. dispatchable d2 now c"
      and keep: "\<forall>c\<in>set cs. threads d2 (fst c) = threads d (fst c)"
      using f fr1(1) by (auto simp: cs_def distinct_map dest!: in_set_takeD intro: inj_on_subset
          simp flip: take_map)
    have "fold (dispatchOne lib now) cs (d2, jobs1) = (d', jobs)"
      using disp' n 3 fr1 cons by (simp add: no_transport_cong [OF fr1(2,5)] cs_def)
    note disp2 = this
    have thr: "\<forall>(k, p)\<in>set cs. threads d' k = Some (dispatched_thread (get_thread d k) p now (d_config d))"
    proof -
      have "get_thread d2 k = get_thread d k" if "(k, p) \<in> set cs" for k p
        using keep that by (force simp: get_thread_def)
      with fold_dispatchOne_threads [OF disp2 dcs(1)] f fr1(2) show ?thesis by fastforce
    qed
    from fold_dispatchOne [OF disp2 dcs] f
    have "threads_ok d' \<and> d_config d' = d_config d2 \<and> d_activeCtx d' = d_activeCtx d2 \<and>
      jobs = jobs1 @ map (\<lambda>(k, p). recoveryJob lib k p) cs \<and>
      d_active d' = fold (\<lambda>(k, p). AList.update k (recoveryJob lib k p)) cs (d_active d2)" by blast
    moreover have "is_active d2 k = is_active d1 k" for k
      using f by (simp add: is_active_def)
    moreover have "int (length cs) \<le> n1"
      using n1(1) by (simp add: cs_def)
    ultimately have "dispatch_result lib now d d' jobs goals d2 cs"
      using r dg goals da1 act1 fr1 len1 f dcs keep thr bound 3 by (simp add: dispatch_result_def distinct_fold_update)
    moreover have "(k, p) \<in> set cs0"
      if "k \<in> set ks2" "dispatchable d now (k, p)" "k \<notin> fst ` set goals" for k p
    proof -
      have "dispatchable d1 now (k, p)" using that act1 [of k] fr1(1) by (simp add: dispatchable_def)
      with fold_consider_complete [OF cons ks(2)] that(1) show ?thesis by blast
    qed
    moreover have "int (length (d_active d) + length goals) + int (nat n1) = c_MaxParallelRetries (d_config d)"
      using bound n1(1) by simp
    ultimately show ?thesis using that [of goals d2 cs] unfolding cs_def by blast
  qed
qed

subsection \<open>Rescheduling and results\<close>

text \<open>What the controller's limit allows, and what it stops.\<close>

definition controller_gives_up :: "string \<Rightarrow> bool \<Rightarrow> AwaitingRetry \<Rightarrow> Config \<Rightarrow> bool" where
  "controller_gives_up reason countFailure a config \<longleftrightarrow>
     controllerFailureNeedsAction reason \<or>
     (countFailure \<and> c_ControllerFailureLimit config \<le> a_DispatchFailures a + 1)"

lemma reschedule_effect:
  assumes "valid_config (d_config d)" and "t_Awaiting t = Some a"
  shows "threads (rescheduleAwaitingWithPolicyLocked k t now reason countFailure d) k = Some
    (if controller_gives_up reason countFailure a (d_config d)
     then t\<lparr>t_Pending := None, t_Awaiting := None, t_GoalStop := None,
            t_RecoveryAttempts := completedRetryCount (a_Attempt a),
            t_ConsecutiveRetries := completedRetryCount (a_ConsecutiveRetry a),
            t_Stopped := Some \<lparr>s_EventKey = a_EventKey a, s_FailedTurnID = a_FailedTurnID a,
              s_FailedAt = a_FailedAt a, s_OriginTurnStartedAt = a_OriginTurnStartedAt a,
              s_Class = a_Class a, s_StoppedAt = now, s_CodexHome = a_CodexHome a,
              s_RolloutPath = a_RolloutPath a, s_Attempts = completedRetryCount (a_Attempt a),
              s_MaxAttempts = a_MaxAttempts a,
              s_ConsecutiveRetries = completedRetryCount (a_ConsecutiveRetry a),
              s_MaxConsecutive = a_MaxConsecutive a, s_Reason = reason, s_Historical = False,
              s_TransportBlocked = None\<rparr>\<rparr>
     else (let failures = a_DispatchFailures a + (if countFailure then 1 else 0)
           in t\<lparr>t_Awaiting := None,
                t_Pending := Some ((pending_of_awaiting a
                    (now + spec_delay (max failures 1) (d_config d) * Second))
                  \<lparr>p_DispatchFailures := failures\<rparr>)\<rparr>))"
proof -
  have "(if n < 1 then 1 else n) = max n (1 :: int)" for n by simp
  then show ?thesis
    using assms
    by (simp add: rescheduleAwaitingWithPolicyLocked_def controller_gives_up_def
        stopAwaitingForControllerLocked_def retryDelay_spec Let_def)
qed

definition noted :: "DispatchResult \<Rightarrow> ThreadState \<Rightarrow> ThreadState" where
  "noted result t = (if d_ParentNotified result
     then update_awaiting (\<lambda>a. a\<lparr>a_ParentNotified := True\<rparr>) t else t)"

lemma applyJobResult_retry:
  assumes "err \<noteq> None \<or> d_Outcome result = outcomeRetryLater"
  shows "applyJobResult job result err fin t d =
    (let reason = controllerFailureReason result err
     in rescheduleAwaitingWithPolicyLocked (j_ThreadID job) (noted result t) fin reason True
          (d\<lparr>d_controllerState := reason\<rparr>))"
  using assms by (auto simp: applyJobResult_def noted_def Let_def)

lemma applyJobResult_busy:
  assumes "err = None" "d_Outcome result = outcomeUserActive"
  shows "applyJobResult job result err fin t d =
    rescheduleAwaitingWithPolicyLocked (j_ThreadID job)
      (update_awaiting (\<lambda>a. a\<lparr>a_DispatchFailures := 0\<rparr>) (noted result t)) fin
      (controllerFailureReason result None) False (recordControllerSuccessLocked d)"
  using assms by (simp add: applyJobResult_def noted_def Let_def)

end
