(* ===== verification/State_Store.thy ===== *)
theory State_Store
  imports Retry_State Thread_Id "HOL-Library.List_Lexorder" "HOL-Library.Char_ord"
    "HOL-Library.Product_Lexorder"
begin

section \<open>Loading, pruning and trimming the runtime state (state.go, state\_migration.go)\<close>

text \<open>
  The decoded content of the state file is an argument (\<open>encoding/json\<close> fills the record; a
  missing map is the empty map). The clean-up of \<open>prune\<close> is three loops that delete old
  entries and three trims that keep the newest ones. A loop's key order is an argument; the
  trims sort by time and then by key, a total order, so their result does not depend on it.
\<close>

definition maxProcessedEventEntries :: int where
  "maxProcessedEventEntries = 20000"

definition maxFileCursorEntries :: int where
  "maxFileCursorEntries = 2000"

definition maxThreadEntries :: int where
  "maxThreadEntries = 500"

definition maxRuntimeStateBytes :: int where
  "maxRuntimeStateBytes = 8 * 1024 * 1024"

lemmas state_limits =
  maxProcessedEventEntries_def maxFileCursorEntries_def maxThreadEntries_def maxRuntimeStateBytes_def

definition newRuntimeState :: RuntimeState where
  "newRuntimeState = \<lparr>rs_Version = 5, rs_Initialized = False, rs_Files = Map.empty,
     rs_Threads = Map.empty, rs_ProcessedEvents = Map.empty\<rparr>"

subsection \<open>Repairing the thread identifiers of older releases\<close>

definition threadRolloutPath :: "ThreadState \<Rightarrow> string" where
  "threadRolloutPath thread =
     (let pending = (case t_Pending thread of Some p \<Rightarrow> p_RolloutPath p | None \<Rightarrow> []);
          awaiting = (case t_Awaiting thread of Some a \<Rightarrow> a_RolloutPath a | None \<Rightarrow> []);
          stopped = (case t_Stopped thread of Some s \<Rightarrow> s_RolloutPath s | None \<Rightarrow> [])
      in if pending \<noteq> [] then pending else if awaiting \<noteq> [] then awaiting else stopped)"

definition migratedThreadStateRank :: "ThreadState \<Rightarrow> int \<times> gotime" where
  "migratedThreadStateRank thread =
     (case t_Awaiting thread of
        Some a \<Rightarrow> (3, if is_zero (a_DispatchStartedAt a) then a_StartedAt a else a_DispatchStartedAt a)
      | None \<Rightarrow>
          (case t_Pending thread of
             Some p \<Rightarrow> (2, if is_zero (p_FailedAt p) then p_DueAt p else p_FailedAt p)
           | None \<Rightarrow>
               (case t_Stopped thread of
                  Some s \<Rightarrow> (1, s_StoppedAt s)
                | None \<Rightarrow> (0, t_LastFailureAt thread))))"

definition mergeMigratedThreadState :: "ThreadState \<Rightarrow> ThreadState \<Rightarrow> ThreadState" where
  "mergeMigratedThreadState left right =
     (let (leftRank, leftAt) = migratedThreadStateRank left;
          (rightRank, rightAt) = migratedThreadStateRank right
      in if rightRank > leftRank \<or> (rightRank = leftRank \<and> After rightAt leftAt) then right else left)"

definition alias_step ::
    "(string \<rightharpoonup> ThreadState) \<Rightarrow> string \<Rightarrow> (string \<rightharpoonup> string) \<Rightarrow> (string \<rightharpoonup> string)" where
  "alias_step ts tid aliases =
     (case ts tid of
        None \<Rightarrow> aliases
      | Some thread \<Rightarrow>
          let (threadID, turnID) = rolloutIDsFromPath (threadRolloutPath thread)
          in if threadID = [] \<or> turnID = [] \<or> \<not> equal_fold tid turnID \<or> equal_fold tid threadID
             then aliases else aliases(to_lower tid \<mapsto> threadID))"

definition alias_of :: "(string \<rightharpoonup> string) \<Rightarrow> string \<Rightarrow> string" where
  "alias_of aliases k = (case aliases k of Some v \<Rightarrow> v | None \<Rightarrow> [])"

definition normalize_step ::
    "(string \<rightharpoonup> string) \<Rightarrow> (string \<rightharpoonup> ThreadState) \<Rightarrow> string \<Rightarrow> (string \<rightharpoonup> ThreadState) \<Rightarrow>
     (string \<rightharpoonup> ThreadState)" where
  "normalize_step aliases ts tid normalized =
     (case ts tid of
        None \<Rightarrow> normalized
      | Some thread \<Rightarrow>
          let target = (if alias_of aliases (to_lower tid) = [] then to_lower tid
                        else alias_of aliases (to_lower tid))
          in case normalized target of
               Some existing \<Rightarrow> normalized(target \<mapsto> mergeMigratedThreadState existing thread)
             | None \<Rightarrow> normalized(target \<mapsto> thread))"

definition rekey_step ::
    "(string \<rightharpoonup> string) \<Rightarrow> string \<Rightarrow> (string \<rightharpoonup> gotime) \<Rightarrow> (string \<rightharpoonup> gotime)" where
  "rekey_step aliases key events =
     (case events key of
        None \<Rightarrow> events
      | Some seenAt \<Rightarrow>
          let oldID = takeWhile (\<lambda>c. c \<noteq> CHR ''|'') key;
              tail = dropWhile (\<lambda>c. c \<noteq> CHR ''|'') key;
              newID = alias_of aliases (to_lower oldID)
          in if tail = [] \<or> oldID = [] \<or> newID = [] then events
             else
               let newKey = newID @ tail;
                   events = (case events newKey of
                       None \<Rightarrow> events(newKey \<mapsto> seenAt)
                     | Some previous \<Rightarrow>
                         if After seenAt previous then events(newKey \<mapsto> seenAt) else events)
               in events(key := None))"

text \<open>
  \<open>ks1\<close> and \<open>ks2\<close> are the orders of the two loops over the threads, \<open>ks3\<close> that of the loop over
  the events; Go may or may not visit an event key that the loop itself inserted, so \<open>ks3\<close> may
  name keys that are not in the map at the start.
\<close>

definition migrateCodex153ThreadIDs ::
    "string list \<Rightarrow> string list \<Rightarrow> string list \<Rightarrow> RuntimeState \<Rightarrow> RuntimeState" where
  "migrateCodex153ThreadIDs ks1 ks2 ks3 state =
     (let aliases = fold (alias_step (rs_Threads state)) ks1 Map.empty
      in if \<forall>k\<in>set (map to_lower ks1). aliases k = None then state
         else state\<lparr>
           rs_Threads := fold (normalize_step aliases (rs_Threads state)) ks2 Map.empty,
           rs_ProcessedEvents := fold (rekey_step aliases) ks3 (rs_ProcessedEvents state)\<rparr>)"

subsection \<open>Loading\<close>

text \<open>The repairs of one record: \<open>attempts\<close>, \<open>consecutive\<close> and \<open>at\<close> are the thread's, already repaired.\<close>

definition normalizePending :: "int \<Rightarrow> int \<Rightarrow> gotime \<Rightarrow> PendingRetry \<Rightarrow> PendingRetry" where
  "normalizePending attempts consecutive at p =
     (let p = (if p_Attempt p < 1
               then p\<lparr>p_Attempt := (if attempts < 1 then 1 else attempts)\<rparr> else p);
          p = (if p_ConsecutiveRetry p < 1
               then p\<lparr>p_ConsecutiveRetry := (if consecutive < 1 then p_Attempt p else consecutive)\<rparr>
               else p);
          p = (if p_MaxConsecutive p < 1 then p\<lparr>p_MaxConsecutive := p_MaxAttempts p\<rparr> else p)
      in if is_zero (p_FailedAt p) then p\<lparr>p_FailedAt := at\<rparr> else p)"

definition normalizeAwaiting :: "int \<Rightarrow> gotime \<Rightarrow> AwaitingRetry \<Rightarrow> AwaitingRetry" where
  "normalizeAwaiting consecutive at a =
     (let a = (if a_ConsecutiveRetry a < 1
               then a\<lparr>a_ConsecutiveRetry := (if consecutive < 1 then a_Attempt a else consecutive)\<rparr>
               else a);
          a = (if a_MaxConsecutive a < 1 then a\<lparr>a_MaxConsecutive := a_MaxAttempts a\<rparr> else a)
      in if is_zero (a_FailedAt a) then a\<lparr>a_FailedAt := at\<rparr> else a)"

definition normalizeStopped :: "StoppedRetry \<Rightarrow> StoppedRetry" where
  "normalizeStopped s =
     (let s = (if s_ConsecutiveRetries s < 1 then s\<lparr>s_ConsecutiveRetries := s_Attempts s\<rparr> else s)
      in if s_MaxConsecutive s < 1 then s\<lparr>s_MaxConsecutive := s_MaxAttempts s\<rparr> else s)"

definition normalizeThread :: "ThreadState \<Rightarrow> ThreadState" where
  "normalizeThread thread =
     (let legacy = t_LegacyFailures thread;
          attempts = (if t_RecoveryAttempts thread < 1 \<and> legacy > 0 then legacy
                      else t_RecoveryAttempts thread);
          consecutive = (if t_ConsecutiveRetries thread < 1 \<and> legacy > 0 then legacy
                         else t_ConsecutiveRetries thread);
          at = t_LastFailureAt thread;
          pending = map_option (normalizePending attempts consecutive at) (t_Pending thread);
          awaiting = map_option (normalizeAwaiting consecutive at) (t_Awaiting thread);
          stopped = map_option normalizeStopped (t_Stopped thread);
          goalStop = (case t_GoalStop thread of
              None \<Rightarrow> None
            | Some g \<Rightarrow>
                (case stopped of
                   None \<Rightarrow> None
                 | Some s \<Rightarrow> if g_EventKey g \<noteq> s_EventKey s then None else Some g))
      in thread\<lparr>t_RecoveryAttempts := attempts, t_ConsecutiveRetries := consecutive,
           t_LegacyFailures := 0, t_Pending := pending, t_Awaiting := awaiting,
           t_Stopped := stopped, t_GoalStop := goalStop\<rparr>)"

definition normalize_thread_step ::
    "string \<Rightarrow> (string \<rightharpoonup> ThreadState) \<Rightarrow> (string \<rightharpoonup> ThreadState)" where
  "normalize_thread_step tid m = (case m tid of None \<Rightarrow> m | Some t \<Rightarrow> m(tid \<mapsto> normalizeThread t))"

datatype state_file = StateMissing | StateUnreadable | StateContent int "RuntimeState option"

datatype state_error = stateReadFailed | stateTooLarge | stateParseFailed

text \<open>\<open>ks4\<close> is the order of the last loop, over the migrated threads.\<close>

definition loadState ::
    "state_file \<Rightarrow> string list \<Rightarrow> string list \<Rightarrow> string list \<Rightarrow> string list \<Rightarrow> state_error + RuntimeState" where
  "loadState file ks1 ks2 ks3 ks4 =
     (case file of
        StateMissing \<Rightarrow> Inr newRuntimeState
      | StateUnreadable \<Rightarrow> Inl stateReadFailed
      | StateContent bytes decoded \<Rightarrow>
          if bytes > maxRuntimeStateBytes then Inl stateTooLarge
          else case decoded of
            None \<Rightarrow> Inl stateParseFailed
          | Some state \<Rightarrow>
              let state = (migrateCodex153ThreadIDs ks1 ks2 ks3 state)\<lparr>rs_Version := 5\<rparr>
              in Inr (state\<lparr>rs_Threads := fold normalize_thread_step ks4 (rs_Threads state)\<rparr>))"

subsection \<open>Pruning by age\<close>

definition delete_step :: "('v \<Rightarrow> bool) \<Rightarrow> 'k \<Rightarrow> ('k \<rightharpoonup> 'v) \<Rightarrow> ('k \<rightharpoonup> 'v)" where
  "delete_step P k m = (case m k of None \<Rightarrow> m | Some v \<Rightarrow> if P v then m(k := None) else m)"

definition lastActivity :: "ThreadState \<Rightarrow> gotime" where
  "lastActivity thread =
     (let at = t_LastFailureAt thread;
          at = (if After (t_GoalUpdatedAt thread) at then t_GoalUpdatedAt thread else at);
          at = (if After (t_GoalObservedAt thread) at then t_GoalObservedAt thread else at);
          at = (if After (t_LastAbortedAt thread) at then t_LastAbortedAt thread else at);
          at = (case t_Stopped thread of
                  Some s \<Rightarrow> if After (s_StoppedAt s) at then s_StoppedAt s else at | None \<Rightarrow> at);
          at = (case t_GoalStop thread of
                  Some g \<Rightarrow> if After (g_RequestedAt g) at then g_RequestedAt g else at | None \<Rightarrow> at)
      in at)"

definition thread_expired :: "gotime \<Rightarrow> ThreadState \<Rightarrow> bool" where
  "thread_expired cutoff thread \<longleftrightarrow>
     t_Pending thread = None \<and> t_Awaiting thread = None \<and> \<not> is_zero (lastActivity thread) \<and>
     Before (lastActivity thread) cutoff"

subsection \<open>Trimming to a size\<close>

text \<open>The entries in the order in which they are deleted: oldest first, then by key.\<close>

definition by_age :: "(string \<times> gotime) list \<Rightarrow> (string \<times> gotime) list" where
  "by_age entries = sort_key (\<lambda>(key, at). (at, key)) entries"

definition entries_of :: "('v \<Rightarrow> gotime) \<Rightarrow> string list \<Rightarrow> (string \<rightharpoonup> 'v) \<Rightarrow> (string \<times> gotime) list" where
  "entries_of at ks m = List.map_filter (\<lambda>k. map_option (\<lambda>v. (k, at v)) (m k)) ks"

definition delete_keys :: "string list \<Rightarrow> (string \<rightharpoonup> 'v) \<Rightarrow> (string \<rightharpoonup> 'v)" where
  "delete_keys ks m = fold (\<lambda>k m. m(k := None)) ks m"

definition trimProcessedEvents :: "int \<Rightarrow> string list \<Rightarrow> (string \<rightharpoonup> gotime) \<Rightarrow> (string \<rightharpoonup> gotime)" where
  "trimProcessedEvents limit ks events =
     (let entries = by_age (entries_of (\<lambda>at. at) ks events)
      in if int (length entries) \<le> limit then events
         else delete_keys (map fst (take (nat (int (length entries) - limit)) entries)) events)"

definition trimFileCursors :: "int \<Rightarrow> string list \<Rightarrow> (string \<rightharpoonup> FileCursor) \<Rightarrow> (string \<rightharpoonup> FileCursor)" where
  "trimFileCursors limit ks files =
     (let entries = by_age (entries_of f_LastSeen ks files)
      in if int (length entries) \<le> limit then files
         else delete_keys (map fst (take (nat (int (length entries) - limit)) entries)) files)"

definition trim_protected :: "gotime \<Rightarrow> ThreadState \<Rightarrow> bool" where
  "trim_protected now thread \<longleftrightarrow>
     t_Pending thread \<noteq> None \<or> t_Awaiting thread \<noteq> None \<or>
     (case t_Stopped thread of
        None \<Rightarrow> False
      | Some s \<Rightarrow> \<not> s_Historical s \<and>
          (is_zero (s_StoppedAt s) \<or> time_sub now (s_StoppedAt s) \<le> stoppedRetryDisplayWindow))"

definition trimInactiveThreads ::
    "int \<Rightarrow> gotime \<Rightarrow> string list \<Rightarrow> (string \<rightharpoonup> ThreadState) \<Rightarrow> (string \<rightharpoonup> ThreadState)" where
  "trimInactiveThreads limit now ks ts =
     (let total = int (length (entries_of lastActivity ks ts));
          entries = entries_of lastActivity
            (filter (\<lambda>k. case ts k of None \<Rightarrow> False | Some t \<Rightarrow> \<not> trim_protected now t) ks) ts;
          count = int (length entries)
      in if total \<le> limit then ts
         else if total - count \<ge> limit then ts
         else
           let removeCount = (if total - limit > count then count else total - limit)
           in delete_keys (map fst (take (nat removeCount) (by_age entries))) ts)"

text \<open>\<open>prune\<close>: the key orders of the three loops and of the three trims.\<close>

record prune_orders =
  po_events :: "string list"
  po_files :: "string list"
  po_threads :: "string list"

definition prune :: "gotime \<Rightarrow> prune_orders \<Rightarrow> RuntimeState \<Rightarrow> RuntimeState" where
  "prune now ord s =
     (let s = s\<lparr>rs_ProcessedEvents := fold (delete_step (\<lambda>seenAt. Before seenAt (now + (-14 * 24 * Hour))))
                  (po_events ord) (rs_ProcessedEvents s)\<rparr>;
          s = s\<lparr>rs_Files := fold (delete_step (\<lambda>cursor. Before (f_LastSeen cursor) (now + (-45 * 24 * Hour))))
                  (po_files ord) (rs_Files s)\<rparr>;
          s = s\<lparr>rs_Threads := fold (delete_step (thread_expired (now + (-30 * 24 * Hour))))
                  (po_threads ord) (rs_Threads s)\<rparr>
      in s\<lparr>rs_ProcessedEvents := trimProcessedEvents maxProcessedEventEntries (po_events ord) (rs_ProcessedEvents s),
           rs_Files := trimFileCursors maxFileCursorEntries (po_files ord) (rs_Files s),
           rs_Threads := trimInactiveThreads maxThreadEntries now (po_threads ord) (rs_Threads s)\<rparr>)"

subsection \<open>Deletion loops\<close>

interpretation delete_loop: keyed_loop "\<lambda>m. m" "\<lambda>_. ()" "delete_step P"
  "\<lambda>_ _ v. (case v of None \<Rightarrow> None | Some x \<Rightarrow> if P x then None else Some x)" for P
  by unfold_locales (auto simp: delete_step_def split: option.split)

lemma fold_delete:
  assumes "range_order m ks"
  shows "fold (delete_step P) ks m k = (case m k of None \<Rightarrow> None | Some v \<Rightarrow> if P v then None else Some v)"
  using assms delete_loop.loop_get [of ks P m k]
  by (auto simp: range_order_def domIff split: option.split)

lemma fold_delete_le: "fold (delete_step P) ks m \<subseteq>\<^sub>m m"
  by (rule delete_loop.loop_invariant [where P = "\<lambda>m'. m' \<subseteq>\<^sub>m m"])
    (auto simp: delete_step_def map_le_def dom_def split: option.split if_splits)

lemma fold_delete_keeps:
  "m k = Some v \<Longrightarrow> \<not> P v \<Longrightarrow> fold (delete_step P) ks m k = Some v"
  by (rule delete_loop.loop_invariant [where P = "\<lambda>m'. m' k = Some v"])
    (auto simp: delete_step_def split: option.split)

subsection \<open>Trims\<close>

lemma delete_keys_apply [simp]: "delete_keys ks m k = (if k \<in> set ks then None else m k)"
  by (induction ks arbitrary: m) (auto simp: delete_keys_def)

lemma entries_of_Cons:
  "entries_of at (k # ks) m = (case m k of None \<Rightarrow> [] | Some v \<Rightarrow> [(k, at v)]) @ entries_of at ks m"
  by (simp add: entries_of_def List.map_filter_simps split: option.split)

lemma entries_of_Nil [simp]: "entries_of at [] m = []"
  by (simp add: entries_of_def List.map_filter_simps)

lemma entries_of_set:
  "(k, t) \<in> set (entries_of at ks m) \<longleftrightarrow> k \<in> set ks \<and> (\<exists>v. m k = Some v \<and> t = at v)"
proof (induction ks)
  case Nil
  then show ?case by simp
next
  case (Cons j ks)
  then show ?case by (cases "m j") (auto simp: entries_of_Cons)
qed

lemma entries_of_distinct: "distinct ks \<Longrightarrow> distinct (map fst (entries_of at ks m))"
  by (induction ks) (force simp: entries_of_Cons entries_of_set split: option.splits)+

lemma by_age_simps [simp]:
  "set (by_age es) = set es" "length (by_age es) = length es"
  by (simp_all add: by_age_def)

lemma by_age_distinct: "distinct (map fst es) \<Longrightarrow> distinct (map fst (by_age es))"
  by (simp add: by_age_def distinct_map)

lemma by_age_split:
  assumes "(k, t) \<in> set (take n (by_age es))" and "(k', t') \<in> set (drop n (by_age es))"
  shows "t < t' \<or> t = t' \<and> k \<le> k'"
proof -
  have "sorted (map (\<lambda>(key, at). (at, key)) (take n (by_age es) @ drop n (by_age es)))"
    unfolding append_take_drop_id by (simp add: by_age_def)
  then have "(t, k) \<le> (t', k')"
    using assms unfolding map_append sorted_append by fastforce
  then show ?thesis by auto
qed

text \<open>The result of deleting the \<open>n\<close> oldest of the entries named by \<open>ks\<close>.\<close>

definition drop_oldest :: "('v \<Rightarrow> gotime) \<Rightarrow> nat \<Rightarrow> string list \<Rightarrow> (string \<rightharpoonup> 'v) \<Rightarrow> (string \<rightharpoonup> 'v)" where
  "drop_oldest at n ks m = delete_keys (map fst (take n (by_age (entries_of at ks m)))) m"

lemma drop_oldest_le: "drop_oldest at n ks m \<subseteq>\<^sub>m m"
  by (auto simp: drop_oldest_def map_le_def dom_def split: if_splits)

lemma drop_oldest_other: "k \<notin> set ks \<Longrightarrow> drop_oldest at n ks m k = m k"
  by (auto simp: drop_oldest_def dest!: in_set_takeD simp: entries_of_set)

lemma drop_oldest_order:
  assumes "distinct ks" and "k \<in> set ks" "k' \<in> set ks" and "m k = Some v" "m k' = Some v'"
    and "drop_oldest at n ks m k = None" "drop_oldest at n ks m k' = Some v'"
  shows "at v < at v' \<or> at v = at v' \<and> k \<le> k'"
proof -
  let ?es = "by_age (entries_of at ks m)"
  have k: "k \<in> fst ` set (take n ?es)" and k': "k' \<notin> fst ` set (take n ?es)"
    using assms(4-7) by (auto simp: drop_oldest_def split: if_splits)
  from k obtain t where t: "(k, t) \<in> set (take n ?es)" by force
  then have "t = at v" using assms(4) by (auto dest!: in_set_takeD simp: entries_of_set)
  have "(k', at v') \<in> set ?es" using assms(3,5) by (simp add: entries_of_set)
  moreover have "set ?es = set (take n ?es) \<union> set (drop n ?es)"
    by (metis append_take_drop_id set_append)
  ultimately have "(k', at v') \<in> set (drop n ?es)" using k' by force
  with by_age_split [OF t this] \<open>t = at v\<close> show ?thesis by simp
qed

lemma drop_oldest_card:
  assumes "distinct ks" and "finite (dom m)" and "n \<le> length (entries_of at ks m)"
  shows "card (dom (drop_oldest at n ks m)) = card (dom m) - n"
proof -
  let ?del = "fst ` set (take n (by_age (entries_of at ks m)))"
  have "distinct (map fst (take n (by_age (entries_of at ks m))))"
    using by_age_distinct [OF entries_of_distinct [OF assms(1)], of at m] by (simp flip: take_map)
  then have "card ?del = n"
    using assms(3) by (metis by_age_simps(2) distinct_card length_map length_take list.set_map min.absorb2)
  moreover have "?del \<subseteq> dom m"
    by (auto dest!: in_set_takeD simp: entries_of_set)
  moreover have "dom (drop_oldest at n ks m) = dom m - ?del"
    unfolding drop_oldest_def dom_def delete_keys_apply list.set_map by auto
  ultimately show ?thesis using assms(2) by (simp add: card_Diff_subset finite_subset)
qed

lemma range_order_finite: "range_order m ks \<Longrightarrow> finite (dom m)"
  by (metis List.finite_set range_order_def)

lemma entries_of_length: "range_order m ks \<Longrightarrow> length (entries_of at ks m) = card (dom m)"
proof -
  assume r: "range_order m ks"
  have "length (entries_of at ks m) = card (fst ` set (entries_of at ks m))"
    using r entries_of_distinct [of ks at m] by (metis distinct_card length_map list.set_map range_order_def)
  also have "fst ` set (entries_of at ks m) = dom m"
  proof (intro equalityI subsetI)
    fix k assume "k \<in> dom m"
    then obtain v where "m k = Some v" by auto
    with r have "(k, at v) \<in> set (entries_of at ks m)"
      by (auto simp: entries_of_set range_order_def)
    then show "k \<in> fst ` set (entries_of at ks m)" by force
  qed (auto simp: entries_of_set)
  finally show ?thesis .
qed

lemma trimProcessedEvents_alt:
  "trimProcessedEvents limit ks m =
   (if int (length (entries_of (\<lambda>at. at) ks m)) \<le> limit then m
    else drop_oldest (\<lambda>at. at) (nat (int (length (entries_of (\<lambda>at. at) ks m)) - limit)) ks m)"
  by (simp add: trimProcessedEvents_def drop_oldest_def Let_def)

lemma trimFileCursors_alt:
  "trimFileCursors limit ks m =
   (if int (length (entries_of f_LastSeen ks m)) \<le> limit then m
    else drop_oldest f_LastSeen (nat (int (length (entries_of f_LastSeen ks m)) - limit)) ks m)"
  by (simp add: trimFileCursors_def drop_oldest_def Let_def)

definition unprotected_keys :: "gotime \<Rightarrow> string list \<Rightarrow> (string \<rightharpoonup> ThreadState) \<Rightarrow> string list" where
  "unprotected_keys now ks m = filter (\<lambda>k. case m k of None \<Rightarrow> False | Some t \<Rightarrow> \<not> trim_protected now t) ks"

lemma trimInactiveThreads_alt:
  assumes "range_order m ks"
  shows "trimInactiveThreads limit now ks m =
   (let total = int (card (dom m)); count = int (length (unprotected_keys now ks m))
    in if total \<le> limit \<or> total - count \<ge> limit then m
       else drop_oldest lastActivity (nat (total - limit)) (unprotected_keys now ks m) m)"
proof -
  have "length (entries_of lastActivity (unprotected_keys now ks m) m) = length (unprotected_keys now ks m)"
    unfolding unprotected_keys_def by (induction ks) (auto simp: entries_of_Cons split: option.split)
  then show ?thesis
    using entries_of_length [OF assms, of lastActivity]
    by (auto simp: trimInactiveThreads_def drop_oldest_def unprotected_keys_def Let_def)
qed

end
