(* ===== verification/Daemon.thy ===== *)
theory Daemon
  imports Dispatch_Lemmas State_Store
begin

section \<open>The daemon's critical sections (daemon.go)\<close>

text \<open>
  \<open>tick\<close> and its helpers, cut where the source releases the mutex: each definition below is what
  runs while \<open>d.mu\<close> is held, from one \<open>Lock\<close> to the next \<open>Unlock\<close>. What the code reads from
  outside (files, the scan, the runner's probes) is an argument. \<open>Daemon_System\<close> interleaves the
  sections.
\<close>

subsection \<open>The controller probe\<close>

definition controllerProbeInterval :: duration where
  "controllerProbeInterval = 10 * Second"

datatype probe_plan = probeSkip | probeLatched | probeRun bool

text \<open>The first section of \<open>controllerRestartReady\<close>; \<open>probeRun\<close> carries whether shared mode was on.\<close>

definition probeBegin :: "gotime \<Rightarrow> daemon \<Rightarrow> daemon \<times> probe_plan" where
  "probeBegin now d =
     (if \<not> is_zero (d_lastControllerProbe d) \<and>
         time_sub now (d_lastControllerProbe d) < controllerProbeInterval
      then (d, probeSkip)
      else
        let sharedEnabled = c_SharedAppServerEnabled (d_config d);
            latchedConfigFailure = (d_controllerState d = ''shared_app_server_config_invalid'')
        in (d\<lparr>d_lastControllerProbe := now\<rparr>,
            if sharedEnabled \<and> latchedConfigFailure then probeLatched else probeRun sharedEnabled))"

text \<open>\<open>failOpenSharedBackend\<close>: \<open>cleanup\<close> is the handler's outcome, absent when there is none.\<close>

definition failOpenSharedBackend :: "bool option \<Rightarrow> string \<Rightarrow> string" where
  "failOpenSharedBackend cleanup reason =
     (case cleanup of Some True \<Rightarrow> ''shared_app_server_disabled'' | _ \<Rightarrow> reason)"

definition disable_when :: "string \<Rightarrow> daemon \<Rightarrow> daemon" where
  "disable_when st d =
     (if st = ''shared_app_server_disabled''
      then d\<lparr>d_config := (d_config d)\<lparr>c_SharedAppServerEnabled := False\<rparr>\<rparr> else d)"

definition probeLatchedEnd :: "bool option \<Rightarrow> daemon \<Rightarrow> daemon" where
  "probeLatchedEnd cleanup d =
     (let st = failOpenSharedBackend cleanup ''shared_app_server_config_invalid'';
          d = (disable_when st d)\<lparr>d_controllerState := st\<rparr>
      in if st \<noteq> ''shared_app_server_disabled''
         then d\<lparr>d_lastError := ''shared_app_server_config_invalid''\<rparr> else d)"

text \<open>The state the probe arrives at outside the lock.\<close>

definition probed_state :: "bool \<Rightarrow> string \<Rightarrow> bool option \<Rightarrow> string" where
  "probed_state sharedEnabled probed cleanup =
     (let st = (if \<not> sharedEnabled \<and> probed = ''ready'' then ''shared_app_server_disabled'' else probed)
      in if sharedEnabled \<and> controllerFailureNeedsFailOpen st then failOpenSharedBackend cleanup st else st)"

definition probeEnd :: "string \<Rightarrow> daemon \<Rightarrow> daemon \<times> bool" where
  "probeEnd st d =
     ((disable_when st d)\<lparr>d_controllerState := st\<rparr>, st = ''ready'' \<or> st = ''official_ipc_ready'')"

text \<open>Without other goroutines in between, \<open>controllerRestartReady\<close> is their composition.\<close>

definition controllerRestartReady ::
    "string \<Rightarrow> bool option \<Rightarrow> gotime \<Rightarrow> daemon \<Rightarrow> daemon \<times> bool" where
  "controllerRestartReady probed cleanup now d =
     (case probeBegin now d of
        (d, probeSkip) \<Rightarrow> (d, False)
      | (d, probeLatched) \<Rightarrow> (probeLatchedEnd cleanup d, False)
      | (d, probeRun sharedEnabled) \<Rightarrow> probeEnd (probed_state sharedEnabled probed cleanup) d)"

subsection \<open>The memory of the shared server\<close>

definition memoryBegin :: "gotime \<Rightarrow> daemon \<Rightarrow> daemon \<times> int option" where
  "memoryBegin now d =
     (if \<not> c_SharedAppServerEnabled (d_config d) \<or> d_sharedAppServerMemoryGuardTriggered d \<or>
         (\<not> is_zero (d_lastSharedAppServerMemoryCheck d) \<and>
          time_sub now (d_lastSharedAppServerMemoryCheck d) < memoryCheckInterval)
      then (d, None)
      else
        let limitMB = c_SharedAppServerMemoryLimitMB (d_config d)
        in (d\<lparr>d_lastSharedAppServerMemoryCheck := now\<rparr>, if limitMB \<le> 0 then None else Some limitMB))"

text \<open>The flag says that the guard fired and the backend is to be failed open.\<close>

definition memorySampled :: "int \<Rightarrow> 64 word \<Rightarrow> daemon \<Rightarrow> daemon \<times> bool" where
  "memorySampled limitMB bytes d =
     (let d = d\<lparr>d_sharedAppServerMemoryBytes := bytes\<rparr>
      in if bytes < word_of_int limitMB * 1024 * 1024 \<or> d_sharedAppServerMemoryGuardTriggered d
         then (d, False)
         else (d\<lparr>d_sharedAppServerMemoryGuardTriggered := True,
                 d_controllerState := ''shared_app_server_memory_limit_exceeded'',
                 d_lastError := ''shared_app_server_memory_limit_exceeded''\<rparr>, True))"

definition memoryEnd :: "bool option \<Rightarrow> daemon \<Rightarrow> daemon" where
  "memoryEnd cleanup d =
     (let st = failOpenSharedBackend cleanup ''shared_app_server_memory_limit_exceeded''
      in (disable_when st d)\<lparr>d_controllerState := st\<rparr>)"

text \<open>\<open>reconcileSharedBackendCleanup\<close>: what the cleaner's error leaves behind.\<close>

definition cleanupFailed :: "go_error option \<Rightarrow> daemon \<Rightarrow> daemon" where
  "cleanupFailed err d =
     (if err = None \<or> errors_Is err errSharedServerMigrationDeferred then d
      else d\<lparr>d_lastError := controllerFailureReason zero_DispatchResult err\<rparr>)"

definition recordMemorySample :: "memorySample \<Rightarrow> daemon \<Rightarrow> daemon" where
  "recordMemorySample sample d = d\<lparr>d_memoryUsageBytes := ms_PrivateBytes sample\<rparr>"

definition handleMemoryLimit :: "memorySample \<Rightarrow> bool \<Rightarrow> daemon \<Rightarrow> daemon" where
  "handleMemoryLimit sample status_ok d =
     (let d = d\<lparr>d_memoryUsageBytes := ms_PrivateBytes sample\<rparr>
      in if d_memoryGuardTriggered d then d
         else writeStatusLocked status_ok
                (d\<lparr>d_memoryGuardTriggered := True, d_controllerState := ''memory_limit_exceeded'',
                   d_lastError := ''memory_limit_exceeded''\<rparr>))"

subsection \<open>Controls\<close>

text \<open>
  The command files as \<open>loadControlCommandFiles\<close> returned them; with each path comes the text of
  the error that removing it gave, if it gave one other than "not found".
\<close>

type_synonym command_files = "string option list \<times> (ControlCommand \<times> string option) list"

definition note_error :: "string option \<Rightarrow> daemon \<Rightarrow> daemon" where
  "note_error err d = (case err of None \<Rightarrow> d | Some text \<Rightarrow> d\<lparr>d_lastError := text\<rparr>)"

definition refreshControlsLocked ::
    "string + bool \<Rightarrow> string + command_files \<Rightarrow> gotime \<Rightarrow> daemon \<Rightarrow> daemon" where
  "refreshControlsLocked control commands now d =
     (case control of
        Inl err \<Rightarrow> d\<lparr>d_lastError := err\<rparr>
      | Inr paused \<Rightarrow>
          let d = d\<lparr>d_paused := paused\<rparr>
          in case commands of
               Inl err \<Rightarrow> d\<lparr>d_lastError := err\<rparr>
             | Inr (invalid, valid) \<Rightarrow>
                 fold (\<lambda>(command, err) d. note_error err (applyControlCommandLocked command now d)) valid
                   (fold note_error invalid d))"

subsection \<open>The two sections of a tick\<close>

record tick_input =
  ti_config :: "string + Config"
  ti_wallclock :: gotime
  ti_files :: "string \<rightharpoonup> FileCursor"
  ti_events :: "scannedEvent list"
  ti_scanError :: "string option"
  ti_controllerReady :: bool
  ti_control :: "string + bool"
  ti_commands :: "string + command_files"
  ti_reloadOrder :: "string list"
  ti_reopenOrder :: "string list"
  ti_expireOrder :: "string list"

text \<open>What the scan leaves: the file cursors, the baseline flag, the error text.\<close>

definition scanned :: "tick_input \<Rightarrow> daemon \<Rightarrow> daemon" where
  "scanned inp d =
     (let d = d\<lparr>d_state := (d_state d)\<lparr>rs_Files := ti_files inp, rs_Initialized := True\<rparr>\<rparr>
      in d\<lparr>d_lastError := (case ti_scanError inp of None \<Rightarrow> [] | Some err \<Rightarrow> err)\<rparr>)"

definition old_mirror :: "daemon \<Rightarrow> scannedEvent \<Rightarrow> bool" where
  "old_mirror d item \<longleftrightarrow>
     i_Mirrored item \<and> Before (e_Timestamp (i_Event item)) (d_startedAt d + (-3 * Second))"

definition handleEvents :: "golib \<Rightarrow> gotime \<Rightarrow> scannedEvent list \<Rightarrow> daemon \<Rightarrow> daemon" where
  "handleEvents lib now events d =
     fold (\<lambda>item d. if old_mirror d item then d else handleEventLocked lib item now d)
       (sort_key (\<lambda>item. e_Timestamp (i_Event item)) events) d"

definition tickEvents :: "golib \<Rightarrow> gotime \<Rightarrow> tick_input \<Rightarrow> daemon \<Rightarrow> daemon" where
  "tickEvents lib now inp d =
     (let d = reloadConfigLocked (ti_config inp) (ti_wallclock inp) (ti_reloadOrder inp) d;
          d = scanned inp d;
          d = handleEvents lib now (ti_events inp) d;
          d = (if ti_controllerReady inp \<and> ti_scanError inp = None
               then reopenRestartRequiredLocked now (ti_reopenOrder inp) d else d);
          d = refreshControlsLocked (ti_control inp) (ti_commands inp) now d
      in expireUnacknowledgedLocked now (ti_expireOrder inp) d)"

record dispatch_input =
  di_goalOrder :: "string list"
  di_order :: "string list"
  di_prune :: prune_orders
  di_stateOK :: bool
  di_statusOK :: bool

definition prune_daemon :: "gotime \<Rightarrow> prune_orders \<Rightarrow> daemon \<Rightarrow> daemon" where
  "prune_daemon now ord d = d\<lparr>d_state := prune now ord (d_state d)\<rparr>"

definition tickDispatch :: "golib \<Rightarrow> gotime \<Rightarrow> dispatch_input \<Rightarrow> daemon \<Rightarrow> daemon \<times> RetryJob list" where
  "tickDispatch lib now inp d =
     (let (d, jobs) = dispatchDueLocked lib now (di_goalOrder inp) (di_order inp) d;
          d = prune_daemon now (di_prune inp) (d\<lparr>d_lastScan := now\<rparr>)
      in (writeStatusLocked (di_statusOK inp) (persistStateLocked (di_stateOK inp) d), jobs))"

subsection \<open>Start-up\<close>

definition initial_daemon :: "Config \<Rightarrow> RuntimeState \<Rightarrow> bool \<Rightarrow> gotime \<Rightarrow> daemon" where
  "initial_daemon config st paused startedAt =
     \<lparr>d_config = config, d_startedAt = startedAt, d_state = st, d_active = [],
      d_activeCtx = Map.empty, d_lastScan = 0, d_lastError = [], d_controllerState = ''starting'',
      d_lastControllerProbe = 0, d_paused = paused, d_memoryUsageBytes = 0,
      d_memoryGuardTriggered = False, d_sharedAppServerMemoryBytes = 0,
      d_sharedAppServerMemoryGuardTriggered = False, d_lastSharedAppServerMemoryCheck = 0,
      d_stateWriteDeferred = False, d_statusWriteDeferred = False\<rparr>"

text \<open>\<open>newDaemon\<close>, once the state and the control file were read.\<close>

definition newDaemon :: "Config \<Rightarrow> RuntimeState \<Rightarrow> bool \<Rightarrow> gotime \<Rightarrow> gotime \<Rightarrow> string list \<Rightarrow> daemon" where
  "newDaemon config st paused startedAt now ks =
     reconcileStartupState now ks (initial_daemon config st paused startedAt)"

end
