(* ===== verification/Daemon_System.thy ===== *)
theory Daemon_System
  imports Daemon
begin

section \<open>The daemon as a system of interleaved sections\<close>

text \<open>
  The tick, the recovery jobs, the goal-block jobs and the memory guard run in goroutines that
  share the daemon under one mutex. A state of the system is the daemon together with the jobs
  whose goroutine has been started and not ended, each either queued (before its first section)
  or requested (its request to Codex is under way). A step is one critical section; any section
  may run at any time, which includes every order the goroutines can produce.
\<close>

subsection \<open>Frames\<close>

definition same_frame :: "daemon \<Rightarrow> daemon \<Rightarrow> bool" where
  "same_frame d d' \<longleftrightarrow> d_active d' = d_active d \<and> d_config d' = d_config d \<and>
     dom (d_activeCtx d') = dom (d_activeCtx d)"

lemma dom_cancel [simp]: "dom (d_activeCtx (cancel_ctx k d)) = dom (d_activeCtx d)"
  by (auto simp: cancel_ctx_def split: option.split)

lemma same_frame_refl [simp, intro]: "same_frame d d"
  by (simp add: same_frame_def)

lemma same_frame_trans: "same_frame a b \<Longrightarrow> same_frame b c \<Longrightarrow> same_frame a c"
  by (simp add: same_frame_def)

lemma frame_cancel: "same_frame d (cancelRetryLocked k t d)"
  by (simp add: same_frame_def cancelRetryLocked_def)

lemma frame_reset: "same_frame d (resetRetryStateLocked k t d)"
  by (simp add: same_frame_def resetRetryStateLocked_def)

lemma frame_put: "same_frame d (put_thread k t d)" "same_frame d (put_thread k t (cancel_ctx j d))"
  by (simp_all add: same_frame_def)

lemma frame_schedule: "same_frame d (scheduleFailureLocked i key now t a c org pn d)"
  unfolding scheduleFailureLocked_def Let_def by (auto intro: frame_put frame_reset)

lemmas frame_intros = frame_cancel frame_reset frame_put frame_schedule

lemma frame_handlers:
  "same_frame d (handleTaskStartedLocked k e t d)"
  "same_frame d (handleTaskUserInputLocked k e t d)"
  "same_frame d (handleTaskProgressLocked k e t d)"
  "same_frame d (handleTurnAbortedLocked k e t d)"
  "same_frame d (handleTaskCompleteLocked i key now t d)"
  "same_frame d (handleSubagentRecoveryNoticeLocked lib k e t d)"
  "same_frame d (handleGoalUpdatedLocked k e t d)"
  by (simp_all add: handleTaskStartedLocked_def handleTaskUserInputLocked_def
      handleTaskProgressLocked_def handleTurnAbortedLocked_def handleTaskCompleteLocked_def
      handleSubagentRecoveryNoticeLocked_def handleGoalUpdatedLocked_def applyGoalHold_def Let_def
      frame_intros split: option.split)

lemma frame_event: "same_frame d (handleEventLocked lib item now d)"
proof -
  have mark: "same_frame d (mark_processed key now d)" for key
    by (simp add: same_frame_def mark_processed_def)
  show ?thesis
    unfolding handleEventLocked_def dispatch_event_def Let_def
    by (auto intro!: frame_handlers [THEN [2] same_frame_trans] mark)
qed

lemma frame_for_threads:
  assumes "\<And>k t d. same_frame d (body k t d)"
  shows "same_frame d (for_threads ks body d)"
  by (rule for_threads_invariant [where P = "same_frame d"]) (auto intro: same_frame_trans [OF _ assms])

lemma frame_stops:
  "same_frame d (stopPendingRetryLocked k t now d)"
  "same_frame d (stopAwaitingForControllerLocked k t now r d)"
  "same_frame d (stopPendingForControllerLocked k t now r d)"
  by (simp_all add: same_frame_def stopPendingRetryLocked_def stopAwaitingForControllerLocked_def
      stopPendingForControllerLocked_def Let_def split: option.split)

lemma frame_reschedule: "same_frame d (rescheduleAwaitingWithPolicyLocked k t now r c d)"
  unfolding rescheduleAwaitingWithPolicyLocked_def Let_def
  by (auto intro: frame_put frame_stops split: option.split)

lemma frame_relimit: "same_frame d (relimitThread w k t d)"
  unfolding relimitThread_def Let_def
  by (auto intro: frame_put frame_stops split: option.split prod.split)

lemma frame_reopen: "same_frame d (reopenRestartRequiredLocked now ks d)"
  unfolding reopenRestartRequiredLocked_def
  by (auto intro!: frame_for_threads simp: reopenThread_def Let_def intro: frame_put split: option.split)

lemma frame_expire: "same_frame d (expireUnacknowledgedLocked now ks d)"
  unfolding expireUnacknowledgedLocked_def
  by (auto intro!: frame_for_threads frame_reschedule simp: expireThread_def rescheduleAwaitingLocked_def
      split: option.split)

lemma frame_control: "same_frame d (applyControlCommandLocked c now d)"
  unfolding applyControlCommandLocked_def
  by (auto intro: frame_put split: option.split ControlCommandAction.split)

lemma frame_note_error [simp]: "d_active (note_error e d) = d_active d" "d_config (note_error e d) = d_config d"
  "threads (note_error e d) = threads d" "d_activeCtx (note_error e d) = d_activeCtx d"
  by (simp_all add: note_error_def split: option.split)

lemma fold_note_error [simp]:
  "d_active (fold note_error es d) = d_active d" "d_config (fold note_error es d) = d_config d"
  "threads (fold note_error es d) = threads d" "d_activeCtx (fold note_error es d) = d_activeCtx d"
  by (induction es arbitrary: d) simp_all

lemma frame_controls: "same_frame d (refreshControlsLocked control commands now d)"
proof -
  have step: "same_frame d' (note_error e (applyControlCommandLocked c now x))"
    if "same_frame d' x" for d' e c x
    using same_frame_trans [OF that frame_control] by (simp add: same_frame_def)
  have "same_frame d' (fold (\<lambda>(c, e) d. note_error e (applyControlCommandLocked c now d)) valid d')" for valid d'
    by (rule fold_preserves [where P = "same_frame d'"]) (auto intro: step)
  then show ?thesis
    unfolding refreshControlsLocked_def Let_def
    by (auto simp: same_frame_def split: sum.split)
qed

lemma frame_events: "same_frame d (handleEvents lib now events d)"
  unfolding handleEvents_def
  by (rule fold_preserves [where P = "same_frame d"]) (auto intro: same_frame_trans [OF _ frame_event])

lemma frame_advance: "same_frame d (advanceInactiveAwaitingLocked k t now d)"
  unfolding advanceInactiveAwaitingLocked_def Let_def by (auto intro: frame_put split: option.split)

lemma frame_state: "same_frame d (d\<lparr>d_controllerState := s\<rparr>)" "same_frame d (recordControllerSuccessLocked d)"
  by (simp_all add: same_frame_def)

lemmas frame_after =
  frame_put(1) [THEN [2] same_frame_trans] frame_reschedule [THEN [2] same_frame_trans]
  frame_stops [THEN [2] same_frame_trans] frame_advance [THEN [2] same_frame_trans]
  frame_state [THEN [2] same_frame_trans]

lemma frame_applyJob: "same_frame d (applyJobResult job res err fin t d)"
  unfolding applyJobResult_def Let_def by (auto intro!: frame_after split: prod.split)

lemma frame_lifecycle: "same_frame d (lifecycleApply now cand probe d)"
  unfolding lifecycleApply_def Let_def by (auto intro!: frame_after split: option.split sum.split)

lemma frame_collect: "same_frame d (fst (lifecycleCollect now ks d))"
  unfolding lifecycleCollect_def
  by (rule fold_preserves [where P = "\<lambda>acc. same_frame d (fst acc)"])
    (auto simp: collectThread_def case_prod_unfold intro: frame_after split: option.split)

subsection \<open>Sections that start or end no job\<close>

lemma reload_frame:
  "d_active (reloadConfigLocked loaded w ks d) = d_active d"
  "dom (d_activeCtx (reloadConfigLocked loaded w ks d)) = dom (d_activeCtx d)"
  "d_config (reloadConfigLocked loaded w ks d) = (case loaded of Inl _ \<Rightarrow> d_config d | Inr c \<Rightarrow> c)"
  using frame_for_threads [of "relimitThread w", OF frame_relimit]
  unfolding reloadConfigLocked_def Let_def same_frame_def
  by (auto split: sum.split)

lemma scanned_frame: "same_frame d (scanned inp d)" "threads (scanned inp d) = threads d"
  by (simp_all add: same_frame_def scanned_def Let_def threads_def)

lemma handleEvents_ok: "threads_ok d \<Longrightarrow> threads_ok (handleEvents lib now events d)"
  unfolding handleEvents_def
  by (rule fold_preserves [where P = threads_ok]) (auto intro: handleEvent_ok)

lemma note_error_ok [simp]: "threads_ok (note_error e d) = threads_ok d" "threads_ok (fold note_error es d) = threads_ok d"
  by (simp_all add: threads_ok_def)

lemma refreshControls_ok:
  assumes "threads_ok d"
  shows "threads_ok (refreshControlsLocked control commands now d)"
proof -
  have "threads_ok (fold (\<lambda>(c, e) d. note_error e (applyControlCommandLocked c now d)) valid d')"
    if "threads_ok d'" for valid d'
    by (rule fold_preserves [where P = threads_ok]) (use that in \<open>auto intro: control_ok\<close>)
  then show ?thesis using assms by (auto simp: refreshControlsLocked_def Let_def split: sum.split)
qed

lemma tickEvents_ok: "threads_ok d \<Longrightarrow> threads_ok (tickEvents lib now inp d)"
  unfolding tickEvents_def Let_def
  by (auto intro!: expire_ok refreshControls_ok reopen_ok handleEvents_ok
      simp: threads_ok_cong [OF scanned_frame(2)] reload_ok)

lemma tickEvents_frame:
  "d_active (tickEvents lib now inp d) = d_active d"
  "dom (d_activeCtx (tickEvents lib now inp d)) = dom (d_activeCtx d)"
  "d_config (tickEvents lib now inp d) = (case ti_config inp of Inl _ \<Rightarrow> d_config d | Inr c \<Rightarrow> c)"
proof -
  let ?d1 = "reloadConfigLocked (ti_config inp) (ti_wallclock inp) (ti_reloadOrder inp) d"
  have "same_frame ?d1 (tickEvents lib now inp d)"
    unfolding tickEvents_def Let_def
    by (simp, intro conjI impI same_frame_trans [OF _ frame_expire]
        same_frame_trans [OF _ frame_controls] same_frame_trans [OF _ frame_reopen]
        same_frame_trans [OF _ frame_events] scanned_frame)
  then show "d_active (tickEvents lib now inp d) = d_active d"
    "dom (d_activeCtx (tickEvents lib now inp d)) = dom (d_activeCtx d)"
    "d_config (tickEvents lib now inp d) = (case ti_config inp of Inl _ \<Rightarrow> d_config d | Inr c \<Rightarrow> c)"
    by (simp_all add: same_frame_def reload_frame)
qed

text \<open>The configuration a section may leave: as before, a freshly loaded one, or shared mode off.\<close>

inductive section_step :: "golib \<Rightarrow> daemon \<Rightarrow> daemon \<Rightarrow> bool" for lib where
  section_events: "(\<And>c. ti_config inp = Inr c \<Longrightarrow> valid_config c) \<Longrightarrow>
    section_step lib d (tickEvents lib now inp d)"
| section_probe_begin: "section_step lib d (fst (probeBegin now d))"
| section_probe_latched: "section_step lib d (probeLatchedEnd cleanup d)"
| section_probe_end: "section_step lib d (fst (probeEnd st d))"
| section_memory_begin: "section_step lib d (fst (memoryBegin now d))"
| section_memory_sampled: "section_step lib d (fst (memorySampled limitMB bytes d))"
| section_memory_end: "section_step lib d (memoryEnd cleanup d)"
| section_cleanup: "section_step lib d (cleanupFailed err d)"
| section_collect: "section_step lib d (fst (lifecycleCollect now ks d))"
| section_lifecycle: "section_step lib d (lifecycleApply now cand probe d)"
| section_sample: "section_step lib d (recordMemorySample sample d)"
| section_limit: "section_step lib d (handleMemoryLimit sample status_ok d)"

inductive_cases section_stepE: "section_step lib d d'"

lemmas simple_section_defs =
  probeBegin_def probeLatchedEnd_def probeEnd_def memoryBegin_def memorySampled_def memoryEnd_def
  cleanupFailed_def recordMemorySample_def handleMemoryLimit_def disable_when_def Let_def

lemma collect_frame_simps [simp]:
  "d_active (fst (lifecycleCollect now ks d)) = d_active d"
  "d_config (fst (lifecycleCollect now ks d)) = d_config d"
  "dom (d_activeCtx (fst (lifecycleCollect now ks d))) = dom (d_activeCtx d)"
  using frame_collect [of d now ks] by (simp_all add: same_frame_def)

lemma lifecycle_frame_simps [simp]:
  "d_active (lifecycleApply now cand probe d) = d_active d"
  "d_config (lifecycleApply now cand probe d) = d_config d"
  "dom (d_activeCtx (lifecycleApply now cand probe d)) = dom (d_activeCtx d)"
  using frame_lifecycle [of d now cand probe] by (simp_all add: same_frame_def)

lemma section_frame:
  assumes "section_step lib d d'"
  shows "d_active d' = d_active d \<and> dom (d_activeCtx d') = dom (d_activeCtx d)"
  using assms by cases (simp_all add: simple_section_defs tickEvents_frame)

lemma section_config:
  assumes "section_step lib d d'"
  shows "c_MaxParallelRetries (d_config d') = c_MaxParallelRetries (d_config d) \<or> valid_config (d_config d')"
  using assms
proof cases
  case (section_events inp now)
  then show ?thesis by (cases "ti_config inp") (simp_all add: tickEvents_frame)
qed (simp_all add: simple_section_defs)

lemma section_ok: "section_step lib d d' \<Longrightarrow> threads_ok d \<Longrightarrow> threads_ok d'"
  by (erule section_stepE)
    (auto simp: simple_section_defs tickEvents_ok lifecycleCollect_ok lifecycleApply_ok)

subsection \<open>The system\<close>

datatype job_phase = queued | requested

record system =
  sy_daemon :: daemon
  sy_jobs :: "(RetryJob \<times> job_phase) list"

definition job_thread :: "RetryJob \<times> job_phase \<Rightarrow> string" where
  "job_thread jp = j_ThreadID (fst jp)"

definition startJob :: "RetryJob \<Rightarrow> daemon \<Rightarrow> daemon \<times> bool" where
  "startJob job d = (if j_Kind job = jobGoalBlock then goalBlockStart job d else runJobStart job d)"

definition finishJob ::
    "RetryJob \<Rightarrow> DispatchResult \<Rightarrow> go_error option \<Rightarrow> gotime \<Rightarrow> bool \<Rightarrow> bool \<Rightarrow> daemon \<Rightarrow> daemon" where
  "finishJob job result err finishedAt state_ok status_ok d =
     (if j_Kind job = jobGoalBlock then goalBlockFinish job result err finishedAt state_ok status_ok d
      else runJobFinish job result err finishedAt state_ok status_ok d)"

inductive sys_step :: "golib \<Rightarrow> system \<Rightarrow> system \<Rightarrow> bool" for lib where
  step_section:
    "section_step lib d d' \<Longrightarrow>
     sys_step lib \<lparr>sy_daemon = d, sy_jobs = jobs\<rparr> \<lparr>sy_daemon = d', sy_jobs = jobs\<rparr>"
| step_dispatch:
    "distinct (di_goalOrder inp) \<Longrightarrow> distinct (di_order inp) \<Longrightarrow>
     tickDispatch lib now inp d = (d', new) \<Longrightarrow>
     sys_step lib \<lparr>sy_daemon = d, sy_jobs = jobs\<rparr>
       \<lparr>sy_daemon = d', sy_jobs = jobs @ map (\<lambda>j. (j, queued)) new\<rparr>"
| step_start:
    "startJob job d = (d', go) \<Longrightarrow>
     sys_step lib \<lparr>sy_daemon = d, sy_jobs = xs @ (job, queued) # ys\<rparr>
       \<lparr>sy_daemon = d', sy_jobs = (if go then xs @ (job, requested) # ys else xs @ ys)\<rparr>"
| step_finish:
    "sys_step lib \<lparr>sy_daemon = d, sy_jobs = xs @ (job, requested) # ys\<rparr>
       \<lparr>sy_daemon = finishJob job result err finishedAt state_ok status_ok d, sy_jobs = xs @ ys\<rparr>"

text \<open>The states reachable from a start-up with a loaded state whose records satisfy the invariant.\<close>

inductive reachable :: "golib \<Rightarrow> system \<Rightarrow> bool" for lib where
  reach_start:
    "valid_config config \<Longrightarrow> (\<And>k t. rs_Threads st k = Some t \<Longrightarrow> thread_ok t) \<Longrightarrow>
     reachable lib \<lparr>sy_daemon = newDaemon config st paused startedAt now ks, sy_jobs = []\<rparr>"
| reach_step: "reachable lib s \<Longrightarrow> sys_step lib s s' \<Longrightarrow> reachable lib s'"

definition requested_threads :: "(RetryJob \<times> job_phase) list \<Rightarrow> string set" where
  "requested_threads jobs = job_thread ` {jp \<in> set jobs. snd jp = requested}"

definition system_ok :: "system \<Rightarrow> bool" where
  "system_ok s \<longleftrightarrow>
     threads_ok (sy_daemon s) \<and>
     distinct (map job_thread (sy_jobs s)) \<and>
     (\<forall>k. is_active (sy_daemon s) k \<longleftrightarrow> k \<in> job_thread ` set (sy_jobs s)) \<and>
     dom (d_activeCtx (sy_daemon s)) = requested_threads (sy_jobs s) \<and>
     distinct (map fst (d_active (sy_daemon s))) \<and>
     length (d_active (sy_daemon s)) = length (sy_jobs s) \<and>
     length (sy_jobs s) \<le> 16 \<and>
     c_MaxParallelRetries (d_config (sy_daemon s)) \<le> 16"

lemma requested_threads_simps [simp]:
  "requested_threads [] = {}"
  "requested_threads (jp # jobs) = (if snd jp = requested then {job_thread jp} else {}) \<union> requested_threads jobs"
  "requested_threads (xs @ ys) = requested_threads xs \<union> requested_threads ys"
  by (auto simp: requested_threads_def)

lemma requested_queued [simp]: "requested_threads (map (\<lambda>j. (j, queued)) js) = {}"
  by (induction js) auto

lemma valid_parallel: "valid_config c \<Longrightarrow> c_MaxParallelRetries c \<le> 16"
  by (simp add: validate_def split: if_splits)

lemma newDaemon_frame:
  "d_active (newDaemon config st paused startedAt now ks) = [] \<and>
   d_config (newDaemon config st paused startedAt now ks) = config \<and>
   dom (d_activeCtx (newDaemon config st paused startedAt now ks)) = {}"
proof -
  have "same_frame d (reconcileStartupState now ks d)" for d
    unfolding reconcileStartupState_def
    by (rule frame_for_threads) (auto simp: reconcileThread_def intro: frame_put split: option.split)
  from this [of "initial_daemon config st paused startedAt"] show ?thesis
    by (simp add: newDaemon_def same_frame_def initial_daemon_def)
qed

lemma system_ok_start:
  assumes "valid_config config" and "\<And>k t. rs_Threads st k = Some t \<Longrightarrow> thread_ok t"
  shows "system_ok \<lparr>sy_daemon = newDaemon config st paused startedAt now ks, sy_jobs = []\<rparr>"
proof -
  have "threads_ok (newDaemon config st paused startedAt now ks)"
    unfolding newDaemon_def
    by (rule reconcile_ok) (use assms(2) in \<open>simp add: threads_ok_def threads_def initial_daemon_def\<close>)
  then show ?thesis
    using newDaemon_frame [of config st paused startedAt now ks] valid_parallel [OF assms(1)]
    by (simp add: system_ok_def is_active_def)
qed

subsection \<open>Every step keeps the system invariant\<close>

lemma prune_threads_le: "rs_Threads (prune now ord s) \<subseteq>\<^sub>m rs_Threads s"
proof -
  have "trimInactiveThreads l now ks m \<subseteq>\<^sub>m m" for l ks and m :: "string \<rightharpoonup> ThreadState"
    by (auto simp: trimInactiveThreads_def Let_def map_le_def dom_def split: if_splits)
  from map_le_trans [OF this fold_delete_le] show ?thesis by (simp add: prune_def Let_def)
qed

lemma prune_daemon_simps [simp]:
  "d_active (prune_daemon now ord d) = d_active d" "d_config (prune_daemon now ord d) = d_config d"
  "d_activeCtx (prune_daemon now ord d) = d_activeCtx d"
  by (simp_all add: prune_daemon_def)

lemma prune_daemon_ok: "threads_ok d \<Longrightarrow> threads_ok (prune_daemon now ord d)"
  using prune_threads_le [of now ord "d_state d"]
  by (auto simp: threads_ok_def threads_def prune_daemon_def map_le_def dom_def)

lemma job_thread_simps [simp]: "job_thread (j, ph) = j_ThreadID j"
  by (simp add: job_thread_def)

lemma job_thread_new [simp]:
  "j_ThreadID (goalBlockJob k g t) = k" "j_ThreadID (recoveryJob lib k p) = k"
  "j_Kind (goalBlockJob k g t) = jobGoalBlock" "j_Kind (recoveryJob lib k p) = jobRecovery"
  by (simp_all add: goalBlockJob_def recoveryJob_def Let_def split: option.split)

lemma dispatch_result_jobs:
  assumes "dispatch_result lib now d d' jobs goals dm cs"
  shows "map j_ThreadID jobs = map fst goals @ map fst cs" "distinct (map j_ThreadID jobs)"
    "\<forall>j\<in>set jobs. \<not> is_active d (j_ThreadID j)"
    "is_active d' k \<longleftrightarrow> is_active d k \<or> k \<in> j_ThreadID ` set jobs"
    "length (d_active d') = length (d_active d) + length jobs"
proof -
  note r = assms [unfolded dispatch_result_def]
  show m: "map j_ThreadID jobs = map fst goals @ map fst cs"
    using r by (simp add: case_prod_unfold o_def)
  have fresh: "\<forall>c\<in>set cs. \<not> is_active dm (fst c)"
    using r by (auto simp: dispatchable_def)
  have "fst ` set cs \<inter> fst ` set goals = {}"
    using r fresh by blast
  then show "distinct (map j_ThreadID jobs)"
    unfolding m using r by (auto simp: distinct_append)
  have ids: "j_ThreadID ` set jobs = fst ` set goals \<union> fst ` set cs"
    using arg_cong [OF m, of set] by simp
  show "\<forall>j\<in>set jobs. \<not> is_active d (j_ThreadID j)"
  proof
    fix j assume "j \<in> set jobs"
    then have "j_ThreadID j \<in> fst ` set goals \<union> fst ` set cs" using ids by blast
    then show "\<not> is_active d (j_ThreadID j)" using r fresh by fastforce
  qed
  have upd: "k \<in> fst ` set (fold (\<lambda>(k, p). AList.update k (f k p)) xs al) \<longleftrightarrow>
      k \<in> fst ` set al \<or> k \<in> fst ` set xs" for f :: "string \<Rightarrow> PendingRetry \<Rightarrow> RetryJob" and xs al
  proof (induction xs arbitrary: al)
    case (Cons x xs)
    show ?case using Cons [of "AList.update (fst x) (f (fst x) (snd x)) al"]
      by (simp add: case_prod_unfold dom_update) blast
  qed simp
  have act': "d_active d' = fold (\<lambda>(k, p). AList.update k (recoveryJob lib k p)) cs (d_active dm)"
    using r by simp
  show "is_active d' k \<longleftrightarrow> is_active d k \<or> k \<in> j_ThreadID ` set jobs"
    using r upd [of "recoveryJob lib" cs "d_active dm"] unfolding ids by (simp add: is_active_keys)
  have "distinct (map fst xs) \<Longrightarrow> fst ` set xs \<inter> fst ` set al = {} \<Longrightarrow>
      length (fold (\<lambda>(k, p). AList.update k (f k p)) xs al) = length al + length xs"
    for f :: "string \<Rightarrow> PendingRetry \<Rightarrow> RetryJob" and xs al
  proof (induction xs arbitrary: al)
    case (Cons x xs)
    then have "fst ` set xs \<inter> fst ` set (AList.update (fst x) (f (fst x) (snd x)) al) = {}"
      by (auto simp: dom_update disjoint_iff)
    with Cons show ?case by (simp add: case_prod_unfold length_update_new)
  qed simp
  moreover have "fst ` set cs \<inter> fst ` set (d_active dm) = {}"
    using fresh by (auto simp: is_active_keys)
  ultimately show "length (d_active d') = length (d_active d) + length jobs"
    using r act' arg_cong [OF m, of length] by simp
qed

lemma tickDispatch_result:
  assumes "tickDispatch lib now inp d = (d', new)" "distinct (di_goalOrder inp)" "distinct (di_order inp)"
    and "threads_ok d"
  obtains d1 goals dm cs where "dispatch_result lib now d d1 new goals dm cs"
    "d_active d' = d_active d1" "d_config d' = d_config d1" "d_activeCtx d' = d_activeCtx d1" "threads_ok d'"
proof -
  obtain d1 jobs where disp: "dispatchDueLocked lib now (di_goalOrder inp) (di_order inp) d = (d1, jobs)"
    by fastforce
  obtain goals dm cs where r: "dispatch_result lib now d d1 jobs goals dm cs"
    by (rule dispatch_sound [OF disp assms(2-4)])
  from assms(1) disp have d': "d' = writeStatusLocked (di_statusOK inp) (persistStateLocked (di_stateOK inp)
      (prune_daemon now (di_prune inp) (d1\<lparr>d_lastScan := now\<rparr>)))" "new = jobs"
    by (simp_all add: tickDispatch_def Let_def)
  have "threads_ok d1" using r unfolding dispatch_result_def by blast
  then have "threads_ok d'" unfolding d' by (simp add: prune_daemon_ok)
  with r d' show ?thesis by (intro that [of d1 goals dm cs]) simp_all
qed

lemma startJob_cases:
  "startJob job d = (d', go) \<Longrightarrow>
   (\<not> go \<and> d' = drop_active (j_ThreadID job) d) \<or>
   (go \<and> d' = d\<lparr>d_activeCtx := (d_activeCtx d)(j_ThreadID job \<mapsto> False)\<rparr>)"
  by (auto simp: startJob_def goalBlockStart_def runJobStart_def Let_def split: if_splits)

lemma thread_ok_update [simp]:
  "thread_ok (update_awaiting f t) = thread_ok t" "thread_ok (t\<lparr>t_GoalHeld := b\<rparr>) = thread_ok t"
  "thread_ok (t\<lparr>t_GoalStatus := s\<rparr>) = thread_ok t"
  by (simp_all add: thread_ok_iff update_awaiting_def)

lemma applyJob_ok: "threads_ok d \<Longrightarrow> thread_ok t \<Longrightarrow> threads_ok (applyJobResult job res err fin t d)"
  unfolding applyJobResult_def Let_def
  by (auto intro!: put_thread_ok reschedule_ok split: prod.split)

lemma runJobFinish_ok: "threads_ok d \<Longrightarrow> threads_ok (runJobFinish job res err fin so wo d)"
  by (simp add: runJobFinish_def Let_def applyJob_ok get_thread_ok)

lemma rescheduleGoalBlock_frame:
  "same_frame d (snd (rescheduleGoalBlockLocked t now r d))"
  by (auto simp: rescheduleGoalBlockLocked_def Let_def same_frame_def split: option.split)

lemma finishJob_frame:
  "same_frame (drop_ctx (j_ThreadID job) (drop_active (j_ThreadID job) d)) (finishJob job res err fin so wo d)"
proof -
  let ?d = "drop_ctx (j_ThreadID job) (drop_active (j_ThreadID job) d)"
  have w: "same_frame x (writeStatusLocked ok y) = same_frame x y"
    "same_frame x (persistStateLocked ok y) = same_frame x y"
    "same_frame x (put_thread k t y) = same_frame x y" for x y ok k t
    by (simp_all add: same_frame_def)
  have c: "same_frame x (snd (rescheduleGoalBlockLocked t fin r (x\<lparr>d_controllerState := z\<rparr>)))" for x t r z
    using rescheduleGoalBlock_frame [of "x\<lparr>d_controllerState := z\<rparr>" t fin r] by (simp add: same_frame_def)
  have "same_frame ?d (goalBlockFinish job res err fin so wo d)"
    by (simp add: goalBlockFinish_def Let_def case_prod_unfold w c rescheduleGoalBlock_frame frame_state)
  moreover have "same_frame ?d (runJobFinish job res err fin so wo d)"
    by (simp add: runJobFinish_def Let_def w frame_applyJob)
  ultimately show ?thesis by (simp add: finishJob_def)
qed

lemma finishJob_ok: "threads_ok d \<Longrightarrow> threads_ok (finishJob job res err fin so wo d)"
  by (simp add: finishJob_def threads_goalBlockFinish_ok runJobFinish_ok)

lemma length_delete_key: "distinct (map fst al) \<Longrightarrow> k \<in> fst ` set al \<Longrightarrow>
   Suc (length (AList.delete k al)) = length al"
proof (induction al)
  case (Cons x al)
  show ?case
  proof (cases "fst x = k")
    case True
    with Cons.prems(1) have "k \<notin> fst ` set al" by simp
    then have "filter (\<lambda>(k', _). k \<noteq> k') al = al" by (auto simp: filter_id_conv intro: rev_image_eqI)
    with True show ?thesis by (simp add: AList.delete_eq case_prod_unfold)
  next
    case False
    with Cons show ?thesis by (auto simp: AList.delete_eq case_prod_unfold)
  qed
qed simp

lemma requested_drop:
  assumes "distinct (map job_thread (xs @ jp # ys))"
  shows "requested_threads (xs @ ys) = requested_threads (xs @ jp # ys) - {job_thread jp}"
proof -
  have "job_thread jp \<notin> requested_threads (xs @ ys)"
    using assms by (auto simp: requested_threads_def)
  then show ?thesis by auto
qed

lemma drop_job_ok:
  assumes "system_ok \<lparr>sy_daemon = d, sy_jobs = xs @ (job, ph) # ys\<rparr>"
    and "d_active d' = AList.delete (j_ThreadID job) (d_active d)" and "d_config d' = d_config d"
    and "dom (d_activeCtx d') = dom (d_activeCtx d) - {j_ThreadID job}" and "threads_ok d'"
  shows "system_ok \<lparr>sy_daemon = d', sy_jobs = xs @ ys\<rparr>"
proof -
  let ?jobs = "xs @ (job, ph) # ys"
  have ok: "distinct (map job_thread ?jobs)" "\<And>k. is_active d k \<longleftrightarrow> k \<in> job_thread ` set ?jobs"
    "dom (d_activeCtx d) = requested_threads ?jobs" "distinct (map fst (d_active d))"
    "length (d_active d) = length ?jobs" "length ?jobs \<le> 16" "c_MaxParallelRetries (d_config d) \<le> 16"
    using assms(1) unfolding system_ok_def by (simp_all only: system.simps)
  have act: "is_active d' k \<longleftrightarrow> k \<noteq> j_ThreadID job \<and> is_active d k" for k
    using assms(2) by (auto simp: is_active_def delete_conv)
  have "j_ThreadID job \<in> fst ` set (d_active d)" using ok(2) by (simp flip: is_active_keys)
  then have "Suc (length (d_active d')) = length (d_active d)"
    using assms(2) ok(4) by (simp add: length_delete_key)
  moreover have "is_active d' k \<longleftrightarrow> k \<in> job_thread ` set (xs @ ys)" for k
  proof -
    have "job_thread ` set ?jobs = insert (j_ThreadID job) (job_thread ` set (xs @ ys))" by auto
    moreover have "j_ThreadID job \<notin> job_thread ` set (xs @ ys)" using ok(1) by (simp add: image_Un)
    ultimately show ?thesis unfolding act ok(2) by blast
  qed
  moreover have "distinct (map fst (d_active d'))"
    using assms(2) ok(4) by (simp add: distinct_delete)
  moreover have "distinct (map job_thread (xs @ ys))" using ok(1) by simp
  ultimately show ?thesis
    using ok(3,5-7) assms(3-5) requested_drop [OF ok(1)] by (simp add: system_ok_def)
qed

lemma sys_step_ok: "sys_step lib s s' \<Longrightarrow> system_ok s \<Longrightarrow> system_ok s'"
proof (induction rule: sys_step.induct)
  case (step_section d d' jobs)
  have "c_MaxParallelRetries (d_config d') \<le> 16"
    using section_config [OF step_section(1)] step_section(2) valid_parallel by (auto simp: system_ok_def)
  moreover have "is_active d' k = is_active d k" for k
    using section_frame [OF step_section(1)] by (simp add: is_active_def)
  ultimately show ?case
    using step_section section_frame [OF step_section(1)] section_ok [OF step_section(1)]
    by (simp add: system_ok_def)
next
  case (step_dispatch inp now d d' new jobs)
  note ok = step_dispatch(4) [unfolded system_ok_def, simplified]
  from tickDispatch_result [OF step_dispatch(3,1,2)] ok obtain d1 goals dm cs where
    r: "dispatch_result lib now d d1 new goals dm cs" and fr: "d_active d' = d_active d1"
      "d_config d' = d_config d1" "d_activeCtx d' = d_activeCtx d1" "threads_ok d'" by metis
  note j = dispatch_result_jobs [OF r]
  note r' = r [unfolded dispatch_result_def]
  have new: "map job_thread (map (\<lambda>j. (j, queued)) new) = map j_ThreadID new"
    by (simp add: o_def)
  have r1: "distinct (map fst (d_active d1))" "d_config d1 = d_config d" "d_activeCtx d1 = d_activeCtx d"
    using r' conjunct1 [OF conjunct2 [OF conjunct2 [OF conjunct2 [OF conjunct2 [OF ok]]]]] by blast+
  have "is_active d' k \<longleftrightarrow> is_active d1 k" for k using fr(1) by (simp add: is_active_def)
  moreover have "length jobs + length new \<le> 16"
  proof -
    have "length new = length goals + length cs" using r' by simp
    moreover have "int (length jobs + length goals + length cs) \<le> max (int (length jobs)) (c_MaxParallelRetries (d_config d))"
      using r' ok by simp
    ultimately show ?thesis using ok by linarith
  qed
  moreover have "job_thread ` set jobs \<inter> j_ThreadID ` set new = {}"
  proof (rule equals0I)
    fix k assume "k \<in> job_thread ` set jobs \<inter> j_ThreadID ` set new"
    then obtain x where "x \<in> set new" "j_ThreadID x \<in> job_thread ` set jobs"
      by (metis IntE imageE)
    with j(3) ok show False by simp
  qed
  ultimately show ?case
    using ok fr j(2,4,5) r1 unfolding system_ok_def
    by (simp add: new image_Un image_image o_def)
next
  case (step_start job d d' go xs ys)
  note ok = step_start(2)
  show ?case
  proof (cases go)
    case False
    with startJob_cases [OF step_start(1)] have d': "d' = drop_active (j_ThreadID job) d" by simp
    have dist: "distinct (map job_thread (xs @ (job, queued) # ys))"
      and dm: "dom (d_activeCtx d) = requested_threads (xs @ (job, queued) # ys)"
      using ok unfolding system_ok_def by (simp_all only: system.simps)
    have "j_ThreadID job \<notin> requested_threads (xs @ (job, queued) # ys)"
      using requested_drop [OF dist] by auto
    with dm have "dom (d_activeCtx d') = dom (d_activeCtx d) - {j_ThreadID job}"
      unfolding d' set_active_other(12) by blast
    then have "system_ok \<lparr>sy_daemon = d', sy_jobs = xs @ ys\<rparr>"
      by (rule drop_job_ok [OF ok, rotated 2])
        (use ok in \<open>simp_all add: d' drop_active_def system_ok_def threads_ok_def\<close>)
    with False show ?thesis by simp
  next
    case True
    with startJob_cases [OF step_start(1)]
    have d': "d' = d\<lparr>d_activeCtx := (d_activeCtx d)(j_ThreadID job \<mapsto> False)\<rparr>" by simp
    have "is_active d' k = is_active d k" for k by (simp add: d' is_active_def)
    with ok True show ?thesis by (auto simp: system_ok_def d')
  qed
next
  case (step_finish d xs job ys result err finishedAt state_ok status_ok)
  let ?d = "finishJob job result err finishedAt state_ok status_ok d"
  have fr: "same_frame (drop_ctx (j_ThreadID job) (drop_active (j_ThreadID job) d)) ?d"
    by (rule finishJob_frame)
  have "threads_ok ?d"
    using step_finish by (simp add: finishJob_ok system_ok_def)
  with fr show ?case
    by (intro drop_job_ok [OF step_finish])
      (simp_all add: same_frame_def drop_ctx_def drop_active_def)
qed

lemma reachable_ok: "reachable lib s \<Longrightarrow> system_ok s"
  by (induction rule: reachable.induct) (auto intro: system_ok_start sys_step_ok)

end
