(* ===== verification/Samples.thy ===== *)
theory Samples
  imports Daemon_System
begin

section \<open>Concrete inputs for the witnesses\<close>

text \<open>
  One thread in each phase of a retry, a daemon that watches them, and events for them. The
  witnesses of the properties apply the theorems to these values. Times are small numbers of
  nanoseconds; \<open>sample_lib\<close> is an instance of the two library parameters.
\<close>

definition sample_lib :: golib where
  "sample_lib = \<lparr>sha256 = (\<lambda>s. map (\<lambda>i. of_nat (length s + i)) [0..<32]), rfc3339 = (\<lambda>t. ''t'')\<rparr>"

definition sample_pending :: PendingRetry where
  "sample_pending =
     \<lparr>p_EventKey = ''key'', p_FailedTurnID = ''turn'', p_FailedAt = 5, p_OriginTurnStartedAt = 0,
      p_Class = classServer, p_DueAt = 10, p_CodexHome = ''home'', p_RolloutPath = ''path'',
      p_Attempt = 1, p_MaxAttempts = 15, p_ConsecutiveRetry = 1, p_MaxConsecutive = 5,
      p_DispatchFailures = 0, p_ParentNotified = False, p_GoalLimitRestart = False\<rparr>"

definition pending_thread :: ThreadState where
  "pending_thread = zero_ThreadState\<lparr>t_Pending := Some sample_pending, t_RecoveryAttempts := 1,
     t_ConsecutiveRetries := 1, t_RecoveryStartedAt := 5, t_LastFailureAt := 5\<rparr>"

definition awaiting_thread :: ThreadState where
  "awaiting_thread = dispatched_thread pending_thread sample_pending 10 defaultConfig"

definition acknowledged_thread :: ThreadState where
  "acknowledged_thread =
     awaiting_thread\<lparr>t_LastStartedTurnID := ''retry'', t_LastStartedAt := 11,
       t_Awaiting := map_option (\<lambda>a. a\<lparr>a_RetryTurnID := ''retry'', a_StartedAt := 11\<rparr>)
         (t_Awaiting awaiting_thread)\<rparr>"

definition sample_stopped :: StoppedRetry where
  "sample_stopped =
     \<lparr>s_EventKey = ''key'', s_FailedTurnID = ''turn'', s_FailedAt = 5, s_OriginTurnStartedAt = 0,
      s_Class = classServer, s_StoppedAt = 10, s_CodexHome = ''home'', s_RolloutPath = ''path'',
      s_Attempts = 0, s_MaxAttempts = 15, s_ConsecutiveRetries = 0, s_MaxConsecutive = 5,
      s_Reason = ''shared_app_server_disabled'', s_Historical = False,
      s_TransportBlocked = Some True\<rparr>"

definition stopped_thread :: ThreadState where
  "stopped_thread = zero_ThreadState\<lparr>t_Stopped := Some sample_stopped, t_RecoveryStartedAt := 5,
     t_LastFailureAt := 5, t_LastStartedTurnID := ''turn'', t_LastStartedAt := 1\<rparr>"

definition goal_thread :: ThreadState where
  "goal_thread = zero_ThreadState
     \<lparr>t_Stopped := Some (sample_stopped\<lparr>s_Reason := goalEmptyResponseStopReason\<rparr>),
      t_GoalStatus := ''active'',
      t_GoalStop := Some \<lparr>g_EventKey = ''key'', g_Reason = goalEmptyResponseStopReason,
        g_RequestedAt = 10, g_DueAt = 10, g_DispatchFailures = 0\<rparr>\<rparr>"

definition shared_config :: Config where
  "shared_config = defaultConfig\<lparr>c_SharedAppServerEnabled := True, c_SharedAppServerRequested := True\<rparr>"

definition daemon_with :: "(string \<rightharpoonup> ThreadState) \<Rightarrow> daemon" where
  "daemon_with ts = (initial_daemon shared_config (newRuntimeState\<lparr>rs_Threads := ts\<rparr>) False 1)
     \<lparr>d_controllerState := ''ready''\<rparr>"

definition sample_daemon :: daemon where
  "sample_daemon = daemon_with [''a'' \<mapsto> pending_thread, ''g'' \<mapsto> goal_thread]"

definition sample_event :: "string \<Rightarrow> string \<Rightarrow> gotime \<Rightarrow> RelevantEvent" where
  "sample_event kind turn at = zero_RelevantEvent\<lparr>e_Kind := kind, e_TurnID := turn, e_Timestamp := at\<rparr>"

definition sample_item :: "string \<Rightarrow> RelevantEvent \<Rightarrow> scannedEvent" where
  "sample_item threadID event =
     \<lparr>i_ThreadID = threadID, i_Root = \<lparr>sr_Sessions = [], sr_ArchivedSessions = [], sr_CodexHome = ''home''\<rparr>,
      i_RolloutPath = ''path'', i_Event = event, i_Mirrored = False\<rparr>"

lemmas sample_defs =
  sample_pending_def pending_thread_def awaiting_thread_def acknowledged_thread_def sample_stopped_def
  stopped_thread_def goal_thread_def shared_config_def daemon_with_def sample_daemon_def
  sample_event_def sample_item_def dispatched_thread_def awaitingDispatch_def zero_ThreadState_def
  zero_RelevantEvent_def initial_daemon_def newRuntimeState_def defaultConfig_def

lemma threads_daemon_with [simp]: "threads (daemon_with ts) = ts"
  by (simp add: daemon_with_def threads_def initial_daemon_def)

lemma daemon_with_simps [simp]:
  "d_config (daemon_with ts) = shared_config" "d_active (daemon_with ts) = []"
  "d_activeCtx (daemon_with ts) = Map.empty" "d_paused (daemon_with ts) = False"
  "d_controllerState (daemon_with ts) = ''ready''"
  "rs_ProcessedEvents (d_state (daemon_with ts)) = Map.empty"
  by (simp_all add: daemon_with_def initial_daemon_def newRuntimeState_def)

lemma not_active_daemon_with [simp]: "\<not> is_active (daemon_with ts) k"
  by (simp add: is_active_def)

lemma sample_threads_ok [simp]:
  "thread_ok pending_thread" "thread_ok awaiting_thread" "thread_ok acknowledged_thread"
  "thread_ok stopped_thread" "thread_ok goal_thread"
  by (simp_all add: thread_ok_iff sample_defs)

lemma threads_ok_daemon_with: "(\<And>t. t \<in> ran ts \<Longrightarrow> thread_ok t) \<Longrightarrow> threads_ok (daemon_with ts)"
  by (auto simp: threads_ok_def ran_def)

lemma sample_daemon_ok [simp]: "threads_ok sample_daemon"
  unfolding sample_daemon_def by (rule threads_ok_daemon_with) (auto split: if_splits)

lemma shared_config_valid [simp]: "valid_config shared_config"
  by code_simp

lemma default_config_valid' [simp]: "valid_config defaultConfig"
  by (rule default_config_valid)

text \<open>Two thread identifiers.\<close>

definition sample_parent :: string where
  "sample_parent = ''0123abcd-0000-4000-8000-0123456789ab''"

definition sample_child :: string where
  "sample_child = ''11111111-2222-3333-4444-555555555555''"

lemma sample_uuids: "plain_uuid sample_parent" "plain_uuid sample_child"
  by (simp_all add: plain_uuid_def sample_parent_def sample_child_def is_uuid_def uuid_dashes_def to_lower_def
      hex_ci_def is_hex_def is_digit_def lower_char_def byte_def upt_rec)

end
