(* ===== verification/Dispatch_Properties.thy ===== *)
theory Dispatch_Properties
  imports Samples
begin

section \<open>What a dispatch may start\<close>

text \<open>
  Properties of the daemon as a whole: the invariant of the interleaved system, what a dispatch
  starts and in which order, what happens without a transport, when a stopped retry is reopened,
  what the result of a job does, and that the order of a map does not matter.
\<close>

text \<open>
  C1: in every reachable state of the interleaved system each thread record satisfies its
  invariant (at most one of pending, awaiting and stopped; a goal stop only with its stopped
  retry), at most one job per thread is running, the table of active jobs is exactly the set
  of running jobs, a cancel function is registered exactly for the jobs whose request is under
  way, and no more than sixteen jobs run at once.
\<close>

theorem reachable_system_ok:
  assumes "reachable lib s"
  shows "threads_ok (sy_daemon s) \<and> distinct (map job_thread (sy_jobs s)) \<and>
    (\<forall>k. is_active (sy_daemon s) k \<longleftrightarrow> k \<in> job_thread ` set (sy_jobs s)) \<and>
    dom (d_activeCtx (sy_daemon s)) = requested_threads (sy_jobs s) \<and>
    length (sy_jobs s) \<le> 16"
  using reachable_ok [OF assms] unfolding system_ok_def by blast

theorem reachable_system_ok_witness:
  "threads_ok (newDaemon defaultConfig newRuntimeState False 1 1 []) \<and>
   d_activeCtx (newDaemon defaultConfig newRuntimeState False 1 1 []) = Map.empty"
proof -
  have "reachable sample_lib \<lparr>sy_daemon = newDaemon defaultConfig newRuntimeState False 1 1 [], sy_jobs = []\<rparr>"
    by (rule reach_start) (simp_all add: newRuntimeState_def)
  from reachable_system_ok [OF this] show ?thesis by simp
qed



text \<open>
  C11: no due retry is left waiting while there is a slot, and slots go to the earliest. If a retry
  could be dispatched (pending, due, not held, not active, within its time limit), the daemon
  is neither paused nor without transport, and no job was started for it, then the active table
  is full, and every recovery job that was started had been due no later.
\<close>

theorem dispatch_earliest_first:
  assumes "dispatchDueLocked lib now ks1 ks2 d = (d', jobs)"
    and "distinct ks1" and "distinct ks2" and "threads_ok d" and "k \<in> set ks2"
    and "\<not> d_paused d" and "\<not> no_transport d"
    and "dispatchable d now (k, p)" and "k \<notin> j_ThreadID ` set jobs"
  shows "c_MaxParallelRetries (d_config d) \<le> int (length (d_active d')) \<and>
    (\<forall>j\<in>set jobs. j_Kind j = jobRecovery \<longrightarrow>
       (\<exists>q. t_Pending (get_thread d (j_ThreadID j)) = Some q \<and> p_DueAt q \<le> p_DueAt p))"
proof -
  obtain goals dm cs where r: "dispatch_result lib now d d' jobs goals dm cs"
    and choice: "cs = [] \<and> (d_paused d \<or> no_transport d \<or>
        c_MaxParallelRetries (d_config d) \<le> int (length (d_active d) + length goals)) \<or>
      (\<exists>n cs0. cs = take n (sort_key (\<lambda>(_, p). p_DueAt p) cs0) \<and>
      int (length (d_active d) + length goals) + int n = c_MaxParallelRetries (d_config d) \<and>
      (\<forall>k p. k \<in> set ks2 \<and> dispatchable d now (k, p) \<and> k \<notin> fst ` set goals \<longrightarrow> (k, p) \<in> set cs0))"
    by (rule dispatch_sound [OF assms(1-4)])
  note r' = r [unfolded dispatch_result_def]
  have ids: "j_ThreadID ` set jobs = fst ` set goals \<union> fst ` set cs"
    using arg_cong [OF dispatch_result_jobs(1) [OF r], of set] by simp
  then have k: "k \<notin> fst ` set goals" "k \<notin> fst ` set cs" using assms(9) by auto
  have len: "length (d_active d') = length (d_active d) + length goals + length cs"
    using dispatch_result_jobs(5) [OF r] r' by simp
  show ?thesis
  proof (cases "cs = [] \<and> c_MaxParallelRetries (d_config d) \<le> int (length (d_active d) + length goals)")
    case True
    have "j_Kind j \<noteq> jobRecovery" if "j \<in> set jobs" for j
      using that r' True by auto
    with True len show ?thesis by simp
  next
    case False
    with choice assms(6,7) obtain n cs0 where n:
      "cs = take n (sort_key (\<lambda>(_, p). p_DueAt p) cs0)"
      "int (length (d_active d) + length goals) + int n = c_MaxParallelRetries (d_config d)"
      "(k, p) \<in> set cs0"
      using assms(5,8) k(1) by blast
    let ?sorted = "sort_key (\<lambda>(_, p). p_DueAt p) cs0"
    have all: "take n ?sorted @ drop n ?sorted = ?sorted" by simp
    have "(k, p) \<in> set (take n ?sorted) \<union> set (drop n ?sorted)"
      using n(3) by (metis all set_append set_sort)
    then have kp: "(k, p) \<in> set (drop n ?sorted)" using k(2) n(1) by force
    then have "n < length ?sorted" by (cases "n < length ?sorted") auto
    then have "length cs = n" using n(1) by simp
    moreover have "p_DueAt q \<le> p_DueAt p" if "(k', q) \<in> set cs" for k' q
    proof -
      have "sorted (map (\<lambda>(_, p). p_DueAt p) (take n ?sorted @ drop n ?sorted))"
        unfolding all by simp
      then show ?thesis using that kp n(1) unfolding map_append sorted_append by fastforce
    qed
    moreover have "\<exists>q. (j_ThreadID j, q) \<in> set cs" if "j \<in> set jobs" "j_Kind j = jobRecovery" for j
    proof -
      have "j \<notin> set (map (\<lambda>(k, g). goalBlockJob k g (get_thread d k)) goals)" using that(2) by auto
      with that(1) r' show ?thesis by auto
    qed
    moreover have "t_Pending (get_thread d k') = Some q" if "(k', q) \<in> set cs" for k' q
      using that r' by (fastforce simp: dispatchable_def get_thread_def)
    ultimately show ?thesis using len n(2) by fastforce
  qed
qed

definition busy_daemon :: daemon where
  "busy_daemon = daemon_with [''a'' \<mapsto> pending_thread,
     ''b'' \<mapsto> pending_thread\<lparr>t_Pending := Some (sample_pending\<lparr>p_DueAt := 9\<rparr>)\<rparr>]
     \<lparr>d_config := shared_config\<lparr>c_MaxParallelRetries := 1\<rparr>\<rparr>"

theorem dispatch_earliest_first_witness:
  "map j_ThreadID (snd (dispatchDueLocked sample_lib 10 [] [''a'', ''b''] busy_daemon)) = [''b''] \<and>
   c_MaxParallelRetries (d_config busy_daemon) = 1"
proof -
  obtain d' jobs where disp: "dispatchDueLocked sample_lib 10 [] [''a'', ''b''] busy_daemon = (d', jobs)"
    by fastforce
  have jobs: "map j_ThreadID (snd (dispatchDueLocked sample_lib 10 [] [''a'', ''b''] busy_daemon)) = [''b'']"
    by code_simp
  then have "j_ThreadID ` set jobs = {''b''}" using disp by (metis list.set(1,2) list.set_map snd_conv)
  moreover have th: "threads busy_daemon = [''a'' \<mapsto> pending_thread,
     ''b'' \<mapsto> pending_thread\<lparr>t_Pending := Some (sample_pending\<lparr>p_DueAt := 9\<rparr>)\<rparr>]"
    by (simp add: busy_daemon_def)
  moreover from this have "threads_ok busy_daemon"
    by (auto simp: threads_ok_def thread_ok_iff sample_defs split: if_splits)
  moreover have "dispatchable busy_daemon 10 (''a'', sample_pending)"
  proof -
    have "\<not> is_active busy_daemon ''a''" by (simp add: busy_daemon_def is_active_def)
    then show ?thesis
      by (simp add: dispatchable_def th held_back_def pending_thread_def sample_pending_def
          zero_ThreadState_def window_defs)
  qed
  ultimately have "c_MaxParallelRetries (d_config busy_daemon) \<le> int (length (d_active d'))"
    using dispatch_earliest_first [OF disp, of "''a''" sample_pending]
    by (simp add: busy_daemon_def no_transport_def shared_config_def)
  with jobs show ?thesis by (simp add: busy_daemon_def)
qed

text \<open>
  C13: without a verified transport nothing is sent and nothing is counted as sent. While slots
  remain, every due retry becomes a stopped one, with the transport's reason, the attempts made
  so far (one less than the attempt that was pending) and a mark that it was never dispatched
  when it had not been; and no recovery job is started.
\<close>

theorem no_transport_stops_uncounted:
  assumes "dispatchDueLocked lib now ks1 ks2 d = (d', jobs)"
    and "distinct ks1" and "distinct ks2" and "threads_ok d"
    and "no_transport d" and "\<not> d_paused d"
    and "int (length (d_active d')) < c_MaxParallelRetries (d_config d)"
    and "k \<in> set ks2" and "threads d k = Some t" and "t_Pending t = Some p" and "p_DueAt p \<le> now"
  shows "(\<forall>j\<in>set jobs. j_Kind j = jobGoalBlock) \<and>
    (\<exists>t' s. threads d' k = Some t' \<and> t_Pending t' = None \<and> t_Awaiting t' = None \<and>
       t_Stopped t' = Some s \<and> s_Reason s = no_transport_reason d \<and>
       s_EventKey s = p_EventKey p \<and> s_Attempts s = completedRetryCount (p_Attempt p) \<and>
       s_MaxAttempts s = p_MaxAttempts p \<and>
       s_TransportBlocked s = Some (transport_blocked t p (no_transport_reason d)))"
proof -
  obtain goals dm cs where r: "dispatch_result lib now d d' jobs goals dm cs"
    by (rule dispatch_sound [OF assms(1-4)])
  note r' = r [unfolded dispatch_result_def]
  have cs: "cs = []" using r' assms(5) by blast
  have kinds: "\<forall>j\<in>set jobs. j_Kind j = jobGoalBlock" using r' cs by auto
  define n where "n = c_MaxParallelRetries (d_config d) - int (length (d_active d))"
  obtain d1 jobs1 n1 where st: "start_goal_stops
      (sort_key (\<lambda>(_, g). g_DueAt g) (goal_stop_candidates now ks1 d)) n [] d = (d1, jobs1, n1)"
    by (metis prod_cases3)
  have "length (d_active d) \<le> length (d_active d')"
    using dispatch_result_jobs(5) [OF r] by simp
  then have n: "0 < n" using assms(7) by (simp add: n_def)
  note s = start_goal_stops_result [OF less_imp_le [OF n] st]
  have fr1: "threads d1 = threads d" "d_config d1 = d_config d" "d_paused d1 = d_paused d"
    "d_controllerState d1 = d_controllerState d"
    using s by (simp_all add: fold_set_active)
  note disp = assms(1) [unfolded dispatchDueLocked_def Let_def, folded n_def, unfolded st prod.case]
  have "jobs = jobs1" using disp n fr1 assms(5,6) by (auto simp: no_transport_cong [OF fr1(2,4)] split: if_splits)
  then have "n1 = n - int (length jobs)" using s by simp
  then have "n1 \<noteq> 0"
    using assms(7) dispatch_result_jobs(5) [OF r] by (simp add: n_def)
  then have d': "d' = for_threads ks2 (stopUntransported now (no_transport_reason d1)) d1"
    using disp n fr1 assms(5,6) by (auto simp: no_transport_cong [OF fr1(2,4)])
  have reason: "no_transport_reason d1 = no_transport_reason d"
    using fr1 by (simp add: no_transport_reason_def)
  have "t_Awaiting t = None"
    using threads_okD [OF assms(4,9)] assms(10) by (auto simp: thread_ok_iff)
  then have "pending_due now t" using assms(10,11) by (simp add: pending_due_def)
  then show ?thesis
    using kinds untransported_loop.loop_thread [OF assms(3,8), of d1 t now "no_transport_reason d"]
      assms(9,10) fr1(1)
    by (simp add: d' reason stopUntransported_def stopPendingForControllerLocked_def Let_def)
qed

definition stranded_daemon :: daemon where
  "stranded_daemon = daemon_with [''a'' \<mapsto> pending_thread]
     \<lparr>d_controllerState := ''shared_app_server_disabled''\<rparr>"

theorem no_transport_stops_uncounted_witness:
  "t_Stopped (get_thread (fst (dispatchDueLocked sample_lib 10 [] [''a''] stranded_daemon)) ''a'') \<noteq> None"
proof -
  obtain d' jobs where disp: "dispatchDueLocked sample_lib 10 [] [''a''] stranded_daemon = (d', jobs)"
    by fastforce
  have "length (d_active (fst (dispatchDueLocked sample_lib 10 [] [''a''] stranded_daemon))) = 0"
    by code_simp
  moreover have "threads stranded_daemon = [''a'' \<mapsto> pending_thread]" by (simp add: stranded_daemon_def)
  moreover from this have "threads_ok stranded_daemon" by (simp add: threads_ok_def)
  ultimately show ?thesis
    using no_transport_stops_uncounted [OF disp, of "''a''" pending_thread sample_pending] disp
    by (auto simp: stranded_daemon_def no_transport_def shared_config_def defaultConfig_def
        pending_thread_def sample_pending_def get_thread_def)
qed

section \<open>Reopening, results, probes\<close>



text \<open>
  C12: the result of a recovery job has one of these effects. If the thread no longer awaits this
  job's failure and attempt, none. On an error or a request to retry later the retry returns
  to pending with the same attempt and one more controller failure, strictly below the limit,
  after the delay for that many failures, or, at the limit or when the user has to act, it is
  stopped and the attempt is not counted as made. A busy user postpones it without counting a
  failure. A result that does not apply ends it. Otherwise it keeps awaiting its start.
\<close>

theorem job_result_effect:
  assumes "valid_config (d_config d)" and "threads d (j_ThreadID job) = Some t"
    and "t' = get_thread (runJobFinish job result err fin state_ok status_ok d) (j_ThreadID job)"
  shows "(\<not> job_current job t \<longrightarrow>
       threads (runJobFinish job result err fin state_ok status_ok d) = threads d) \<and>
    (\<forall>a. job_current job t \<and> t_Awaiting t = Some a \<longrightarrow>
      (if err \<noteq> None \<or> d_Outcome result = outcomeRetryLater then
         (if controller_gives_up (controllerFailureReason result err) True a (d_config d)
          then t_Pending t' = None \<and> t_Awaiting t' = None \<and>
               (\<exists>s. t_Stopped t' = Some s \<and> s_Reason s = controllerFailureReason result err \<and>
                  s_Attempts s = completedRetryCount (a_Attempt a))
          else t_Awaiting t' = None \<and>
               (\<exists>p. t_Pending t' = Some p \<and> p_Attempt p = a_Attempt a \<and> p_EventKey p = a_EventKey a \<and>
                  p_DispatchFailures p = a_DispatchFailures a + 1 \<and>
                  p_DispatchFailures p < c_ControllerFailureLimit (d_config d) \<and>
                  p_DueAt p = fin + spec_delay (max (a_DispatchFailures a + 1) 1) (d_config d) * Second))
       else if d_Outcome result = outcomeUserActive then
         (if controllerFailureNeedsAction (controllerFailureReason result None) then t_Stopped t' \<noteq> None
          else \<exists>p. t_Pending t' = Some p \<and> p_Attempt p = a_Attempt a \<and> p_DispatchFailures p = 0 \<and>
                 p_DueAt p = fin + spec_delay 1 (d_config d) * Second)
       else if d_Outcome result = outcomeNotApplicable then
         t_Pending t' = None \<and> t_Awaiting t' = None \<and> t_Stopped t' = None \<and> t_RecoveryAttempts t' = 0
       else \<exists>a'. t_Awaiting t' = Some a' \<and> a_EventKey a' = a_EventKey a \<and>
              a_Attempt a' = a_Attempt a \<and> a_Action a' = d_Action result \<and> a_DispatchFailures a' = 0))"
proof (cases "job_current job t")
  case False
  then show ?thesis
    using assms(2) by (auto simp: runJobFinish_def Let_def get_thread_def)
next
  case True
  let ?k = "j_ThreadID job" and ?d = "drop_ctx (j_ThreadID job) (drop_active (j_ThreadID job) d)"
  have t: "get_thread ?d ?k = t" using assms(2) by (simp add: get_thread_def)
  have t': "t' = get_thread (applyJobResult job result err fin t ?d) ?k"
    using True t unfolding assms(3) runJobFinish_def Let_def by (simp add: get_thread_def)
  obtain a where a: "t_Awaiting t = Some a" using True by (auto simp: job_current_def split: option.splits)
  obtain b where b: "t_Awaiting (noted result t) = Some b" "a_Attempt b = a_Attempt a"
    "a_EventKey b = a_EventKey a" "a_DispatchFailures b = a_DispatchFailures a"
  proof
    let ?b = "if d_ParentNotified result then a\<lparr>a_ParentNotified := True\<rparr> else a"
    show "t_Awaiting (noted result t) = Some ?b" "a_Attempt ?b = a_Attempt a"
      "a_EventKey ?b = a_EventKey a" "a_DispatchFailures ?b = a_DispatchFailures a"
      using a by (simp_all add: noted_def update_awaiting_def)
  qed
  consider "err \<noteq> None \<or> d_Outcome result = outcomeRetryLater"
    | "err = None" "d_Outcome result = outcomeUserActive"
    | "err = None" "d_Outcome result = outcomeNotApplicable"
    | "err = None" "d_Outcome result \<notin> {outcomeRetryLater, outcomeUserActive, outcomeNotApplicable}" by auto
  then show ?thesis
  proof cases
    case 1
    let ?r = "controllerFailureReason result err"
    have "controller_gives_up ?r True b (d_config d) = controller_gives_up ?r True a (d_config d)"
      by (simp add: controller_gives_up_def b(4))
    moreover have "get_thread (applyJobResult job result err fin t ?d) ?k =
        the (threads (rescheduleAwaitingWithPolicyLocked ?k (noted result t) fin ?r True
          (?d\<lparr>d_controllerState := ?r\<rparr>)) ?k)"
      by (simp add: applyJobResult_retry [OF 1] Let_def get_thread_def reschedule_effect assms(1) b(1))
    ultimately show ?thesis
      using True a b 1 unfolding t'
      by (simp add: reschedule_effect assms(1) Let_def pending_of_awaiting_def)
        (auto simp: controller_gives_up_def)
  next
    case 2
    then show ?thesis
      using True a b unfolding t'
      by (simp add: applyJobResult_busy [OF refl 2(2)] get_thread_def reschedule_effect assms(1) Let_def
          update_awaiting_def controller_gives_up_def pending_of_awaiting_def)
  next
    case 3
    then show ?thesis
      using True a unfolding t' by (simp add: applyJobResult_def Let_def split: prod.split)
  next
    case 4
    then show ?thesis
      using True a unfolding t' by (auto simp: applyJobResult_def update_awaiting_def Let_def)
  qed
qed

theorem job_result_effect_witness:
  "\<exists>p. t_Pending (get_thread (runJobFinish (recoveryJob sample_lib ''a'' sample_pending)
       (zero_DispatchResult\<lparr>d_Outcome := outcomeRetryLater\<rparr>) None 20 True True
       (daemon_with [''a'' \<mapsto> awaiting_thread])) ''a'') = Some p \<and> p_Attempt p = 1 \<and> p_DispatchFailures p = 1"
proof -
  let ?d = "daemon_with [''a'' \<mapsto> awaiting_thread]" and ?job = "recoveryJob sample_lib ''a'' sample_pending"
    and ?r = "zero_DispatchResult\<lparr>d_Outcome := outcomeRetryLater\<rparr>" and ?a = "the (t_Awaiting awaiting_thread)"
  have j: "j_ThreadID ?job = ''a''" by code_simp
  have a: "job_current ?job awaiting_thread" "t_Awaiting awaiting_thread = Some ?a" by code_simp+
  have v: "a_Attempt ?a = 1" "a_DispatchFailures ?a = 0" "d_Outcome ?r = outcomeRetryLater"
    "\<not> controller_gives_up (controllerFailureReason ?r None) True ?a shared_config"
    by code_simp+
  have eff: "valid_config (d_config ?d)" "threads ?d (j_ThreadID ?job) = Some awaiting_thread"
    by (simp_all add: j)
  note mp [OF spec [OF conjunct2 [OF job_result_effect [OF eff refl, of ?r None 20 True True]], of ?a]
    conjI [OF a]]
  then show ?thesis
    unfolding j using v by auto
qed

subsection \<open>Map order\<close>

text \<open>
  Go visits a map in an arbitrary order, and it does not matter: the loops of a tick that
  reload the limits, reopen stopped retries, expire unacknowledged ones and stop what has no
  transport leave the same thread table whichever order each of them takes.
\<close>

theorem map_order_irrelevant:
  assumes "range_order (threads d) ks" and "range_order (threads d) ks'"
  shows "threads (reloadConfigLocked loaded w ks d) = threads (reloadConfigLocked loaded w ks' d) \<and>
    threads (reopenRestartRequiredLocked now ks d) = threads (reopenRestartRequiredLocked now ks' d) \<and>
    threads (expireUnacknowledgedLocked now ks d) = threads (expireUnacknowledgedLocked now ks' d) \<and>
    threads (for_threads ks (stopUntransported now r) d) = threads (for_threads ks' (stopUntransported now r) d) \<and>
    threads (reconcileStartupState now ks d) = threads (reconcileStartupState now ks' d)"
proof (intro conjI)
  show "threads (reloadConfigLocked loaded w ks d) = threads (reloadConfigLocked loaded w ks' d)"
  proof (cases loaded)
    case (Inr config)
    obtain d0 where d0: "\<And>ks. reloadConfigLocked (Inr config) w ks d = for_threads ks (relimitThread w) d0"
      "threads d0 = threads d"
      by (auto simp: reloadConfigLocked_def Let_def intro: that)
    show ?thesis
      unfolding Inr d0(1) by (rule relimit_loop.loop_order) (simp_all add: d0(2) assms)
  qed (simp add: reloadConfigLocked_def)
  show "threads (reopenRestartRequiredLocked now ks d) = threads (reopenRestartRequiredLocked now ks' d)"
    unfolding reopenRestartRequiredLocked_def by (simp add: reopen_loop.loop_order [OF assms])
  show "threads (expireUnacknowledgedLocked now ks d) = threads (expireUnacknowledgedLocked now ks' d)"
    unfolding expireUnacknowledgedLocked_def by (rule expire_loop.loop_order [OF assms])
  show "threads (for_threads ks (stopUntransported now r) d) = threads (for_threads ks' (stopUntransported now r) d)"
    by (rule untransported_loop.loop_order [OF assms])
  show "threads (reconcileStartupState now ks d) = threads (reconcileStartupState now ks' d)"
    unfolding reconcileStartupState_def by (rule reconcile_loop.loop_order [OF assms])
qed

theorem map_order_irrelevant_witness:
  "threads (expireUnacknowledgedLocked 50 [''a'', ''b''] (daemon_with [''a'' \<mapsto> awaiting_thread, ''b'' \<mapsto> pending_thread])) =
   threads (expireUnacknowledgedLocked 50 [''b'', ''a''] (daemon_with [''a'' \<mapsto> awaiting_thread, ''b'' \<mapsto> pending_thread]))"
proof -
  let ?d = "daemon_with [''a'' \<mapsto> awaiting_thread, ''b'' \<mapsto> pending_thread]"
  have "range_order (threads ?d) [''a'', ''b'']" "range_order (threads ?d) [''b'', ''a'']"
    by (auto simp: range_order_def)
  from map_order_irrelevant [OF this] show ?thesis by blast
qed

end
