(* ===== verification/Retry_Properties.thy ===== *)
theory Retry_Properties
  imports Samples Daemon_System
begin

section \<open>What an event does to a retry\<close>

text \<open>
  Theorems about the handlers of \<open>retry_state.go\<close> and \<open>goal_recovery.go\<close>: how a failure advances
  a chain of retries and that every chain ends, what ends it early, and what the control panel
  may do to it.
\<close>

subsection \<open>The record a failure leaves\<close>

lemma get_mark [simp]: "get_thread (mark_processed key now d) k = get_thread d k"
  by (simp add: get_thread_def)

lemma config_mark [simp]: "d_config (mark_processed key now d) = d_config d"
  by (simp add: mark_processed_def)

lemma config_event [simp]: "d_config (handleEventLocked lib item now d) = d_config d"
  using frame_event [of d lib item now] by (simp add: same_frame_def)

lemma get_cancelRetry [simp]:
  "get_thread (cancelRetryLocked k t d) j = (if j = k then cleared t else get_thread d j)"
  by (simp add: cancelRetryLocked_def get_thread_def)

lemma get_resetRetry [simp]:
  "get_thread (resetRetryStateLocked k t d) j = (if j = k then cleared t else get_thread d j)"
  by (simp add: resetRetryStateLocked_def get_thread_def)

text \<open>A failure in a chain: pending again within the limits, stopped, or out of the queue.\<close>

definition failure_outcome ::
    "Config \<Rightarrow> string \<Rightarrow> gotime \<Rightarrow> int \<Rightarrow> int \<Rightarrow> ThreadState \<Rightarrow> bool" where
  "failure_outcome config key now attempt consecutive t \<longleftrightarrow>
     t_Awaiting t = None \<and>
     (case t_Pending t of
        Some p \<Rightarrow>
          p_EventKey p = key \<and> p_Attempt p = attempt \<and> p_ConsecutiveRetry p = consecutive \<and>
          attempt \<le> p_MaxAttempts p \<and> p_MaxAttempts p \<le> c_MaxRecoveryAttempts config \<and>
          consecutive \<le> p_MaxConsecutive p \<and> p_MaxConsecutive p \<le> c_MaxConsecutiveRetries config \<and>
          p_DueAt p = now + spec_delay consecutive config * Second \<and>
          t_RecoveryAttempts t = attempt \<and> t_Stopped t = None
      | None \<Rightarrow>
          (case t_Stopped t of
             Some s \<Rightarrow>
               s_EventKey s = key \<and> s_Attempts s = attempt - 1 \<and> s_ConsecutiveRetries s = consecutive - 1 \<and>
               t_RecoveryAttempts t = attempt - 1 \<and>
               (t_GoalStop t \<noteq> None \<longleftrightarrow> s_Class s = classEmptyResponse \<and> t_GoalStatus t = ''active'')
           | None \<Rightarrow> t_RecoveryAttempts t = 0 \<and> t_ConsecutiveRetries t = 0))"

lemma schedule_outcome:
  assumes "valid_config (d_config d)" and "1 \<le> a" and "1 \<le> c"
    and "t_Stopped t = None" and "t_GoalStop t = None"
  shows "failure_outcome (d_config d) key now a c
    (get_thread (scheduleFailureLocked item key now t a c org pn d) (i_ThreadID item))"
proof -
  let ?t = "failure_prelude item now t"
  let ?dec = "classifyCompletionFailure (i_Event item) (d_config d)"
  let ?lim = "retryLimitsForDecision ?dec (d_config d)"
  let ?r = "if time_sub now (t_RecoveryStartedAt ?t) > maxAutomaticRecoveryDuration then ''recovery_time_limit''
    else retryStopReasonForClass (r_Class ?dec) (d_config d) a (fst ?lim) c (snd ?lim)"
  have r: "?r \<noteq> goalEmptyResponseStopReason" by simp
  have stop: "failure_outcome (d_config d) key now a c
      (stopped_at_limit item key now ?t a c org (r_Class ?dec) ?lim
        (if r_Class ?dec = classEmptyResponse \<and> t_GoalStatus ?t = ''active''
         then goalEmptyResponseStopReason else r))"
    if "r \<noteq> goalEmptyResponseStopReason" for r
    using assms that by (auto simp: failure_outcome_def stopped_at_limit_def Let_def)
  have sched: "failure_outcome (d_config d) key now a c
      (scheduled item key now ?t a c org pn (r_Class ?dec) ?lim (retryDelay c (d_config d)))"
    if "a \<le> fst ?lim" "c \<le> snd ?lim"
    using assms that by (simp add: failure_outcome_def scheduled_def retryLimits_le retryDelay_spec)
  consider "t_GoalHeld ?t" "\<not> heldConversationAllowed (t_GoalStatus ?t) (t_GoalUpdatedAt ?t) org"
    | "\<not> (t_GoalHeld ?t \<and> \<not> heldConversationAllowed (t_GoalStatus ?t) (t_GoalUpdatedAt ?t) org)" "\<not> r_Retry ?dec"
    | "\<not> (t_GoalHeld ?t \<and> \<not> heldConversationAllowed (t_GoalStatus ?t) (t_GoalUpdatedAt ?t) org)" "r_Retry ?dec"
    by blast
  then show ?thesis
  proof cases
    case 1
    then show ?thesis
      using assms by (simp add: scheduleFailureLocked_def Let_def failure_outcome_def)
  next
    case 2
    then show ?thesis
      unfolding scheduleFailureLocked_def Let_def if_not_P [OF 2(1)] if_P [OF 2(2)]
      by (simp add: failure_outcome_def)
  next
    case 3
    then have "\<not> \<not> r_Retry ?dec" by simp
    then show ?thesis
      unfolding scheduleFailureLocked_def Let_def if_not_P [OF 3(1)] if_not_P [OF \<open>\<not> \<not> r_Retry ?dec\<close>]
      using stop [OF r] sched by (simp add: not_less split del: if_split cong: if_cong) simp
  qed
qed


text \<open>The hypotheses hold for a failing completion of the sample retry.\<close>

definition failing_completion :: scannedEvent where
  "failing_completion = sample_item ''a''
     ((sample_event ''task_complete'' ''retry'' 20)\<lparr>e_ErrorText := ''http 503''\<rparr>)"


subsection \<open>Every chain ends\<close>

text \<open>
  One round of a chain: the pending retry is dispatched, Codex acknowledges the turn, and some
  completion event arrives.
\<close>

definition retry_round ::
    "golib \<Rightarrow> string \<Rightarrow> scannedEvent \<times> scannedEvent \<times> gotime \<Rightarrow> daemon \<Rightarrow> daemon" where
  "retry_round lib k round d =
     (let (start, completion, now) = round
      in case t_Pending (get_thread d k) of
           None \<Rightarrow> d
         | Some p \<Rightarrow>
             handleEventLocked lib completion now
               (handleEventLocked lib start now
                 (put_thread k (dispatched_thread (get_thread d k) p now (d_config d)) d)))"

definition acknowledges :: "Config \<Rightarrow> string \<Rightarrow> scannedEvent \<times> scannedEvent \<times> gotime \<Rightarrow> bool" where
  "acknowledges config k round \<longleftrightarrow>
     (let (start, completion, now) = round
      in i_ThreadID start = k \<and> e_Kind (i_Event start) = ''task_started'' \<and>
         e_TurnID (i_Event start) \<noteq> [] \<and> now \<le> e_Timestamp (i_Event start) \<and>
         e_Timestamp (i_Event start) \<le> now + seconds (c_StartAckTimeoutSeconds config) \<and>
         i_ThreadID completion = k \<and> e_Kind (i_Event completion) = ''task_complete'')"

lemma config_round [simp]: "d_config (retry_round lib k r d) = d_config d"
  by (simp add: retry_round_def split: prod.split option.split)

lemma schedule_pending:
  assumes "t_Pending (get_thread (scheduleFailureLocked item key now t a c org pn d) (i_ThreadID item)) = Some p"
  shows "p_Attempt p = a \<and> a \<le> c_MaxRecoveryAttempts (d_config d)"
  using assms retryLimits_le(1) [of "classifyCompletionFailure (i_Event item) (d_config d)" "d_config d"]
  unfolding scheduleFailureLocked_def Let_def
  by (auto simp: stopped_at_limit_def scheduled_def Let_def split: if_splits)

lemma completion_pending:
  assumes "thread_ok (get_thread d k)" and "t_Awaiting (get_thread d k) = Some a"
    and "i_ThreadID item = k" and "e_Kind (i_Event item) = ''task_complete''"
    and "t_Pending (get_thread (handleEventLocked lib item now d) k) = Some p"
  shows "p_Attempt p = a_Attempt a + 1 \<and> p_Attempt p \<le> c_MaxRecoveryAttempts (d_config d)"
proof -
  let ?key = "eventKey lib k (i_Event item)" and ?t = "get_thread d k"
  let ?d = "mark_processed ?key now d"
  have idle: "t_Pending ?t = None" "t_Stopped ?t = None" using assms(1,2) by (auto simp: thread_ok_iff)
  have "handleEventLocked lib item now d = d \<or>
      handleEventLocked lib item now d = handleTaskCompleteLocked item ?key now ?t ?d"
    using assms(3,4) by (simp add: handleEventLocked_def dispatch_event_def Let_def)
  then have step: "t_Pending (get_thread (handleTaskCompleteLocked item ?key now ?t ?d) k) = Some p"
    using assms(5) idle by auto
  let ?f = "\<lambda>n. get_thread (scheduleFailureLocked item ?key now
      (?t\<lparr>t_CurrentTurnProgress := False, t_Awaiting := None\<rparr>) (a_Attempt a + 1) n
      (a_OriginTurnStartedAt a) (a_ParentNotified a) ?d) (i_ThreadID item)"
  have "\<exists>n. t_Pending (?f n) = Some p"
    using step assms(2,3) idle unfolding handleTaskCompleteLocked_def Let_def
    by (auto split: if_splits)
  then obtain n where "t_Pending (?f n) = Some p" ..
  from schedule_pending [OF this] show ?thesis by simp
qed

lemma start_acknowledged:
  assumes "acknowledges (d_config d) k (start, completion, now)"
    and "thread_ok t" and "t_Pending t = Some p"
  shows "\<exists>a. t_Awaiting (get_thread (handleEventLocked lib start now
      (put_thread k (dispatched_thread t p now (d_config d)) d)) k) = Some a \<and> a_Attempt a = p_Attempt p"
proof -
  have "t_Stopped t = None" using assms(2,3) by (auto simp: thread_ok_iff)
  moreover have "withinDispatchWindow (awaitingDispatch p now (d_config d)) (i_Event start)"
    using assms(1) by (auto simp: withinDispatchWindow_def awaitingDispatch_def acknowledges_def Let_def)
  ultimately show ?thesis
    using assms(1)
    by (auto simp: handleEventLocked_def dispatch_event_def handleTaskStartedLocked_def Let_def
        acknowledges_def dispatched_thread_def awaitingDispatch_def)
qed

lemma round_pending:
  assumes "threads_ok d" and "acknowledges (d_config d) k r"
    and "t_Pending (get_thread (retry_round lib k r d) k) = Some p'"
  obtains p where "t_Pending (get_thread d k) = Some p" "p_Attempt p' = p_Attempt p + 1"
    "p_Attempt p' \<le> c_MaxRecoveryAttempts (d_config d)"
proof -
  obtain start completion now where r: "r = (start, completion, now)" by (cases r)
  obtain p where p: "t_Pending (get_thread d k) = Some p"
    using assms(3) by (cases "t_Pending (get_thread d k)") (auto simp: retry_round_def r)
  let ?d = "handleEventLocked lib start now (put_thread k (dispatched_thread (get_thread d k) p now (d_config d)) d)"
  have ok: "thread_ok (get_thread d k)" using assms(1) by (rule get_thread_ok)
  then have "threads_ok ?d"
    using p assms(1) by (intro handleEvent_ok put_thread_ok) (auto simp: dispatched_thread_def thread_ok_iff)
  moreover obtain a where "t_Awaiting (get_thread ?d k) = Some a" "a_Attempt a = p_Attempt p"
    using start_acknowledged [OF assms(2) [unfolded r] ok p] by blast
  moreover have "i_ThreadID completion = k" "e_Kind (i_Event completion) = ''task_complete''"
    using assms(2) by (auto simp: r acknowledges_def)
  moreover have "t_Pending (get_thread (handleEventLocked lib completion now ?d) k) = Some p'"
    using assms(3) p by (simp add: retry_round_def r)
  ultimately show ?thesis
    using completion_pending [OF get_thread_ok] p that by fastforce
qed

lemma round_ok:
  assumes "threads_ok d" shows "threads_ok (retry_round lib k r d)"
  using assms get_thread_ok [OF assms, of k]
  by (auto simp: retry_round_def dispatched_thread_def thread_ok_iff
      intro!: handleEvent_ok put_thread_ok split: prod.split option.split)

lemma chain_pending:
  assumes "threads_ok d" and "\<forall>r\<in>set rs. acknowledges (d_config d) k r" and "rs \<noteq> []"
    and "t_Pending (get_thread (fold (retry_round lib k) rs d) k) = Some p'"
  shows "\<exists>p. t_Pending (get_thread d k) = Some p \<and> p_Attempt p' = p_Attempt p + int (length rs) \<and>
    p_Attempt p' \<le> c_MaxRecoveryAttempts (d_config d)"
  using assms
proof (induction rs arbitrary: d)
  case (Cons r rs)
  show ?case
  proof (cases "rs = []")
    case True
    with Cons.prems show ?thesis by (auto elim: round_pending)
  next
    case False
    let ?d = "retry_round lib k r d"
    obtain p where "t_Pending (get_thread ?d k) = Some p" "p_Attempt p' = p_Attempt p + int (length rs)"
      "p_Attempt p' \<le> c_MaxRecoveryAttempts (d_config d)"
      using Cons.IH [of ?d] Cons.prems False by (auto simp: round_ok)
    with Cons.prems show ?thesis by (auto elim: round_pending)
  qed
qed simp

text \<open>
  C8: whatever completions arrive, no chain of retries outlives the configured budget: after as
  many acknowledged rounds as \<open>max_recovery_attempts\<close> nothing is pending on the thread any more.
\<close>

theorem retry_chain_ends:
  assumes "threads_ok d" and "\<forall>r\<in>set rounds. acknowledges (d_config d) k r"
    and "\<And>p. t_Pending (get_thread d k) = Some p \<Longrightarrow> 1 \<le> p_Attempt p"
    and "1 \<le> c_MaxRecoveryAttempts (d_config d)"
    and "c_MaxRecoveryAttempts (d_config d) \<le> int (length rounds)"
  shows "t_Pending (get_thread (fold (retry_round lib k) rounds d) k) = None"
proof (rule ccontr)
  assume "\<not> ?thesis"
  then obtain p' where "t_Pending (get_thread (fold (retry_round lib k) rounds d) k) = Some p'" by auto
  moreover have "rounds \<noteq> []" using assms(4,5) by auto
  ultimately obtain p where "t_Pending (get_thread d k) = Some p"
    "p_Attempt p' = p_Attempt p + int (length rounds)" "p_Attempt p' \<le> c_MaxRecoveryAttempts (d_config d)"
    using chain_pending [OF assms(1,2)] by blast
  with assms(3) [of p] assms(5) show False by simp
qed

definition sample_round :: "int \<Rightarrow> scannedEvent \<times> scannedEvent \<times> gotime" where
  "sample_round n =
     (sample_item ''a'' (sample_event ''task_started'' ''retry'' (100 * n)),
      sample_item ''a'' ((sample_event ''task_complete'' ''retry'' (100 * n + 1))\<lparr>e_ErrorText := ''http 503''\<rparr>),
      100 * n)"

theorem retry_chain_ends_witness:
  "t_Pending (get_thread (fold (retry_round sample_lib ''a'') (map sample_round [1..15])
     (daemon_with [''a'' \<mapsto> pending_thread])) ''a'') = None"
proof (rule retry_chain_ends)
  let ?d = "daemon_with [''a'' \<mapsto> pending_thread]"
  show "threads_ok ?d" by (rule threads_ok_daemon_with) (auto split: if_splits)
  have limits: "c_MaxRecoveryAttempts shared_config = 15" "seconds (c_StartAckTimeoutSeconds shared_config) = 30 * Second"
    by code_simp+
  show "\<forall>r\<in>set (map sample_round [1..15]). acknowledges (d_config ?d) ''a'' r"
    by (simp add: acknowledges_def sample_round_def sample_item_def sample_event_def limits)
  show "1 \<le> p_Attempt p" if "t_Pending (get_thread ?d ''a'') = Some p" for p
    using that by (auto simp: get_thread_def pending_thread_def sample_pending_def)
  show "1 \<le> c_MaxRecoveryAttempts (d_config ?d)"
    "c_MaxRecoveryAttempts (d_config ?d) \<le> int (length (map sample_round [1..15]))"
    by (simp_all add: limits)
qed

subsection \<open>What ends a chain early\<close>

lemma ctx_mark [simp]: "d_activeCtx (mark_processed key now d) = d_activeCtx d"
  by (simp add: mark_processed_def)

lemma ctx_cancel [simp]:
  "d_activeCtx (cancel_ctx k d) =
     (if d_activeCtx d k = None then d_activeCtx d else (d_activeCtx d)(k \<mapsto> True))"
  by (simp add: cancel_ctx_def split: option.split)

lemma ctx_handlers [simp]:
  "d_activeCtx (cancelRetryLocked k t d) = d_activeCtx (cancel_ctx k d)"
  "d_activeCtx (resetRetryStateLocked k t d) = d_activeCtx d"
  by (simp_all add: cancelRetryLocked_def resetRetryStateLocked_def)

text \<open>A retry that is out of the queue: nothing pending, awaited or stopped, no counters.\<close>

definition out_of_queue :: "ThreadState \<Rightarrow> bool" where
  "out_of_queue t \<longleftrightarrow>
     t_Pending t = None \<and> t_Awaiting t = None \<and> t_Stopped t = None \<and> t_GoalStop t = None \<and>
     t_RecoveryAttempts t = 0 \<and> t_ConsecutiveRetries t = 0"

lemma cleared_out [simp]: "out_of_queue (cleared t)"
  by (simp add: out_of_queue_def)

lemma cleared_keeps [simp]:
  "t_LastExternalTurnID (cleared t) = t_LastExternalTurnID t"
  "t_LastAbortedTurnID (cleared t) = t_LastAbortedTurnID t"
  by (simp_all add: cleared_def)

text \<open>An event of kind \<open>kind\<close> for thread \<open>k\<close> that the daemon has not seen.\<close>

definition new_event :: "golib \<Rightarrow> string \<Rightarrow> string \<Rightarrow> scannedEvent \<Rightarrow> daemon \<Rightarrow> bool" where
  "new_event lib kind k item d \<longleftrightarrow>
     i_ThreadID item = k \<and> e_Kind (i_Event item) = kind \<and>
     rs_ProcessedEvents (d_state d) (eventKey lib k (i_Event item)) = None"

lemma handle_new_event:
  assumes "new_event lib kind k item d"
  shows "handleEventLocked lib item now d =
    dispatch_event lib item (eventKey lib k (i_Event item)) now (get_thread d k)
      (mark_processed (eventKey lib k (i_Event item)) now d)"
  using assms by (simp add: new_event_def handleEventLocked_def Let_def)





lemma processed_schedule [simp]:
  "rs_ProcessedEvents (d_state (cancelRetryLocked k t d)) = rs_ProcessedEvents (d_state d)"
  "rs_ProcessedEvents (d_state (resetRetryStateLocked k t d)) = rs_ProcessedEvents (d_state d)"
  "rs_ProcessedEvents (d_state (scheduleFailureLocked i key now t a c org pn d)) =
     rs_ProcessedEvents (d_state d)"
  by (simp_all add: cancelRetryLocked_def resetRetryStateLocked_def scheduleFailureLocked_def Let_def)

lemma processed_handlers [simp]:
  "rs_ProcessedEvents (d_state (handleTaskStartedLocked k e t d)) = rs_ProcessedEvents (d_state d)"
  "rs_ProcessedEvents (d_state (handleTaskUserInputLocked k e t d)) = rs_ProcessedEvents (d_state d)"
  "rs_ProcessedEvents (d_state (handleTaskProgressLocked k e t d)) = rs_ProcessedEvents (d_state d)"
  "rs_ProcessedEvents (d_state (handleTurnAbortedLocked k e t d)) = rs_ProcessedEvents (d_state d)"
  "rs_ProcessedEvents (d_state (handleTaskCompleteLocked i key now t d)) = rs_ProcessedEvents (d_state d)"
  "rs_ProcessedEvents (d_state (handleSubagentRecoveryNoticeLocked lib k e t d)) = rs_ProcessedEvents (d_state d)"
  "rs_ProcessedEvents (d_state (handleGoalUpdatedLocked k e t d)) = rs_ProcessedEvents (d_state d)"
  by (simp_all add: handleTaskStartedLocked_def handleTaskUserInputLocked_def
      handleTaskProgressLocked_def handleTurnAbortedLocked_def handleTaskCompleteLocked_def
      handleSubagentRecoveryNoticeLocked_def handleGoalUpdatedLocked_def applyGoalHold_def Let_def
      split: option.split)

lemma processed_dispatch [simp]:
  "rs_ProcessedEvents (d_state (dispatch_event lib item key now t d)) = rs_ProcessedEvents (d_state d)"
  by (simp add: dispatch_event_def Let_def)

lemma processed_mark [simp]:
  "rs_ProcessedEvents (d_state (mark_processed key now d)) = (rs_ProcessedEvents (d_state d))(key \<mapsto> now)"
  by (simp add: mark_processed_def)

lemma processed_handleEvent:
  "rs_ProcessedEvents (d_state (handleEventLocked lib item now d)) =
     (let key = eventKey lib (i_ThreadID item) (i_Event item)
      in if rs_ProcessedEvents (d_state d) key = None then (rs_ProcessedEvents (d_state d))(key \<mapsto> now)
         else rs_ProcessedEvents (d_state d))"
  by (simp add: handleEventLocked_def Let_def)

lemma processed_handleAll:
  "rs_ProcessedEvents (d_state d) key \<noteq> None \<Longrightarrow>
   rs_ProcessedEvents (d_state (fold (\<lambda>i. handleEventLocked lib i now) items d)) key \<noteq> None"
proof (induction items arbitrary: d)
  case (Cons i items)
  from Cons.prems have "rs_ProcessedEvents (d_state (handleEventLocked lib i now d)) key \<noteq> None"
    by (simp add: processed_handleEvent Let_def)
  from Cons.IH [OF this] show ?case by simp
qed simp

text \<open>
  An event is handled at most once: the daemon that has handled an event ignores it later,
  whatever other events it handled in between.
\<close>

theorem event_handled_once:
  "handleEventLocked lib item now'
     (fold (\<lambda>i. handleEventLocked lib i now) items (handleEventLocked lib item now d)) =
   fold (\<lambda>i. handleEventLocked lib i now) items (handleEventLocked lib item now d)"
proof -
  let ?key = "eventKey lib (i_ThreadID item) (i_Event item)" and ?d = "handleEventLocked lib item now d"
  have "rs_ProcessedEvents (d_state ?d) ?key \<noteq> None"
    by (simp add: processed_handleEvent Let_def)
  from processed_handleAll [OF this, of lib now items] show ?thesis
    unfolding handleEventLocked_def [of lib item now'] Let_def by (rule if_P)
qed

subsection \<open>Configuration and controls\<close>

definition with_limits :: "PendingRetry \<Rightarrow> int \<times> int \<Rightarrow> PendingRetry" where
  "with_limits p lim = p\<lparr>p_MaxAttempts := fst lim, p_MaxConsecutive := snd lim\<rparr>"

lemma reload_thread:
  assumes "range_order (threads d) ks" and "threads d k = Some t"
  shows "\<exists>d0. threads d0 = threads d \<and> d_config d0 = config \<and>
    threads (reloadConfigLocked (Inr config) w ks d) k = threads (relimitThread w k t d0) k"
proof -
  obtain d0 where d0: "reloadConfigLocked (Inr config) w ks d = for_threads ks (relimitThread w) d0"
    "threads d0 = threads d" "d_config d0 = config"
    by (auto simp: reloadConfigLocked_def Let_def intro: that)
  have "distinct ks" "k \<in> set ks" using assms by (auto simp: range_order_def)
  from relimit_loop.loop_thread [OF this, of d0 t w] show ?thesis
    using d0 assms(2) by auto
qed

text \<open>
  Reloading the configuration takes the new limits over and keeps the counts. A pending retry
  that is within the new limits stays due as it was; one beyond them is stopped and counts the
  attempts that were made; an awaited retry keeps awaiting. Threads outside the queue are not
  touched.
\<close>

theorem reload_keeps_counts:
  assumes "range_order (threads d) ks" and "threads d k = Some t" and "thread_ok t"
    and "t' = get_thread (reloadConfigLocked (Inr config) w ks d) k"
  shows "(\<forall>p. t_Pending t = Some p \<longrightarrow>
      (let lim = retryLimits (p_Class p) config
       in if p_Attempt p \<le> fst lim \<and> p_ConsecutiveRetry p \<le> snd lim
          then t' = t\<lparr>t_Pending := Some (with_limits p lim)\<rparr>
          else t_Pending t' = None \<and> t_RecoveryAttempts t' = completedRetryCount (p_Attempt p) \<and>
            (\<exists>s. t_Stopped t' = Some s \<and> s_EventKey s = p_EventKey p \<and>
               s_Attempts s = completedRetryCount (p_Attempt p) \<and> s_MaxAttempts s = fst lim))) \<and>
    (\<forall>a. t_Awaiting t = Some a \<longrightarrow>
      (\<exists>a'. t' = t\<lparr>t_Awaiting := Some a'\<rparr> \<and> a_Attempt a' = a_Attempt a \<and>
         a_RetryTurnID a' = a_RetryTurnID a \<and> (a_MaxAttempts a', a_MaxConsecutive a') = retryLimits (a_Class a) config)) \<and>
    (t_Pending t = None \<and> t_Awaiting t = None \<longrightarrow> t' = t)"
proof -
  obtain d0 where d0: "threads d0 = threads d" "d_config d0 = config"
    "threads (reloadConfigLocked (Inr config) w ks d) k = threads (relimitThread w k t d0) k"
    using reload_thread [OF assms(1,2)] by blast
  have t': "t' = get_thread (relimitThread w k t d0) k"
    using d0 assms(4) by (simp add: get_thread_def)
  have same: "get_thread d0 k = t" using d0 assms(2) by (simp add: get_thread_def)
  show ?thesis
  proof (cases "t_Pending t")
    case None
    show ?thesis
    proof (cases "t_Awaiting t")
      case None
      with \<open>t_Pending t = None\<close> show ?thesis by (simp add: t' relimitThread_def same)
    next
      case (Some a)
      with \<open>t_Pending t = None\<close> show ?thesis
        by (simp add: t' relimitThread_def d0) (rule exI [of _ "a\<lparr>a_MaxAttempts := fst (retryLimits (a_Class a) config),
            a_MaxConsecutive := snd (retryLimits (a_Class a) config)\<rparr>"], simp)
    qed
  next
    case (Some p)
    with assms(3) have none: "t_Awaiting t = None" by (auto simp: thread_ok_iff)
    obtain m n where lim: "retryLimits (p_Class p) config = (m, n)" by fastforce
    show ?thesis
      unfolding t' using none Some lim
      by (simp add: relimitThread_def d0 Let_def with_limits_def stopPendingRetryLocked_def)
  qed
qed

theorem reload_keeps_counts_witness:
  "t_Pending (get_thread (reloadConfigLocked (Inr (shared_config\<lparr>c_MaxRecoveryAttempts := 9\<rparr>)) 12 [''a'']
     (daemon_with [''a'' \<mapsto> pending_thread])) ''a'') = Some (with_limits sample_pending (9, 5))"
proof -
  let ?d = "daemon_with [''a'' \<mapsto> pending_thread]" and ?c = "shared_config\<lparr>c_MaxRecoveryAttempts := 9\<rparr>"
  have order: "range_order (threads ?d) [''a'']" by (simp add: range_order_def)
  have t: "threads ?d ''a'' = Some pending_thread" by simp
  have p: "t_Pending pending_thread = Some sample_pending" by (simp add: pending_thread_def)
  have lim: "retryLimits (p_Class sample_pending) ?c = (9, 5)" "p_Attempt sample_pending = 1"
    "p_ConsecutiveRetry sample_pending = 1" by code_simp+
  from reload_keeps_counts [OF order t _ refl, of ?c 12] show ?thesis
    using p lim by (simp add: Let_def)
qed

lemma not_held_back [simp]: "\<not> t_GoalHeld t \<Longrightarrow> \<not> held_back t"
  by (simp add: held_back_def)

lemma held_back_due:
  "t_Pending t = Some p \<Longrightarrow>
   held_back (t\<lparr>t_Pending := Some (p\<lparr>p_DueAt := now\<rparr>)\<rparr>) = held_back t"
  by (simp add: held_back_def goalLimitRestartPending_def heldConversationStillAllowed_def Let_def)

text \<open>
  C18: the panel's commands have the effect they name. A restarted retry is due at once with a
  fresh budget, whatever stopped it and even if its goal was held; "retry now" makes the pending
  retry due unless its goal or its time limit forbids it; a cancelled retry cannot be
  dispatched any more. A command for a thread without such a retry changes nothing, and no
  command touches another thread.
\<close>

theorem control_command_effect:
  assumes "threads_ok d" and "\<not> is_active d k" and "cc_ThreadID command = k"
    and "d' = applyControlCommandLocked command now d"
  shows "(cc_Action command = commandRestartRetry \<longrightarrow>
      (case t_Stopped (get_thread d k) of
         None \<Rightarrow> d' = d
       | Some s \<Rightarrow> dispatchable d' now (k, restartedRetry s (d_config d) now) \<and>
           t_RecoveryAttempts (get_thread d' k) = 1 \<and> \<not> t_GoalHeld (get_thread d' k))) \<and>
    (cc_Action command = commandRetryNow \<longrightarrow>
      (case t_Pending (get_thread d k) of
         None \<Rightarrow> d' = d
       | Some p \<Rightarrow> dispatchable d' now (k, p\<lparr>p_DueAt := now\<rparr>) \<longleftrightarrow>
           \<not> held_back (get_thread d k) \<and>
           (t_RecoveryStartedAt (get_thread d k) = 0 \<or>
            now - t_RecoveryStartedAt (get_thread d k) \<le> maxAutomaticRecoveryDuration))) \<and>
    (cc_Action command = commandCancelRetry \<longrightarrow>
      (case t_Pending (get_thread d k) of
         None \<Rightarrow> d' = d
       | Some p \<Rightarrow> (\<forall>q later. \<not> dispatchable d' later (k, q)) \<and> t_RecoveryAttempts (get_thread d' k) = 0)) \<and>
    (\<forall>j. j \<noteq> k \<longrightarrow> threads d' j = threads d j)"
proof (cases "threads d k")
  case None
  then show ?thesis
    using assms(3,4) by (simp add: applyControlCommandLocked_def get_thread_def zero_ThreadState_def)
next
  case (Some t)
  with assms(1) have ok: "thread_ok t" by (rule threads_okD)
  have get: "get_thread d k = t" using Some by (simp add: get_thread_def)
  have active: "\<not> is_active (put_thread k u (cancel_ctx k d)) k" "\<not> is_active (put_thread k u d) k" for u
    using assms(2) by simp_all
  show ?thesis
  proof (cases "cc_Action command")
    case commandRetryNow
    then show ?thesis
      using ok active Some assms(3,4)
      by (cases "t_Pending t")
        (auto simp: applyControlCommandLocked_def get dispatchable_def held_back_due thread_ok_iff)
  next
    case commandCancelRetry
    then show ?thesis
      using Some assms(3,4)
      by (cases "t_Pending t") (simp_all add: applyControlCommandLocked_def get dispatchable_def)
  next
    case commandRestartRetry
    then show ?thesis
      using ok active Some assms(3,4)
      by (cases "t_Stopped t")
        (auto simp: applyControlCommandLocked_def get dispatchable_def thread_ok_iff restartedRetry_def
          window_defs)
  next
    case (commandOther x)
    then show ?thesis
      using Some assms(3,4) by (simp add: applyControlCommandLocked_def)
  qed
qed

theorem control_command_effect_witness:
  "dispatchable (applyControlCommandLocked
       \<lparr>cc_Version = 1, cc_Action = commandRestartRetry, cc_ThreadID = ''g'', cc_CreatedAt = 1\<rparr> 50 sample_daemon)
     50 (''g'', restartedRetry (sample_stopped\<lparr>s_Reason := goalEmptyResponseStopReason\<rparr>) shared_config 50)"
proof -
  let ?c = "\<lparr>cc_Version = 1, cc_Action = commandRestartRetry, cc_ThreadID = ''g'', cc_CreatedAt = 1\<rparr>"
  have "\<not> is_active sample_daemon ''g''" "d_config sample_daemon = shared_config"
    by (simp_all add: sample_daemon_def)
  moreover have "t_Stopped (get_thread sample_daemon ''g'') =
      Some (sample_stopped\<lparr>s_Reason := goalEmptyResponseStopReason\<rparr>)"
    by (simp add: sample_daemon_def get_thread_def goal_thread_def)
  ultimately show ?thesis
    using control_command_effect [of sample_daemon "''g''" ?c _ 50, OF _ _ _ refl] by simp
qed

subsection \<open>Goals\<close>



end
