(* ===== verification/Lifecycle_Properties.thy ===== *)
theory Lifecycle_Properties
  imports Samples
begin

section \<open>Probing acknowledged turns, and stopping a goal\<close>

text \<open>
  The two places where the daemon acts on what the app server reports about a turn it has
  already started: the lifecycle probe of an acknowledged retry, and the job that blocks a goal
  which only produced empty responses.
\<close>

lemma threads_success [simp]: "threads (recordControllerSuccessLocked d) = threads d"
  by (simp add: recordControllerSuccessLocked_def)

lemma get_thread_report [simp]:
  "get_thread (d\<lparr>d_controllerState := r\<rparr>) k = get_thread d k"
  "get_thread (d\<lparr>d_lastError := r\<rparr>) k = get_thread d k"
  "get_thread (writeStatusLocked ok d) k = get_thread d k"
  "get_thread (persistStateLocked ok d) k = get_thread d k"
  by (simp_all add: get_thread_def)

lemma config_success [simp]: "d_config (recordControllerSuccessLocked d) = d_config d"
  by (simp add: recordControllerSuccessLocked_def)

text \<open>What becomes of an acknowledged retry whose turn is known to have ended without an event.\<close>

definition advanced_to :: "Config \<Rightarrow> gotime \<Rightarrow> AwaitingRetry \<Rightarrow> bool \<Rightarrow> ThreadState \<Rightarrow> bool" where
  "advanced_to config now a progress t \<longleftrightarrow>
     t_Awaiting t = None \<and>
     (let next = (if progress then 1 else a_ConsecutiveRetry a + 1)
      in if a_Attempt a < a_MaxAttempts a \<and> next \<le> a_MaxConsecutive a
         then (\<exists>p. t_Pending t = Some p \<and> p_Attempt p = a_Attempt a + 1 \<and> p_ConsecutiveRetry p = next \<and>
                p_EventKey p = a_EventKey a \<and> p_DueAt p = now + spec_delay next config * Second)
         else t_Pending t = None \<and> t_RecoveryAttempts t = a_Attempt a \<and>
              (\<exists>s. t_Stopped t = Some s \<and> s_EventKey s = a_EventKey a \<and> s_Attempts s = a_Attempt a))"

lemma advance_effect:
  assumes "valid_config (d_config d)" and "t_Awaiting t = Some a"
    and "0 \<le> a_Attempt a" and "0 \<le> a_ConsecutiveRetry a"
  shows "advanced_to (d_config d) now a (t_CurrentTurnProgress t)
    (get_thread (advanceInactiveAwaitingLocked k t now d) k)"
proof (cases "a_Attempt a + 1 > a_MaxAttempts a \<or>
    (if t_CurrentTurnProgress t then 1 else a_ConsecutiveRetry a + 1) > a_MaxConsecutive a")
  case True
  then show ?thesis
    using assms unfolding advanceInactiveAwaitingLocked_def advanced_to_def Let_def option.case assms(2) if_P [OF True]
    by auto
next
  case False
  then show ?thesis
    using assms unfolding advanceInactiveAwaitingLocked_def advanced_to_def Let_def option.case assms(2) if_not_P [OF False]
    by (auto simp: retryDelay_spec pending_of_awaiting_def)
qed

text \<open>
  C9: an acknowledged retry is advanced only after the app server has twice reported its turn as
  not active with no report of activity in between. An active turn is never touched, and starts
  the count again; a first inactive report is only counted; a failed probe neither counts as a
  report nor resets the count, and only as many in a row as the configured limit stop the retry;
  a report about another turn than the one that is awaited is ignored.
\<close>

theorem lifecycle_needs_two_reports:
  assumes "valid_config (d_config d)" and "threads d (lc_threadID c) = Some t" and "t_Awaiting t = Some a"
    and "0 \<le> a_Attempt a" and "0 \<le> a_ConsecutiveRetry a"
    and "t' = get_thread (lifecycleApply now c report d) (lc_threadID c)"
  shows "if a_EventKey a \<noteq> lc_eventKey c \<or> a_RetryTurnID a \<noteq> lc_turnID c
    then lifecycleApply now c report d = d
    else case report of
      Inr status \<Rightarrow>
        if retryThreadIsActive status
        then t' = t\<lparr>t_Awaiting := Some (a\<lparr>a_DispatchFailures := 0, a_LifecycleChecks := 0\<rparr>)\<rparr>
        else if a_LifecycleChecks a = 0
        then t' = t\<lparr>t_Awaiting := Some (a\<lparr>a_DispatchFailures := 0, a_LifecycleChecks := 1\<rparr>)\<rparr>
        else a_LifecycleChecks a \<ge> 1 \<longrightarrow> advanced_to (d_config d) now a (t_CurrentTurnProgress t) t'
    | Inl err \<Rightarrow>
        let reason = controllerFailureReason zero_DispatchResult (Some err)
        in if controllerFailureNeedsAction reason \<or>
              a_DispatchFailures a + 1 \<ge> c_ControllerFailureLimit (d_config d)
           then t_Awaiting t' = None \<and> t_Pending t' = None \<and>
             (\<exists>s. t_Stopped t' = Some s \<and> s_Reason s = reason \<and> s_Attempts s = completedRetryCount (a_Attempt a))
           else t' = t\<lparr>t_Awaiting := Some (a\<lparr>a_DispatchFailures := a_DispatchFailures a + 1\<rparr>)\<rparr>"
proof (cases "a_EventKey a \<noteq> lc_eventKey c \<or> a_RetryTurnID a \<noteq> lc_turnID c")
  case True
  then show ?thesis using assms(2,3) by (simp add: lifecycleApply_def)
next
  case False
  show ?thesis
  proof (cases report)
    case (Inl err)
    then show ?thesis
      using False assms(2,3,6)
      by (simp add: lifecycleApply_def Let_def stopAwaitingForControllerLocked_def)
  next
    case (Inr status)
    let ?a = "a\<lparr>a_DispatchFailures := 0, a_LifecycleChecks := a_LifecycleChecks a + 1\<rparr>"
    have "advanced_to (d_config d) now ?a (t_CurrentTurnProgress t)
        (get_thread (advanceInactiveAwaitingLocked (lc_threadID c) (t\<lparr>t_Awaiting := Some ?a\<rparr>) now
          (recordControllerSuccessLocked d)) (lc_threadID c))"
      using advance_effect [of "recordControllerSuccessLocked d" "t\<lparr>t_Awaiting := Some ?a\<rparr>" ?a]
        assms(1,4,5) by simp
    moreover have "advanced_to (d_config d) now ?a b u = advanced_to (d_config d) now a b u" for b u
      by (simp add: advanced_to_def)
    ultimately show ?thesis
      using Inr False assms(2,3,6)
      by (simp add: lifecycleApply_def Let_def awaitingLifecycleConfirmations_def)
  qed
qed

definition sample_candidate :: awaitingLifecycleCandidate where
  "sample_candidate = \<lparr>lc_threadID = ''a'', lc_eventKey = ''key'', lc_turnID = ''retry'', lc_codexHome = ''home''\<rparr>"

theorem lifecycle_needs_two_reports_witness:
  "\<exists>a. get_thread (lifecycleApply 60 sample_candidate (Inr ''idle'') (daemon_with [''a'' \<mapsto> acknowledged_thread])) ''a'' =
     acknowledged_thread\<lparr>t_Awaiting := Some (a\<lparr>a_DispatchFailures := 0, a_LifecycleChecks := 1\<rparr>)\<rparr>"
proof -
  let ?d = "daemon_with [''a'' \<mapsto> acknowledged_thread]" and ?a = "the (t_Awaiting acknowledged_thread)"
  have a: "t_Awaiting acknowledged_thread = Some ?a" "0 \<le> a_Attempt ?a" "0 \<le> a_ConsecutiveRetry ?a"
    "a_EventKey ?a = ''key''" "a_RetryTurnID ?a = ''retry''" "a_LifecycleChecks ?a = 0"
    "\<not> retryThreadIsActive ''idle''"
    by code_simp+
  from lifecycle_needs_two_reports [of ?d sample_candidate acknowledged_thread ?a _ 60 "Inr ''idle''", OF _ _ a(1-3) refl]
  show ?thesis using a(4-) by (auto simp: sample_candidate_def)
qed

subsection \<open>The job that stops a goal\<close>

lemma reschedule_goal_effect:
  assumes "valid_config (d_config d)" and "t_GoalStop t = Some g" and "1 \<le> g_DispatchFailures g + 1"
    and "rescheduleGoalBlockLocked t now reason d = (t', d')"
  shows "threads d' = threads d \<and>
    (if controllerFailureNeedsAction reason \<or> c_ControllerFailureLimit (d_config d) \<le> g_DispatchFailures g + 1
     then t_GoalStop t' = None \<and> t_GoalHeld t' \<and>
       t_Stopped t' = map_option (\<lambda>s. s\<lparr>s_Reason := if controllerFailureNeedsAction reason then reason
         else goalEmptyResponseBlockFailReason\<rparr>) (t_Stopped t)
     else t' = t\<lparr>t_GoalStop := Some (g\<lparr>g_DispatchFailures := g_DispatchFailures g + 1,
       g_DueAt := now + spec_delay (g_DispatchFailures g + 1) (d_config d) * Second\<rparr>)\<rparr>)"
  using assms by (auto simp: rescheduleGoalBlockLocked_def retryDelay_spec Let_def)

lemma finish_goal_thread:
  assumes "goal_stop_current job (get_thread d (j_ThreadID job))"
  shows "get_thread (goalBlockFinish job result err fin so wo d) (j_ThreadID job) =
    (let d = drop_ctx (j_ThreadID job) (drop_active (j_ThreadID job) d);
         t = get_thread d (j_ThreadID job)
     in fst (if err \<noteq> None \<or> d_Outcome result = outcomeRetryLater \<or> d_Outcome result = outcomeUserActive
        then rescheduleGoalBlockLocked t fin (controllerFailureReason result err)
               (d\<lparr>d_controllerState := controllerFailureReason result err\<rparr>)
        else if d_Outcome result = outcomeDispatched \<and> d_Action result = actionGoalBlock
        then ((set_stopped_reason goalEmptyResponseStopReason t)
                \<lparr>t_GoalStop := None, t_GoalStatus := blocked_goal_status (d_Reason result),
                 t_GoalObservedAt := fin, t_GoalHeld := True\<rparr>, d)
        else rescheduleGoalBlockLocked t fin ''controller_invalid_result'' d))"
proof -
  have "get_thread (drop_ctx k (drop_active k d)) k = get_thread d k" for k
    by (simp add: get_thread_def)
  then show ?thesis
    using assms by (simp add: goalBlockFinish_def Let_def case_prod_unfold)
qed



end
