(* ===== verification/Control.thy ===== *)
theory Control
  imports Retry_State State_Store
begin

section \<open>The control file and the command queue (control.go)\<close>

text \<open>
  Reading and writing \<open>control.json\<close>, validation of a command, and the load of the command
  directory. The decoded JSON of a file and the outcome of a write are arguments. The
  directory is a list of entries; \<open>sort.Slice\<close> by name has no ties, since names are unique.
\<close>

definition currentControlVersion :: int where
  "currentControlVersion = 1"

record ControlState =
  cs_Version :: int
  cs_Paused :: bool
  cs_UpdatedAt :: gotime

definition defaultControlState :: ControlState where
  "defaultControlState = \<lparr>cs_Version = currentControlVersion, cs_Paused = False, cs_UpdatedAt = 0\<rparr>"

datatype 'a json_file = JsonMissing | JsonUnreadable | JsonContent "'a option"

datatype control_error =
    controlReadFailed
  | controlWriteFailed
  | controlParseFailed
  | controlVersionMismatch

text \<open>The state read, and the state that was written when the file was missing.\<close>

definition loadOrCreateControlState ::
    "ControlState json_file \<Rightarrow> bool \<Rightarrow> control_error + ControlState \<times> ControlState option" where
  "loadOrCreateControlState file write_ok =
     (case file of
        JsonMissing \<Rightarrow>
          if write_ok then Inr (defaultControlState, Some defaultControlState)
          else Inl controlWriteFailed
      | JsonUnreadable \<Rightarrow> Inl controlReadFailed
      | JsonContent None \<Rightarrow> Inl controlParseFailed
      | JsonContent (Some st) \<Rightarrow>
          if cs_Version st \<noteq> currentControlVersion then Inl controlVersionMismatch else Inr (st, None))"

definition saveControlState :: "bool \<Rightarrow> gotime \<Rightarrow> bool \<Rightarrow> control_error + ControlState" where
  "saveControlState paused now write_ok =
     (if write_ok
      then Inr \<lparr>cs_Version = currentControlVersion, cs_Paused = paused, cs_UpdatedAt = now\<rparr>
      else Inl controlWriteFailed)"

datatype command_fault =
    commandVersion
  | commandUnsupported
  | commandThread
  | commandTimestamp

definition validateCommand :: "ControlCommand \<Rightarrow> command_fault option" where
  "validateCommand c =
     (if cc_Version c \<noteq> currentControlVersion then Some commandVersion
      else if cc_Action c \<notin> {commandRetryNow, commandCancelRetry, commandRestartRetry}
        then Some commandUnsupported
      else if threadIDFromPath (cc_ThreadID c @ ''.jsonl'') \<noteq> to_lower (cc_ThreadID c)
        then Some commandThread
      else if is_zero (cc_CreatedAt c) then Some commandTimestamp
      else None)"

text \<open>\<open>queueControlCommand\<close>; \<open>io\<close> is whether the directory, the random name and the write succeed.\<close>

definition queueControlCommand ::
    "ControlCommandAction \<Rightarrow> string \<Rightarrow> gotime \<Rightarrow> bool \<Rightarrow> command_fault option + ControlCommand" where
  "queueControlCommand action threadID now io =
     (let command = \<lparr>cc_Version = currentControlVersion, cc_Action = action,
            cc_ThreadID = to_lower (trim_space threadID), cc_CreatedAt = now\<rparr>
      in case validateCommand command of
           Some fault \<Rightarrow> Inl (Some fault)
         | None \<Rightarrow> if io then Inr command else Inl None)"

record dir_entry =
  de_Name :: string
  de_IsDir :: bool
  de_Data :: "ControlCommand json_file"

definition has_json_suffix :: "string \<Rightarrow> bool" where
  "has_json_suffix name \<longleftrightarrow> suffix ''.json'' (to_lower name)"

text \<open>
  The loop over the sorted entries: the commands, the names of the invalid files, and whether
  every file could be read; the loop ends at the first that could not.
\<close>

fun loadEntries :: "dir_entry list \<Rightarrow> (string \<times> ControlCommand) list \<times> string list \<times> bool" where
  "loadEntries [] = ([], [], True)"
| "loadEntries (entry # entries) =
     (if de_IsDir entry \<or> \<not> has_json_suffix (de_Name entry) then loadEntries entries
      else case de_Data entry of
          JsonMissing \<Rightarrow> ([], [], False)
        | JsonUnreadable \<Rightarrow> ([], [], False)
        | JsonContent content \<Rightarrow>
            (case loadEntries entries of (commands, invalid, ok) \<Rightarrow>
               (case content of
                  None \<Rightarrow> (commands, de_Name entry # invalid, ok)
                | Some command \<Rightarrow>
                    if validateCommand command \<noteq> None then (commands, de_Name entry # invalid, ok)
                    else ((de_Name entry, command) # commands, invalid, ok))))"

definition loadControlCommandFiles ::
    "dir_entry list option \<Rightarrow> (string \<times> ControlCommand) list \<times> string list \<times> bool" where
  "loadControlCommandFiles dir =
     (case dir of None \<Rightarrow> ([], [], True) | Some entries \<Rightarrow> loadEntries (sort_key de_Name entries))"

subsection \<open>Properties\<close>

text \<open>A valid command names a UUID or, since \<open>threadIDFromPath\<close> answers "" for no match, nothing.\<close>

lemma validateCommand_uuid:
  assumes "validateCommand c = None"
  shows "cc_ThreadID c = [] \<or> is_uuid (to_lower (cc_ThreadID c))"
proof (cases "cc_ThreadID c = []")
  case False
  have id: "threadIDFromPath (cc_ThreadID c @ ''.jsonl'') = to_lower (cc_ThreadID c)"
    using assms by (auto simp: validateCommand_def split: if_splits)
  moreover have "to_lower (cc_ThreadID c) \<noteq> []" using False by (simp add: to_lower_def)
  ultimately show ?thesis using threadID_uuid by metis
qed simp

lemma loadEntries_valid:
  "(name, c) \<in> set (fst (loadEntries es)) \<Longrightarrow>
   validateCommand c = None \<and>
   (\<exists>e\<in>set es. de_Name e = name \<and> \<not> de_IsDir e \<and> de_Data e = JsonContent (Some c))"
  by (induction es) (auto split: if_splits json_file.splits prod.splits option.splits)

lemma loadEntries_sorted:
  "sorted (map de_Name es) \<Longrightarrow> sorted (map fst (fst (loadEntries es)))"
proof (induction es)
  case (Cons e es)
  have "de_Name e \<le> n" if "(n, c) \<in> set (fst (loadEntries es))" for n c
    using loadEntries_valid [OF that] Cons.prems by auto
  with Cons show ?case
    by (auto split: json_file.splits prod.splits option.splits if_splits)
qed simp

end
