(* ===== verification/Input_Properties.thy ===== *)
theory Input_Properties
  imports Classifier Events Thread_Id Thread_Rules Control
begin

section \<open>What the daemon reads\<close>

text \<open>
  Properties of the readers: the failure classifier and the limits that follow from its classes,
  thread identifiers from file names, the keys of events, and the control commands.
\<close>

subsection \<open>The classifier\<close>

lemma is_space_lower [simp]: "is_space (lower_char c) = is_space c"
  by (auto simp: is_space_def lower_char_def byte_char_of)

lemma dropWhile_map_lower: "dropWhile is_space (map lower_char s) = map lower_char (dropWhile is_space s)"
  by (induction s) auto

lemma trim_to_lower: "trim_space (to_lower s) = to_lower (trim_space s)"
  by (simp add: trim_space_def to_lower_def dropWhile_map_lower rev_map)

lemma dropWhile_all_append: "list_all P xs \<Longrightarrow> dropWhile P (xs @ ys) = dropWhile P ys"
  by (induction xs) auto

lemma trim_append:
  assumes "list_all is_space a" and "list_all is_space b"
  shows "trim_space (a @ s @ b) = trim_space s"
proof -
  have front: "dropWhile is_space (a @ s @ b) = dropWhile is_space (s @ b)"
    using assms(1) by (rule dropWhile_all_append)
  show ?thesis
  proof (cases "list_all is_space s")
    case True
    then have "dropWhile is_space (s @ b) = []" "dropWhile is_space s = []"
      using assms(2) by (simp_all add: list_all_iff)
    then show ?thesis unfolding trim_space_def front by (simp only:)
  next
    case False
    then have "dropWhile is_space (s @ b) = dropWhile is_space s @ b"
      by (induction s) auto
    then show ?thesis
      using assms(2) by (simp add: trim_space_def front dropWhile_all_append)
  qed
qed

lemma classify_status_table:
  "(extractStatus s \<in> {400, 404, 405, 409, 410, 413, 415, 422} \<longleftrightarrow> \<not> r_Retry (classify_status s cfg)) \<and>
   (extractStatus s = 429 \<longrightarrow> r_Class (classify_status s cfg) = classRateLimit) \<and>
   (500 \<le> extractStatus s \<longrightarrow> extractStatus s \<le> 599 \<longrightarrow> r_Class (classify_status s cfg) = classServer)"
  unfolding classify_status_def Let_def by (intro conjI impI) (auto split: if_split)



lemma status_digits_range: "status_digits s = Some n \<Longrightarrow> 100 \<le> n \<and> n \<le> 599"
  by (auto simp: status_digits_def Let_def digit_value_def is_digit_def split: if_splits list.splits)

lemma first_status_range: "first_status ks s = Some n \<Longrightarrow> 100 \<le> n \<and> n \<le> 599"
  by (induction ks) (auto simp: status_after_def status_digits_range split: if_splits option.splits)

text \<open>
  A status that the classifier finds in a text is a three-digit HTTP status, and a text
  without a key word for one has none.
\<close>

theorem status_range:
  "extractStatus msg = 0 \<or> (100 \<le> extractStatus msg \<and> extractStatus msg \<le> 599 \<and>
     (\<exists>k\<in>set status_keywords. contains_sub msg k))"
proof (induction msg)
  case (Cons c cs)
  show ?case
  proof (cases "first_status status_keywords (c # cs)")
    case None
    with Cons show ?thesis by auto
  next
    case (Some n)
    then have "\<exists>k\<in>set status_keywords. prefix k (c # cs)"
      by (auto simp: status_keywords_def status_after_def split: if_splits option.splits)
    with first_status_range [OF Some] Some show ?thesis by auto
  qed
qed simp

text \<open>
  The limits that the daemon gives a failure when it schedules it are the ones it gives the
  failure's class when it reloads or restarts it, they never exceed the configured limits, and
  in a valid configuration every retried failure is allowed at least one attempt.
\<close>

theorem limits_agree:
  assumes "valid_config cfg" and "dec = classifyCompletionFailure event cfg"
  shows "retryLimitsForDecision dec cfg = retryLimits (r_Class dec) cfg \<and>
    1 \<le> fst (retryLimits (r_Class dec) cfg) \<and> fst (retryLimits (r_Class dec) cfg) \<le> c_MaxRecoveryAttempts cfg \<and>
    1 \<le> snd (retryLimits (r_Class dec) cfg) \<and> snd (retryLimits (r_Class dec) cfg) \<le> c_MaxConsecutiveRetries cfg"
proof -
  have "r_MaxConsecutive dec = 0 \<and> r_MaxAttempts dec =
      (case r_Class dec of classAuthLimited \<Rightarrow> c_AuthMaxAttempts cfg
       | classUnknown \<Rightarrow> c_UnknownMaxAttempts cfg | _ \<Rightarrow> 0)"
    by (simp add: assms(2) classifyCompletionFailure_def classifyFailure_def classify_status_def Let_def)
  then have agree: "retryLimits (r_Class dec) cfg = retryLimitsForDecision dec cfg"
    by (intro retryLimits_classified) auto
  have "1 \<le> c_MaxRecoveryAttempts cfg" "1 \<le> c_MaxConsecutiveRetries cfg"
    using assms(1) by (auto simp: validate_def split: if_splits)
  then show ?thesis by (simp add: agree retryLimits_le retryLimits_pos)
qed

theorem limits_agree_witness:
  "retryLimits (r_Class (classifyCompletionFailure
     (zero_RelevantEvent\<lparr>e_ErrorText := ''HTTP 401 token expired''\<rparr>) defaultConfig)) defaultConfig = (6, 5)"
proof -
  let ?e = "zero_RelevantEvent\<lparr>e_ErrorText := ''HTTP 401 token expired''\<rparr>"
  have "retryLimitsForDecision (classifyCompletionFailure ?e defaultConfig) defaultConfig = (6, 5)"
    by code_simp
  with limits_agree [OF default_config_valid refl, of ?e] show ?thesis by simp
qed

subsection \<open>Thread identifiers\<close>

text \<open>
  The identifiers come back out of the file names Codex builds from them: from
  \<open><prefix><thread>.jsonl\<close> the thread, and from \<open><prefix><thread>_<turn>.jsonl\<close> the thread (not the
  turn) and the turn, in lower case, in whatever directory the file lies.
\<close>

theorem thread_path_roundtrip:
  assumes "is_uuid t" and "is_uuid u" and "is_sep sep" and "dir \<noteq> []"
    and "length pre < 37" and "\<forall>c\<in>set pre. \<not> is_sep c"
  shows "threadIDFromPath (dir @ sep # pre @ t @ ''.jsonl'') = to_lower t \<and>
    threadIDFromPath (dir @ sep # pre @ t @ CHR ''_'' # u @ ''.jsonl'') = to_lower t \<and>
    rolloutIDsFromPath (dir @ sep # pre @ t @ CHR ''_'' # u @ ''.jsonl'') = (to_lower t, to_lower u)"
  using thread_of_rollout [OF assms(1,3-6)] thread_of_turn_rollout [OF assms] by simp

theorem thread_path_roundtrip_witness:
  "rolloutIDsFromPath (''C:/s'' @ CHR ''/'' # ''rollout-'' @ ''0123abcd-0000-4000-8000-0123456789ab'' @
      CHR ''_'' # ''11111111-2222-3333-4444-555555555555'' @ ''.jsonl'') =
   (''0123abcd-0000-4000-8000-0123456789ab'', ''11111111-2222-3333-4444-555555555555'')"
proof -
  have "is_uuid ''0123abcd-0000-4000-8000-0123456789ab''" "is_uuid ''11111111-2222-3333-4444-555555555555''"
    by (simp_all add: is_uuid_def uuid_dashes_def hex_ci_def is_hex_def is_digit_def lower_char_def byte_def upt_rec)
  moreover have "is_sep CHR ''/''" "\<forall>c\<in>set ''rollout-''. \<not> is_sep c"
    by (simp_all add: is_sep_def byte_def)
  ultimately have "rolloutIDsFromPath (''C:/s'' @ CHR ''/'' # ''rollout-'' @ ''0123abcd-0000-4000-8000-0123456789ab'' @
      CHR ''_'' # ''11111111-2222-3333-4444-555555555555'' @ ''.jsonl'') =
    (to_lower ''0123abcd-0000-4000-8000-0123456789ab'', to_lower ''11111111-2222-3333-4444-555555555555'')"
    using thread_path_roundtrip [of "''0123abcd-0000-4000-8000-0123456789ab''"
        "''11111111-2222-3333-4444-555555555555''" "CHR ''/''" "''C:/s''" "''rollout-''"] by simp
  then show ?thesis by (simp add: to_lower_def lower_char_def byte_def)
qed

subsection \<open>Keys\<close>

text \<open>
  The key of an event tells events apart: two events with the same key belong to the same
  thread, are of the same kind and turn, and agree in the text of their time stamp and in the
  digest of everything else the daemon reads from them. The identifier of a recovery always has
  the shape that a notice about it must have.
\<close>

theorem event_key_separates:
  assumes "CHR ''|'' \<notin> set (t @ e_Kind e @ e_TurnID e)" and "CHR ''|'' \<notin> set (t' @ e_Kind e' @ e_TurnID e')"
    and "\<And>at. CHR ''|'' \<notin> set (rfc3339 lib at)" and "\<And>m. length (sha256 lib m) = 32"
    and "eventKey lib t e = eventKey lib t' e'"
  shows "t = t' \<and> e_Kind e = e_Kind e' \<and> e_TurnID e = e_TurnID e' \<and>
    rfc3339 lib (e_Timestamp e) = rfc3339 lib (e_Timestamp e') \<and> eventDigest lib e = eventDigest lib e' \<and>
    recovery_event_id (recoveryEventID lib t (eventKey lib t e))"
proof -
  have "t = t' \<and> e_Kind e @ CHR ''|'' # e_TurnID e @ CHR ''|'' # rfc3339 lib (e_Timestamp e) @
      CHR ''|'' # eventDigest lib e = e_Kind e' @ CHR ''|'' # e_TurnID e' @ CHR ''|'' #
      rfc3339 lib (e_Timestamp e') @ CHR ''|'' # eventDigest lib e'"
    using assms by (intro bar_split) (auto simp: eventKey_unfold)
  moreover from this have "e_Kind e = e_Kind e' \<and> e_TurnID e @ CHR ''|'' # rfc3339 lib (e_Timestamp e) @
      CHR ''|'' # eventDigest lib e = e_TurnID e' @ CHR ''|'' #
      rfc3339 lib (e_Timestamp e') @ CHR ''|'' # eventDigest lib e'"
    using assms by (intro bar_split) auto
  moreover from this have "e_TurnID e = e_TurnID e' \<and> rfc3339 lib (e_Timestamp e) @
      CHR ''|'' # eventDigest lib e = rfc3339 lib (e_Timestamp e') @ CHR ''|'' # eventDigest lib e'"
    using assms by (intro bar_split) auto
  moreover from this have "rfc3339 lib (e_Timestamp e) = rfc3339 lib (e_Timestamp e') \<and>
      eventDigest lib e = eventDigest lib e'"
    using assms by (intro bar_split) auto
  moreover have "recovery_event_id (recoveryEventID lib t (eventKey lib t e))"
    by (rule recoveryEventID_shape) (simp add: assms(4))
  ultimately show ?thesis by blast
qed

theorem event_key_separates_witness:
  "recovery_event_id (recoveryEventID \<lparr>sha256 = \<lambda>s. replicate 32 (of_nat (length s)), rfc3339 = \<lambda>t. ''t''\<rparr> ''a''
     (eventKey \<lparr>sha256 = \<lambda>s. replicate 32 (of_nat (length s)), rfc3339 = \<lambda>t. ''t''\<rparr> ''a'' zero_RelevantEvent))"
  using event_key_separates [of "''a''" zero_RelevantEvent "''a''" zero_RelevantEvent
      "\<lparr>sha256 = \<lambda>s. replicate 32 (of_nat (length s)), rfc3339 = \<lambda>t. ''t''\<rparr>"]
  by (simp add: zero_RelevantEvent_def)

subsection \<open>Control commands\<close>

definition readable :: "dir_entry \<Rightarrow> bool" where
  "readable e \<longleftrightarrow> (\<exists>x. de_Data e = JsonContent x)"

definition command_entry :: "string \<Rightarrow> ControlCommand \<Rightarrow> dir_entry" where
  "command_entry name c = \<lparr>de_Name = name, de_IsDir = False, de_Data = JsonContent (Some c)\<rparr>"

lemma loadEntries_complete:
  assumes "\<forall>e\<in>set es. readable e" and "command_entry name c \<in> set es"
    and "has_json_suffix name" and "validateCommand c = None"
  shows "(name, c) \<in> set (fst (loadEntries es))"
  using assms
  by (induction es) (auto simp: readable_def command_entry_def split: prod.splits option.splits)

text \<open>
  What the panel queues, the daemon reads. A command that was accepted for the queue carries
  the thread in lower case and no white space; if it lies in a directory whose files can all be
  read, the daemon loads it; and everything the daemon loads is a valid command, in the order of
  the file names, that names a UUID or (the one gap in the check) the empty thread.
\<close>

theorem command_queue_roundtrip:
  assumes "queueControlCommand action threadID now True = Inr c" and "has_json_suffix name"
    and "\<forall>e\<in>set es. readable e" and "command_entry name c \<in> set es"
    and "loaded = fst (loadControlCommandFiles (Some es))"
  shows "(name, c) \<in> set loaded \<and> cc_Action c = action \<and>
    cc_ThreadID c = to_lower (trim_space threadID) \<and> sorted (map fst loaded) \<and>
    (\<forall>(n, x)\<in>set loaded. validateCommand x = None \<and> (cc_ThreadID x = [] \<or> is_uuid (to_lower (cc_ThreadID x))))"
proof -
  have c: "validateCommand c = None" "cc_Action c = action" "cc_ThreadID c = to_lower (trim_space threadID)"
    using assms(1) by (auto simp: queueControlCommand_def Let_def split: option.splits)
  have loaded: "loaded = fst (loadEntries (sort_key de_Name es))"
    using assms(5) by (simp add: loadControlCommandFiles_def)
  have "(name, c) \<in> set loaded"
    unfolding loaded using assms(2-4) c(1) by (intro loadEntries_complete) simp_all
  moreover have "sorted (map fst loaded)"
    unfolding loaded by (rule loadEntries_sorted) simp
  moreover have "validateCommand x = None" if "(n, x) \<in> set loaded" for n x
    using loadEntries_valid that unfolding loaded by blast
  ultimately show ?thesis using c validateCommand_uuid by auto
qed

theorem command_queue_roundtrip_witness:
  "let c = \<lparr>cc_Version = 1, cc_Action = commandRetryNow, cc_ThreadID = [], cc_CreatedAt = 7\<rparr>
   in (''b.json'', c) \<in> set (fst (loadControlCommandFiles (Some [command_entry ''b.json'' c])))"
proof -
  let ?c = "\<lparr>cc_Version = 1, cc_Action = commandRetryNow, cc_ThreadID = [], cc_CreatedAt = 7\<rparr>"
  have "queueControlCommand commandRetryNow '' '' 7 True = Inr ?c" "has_json_suffix ''b.json''"
    by code_simp+
  from command_queue_roundtrip [OF this, of "[command_entry ''b.json'' ?c]"]
  show ?thesis by (simp add: Let_def readable_def command_entry_def)
qed

text \<open>The gap: \<open>threadIDFromPath\<close> answers "" for a name without an identifier, which is the empty one.\<close>

lemma empty_thread_accepted:
  "validateCommand \<lparr>cc_Version = 1, cc_Action = commandRetryNow, cc_ThreadID = [], cc_CreatedAt = 7\<rparr> = None"
  by code_simp

end
