(* ===== verification/Store_Properties.thy ===== *)
theory Store_Properties
  imports State_Store
begin

section \<open>What the state file keeps\<close>

text \<open>
  Properties of the runtime state: loading repairs every record, the migration of thread ids
  loses no live retry, and the bounds on the file's size remove only what may go.
\<close>

subsection \<open>Loading\<close>

text \<open>What every loaded thread record satisfies.\<close>

definition normalized :: "ThreadState \<Rightarrow> bool" where
  "normalized t \<longleftrightarrow>
     t_LegacyFailures t = 0 \<and>
     (\<forall>p. t_Pending t = Some p \<longrightarrow> 1 \<le> p_Attempt p \<and> 1 \<le> p_ConsecutiveRetry p \<and>
        (p_FailedAt p = 0 \<longrightarrow> t_LastFailureAt t = 0)) \<and>
     (\<forall>a. t_Awaiting t = Some a \<longrightarrow>
        (1 \<le> a_Attempt a \<longrightarrow> 1 \<le> a_ConsecutiveRetry a) \<and>
        (a_FailedAt a = 0 \<longrightarrow> t_LastFailureAt t = 0)) \<and>
     (\<forall>g. t_GoalStop t = Some g \<longrightarrow> (\<exists>s. t_Stopped t = Some s \<and> s_EventKey s = g_EventKey g))"

lemma normalizePending_simps:
  "1 \<le> p_Attempt (normalizePending m n at p)" "1 \<le> p_ConsecutiveRetry (normalizePending m n at p)"
  "p_FailedAt (normalizePending m n at p) = 0 \<Longrightarrow> at = 0"
  "p_MaxConsecutive (normalizePending m n at p) < 1 \<Longrightarrow>
     p_MaxConsecutive (normalizePending m n at p) = p_MaxAttempts (normalizePending m n at p)"
  unfolding normalizePending_def Let_def
  by (cases "p_Attempt p < 1"; cases "p_ConsecutiveRetry p < 1"; cases "p_MaxConsecutive p < 1";
      cases "p_FailedAt p = 0"; simp split: if_splits)+

lemma normalizePending_fixed:
  assumes "1 \<le> p_Attempt p" "1 \<le> p_ConsecutiveRetry p" "p_FailedAt p = 0 \<Longrightarrow> at = 0"
    "p_MaxConsecutive p < 1 \<Longrightarrow> p_MaxConsecutive p = p_MaxAttempts p"
  shows "normalizePending m n at p = p"
  using assms by (cases "p_MaxConsecutive p < 1"; cases "p_FailedAt p = 0") (simp_all add: normalizePending_def)

lemma normalizeAwaiting_simps:
  "1 \<le> a_Attempt (normalizeAwaiting n at a) \<Longrightarrow> 1 \<le> a_ConsecutiveRetry (normalizeAwaiting n at a)"
  "a_FailedAt (normalizeAwaiting n at a) = 0 \<Longrightarrow> at = 0"
  "a_MaxConsecutive (normalizeAwaiting n at a) < 1 \<Longrightarrow>
     a_MaxConsecutive (normalizeAwaiting n at a) = a_MaxAttempts (normalizeAwaiting n at a)"
  "a_ConsecutiveRetry (normalizeAwaiting n at a) < 1 \<Longrightarrow> n < 1 \<and>
     a_ConsecutiveRetry (normalizeAwaiting n at a) = a_Attempt (normalizeAwaiting n at a)"
  unfolding normalizeAwaiting_def Let_def
  by (cases "a_ConsecutiveRetry a < 1"; cases "a_MaxConsecutive a < 1"; cases "a_FailedAt a = 0";
      simp split: if_splits)+

lemma normalizeAwaiting_fixed:
  assumes "a_FailedAt a = 0 \<Longrightarrow> at = 0" "a_MaxConsecutive a < 1 \<Longrightarrow> a_MaxConsecutive a = a_MaxAttempts a"
    "a_ConsecutiveRetry a < 1 \<Longrightarrow> n < 1 \<and> a_ConsecutiveRetry a = a_Attempt a"
  shows "normalizeAwaiting n at a = a"
  using assms
  by (cases "a_MaxConsecutive a < 1"; cases "a_FailedAt a = 0"; cases "a_ConsecutiveRetry a < 1")
    (simp_all add: normalizeAwaiting_def)

lemma normalizeStopped_simps [simp]:
  "s_EventKey (normalizeStopped s) = s_EventKey s"
  "normalizeStopped (normalizeStopped s) = normalizeStopped s"
  by (cases "s_ConsecutiveRetries s < 1"; cases "s_MaxConsecutive s < 1"; cases "s_Attempts s < 1";
      cases "s_MaxAttempts s < 1"; simp add: normalizeStopped_def)+

lemma normalize_record_idem [simp]:
  "normalizePending m n at (normalizePending m n at p) = normalizePending m n at p"
  "normalizeAwaiting n at (normalizeAwaiting n at a) = normalizeAwaiting n at a"
  by (rule normalizePending_fixed; (rule normalizePending_simps(1,2) | erule normalizePending_simps))
    (rule normalizeAwaiting_fixed; erule normalizeAwaiting_simps)

lemma normalizeThread_fields:
  obtains m n where
    "t_Pending (normalizeThread t) = map_option (normalizePending m n (t_LastFailureAt t)) (t_Pending t)"
    "t_Awaiting (normalizeThread t) = map_option (normalizeAwaiting n (t_LastFailureAt t)) (t_Awaiting t)"
  by (simp add: normalizeThread_def Let_def)

lemma normalizeThread_simps [simp]:
  "t_LegacyFailures (normalizeThread t) = 0" "t_LastFailureAt (normalizeThread t) = t_LastFailureAt t"
  by (simp_all add: normalizeThread_def Let_def)

lemma normalizeThread_goal:
  "t_GoalStop (normalizeThread t) = Some g \<Longrightarrow>
   \<exists>s. t_Stopped (normalizeThread t) = Some s \<and> s_EventKey s = g_EventKey g"
  by (cases "t_GoalStop t"; cases "t_Stopped t") (simp_all add: normalizeThread_def Let_def split: if_splits)

lemma normalizeThread_normalized: "normalized (normalizeThread t)"
proof -
  obtain m n where f:
    "t_Pending (normalizeThread t) = map_option (normalizePending m n (t_LastFailureAt t)) (t_Pending t)"
    "t_Awaiting (normalizeThread t) = map_option (normalizeAwaiting n (t_LastFailureAt t)) (t_Awaiting t)"
    by (rule normalizeThread_fields)
  have "1 \<le> p_Attempt p \<and> 1 \<le> p_ConsecutiveRetry p \<and> (p_FailedAt p = 0 \<longrightarrow> t_LastFailureAt t = 0)"
    if "t_Pending (normalizeThread t) = Some p" for p
    using that normalizePending_simps(1-3) unfolding f(1) by (cases "t_Pending t") auto
  moreover have "(1 \<le> a_Attempt a \<longrightarrow> 1 \<le> a_ConsecutiveRetry a) \<and> (a_FailedAt a = 0 \<longrightarrow> t_LastFailureAt t = 0)"
    if "t_Awaiting (normalizeThread t) = Some a" for a
    using that normalizeAwaiting_simps(1,2) unfolding f(2) by (cases "t_Awaiting t") auto
  ultimately show ?thesis by (simp add: normalized_def normalizeThread_goal)
qed

lemma normalizeThread_idem [simp]: "normalizeThread (normalizeThread t) = normalizeThread t"
proof -
  have "map_option f (map_option f x) = map_option f x" if "\<And>y. f (f y) = f y" for f :: "'x \<Rightarrow> 'x" and x
    by (cases x) (simp_all add: that)
  then show ?thesis
    unfolding normalizeThread_def Let_def
    by (simp add: option.map_comp comp_def split: option.split)
qed

interpretation normalize_loop: keyed_loop "\<lambda>m. m" "\<lambda>_. ()" normalize_thread_step
  "\<lambda>_ _ v. map_option normalizeThread v"
  by unfold_locales (auto simp: normalize_thread_step_def split: option.split)



subsection \<open>Bounds\<close>

text \<open>
  What a trim to \<open>limit\<close> entries leaves of \<open>m\<close>: nothing new, exactly the smaller of both sizes,
  and of two entries of which one went and one stayed the one that went was not the newer.
\<close>

definition keeps_newest :: "('v \<Rightarrow> gotime) \<Rightarrow> nat \<Rightarrow> (string \<rightharpoonup> 'v) \<Rightarrow> (string \<rightharpoonup> 'v) \<Rightarrow> bool" where
  "keeps_newest at limit m m' \<longleftrightarrow>
     m' \<subseteq>\<^sub>m m \<and> card (dom m') = min limit (card (dom m)) \<and>
     (\<forall>k k' v v'. m k = Some v \<and> m' k = None \<and> m' k' = Some v' \<longrightarrow> at v \<le> at v')"

lemma drop_oldest_newest:
  assumes "range_order m ks" and "limit < card (dom m)"
  shows "keeps_newest at limit m (drop_oldest at (card (dom m) - limit) ks m)"
proof -
  let ?m = "drop_oldest at (card (dom m) - limit) ks m"
  have ks: "distinct ks" "set ks = dom m" using assms(1) by (auto simp: range_order_def)
  have "card (dom ?m) = card (dom m) - (card (dom m) - limit)"
    using drop_oldest_card [of ks m "card (dom m) - limit" at] ks(1) range_order_finite [OF assms(1)]
      entries_of_length [OF assms(1), of at] by simp
  moreover have "at v \<le> at v'" if "m k = Some v" "?m k = None" "?m k' = Some v'" for k k' v v'
  proof -
    have "m k' = Some v'" using that(3) by (simp add: drop_oldest_def split: if_splits)
    moreover have "k \<in> dom m" "k' \<in> dom m" using that(1) calculation by auto
    ultimately show ?thesis
      using drop_oldest_order [OF ks(1) _ _ that(1) _ that(2), of k' v'] that(3) ks(2) by auto
  qed
  ultimately show ?thesis
    using drop_oldest_le assms(2) by (auto simp: keeps_newest_def)
qed

lemma keeps_newest_refl: "card (dom m) \<le> limit \<Longrightarrow> keeps_newest at limit m m"
  by (auto simp: keeps_newest_def)

lemma trim_newest:
  assumes "range_order m ks" and "0 \<le> limit"
  shows "keeps_newest at (nat limit) m
    (if int (card (dom m)) \<le> limit then m else drop_oldest at (nat (int (card (dom m)) - limit)) ks m)"
proof (cases "int (card (dom m)) \<le> limit")
  case True
  then show ?thesis by (simp add: keeps_newest_refl nat_le_iff le_nat_iff)
next
  case False
  then have "nat (int (card (dom m)) - limit) = card (dom m) - nat limit" "nat limit < card (dom m)"
    using assms(2) by (simp_all add: nat_diff_distrib)
  with False drop_oldest_newest [OF assms(1), of "nat limit" at] show ?thesis by simp
qed

text \<open>
  The processed events and the file cursors are bounded: a trim removes entries only above
  its limit, exactly as many as needed, and always the oldest.
\<close>

theorem trims_keep_newest:
  assumes "range_order events ks" and "range_order files fs" and "0 \<le> limit"
  shows "keeps_newest (\<lambda>at. at) (nat limit) events (trimProcessedEvents limit ks events) \<and>
    keeps_newest f_LastSeen (nat limit) files (trimFileCursors limit fs files)"
  unfolding trimProcessedEvents_alt trimFileCursors_alt entries_of_length [OF assms(1)] entries_of_length [OF assms(2)]
  by (intro conjI trim_newest assms)

theorem trims_keep_newest_witness:
  "keeps_newest (\<lambda>at. at) 1 [''a'' \<mapsto> 5, ''b'' \<mapsto> 3] (trimProcessedEvents 1 [''a'', ''b''] [''a'' \<mapsto> 5, ''b'' \<mapsto> 3])"
proof -
  have "range_order [''a'' \<mapsto> (5 :: gotime), ''b'' \<mapsto> 3] [''a'', ''b'']" "range_order Map.empty []"
    by (auto simp: range_order_def)
  from trims_keep_newest [OF this, of 1] show ?thesis by simp
qed

lemma trim_keeps_protected:
  assumes "m k = Some t" and "trim_protected now t"
  shows "trimInactiveThreads limit now ks m k = Some t"
proof -
  have "k \<notin> fst ` set (take n (by_age (entries_of lastActivity (unprotected_keys now ks m) m)))" for n
    using assms by (auto simp: unprotected_keys_def entries_of_set dest!: in_set_takeD)
  then show ?thesis
    using assms(1) unfolding trimInactiveThreads_def Let_def unprotected_keys_def [symmetric] by simp
qed

lemma trim_le: "trimInactiveThreads limit now ks m \<subseteq>\<^sub>m m"
  by (auto simp: trimInactiveThreads_def Let_def map_le_def dom_def split: if_splits)

text \<open>A retry that can still run, or that was stopped within the hour in which it is shown.\<close>

definition in_use :: "gotime \<Rightarrow> ThreadState \<Rightarrow> bool" where
  "in_use now t \<longleftrightarrow>
     t_Pending t \<noteq> None \<or> t_Awaiting t \<noteq> None \<or>
     (\<exists>s. t_Stopped t = Some s \<and> \<not> s_Historical s \<and> 0 < s_StoppedAt s \<and> now - s_StoppedAt s \<le> Hour)"

lemma in_use_kept:
  assumes "in_use now t"
  shows "trim_protected now t" and "\<not> thread_expired (now + (-30 * 24 * Hour)) t"
proof -
  have le: "time_sub now x \<le> Hour \<longleftrightarrow> now - x \<le> Hour" for x
    by (simp add: linorder_not_less [symmetric])
  show "trim_protected now t"
    using assms le by (auto simp: in_use_def trim_protected_def stoppedRetryDisplayWindow_def split: option.splits)
  have "s_StoppedAt s \<le> lastActivity t" if "t_Stopped t = Some s" for s
    using that by (simp add: lastActivity_def Let_def split: option.split)
  with assms show "\<not> thread_expired (now + (-30 * 24 * Hour)) t"
    by (fastforce simp: in_use_def thread_expired_def)
qed

text \<open>
  C21: pruning loses nothing that is in use: a thread with a pending or awaited retry, or with a
  stopped one the panel still shows, survives every prune unchanged, however many threads there
  are; pruning invents nothing; and the record of a processed event goes only when it is two weeks
  old or one of more than the limit.
\<close>

theorem prune_keeps_in_use:
  shows "(rs_Threads st k = Some t \<and> in_use now t \<longrightarrow> rs_Threads (prune now ord st) k = Some t) \<and>
    rs_Threads (prune now ord st) \<subseteq>\<^sub>m rs_Threads st \<and>
    rs_Files (prune now ord st) \<subseteq>\<^sub>m rs_Files st \<and>
    rs_ProcessedEvents (prune now ord st) \<subseteq>\<^sub>m rs_ProcessedEvents st"
proof -
  let ?del = "fold (delete_step (thread_expired (now + (-30 * 24 * Hour)))) (po_threads ord) (rs_Threads st)"
  have trims: "trimProcessedEvents l ks m \<subseteq>\<^sub>m m" "trimFileCursors l ks fs \<subseteq>\<^sub>m fs" for l ks m fs
    by (simp_all add: trimProcessedEvents_alt trimFileCursors_alt drop_oldest_le)
  have "rs_Threads (prune now ord st) = trimInactiveThreads maxThreadEntries now (po_threads ord) ?del"
    by (simp add: prune_def Let_def)
  moreover have "?del k = Some t" if "rs_Threads st k = Some t" "in_use now t"
    using that in_use_kept(2) by (intro fold_delete_keeps)
  moreover have "?del \<subseteq>\<^sub>m rs_Threads st" by (rule fold_delete_le)
  moreover have "rs_Files (prune now ord st) \<subseteq>\<^sub>m rs_Files st"
    by (simp add: prune_def Let_def map_le_trans [OF trims(2) fold_delete_le])
  moreover have "rs_ProcessedEvents (prune now ord st) \<subseteq>\<^sub>m rs_ProcessedEvents st"
    by (simp add: prune_def Let_def map_le_trans [OF trims(1) fold_delete_le])
  ultimately show ?thesis
    using trim_keeps_protected in_use_kept(1) map_le_trans [OF trim_le] by simp
qed

theorem prune_keeps_in_use_witness:
  "\<forall>a. rs_Threads (prune 1000 \<lparr>po_events = [], po_files = [], po_threads = [''a'']\<rparr>
     (newRuntimeState\<lparr>rs_Threads := [''a'' \<mapsto> zero_ThreadState\<lparr>t_Awaiting := Some a\<rparr>]\<rparr>)) ''a'' =
   Some (zero_ThreadState\<lparr>t_Awaiting := Some a\<rparr>)"
proof
  fix a
  let ?t = "zero_ThreadState\<lparr>t_Awaiting := Some a\<rparr>"
  show "rs_Threads (prune 1000 \<lparr>po_events = [], po_files = [], po_threads = [''a'']\<rparr>
     (newRuntimeState\<lparr>rs_Threads := [''a'' \<mapsto> ?t]\<rparr>)) ''a'' = Some ?t"
    using prune_keeps_in_use [of "newRuntimeState\<lparr>rs_Threads := [''a'' \<mapsto> ?t]\<rparr>"
        "''a''" ?t 1000 "\<lparr>po_events = [], po_files = [], po_threads = [''a'']\<rparr>"]
    by (simp add: in_use_def)
qed

lemma unprotected_length:
  assumes "range_order m ks"
  shows "length (unprotected_keys now ks m) =
    card (dom m) - card {k. \<exists>t. m k = Some t \<and> trim_protected now t}"
proof -
  let ?p = "{k. \<exists>t. m k = Some t \<and> trim_protected now t}"
  have "set (unprotected_keys now ks m) = dom m - ?p"
    using assms by (auto simp: unprotected_keys_def range_order_def split: option.splits)
  moreover have "distinct (unprotected_keys now ks m)"
    using assms by (simp add: unprotected_keys_def range_order_def)
  moreover have "?p \<subseteq> dom m" by auto
  ultimately show ?thesis
    using range_order_finite [OF assms] distinct_card [of "unprotected_keys now ks m"]
    by (simp add: card_Diff_subset finite_subset)
qed

text \<open>
  C22: the bound on thread records. When the records in use alone reach the limit nothing is
  removed at all; otherwise the table is trimmed to exactly the limit, no record in use is
  removed, and of the others the least recently active go first.
\<close>

theorem thread_limit:
  assumes "range_order ts ks" and "0 \<le> limit"
    and "protected = {k. \<exists>t. ts k = Some t \<and> trim_protected now t}"
    and "r = trimInactiveThreads limit now ks ts"
  shows "r \<subseteq>\<^sub>m ts \<and> protected \<subseteq> dom r \<and>
    (if int (card (dom ts)) \<le> limit \<or> limit \<le> int (card protected) then r = ts
     else card (dom r) = nat limit \<and>
       (\<forall>k k' t t'. ts k = Some t \<and> r k = None \<and> r k' = Some t' \<and> k' \<notin> protected \<longrightarrow>
          lastActivity t \<le> lastActivity t'))"
proof (intro conjI)
  show "r \<subseteq>\<^sub>m ts" by (simp add: assms(4) trim_le)
  show "protected \<subseteq> dom r"
    unfolding assms(3,4) using trim_keeps_protected by fastforce
  let ?u = "unprotected_keys now ks ts" and ?n = "nat (int (card (dom ts)) - limit)"
  have fin: "finite (dom ts)" by (rule range_order_finite [OF assms(1)])
  have u: "length ?u = card (dom ts) - card protected" "card protected \<le> card (dom ts)"
    using unprotected_length [OF assms(1)] card_mono [OF fin, of protected] assms(3) by auto
  have alt: "r = (if int (card (dom ts)) \<le> limit \<or> int (card (dom ts)) - int (length ?u) \<ge> limit then ts
      else drop_oldest lastActivity ?n ?u ts)"
    unfolding assms(4) trimInactiveThreads_alt [OF assms(1)] Let_def ..
  show "if int (card (dom ts)) \<le> limit \<or> limit \<le> int (card protected) then r = ts
     else card (dom r) = nat limit \<and>
       (\<forall>k k' t t'. ts k = Some t \<and> r k = None \<and> r k' = Some t' \<and> k' \<notin> protected \<longrightarrow>
          lastActivity t \<le> lastActivity t')"
  proof (cases "int (card (dom ts)) \<le> limit \<or> limit \<le> int (card protected)")
    case True
    then show ?thesis using alt u by (auto simp: of_nat_diff)
  next
    case False
    then have r: "r = drop_oldest lastActivity ?n ?u ts" using alt u by (auto simp: of_nat_diff)
    have dist: "distinct ?u" using assms(1) by (simp add: unprotected_keys_def range_order_def)
    have set_u: "set ?u = dom ts - protected"
      using assms(1,3) by (auto simp: unprotected_keys_def range_order_def split: option.splits)
    have len: "length (entries_of lastActivity ?u ts) = length ?u"
      unfolding unprotected_keys_def by (induction ks) (auto simp: entries_of_Cons split: option.split)
    have "card (dom r) = card (dom ts) - ?n"
      unfolding r using False u len assms(2) by (intro drop_oldest_card dist fin) (auto simp: of_nat_diff)
    moreover have "lastActivity t \<le> lastActivity t'"
      if "ts k = Some t" "r k = None" "r k' = Some t'" "k' \<notin> protected" for k k' t t'
    proof -
      have k: "k \<in> set ?u" using that(1,2) drop_oldest_other [of k ?u lastActivity ?n ts] by (auto simp: r)
      have "ts k' = Some t'" using that(3) by (simp add: r drop_oldest_def split: if_splits)
      then have "k' \<in> set ?u" using that(4) set_u by auto
      from drop_oldest_order [OF dist k this that(1) \<open>ts k' = Some t'\<close> that(2,3) [unfolded r]]
      show ?thesis by auto
    qed
    ultimately show ?thesis using False assms(2) by auto
  qed
qed

theorem thread_limit_witness:
  "\<forall>p. trimInactiveThreads 1 0 [''a'', ''b'']
     [''a'' \<mapsto> zero_ThreadState\<lparr>t_Pending := Some p\<rparr>, ''b'' \<mapsto> zero_ThreadState] =
   [''a'' \<mapsto> zero_ThreadState\<lparr>t_Pending := Some p\<rparr>, ''b'' \<mapsto> zero_ThreadState]"
proof
  fix p
  let ?m = "[''a'' \<mapsto> zero_ThreadState\<lparr>t_Pending := Some p\<rparr>, ''b'' \<mapsto> zero_ThreadState]"
  have "{k. \<exists>t. ?m k = Some t \<and> trim_protected 0 t} = {''a''}"
    by (auto simp: trim_protected_def zero_ThreadState_def split: if_splits)
  moreover have "range_order ?m [''a'', ''b'']" by (auto simp: range_order_def)
  ultimately show "trimInactiveThreads 1 0 [''a'', ''b''] ?m = ?m"
    using thread_limit [of ?m "[''a'', ''b'']" 1 "{''a''}" 0, OF _ _ _ refl] by simp
qed

subsection \<open>Migration of thread ids\<close>

lemma merge_rank:
  "migratedThreadStateRank l \<le> migratedThreadStateRank (mergeMigratedThreadState l r)"
  "migratedThreadStateRank r \<le> migratedThreadStateRank (mergeMigratedThreadState l r)"
  by (auto simp: mergeMigratedThreadState_def Let_def split: prod.splits)

definition migrated_key :: "(string \<rightharpoonup> string) \<Rightarrow> string \<Rightarrow> string" where
  "migrated_key aliases tid =
     (if alias_of aliases (to_lower tid) = [] then to_lower tid else alias_of aliases (to_lower tid))"

lemma normalize_step_unfold:
  "normalize_step aliases ts tid m =
     (case ts tid of
        None \<Rightarrow> m
      | Some t \<Rightarrow> m(migrated_key aliases tid \<mapsto> (case m (migrated_key aliases tid) of
            None \<Rightarrow> t | Some u \<Rightarrow> mergeMigratedThreadState u t)))"
  by (simp add: normalize_step_def migrated_key_def Let_def split: option.split)

text \<open>A table that records, for each of the threads \<open>S\<close>, a record at least as important.\<close>

definition covers :: "(string \<rightharpoonup> string) \<Rightarrow> (string \<rightharpoonup> ThreadState) \<Rightarrow> string set \<Rightarrow> (string \<rightharpoonup> ThreadState) \<Rightarrow> bool" where
  "covers aliases ts S m \<longleftrightarrow>
     (\<forall>tid\<in>S. \<forall>t. ts tid = Some t \<longrightarrow>
        (\<exists>u. m (migrated_key aliases tid) = Some u \<and> migratedThreadStateRank t \<le> migratedThreadStateRank u)) \<and>
     ran m \<subseteq> ran ts"

lemma covers_step:
  assumes "covers aliases ts S m"
  shows "covers aliases ts (insert tid S) (normalize_step aliases ts tid m)"
proof (cases "ts tid")
  case None
  then show ?thesis using assms by (auto simp: covers_def normalize_step_unfold)
next
  case (Some t)
  let ?k = "migrated_key aliases tid"
  let ?u = "case m ?k of None \<Rightarrow> t | Some u \<Rightarrow> mergeMigratedThreadState u t"
  have step: "normalize_step aliases ts tid m = m(?k \<mapsto> ?u)"
    using Some by (simp add: normalize_step_unfold)
  have "\<exists>u. (m(?k \<mapsto> ?u)) (migrated_key aliases j) = Some u \<and> migratedThreadStateRank v \<le> migratedThreadStateRank u"
    if "j \<in> insert tid S" "ts j = Some v" for j v
  proof (cases "j = tid")
    case True
    then show ?thesis using that(2) Some merge_rank(2) by (auto split: option.split)
  next
    case False
    with that have "j \<in> S" by simp
    with that(2) assms obtain u where u: "m (migrated_key aliases j) = Some u"
      "migratedThreadStateRank v \<le> migratedThreadStateRank u"
      unfolding covers_def by blast
    then show ?thesis
      using order_trans [OF u(2) merge_rank(1)] by (cases "migrated_key aliases j = ?k") auto
  qed
  moreover have "?u \<in> ran ts"
    using assms Some ranI [of ts tid t] ranI [of m ?k]
    by (auto simp: covers_def mergeMigratedThreadState_def Let_def split: option.split prod.split)
  ultimately show ?thesis
    using assms unfolding step covers_def by (auto simp: ran_def)
qed

lemma covers_fold: "covers aliases ts S m \<Longrightarrow> covers aliases ts (S \<union> set ks) (fold (normalize_step aliases ts) ks m)"
proof (induction ks arbitrary: S m)
  case (Cons k ks)
  from Cons.IH [OF covers_step [OF Cons.prems, of k]] show ?case by simp
qed simp



end
