(* ===== verification/Supervisor.thy ===== *)
theory Supervisor
  imports Prelude
begin

section \<open>The supervisor loop and the atomic replace (supervisor.go, jsonio.go)\<close>

text \<open>
  \<open>runSupervisor\<close> restarts the worker until it is stopped on purpose. What happens to one worker
  is an argument of the loop: it could not be started, or it ran and left a stop marker, or
  left a status file that says it stopped cleanly, or just ended; and whether the marker
  appeared during the wait that follows. The loop is a fold over those facts, one per worker.
  \<open>replaceFileWithRetry\<close> is the loop around \<open>os.Rename\<close>, with the results of the successive calls
  as an argument and the waits as part of the result.
\<close>

definition supervisorInitialBackoff :: duration where
  "supervisorInitialBackoff = Second"

definition supervisorMaxBackoff :: duration where
  "supervisorMaxBackoff = Minute"

definition nextSupervisorBackoff :: "duration \<Rightarrow> duration" where
  "nextSupervisorBackoff v =
     (if go_div supervisorMaxBackoff 2 \<le> v then supervisorMaxBackoff else i64 (v * 2))"

text \<open>\<open>workerStateCleanlyStopped\<close>: the decoded status file's process id and running flag.\<close>

definition workerStateCleanlyStopped :: "(int \<times> bool) option \<Rightarrow> int \<Rightarrow> bool" where
  "workerStateCleanlyStopped status workerPID =
     (case status of None \<Rightarrow> False | Some (pid, running) \<Rightarrow> pid = workerPID \<and> \<not> running)"

record worker_run =
  wr_started :: bool
  wr_pid :: int
  wr_marker :: bool
  wr_status :: "(int \<times> bool) option"
  wr_lateMarker :: bool
  wr_markerDuringWait :: bool

definition intentionalStop :: "worker_run \<Rightarrow> bool" where
  "intentionalStop w \<longleftrightarrow>
     wr_marker w \<or> (workerStateCleanlyStopped (wr_status w) (wr_pid w) \<and> wr_lateMarker w)"

datatype supervisor_end = stoppedByWorker | stoppedInWait | stillRunning duration

text \<open>The waits between the workers, and how the loop ended.\<close>

fun supervise :: "worker_run list \<Rightarrow> duration \<Rightarrow> duration list \<times> supervisor_end" where
  "supervise [] backoff = ([], stillRunning backoff)"
| "supervise (w # ws) backoff =
     (if wr_started w \<and> intentionalStop w then ([], stoppedByWorker)
      else if wr_markerDuringWait w then ([backoff], stoppedInWait)
      else (case supervise ws (nextSupervisorBackoff backoff) of
              (waits, fin) \<Rightarrow> (backoff # waits, fin)))"

definition runSupervisor :: "worker_run list \<Rightarrow> duration list \<times> supervisor_end" where
  "runSupervisor ws = supervise ws supervisorInitialBackoff"

subsection \<open>The atomic replace\<close>

definition atomicReplaceAttempts :: nat where
  "atomicReplaceAttempts = 12"

definition atomicReplaceMaxDelay :: duration where
  "atomicReplaceMaxDelay = 250 * Millisecond"

definition next_replace_delay :: "duration \<Rightarrow> duration" where
  "next_replace_delay delay =
     (if delay < atomicReplaceMaxDelay
      then (if atomicReplaceMaxDelay < delay * 2 then atomicReplaceMaxDelay else delay * 2)
      else delay)"

text \<open>
  \<open>rename n\<close> says whether the \<open>n\<close>-th call succeeds. The result: whether the file was replaced,
  how many calls were made, and the waits between them. \<open>left\<close> counts the calls that remain.
\<close>

fun replace_loop :: "(nat \<Rightarrow> bool) \<Rightarrow> nat \<Rightarrow> nat \<Rightarrow> duration \<Rightarrow> bool \<times> nat \<times> duration list" where
  "replace_loop rename attempt 0 delay = (False, attempt - 1, [])"
| "replace_loop rename attempt (Suc left) delay =
     (if rename attempt then (True, attempt, [])
      else if left = 0 then (False, attempt, [])
      else (case replace_loop rename (Suc attempt) left (next_replace_delay delay) of
              (ok, calls, waits) \<Rightarrow> (ok, calls, delay # waits)))"

definition replaceFileWithRetry :: "(nat \<Rightarrow> bool) \<Rightarrow> bool \<times> nat \<times> duration list" where
  "replaceFileWithRetry rename = replace_loop rename 1 atomicReplaceAttempts (15 * Millisecond)"

subsection \<open>Properties\<close>

lemma next_backoff: "0 < v \<Longrightarrow> v \<le> Minute \<Longrightarrow> nextSupervisorBackoff v = min Minute (v * 2)"
  by (simp add: nextSupervisorBackoff_def supervisorMaxBackoff_def go_div_pos i64_id min_def)

lemma supervise_waits:
  "0 < b \<Longrightarrow> b \<le> Minute \<Longrightarrow> n < length (fst (supervise ws b)) \<Longrightarrow>
   fst (supervise ws b) ! n = min Minute (b * 2 ^ n)"
proof (induction ws b arbitrary: n rule: supervise.induct)
  case (1 backoff)
  then show ?case by simp
next
  case (2 w ws backoff)
  note nb = next_backoff [OF 2(2,3)]
  show ?case
  proof (cases n)
    case 0
    with 2(2-4) show ?thesis by (auto split: prod.splits if_splits)
  next
    case (Suc m)
    with 2(4) have go: "\<not> (wr_started w \<and> intentionalStop w)" "\<not> wr_markerDuringWait w"
      by (auto split: if_splits)
    let ?b = "nextSupervisorBackoff backoff"
    have "m < length (fst (supervise ws ?b))" using 2(4) Suc go by (auto split: prod.splits)
    moreover have "0 < ?b" "?b \<le> Minute" using nb 2(2) by simp_all
    ultimately have "fst (supervise ws ?b) ! m = min Minute (?b * 2 ^ m)"
      using 2(1) go by blast
    also have "\<dots> = min Minute (backoff * 2 ^ n)"
    proof (cases "backoff * 2 \<le> Minute")
      case True
      then show ?thesis using nb Suc by (simp add: mult.assoc)
    next
      case False
      have "(1 :: int) \<le> 2 ^ m" by simp
      with 2(2) have "backoff * 2 * 1 \<le> backoff * 2 * 2 ^ m" by (intro mult_left_mono) simp_all
      with False have "Minute \<le> backoff * 2 * 2 ^ m" by linarith
      then have "Minute \<le> backoff * 2 ^ n" using Suc by (simp only: power_Suc mult.assoc)
      moreover have "Minute \<le> Minute * (2 :: int) ^ m" by simp
      moreover have "?b = Minute" using nb False by simp
      ultimately show ?thesis by (simp only: min_absorb1)
    qed
    finally show ?thesis using Suc go by (auto split: prod.split)
  qed
qed

lemma next_replace_delay_bounds:
  "0 < d \<Longrightarrow> d \<le> atomicReplaceMaxDelay \<Longrightarrow>
   0 < next_replace_delay d \<and> next_replace_delay d \<le> atomicReplaceMaxDelay"
  by (auto simp: next_replace_delay_def)

lemma replace_loop_result:
  "0 < d \<Longrightarrow> d \<le> atomicReplaceMaxDelay \<Longrightarrow> replace_loop rename a (Suc k) d = (ok, calls, waits) \<Longrightarrow>
   (ok \<longleftrightarrow> (\<exists>n. a \<le> n \<and> n \<le> a + k \<and> rename n)) \<and>
   (ok \<longrightarrow> rename calls \<and> (\<forall>n. a \<le> n \<and> n < calls \<longrightarrow> \<not> rename n)) \<and>
   a \<le> calls \<and> calls \<le> a + k \<and> length waits = calls - a \<and>
   (\<forall>w\<in>set waits. 0 < w \<and> w \<le> atomicReplaceMaxDelay)"
proof (induction k arbitrary: a d ok calls waits)
  case 0
  then show ?case by (auto simp: le_less_Suc_eq split: if_splits)
next
  case (Suc k)
  show ?case
  proof (cases "rename a")
    case True
    with Suc.prems show ?thesis by auto
  next
    case False
    obtain ok' calls' waits' where rest:
      "replace_loop rename (Suc a) (Suc k) (next_replace_delay d) = (ok', calls', waits')"
      by (metis prod_cases3)
    with False Suc.prems have eq: "ok = ok'" "calls = calls'" "waits = d # waits'" by auto
    have split: "(\<exists>n. a \<le> n \<and> n \<le> a + Suc k \<and> rename n) \<longleftrightarrow>
        (\<exists>n. Suc a \<le> n \<and> n \<le> Suc a + k \<and> rename n)"
    proof -
      have "a \<le> n \<and> n \<le> a + Suc k \<and> rename n \<longleftrightarrow> Suc a \<le> n \<and> n \<le> Suc a + k \<and> rename n" for n
        using False by (cases "n = a") auto
      then show ?thesis by simp
    qed
    have first: "a \<le> n \<Longrightarrow> n < c \<Longrightarrow> (\<forall>n. Suc a \<le> n \<and> n < c \<longrightarrow> \<not> rename n) \<Longrightarrow> \<not> rename n" for n c
      using False by (cases "n = a") auto
    have ih: "ok' \<longleftrightarrow> (\<exists>n. Suc a \<le> n \<and> n \<le> Suc a + k \<and> rename n)"
      "ok' \<Longrightarrow> rename calls'" "\<And>n. ok' \<Longrightarrow> Suc a \<le> n \<Longrightarrow> n < calls' \<Longrightarrow> \<not> rename n"
      "Suc a \<le> calls'" "calls' \<le> Suc a + k" "length waits' = calls' - Suc a"
      "\<forall>w\<in>set waits'. 0 < w \<and> w \<le> atomicReplaceMaxDelay"
      using Suc.IH [OF _ _ rest] next_replace_delay_bounds [OF Suc.prems(1,2)] by simp_all
    have "ok' \<longrightarrow> rename calls' \<and> (\<forall>n. a \<le> n \<and> n < calls' \<longrightarrow> \<not> rename n)"
      using ih(2,3) False by (metis Suc_leI le_neq_implies_less)
    moreover have "length (d # waits') = calls' - a"
      using ih(4,6) by simp
    moreover have "\<forall>w\<in>set (d # waits'). 0 < w \<and> w \<le> atomicReplaceMaxDelay"
      using ih(7) Suc.prems(1,2) by simp
    moreover have "a \<le> calls'" "calls' \<le> a + Suc k"
      using ih(4,5) by simp_all
    ultimately show ?thesis unfolding eq split using ih(1) by blast
  qed
qed

end
