(* ===== verification/Service_Properties.thy ===== *)
theory Service_Properties
  imports Samples Supervisor
begin

section \<open>Delays, results, memory limits, restarts\<close>

text \<open>
  Properties of the parts the retry engine rests on: the delay before an attempt
  (\<open>runner.go\<close>), the checks on what a recovery request returned, the memory guard, the
  supervisor's restarts, the bounded file replacement, and the status report.
\<close>

subsection \<open>Delays\<close>

lemma spec_delay_mono:
  assumes "valid_config cfg" and "n \<le> m"
  shows "spec_delay n cfg \<le> spec_delay m cfg"
proof -
  note v = valid_delays [OF assms(1)]
  define k l where "k = nat (max n 1 - 1)" and "l = nat (max m 1 - 1)"
  have kl: "k \<le> l" using assms(2) unfolding k_def l_def by simp
  have "int k * c_DelayIncrementSeconds cfg \<le> int l * c_DelayIncrementSeconds cfg"
    using kl v by (intro mult_right_mono) simp_all
  moreover have "c_InitialDelaySeconds cfg * 2 ^ k \<le> c_InitialDelaySeconds cfg * 2 ^ l"
    using kl v by (intro mult_left_mono power_increasing) simp_all
  ultimately show ?thesis
    unfolding spec_delay_def Let_def k_def [symmetric] l_def [symmetric] by (auto simp: min_def)
qed

lemma spec_delay_bounds:
  assumes "valid_config cfg"
  shows "1 \<le> spec_delay n cfg \<and> spec_delay n cfg \<le> 86400"
proof -
  note v = valid_delays [OF assms]
  define k where "k = nat (max n 1 - 1)"
  have "0 \<le> int k * c_DelayIncrementSeconds cfg" using v by simp
  then have lin: "1 \<le> c_InitialDelaySeconds cfg + int k * c_DelayIncrementSeconds cfg"
    using v by linarith
  have "1 * 1 \<le> c_InitialDelaySeconds cfg * 2 ^ k" using v by (intro mult_mono) simp_all
  then have ex: "1 \<le> c_InitialDelaySeconds cfg * 2 ^ k" by simp
  show ?thesis
    unfolding spec_delay_def Let_def k_def [symmetric] using v lin ex by (simp add: min_def)
qed

text \<open>
  C23: for every valid configuration and every attempt number the two loops of \<open>retryDelay\<close>
  compute the configured schedule (constant, linear, or doubling, cut off at the maximum)
  without overflow; the delay is at least a second, at most a day, and never shrinks from one
  attempt to the next.
\<close>

theorem retry_delay_schedule:
  assumes "valid_config cfg" and "n \<le> m"
  shows "retryDelay n cfg = spec_delay n cfg * Second \<and>
    Second \<le> retryDelay n cfg \<and> retryDelay n cfg \<le> 86400 * Second \<and>
    retryDelay n cfg \<le> retryDelay m cfg"
  using spec_delay_mono [OF assms] spec_delay_bounds [OF assms(1)]
  unfolding retryDelay_spec [OF assms(1)] by simp

theorem retry_delay_schedule_witness:
  "valid_config defaultConfig \<and> (1 :: int) \<le> 4 \<and>
   retryDelay 1 defaultConfig = 5 * Second \<and> retryDelay 4 defaultConfig = 40 * Second"
proof -
  have v: "valid_config defaultConfig" by (rule default_config_valid)
  have "spec_delay 1 defaultConfig = 5" "spec_delay 4 defaultConfig = 40" by code_simp+
  with v retry_delay_schedule [OF v, of 1 4] retry_delay_schedule [OF v, of 4 4] show ?thesis by simp
qed

subsection \<open>Reason codes and results\<close>

text \<open>
  Whatever the controller returned and however its error is wrapped, the reason recorded for
  a failed request is a nonempty code of at most 64 lower-case letters, digits, dashes and
  underscores, and passing it through the filter again changes nothing.
\<close>

theorem failure_reason_safe:
  "controllerFailureReason result err \<noteq> [] \<and>
   length (controllerFailureReason result err) \<le> 64 \<and>
   list_all reason_char (controllerFailureReason result err) \<and>
   safeReasonCode (controllerFailureReason result err) = controllerFailureReason result err"
proof -
  let ?r = "controllerFailureReason result err"
  have stable: "safeReasonCode ?r = ?r"
    by (simp add: controllerFailureReason_def Let_def safeReasonCode_idem sentinel_reason_safe
        split: option.split)
  moreover have "?r \<noteq> []"
    by (simp add: controllerFailureReason_def Let_def sentinel_reason_nonempty split: option.split)
  ultimately show ?thesis using safeReasonCode_shape [of ?r] by simp
qed

lemma validated_result:
  "validateDispatchResult res = Inr result \<Longrightarrow> res = result \<and>
   (d_Outcome result = outcomeDispatched \<longrightarrow> d_Action result \<in>
      {actionGoalResume, actionConversationContinue, actionSubagentContinue, actionGoalBlock}) \<and>
   (d_Outcome result = outcomeAwaitingStart \<longrightarrow> d_Action result = actionGoalActive) \<and>
   (\<forall>s. d_Outcome result \<noteq> outcomeOther s) \<and>
   (d_Reason result \<noteq> [] \<longrightarrow> safeReasonCode (d_Reason result) \<noteq> [])"
  by (cases "d_Outcome res") (auto simp: validateDispatchResult_def Let_def split: if_splits option.splits)

lemma rejected_result: "validateDispatchResult res = Inl e \<Longrightarrow> \<exists>detail. e = invalid_result detail"
  by (cases "d_Outcome res") (auto simp: validateDispatchResult_def Let_def split: if_splits)

lemma rejected_for_job:
  "validateDispatchResultForJob kind res = Inl e \<Longrightarrow> \<exists>detail. e = invalid_result detail"
  using rejected_result [of res]
  by (cases "validateDispatchResult res") (auto simp: validateDispatchResultForJob_def split: if_splits)

lemma validated_for_job:
  assumes "validateDispatchResultForJob kind res = Inr result"
  shows "validateDispatchResult res = Inr result \<and>
    (d_Outcome result = outcomeDispatched \<longrightarrow> (d_Action result = actionGoalBlock \<longleftrightarrow> kind = jobGoalBlock))"
  using assms by (auto simp: validateDispatchResultForJob_def split: sum.splits if_splits)

lemma finish_request_Inr:
  "finish_request kind expired res = Inr result \<Longrightarrow>
   \<exists>reply. res = Inr reply \<and> validateDispatchResultForJob kind reply = Inr result"
  by (auto simp: finish_request_def split: sum.splits if_splits)

text \<open>
  A result that \<open>Resume\<close> accepts is the controller's own reply to the one request that fits
  the job (a block request exactly for a goal-block job, otherwise a dispatch with the loaded
  settings and prompt); a dispatched result names a goal block exactly for a goal-block job; the
  outcome is one of the known ones; and a reason, when given, is a safe code.
\<close>

theorem resume_accepts_fitting:
  assumes "Resume settings prompt block dispatch expired job = Inr result"
  shows "(if j_Kind job = jobGoalBlock then \<exists>s. block s = Inr result
          else \<exists>s p. settings = Inr s \<and> prompt = Inr p \<and> dispatch s p = Inr result) \<and>
    (d_Outcome result = outcomeDispatched \<longrightarrow> (d_Action result = actionGoalBlock \<longleftrightarrow> j_Kind job = jobGoalBlock)) \<and>
    (d_Outcome result = outcomeAwaitingStart \<longrightarrow> d_Action result = actionGoalActive) \<and>
    (\<forall>s. d_Outcome result \<noteq> outcomeOther s) \<and>
    (d_Reason result \<noteq> [] \<longrightarrow> safeReasonCode (d_Reason result) \<noteq> [])"
proof -
  have ok: "finish_request (j_Kind job) expired
      (case settings of Inl e \<Rightarrow> if j_Kind job = jobGoalBlock then block None else Inl e
       | Inr s \<Rightarrow> if j_Kind job = jobGoalBlock then block (Some s)
                  else (case prompt of Inl e \<Rightarrow> Inl e | Inr p \<Rightarrow> dispatch s p)) = Inr result"
    using assms by (auto simp: Resume_def finish_request_def split: if_splits sum.splits)
  from finish_request_Inr [OF this] obtain reply where
    reply: "(case settings of Inl e \<Rightarrow> if j_Kind job = jobGoalBlock then block None else Inl e
       | Inr s \<Rightarrow> if j_Kind job = jobGoalBlock then block (Some s)
                  else (case prompt of Inl e \<Rightarrow> Inl e | Inr p \<Rightarrow> dispatch s p)) = Inr reply"
    and valid: "validateDispatchResultForJob (j_Kind job) reply = Inr result" by blast
  note vj = validated_for_job [OF valid]
  note vr = validated_result [OF conjunct1 [OF vj]]
  have "if j_Kind job = jobGoalBlock then \<exists>s. block s = Inr reply
        else \<exists>s p. settings = Inr s \<and> prompt = Inr p \<and> dispatch s p = Inr reply"
    using reply by (auto split: sum.splits if_splits)
  with vj vr show ?thesis by auto
qed

definition block_job :: RetryJob where
  "block_job = \<lparr>j_Kind = jobGoalBlock, j_ThreadID = ''01234567-89ab-cdef-0123-456789abcdef'',
     j_FailedTurnID = ''turn'', j_FailedAt = 0, j_OriginTurnStartedAt = 0, j_EventKey = ''key'',
     j_Class = classServer, j_CodexHome = [], j_RolloutPath = [], j_Attempt = 1, j_MaxAttempts = 0,
     j_ConsecutiveRetry = 1, j_MaxConsecutive = 0, j_DispatchFailures = 0, j_ParentNotified = False,
     j_GoalLimitRestart = False, j_RecoveryEventID = []\<rparr>"

definition blocked_reply :: DispatchResult where
  "blocked_reply = zero_DispatchResult\<lparr>d_Outcome := outcomeDispatched, d_Action := actionGoalBlock\<rparr>"

theorem resume_accepts_fitting_witness:
  "Resume (Inr ()) (Inr ''go on'') (\<lambda>s. Inr blocked_reply) (\<lambda>s p. Inl (OtherError p)) False block_job =
     Inr blocked_reply \<and>
   (d_Action blocked_reply = actionGoalBlock \<longleftrightarrow> j_Kind block_job = jobGoalBlock)"
proof -
  have run: "Resume (Inr ()) (Inr ''go on'') (\<lambda>s. Inr blocked_reply) (\<lambda>s p. Inl (OtherError p)) False block_job =
      Inr blocked_reply"
    by (simp add: Resume_def block_job_def finish_request_def validateDispatchResultForJob_def
        validateDispatchResult_def blocked_reply_def zero_DispatchResult_def jsonl_suffix_def to_lower_def
        is_uuid_def uuid_dashes_def hex_ci_def is_hex_def is_digit_def lower_char_def byte_def upt_rec)
  have "d_Outcome blocked_reply = outcomeDispatched" by (simp add: blocked_reply_def)
  with run resume_accepts_fitting [OF run] show ?thesis by simp
qed

text \<open>
  The ways \<open>Resume\<close> fails. An invalid thread id, unreadable settings or an unreadable prompt
  make a recovery fail without asking the controller anything (its replies do not matter); a
  request that failed after the context expired is reported as \<open>controller_timeout\<close>; and a reply
  that does not fit is reported as \<open>controller_invalid_result\<close>.
\<close>

theorem resume_failure_reported:
  assumes "Resume settings prompt block dispatch expired job = Inl err"
  shows "(thread_match (j_ThreadID job @ ''.jsonl'') = None \<longrightarrow>
      (\<forall>b d. Resume settings prompt b d expired job = Inl err)) \<and>
    (j_Kind job \<noteq> jobGoalBlock \<and> (\<exists>e. settings = Inl e \<or> prompt = Inl e) \<longrightarrow>
      (\<forall>b d. Resume settings prompt b d expired job = Inl err)) \<and>
    (thread_match (j_ThreadID job @ ''.jsonl'') \<noteq> None \<and> j_Kind job \<noteq> jobGoalBlock \<longrightarrow>
      (\<forall>s p reply. settings = Inr s \<and> prompt = Inr p \<longrightarrow>
        (dispatch s p = Inl reply \<and> expired \<longrightarrow>
           controllerFailureReason zero_DispatchResult (Some err) = ''controller_timeout'') \<and>
        (dispatch s p = Inl reply \<and> \<not> expired \<longrightarrow> err = reply) \<and>
        (\<forall>res. dispatch s p = Inr res \<longrightarrow>
           controllerFailureReason zero_DispatchResult (Some err) = ''controller_invalid_result'')))"
proof -
  have timeout: "controllerFailureReason zero_DispatchResult (Some (Sentinel errControllerTimeout)) =
      ''controller_timeout''"
    by (simp add: controllerFailureReason_def zero_DispatchResult_def sentinel_reason_def Let_def
        safeReasonCode_def trim_space_def)
  have invalid: "controllerFailureReason zero_DispatchResult (Some e) = ''controller_invalid_result''"
    if rejected: "validateDispatchResultForJob kind res = Inl e" for kind res e
  proof -
    obtain detail where "e = invalid_result detail" using rejected_for_job [OF rejected] by blast
    then show ?thesis
      by (simp add: controllerFailureReason_def zero_DispatchResult_def sentinel_reason_def Let_def
          safeReasonCode_def trim_space_def invalid_result_def)
  qed
  show ?thesis
    using assms timeout invalid
    by (auto simp: Resume_def finish_request_def split: if_splits sum.splits)
qed

theorem resume_failure_reported_witness:
  "Resume (Inr ()) (Inr ''go on'') (\<lambda>s. Inl (OtherError [])) (\<lambda>s p. Inl (OtherError p)) True
     (block_job\<lparr>j_Kind := jobRecovery\<rparr>) = Inl (Sentinel errControllerTimeout) \<and>
   controllerFailureReason zero_DispatchResult (Some (Sentinel errControllerTimeout)) = ''controller_timeout''"
proof -
  let ?job = "block_job\<lparr>j_Kind := jobRecovery\<rparr>"
  have thread: "thread_match (j_ThreadID ?job @ ''.jsonl'') \<noteq> None"
    by (simp add: block_job_def jsonl_suffix_def to_lower_def
        is_uuid_def uuid_dashes_def hex_ci_def is_hex_def is_digit_def lower_char_def byte_def upt_rec)
  have run: "Resume (Inr ()) (Inr ''go on'') (\<lambda>s. Inl (OtherError [])) (\<lambda>s p. Inl (OtherError p)) True ?job =
      Inl (Sentinel errControllerTimeout)"
    using thread by (simp add: Resume_def finish_request_def)
  have "j_Kind ?job \<noteq> jobGoalBlock" by simp
  with run thread resume_failure_reported [OF run] show ?thesis by blast
qed

subsection \<open>Memory, restarts, files\<close>

text \<open>
  The guard of a limit between 1 and 65536 MB calls back exactly once, for the first sample
  that reaches the limit in bytes, and never when no sample does; failed reads do not count, and
  nothing is sampled after the callback. The number of megabytes shown for the sample is its
  size rounded up.
\<close>

theorem memory_limit_once:
  assumes "0 < limitMB" and "limitMB \<le> 65536"
  shows "filter is_limit_call (snd (guard_run reads (newProcessMemoryGuard limitMB interval))) =
      (case find (\<lambda>r. \<exists>bytes at. r = Some (bytes, at) \<and> limitMB * 1048576 \<le> uint bytes) reads of
         Some (Some (bytes, at)) \<Rightarrow> [onLimit \<lparr>ms_PrivateBytes = bytes, ms_CheckedAt = at\<rparr>]
       | _ \<Rightarrow> []) \<and>
    (uint bytes' \<le> 2 ^ 64 - 2 ^ 20 \<longrightarrow>
      memoryBytesToMB bytes' * 1048576 \<in> {uint bytes' ..< uint bytes' + 1048576})"
proof -
  let ?g = "newProcessMemoryGuard limitMB interval"
  have exact: "uint (mg_limitBytes ?g) = limitMB * 1048576" by (rule limit_bytes_exact [OF assms])
  then have on: "mg_limitBytes ?g \<noteq> 0" using assms by (metis uint_0_eq mult_eq_0_iff less_irrefl zero_neq_numeral)
  have off: "\<not> mg_triggered ?g" by (simp add: newProcessMemoryGuard_def)
  have over: "over_limit (mg_limitBytes ?g) =
      (\<lambda>r. \<exists>bytes at. r = Some (bytes, at) \<and> limitMB * 1048576 \<le> uint bytes)"
    by (rule ext) (auto simp: over_limit_def word_le_def exact split: option.split prod.split)
  have "memoryBytesToMB bytes' * 1048576 \<in> {uint bytes' ..< uint bytes' + 1048576}"
    if "uint bytes' \<le> 2 ^ 64 - 2 ^ 20"
    unfolding memoryBytesToMB_ceiling [OF that] by (simp, linarith)
  with on guard_loop_limit_calls [OF off, of reads] show ?thesis
    unfolding guard_run_def over by simp
qed

theorem memory_limit_once_witness:
  "filter is_limit_call (snd (guard_run [Some (5, 1), None, Some (1048576, 2), Some (1048577, 3)]
     (newProcessMemoryGuard 1 0))) = [onLimit \<lparr>ms_PrivateBytes = 1048576, ms_CheckedAt = 2\<rparr>] \<and>
   memoryBytesToMB 1048577 = 2"
proof -
  have "(0 :: int) < 1" "(1 :: int) \<le> 65536" by simp_all
  from memory_limit_once [OF this, of "[Some (5, 1), None, Some (1048576, 2), Some (1048577, 3)]" 0 1048577]
  show ?thesis by simp
qed

definition stopped_on_purpose :: "worker_run \<Rightarrow> bool" where
  "stopped_on_purpose w \<longleftrightarrow> (wr_started w \<and> intentionalStop w) \<or> wr_markerDuringWait w"

lemma supervise_ends:
  "supervise ws b = (waits, fin) \<Longrightarrow>
   (\<exists>d. fin = stillRunning d) \<longleftrightarrow> (\<forall>w\<in>set ws. \<not> stopped_on_purpose w)"
proof (induction ws b arbitrary: waits fin rule: supervise.induct)
  case (2 w ws backoff)
  then show ?case
    by (cases "supervise ws (nextSupervisorBackoff backoff)") (auto simp: stopped_on_purpose_def split: if_splits)
qed auto

lemma supervise_restarts:
  "supervise ws b = (waits, fin) \<Longrightarrow> n < length waits \<Longrightarrow>
   n < length ws \<and> (\<forall>k<n. \<not> stopped_on_purpose (ws ! k)) \<and> \<not> (wr_started (ws ! n) \<and> intentionalStop (ws ! n))"
proof (induction ws b arbitrary: waits fin n rule: supervise.induct)
  case (2 w ws backoff)
  show ?case
  proof (cases n)
    case 0
    with 2(2,3) show ?thesis by (auto split: if_splits prod.splits)
  next
    case (Suc m)
    with 2(2,3) have go: "\<not> stopped_on_purpose w"
      by (auto simp: stopped_on_purpose_def split: if_splits)
    obtain waits' where rest: "supervise ws (nextSupervisorBackoff backoff) = (waits', fin)"
      and "waits = backoff # waits'"
      using 2(2) go by (auto simp: stopped_on_purpose_def split: prod.splits)
    with 2(3) Suc have "m < length waits'" by simp
    from 2(1) [OF _ _ rest this] go show ?thesis
      unfolding Suc by (auto simp: stopped_on_purpose_def nth_Cons split: nat.split)
  qed
qed auto

text \<open>
  The supervisor restarts the worker after every run that was not stopped on purpose, forever
  if none is; a wait follows only runs of that kind; and the n-th wait is a second doubled n
  times, at most a minute.
\<close>

theorem supervisor_backoff:
  assumes "runSupervisor ws = (waits, fin)" and "n < length waits"
  shows "waits ! n = min Minute (Second * 2 ^ n) \<and>
    n < length ws \<and> (\<forall>k<n. \<not> stopped_on_purpose (ws ! k)) \<and>
    \<not> (wr_started (ws ! n) \<and> intentionalStop (ws ! n)) \<and>
    ((\<exists>d. fin = stillRunning d) \<longleftrightarrow> (\<forall>w\<in>set ws. \<not> stopped_on_purpose w))"
proof -
  have run: "supervise ws supervisorInitialBackoff = (waits, fin)"
    using assms(1) by (simp add: runSupervisor_def)
  then have "waits ! n = min Minute (Second * 2 ^ n)"
    using supervise_waits [of supervisorInitialBackoff n ws] assms(2)
    by (simp add: supervisorInitialBackoff_def)
  with supervise_restarts [OF run assms(2)] supervise_ends [OF run] show ?thesis by blast
qed

definition crashed_worker :: "int \<Rightarrow> worker_run" where
  "crashed_worker pid = \<lparr>wr_started = True, wr_pid = pid, wr_marker = False, wr_status = Some (pid, True),
     wr_lateMarker = False, wr_markerDuringWait = False\<rparr>"

theorem supervisor_backoff_witness:
  "runSupervisor (map crashed_worker [1..8] @ [(crashed_worker 9)\<lparr>wr_marker := True\<rparr>]) =
     (map (\<lambda>s. s * Second) [1, 2, 4, 8, 16, 32, 60, 60], stoppedByWorker) \<and>
   60 * Second = min Minute (Second * 2 ^ 7)"
proof -
  have run: "runSupervisor (map crashed_worker [1..8] @ [(crashed_worker 9)\<lparr>wr_marker := True\<rparr>]) =
     (map (\<lambda>s. s * Second) [1, 2, 4, 8, 16, 32, 60, 60], stoppedByWorker)"
    by code_simp
  from supervisor_backoff [OF this, of 7] run show ?thesis by simp
qed

text \<open>
  Replacing a file makes at most 12 attempts, stops at the first that succeeds, fails only
  when all 12 fail, and waits between two attempts at most 250 milliseconds.
\<close>

theorem replace_bounded:
  assumes "replaceFileWithRetry rename = (ok, calls, waits)"
  shows "(ok \<longleftrightarrow> (\<exists>n. 1 \<le> n \<and> n \<le> 12 \<and> rename n)) \<and>
    (ok \<longrightarrow> rename calls \<and> (\<forall>n. 1 \<le> n \<and> n < calls \<longrightarrow> \<not> rename n)) \<and>
    1 \<le> calls \<and> calls \<le> 12 \<and> length waits = calls - 1 \<and>
    (\<forall>w\<in>set waits. 0 < w \<and> w \<le> 250 * Millisecond)"
proof -
  have run: "replace_loop rename 1 (Suc 11) (15 * Millisecond) = (ok, calls, waits)"
    using assms by (simp add: replaceFileWithRetry_def atomicReplaceAttempts_def numeral_eq_Suc)
  have "15 * Millisecond \<le> atomicReplaceMaxDelay" by (simp add: atomicReplaceMaxDelay_def)
  from replace_loop_result [OF _ this run] show ?thesis by (simp add: atomicReplaceMaxDelay_def)
qed

theorem replace_bounded_witness:
  "replaceFileWithRetry (\<lambda>n. n = 4) = (True, 4, map (\<lambda>w. w * Millisecond) [15, 30, 60]) \<and>
   length (map (\<lambda>w. w * Millisecond) [15, 30, 60]) = 4 - 1"
proof -
  have run: "replaceFileWithRetry (\<lambda>n. n = 4) = (True, 4, map (\<lambda>w. w * Millisecond) [15, 30, 60])"
    by code_simp
  from replace_bounded [OF this] run show ?thesis by simp
qed

subsection \<open>The status report\<close>

text \<open>
  The status file tells what the daemon can do. Automatic recovery is reported exactly when
  the daemon runs and a controller connection is proven; the counters are the numbers of
  threads with a planned and with an unconfirmed retry, whatever order the map is read in; and
  a stopped daemon reports none.
\<close>

theorem status_report_true:
  assumes "range_order (threads d) ks"
  shows "(st_AutomaticRecoverySupported (statusSnapshot pid running roots ks d) \<longleftrightarrow>
      running \<and> d_controllerState d \<in> {''ready'', ''official_ipc_ready''}) \<and>
    st_PendingRetries (statusSnapshot pid running roots ks d) =
      (if running then int (card {k. \<exists>t. threads d k = Some t \<and> t_Pending t \<noteq> None}) else 0) \<and>
    st_ActiveRetries (statusSnapshot pid running roots ks d) =
      (if running then int (card {k. \<exists>t. threads d k = Some t \<and> t_Awaiting t \<noteq> None}) else 0)"
  unfolding statusSnapshot_def Let_def
  by (simp add: count_threads_order [OF assms] capability_automatic_iff)

definition watchdog_identity :: process_identity where
  "watchdog_identity = \<lparr>pi_BuildSourceHash = ''hash'', pi_Version = ''3'', pi_PID = 7, pi_LogPath = ''log''\<rparr>"

theorem status_report_true_witness:
  "st_AutomaticRecoverySupported (statusSnapshot watchdog_identity True 1 [''a''] (daemon_with [''a'' \<mapsto> pending_thread])) \<and>
   st_PendingRetries (statusSnapshot watchdog_identity True 1 [''a''] (daemon_with [''a'' \<mapsto> pending_thread])) = 1"
proof -
  let ?d = "daemon_with [''a'' \<mapsto> pending_thread]"
  have th: "threads ?d = [''a'' \<mapsto> pending_thread]" "d_controllerState ?d = ''ready''"
    by (simp_all add: daemon_with_def initial_daemon_def newRuntimeState_def threads_def)
  have "t_Pending pending_thread \<noteq> None" by (simp add: pending_thread_def)
  then have one: "{k. \<exists>t. threads ?d k = Some t \<and> t_Pending t \<noteq> None} = {''a''}" unfolding th by auto
  have order: "range_order (threads ?d) [''a'']" unfolding th by (simp add: range_order_def)
  note report = status_report_true [OF order, of watchdog_identity True 1]
  have "st_AutomaticRecoverySupported (statusSnapshot watchdog_identity True 1 [''a''] ?d)"
    using conjunct1 [OF report] th by simp
  moreover have "st_PendingRetries (statusSnapshot watchdog_identity True 1 [''a''] ?d) = 1"
    using conjunct1 [OF conjunct2 [OF report]] unfolding one by simp
  ultimately show ?thesis by simp
qed

end
