(* ===== verification/Json_Text.thy ===== *)
theory Json_Text
  imports Go_Json
begin

section \<open>JSON as encoding/json writes it\<close>

text \<open>
  \<open>json.Marshal\<close> of a tree of values: no white space, strings escaped the way Go does it, with
  \<open><\<close>, \<open>>\<close> and \<open>&\<close> as \<open>\u\<close> escapes (the escapes of U+2028, U+2029 and of invalid UTF-8 are left
  out). The code never writes a fraction; \<open>JFloat\<close> gets a text here only to make the function
  total. Members of an object are written in the order of the list; for a Go map that is the
  order of the keys. The theorem is that the parser reads back what was written.
\<close>

definition quote_char :: char where
  "quote_char = CHR 0x22"

definition u_escape :: "char \<Rightarrow> string" where
  "u_escape c =
     [CHR 0x5C, CHR ''u'', CHR ''0'', CHR ''0'', hex_digit (byte c div 16), hex_digit (byte c mod 16)]"

definition json_escape :: "char \<Rightarrow> string" where
  "json_escape c =
     (if c = CHR 0x22 \<or> c = CHR 0x5C then [CHR 0x5C, c]
      else if c = CHR 0x08 then [CHR 0x5C, CHR ''b'']
      else if c = CHR 0x0C then [CHR 0x5C, CHR ''f'']
      else if c = CHR 0x0A then [CHR 0x5C, CHR ''n'']
      else if c = CHR 0x0D then [CHR 0x5C, CHR ''r'']
      else if c = CHR 0x09 then [CHR 0x5C, CHR ''t'']
      else if byte c < 32 \<or> c = CHR ''<'' \<or> c = CHR ''>'' \<or> c = CHR ''&'' then u_escape c
      else [c])"

definition string_text :: "string \<Rightarrow> string" where
  "string_text s = quote_char # concat (map json_escape s) @ [quote_char]"

fun nat_text :: "nat \<Rightarrow> string" where
  "nat_text n = (if n < 10 then [char_of (48 + n)] else nat_text (n div 10) @ [char_of (48 + n mod 10)])"

declare nat_text.simps [simp del]

definition int_text :: "int \<Rightarrow> string" where
  "int_text i = (if i < 0 then CHR ''-'' # nat_text (nat (- i)) else nat_text (nat i))"

fun json_text :: "json \<Rightarrow> string" where
  "json_text JNull = ''null''"
| "json_text (JBool b) = (if b then ''true'' else ''false'')"
| "json_text (JInt i) = int_text i"
| "json_text (JFloat m e) = int_text m @ CHR ''e'' # int_text e"
| "json_text (JString s) = string_text s"
| "json_text (JArray []) = ''[]''"
| "json_text (JArray (v # vs)) =
     CHR ''['' # json_text v @ concat (map (\<lambda>w. CHR '','' # json_text w) vs) @ '']''"
| "json_text (JObject []) = ''{}''"
| "json_text (JObject ((k, v) # ms)) =
     CHR ''{'' # string_text k @ CHR '':'' # json_text v @
     concat (map (\<lambda>(k, w). CHR '','' # string_text k @ CHR '':'' # json_text w) ms) @ ''}''"

subsection \<open>Strings and numbers are read back\<close>

lemma hex_value_digit: "n < 16 \<Longrightarrow> hex_value (hex_digit n) = Some n"
  by (auto simp: hex_value_def hex_digit_def byte_char_of)

lemma char_of_byte [simp]: "char_of (byte c) = c"
  by (simp add: byte_def)

lemma u_escape_read:
  assumes "byte c < 128"
  shows "unescape (drop 1 (u_escape c) @ r) = Some ([c], r)"
proof -
  have "byte c div 16 < 16" "byte c mod 16 < 16" using assms by simp_all
  then have "hex4 [CHR ''0'', CHR ''0'', hex_digit (byte c div 16), hex_digit (byte c mod 16)] = Some (byte c)"
    by (simp add: hex4_def hex_value_digit) (simp add: hex_value_def byte_def)
  then show ?thesis
    using assms by (simp add: u_escape_def unescape_def unicode_escape_def utf8_encode_def)
qed

lemma parse_escape: "parse_chars (json_escape c @ r) = map_option (\<lambda>(t, r'). (c # t, r')) (parse_chars r)"
proof (cases "c \<in> {CHR 0x22, CHR 0x5C, CHR 0x08, CHR 0x0C, CHR 0x0A, CHR 0x0D, CHR 0x09}")
  case True
  then show ?thesis by (auto simp: json_escape_def unescape_def escape_char_def)
next
  case False
  show ?thesis
  proof (cases "byte c < 32 \<or> c = CHR ''<'' \<or> c = CHR ''>'' \<or> c = CHR ''&''")
    case True
    then have "byte c < 128" by (auto simp: byte_def)
    from u_escape_read [OF this, of r] show ?thesis
      using False True by (auto simp: json_escape_def u_escape_def)
  next
    case plain: False
    with False show ?thesis by (auto simp: json_escape_def)
  qed
qed

lemma parse_chars_text: "parse_chars (concat (map json_escape s) @ CHR 0x22 # r) = Some (s, r)"
  by (induction s) (simp_all add: parse_escape)

lemma is_digit_char: "n < 10 \<Longrightarrow> is_digit (char_of (48 + n))" for n :: nat
  by (simp add: is_digit_def byte_char_of)

lemma nat_text_digits: "list_all is_digit (nat_text n)"
proof (induction n rule: nat_text.induct)
  case (1 n)
  have "is_digit (char_of (48 + n mod 10))" by (intro is_digit_char) simp
  with 1 show ?case by (subst nat_text.simps) (simp add: is_digit_char)
qed

lemma nat_text_ne: "nat_text n \<noteq> []"
  by (subst nat_text.simps) simp

lemma digits_value_snoc: "digits_value (ds @ [d]) = 10 * digits_value ds + (byte d - 48)"
  by (simp add: digits_value_def)

lemma nat_text_value: "digits_value (nat_text n) = n"
proof (induction n rule: nat_text.induct)
  case (1 n)
  show ?case
  proof (cases "n < 10")
    case True
    then show ?thesis by (simp add: nat_text.simps [of n] digits_value_def byte_char_of)
  next
    case False
    moreover have "byte (char_of (48 + n mod 10)) = 48 + n mod 10"
      using mod_less_divisor [of 10 n] by (intro byte_char_of) linarith
    ultimately show ?thesis
      using 1 by (simp add: nat_text.simps [of n] digits_value_snoc)
  qed
qed

lemma nat_text_lead: "hd (nat_text n) = CHR ''0'' \<Longrightarrow> length (nat_text n) = 1"
proof (induction n rule: nat_text.induct)
  case (1 n)
  show ?case
  proof (cases "n < 10")
    case True
    then show ?thesis by (simp add: nat_text.simps [of n])
  next
    case False
    then have "hd (nat_text (n div 10)) = CHR ''0''"
      using 1(2) nat_text_ne by (simp add: nat_text.simps [of n])
    with 1(1) False have "length (nat_text (n div 10)) = 1" by blast
    with \<open>hd (nat_text (n div 10)) = CHR ''0''\<close> have "nat_text (n div 10) = ''0''"
      by (cases "nat_text (n div 10)") auto
    from arg_cong [OF this, of digits_value] have "n div 10 = 0"
      by (simp only: nat_text_value) (simp add: digits_value_def byte_def)
    with False show ?thesis by simp
  qed
qed

text \<open>What may follow a value: nothing, or one of the delimiters.\<close>

definition follows :: "string \<Rightarrow> bool" where
  "follows r \<longleftrightarrow> r = [] \<or> hd r \<in> {CHR '','', CHR '']'', CHR ''}''}"

lemma follows_char [simp]:
  "follows []" "follows (CHR '','' # r)" "follows (CHR '']'' # r)" "follows (CHR ''}'' # r)"
  by (simp_all add: follows_def)

lemma scan_digits_text:
  assumes "r = [] \<or> \<not> is_digit (hd r)"
  shows "scan_digits (nat_text n @ r) = Some (nat_text n, r)"
proof -
  have "takeWhile is_digit (nat_text n @ r) = nat_text n" "dropWhile is_digit (nat_text n @ r) = r"
    using assms nat_text_digits [of n]
    by (cases r; simp add: list_all_iff takeWhile_append dropWhile_append)+
  then show ?thesis using nat_text_ne by (simp add: scan_digits_def)
qed

lemma follows_scan:
  assumes "follows r"
  shows "r = [] \<or> \<not> is_digit (hd r)" "scan_fraction r = Some ([], r)" "scan_exponent r = Some (None, r)"
  using assms by (cases r; auto simp: follows_def is_digit_def byte_def scan_fraction_def scan_exponent_def)+

lemma int_text_split:
  "(case int_text i @ r of [] \<Rightarrow> (1, int_text i @ r)
    | c # cs \<Rightarrow> if c = CHR ''-'' then (- 1, cs) else (1, int_text i @ r)) =
   (if i < 0 then - 1 else 1, nat_text (nat \<bar>i\<bar>) @ r)"
  "(case int_text i @ r of [] \<Rightarrow> (1, int_text i @ r)
    | d # ds \<Rightarrow> if d = CHR ''-'' then (- 1, ds) else if d = CHR ''+'' then (1, ds) else (1, int_text i @ r)) =
   (if i < 0 then - 1 else 1, nat_text (nat \<bar>i\<bar>) @ r)"
proof -
  obtain d ds where "nat_text (nat i) = d # ds" "is_digit d"
    using nat_text_ne [of "nat i"] nat_text_digits [of "nat i"] by (cases "nat_text (nat i)") auto
  moreover from this have "d \<noteq> CHR ''-''" "d \<noteq> CHR ''+''" by (auto simp: is_digit_def byte_def)
  ultimately show
    "(case int_text i @ r of [] \<Rightarrow> (1, int_text i @ r)
      | c # cs \<Rightarrow> if c = CHR ''-'' then (- 1, cs) else (1, int_text i @ r)) =
     (if i < 0 then - 1 else 1, nat_text (nat \<bar>i\<bar>) @ r)"
    "(case int_text i @ r of [] \<Rightarrow> (1, int_text i @ r)
      | d # ds \<Rightarrow> if d = CHR ''-'' then (- 1, ds) else if d = CHR ''+'' then (1, ds) else (1, int_text i @ r)) =
     (if i < 0 then - 1 else 1, nat_text (nat \<bar>i\<bar>) @ r)"
    by (simp_all add: int_text_def)
qed

lemma sign_value: "(if i < 0 then - 1 else 1) * int (digits_value (nat_text (nat \<bar>i\<bar>))) = i"
  by (simp add: nat_text_value)

lemma scan_exponent_text:
  assumes "follows r"
  shows "scan_exponent (CHR ''e'' # int_text e @ r) = Some (Some e, r)"
  using follows_scan(1) [OF assms] sign_value [of e]
  by (simp add: scan_exponent_def int_text_split(2) scan_digits_text)

lemma parse_int_text:
  assumes "follows r"
  shows "parse_number (int_text i @ r) = Some (JInt i, r)"
  unfolding parse_number_def int_text_split
  using follows_scan [OF assms] sign_value [of i] nat_text_lead [of "nat \<bar>i\<bar>"]
  by (simp add: scan_digits_text)

lemma parse_float_text:
  assumes "follows r"
  shows "parse_number (int_text m @ CHR ''e'' # int_text e @ r) = Some (JFloat m e, r)"
proof -
  have "scan_digits (nat_text n @ CHR ''e'' # int_text e @ r) = Some (nat_text n, CHR ''e'' # int_text e @ r)" for n
    by (rule scan_digits_text) (simp add: is_digit_def byte_def)
  then show ?thesis
    unfolding parse_number_def int_text_split
    using scan_exponent_text [OF assms] sign_value [of m] nat_text_lead [of "nat \<bar>m\<bar>"]
    by (simp add: scan_fraction_def)
qed

subsection \<open>Values are read back\<close>

lemma next_char_plain: "\<not> is_ws c \<Longrightarrow> next_char (c # s) = Some (c, s)"
  by (simp add: next_char_def skip_ws_def)

lemma next_char_delim [simp]:
  "next_char (CHR '','' # s) = Some (CHR '','', s)" "next_char (CHR '':'' # s) = Some (CHR '':'', s)"
  "next_char (CHR '']'' # s) = Some (CHR '']'', s)" "next_char (CHR ''}'' # s) = Some (CHR ''}'', s)"
  "next_char (CHR ''['' # s) = Some (CHR ''['', s)" "next_char (CHR ''{'' # s) = Some (CHR ''{'', s)"
  "next_char (CHR 0x22 # s) = Some (CHR 0x22, s)"
  by (simp_all add: next_char_plain is_ws_def byte_def)

text \<open>The first character of a text.\<close>

lemma int_text_lead: "\<exists>c cs. int_text i = c # cs \<and> (c = CHR ''-'' \<or> is_digit c)"
  using nat_text_ne [of "nat i"] nat_text_digits [of "nat i"]
  by (cases "nat_text (nat i)") (auto simp: int_text_def)

lemma scalar_number:
  assumes "parse_number (int_text i @ s) = Some (v, r)"
  shows "parse_value (Suc n) (int_text i @ s) = Some (v, r)"
proof -
  obtain c cs where c: "int_text i = c # cs" "c = CHR ''-'' \<or> is_digit c"
    using int_text_lead by blast
  then have "48 \<le> byte c \<and> byte c \<le> 57 \<or> byte c = 45" by (auto simp: is_digit_def byte_def)
  then have "\<not> is_ws c" "c \<noteq> CHR ''{''" "c \<noteq> CHR ''[''" "c \<noteq> CHR 0x22"
      "c \<noteq> CHR ''t''" "c \<noteq> CHR ''f''" "c \<noteq> CHR ''n''"
    by (auto simp: is_ws_def byte_def)
  with assms c(1) show ?thesis
    by (simp add: next_char_plain parse_scalar_def)
qed

lemma text_lead: "\<exists>c cs. json_text v = c # cs \<and> \<not> is_ws c \<and> c \<noteq> CHR '']'' \<and> c \<noteq> CHR ''}''"
proof (cases v)
  case (JInt i)
  then show ?thesis
    using int_text_lead [of i] by (auto simp: is_ws_def byte_def is_digit_def)
next
  case (JFloat m e)
  then show ?thesis
    using int_text_lead [of m] by (auto simp: is_ws_def byte_def is_digit_def)
next
  case (JArray vs)
  then show ?thesis by (cases vs) (auto simp: is_ws_def byte_def)
next
  case (JObject ms)
  then show ?thesis by (cases "(JObject ms)" rule: json_text.cases) (auto simp: is_ws_def byte_def)
qed (auto simp: is_ws_def byte_def string_text_def quote_char_def)

lemma next_char_text:
  obtains c cs where "next_char (json_text v @ s) = Some (c, cs)" "c \<noteq> CHR '']''" "c \<noteq> CHR ''}''"
  using text_lead [of v] by (metis append_Cons next_char_plain)

definition reads :: "json \<Rightarrow> bool" where
  "reads v \<longleftrightarrow> (\<forall>n r. follows r \<longrightarrow> 2 * length (json_text v @ r) + 1 \<le> n \<longrightarrow>
     parse_value n (json_text v @ r) = Some (v, r))"

lemma readsD:
  "reads v \<Longrightarrow> follows r \<Longrightarrow> 2 * length (json_text v @ r) + 1 \<le> n \<Longrightarrow>
   parse_value n (json_text v @ r) = Some (v, r)"
  by (simp add: reads_def)

lemma reads_scalarI:
  assumes "\<And>m r. follows r \<Longrightarrow> parse_value (Suc m) (json_text v @ r) = Some (v, r)"
  shows "reads v"
  unfolding reads_def
proof (intro allI impI)
  fix n r
  assume "follows r" "2 * length (json_text v @ r) + 1 \<le> n"
  then show "parse_value n (json_text v @ r) = Some (v, r)"
    using assms [of r "n - 1"] by simp
qed

definition tail_text :: "json list \<Rightarrow> string" where
  "tail_text ws = concat (map (\<lambda>w. CHR '','' # json_text w) ws)"

definition members_text :: "(string \<times> json) list \<Rightarrow> string" where
  "members_text ms = concat (map (\<lambda>(k, w). CHR '','' # string_text k @ CHR '':'' # json_text w) ms)"

lemma tail_simps [simp]:
  "tail_text [] = []" "tail_text (w # ws) = CHR '','' # json_text w @ tail_text ws"
  "members_text [] = []"
  "members_text ((k, w) # ms) = CHR '','' # string_text k @ CHR '':'' # json_text w @ members_text ms"
  by (simp_all add: tail_text_def members_text_def)

lemma follows_tail [simp]:
  "follows (tail_text ws @ CHR '']'' # r)" "follows (members_text ms @ CHR ''}'' # r)"
  by (cases ws; simp) (cases ms; auto)

lemma parse_elements_text:
  "(\<forall>x\<in>set (v # ws). reads x) \<Longrightarrow>
   2 * length (json_text v @ tail_text ws @ CHR '']'' # r) + 2 \<le> n \<Longrightarrow>
   parse_elements n (json_text v @ tail_text ws @ CHR '']'' # r) = Some (v # ws, r)"
proof (induction ws arbitrary: v n)
  case Nil
  then obtain m where n: "n = Suc m" by (cases n) auto
  have "parse_value m (json_text v @ CHR '']'' # r) = Some (v, CHR '']'' # r)"
    using Nil n by (intro readsD) auto
  then show ?case using n by simp
next
  case (Cons w ws)
  then obtain m where n: "n = Suc m" by (cases n) auto
  let ?rest = "tail_text (w # ws) @ CHR '']'' # r"
  have "parse_value m (json_text v @ ?rest) = Some (v, ?rest)"
    using Cons.prems n by (intro readsD follows_tail) auto
  moreover have "parse_elements m (json_text w @ tail_text ws @ CHR '']'' # r) = Some (w # ws, r)"
    using Cons.prems n by (intro Cons.IH) auto
  ultimately show ?case using n by simp
qed

lemma parse_string_text: "parse_chars (tl (string_text k) @ s) = Some (k, s)"
  by (simp add: string_text_def quote_char_def parse_chars_text)

lemma string_text_Cons: "string_text k = CHR 0x22 # tl (string_text k)"
  by (simp add: string_text_def quote_char_def)

lemma next_char_string [simp]: "next_char (string_text k @ s) = Some (CHR 0x22, tl (string_text k) @ s)"
  by (subst string_text_Cons) simp

lemma parse_members_text:
  "(\<forall>x\<in>snd ` set ((k, v) # ms). reads x) \<Longrightarrow>
   2 * length (string_text k @ CHR '':'' # json_text v @ members_text ms @ CHR ''}'' # r) + 2 \<le> n \<Longrightarrow>
   parse_members n (string_text k @ CHR '':'' # json_text v @ members_text ms @ CHR ''}'' # r) =
     Some ((k, v) # ms, r)"
proof (induction ms arbitrary: k v n)
  case Nil
  then obtain m where n: "n = Suc m" by (cases n) auto
  have "parse_value m (json_text v @ CHR ''}'' # r) = Some (v, CHR ''}'' # r)"
    using Nil n by (intro readsD) auto
  then show ?case using n by (simp add: parse_string_text)
next
  case (Cons kw ms)
  obtain j w where kw: "kw = (j, w)" by (cases kw)
  from Cons.prems obtain m where n: "n = Suc m" by (cases n) auto
  let ?rest = "members_text (kw # ms) @ CHR ''}'' # r"
  have "parse_value m (json_text v @ ?rest) = Some (v, ?rest)"
    using Cons.prems n by (intro readsD follows_tail) auto
  moreover have "parse_members m (string_text j @ CHR '':'' # json_text w @ members_text ms @ CHR ''}'' # r) =
      Some ((j, w) # ms, r)"
    using Cons.prems n kw by (intro Cons.IH) auto
  ultimately show ?case using n kw by (simp add: parse_string_text)
qed

lemma json_text_compound:
  "json_text (JArray (v # vs)) = CHR ''['' # json_text v @ tail_text vs @ '']''"
  "json_text (JObject ((k, v) # ms)) =
     CHR ''{'' # string_text k @ CHR '':'' # json_text v @ members_text ms @ ''}''"
  by (simp_all add: tail_text_def members_text_def)

lemma reads_array:
  assumes "\<forall>x\<in>set vs. reads x"
  shows "reads (JArray vs)"
  unfolding reads_def
proof (intro allI impI)
  fix n r
  assume r: "follows r" and len: "2 * length (json_text (JArray vs) @ r) + 1 \<le> n"
  then obtain m where n: "n = Suc m" by (cases n) auto
  show "parse_value n (json_text (JArray vs) @ r) = Some (JArray vs, r)"
  proof (cases vs)
    case Nil
    then show ?thesis using n by simp
  next
    case (Cons v ws)
    let ?in = "json_text v @ tail_text ws @ CHR '']'' # r"
    have "parse_elements m ?in = Some (v # ws, r)"
      using assms len n unfolding Cons json_text_compound by (intro parse_elements_text) auto
    moreover obtain c cs where "next_char ?in = Some (c, cs)" "c \<noteq> CHR '']''"
      using next_char_text by blast
    ultimately show ?thesis
      using n unfolding Cons json_text_compound by simp
  qed
qed

lemma reads_object:
  assumes "\<forall>x\<in>snd ` set ms. reads x"
  shows "reads (JObject ms)"
  unfolding reads_def
proof (intro allI impI)
  fix n r
  assume r: "follows r" and len: "2 * length (json_text (JObject ms) @ r) + 1 \<le> n"
  then obtain m where n: "n = Suc m" by (cases n) auto
  show "parse_value n (json_text (JObject ms) @ r) = Some (JObject ms, r)"
  proof (cases ms)
    case Nil
    then show ?thesis using n by simp
  next
    case (Cons kv rest)
    obtain k v where kv: "kv = (k, v)" by (cases kv)
    let ?in = "string_text k @ CHR '':'' # json_text v @ members_text rest @ CHR ''}'' # r"
    have "parse_members m ?in = Some ((k, v) # rest, r)"
      using assms len n unfolding Cons kv json_text_compound by (intro parse_members_text) auto
    then show ?thesis
      using n unfolding Cons kv json_text_compound by simp
  qed
qed

lemma reads_all: "reads v"
proof (induction v)
  case (JInt i)
  show ?case by (rule reads_scalarI) (simp only: json_text.simps scalar_number parse_int_text)
next
  case (JFloat m e)
  show ?case
    by (rule reads_scalarI) (simp only: json_text.simps append.simps append_assoc scalar_number parse_float_text)
next
  case (JString s)
  show ?case by (rule reads_scalarI) (simp add: parse_scalar_def parse_string_text)
next
  case (JArray vs)
  then show ?case by (intro reads_array) blast
next
  case (JObject ms)
  then show ?case by (intro reads_object) (force elim: snds.cases)
next
  case JNull
  show ?case by (rule reads_scalarI) (simp add: parse_scalar_def next_char_plain is_ws_def byte_def)
next
  case (JBool b)
  show ?case
    by (rule reads_scalarI) (cases b; simp add: parse_scalar_def next_char_plain is_ws_def byte_def)
qed

lemma parse_json_text: "parse_json (json_text v) = Some v"
  using readsD [OF reads_all, where r = "[]" and n = "2 * length (json_text v) + 1" and v = v]
  by (simp add: parse_json_def skip_ws_def)

lemma skip_ws_text [simp]: "skip_ws (json_text v @ s) = json_text v @ s"
  using text_lead [of v] by (auto simp: skip_ws_def)

text \<open>One value at the start of a text, with enough fuel.\<close>

definition first_value :: "string \<Rightarrow> (json \<times> string) option" where
  "first_value s = parse_value (2 * length s + 1) s"

lemma first_value_text: "follows r \<Longrightarrow> first_value (json_text v @ r) = Some (v, r)"
  unfolding first_value_def by (rule readsD [OF reads_all]) simp_all

subsection \<open>A text is one line\<close>

lemma byte_literals:
  "byte (CHR '','') = 44" "byte (CHR '':'') = 58" "byte (CHR ''['') = 91" "byte (CHR '']'') = 93"
  "byte (CHR ''{'') = 123" "byte (CHR ''}'') = 125" "byte (CHR 0x22) = 34" "byte (CHR 0x5C) = 92"
  "byte (CHR ''-'') = 45" "byte (CHR ''0'') = 48" "byte (CHR ''a'') = 97" "byte (CHR ''b'') = 98"
  "byte (CHR ''e'') = 101" "byte (CHR ''f'') = 102" "byte (CHR ''l'') = 108" "byte (CHR ''n'') = 110"
  "byte (CHR ''r'') = 114" "byte (CHR ''s'') = 115" "byte (CHR ''t'') = 116" "byte (CHR ''u'') = 117"
  by (simp_all add: byte_def)

lemma byte_hex_digit: "n < 16 \<Longrightarrow> 48 \<le> byte (hex_digit n)"
  by (auto simp: hex_digit_def byte_char_of)

lemma u_escape_printable: "d \<in> set (u_escape c) \<Longrightarrow> 32 \<le> byte d"
proof -
  have "byte c div 16 < 16" "byte c mod 16 < 16" using byte_lt [of c] by auto
  from this [THEN byte_hex_digit] show "d \<in> set (u_escape c) \<Longrightarrow> 32 \<le> byte d"
    by (auto simp: u_escape_def byte_literals)
qed

lemma escape_no_control: "d \<in> set (json_escape c) \<Longrightarrow> 32 \<le> byte d"
  using u_escape_printable [of d c]
  by (auto simp: json_escape_def byte_literals not_less split: if_splits)

lemma string_text_printable: "d \<in> set (string_text s) \<Longrightarrow> 32 \<le> byte d"
  using escape_no_control by (auto simp: string_text_def quote_char_def byte_literals)

lemma int_text_printable: "d \<in> set (int_text i) \<Longrightarrow> 32 \<le> byte d"
  using nat_text_digits [of "nat i"] nat_text_digits [of "nat (- i)"]
  by (auto simp: int_text_def list_all_iff is_digit_def byte_literals split: if_splits)

lemma json_text_printable: "d \<in> set (json_text v) \<Longrightarrow> 32 \<le> byte d"
proof (induction v)
  case (JArray vs)
  show ?case
  proof (cases vs)
    case Nil
    with JArray show ?thesis by (auto simp: byte_literals)
  next
    case (Cons w ws)
    from JArray.prems have "d \<in> {CHR ''['', CHR '','', CHR '']''} \<or> (\<exists>x\<in>set vs. d \<in> set (json_text x))"
      unfolding Cons json_text_compound tail_text_def by (auto split: if_splits)
    with JArray.IH show ?thesis by (auto simp: byte_literals)
  qed
next
  case (JObject ms)
  show ?case
  proof (cases ms)
    case Nil
    with JObject show ?thesis by (auto simp: byte_literals)
  next
    case (Cons kv rest)
    obtain k v where kv: "kv = (k, v)" by (cases kv)
    from JObject.prems have "d \<in> {CHR ''{'', CHR '':'', CHR '','', CHR ''}''} \<or>
        (\<exists>(j, w)\<in>set ms. d \<in> set (string_text j) \<or> d \<in> set (json_text w))"
      unfolding Cons kv json_text_compound members_text_def by (auto split: if_splits)
    moreover have "d \<in> set (json_text w) \<Longrightarrow> (j, w) \<in> set ms \<Longrightarrow> 32 \<le> byte d" for j w
      using JObject.IH [of "(j, w)" w] by (auto intro: snds.intros)
    ultimately show ?thesis using string_text_printable by (auto simp: byte_literals)
  qed
next
  case (JFloat m e)
  then show ?case using int_text_printable by (auto simp: byte_literals)
qed (auto simp: byte_literals int_text_printable string_text_printable split: if_splits)

end
