(* ===== verification/Json_Raw.thy ===== *)
theory Json_Raw
  imports Json_Text
begin

section \<open>Decoding into structs\<close>

text \<open>
  What decoding into a struct needs beyond \<open>Go_Json\<close>: members of type \<open>json.RawMessage\<close>, which
  keep the text of their value, nested structs and pointers to structs. The lemmas say what these
  give on a text that \<open>json.Marshal\<close> wrote. (Go reuses the elements of a slice when a key occurs
  twice; a repeated array is taken as a fresh one here.)
\<close>

subsection \<open>Raw members of an object\<close>

fun raw_members :: "nat \<Rightarrow> string \<Rightarrow> (string \<times> string) list" where
  "raw_members 0 s = []"
| "raw_members (Suc n) s =
     (case next_char s of
        None \<Rightarrow> []
      | Some (q, qs) \<Rightarrow>
          (case parse_chars qs of
             None \<Rightarrow> []
           | Some (k, r) \<Rightarrow>
               (case next_char r of
                  None \<Rightarrow> []
                | Some (c, cs) \<Rightarrow>
                    let start = skip_ws cs
                    in (case first_value start of
                          None \<Rightarrow> []
                        | Some (v, r2) \<Rightarrow>
                            (k, take (length start - length r2) start) #
                            (case next_char r2 of
                               Some (d, ds) \<Rightarrow> if d = CHR '','' then raw_members n ds else []
                             | None \<Rightarrow> [])))))"

text \<open>The members of a text that is a JSON object; every other value has none.\<close>

definition raw_object :: "string \<Rightarrow> (string \<times> string) list" where
  "raw_object s =
     (case parse_json s of
        Some (JObject (m # ms)) \<Rightarrow>
          (case next_char s of Some (c, cs) \<Rightarrow> raw_members (length s) cs | None \<Rightarrow> [])
      | _ \<Rightarrow> [])"

text \<open>A field of type \<open>json.RawMessage\<close> (the last member counts), and the members of a nested struct.\<close>

definition raw_field :: "string \<Rightarrow> (string \<times> string) list \<Rightarrow> string" where
  "raw_field name ms = fold (\<lambda>(k, v) old. if equal_fold k name then v else old) ms []"

definition raw_nested :: "string \<Rightarrow> (string \<times> string) list \<Rightarrow> (string \<times> string) list" where
  "raw_nested name ms = concat (map (\<lambda>(k, v). if equal_fold k name then raw_object v else []) ms)"

text \<open>
  A field that is a struct: the members of every object given for it, in order, since each is
  decoded over what the struct holds. \<open>null\<close> changes nothing, another value is an error. For
  a pointer to a struct \<open>null\<close> sets the pointer to nil.
\<close>

fun dec_nested :: "string \<Rightarrow> (string \<times> json) list \<Rightarrow> (string \<times> json) list option" where
  "dec_nested name [] = Some []"
| "dec_nested name ((k, v) # ms) =
     (if equal_fold k name
      then (case v of
          JNull \<Rightarrow> dec_nested name ms
        | JObject xs \<Rightarrow> map_option (\<lambda>ys. xs @ ys) (dec_nested name ms)
        | _ \<Rightarrow> None)
      else dec_nested name ms)"

fun dec_pointer ::
    "string \<Rightarrow> (string \<times> json) list \<Rightarrow> (string \<times> json) list option \<Rightarrow> (string \<times> json) list option option" where
  "dec_pointer name [] old = Some old"
| "dec_pointer name ((k, v) # ms) old =
     (if equal_fold k name
      then (case v of
          JNull \<Rightarrow> dec_pointer name ms None
        | JObject xs \<Rightarrow> dec_pointer name ms (Some (case old of None \<Rightarrow> xs | Some ys \<Rightarrow> ys @ xs))
        | _ \<Rightarrow> None)
      else dec_pointer name ms old)"

text \<open>\<open>json.Unmarshal\<close> of a text into a struct: its members; \<open>null\<close> is accepted and changes nothing.\<close>

definition unmarshal_struct :: "string \<Rightarrow> (string \<times> json) list option" where
  "unmarshal_struct s =
     (case parse_json s of
        Some (JObject ms) \<Rightarrow> Some ms
      | Some JNull \<Rightarrow> Some []
      | _ \<Rightarrow> None)"

definition string_field :: "string \<Rightarrow> (string \<times> json) list \<Rightarrow> string option" where
  "string_field name ms = dec_field json_string name ms []"

definition bool_field :: "string \<Rightarrow> (string \<times> json) list \<Rightarrow> bool option" where
  "bool_field name ms = dec_field json_bool name ms False"

definition quoted :: "string \<Rightarrow> string" where
  "quoted s = CHR 0x22 # s @ [CHR 0x22]"

subsection \<open>Texts that were written\<close>

lemma raw_members_text:
  "length ms < n \<Longrightarrow>
   raw_members n (string_text k @ CHR '':'' # json_text v @ members_text ms @ CHR ''}'' # r) =
   map (\<lambda>(k, v). (k, json_text v)) ((k, v) # ms)"
proof (induction ms arbitrary: k v n)
  case Nil
  then show ?case by (cases n) (simp_all add: parse_string_text Let_def first_value_text)
next
  case (Cons kw ms)
  obtain j w where kw: "kw = (j, w)" by (cases kw)
  from Cons.prems obtain m where n: "n = Suc m" by (cases n) auto
  have "first_value (json_text v @ members_text (kw # ms) @ CHR ''}'' # r) =
      Some (v, members_text (kw # ms) @ CHR ''}'' # r)"
    by (intro first_value_text follows_tail)
  with Cons n kw show ?case by (simp add: parse_string_text Let_def)
qed

lemma length_members: "length ms \<le> length (members_text ms)"
  by (induction ms) (auto simp: string_text_def)

lemma raw_object_text: "raw_object (json_text (JObject ms)) = map (\<lambda>(k, v). (k, json_text v)) ms"
proof (cases ms)
  case Nil
  show ?thesis unfolding raw_object_def parse_json_text by (simp add: Nil)
next
  case (Cons kv rest)
  obtain k v where kv: "kv = (k, v)" by (cases kv)
  have "length rest < length (json_text (JObject ms))"
    unfolding Cons kv json_text_compound using length_members [of rest] by simp
  from raw_members_text [OF this, of k v "[]"] show ?thesis
    unfolding raw_object_def parse_json_text unfolding Cons kv json_text_compound by simp
qed

lemma unmarshal_struct_text [simp]: "unmarshal_struct (json_text (JObject ms)) = Some ms"
  by (simp add: unmarshal_struct_def parse_json_text)

lemmas key_simps = equal_fold_def to_lower_def lower_char_def byte_def

end
