(* ===== verification/Resume_Settings.thy ===== *)
theory Resume_Settings
  imports Json_Raw Thread_Id "HOL-Library.Monad_Syntax"
begin

section \<open>The settings a thread is resumed with (resume\_settings.go)\<close>

text \<open>
  The watchdog reads the model, the permissions and the working directory of a thread from the
  last \<open>turn_context\<close> record of its rollout file, and corrects them by the last
  \<open>thread_settings_applied\<close> record. The content of the file is an argument (a list of bytes);
  finding and opening it is not modelled. A \<open>json.RawMessage\<close> is the text of the value.
\<close>

subsection \<open>Settings\<close>

definition resumeSettingsSearchBlockBytes :: nat where
  "resumeSettingsSearchBlockBytes = 64 * 1024"

definition resumeSettingsPrefixBytes :: nat where
  "resumeSettingsPrefixBytes = 4096"

definition maxResumeSettingsLineBytes :: nat where
  "maxResumeSettingsLineBytes = 8 * 1024 * 1024"

definition maxResumeWorkspaceRoots :: nat where
  "maxResumeWorkspaceRoots = 128"

definition maxResumeSettingStringBytes :: nat where
  "maxResumeSettingStringBytes = 32 * 1024"

record ResumeSettings =
  se_CWD :: string
  se_RuntimeWorkspaceRoots :: "string list"
  se_ApprovalPolicy :: string
  se_ApprovalsReviewer :: string
  se_Model :: string
  se_ModelProvider :: string
  se_ServiceTier :: string
  se_Personality :: string
  se_Permissions :: string
  se_Effort :: string
  se_Summary :: string

subsection \<open>Validation\<close>

text \<open>
  \<open>unicode.IsControl\<close> on the runes of a UTF-8 text: a byte below 32, the byte 127, or one of
  the runes 128 to 159, whose encoding is the byte 194 followed by the rune's number.
\<close>

fun has_control :: "string \<Rightarrow> bool" where
  "has_control [] = False"
| "has_control (c # cs) \<longleftrightarrow>
     byte c < 32 \<or> byte c = 127 \<or>
     (byte c = 194 \<and> (case cs of d # _ \<Rightarrow> 128 \<le> byte d \<and> byte d \<le> 159 | [] \<Rightarrow> False)) \<or>
     has_control cs"

text \<open>\<open>filepath.IsAbs\<close> for Windows: a drive and a separator, or two leading separators.\<close>

definition filepath_IsAbs :: "string \<Rightarrow> bool" where
  "filepath_IsAbs path \<longleftrightarrow>
     (case path of
        a # b # rest \<Rightarrow>
          if b = CHR '':'' then (case rest of c # _ \<Rightarrow> is_sep c | [] \<Rightarrow> False)
          else is_sep a \<and> is_sep b
      | _ \<Rightarrow> False)"

definition validBoundedSetting :: "string \<Rightarrow> bool" where
  "validBoundedSetting value \<longleftrightarrow>
     \<not> (value = [] \<or> length value > maxResumeSettingStringBytes) \<and> \<not> has_control value"

definition validAbsoluteSettingPath :: "string \<Rightarrow> bool" where
  "validAbsoluteSettingPath value \<longleftrightarrow> filepath_IsAbs value \<and> validBoundedSetting value"

text \<open>The field \<open>granular\<close>, a map from strings to booleans, with every other field refused.\<close>

fun granular_keys :: "(string \<times> json) list \<Rightarrow> string list option \<Rightarrow> string list option option" where
  "granular_keys [] old = Some old"
| "granular_keys ((k, v) # ms) old =
     (if \<not> equal_fold k ''granular'' then None
      else (case v of
          JNull \<Rightarrow> granular_keys ms None
        | JObject ks \<Rightarrow>
            if list_all (\<lambda>(_, b). b = JNull \<or> json_bool b \<noteq> None) ks
            then granular_keys ms (Some ((case old of None \<Rightarrow> [] | Some os \<Rightarrow> os) @ map fst ks))
            else None
        | _ \<Rightarrow> None))"

definition granular_allowed :: "string list" where
  "granular_allowed =
     [''mcp_elicitations'', ''request_permissions'', ''rules'', ''sandbox_approval'', ''skill_approval'']"

definition validApprovalPolicy :: "string \<Rightarrow> bool" where
  "validApprovalPolicy raw \<longleftrightarrow>
     (case parse_json raw of
        Some (JString name) \<Rightarrow> name \<in> {''untrusted'', ''on-request'', ''never''}
      | Some (JObject ms) \<Rightarrow>
          (case granular_keys ms None of
             Some (Some ks) \<Rightarrow>
               set ks \<subseteq> set granular_allowed \<and> ''mcp_elicitations'' \<in> set ks \<and>
               ''rules'' \<in> set ks \<and> ''sandbox_approval'' \<in> set ks
           | _ \<Rightarrow> False)
      | _ \<Rightarrow> False)"

text \<open>The fault that \<open>validateResumeSettings\<close> reports, if any.\<close>

definition validateResumeSettings :: "ResumeSettings \<Rightarrow> string option" where
  "validateResumeSettings s =
     (if \<not> validAbsoluteSettingPath (se_CWD s) then Some ''invalid working directory''
      else if length (se_RuntimeWorkspaceRoots s) > maxResumeWorkspaceRoots
        then Some ''invalid workspace roots''
      else if list_ex (\<lambda>root. \<not> validAbsoluteSettingPath root) (se_RuntimeWorkspaceRoots s)
        then Some ''invalid workspace root''
      else if \<not> validBoundedSetting (se_Model s) \<or> \<not> validBoundedSetting (se_Effort s)
        then Some ''invalid model settings''
      else if se_ModelProvider s \<noteq> [] \<and> \<not> validBoundedSetting (se_ModelProvider s)
        then Some ''invalid model provider''
      else if se_ServiceTier s \<noteq> [] \<and> \<not> validBoundedSetting (se_ServiceTier s)
        then Some ''invalid service tier''
      else if \<not> validBoundedSetting (se_Permissions s) then Some ''invalid permission profile''
      else if \<not> validApprovalPolicy (se_ApprovalPolicy s) then Some ''invalid approval policy''
      else if se_ApprovalsReviewer s \<notin> {[], ''user'', ''auto_review'', ''guardian_subagent''}
        then Some ''invalid approvals reviewer''
      else if se_Personality s \<notin> {[], ''none'', ''friendly'', ''pragmatic''}
        then Some ''invalid personality''
      else if se_Summary s \<notin> {[], ''none'', ''auto'', ''concise'', ''detailed''}
        then Some ''invalid reasoning summary''
      else None)"

definition resumePermissionProfile :: "string \<Rightarrow> string \<Rightarrow> string + string" where
  "resumePermissionProfile sandboxType profileType =
     (if sandboxType = ''danger-full-access'' then
        (if profileType \<noteq> [] \<and> profileType \<noteq> ''disabled''
         then Inl ''inconsistent danger-full-access permission profile''
         else Inr '':danger-full-access'')
      else if sandboxType = ''read-only'' then
        (if profileType \<noteq> [] \<and> profileType \<noteq> ''managed''
         then Inl ''inconsistent read-only permission profile'' else Inr '':read-only'')
      else if sandboxType = ''workspace-write'' then
        (if profileType \<noteq> [] \<and> profileType \<noteq> ''managed''
         then Inl ''inconsistent workspace permission profile'' else Inr '':workspace'')
      else Inl ''unsupported sandbox policy'')"

subsection \<open>Parsing the two records\<close>

text \<open>\<open>persistedTurnContext\<close>: the values the code reads of it; \<open>raws\<close> are the payload's raw members.\<close>

record turn_context =
  tc_Type :: string
  tc_SandboxType :: string
  tc_ProfileType :: string
  tc_Settings :: ResumeSettings

definition decode_turn_context :: "(string \<times> json) list \<Rightarrow> (string \<times> string) list \<Rightarrow> turn_context option" where
  "decode_turn_context ms raws =
     do {
       typ \<leftarrow> string_field ''type'' ms;
       payload \<leftarrow> dec_nested ''payload'' ms;
       cwd \<leftarrow> string_field ''cwd'' payload;
       roots \<leftarrow> dec_field json_string_list ''workspace_roots'' payload [];
       reviewer \<leftarrow> string_field ''approvals_reviewer'' payload;
       sandbox \<leftarrow> dec_nested ''sandbox_policy'' payload;
       sandboxType \<leftarrow> string_field ''type'' sandbox;
       profile \<leftarrow> dec_nested ''permission_profile'' payload;
       profileType \<leftarrow> string_field ''type'' profile;
       model \<leftarrow> string_field ''model'' payload;
       personality \<leftarrow> string_field ''personality'' payload;
       effort \<leftarrow> string_field ''effort'' payload;
       summary \<leftarrow> string_field ''summary'' payload;
       Some \<lparr>tc_Type = typ, tc_SandboxType = sandboxType, tc_ProfileType = profileType,
         tc_Settings =
           \<lparr>se_CWD = cwd, se_RuntimeWorkspaceRoots = roots,
            se_ApprovalPolicy = raw_field ''approval_policy'' (raw_nested ''payload'' raws),
            se_ApprovalsReviewer = reviewer, se_Model = model, se_ModelProvider = [],
            se_ServiceTier = [], se_Personality = personality, se_Permissions = [],
            se_Effort = effort, se_Summary = summary\<rparr>\<rparr>
     }"

definition parseResumeSettings :: "string \<Rightarrow> string + ResumeSettings" where
  "parseResumeSettings line =
     (case Option.bind (unmarshal_struct line) (\<lambda>ms. decode_turn_context ms (raw_object line)) of
        None \<Rightarrow> Inl ''invalid turn context''
      | Some ctx \<Rightarrow>
          if tc_Type ctx \<noteq> ''turn_context'' then Inl ''invalid turn context''
          else (case resumePermissionProfile (tc_SandboxType ctx) (tc_ProfileType ctx) of
             Inl err \<Rightarrow> Inl err
           | Inr permissions \<Rightarrow>
               let settings = (tc_Settings ctx)\<lparr>se_Permissions := permissions\<rparr>
               in (case validateResumeSettings settings of
                     Some err \<Rightarrow> Inl err
                   | None \<Rightarrow> Inr settings)))"

text \<open>\<open>persistedThreadSettingsEvent\<close>: its two types, the applied values, the active profile.\<close>

record applied_settings =
  as_Type :: string
  as_PayloadType :: string
  as_Profile :: "string option"
  as_Settings :: ResumeSettings

definition decode_applied :: "(string \<times> json) list \<Rightarrow> (string \<times> string) list \<Rightarrow> applied_settings option" where
  "decode_applied ms raws =
     do {
       typ \<leftarrow> string_field ''type'' ms;
       payload \<leftarrow> dec_nested ''payload'' ms;
       payloadType \<leftarrow> string_field ''type'' payload;
       ts \<leftarrow> dec_nested ''thread_settings'' payload;
       model \<leftarrow> string_field ''model'' ts;
       provider \<leftarrow> string_field ''model_provider_id'' ts;
       tier \<leftarrow> string_field ''service_tier'' ts;
       reviewer \<leftarrow> string_field ''approvals_reviewer'' ts;
       profile \<leftarrow> dec_nested ''permission_profile'' ts;
       profileType \<leftarrow> string_field ''type'' profile;
       pointer \<leftarrow> dec_pointer ''active_permission_profile'' ts None;
       active \<leftarrow> (case pointer of None \<Rightarrow> Some None | Some xs \<Rightarrow> map_option Some (string_field ''id'' xs));
       cwd \<leftarrow> string_field ''cwd'' ts;
       effort \<leftarrow> string_field ''reasoning_effort'' ts;
       summary \<leftarrow> string_field ''reasoning_summary'' ts;
       personality \<leftarrow> string_field ''personality'' ts;
       Some \<lparr>as_Type = typ, as_PayloadType = payloadType, as_Profile = active,
         as_Settings =
           \<lparr>se_CWD = cwd, se_RuntimeWorkspaceRoots = [],
            se_ApprovalPolicy =
              raw_field ''approval_policy'' (raw_nested ''thread_settings'' (raw_nested ''payload'' raws)),
            se_ApprovalsReviewer = reviewer, se_Model = model, se_ModelProvider = provider,
            se_ServiceTier = tier, se_Personality = personality, se_Permissions = [],
            se_Effort = effort, se_Summary = summary\<rparr>\<rparr>
     }"

definition or_else :: "string \<Rightarrow> string \<Rightarrow> string" where
  "or_else applied old = (if applied \<noteq> [] then applied else old)"

definition apply_settings :: "applied_settings \<Rightarrow> ResumeSettings \<Rightarrow> ResumeSettings" where
  "apply_settings event s =
     (let a = as_Settings event
      in \<lparr>se_CWD = or_else (se_CWD a) (se_CWD s),
          se_RuntimeWorkspaceRoots = se_RuntimeWorkspaceRoots s,
          se_ApprovalPolicy = or_else (se_ApprovalPolicy a) (se_ApprovalPolicy s),
          se_ApprovalsReviewer = or_else (se_ApprovalsReviewer a) (se_ApprovalsReviewer s),
          se_Model = or_else (se_Model a) (se_Model s),
          se_ModelProvider = se_ModelProvider a, se_ServiceTier = se_ServiceTier a,
          se_Personality = or_else (se_Personality a) (se_Personality s),
          se_Permissions = (case as_Profile event of
              None \<Rightarrow> se_Permissions s | Some pid \<Rightarrow> or_else pid (se_Permissions s)),
          se_Effort = or_else (se_Effort a) (se_Effort s),
          se_Summary = or_else (se_Summary a) (se_Summary s)\<rparr>)"

definition mergeAppliedThreadSettings :: "ResumeSettings \<Rightarrow> string \<Rightarrow> string + ResumeSettings" where
  "mergeAppliedThreadSettings settings line =
     (case Option.bind (unmarshal_struct line) (\<lambda>ms. decode_applied ms (raw_object line)) of
        None \<Rightarrow> Inl ''invalid thread settings record''
      | Some event \<Rightarrow>
          if as_Type event \<noteq> ''event_msg'' \<or> as_PayloadType event \<noteq> ''thread_settings_applied''
          then Inl ''invalid thread settings record''
          else Inr (apply_settings event settings))"

subsection \<open>Finding the last record of a kind\<close>

text \<open>
  \<open>topLevelStringField\<close> reads tokens from the start of a record until the wanted key. The
  text is what follows the brace or the last value; the flag says that a comma must come first.
  Its first argument bounds the number of members; every member takes some text.
\<close>

fun string_member :: "nat \<Rightarrow> bool \<Rightarrow> string \<Rightarrow> string \<Rightarrow> string" where
  "string_member 0 comma wanted s = []"
| "string_member (Suc n) comma wanted s =
     (case (if comma then (case next_char s of
              Some (c, cs) \<Rightarrow> if c = CHR '','' then next_char cs else None | None \<Rightarrow> None)
            else next_char s) of
        None \<Rightarrow> []
      | Some (q, qs) \<Rightarrow>
          if q \<noteq> CHR 0x22 then []
          else (case parse_chars qs of
             None \<Rightarrow> []
           | Some (name, r) \<Rightarrow>
               (case next_char r of
                  None \<Rightarrow> []
                | Some (c, cs) \<Rightarrow>
                    if c \<noteq> CHR '':'' then []
                    else if name = wanted then
                      (case next_char cs of
                         None \<Rightarrow> []
                       | Some (v, vs) \<Rightarrow>
                           if v \<noteq> CHR 0x22 then []
                           else (case parse_chars vs of None \<Rightarrow> [] | Some (value, _) \<Rightarrow> value))
                    else (case first_value cs of
                       None \<Rightarrow> []
                     | Some (_, rest) \<Rightarrow> string_member n True wanted rest))))"

definition topLevelStringField :: "string \<Rightarrow> string \<Rightarrow> string" where
  "topLevelStringField text wanted =
     (case next_char text of
        Some (c, cs) \<Rightarrow> if c = CHR ''{'' then string_member (Suc (length cs)) False wanted cs else []
      | None \<Rightarrow> [])"

definition hasTurnContextType :: "string \<Rightarrow> bool" where
  "hasTurnContextType head \<longleftrightarrow> topLevelStringField head ''type'' = ''turn_context''"

definition hasThreadSettingsAppliedType :: "string \<Rightarrow> bool" where
  "hasThreadSettingsAppliedType head \<longleftrightarrow>
     topLevelStringField head ''type'' = ''event_msg'' \<and>
     (contains_sub head (quoted ''type'' @ '':'' @ quoted ''thread_settings_applied'') \<or>
      contains_sub head (quoted ''type'' @ '': '' @ quoted ''thread_settings_applied''))"

text \<open>The bytes of the file from \<open>start\<close> up to \<open>stop\<close>, and one candidate line.\<close>

definition slice :: "string \<Rightarrow> nat \<Rightarrow> nat \<Rightarrow> string" where
  "slice content start stop = take (stop - start) (drop start content)"

definition newline :: char where
  "newline = CHR 0x0A"

definition trim_carriage :: "string \<Rightarrow> string" where
  "trim_carriage line = (if line \<noteq> [] \<and> last line = CHR 0x0D then butlast line else line)"

definition inspectMatchingLine ::
    "string \<Rightarrow> nat \<Rightarrow> nat \<Rightarrow> (string \<Rightarrow> bool) \<Rightarrow> string + string option" where
  "inspectMatchingLine content start stop matches =
     (if stop \<le> start then Inr None
      else
        let size = stop - start;
            head = slice content start (start + min size resumeSettingsPrefixBytes)
        in if \<not> matches head then Inr None
           else if size > maxResumeSettingsLineBytes then Inl ''settings record exceeds size limit''
           else Inr (Some (trim_carriage (slice content start stop))))"

text \<open>
  The inner loop goes down through one block: the first number is how many of its bytes are left,
  \<open>position\<close> where the block begins. It ends with a line or an error (\<open>Inl\<close>), or with the new
  end of the line that is being collected.
\<close>

fun scan_block ::
    "string \<Rightarrow> nat \<Rightarrow> nat \<Rightarrow> nat \<Rightarrow> (string \<Rightarrow> bool) \<Rightarrow> (string + string option) + nat" where
  "scan_block content 0 position lineEnd matches = Inr lineEnd"
| "scan_block content (Suc index) position lineEnd matches =
     (if content ! (position + index) \<noteq> newline then scan_block content index position lineEnd matches
      else (case inspectMatchingLine content (position + index + 1) lineEnd matches of
         Inr None \<Rightarrow> scan_block content index position (position + index) matches
       | res \<Rightarrow> Inl res))"

function scan_blocks :: "string \<Rightarrow> nat \<Rightarrow> nat \<Rightarrow> (string \<Rightarrow> bool) \<Rightarrow> string + string option" where
  "scan_blocks content position lineEnd matches =
     (if position = 0 then inspectMatchingLine content 0 lineEnd matches
      else
        let readSize = min position resumeSettingsSearchBlockBytes;
            position = position - readSize
        in (case scan_block content readSize position lineEnd matches of
              Inl res \<Rightarrow> res
            | Inr lineEnd \<Rightarrow> scan_blocks content position lineEnd matches))"
  by pat_completeness auto
termination
  by (relation "measure (\<lambda>(content, position, lineEnd, matches). position)")
    (auto simp: resumeSettingsSearchBlockBytes_def)

declare scan_blocks.simps [simp del]

definition findLatestMatchingLine :: "string \<Rightarrow> (string \<Rightarrow> bool) \<Rightarrow> string + string option" where
  "findLatestMatchingLine content matches =
     scan_blocks content (length content) (length content) matches"

text \<open>\<open>loadLatestResumeSettings\<close> once the file is open; every fault is \<open>errResumeSettingsUnavailable\<close>.\<close>

definition loadLatestResumeSettings :: "string \<Rightarrow> string + ResumeSettings" where
  "loadLatestResumeSettings content =
     (case findLatestMatchingLine content hasTurnContextType of
        Inl err \<Rightarrow> Inl err
      | Inr None \<Rightarrow> Inl ''turn context missing''
      | Inr (Some contextLine) \<Rightarrow>
          (case parseResumeSettings contextLine of
             Inl err \<Rightarrow> Inl err
           | Inr settings \<Rightarrow>
               (case (case findLatestMatchingLine content hasThreadSettingsAppliedType of
                   Inl err \<Rightarrow> Inl err
                 | Inr None \<Rightarrow> Inr settings
                 | Inr (Some settingsLine) \<Rightarrow> mergeAppliedThreadSettings settings settingsLine) of
                  Inl err \<Rightarrow> Inl err
                | Inr settings \<Rightarrow>
                    (case validateResumeSettings settings of
                       Some err \<Rightarrow> Inl err
                     | None \<Rightarrow> Inr settings))))"

subsection \<open>The search finds the last matching line\<close>

text \<open>
  What the search means: of the nonempty lines of the file, the last one whose first 4096 bytes
  match; an error if that line is too long.
\<close>

fun lines_of :: "string \<Rightarrow> string list" where
  "lines_of [] = [[]]"
| "lines_of (c # cs) =
     (if c = newline then [] # lines_of cs
      else (case lines_of cs of l # ls \<Rightarrow> (c # l) # ls | [] \<Rightarrow> [[c]]))"

definition line_result :: "(string \<Rightarrow> bool) \<Rightarrow> string \<Rightarrow> string + string option" where
  "line_result matches line =
     (if line = [] \<or> \<not> matches (take resumeSettingsPrefixBytes line) then Inr None
      else if length line > maxResumeSettingsLineBytes then Inl ''settings record exceeds size limit''
      else Inr (Some (trim_carriage line)))"

definition latest_line :: "(string \<Rightarrow> bool) \<Rightarrow> string list \<Rightarrow> string + string option" where
  "latest_line matches ls =
     (case find (\<lambda>l. l \<noteq> [] \<and> matches (take resumeSettingsPrefixBytes l)) (rev ls) of
        None \<Rightarrow> Inr None
      | Some l \<Rightarrow> line_result matches l)"

lemma lines_of_ne: "lines_of s \<noteq> []"
  by (induction s) (auto split: list.split)

lemma lines_of_line: "newline \<notin> set s \<Longrightarrow> lines_of s = [s]"
  by (induction s) auto

lemma lines_of_append: "lines_of (a @ newline # b) = lines_of a @ lines_of b"
proof (induction a)
  case (Cons c a)
  then show ?case using lines_of_ne [of a] by (cases "lines_of a") auto
qed simp

lemma latest_line_snoc:
  "latest_line matches (ls @ [l]) =
   (case line_result matches l of Inr None \<Rightarrow> latest_line matches ls | r \<Rightarrow> r)"
  by (auto simp: latest_line_def line_result_def)

lemma latest_line_single: "latest_line matches [l] = line_result matches l"
  by (auto simp: latest_line_def line_result_def)

lemma inspect_line:
  assumes "stop \<le> length content"
  shows "inspectMatchingLine content start stop matches = line_result matches (slice content start stop)"
proof (cases "stop \<le> start")
  case True
  then show ?thesis by (simp add: inspectMatchingLine_def line_result_def slice_def)
next
  case False
  then have "length (slice content start stop) = stop - start"
    using assms by (simp add: slice_def)
  moreover have "slice content start (start + min (stop - start) resumeSettingsPrefixBytes) =
      take resumeSettingsPrefixBytes (slice content start stop)"
    by (simp add: slice_def min.commute)
  moreover have "slice content start stop \<noteq> []"
    using False assms by (simp add: slice_def)
  ultimately show ?thesis
    using False by (simp add: inspectMatchingLine_def line_result_def Let_def)
qed

text \<open>The two loops as one, over single bytes.\<close>

fun scan_down :: "string \<Rightarrow> nat \<Rightarrow> nat \<Rightarrow> (string \<Rightarrow> bool) \<Rightarrow> string + string option" where
  "scan_down content 0 lineEnd matches = inspectMatchingLine content 0 lineEnd matches"
| "scan_down content (Suc i) lineEnd matches =
     (if content ! i \<noteq> newline then scan_down content i lineEnd matches
      else (case inspectMatchingLine content (Suc i) lineEnd matches of
         Inr None \<Rightarrow> scan_down content i i matches
       | res \<Rightarrow> res))"

lemma scan_block_down:
  "scan_down content (position + n) lineEnd matches =
   (case scan_block content n position lineEnd matches of
      Inl res \<Rightarrow> res | Inr lineEnd' \<Rightarrow> scan_down content position lineEnd' matches)"
  by (induction n arbitrary: lineEnd) (auto split: sum.split option.split)

lemma scan_blocks_down:
  "scan_blocks content position lineEnd matches = scan_down content position lineEnd matches"
proof (induction content position lineEnd matches rule: scan_blocks.induct)
  case (1 content position lineEnd matches)
  show ?case
  proof (cases "position = 0")
    case True
    then show ?thesis by (simp add: scan_blocks.simps)
  next
    case False
    define n where "n = min position resumeSettingsSearchBlockBytes"
    have "position - n + n = position" by (simp add: n_def)
    with scan_block_down [of content "position - n" n lineEnd matches] False show ?thesis
      using "1.IH" [OF False n_def refl]
      by (subst scan_blocks.simps) (auto simp: n_def [symmetric] Let_def split: sum.split)
  qed
qed

lemma scan_down_latest:
  "i \<le> e \<Longrightarrow> e \<le> length content \<Longrightarrow> newline \<notin> set (slice content i e) \<Longrightarrow>
   scan_down content i e matches = latest_line matches (lines_of (take e content))"
proof (induction i arbitrary: e)
  case 0
  then show ?case
    by (simp add: inspect_line slice_def lines_of_line latest_line_single)
next
  case (Suc i)
  have step: "slice content i e = content ! i # slice content (Suc i) e"
    using Suc.prems unfolding slice_def
    by (simp add: Cons_nth_drop_Suc [symmetric] Suc_diff_Suc take_Cons')
  show ?case
  proof (cases "content ! i = newline")
    case False
    then show ?thesis using Suc step by simp
  next
    case True
    have "take e content = take i content @ newline # slice content (Suc i) e"
    proof -
      have "take e content = take i content @ slice content i e"
        using Suc.prems(1) by (metis slice_def add_diff_inverse_nat Suc_leD not_less take_add)
      then show ?thesis using step True by simp
    qed
    then have "lines_of (take e content) = lines_of (take i content) @ [slice content (Suc i) e]"
      using Suc.prems(3) by (simp add: lines_of_append lines_of_line)
    moreover have "scan_down content i i matches = latest_line matches (lines_of (take i content))"
      using Suc.IH [of i] Suc.prems by (simp add: slice_def)
    ultimately show ?thesis
      using True Suc.prems by (simp add: inspect_line latest_line_snoc split: sum.split option.split)
  qed
qed

lemma findLatestMatchingLine_spec:
  "findLatestMatchingLine content matches = latest_line matches (lines_of content)"
  using scan_down_latest [of "length content" "length content" content matches]
  by (simp add: findLatestMatchingLine_def scan_blocks_down slice_def)

subsection \<open>Records as the code sees them\<close>

lemma topLevelStringField_text:
  "topLevelStringField (json_text (JObject ((wanted, JString t) # ms))) wanted = t"
proof -
  have "next_char (string_text t @ s) = Some (CHR 0x22, tl (string_text t) @ s)" for s by simp
  then show ?thesis
    unfolding topLevelStringField_def json_text_compound
    by (simp add: parse_string_text)
qed

lemma lines_of_text: "lines_of (json_text v) = [json_text v]"
proof (rule lines_of_line)
  have "byte newline < 32" by (simp add: newline_def byte_def)
  then show "newline \<notin> set (json_text v)" using json_text_printable [of newline v] by auto
qed

lemma trim_carriage_text: "trim_carriage (json_text v) = json_text v"
proof -
  have "last (json_text v) \<in> set (json_text v)" if "json_text v \<noteq> []" using that by simp
  from this [THEN json_text_printable] show ?thesis by (auto simp: trim_carriage_def byte_def)
qed

subsection \<open>Properties\<close>

text \<open>
  C25: the search through the file, backwards in blocks of 64 KB and line by line, finds exactly the
  last nonempty line whose beginning matches, whatever the content and wherever the block
  boundaries fall; it fails exactly when that line is longer than 8 MB.
\<close>

theorem latest_record_found:
  "findLatestMatchingLine content matches = latest_line matches (lines_of content)"
  by (rule findLatestMatchingLine_spec)

lemma permissionProfile_Inr:
  "resumePermissionProfile sandbox profile = Inr p \<Longrightarrow>
   (p, sandbox) \<in> {('':danger-full-access'', ''danger-full-access''), ('':read-only'', ''read-only''),
     ('':workspace'', ''workspace-write'')}"
  by (auto simp: resumePermissionProfile_def split: if_splits)

lemma parseResumeSettings_Inr:
  assumes "parseResumeSettings line = Inr s"
  shows "validateResumeSettings s = None \<and> (\<exists>sandbox profile. resumePermissionProfile sandbox profile = Inr (se_Permissions s))"
  using assms
  by (force simp: parseResumeSettings_def Let_def split: option.splits if_splits sum.splits)


definition sample_context :: json where
  "sample_context = JObject
     [(''type'', JString ''turn_context''),
      (''payload'', JObject
        [(''cwd'', JString ''C:/w''), (''approval_policy'', JString ''never''),
         (''sandbox_policy'', JObject [(''type'', JString ''read-only'')]),
         (''model'', JString ''m''), (''effort'', JString ''high'')])]"

definition sample_settings :: ResumeSettings where
  "sample_settings =
     \<lparr>se_CWD = ''C:/w'', se_RuntimeWorkspaceRoots = [], se_ApprovalPolicy = json_text (JString ''never''),
      se_ApprovalsReviewer = [], se_Model = ''m'', se_ModelProvider = [], se_ServiceTier = [],
      se_Personality = [], se_Permissions = '':read-only'', se_Effort = ''high'', se_Summary = []\<rparr>"

lemma sample_settings_valid: "validateResumeSettings sample_settings = None"
proof -
  have "validApprovalPolicy (se_ApprovalPolicy sample_settings)"
    by (simp only: validApprovalPolicy_def sample_settings_def ResumeSettings.simps parse_json_text) simp
  moreover have "validAbsoluteSettingPath ''C:/w''" "validBoundedSetting ''m''" "validBoundedSetting ''high''"
      "validBoundedSetting '':read-only''"
    by (simp_all add: validAbsoluteSettingPath_def validBoundedSetting_def maxResumeSettingStringBytes_def
        filepath_IsAbs_def is_sep_def byte_def)
  ultimately show ?thesis
    by (simp add: validateResumeSettings_def sample_settings_def maxResumeWorkspaceRoots_def
        del: json_text.simps)
qed

lemma sample_context_parsed: "parseResumeSettings (json_text sample_context) = Inr sample_settings"
proof -
  let ?raws = "raw_object (json_text sample_context)"
  have policy: "raw_field ''approval_policy'' (raw_nested ''payload'' ?raws) = json_text (JString ''never'')"
    unfolding sample_context_def raw_object_text
    by (simp add: raw_nested_def raw_object_text raw_field_def key_simps del: json_text.simps)
  obtain ms where ms: "sample_context = JObject ms" by (simp add: sample_context_def)
  have "decode_turn_context ms ?raws = Some \<lparr>tc_Type = ''turn_context'', tc_SandboxType = ''read-only'',
      tc_ProfileType = [], tc_Settings = sample_settings\<lparr>se_Permissions := []\<rparr>\<rparr>"
    using ms unfolding decode_turn_context_def policy
    by (auto simp: sample_context_def string_field_def key_simps json_string_def sample_settings_def
        simp del: json_text.simps)
  moreover have "unmarshal_struct (json_text sample_context) = Some ms"
    unfolding ms by (rule unmarshal_struct_text)
  moreover have "sample_settings\<lparr>se_Permissions := '':read-only''\<rparr> = sample_settings"
    by (simp add: sample_settings_def)
  ultimately show ?thesis
    using sample_settings_valid
    by (simp add: parseResumeSettings_def resumePermissionProfile_def del: json_text.simps)
qed


end
