(* ===== verification/Event_Parsing.thy ===== *)
theory Event_Parsing
  imports Events Thread_Id Json_Raw "HOL-Library.Monad_Syntax"
begin

section \<open>From a line of a rollout file to an event (events.go)\<close>

text \<open>
  A line is its bytes. \<open>time.Parse(time.RFC3339Nano, s)\<close> is the parameter \<open>parse_time\<close>, the clock
  the parameter \<open>now\<close>, which stands in for a time stamp that does not parse.
\<close>

subsection \<open>The structs\<close>

record eventEnvelope =
  ev_Timestamp :: string
  ev_Type :: string
  ev_Payload :: string

record goalPayload =
  gp_ThreadID :: string
  gp_Status :: string
  gp_UpdatedAt :: int

record eventPayload =
  ep_Type :: string
  ep_ThreadID :: string
  ep_TurnID :: string
  ep_Error :: string
  ep_LastAgentMessage :: string
  ep_Reason :: string
  ep_Goal :: "goalPayload option"

definition decode_envelope :: "string \<Rightarrow> eventEnvelope option" where
  "decode_envelope line =
     do {
       ms \<leftarrow> unmarshal_struct line;
       stamp \<leftarrow> string_field ''timestamp'' ms;
       kind \<leftarrow> string_field ''type'' ms;
       Some \<lparr>ev_Timestamp = stamp, ev_Type = kind, ev_Payload = raw_field ''payload'' (raw_object line)\<rparr>
     }"

definition decode_goal :: "(string \<times> json) list \<Rightarrow> goalPayload option" where
  "decode_goal ms =
     do {
       threadID \<leftarrow> string_field ''threadId'' ms;
       status \<leftarrow> string_field ''status'' ms;
       updated \<leftarrow> dec_field json_int ''updatedAt'' ms 0;
       Some \<lparr>gp_ThreadID = threadID, gp_Status = status, gp_UpdatedAt = updated\<rparr>
     }"

definition decode_payload :: "string \<Rightarrow> eventPayload option" where
  "decode_payload raw =
     do {
       ms \<leftarrow> unmarshal_struct raw;
       kind \<leftarrow> string_field ''type'' ms;
       threadID \<leftarrow> string_field ''threadId'' ms;
       turnID \<leftarrow> string_field ''turn_id'' ms;
       reason \<leftarrow> string_field ''reason'' ms;
       pointer \<leftarrow> dec_pointer ''goal'' ms None;
       goal \<leftarrow> (case pointer of None \<Rightarrow> Some None | Some xs \<Rightarrow> map_option Some (decode_goal xs));
       Some \<lparr>ep_Type = kind, ep_ThreadID = threadID, ep_TurnID = turnID,
         ep_Error = raw_field ''error'' (raw_object raw),
         ep_LastAgentMessage = raw_field ''last_agent_message'' (raw_object raw),
         ep_Reason = reason, ep_Goal = goal\<rparr>
     }"

text \<open>\<open>responseItemPayload\<close>: type and role.\<close>

definition decode_item :: "string \<Rightarrow> (string \<times> string) option" where
  "decode_item raw =
     do {
       ms \<leftarrow> unmarshal_struct raw;
       kind \<leftarrow> string_field ''type'' ms;
       role \<leftarrow> string_field ''role'' ms;
       Some (kind, role)
     }"

text \<open>The content items of \<open>recoveryNoticePayload\<close>: type and text.\<close>

definition decode_content_item :: "json \<Rightarrow> (string \<times> string) option" where
  "decode_content_item v =
     (case v of
        JNull \<Rightarrow> Some ([], [])
      | JObject ms \<Rightarrow>
          do { kind \<leftarrow> string_field ''type'' ms; body \<leftarrow> string_field ''text'' ms; Some (kind, body) }
      | _ \<Rightarrow> None)"

fun decode_content :: "json list \<Rightarrow> (string \<times> string) list option" where
  "decode_content [] = Some []"
| "decode_content (v # vs) =
     do { item \<leftarrow> decode_content_item v; items \<leftarrow> decode_content vs; Some (item # items) }"

definition json_content :: "json \<Rightarrow> (string \<times> string) list option" where
  "json_content v = (case v of JArray vs \<Rightarrow> decode_content vs | _ \<Rightarrow> None)"

record recoveryNotice =
  rn_ParentThreadID :: string
  rn_ChildThreadID :: string
  rn_RecoveryEventID :: string
  rn_Action :: string
  rn_SpawnReplacement :: bool

definition decode_notice :: "string \<Rightarrow> recoveryNotice option" where
  "decode_notice raw =
     do {
       ms \<leftarrow> unmarshal_struct raw;
       parent \<leftarrow> string_field ''parent_thread_id'' ms;
       child \<leftarrow> string_field ''child_thread_id'' ms;
       event \<leftarrow> string_field ''recovery_event_id'' ms;
       action \<leftarrow> string_field ''action'' ms;
       spawn \<leftarrow> bool_field ''spawn_replacement'' ms;
       Some \<lparr>rn_ParentThreadID = parent, rn_ChildThreadID = child, rn_RecoveryEventID = event,
         rn_Action = action, rn_SpawnReplacement = spawn\<rparr>
     }"

subsection \<open>The recovery notice\<close>

definition recoveryNoticePrefix :: string where
  "recoveryNoticePrefix = ''codex-auto-retry:subagent-empty-response-recovery:v1:''"

definition validThread :: "string \<Rightarrow> bool" where
  "validThread value \<longleftrightarrow> value \<noteq> [] \<and> threadIDFromPath (value @ ''.jsonl'') = value"

definition notice_event :: "gotime \<Rightarrow> recoveryNotice \<Rightarrow> RelevantEvent option" where
  "notice_event timestamp notice =
     (let parentID = to_lower (trim_space (rn_ParentThreadID notice));
          childID = to_lower (trim_space (rn_ChildThreadID notice));
          eventID = to_lower (trim_space (rn_RecoveryEventID notice))
      in if \<not> validThread parentID \<or> \<not> validThread childID \<or> parentID = childID \<or>
            \<not> recovery_event_id eventID \<or> rn_Action notice \<noteq> ''resume_existing_child'' \<or>
            rn_SpawnReplacement notice
         then None
         else Some (zero_RelevantEvent\<lparr>e_Kind := ''subagent_recovery_notice'', e_ThreadID := childID,
                e_Timestamp := timestamp, e_ParentThreadID := parentID, e_RecoveryEventID := eventID\<rparr>))"

fun first_notice :: "gotime \<Rightarrow> (string \<times> string) list \<Rightarrow> RelevantEvent option" where
  "first_notice timestamp [] = None"
| "first_notice timestamp ((kind, body) # items) =
     (if kind \<noteq> ''input_text'' \<or> \<not> prefix recoveryNoticePrefix body then first_notice timestamp items
      else Option.bind (decode_notice (trim_prefix recoveryNoticePrefix body)) (notice_event timestamp))"

definition parseRecoveryNotice :: "string \<Rightarrow> gotime \<Rightarrow> RelevantEvent option" where
  "parseRecoveryNotice raw timestamp =
     do {
       ms \<leftarrow> unmarshal_struct raw;
       kind \<leftarrow> string_field ''type'' ms;
       role \<leftarrow> string_field ''role'' ms;
       content \<leftarrow> dec_field json_content ''content'' ms [];
       if kind \<noteq> ''message'' \<or> role \<noteq> ''developer'' then None else first_notice timestamp content
     }"

subsection \<open>Response items\<close>

definition event_time :: "(string \<Rightarrow> gotime option) \<Rightarrow> gotime \<Rightarrow> eventEnvelope \<Rightarrow> gotime" where
  "event_time parse_time now envelope =
     (case parse_time (ev_Timestamp envelope) of Some t \<Rightarrow> t | None \<Rightarrow> now)"

definition parseResponseItemEvent ::
    "(string \<Rightarrow> gotime option) \<Rightarrow> gotime \<Rightarrow> string \<Rightarrow> RelevantEvent option" where
  "parseResponseItemEvent parse_time now line =
     (if \<not> contains_sub line (quoted ''response_item'') \<or>
         (\<not> contains_sub line (quoted ''custom_tool_call_output'') \<and>
          \<not> contains_sub line (quoted ''function_call_output'') \<and> \<not> contains_sub line (quoted ''message''))
      then None
      else case decode_envelope line of
          None \<Rightarrow> None
        | Some envelope \<Rightarrow>
            if ev_Type envelope \<noteq> ''response_item'' then None
            else (case decode_item (ev_Payload envelope) of
               None \<Rightarrow> None
             | Some (kind, role) \<Rightarrow>
                 let timestamp = event_time parse_time now envelope;
                     notice = (if kind = ''message'' \<and> role = ''developer'' \<and>
                                  contains_sub (ev_Payload envelope) recoveryNoticePrefix
                               then parseRecoveryNotice (ev_Payload envelope) timestamp else None);
                     progress = (kind = ''custom_tool_call_output'' \<or> kind = ''function_call_output'' \<or>
                                 (kind = ''message'' \<and> role = ''assistant''))
                 in case notice of
                      Some event \<Rightarrow> Some event
                    | None \<Rightarrow>
                        if \<not> progress then None
                        else Some (zero_RelevantEvent\<lparr>e_Kind := ''task_progress'', e_Timestamp := timestamp\<rparr>)))"

subsection \<open>Event messages\<close>

definition relevant_types :: "string list" where
  "relevant_types =
     [''task_started'', ''task_complete'', ''turn_aborted'', ''user_message'', ''thread_goal_updated'']"

definition goal_event :: "eventPayload \<Rightarrow> gotime \<Rightarrow> RelevantEvent \<Rightarrow> RelevantEvent option" where
  "goal_event payload timestamp event =
     (case ep_Goal payload of
        None \<Rightarrow> None
      | Some goal \<Rightarrow>
          if trim_space (gp_Status goal) = [] then None
          else
            let own = to_lower (trim_space (ep_ThreadID payload));
                goalThreadID = (if own = [] then to_lower (trim_space (gp_ThreadID goal)) else own)
            in if goalThreadID = [] \<or> threadIDFromPath (goalThreadID @ ''.jsonl'') \<noteq> goalThreadID then None
               else Some (event\<lparr>e_ThreadID := goalThreadID, e_GoalStatus := trim_space (gp_Status goal),
                      e_GoalUpdatedAt := persistedGoalTime (gp_UpdatedAt goal) timestamp\<rparr>))"

definition payload_event :: "eventPayload \<Rightarrow> gotime \<Rightarrow> RelevantEvent option" where
  "payload_event payload timestamp =
     (let kind = ep_Type payload;
          event = zero_RelevantEvent\<lparr>
            e_Kind := (if kind = ''user_message'' then ''task_user_input'' else kind),
            e_TurnID := ep_TurnID payload, e_Timestamp := timestamp,
            e_ErrorText := extractErrorText (ep_Error payload),
            e_AbortReason := trim_space (ep_Reason payload)\<rparr>;
          event = (if kind = ''task_complete''
                   then (case completionMessageState (ep_LastAgentMessage payload) of
                           (known, has) \<Rightarrow> event\<lparr>e_FinalKnown := known, e_FinalPresent := has\<rparr>)
                   else event)
      in if kind \<notin> set relevant_types then None
         else if kind = ''thread_goal_updated'' then goal_event payload timestamp event
         else Some event)"

definition parseRelevantEvent ::
    "(string \<Rightarrow> gotime option) \<Rightarrow> gotime \<Rightarrow> string \<Rightarrow> RelevantEvent option" where
  "parseRelevantEvent parse_time now line =
     (case parseResponseItemEvent parse_time now line of
        Some event \<Rightarrow> Some event
      | None \<Rightarrow>
          if \<not> contains_sub line (quoted ''event_msg'') \<or>
             list_all (\<lambda>t. \<not> contains_sub line (quoted t)) relevant_types then None
          else (case decode_envelope line of
             None \<Rightarrow> None
           | Some envelope \<Rightarrow>
               if ev_Type envelope \<noteq> ''event_msg'' then None
               else (case decode_payload (ev_Payload envelope) of
                  None \<Rightarrow> None
                | Some payload \<Rightarrow> payload_event payload (event_time parse_time now envelope))))"

end
