(* ===== verification/App_Server.thy ===== *)
theory App_Server
  imports Runner Resume_Settings Event_Parsing
begin

section \<open>What the app server says (shared\_controller.go, app\_server\_rpc.go)\<close>

text \<open>
  The decisions of the shared controller that look at one reply: when a goal holds a thread back,
  when a conversation may go on beside a held goal, who the parent of a thread is, and what an
  error means. A reply is the struct the code decodes it into; a \<open>json.RawMessage\<close> in it is its
  text. \<open>time.Parse(time.RFC3339Nano, s)\<close> is a parameter; \<open>strconv.ParseFloat\<close> is written out
  for decimal numbers (hexadecimal ones, infinities and underscores are left out), as an exact
  decimal: rounding to \<open>float64\<close> is not modelled.
\<close>

subsection \<open>Replies\<close>

record appThread =
  at_ParentThreadID :: string
  at_StatusType :: string
  at_Source :: string

record appGoal =
  gl_Status :: string
  gl_UpdatedAt :: string

definition retryLaterResult :: "string \<Rightarrow> bool \<Rightarrow> DispatchResult" where
  "retryLaterResult reason parentNotified =
     \<lparr>d_Outcome = outcomeRetryLater, d_Action = actionOther [], d_Reason = reason,
      d_ParentNotified = parentNotified\<rparr>"

definition notApplicableResult :: "string \<Rightarrow> bool \<Rightarrow> DispatchResult" where
  "notApplicableResult reason parentNotified =
     \<lparr>d_Outcome = outcomeNotApplicable, d_Action = actionOther [], d_Reason = reason,
      d_ParentNotified = parentNotified\<rparr>"

definition userActiveResult :: "bool \<Rightarrow> DispatchResult" where
  "userActiveResult parentNotified =
     \<lparr>d_Outcome = outcomeUserActive, d_Action = actionOther [], d_Reason = ''thread_active'',
      d_ParentNotified = parentNotified\<rparr>"

definition dispatchedResult :: "RetryAction \<Rightarrow> string \<Rightarrow> bool \<Rightarrow> DispatchResult" where
  "dispatchedResult action reason parentNotified =
     \<lparr>d_Outcome = outcomeDispatched, d_Action = action, d_Reason = reason,
      d_ParentNotified = parentNotified\<rparr>"

text \<open>\<open>appThreadParentID\<close>: the direct field, else \<open>source.subAgent.thread_spawn.parent_thread_id\<close>.\<close>

definition json_member :: "string \<Rightarrow> json \<Rightarrow> json" where
  "json_member key v =
     (case v of
        JObject ms \<Rightarrow> (case map_of (json_map ms) key of Some w \<Rightarrow> w | None \<Rightarrow> JNull)
      | _ \<Rightarrow> JNull)"

definition appThreadParentID :: "string \<Rightarrow> string \<Rightarrow> string" where
  "appThreadParentID direct source =
     (if direct \<noteq> [] then direct
      else case parse_json source of
             None \<Rightarrow> []
           | Some v \<Rightarrow>
               (case json_member ''parent_thread_id'' (json_member ''thread_spawn'' (json_member ''subAgent'' v)) of
                  JString parentID \<Rightarrow> parentID
                | _ \<Rightarrow> []))"

subsection \<open>Goals\<close>

text \<open>A decimal number: mantissa and power of ten.\<close>

definition decimal_unsigned :: "string \<Rightarrow> (nat \<times> int) option" where
  "decimal_unsigned s =
     (let whole = takeWhile is_digit s; s1 = dropWhile is_digit s;
          (frac, s2) = (case s1 of
              c # cs \<Rightarrow> if c = CHR ''.'' then (takeWhile is_digit cs, dropWhile is_digit cs) else ([], s1)
            | [] \<Rightarrow> ([], s1))
      in if whole = [] \<and> frac = [] then None
         else (case scan_exponent s2 of
             Some (e, []) \<Rightarrow>
               Some (digits_value (whole @ frac), (case e of None \<Rightarrow> 0 | Some x \<Rightarrow> x) - int (length frac))
           | _ \<Rightarrow> None))"

definition ParseFloat :: "string \<Rightarrow> (int \<times> int) option" where
  "ParseFloat s =
     (case s of
        [] \<Rightarrow> None
      | c # cs \<Rightarrow>
          if c = CHR ''-'' then map_option (\<lambda>(m, e). (- int m, e)) (decimal_unsigned cs)
          else if c = CHR ''+'' then map_option (\<lambda>(m, e). (int m, e)) (decimal_unsigned cs)
          else map_option (\<lambda>(m, e). (int m, e)) (decimal_unsigned s))"

text \<open>The time that the number \<open>m * 10 ^ e\<close> stands for: seconds, or milliseconds above \<open>10 ^ 11\<close>.\<close>

definition number_time :: "int \<times> int \<Rightarrow> gotime option" where
  "number_time v =
     (let (m, e) = v;
          whole = (if 0 \<le> e then m * 10 ^ nat e else m div 10 ^ nat (- e));
          big = (if 0 \<le> e then 10 ^ 11 < m * 10 ^ nat e else 10 ^ 11 * 10 ^ nat (- e) < m)
      in if m \<le> 0 then None
         else Some (unix_epoch + whole * (if big then Millisecond else Second)))"

definition appGoalUpdatedAt :: "(string \<Rightarrow> gotime option) \<Rightarrow> appGoal option \<Rightarrow> gotime" where
  "appGoalUpdatedAt parse_time goal =
     (case goal of
        None \<Rightarrow> 0
      | Some g \<Rightarrow>
          (case parse_json (gl_UpdatedAt g) of
             Some (JInt n) \<Rightarrow> (case number_time (n, 0) of Some t \<Rightarrow> t | None \<Rightarrow> 0)
           | Some (JFloat m e) \<Rightarrow> (case number_time (m, e) of Some t \<Rightarrow> t | None \<Rightarrow> 0)
           | Some (JString value) \<Rightarrow>
               (case parse_time value of
                  Some t \<Rightarrow> t
                | None \<Rightarrow>
                    (case Option.bind (ParseFloat value) number_time of Some t \<Rightarrow> t | None \<Rightarrow> 0))
           | _ \<Rightarrow> 0))"

definition appBlockedByFailure ::
    "(string \<Rightarrow> gotime option) \<Rightarrow> appGoal option \<Rightarrow> gotime \<Rightarrow> bool \<Rightarrow> bool" where
  "appBlockedByFailure parse_time goal failedAt goalLimitRestart =
     (case goal of
        None \<Rightarrow> False
      | Some g \<Rightarrow>
          if gl_Status g \<noteq> ''blocked'' then False
          else if goalLimitRestart then True
          else let updated = appGoalUpdatedAt parse_time goal
               in \<not> is_zero failedAt \<and> \<not> is_zero updated \<and>
                  \<not> Before updated (failedAt - 2 * Second) \<and> \<not> After updated (failedAt + 5 * Second))"

definition appHeldConversationAllowed ::
    "(string \<Rightarrow> gotime option) \<Rightarrow> appGoal option \<Rightarrow> gotime \<Rightarrow> gotime \<Rightarrow> bool \<Rightarrow> bool" where
  "appHeldConversationAllowed parse_time goal failedAt startedAt goalLimitRestart =
     (case goal of
        None \<Rightarrow> False
      | Some g \<Rightarrow>
          if is_zero startedAt then False
          else let updated = appGoalUpdatedAt parse_time goal
               in if is_zero updated \<or> After updated startedAt then False
                  else gl_Status g = ''paused'' \<or>
                       (gl_Status g = ''blocked'' \<and> \<not> appBlockedByFailure parse_time goal failedAt goalLimitRestart))"

definition appGoalRevision :: "appGoal option \<Rightarrow> string" where
  "appGoalRevision goal =
     (case goal of None \<Rightarrow> [] | Some g \<Rightarrow> gl_Status g @ ''|'' @ gl_UpdatedAt g)"

definition appGoalHoldReason ::
    "(string \<Rightarrow> gotime option) \<Rightarrow> appGoal option \<Rightarrow> gotime \<Rightarrow> bool \<Rightarrow> string" where
  "appGoalHoldReason parse_time goal failedAt goalLimitRestart =
     (case goal of
        None \<Rightarrow> []
      | Some g \<Rightarrow>
          if gl_Status g = ''active'' then []
          else if gl_Status g = ''blocked'' then
            (if appBlockedByFailure parse_time goal failedAt goalLimitRestart then []
             else ''goal_blocked_before_failure'')
          else if gl_Status g = ''paused'' then ''goal_paused''
          else if gl_Status g = ''completed'' \<or> gl_Status g = ''complete'' then ''goal_completed''
          else if gl_Status g = ''usageLimited'' then ''goal_usage_limited''
          else if gl_Status g = ''budgetLimited'' then ''goal_budget_limited''
          else ''goal_status_unsupported'')"

subsection \<open>Errors\<close>

text \<open>\<open>errors.As\<close> for the two error types of \<open>app_server_rpc.go\<close>: method and message, or method.\<close>

fun errors_As_request :: "go_error \<Rightarrow> (string \<times> string) option" where
  "errors_As_request (appServerRequestError rpc_method code msg) = Some (rpc_method, msg)"
| "errors_As_request (appServerCallError rpc_method e) = errors_As_request e"
| "errors_As_request (Wrapped detail e) = errors_As_request e"
| "errors_As_request (Joined e e') =
     (case errors_As_request e of Some r \<Rightarrow> Some r | None \<Rightarrow> errors_As_request e')"
| "errors_As_request (Sentinel s) = None"
| "errors_As_request (controllerReasonError r) = None"
| "errors_As_request (OtherError msg) = None"

fun errors_As_call :: "go_error \<Rightarrow> string option" where
  "errors_As_call (appServerCallError rpc_method e) = Some rpc_method"
| "errors_As_call (Wrapped detail e) = errors_As_call e"
| "errors_As_call (appServerRequestError rpc_method code msg) = None"
| "errors_As_call (Joined e e') =
     (case errors_As_call e of Some r \<Rightarrow> Some r | None \<Rightarrow> errors_As_call e')"
| "errors_As_call (Sentinel s) = None"
| "errors_As_call (controllerReasonError r) = None"
| "errors_As_call (OtherError msg) = None"

definition invalidCodexAppTransportError :: "go_error \<Rightarrow> bool" where
  "invalidCodexAppTransportError err =
     (case errors_As_request err of
        None \<Rightarrow> False
      | Some (_, msg) \<Rightarrow>
          let m = to_lower msg
          in contains_sub m ''invalid transport'' \<and>
             (contains_sub m ''mcp_servers.codex_app'' \<or> contains_sub m ''codex_app''))"

definition emptyAppInputUnsupported :: "go_error \<Rightarrow> bool" where
  "emptyAppInputUnsupported err =
     (case errors_As_request err of
        None \<Rightarrow> False
      | Some (_, msg) \<Rightarrow>
          let m = to_lower msg
          in contains_sub m ''input must not be empty'' \<or>
             contains_sub m ''input array must not be empty'' \<or>
             contains_sub m ''at least one input'' \<or>
             (contains_sub m ''input'' \<and> contains_sub m ''minitems''))"

definition request_message_reason :: "string \<Rightarrow> string" where
  "request_message_reason msg =
     (let m = to_lower msg
      in if contains_sub m ''active'' \<or> contains_sub m ''already running'' \<or> contains_sub m ''in progress''
           then ''thread_active''
         else if contains_sub m ''not found'' \<or> contains_sub m ''unknown thread'' \<or> contains_sub m ''no rollout''
           then ''thread_not_found''
         else if contains_sub m ''model provider'' \<or> contains_sub m ''configuration''
           then ''thread_config_unavailable''
         else if contains_sub m ''not initialized'' \<or> contains_sub m ''not ready''
           then ''codex_app_not_ready''
         else [])"

definition method_reason :: "string \<Rightarrow> string" where
  "method_reason rpc_method =
     (if rpc_method = ''thread/loaded/list'' then ''app_server_loaded_list_failed''
      else if rpc_method = ''thread/resume'' then ''app_server_thread_resume_failed''
      else if rpc_method = ''thread/read'' then ''app_server_thread_read_failed''
      else if rpc_method = ''thread/goal/get'' then ''app_server_goal_read_failed''
      else if rpc_method = ''thread/goal/set'' then ''app_server_goal_update_failed''
      else if rpc_method = ''turn/start'' then ''app_server_turn_start_failed''
      else if rpc_method = ''thread/inject_items'' then ''app_server_subagent_inject_failed''
      else ''app_server_request_failed'')"

definition classifyAppServerError :: "go_error \<Rightarrow> string" where
  "classifyAppServerError err =
     (if errors_Is (Some err) errResumeSettingsUnavailable then ''thread_settings_unavailable''
      else if invalidCodexAppTransportError err then ''shared_app_server_config_invalid''
      else
        let requestReason = (case errors_As_request err of
                Some (_, msg) \<Rightarrow> request_message_reason msg | None \<Rightarrow> []);
            requestMethod = (case errors_As_request err of Some (m, _) \<Rightarrow> m | None \<Rightarrow> [])
        in if requestReason \<noteq> [] then requestReason
           else method_reason
             (if requestMethod \<noteq> [] then requestMethod
              else case errors_As_call err of Some m \<Rightarrow> m | None \<Rightarrow> []))"

subsection \<open>Lemmas\<close>

definition app_error_reasons :: "string list" where
  "app_error_reasons =
     [''thread_settings_unavailable'', ''shared_app_server_config_invalid'', ''thread_active'',
      ''thread_not_found'', ''thread_config_unavailable'', ''codex_app_not_ready'',
      ''app_server_loaded_list_failed'', ''app_server_thread_resume_failed'',
      ''app_server_thread_read_failed'', ''app_server_goal_read_failed'',
      ''app_server_goal_update_failed'', ''app_server_turn_start_failed'',
      ''app_server_subagent_inject_failed'', ''app_server_request_failed'']"

lemma request_message_reason_listed:
  "request_message_reason msg = [] \<or> request_message_reason msg \<in> set app_error_reasons"
  by (simp add: request_message_reason_def Let_def app_error_reasons_def)

lemma method_reason_listed: "method_reason m \<in> set app_error_reasons"
  by (simp add: method_reason_def app_error_reasons_def)

lemma classifyAppServerError_listed: "classifyAppServerError err \<in> set app_error_reasons"
proof -
  have "''thread_settings_unavailable'' \<in> set app_error_reasons"
      "''shared_app_server_config_invalid'' \<in> set app_error_reasons"
    by (simp_all add: app_error_reasons_def)
  then show ?thesis
    using request_message_reason_listed method_reason_listed
    unfolding classifyAppServerError_def Let_def
    by (auto split: option.split prod.split)
qed

lemma app_error_reasons_safe: "list_all (\<lambda>r. r \<noteq> [] \<and> safeReasonCode r = r) app_error_reasons"
  by code_simp

definition hold_reasons :: "string list" where
  "hold_reasons =
     [''goal_blocked_before_failure'', ''goal_paused'', ''goal_completed'', ''goal_usage_limited'',
      ''goal_budget_limited'', ''goal_status_unsupported'']"

lemma hold_reason_listed:
  "appGoalHoldReason pt goal failedAt r = [] \<or> appGoalHoldReason pt goal failedAt r \<in> set hold_reasons"
  by (simp add: appGoalHoldReason_def hold_reasons_def split: option.split)

lemma hold_reasons_safe: "list_all (\<lambda>r. r \<noteq> [] \<and> safeReasonCode r = r) hold_reasons"
  by code_simp

lemma number_time_exact: "0 < n \<Longrightarrow> n \<le> 10 ^ 11 \<Longrightarrow> number_time (n, 0) = Some (unix_epoch + n * Second)"
  by (simp add: number_time_def)

end
