(* ===== verification/Shared_Controller.thy ===== *)
theory Shared_Controller
  imports App_Server
begin

section \<open>The shared controller (shared\_controller.go)\<close>

text \<open>
  The controller decides, from what the desktop and the app server report, whether and how a
  thread is continued. Everything it asks of the outside is a request; its state is the list of
  the requests made so far, and the outside (\<open>world\<close>) answers each request with an error or a
  reply that may depend on all of them. A computation takes the continuation's place of Go's
  statements: \<open>ask\<close> makes one request and goes on with the error or with the reply, which is how
  the early returns of the code are written. Parameters of a JSON-RPC call are its JSON members.
\<close>

subsection \<open>Requests\<close>

datatype request =
    rqConfig
  | rqDesktopState
  | rqIpcAvailable
  | rqEnsure
  | rqEnsureOwnedEnvironment
  | rqDial
  | rqCall string "(string \<times> json) list"
  | rqIpcStartTurn string ResumeSettings
  | rqIpcNotify string string string ResumeSettings
  | rqThreadParent string string
  | rqThreadSettings string string

datatype desktopTransportState =
    desktopStopped
  | desktopLegacyStdio
  | desktopSharedServer
  | desktopOfficialIPC
  | desktopUnknown
  | desktopOther string

record world =
  w_config :: "request list \<Rightarrow> go_error + bool"
  w_desktop :: "request list \<Rightarrow> go_error + desktopTransportState"
  w_ipcAvailable :: "request list \<Rightarrow> go_error + bool"
  w_loaded :: "request list \<Rightarrow> go_error + string list"
  w_thread :: "request list \<Rightarrow> go_error + appThread option"
  w_goal :: "request list \<Rightarrow> go_error + appGoal option"
  w_parent :: "request list \<Rightarrow> go_error + string"
  w_settings :: "request list \<Rightarrow> go_error + ResumeSettings"
  w_done :: "request list \<Rightarrow> go_error + unit"

text \<open>
  The fields of \<open>sharedAppServerController\<close>: which Codex homes the server serves, whether there is
  an official IPC bridge, whether the server also owns an environment, whether a configuration
  path is set.
\<close>

record controller =
  ct_SupportsHome :: "string \<Rightarrow> bool"
  ct_officialIPC :: bool
  ct_ownsEnvironment :: bool
  ct_configPath :: bool

type_synonym 'r computation = "request list \<Rightarrow> 'r \<times> request list"

definition give :: "'r \<Rightarrow> 'r computation" where
  "give r h = (r, h)"

definition ask ::
    "(request list \<Rightarrow> go_error + 'a) \<Rightarrow> request \<Rightarrow> (go_error \<Rightarrow> 'r computation) \<Rightarrow>
     ('a \<Rightarrow> 'r computation) \<Rightarrow> 'r computation" where
  "ask answer rq bad good h =
     (case answer (h @ [rq]) of Inl err \<Rightarrow> bad err (h @ [rq]) | Inr reply \<Rightarrow> good reply (h @ [rq]))"

definition thread_params :: "string \<Rightarrow> (string \<times> json) list" where
  "thread_params threadID = [(''threadId'', JString threadID)]"

text \<open>\<open>resumeParameters\<close>; the approval policy is the value of its raw text.\<close>

definition optional :: "string \<Rightarrow> string \<Rightarrow> (string \<times> json) list" where
  "optional key value = (if value \<noteq> [] then [(key, JString value)] else [])"

definition resumeParameters :: "string \<Rightarrow> ResumeSettings \<Rightarrow> (string \<times> json) list" where
  "resumeParameters threadID settings =
     [(''threadId'', JString threadID), (''excludeTurns'', JBool True), (''cwd'', JString (se_CWD settings)),
      (''runtimeWorkspaceRoots'', JArray (map JString (se_RuntimeWorkspaceRoots settings))),
      (''model'', JString (se_Model settings)),
      (''approvalPolicy'', (case parse_json (se_ApprovalPolicy settings) of Some v \<Rightarrow> v | None \<Rightarrow> JNull)),
      (''permissions'', JString (se_Permissions settings)),
      (''config'', JObject ((''model_reasoning_effort'', JString (se_Effort settings)) #
         optional ''model_reasoning_summary'' (se_Summary settings)))] @
     optional ''approvalsReviewer'' (se_ApprovalsReviewer settings) @
     optional ''modelProvider'' (se_ModelProvider settings) @
     optional ''serviceTier'' (se_ServiceTier settings) @
     optional ''personality'' (se_Personality settings)"

definition turn_start :: "string \<Rightarrow> json list \<Rightarrow> request" where
  "turn_start threadID input =
     rqCall ''turn/start'' [(''threadId'', JString threadID), (''input'', JArray input)]"

definition prompt_input :: "string \<Rightarrow> json" where
  "prompt_input prompt =
     JObject [(''type'', JString ''text''), (''text'', JString prompt), (''text_elements'', JArray [])]"

definition goal_set :: "string \<Rightarrow> string \<Rightarrow> request" where
  "goal_set threadID status =
     rqCall ''thread/goal/set'' [(''threadId'', JString threadID), (''status'', JString status)]"

definition thread_read :: "string \<Rightarrow> request" where
  "thread_read threadID =
     rqCall ''thread/read'' [(''threadId'', JString threadID), (''includeTurns'', JBool False)]"

definition goal_get :: "string \<Rightarrow> request" where
  "goal_get threadID = rqCall ''thread/goal/get'' (thread_params threadID)"

definition loaded_list :: request where
  "loaded_list = rqCall ''thread/loaded/list'' []"

definition thread_resume :: "string \<Rightarrow> ResumeSettings \<Rightarrow> request" where
  "thread_resume threadID settings = rqCall ''thread/resume'' (resumeParameters threadID settings)"

subsection \<open>Helpers of the dispatch\<close>

definition readAppThread ::
    "world \<Rightarrow> string \<Rightarrow> (go_error \<Rightarrow> 'r computation) \<Rightarrow> (appThread option \<Rightarrow> 'r computation) \<Rightarrow> 'r computation" where
  "readAppThread w threadID = ask (w_thread w) (thread_read threadID)"

definition readAppGoal ::
    "world \<Rightarrow> string \<Rightarrow> (go_error \<Rightarrow> 'r computation) \<Rightarrow> (appGoal option \<Rightarrow> 'r computation) \<Rightarrow> 'r computation" where
  "readAppGoal w threadID = ask (w_goal w) (goal_get threadID)"

definition appThreadLoaded ::
    "world \<Rightarrow> string \<Rightarrow> (go_error \<Rightarrow> 'r computation) \<Rightarrow> (bool \<Rightarrow> 'r computation) \<Rightarrow> 'r computation" where
  "appThreadLoaded w threadID bad good =
     ask (w_loaded w) loaded_list bad (\<lambda>ids. good (threadID \<in> set ids))"

definition startAppConversation ::
    "world \<Rightarrow> string \<Rightarrow> string \<Rightarrow> (go_error \<Rightarrow> 'r computation) \<Rightarrow> 'r computation \<Rightarrow> 'r computation" where
  "startAppConversation w threadID prompt bad good =
     ask (w_done w) (turn_start threadID [])
       (\<lambda>err. if \<not> emptyAppInputUnsupported err then bad err
              else ask (w_done w) (turn_start threadID [prompt_input prompt]) bad (\<lambda>_. good))
       (\<lambda>_. good)"

text \<open>\<open>injectSubagentNotice\<close>; \<open>json.Marshal\<close> writes the keys of the payload in order.\<close>

definition notice_payload :: "string \<Rightarrow> string \<Rightarrow> string \<Rightarrow> json" where
  "notice_payload parentID childID eventID = JObject
     [(''action'', JString ''resume_existing_child''), (''child_thread_id'', JString childID),
      (''instruction'', JString ''The watchdog is resuming the exact existing child. Do not resume or spawn any child for this recovery event.''),
      (''parent_thread_id'', JString parentID), (''recovery_event_id'', JString eventID),
      (''spawn_replacement'', JBool False)]"

definition notice_item :: "string \<Rightarrow> string \<Rightarrow> string \<Rightarrow> json" where
  "notice_item parentID childID eventID = JObject
     [(''type'', JString ''message''),
      (''id'', JString (''msg_codex_auto_retry_'' @ trim_prefix ''car-'' eventID)),
      (''role'', JString ''developer''),
      (''content'', JArray [JObject
         [(''type'', JString ''input_text''),
          (''text'', JString (recoveryNoticePrefix @ json_text (notice_payload parentID childID eventID)))]])]"

definition inject_items :: "string \<Rightarrow> string \<Rightarrow> string \<Rightarrow> request" where
  "inject_items parentID childID eventID =
     rqCall ''thread/inject_items''
       [(''threadId'', JString parentID), (''items'', JArray [notice_item parentID childID eventID])]"

definition injectSubagentNotice ::
    "world \<Rightarrow> string \<Rightarrow> string \<Rightarrow> string \<Rightarrow> string \<Rightarrow> (go_error \<Rightarrow> 'r computation) \<Rightarrow>
     'r computation \<Rightarrow> 'r computation" where
  "injectSubagentNotice w codexHome parentID childID eventID bad good =
     appThreadLoaded w parentID bad (\<lambda>loaded.
       let inject = ask (w_done w) (inject_items parentID childID eventID) bad (\<lambda>_. good)
       in if loaded then inject
          else ask (w_settings w) (rqThreadSettings codexHome parentID) bad (\<lambda>settings.
                 ask (w_done w) (thread_resume parentID settings) bad (\<lambda>_. inject)))"

subsection \<open>Which channel\<close>

datatype preflight_result =
    pfError go_error
  | pfNotReady DispatchResult
  | pfReady desktopTransportState

definition sharedServerEnabled ::
    "controller \<Rightarrow> world \<Rightarrow> (go_error \<Rightarrow> 'r computation) \<Rightarrow> (bool \<Rightarrow> 'r computation) \<Rightarrow> 'r computation" where
  "sharedServerEnabled c w bad good =
     (if \<not> ct_configPath c then good True else ask (w_config w) rqConfig bad good)"

definition officialIPCReady :: "controller \<Rightarrow> world \<Rightarrow> (bool \<Rightarrow> 'r computation) \<Rightarrow> 'r computation" where
  "officialIPCReady c w good =
     (if \<not> ct_officialIPC c then good False
      else ask (w_ipcAvailable w) rqIpcAvailable (\<lambda>_. good False) good)"

definition ensureSharedServer ::
    "controller \<Rightarrow> world \<Rightarrow> (go_error \<Rightarrow> 'r computation) \<Rightarrow> 'r computation \<Rightarrow> 'r computation" where
  "ensureSharedServer c w bad good =
     ask (w_done w) rqEnsure bad (\<lambda>_.
       if \<not> ct_ownsEnvironment c then good
       else ask (w_done w) rqEnsureOwnedEnvironment bad (\<lambda>_. good))"

definition legacy_ipc ::
    "controller \<Rightarrow> world \<Rightarrow> desktopTransportState \<Rightarrow> (bool \<Rightarrow> 'r computation) \<Rightarrow> 'r computation" where
  "legacy_ipc c w st good = (if st = desktopLegacyStdio then officialIPCReady c w good else good False)"

definition transport_result :: "bool \<Rightarrow> bool \<Rightarrow> desktopTransportState \<Rightarrow> preflight_result" where
  "transport_result parentNotified ipc st =
     (case st of
        desktopStopped \<Rightarrow> pfNotReady (retryLaterResult ''codex_not_running'' parentNotified)
      | desktopLegacyStdio \<Rightarrow>
          if ipc then pfReady desktopOfficialIPC
          else pfNotReady (retryLaterResult ''codex_restart_required'' parentNotified)
      | desktopUnknown \<Rightarrow> pfNotReady (retryLaterResult ''codex_app_not_ready'' parentNotified)
      | desktopSharedServer \<Rightarrow> pfReady desktopSharedServer
      | _ \<Rightarrow> pfError (Sentinel errSharedServerUnavailable))"

definition preflight ::
    "controller \<Rightarrow> world \<Rightarrow> bool \<Rightarrow> (preflight_result \<Rightarrow> 'r computation) \<Rightarrow> 'r computation" where
  "preflight c w parentNotified k =
     sharedServerEnabled c w (\<lambda>err. k (pfError err)) (\<lambda>enabled.
     ask (w_desktop w) rqDesktopState (\<lambda>err. k (pfError err)) (\<lambda>st.
     legacy_ipc c w st (\<lambda>ipc.
       if ipc then k (pfReady desktopOfficialIPC)
       else if \<not> enabled then
         k (pfNotReady (retryLaterResult
              (if st = desktopStopped then ''codex_not_running'' else ''shared_app_server_disabled'') parentNotified))
       else
         ensureSharedServer c w (\<lambda>err. k (pfError err)) (
         ask (w_desktop w) rqDesktopState (\<lambda>err. k (pfError err)) (\<lambda>st.
         legacy_ipc c w st (\<lambda>ipc. k (transport_result parentNotified ipc st)))))))"

definition Readiness :: "controller \<Rightarrow> world \<Rightarrow> (go_error + string) computation" where
  "Readiness c w =
     preflight c w False (\<lambda>pf. case pf of
         pfError err \<Rightarrow> give (Inl err)
       | pfNotReady result \<Rightarrow> give (Inr (d_Reason result))
       | pfReady transport \<Rightarrow>
           give (Inr (if transport = desktopOfficialIPC then ''official_ipc_ready'' else ''ready'')))"

definition Prepare :: "controller \<Rightarrow> world \<Rightarrow> go_error option computation" where
  "Prepare c w h =
     (case Readiness c w h of
        (Inl err, h') \<Rightarrow> (Some err, h')
      | (Inr st, h') \<Rightarrow>
          (if st = ''shared_app_server_disabled'' then Some (Sentinel errSharedAppServerDisabled)
           else if st = ''codex_restart_required'' then Some (Sentinel errCodexRestartRequired)
           else None, h'))"

text \<open>The read-only probe of a turn; \<open>not_ready_error\<close> is what a channel that is not ready means.\<close>

definition not_ready_error :: "DispatchResult \<Rightarrow> go_error" where
  "not_ready_error result =
     (if d_Reason result \<noteq> [] then controllerReasonError (d_Reason result)
      else Sentinel errSharedServerUnavailable)"

definition RetryThreadStatus ::
    "controller \<Rightarrow> world \<Rightarrow> string \<Rightarrow> string \<Rightarrow> (go_error + string) computation" where
  "RetryThreadStatus c w threadID codexHome =
     (if \<not> ct_SupportsHome c codexHome then give (Inl (controllerReasonError ''codex_home_not_shared''))
      else preflight c w False (\<lambda>pf. case pf of
          pfError err \<Rightarrow> give (Inl err)
        | pfNotReady result \<Rightarrow> give (Inl (not_ready_error result))
        | pfReady transport \<Rightarrow>
            if transport = desktopOfficialIPC then give (Inr ''active'')
            else ask (w_done w) rqDial (\<lambda>_. give (Inl (Sentinel errSharedServerUnavailable))) (\<lambda>_.
                 appThreadLoaded w threadID (\<lambda>err. give (Inl err)) (\<lambda>loaded.
                 if \<not> loaded then give (Inr ''unloaded'')
                 else readAppThread w threadID (\<lambda>err. give (Inl err)) (\<lambda>thread.
                   case thread of
                     None \<Rightarrow> give (Inl (OtherError ''thread status is unavailable''))
                   | Some t \<Rightarrow>
                       if at_StatusType t = [] then give (Inl (OtherError ''thread status is unavailable''))
                       else give (Inr (at_StatusType t)))))))"

subsection \<open>Dispatch\<close>

record dispatch_args =
  da_threadID :: string
  da_prompt :: string
  da_settings :: ResumeSettings
  da_failedAt :: gotime
  da_originTurnStartedAt :: gotime
  da_recoveryEventID :: string
  da_parentNotified :: bool
  da_goalLimitRestart :: bool
  da_failureClass :: FailureClass
  da_codexHome :: string

type_synonym dispatch = "(go_error + DispatchResult) computation"

text \<open>The three ways a dispatch returns early without an error.\<close>

definition later :: "string \<Rightarrow> bool \<Rightarrow> dispatch" where
  "later reason parentNotified = give (Inr (retryLaterResult reason parentNotified))"

definition later_error :: "bool \<Rightarrow> go_error \<Rightarrow> dispatch" where
  "later_error parentNotified err = later (classifyAppServerError err) parentNotified"

definition give_up :: "string \<Rightarrow> bool \<Rightarrow> dispatch" where
  "give_up reason parentNotified = give (Inr (notApplicableResult reason parentNotified))"

definition user_active :: "bool \<Rightarrow> dispatch" where
  "user_active parentNotified = give (Inr (userActiveResult parentNotified))"

definition dispatched :: "RetryAction \<Rightarrow> string \<Rightarrow> bool \<Rightarrow> dispatch" where
  "dispatched action reason parentNotified = give (Inr (dispatchedResult action reason parentNotified))"

text \<open>Over the official IPC bridge.\<close>

definition ipc_start :: "world \<Rightarrow> dispatch_args \<Rightarrow> bool \<Rightarrow> dispatch" where
  "ipc_start w a parentNotified =
     ask (w_done w) (rqIpcStartTurn (da_threadID a) (da_settings a))
       (\<lambda>err. later (if errors_Is (Some err) errCodexIPCOwnerMissing then ''codex_thread_owner_unavailable''
                      else ''codex_background_dispatch_failed'') parentNotified)
       (\<lambda>_. if da_goalLimitRestart a
             then dispatched actionGoalResume ''official_ipc_goal_turn_started'' parentNotified
             else dispatched actionConversationContinue ''official_ipc_turn_started'' parentNotified)"

definition dispatch_ipc :: "controller \<Rightarrow> world \<Rightarrow> dispatch_args \<Rightarrow> dispatch" where
  "dispatch_ipc c w a =
     (let unavailable = (\<lambda>_. later ''subagent_recovery_event_unavailable'' (da_parentNotified a))
      in if \<not> ct_officialIPC c then later ''codex_background_channel_unavailable'' (da_parentNotified a)
         else if da_failureClass a = classEmptyResponse \<and> \<not> da_parentNotified a \<and>
                 recovery_event_id (da_recoveryEventID a) then
           ask (w_parent w) (rqThreadParent (da_codexHome a) (da_threadID a)) unavailable (\<lambda>parentID.
             if parentID = [] then ipc_start w a (da_parentNotified a)
             else
               ask (w_settings w) (rqThreadSettings (da_codexHome a) parentID) unavailable (\<lambda>settings.
               ask (w_done w) (rqIpcNotify parentID (da_threadID a) (da_recoveryEventID a) settings)
                 (\<lambda>err. later (if errors_Is (Some err) errCodexIPCOwnerMissing
                                then ''subagent_parent_owner_unavailable''
                                else ''subagent_parent_recovery_failed'') (da_parentNotified a))
                 (\<lambda>_. ipc_start w a True)))
         else ipc_start w a (da_parentNotified a))"

text \<open>Over the shared app server: the child of a subagent call, and a thread of the user.\<close>

definition start_conversation :: "world \<Rightarrow> dispatch_args \<Rightarrow> RetryAction \<Rightarrow> string \<Rightarrow> bool \<Rightarrow> dispatch" where
  "start_conversation w a action reason parentNotified =
     startAppConversation w (da_threadID a) (da_prompt a) (later_error parentNotified)
       (dispatched action reason parentNotified)"

definition resume_child :: "world \<Rightarrow> dispatch_args \<Rightarrow> string \<Rightarrow> dispatch" where
  "resume_child w a resumedStatus =
     readAppThread w (da_threadID a) (later_error True) (\<lambda>latest.
       if (case latest of None \<Rightarrow> False
           | Some t \<Rightarrow> at_StatusType t = ''active'' \<or> resumedStatus = ''active'')
       then user_active True
       else start_conversation w a actionSubagentContinue ''subagent_resumed_in_background'' True)"

definition continue_subagent :: "world \<Rightarrow> dispatch_args \<Rightarrow> string \<Rightarrow> string \<Rightarrow> dispatch" where
  "continue_subagent w a parentID resumedStatus =
     (if da_failureClass a \<noteq> classEmptyResponse
        then give_up ''subagent_non_empty_failure'' (da_parentNotified a)
      else if da_parentNotified a then resume_child w a resumedStatus
      else if \<not> recovery_event_id (da_recoveryEventID a)
        then later ''subagent_recovery_event_unavailable'' False
      else injectSubagentNotice w (da_codexHome a) parentID (da_threadID a) (da_recoveryEventID a)
             (later_error False) (resume_child w a resumedStatus))"

definition continue_held ::
    "(string \<Rightarrow> gotime option) \<Rightarrow> world \<Rightarrow> dispatch_args \<Rightarrow> string \<Rightarrow> appGoal option \<Rightarrow> appGoal option \<Rightarrow> dispatch" where
  "continue_held pt w a resumedStatus initial latest =
     (if \<not> appHeldConversationAllowed pt latest (da_failedAt a) (da_originTurnStartedAt a) (da_goalLimitRestart a) \<or>
         appGoalRevision latest \<noteq> appGoalRevision initial
        then give_up ''goal_status_changed'' (da_parentNotified a)
      else if resumedStatus = ''active'' then user_active (da_parentNotified a)
      else start_conversation w a actionConversationContinue ''silent_turn_started_with_goal_held'' (da_parentNotified a))"

definition continue_free ::
    "(string \<Rightarrow> gotime option) \<Rightarrow> world \<Rightarrow> dispatch_args \<Rightarrow> string \<Rightarrow> appGoal option \<Rightarrow> dispatch" where
  "continue_free pt w a resumedStatus latest =
     (let holdReason = appGoalHoldReason pt latest (da_failedAt a) (da_goalLimitRestart a);
          goal_resumed = dispatched actionGoalResume ''goal_resumed_in_background'' (da_parentNotified a);
          status = (case latest of None \<Rightarrow> [] | Some g \<Rightarrow> gl_Status g)
      in if holdReason \<noteq> [] then give_up holdReason (da_parentNotified a)
         else if latest \<noteq> None \<and> status = ''active'' then goal_resumed
         else if latest \<noteq> None \<and> status = ''blocked'' then
           ask (w_done w) (goal_set (da_threadID a) ''active'') (later_error (da_parentNotified a)) (\<lambda>_. goal_resumed)
         else if resumedStatus = ''active'' then user_active (da_parentNotified a)
         else start_conversation w a actionConversationContinue ''silent_turn_started_in_background'' (da_parentNotified a))"

definition continue_thread ::
    "(string \<Rightarrow> gotime option) \<Rightarrow> world \<Rightarrow> dispatch_args \<Rightarrow> string \<Rightarrow> dispatch" where
  "continue_thread pt w a resumedStatus =
     readAppGoal w (da_threadID a) (later_error (da_parentNotified a)) (\<lambda>initial.
     let holdReason = appGoalHoldReason pt initial (da_failedAt a) (da_goalLimitRestart a);
         held = appHeldConversationAllowed pt initial (da_failedAt a) (da_originTurnStartedAt a) (da_goalLimitRestart a)
     in if holdReason \<noteq> [] \<and> \<not> held then give_up holdReason (da_parentNotified a)
        else readAppGoal w (da_threadID a) (later_error (da_parentNotified a)) (\<lambda>latest.
          if (initial = None) \<noteq> (latest = None) then give_up ''goal_status_changed'' (da_parentNotified a)
          else if held then continue_held pt w a resumedStatus initial latest
          else continue_free pt w a resumedStatus latest))"

definition after_load ::
    "(string \<Rightarrow> gotime option) \<Rightarrow> world \<Rightarrow> dispatch_args \<Rightarrow> string \<Rightarrow> dispatch" where
  "after_load pt w a resumedStatus =
     readAppThread w (da_threadID a) (later_error (da_parentNotified a)) (\<lambda>initial.
       case initial of
         None \<Rightarrow> later ''thread_state_unavailable'' (da_parentNotified a)
       | Some t \<Rightarrow>
           if at_StatusType t = [] then later ''thread_state_unavailable'' (da_parentNotified a)
           else if at_StatusType t = ''active'' \<or> resumedStatus = ''active'' then user_active (da_parentNotified a)
           else
             let resumedStatus = (if resumedStatus = [] then at_StatusType t else resumedStatus);
                 parentID = appThreadParentID (at_ParentThreadID t) (at_Source t)
             in if parentID \<noteq> [] then continue_subagent w a parentID resumedStatus
                else continue_thread pt w a resumedStatus)"

definition dispatch_shared ::
    "(string \<Rightarrow> gotime option) \<Rightarrow> world \<Rightarrow> dispatch_args \<Rightarrow> dispatch" where
  "dispatch_shared pt w a =
     ask (w_done w) rqDial (\<lambda>_. give (Inl (Sentinel errSharedServerUnavailable))) (\<lambda>_.
     appThreadLoaded w (da_threadID a) (later_error (da_parentNotified a)) (\<lambda>loaded.
       if loaded then after_load pt w a []
       else ask (w_thread w) (thread_resume (da_threadID a) (da_settings a)) (later_error (da_parentNotified a))
              (\<lambda>resumed. after_load pt w a (case resumed of None \<Rightarrow> [] | Some t \<Rightarrow> at_StatusType t))))"

definition Dispatch ::
    "(string \<Rightarrow> gotime option) \<Rightarrow> controller \<Rightarrow> world \<Rightarrow> dispatch_args \<Rightarrow> dispatch" where
  "Dispatch pt c w a =
     (if \<not> ct_SupportsHome c (da_codexHome a) then later ''codex_home_not_shared'' (da_parentNotified a)
      else preflight c w (da_parentNotified a) (\<lambda>pf. case pf of
          pfError err \<Rightarrow> give (Inl err)
        | pfNotReady result \<Rightarrow> give (Inr result)
        | pfReady transport \<Rightarrow>
            if transport = desktopOfficialIPC then dispatch_ipc c w a else dispatch_shared pt w a))"

subsection \<open>Blocking a goal\<close>

definition block_loaded :: "world \<Rightarrow> string \<Rightarrow> dispatch" where
  "block_loaded w threadID =
     readAppGoal w threadID (later_error False) (\<lambda>goal.
       case goal of
         None \<Rightarrow> later ''goal_state_unavailable'' False
       | Some g \<Rightarrow>
           let status = gl_Status g
           in if status = ''active'' then
                ask (w_done w) (goal_set threadID ''blocked'') (later_error False)
                  (\<lambda>_. dispatched actionGoalBlock ''goal_blocked_after_empty_response_limit'' False)
              else if status = ''blocked'' then dispatched actionGoalBlock ''goal_already_blocked'' False
              else if status = ''paused'' then dispatched actionGoalBlock ''goal_already_paused'' False
              else if status = ''completed'' \<or> status = ''complete''
                then dispatched actionGoalBlock ''goal_already_completed'' False
              else if status = ''usageLimited'' then dispatched actionGoalBlock ''goal_already_usage_limited'' False
              else if status = ''budgetLimited'' then dispatched actionGoalBlock ''goal_already_budget_limited'' False
              else later ''goal_state_unavailable'' False)"

definition BlockGoal ::
    "controller \<Rightarrow> world \<Rightarrow> string \<Rightarrow> ResumeSettings option \<Rightarrow> string \<Rightarrow> dispatch" where
  "BlockGoal c w threadID settings codexHome =
     (if \<not> ct_SupportsHome c codexHome then later ''codex_home_not_shared'' False
      else preflight c w False (\<lambda>pf. case pf of
          pfError err \<Rightarrow> give (Inl err)
        | pfNotReady result \<Rightarrow> give (Inr result)
        | pfReady transport \<Rightarrow>
            if transport = desktopOfficialIPC then later ''codex_ipc_goal_control_unsupported'' False
            else
              ask (w_done w) rqDial (\<lambda>_. give (Inl (Sentinel errSharedServerUnavailable))) (\<lambda>_.
              appThreadLoaded w threadID (later_error False) (\<lambda>loaded.
                if loaded then block_loaded w threadID
                else case settings of
                  None \<Rightarrow> later ''thread_settings_unavailable'' False
                | Some s \<Rightarrow>
                    ask (w_done w) (thread_resume threadID s) (later_error False)
                      (\<lambda>_. block_loaded w threadID)))))"

end
