(* ===== verification/Controller_Properties.thy ===== *)
theory Controller_Properties
  imports Shared_Controller
begin

section \<open>What the controller asks and what it concludes\<close>

text \<open>
  A small calculus for the controller's computations: \<open>wp p Q h\<close> says that \<open>p\<close>, started after
  the requests \<open>h\<close>, ends with a result and a list of requests that satisfy \<open>Q\<close>. The rules
  in \<open>wp_rules\<close> follow the program; an \<open>ask\<close> splits into the error and the reply. Nothing is
  assumed about the answers.
\<close>

definition wp :: "'r computation \<Rightarrow> ('r \<Rightarrow> request list \<Rightarrow> bool) \<Rightarrow> request list \<Rightarrow> bool" where
  "wp p Q h \<longleftrightarrow> Q (fst (p h)) (snd (p h))"

named_theorems wp_rules \<open>rules that follow a computation\<close>

lemma wp_give [wp_rules]: "Q r h \<Longrightarrow> wp (give r) Q h"
  by (simp add: wp_def give_def)

lemma wp_ask [wp_rules]:
  assumes "\<And>err. answer (h @ [rq]) = Inl err \<Longrightarrow> wp (bad err) Q (h @ [rq])"
    and "\<And>reply. answer (h @ [rq]) = Inr reply \<Longrightarrow> wp (good reply) Q (h @ [rq])"
  shows "wp (ask answer rq bad good) Q h"
  using assms by (auto simp: wp_def ask_def split: sum.split)

lemma wp_if [wp_rules]:
  "(b \<Longrightarrow> wp p Q h) \<Longrightarrow> (\<not> b \<Longrightarrow> wp q Q h) \<Longrightarrow> wp (if b then p else q) Q h"
  by simp

lemma wp_let [wp_rules]: "wp (f x) Q h \<Longrightarrow> wp (let y = x in f y) Q h"
  by simp

lemma wp_option [wp_rules]:
  "(x = None \<Longrightarrow> wp p Q h) \<Longrightarrow> (\<And>y. x = Some y \<Longrightarrow> wp (q y) Q h) \<Longrightarrow>
   wp (case x of None \<Rightarrow> p | Some y \<Rightarrow> q y) Q h"
  by (cases x) auto

lemma wp_preflight_case [wp_rules]:
  "(\<And>err. pf = pfError err \<Longrightarrow> wp (p err) Q h) \<Longrightarrow> (\<And>r. pf = pfNotReady r \<Longrightarrow> wp (q r) Q h) \<Longrightarrow>
   (\<And>t. pf = pfReady t \<Longrightarrow> wp (s t) Q h) \<Longrightarrow>
   wp (case pf of pfError err \<Rightarrow> p err | pfNotReady r \<Rightarrow> q r | pfReady t \<Rightarrow> s t) Q h"
  by (cases pf) auto

lemma wpD: "wp p Q h \<Longrightarrow> p h = (r, h') \<Longrightarrow> Q r h'"
  by (simp add: wp_def)

lemma wp_conj: "wp p Q h \<Longrightarrow> wp p R h \<Longrightarrow> wp p (\<lambda>r h'. Q r h' \<and> R r h') h"
  by (simp add: wp_def)

subsection \<open>The preflight\<close>

text \<open>
  The requests of the preflight alone, and the rule for it: it only asks for the configuration,
  the desktop state, the bridge and, when the shared server is enabled and the bridge is not in
  use, for the server; and it ends with a result that may be reported.
\<close>

definition preflight_request :: "request \<Rightarrow> bool" where
  "preflight_request rq \<longleftrightarrow>
     rq \<in> {rqConfig, rqDesktopState, rqIpcAvailable, rqEnsure, rqEnsureOwnedEnvironment}"

definition not_ready_reasons :: "string list" where
  "not_ready_reasons =
     [''codex_not_running'', ''shared_app_server_disabled'', ''codex_restart_required'', ''codex_app_not_ready'']"

definition preflight_ok :: "controller \<Rightarrow> bool \<Rightarrow> preflight_result \<Rightarrow> bool" where
  "preflight_ok c parentNotified pf \<longleftrightarrow>
     (case pf of
        pfError _ \<Rightarrow> True
      | pfNotReady r \<Rightarrow> \<exists>reason\<in>set not_ready_reasons. r = retryLaterResult reason parentNotified
      | pfReady t \<Rightarrow> (t = desktopOfficialIPC \<and> ct_officialIPC c) \<or> t = desktopSharedServer)"

lemma preflight_ok_simps [simp]:
  "preflight_ok c pn (pfError err)"
  "preflight_ok c pn (pfNotReady (retryLaterResult ''codex_not_running'' pn))"
  "preflight_ok c pn (pfNotReady (retryLaterResult ''shared_app_server_disabled'' pn))"
  "preflight_ok c pn (pfNotReady (retryLaterResult ''codex_restart_required'' pn))"
  "preflight_ok c pn (pfNotReady (retryLaterResult ''codex_app_not_ready'' pn))"
  "preflight_ok c pn (pfReady desktopSharedServer)"
  "preflight_ok c pn (pfReady desktopOfficialIPC) \<longleftrightarrow> ct_officialIPC c"
  unfolding preflight_ok_def not_ready_reasons_def by auto

lemma transport_result_ok: "(ipc \<longrightarrow> ct_officialIPC c) \<Longrightarrow> preflight_ok c pn (transport_result pn ipc st)"
  by (cases st) (auto simp: transport_result_def)

lemma wp_legacy_ipc:
  assumes "\<And>ipc h'. (ipc \<longrightarrow> ct_officialIPC c \<and> st = desktopLegacyStdio) \<Longrightarrow> h' \<in> {h, h @ [rqIpcAvailable]} \<Longrightarrow> wp (k ipc) Q h'"
  shows "wp (legacy_ipc c w st k) Q h"
  unfolding legacy_ipc_def officialIPCReady_def
  using assms by (intro wp_rules) (auto intro: wp_rules)

lemma wp_preflight:
  assumes "\<And>pf new. preflight_ok c pn pf \<Longrightarrow> list_all preflight_request new \<Longrightarrow> wp (k pf) Q (h @ new)"
  shows "wp (preflight c w pn k) Q h"
proof -
  have shared: "wp (ensureSharedServer c w (\<lambda>err. k (pfError err)) (
      ask (w_desktop w) rqDesktopState (\<lambda>err. k (pfError err)) (\<lambda>st.
      legacy_ipc c w st (\<lambda>ipc. k (transport_result pn ipc st))))) Q (h @ new)"
    if "list_all preflight_request new" for new
    unfolding ensureSharedServer_def
    by (intro wp_rules wp_legacy_ipc; (auto simp: preflight_request_def intro: assms)?)
      (use that in \<open>auto simp: preflight_request_def intro!: assms transport_result_ok\<close>)
  have desktop: "wp (ask (w_desktop w) rqDesktopState (\<lambda>err. k (pfError err)) (\<lambda>st.
      legacy_ipc c w st (\<lambda>ipc.
        if ipc then k (pfReady desktopOfficialIPC)
        else if \<not> enabled then
          k (pfNotReady (retryLaterResult
               (if st = desktopStopped then ''codex_not_running'' else ''shared_app_server_disabled'') pn))
        else ensureSharedServer c w (\<lambda>err. k (pfError err)) (
          ask (w_desktop w) rqDesktopState (\<lambda>err. k (pfError err)) (\<lambda>st.
          legacy_ipc c w st (\<lambda>ipc. k (transport_result pn ipc st))))))) Q (h @ new)"
    if "list_all preflight_request new" for enabled new
    by (intro wp_rules wp_legacy_ipc)
      (use that in \<open>auto simp: preflight_request_def intro!: assms shared\<close>)
  show ?thesis
  proof (cases "ct_configPath c")
    case False
    then show ?thesis
      unfolding preflight_def sharedServerEnabled_def using desktop [of "[]"] by simp
  next
    case True
    have "wp (k (pfError err)) Q (h @ [rqConfig])" for err
      by (rule assms) (simp_all add: preflight_request_def)
    moreover have "list_all preflight_request [rqConfig]" by (simp add: preflight_request_def)
    ultimately show ?thesis
      using True unfolding preflight_def sharedServerEnabled_def
      by (simp only: not_True_eq_False if_False) (rule wp_ask, blast, rule desktop)
  qed
qed

subsection \<open>Results are well formed\<close>

lemma wp_leaves [wp_rules]:
  "Q (Inr (retryLaterResult reason pn)) h \<Longrightarrow> wp (later reason pn) Q h"
  "Q (Inr (retryLaterResult (classifyAppServerError err) pn)) h \<Longrightarrow> wp (later_error pn err) Q h"
  "Q (Inr (notApplicableResult reason pn)) h \<Longrightarrow> wp (give_up reason pn) Q h"
  "Q (Inr (userActiveResult pn)) h \<Longrightarrow> wp (user_active pn) Q h"
  "Q (Inr (dispatchedResult action reason pn)) h \<Longrightarrow> wp (dispatched action reason pn) Q h"
  by (simp_all add: later_def later_error_def give_up_def user_active_def dispatched_def wp_give)

lemmas helper_defs =
  readAppThread_def readAppGoal_def appThreadLoaded_def startAppConversation_def injectSubagentNotice_def

lemmas dispatch_defs =
  dispatch_ipc_def ipc_start_def dispatch_shared_def after_load_def continue_thread_def continue_free_def
  continue_held_def continue_subagent_def resume_child_def start_conversation_def helper_defs

text \<open>\<open>fits kind r\<close>: an error, or a result that the checks of \<open>runner.go\<close> accept for the job.\<close>

definition fits :: "RetryJobKind \<Rightarrow> go_error + DispatchResult \<Rightarrow> bool" where
  "fits kind r \<longleftrightarrow>
     (case r of Inl _ \<Rightarrow> True | Inr res \<Rightarrow> validateDispatchResultForJob kind res = Inr res)"

definition safe_code :: "string \<Rightarrow> bool" where
  "safe_code r \<longleftrightarrow> r \<noteq> [] \<and> safeReasonCode r = r"

lemma fits_simps [simp]:
  "fits kind (Inl err)"
  "safe_code reason \<Longrightarrow> fits kind (Inr (retryLaterResult reason pn))"
  "safe_code reason \<Longrightarrow> fits kind (Inr (notApplicableResult reason pn))"
  "safe_code reason \<Longrightarrow> action \<in> {actionGoalResume, actionConversationContinue, actionSubagentContinue} \<Longrightarrow>
     fits jobRecovery (Inr (dispatchedResult action reason pn))"
  "safe_code reason \<Longrightarrow> fits jobGoalBlock (Inr (dispatchedResult actionGoalBlock reason pn))"
  by (auto simp: fits_def safe_code_def validateDispatchResultForJob_def validateDispatchResult_def Let_def
      retryLaterResult_def notApplicableResult_def dispatchedResult_def)

lemma safe_literals [simp]:
  "safe_code ''thread_active''" "safe_code ''codex_home_not_shared''"
  "safe_code ''codex_thread_owner_unavailable''" "safe_code ''codex_background_dispatch_failed''"
  "safe_code ''codex_background_channel_unavailable''" "safe_code ''official_ipc_turn_started''"
  "safe_code ''official_ipc_goal_turn_started''" "safe_code ''subagent_recovery_event_unavailable''"
  "safe_code ''subagent_parent_owner_unavailable''" "safe_code ''subagent_parent_recovery_failed''"
  "safe_code ''subagent_resumed_in_background''" "safe_code ''subagent_non_empty_failure''"
  "safe_code ''goal_status_changed''" "safe_code ''silent_turn_started_with_goal_held''"
  "safe_code ''goal_resumed_in_background''" "safe_code ''silent_turn_started_in_background''"
  "safe_code ''thread_state_unavailable''" "safe_code ''goal_state_unavailable''"
  "safe_code ''goal_blocked_after_empty_response_limit''" "safe_code ''goal_already_blocked''"
  "safe_code ''goal_already_paused''" "safe_code ''goal_already_completed''"
  "safe_code ''goal_already_usage_limited''" "safe_code ''goal_already_budget_limited''"
  "safe_code ''codex_ipc_goal_control_unsupported''" "safe_code ''thread_settings_unavailable''"
  by code_simp+

lemma safe_lists [simp]:
  "r \<in> set not_ready_reasons \<Longrightarrow> safe_code r"
  "safe_code (classifyAppServerError err)"
  "appGoalHoldReason pt goal failedAt glr \<noteq> [] \<Longrightarrow> safe_code (appGoalHoldReason pt goal failedAt glr)"
proof -
  have "list_all safe_code not_ready_reasons" by code_simp
  then show "r \<in> set not_ready_reasons \<Longrightarrow> safe_code r" by (simp add: list_all_iff)
  show "safe_code (classifyAppServerError err)"
    using app_error_reasons_safe classifyAppServerError_listed [of err]
    by (simp add: list_all_iff safe_code_def)
  show "appGoalHoldReason pt goal failedAt glr \<noteq> [] \<Longrightarrow> safe_code (appGoalHoldReason pt goal failedAt glr)"
    using hold_reasons_safe hold_reason_listed [of pt goal failedAt glr]
    by (auto simp: list_all_iff safe_code_def)
qed

lemma fits_user_active [simp]: "fits kind (Inr (userActiveResult pn))"
proof -
  have "safeReasonCode ''thread_active'' \<noteq> []" by code_simp
  then show ?thesis
    by (simp add: fits_def validateDispatchResultForJob_def validateDispatchResult_def userActiveResult_def)
qed

lemma fits_not_ready: "preflight_ok c pn (pfNotReady r) \<Longrightarrow> fits kind (Inr r)"
  by (auto simp: preflight_ok_def)

lemma dispatch_fits: "wp (Dispatch pt c w a) (\<lambda>r h. fits jobRecovery r) h"
  unfolding Dispatch_def dispatch_defs
  by (intro wp_rules wp_preflight) (auto intro: fits_not_ready)

lemma block_goal_fits: "wp (BlockGoal c w threadID settings home) (\<lambda>r h. fits jobGoalBlock r) h"
  unfolding BlockGoal_def block_loaded_def helper_defs
  by (intro wp_rules wp_preflight) (auto intro: fits_not_ready)

subsection \<open>A world for the witnesses\<close>

definition sample_resume :: ResumeSettings where
  "sample_resume =
     \<lparr>se_CWD = ''C:/w'', se_RuntimeWorkspaceRoots = [], se_ApprovalPolicy = [], se_ApprovalsReviewer = [],
      se_Model = ''m'', se_ModelProvider = [], se_ServiceTier = [], se_Personality = [],
      se_Permissions = '':read-only'', se_Effort = ''high'', se_Summary = []\<rparr>"

definition sample_args :: dispatch_args where
  "sample_args =
     \<lparr>da_threadID = ''t'', da_prompt = ''go on'', da_settings = sample_resume, da_failedAt = 5,
      da_originTurnStartedAt = 1, da_recoveryEventID = [], da_parentNotified = False,
      da_goalLimitRestart = False, da_failureClass = classServer, da_codexHome = ''home''\<rparr>"

definition sample_world :: "appGoal option \<Rightarrow> world" where
  "sample_world goal =
     \<lparr>w_config = (\<lambda>_. Inr True), w_desktop = (\<lambda>_. Inr desktopSharedServer), w_ipcAvailable = (\<lambda>_. Inr False),
      w_loaded = (\<lambda>_. Inr [''t'']),
      w_thread = (\<lambda>_. Inr (Some \<lparr>at_ParentThreadID = [], at_StatusType = ''idle'', at_Source = []\<rparr>)),
      w_goal = (\<lambda>_. Inr goal), w_parent = (\<lambda>_. Inr []), w_settings = (\<lambda>_. Inr sample_resume),
      w_done = (\<lambda>_. Inr ())\<rparr>"

definition sample_controller :: controller where
  "sample_controller =
     \<lparr>ct_SupportsHome = (\<lambda>_. True), ct_officialIPC = True, ct_ownsEnvironment = False, ct_configPath = True\<rparr>"

lemma no_source: "appThreadParentID [] [] = []"
  by (simp add: appThreadParentID_def parse_json_def next_char_def skip_ws_def)

lemmas sample_run =
  sample_world_def sample_controller_def sample_args_def preflight_def sharedServerEnabled_def
  legacy_ipc_def officialIPCReady_def ensureSharedServer_def transport_result_def ask_def give_def no_source Let_def

definition sample_log :: "request list" where
  "sample_log =
     [rqConfig, rqDesktopState, rqEnsure, rqDesktopState, rqDial, loaded_list, thread_read ''t'',
      goal_get ''t'', goal_get ''t'', turn_start ''t'' []]"

lemma sample_dispatch:
  "Dispatch (\<lambda>_. None) sample_controller (sample_world None) sample_args [] =
   (Inr (dispatchedResult actionConversationContinue ''silent_turn_started_in_background'' False), sample_log)"
  by (simp add: Dispatch_def dispatch_defs sample_run sample_log_def appGoalHoldReason_def
      appHeldConversationAllowed_def dispatched_def)

subsection \<open>What was done\<close>

definition accepted :: "world \<Rightarrow> request list \<Rightarrow> bool" where
  "accepted w log \<longleftrightarrow> (case w_done w log of Inl _ \<Rightarrow> False | Inr _ \<Rightarrow> True)"

text \<open>How many requests of a kind were made and accepted.\<close>

definition done_count :: "(request \<Rightarrow> bool) \<Rightarrow> world \<Rightarrow> request list \<Rightarrow> nat" where
  "done_count P w log =
     length (filter (\<lambda>n. P (log ! n) \<and> accepted w (take (Suc n) log)) [0..<length log])"

lemma done_count_Nil [simp]: "done_count P w [] = 0"
  by (simp add: done_count_def)

lemma done_count_snoc:
  "done_count P w (log @ [rq]) = done_count P w log + (if P rq \<and> accepted w (log @ [rq]) then 1 else 0)"
proof -
  have "filter (\<lambda>n. P ((log @ [rq]) ! n) \<and> accepted w (take (Suc n) (log @ [rq]))) [0..<length log] =
      filter (\<lambda>n. P (log ! n) \<and> accepted w (take (Suc n) log)) [0..<length log]"
    by (rule filter_cong) (auto simp: nth_append)
  then show ?thesis by (simp add: done_count_def)
qed

lemma done_count_other: "\<not> P rq \<Longrightarrow> done_count P w (log @ [rq]) = done_count P w log"
  by (simp add: done_count_snoc)

lemma done_count_list: "list_all (\<lambda>rq. \<not> P rq) new \<Longrightarrow> done_count P w (log @ new) = done_count P w log"
proof (induction new arbitrary: log)
  case (Cons rq new)
  then show ?case using Cons.IH [of "log @ [rq]"] by (simp add: done_count_other)
qed simp

definition starts_turn :: "request \<Rightarrow> bool" where
  "starts_turn rq \<longleftrightarrow>
     (case rq of rqCall m _ \<Rightarrow> m = ''turn/start'' | rqIpcStartTurn _ _ \<Rightarrow> True | _ \<Rightarrow> False)"

definition sets_goal :: "request \<Rightarrow> bool" where
  "sets_goal rq \<longleftrightarrow> (case rq of rqCall m _ \<Rightarrow> m = ''thread/goal/set'' | _ \<Rightarrow> False)"

definition acts :: "request \<Rightarrow> bool" where
  "acts rq \<longleftrightarrow> starts_turn rq \<or> sets_goal rq"

lemmas request_defs =
  turn_start_def goal_set_def thread_read_def goal_get_def loaded_list_def thread_resume_def inject_items_def

lemma request_kinds [simp]:
  "starts_turn (rqCall m ps) \<longleftrightarrow> m = ''turn/start''" "starts_turn (rqIpcStartTurn t st)"
  "\<not> starts_turn rqDial" "\<not> starts_turn (rqIpcNotify a b c st)" "\<not> starts_turn (rqThreadParent a b)"
  "\<not> starts_turn (rqThreadSettings a b)"
  "sets_goal (rqCall m ps) \<longleftrightarrow> m = ''thread/goal/set''" "\<not> sets_goal (rqIpcStartTurn t st)"
  "\<not> sets_goal rqDial" "\<not> sets_goal (rqIpcNotify a b c st)" "\<not> sets_goal (rqThreadParent a b)"
  "\<not> sets_goal (rqThreadSettings a b)"
  by (simp_all add: starts_turn_def sets_goal_def)

lemma preflight_acts:
  assumes "list_all preflight_request new"
  shows "list_all (\<lambda>rq. \<not> acts rq) new" "list_all (\<lambda>rq. \<not> starts_turn rq) new" "list_all (\<lambda>rq. \<not> sets_goal rq) new"
  using assms
  by (auto simp: list_all_iff preflight_request_def acts_def starts_turn_def sets_goal_def split: request.splits)

definition turn_started :: "DispatchResult \<Rightarrow> bool" where
  "turn_started res \<longleftrightarrow> d_Outcome res = outcomeDispatched \<and> d_Reason res \<noteq> ''goal_resumed_in_background''"

lemma turn_started_simps [simp]:
  "\<not> turn_started (retryLaterResult reason pn)" "\<not> turn_started (notApplicableResult reason pn)"
  "\<not> turn_started (userActiveResult pn)"
  "turn_started (dispatchedResult action reason pn) \<longleftrightarrow> reason \<noteq> ''goal_resumed_in_background''"
  "d_Outcome (retryLaterResult reason pn) = outcomeRetryLater"
  "d_Outcome (notApplicableResult reason pn) = outcomeNotApplicable"
  "d_Outcome (userActiveResult pn) = outcomeUserActive"
  "d_Outcome (dispatchedResult action reason pn) = outcomeDispatched"
  by (simp_all add: turn_started_def retryLaterResult_def notApplicableResult_def userActiveResult_def
      dispatchedResult_def)

definition outcome_matches :: "world \<Rightarrow> request list \<Rightarrow> go_error + DispatchResult \<Rightarrow> request list \<Rightarrow> bool" where
  "outcome_matches w h r log \<longleftrightarrow>
     (case r of
        Inl _ \<Rightarrow> done_count acts w log = done_count acts w h
      | Inr res \<Rightarrow>
          done_count starts_turn w log = done_count starts_turn w h + (if turn_started res then 1 else 0) \<and>
          (if d_Outcome res \<noteq> outcomeDispatched then done_count acts w log = done_count acts w h
           else done_count acts w log \<le> done_count acts w h + 1))"

text \<open>Nothing was done since the requests \<open>old\<close>; a request that does not act keeps it so.\<close>

definition untouched :: "world \<Rightarrow> request list \<Rightarrow> request list \<Rightarrow> bool" where
  "untouched w old h \<longleftrightarrow>
     done_count starts_turn w h = done_count starts_turn w old \<and> done_count acts w h = done_count acts w old"

lemma untouched_refl: "untouched w h h"
  by (simp add: untouched_def)

lemma untouched_preflight: "untouched w old h \<Longrightarrow> list_all preflight_request new \<Longrightarrow> untouched w old (h @ new)"
  by (simp add: untouched_def done_count_list preflight_acts)

lemma wp_quiet:
  assumes "untouched w old h" and "\<not> acts rq"
    and "\<And>err h'. untouched w old h' \<Longrightarrow> wp (bad err) Q h'"
    and "\<And>reply h'. untouched w old h' \<Longrightarrow> wp (good reply) Q h'"
  shows "wp (ask answer rq bad good) Q h"
proof (rule wp_ask)
  have "untouched w old (h @ [rq])"
    using assms(1,2) by (simp add: untouched_def done_count_other acts_def)
  then show "wp (bad err) Q (h @ [rq])" "wp (good reply) Q (h @ [rq])" for err reply
    using assms(3,4) by blast+
qed

text \<open>A request that acts: if it failed nothing was done, otherwise the thread was acted on once.\<close>

lemma wp_act:
  assumes "untouched w old h"
    and "\<And>err h'. untouched w old h' \<Longrightarrow> wp (bad err) Q h'"
    and "\<And>h'. done_count starts_turn w h' = done_count starts_turn w old + (if starts_turn rq then 1 else 0) \<Longrightarrow>
           done_count acts w h' \<le> done_count acts w old + 1 \<Longrightarrow> wp (good ()) Q h'"
  shows "wp (ask (w_done w) rq bad good) Q h"
  using assms
  by (intro wp_ask) (auto simp: untouched_def done_count_snoc accepted_def)

lemma untouched_outcome [simp]:
  "untouched w old h \<Longrightarrow> outcome_matches w old (Inl err) h"
  "untouched w old h \<Longrightarrow> outcome_matches w old (Inr (retryLaterResult reason pn)) h"
  "untouched w old h \<Longrightarrow> outcome_matches w old (Inr (notApplicableResult reason pn)) h"
  "untouched w old h \<Longrightarrow> outcome_matches w old (Inr (userActiveResult pn)) h"
  "untouched w old h \<Longrightarrow> outcome_matches w old (Inr (dispatchedResult a ''goal_resumed_in_background'' pn)) h"
  by (simp_all add: outcome_matches_def untouched_def)

lemma turn_outcome [simp]:
  "done_count starts_turn w h = done_count starts_turn w old + 1 \<Longrightarrow>
   done_count acts w h \<le> done_count acts w old + 1 \<Longrightarrow> reason \<noteq> ''goal_resumed_in_background'' \<Longrightarrow>
   outcome_matches w old (Inr (dispatchedResult a reason pn)) h"
  by (simp add: outcome_matches_def)

lemma acts_simps [simp]:
  "acts (turn_start t inp)" "starts_turn (turn_start t inp)" "acts (goal_set t s)" "\<not> starts_turn (goal_set t s)"
  "\<not> starts_turn (thread_read t)" "\<not> starts_turn (goal_get t)" "\<not> starts_turn loaded_list"
  "\<not> starts_turn (thread_resume t st)" "\<not> starts_turn (inject_items p ch e)"
  "\<not> acts (thread_read t)" "\<not> acts (goal_get t)" "\<not> acts loaded_list" "\<not> acts (thread_resume t st)"
  "\<not> acts (inject_items p ch e)" "\<not> acts rqDial" "\<not> acts (rqIpcNotify x y z st)"
  "\<not> acts (rqThreadParent x y)" "\<not> acts (rqThreadSettings x y)"
  by (simp_all add: acts_def request_defs)

lemma start_outcome:
  assumes "untouched w old h" and "reason \<noteq> ''goal_resumed_in_background''"
  shows "wp (start_conversation w a act reason pn) (outcome_matches w old) h"
  unfolding start_conversation_def startAppConversation_def
  using assms by (intro wp_act [where old = old] wp_if wp_leaves) auto

lemma child_outcome: "untouched w old h \<Longrightarrow> wp (resume_child w a st) (outcome_matches w old) h"
  unfolding resume_child_def readAppThread_def
  by (rule wp_quiet [where old = old]) (auto intro!: wp_leaves start_outcome)

lemma inject_outcome:
  assumes "untouched w old h" and "\<And>err h'. untouched w old h' \<Longrightarrow> wp (bad err) Q h'"
    and "\<And>h'. untouched w old h' \<Longrightarrow> wp good Q h'"
  shows "wp (injectSubagentNotice w home parent child ev bad good) Q h"
  unfolding injectSubagentNotice_def appThreadLoaded_def Let_def
  using assms by (intro wp_quiet [where old = old] wp_if) auto

lemma subagent_outcome: "untouched w old h \<Longrightarrow> wp (continue_subagent w a parent st) (outcome_matches w old) h"
  unfolding continue_subagent_def
  by (intro wp_if wp_leaves child_outcome inject_outcome [where old = old]) auto

lemma free_outcome: "untouched w old h \<Longrightarrow> wp (continue_free pt w a st latest) (outcome_matches w old) h"
  unfolding continue_free_def Let_def
  by (intro wp_if wp_leaves start_outcome wp_act [where old = old])
    (auto simp: outcome_matches_def untouched_def)

lemma held_outcome: "untouched w old h \<Longrightarrow> wp (continue_held pt w a st initial latest) (outcome_matches w old) h"
  unfolding continue_held_def
  by (intro wp_if wp_leaves start_outcome) auto

lemma thread_outcome: "untouched w old h \<Longrightarrow> wp (continue_thread pt w a st) (outcome_matches w old) h"
  unfolding continue_thread_def readAppGoal_def Let_def
  by (intro wp_quiet [where old = old] wp_if wp_leaves held_outcome free_outcome) auto

lemma after_load_outcome: "untouched w old h \<Longrightarrow> wp (after_load pt w a st) (outcome_matches w old) h"
  unfolding after_load_def readAppThread_def Let_def
  by (intro wp_quiet [where old = old] wp_if wp_option wp_leaves subagent_outcome thread_outcome) auto

lemma ipc_outcome: "untouched w old h \<Longrightarrow> wp (dispatch_ipc c w a) (outcome_matches w old) h"
  unfolding dispatch_ipc_def ipc_start_def Let_def
  by (intro wp_quiet [where old = old] wp_act [where old = old] wp_if wp_leaves) auto

lemma shared_outcome: "untouched w old h \<Longrightarrow> wp (dispatch_shared pt w a) (outcome_matches w old) h"
  unfolding dispatch_shared_def appThreadLoaded_def
  by (intro wp_quiet [where old = old] wp_if wp_leaves wp_give after_load_outcome) auto

lemma dispatch_outcome: "wp (Dispatch pt c w a) (outcome_matches w h) h"
proof -
  have "untouched w h (h @ new)" if "list_all preflight_request new" for new
    using untouched_preflight [OF untouched_refl that] .
  then show ?thesis
    unfolding Dispatch_def
    by (intro wp_preflight wp_rules)
      (auto intro: ipc_outcome shared_outcome untouched_outcome(2) [OF untouched_refl] simp: preflight_ok_def)
qed



subsection \<open>Why a turn was started\<close>

text \<open>What the requests so far have established.\<close>

definition occurs :: "request list \<Rightarrow> request list \<Rightarrow> request \<Rightarrow> bool" where
  "occurs log pre rq \<longleftrightarrow> (\<exists>post. log = pre @ rq # post)"

definition idle_read :: "world \<Rightarrow> dispatch_args \<Rightarrow> request list \<Rightarrow> appThread \<Rightarrow> bool" where
  "idle_read w a log t \<longleftrightarrow>
     at_StatusType t \<noteq> [] \<and> at_StatusType t \<noteq> ''active'' \<and>
     (\<exists>pre. occurs log pre (thread_read (da_threadID a)) \<and>
        w_thread w (pre @ [thread_read (da_threadID a)]) = Inr (Some t))"

definition goal_read :: "world \<Rightarrow> dispatch_args \<Rightarrow> request list \<Rightarrow> appGoal option \<Rightarrow> bool" where
  "goal_read w a log g \<longleftrightarrow>
     (\<exists>pre post. log = pre @ goal_get (da_threadID a) # post \<and> goal_get (da_threadID a) \<notin> set post \<and>
        w_goal w (pre @ [goal_get (da_threadID a)]) = Inr g)"

definition notice_sent :: "world \<Rightarrow> dispatch_args \<Rightarrow> request list \<Rightarrow> string \<Rightarrow> bool" where
  "notice_sent w a log parentID \<longleftrightarrow>
     (\<exists>pre. occurs log pre (inject_items parentID (da_threadID a) (da_recoveryEventID a)) \<and>
        accepted w (pre @ [inject_items parentID (da_threadID a) (da_recoveryEventID a)]))"

definition thread_permits ::
    "(string \<Rightarrow> gotime option) \<Rightarrow> world \<Rightarrow> dispatch_args \<Rightarrow> request list \<Rightarrow> appThread \<Rightarrow> bool" where
  "thread_permits pt w a log t \<longleftrightarrow>
     (let parentID = appThreadParentID (at_ParentThreadID t) (at_Source t)
      in if parentID \<noteq> [] then
           da_failureClass a = classEmptyResponse \<and>
           (da_parentNotified a \<or> (recovery_event_id (da_recoveryEventID a) \<and> notice_sent w a log parentID))
         else
           (\<exists>g. goal_read w a log g \<and>
             (g = None \<or> appHeldConversationAllowed pt g (da_failedAt a) (da_originTurnStartedAt a) (da_goalLimitRestart a))))"

definition input_permitted :: "world \<Rightarrow> dispatch_args \<Rightarrow> request list \<Rightarrow> request \<Rightarrow> bool" where
  "input_permitted w a log rq \<longleftrightarrow>
     rq = turn_start (da_threadID a) [] \<or>
     (rq = turn_start (da_threadID a) [prompt_input (da_prompt a)] \<and>
      (\<exists>pre err. log = pre @ [turn_start (da_threadID a) []] \<and> w_done w log = Inl err \<and> emptyAppInputUnsupported err))"

definition justified ::
    "(string \<Rightarrow> gotime option) \<Rightarrow> world \<Rightarrow> dispatch_args \<Rightarrow> request list \<Rightarrow> request \<Rightarrow> bool" where
  "justified pt w a log rq \<longleftrightarrow>
     (rq = rqIpcStartTurn (da_threadID a) (da_settings a) \<and> rqDial \<notin> set log) \<or>
     (input_permitted w a log rq \<and> (\<exists>t. idle_read w a log t \<and> thread_permits pt w a log t))"

definition all_justified ::
    "(string \<Rightarrow> gotime option) \<Rightarrow> world \<Rightarrow> dispatch_args \<Rightarrow> request list \<Rightarrow> bool" where
  "all_justified pt w a log \<longleftrightarrow>
     (\<forall>pre rq. occurs log pre rq \<longrightarrow> starts_turn rq \<longrightarrow> justified pt w a pre rq)"

lemma split_snoc:
  "h @ [x] = pre @ rq # post \<longleftrightarrow>
   (\<exists>p. post = p @ [x] \<and> h = pre @ rq # p) \<or> (post = [] \<and> pre = h \<and> rq = x)"
  by (cases post rule: rev_cases) auto

lemma occurs_snoc [simp]: "occurs (h @ [x]) pre rq \<longleftrightarrow> occurs h pre rq \<or> (pre = h \<and> rq = x)"
  unfolding occurs_def split_snoc by blast

lemma occurs_Nil [simp]: "\<not> occurs [] pre rq"
  by (simp add: occurs_def)

lemma occurs_mono: "occurs h pre rq \<Longrightarrow> occurs (h @ new) pre rq"
  by (auto simp: occurs_def)

lemma all_justified_Nil: "all_justified pt w a []"
  by (simp add: all_justified_def)

lemma all_justified_snoc:
  "all_justified pt w a (h @ [rq]) \<longleftrightarrow> all_justified pt w a h \<and> (starts_turn rq \<longrightarrow> justified pt w a h rq)"
  unfolding all_justified_def occurs_snoc by blast

lemma all_justified_quiet:
  "list_all (\<lambda>rq. \<not> starts_turn rq) new \<Longrightarrow> all_justified pt w a (h @ new) = all_justified pt w a h"
proof (induction new arbitrary: h)
  case (Cons rq new)
  then show ?case using Cons.IH [of "h @ [rq]"] by (simp add: all_justified_snoc)
qed simp

lemma idle_read_here:
  "w_thread w (h @ [thread_read (da_threadID a)]) = Inr (Some t) \<Longrightarrow>
   at_StatusType t \<noteq> [] \<Longrightarrow> at_StatusType t \<noteq> ''active'' \<Longrightarrow>
   idle_read w a (h @ [thread_read (da_threadID a)]) t"
  unfolding idle_read_def by auto

lemma idle_read_mono: "idle_read w a h t \<Longrightarrow> idle_read w a (h @ new) t"
  unfolding idle_read_def using occurs_mono by blast

lemma goal_read_here:
  "w_goal w (h @ [goal_get (da_threadID a)]) = Inr g \<Longrightarrow> goal_read w a (h @ [goal_get (da_threadID a)]) g"
  unfolding goal_read_def by (rule exI [of _ h], rule exI [of _ "[]"]) simp

lemma goal_read_mono:
  assumes "goal_read w a h g" and "rq \<noteq> goal_get (da_threadID a)"
  shows "goal_read w a (h @ [rq]) g"
proof -
  obtain pre post where "h = pre @ goal_get (da_threadID a) # post" "goal_get (da_threadID a) \<notin> set post"
      "w_goal w (pre @ [goal_get (da_threadID a)]) = Inr g"
    using assms(1) unfolding goal_read_def by blast
  then show ?thesis
    unfolding goal_read_def
    by (intro exI [of _ pre] exI [of _ "post @ [rq]"]) (use assms(2) in auto)
qed

lemma notice_sent_here:
  "w_done w (h @ [inject_items p (da_threadID a) (da_recoveryEventID a)]) = Inr u \<Longrightarrow>
   notice_sent w a (h @ [inject_items p (da_threadID a) (da_recoveryEventID a)]) p"
  unfolding notice_sent_def accepted_def by auto

lemma notice_sent_mono: "notice_sent w a h p \<Longrightarrow> notice_sent w a (h @ new) p"
  unfolding notice_sent_def using occurs_mono by blast

lemma thread_permits_mono:
  "thread_permits pt w a h t \<Longrightarrow> rq \<noteq> goal_get (da_threadID a) \<Longrightarrow> thread_permits pt w a (h @ [rq]) t"
  by (auto simp: thread_permits_def Let_def intro: goal_read_mono notice_sent_mono split: if_splits)

abbreviation (input) ensures ::
    "(string \<Rightarrow> gotime option) \<Rightarrow> world \<Rightarrow> dispatch_args \<Rightarrow> go_error + DispatchResult \<Rightarrow> request list \<Rightarrow> bool" where
  "ensures pt w a r log \<equiv> all_justified pt w a log"

lemma start_justified:
  assumes "all_justified pt w a h" and "idle_read w a h t" and "thread_permits pt w a h t"
  shows "wp (start_conversation w a act reason pn) (ensures pt w a) h"
proof -
  let ?first = "turn_start (da_threadID a) []"
  have first: "justified pt w a h ?first"
    using assms by (auto simp: justified_def input_permitted_def)
  have "idle_read w a (h @ [?first]) t" "thread_permits pt w a (h @ [?first]) t"
    using assms by (auto intro: idle_read_mono thread_permits_mono simp: request_defs)
  then have second: "justified pt w a (h @ [?first]) (turn_start (da_threadID a) [prompt_input (da_prompt a)])"
    if "w_done w (h @ [?first]) = Inl err" "emptyAppInputUnsupported err" for err
    using that by (auto simp: justified_def input_permitted_def)
  show ?thesis
    unfolding start_conversation_def startAppConversation_def
    by (intro wp_ask wp_if wp_leaves)
      (use first second assms(1) in \<open>auto simp: all_justified_snoc simp del: append_assoc\<close>)
qed

lemma child_justified:
  assumes "all_justified pt w a h" and "idle_read w a h t" and "thread_permits pt w a h t"
  shows "wp (resume_child w a st) (ensures pt w a) h"
proof -
  let ?h = "h @ [thread_read (da_threadID a)]"
  have "all_justified pt w a ?h" "idle_read w a ?h t" "thread_permits pt w a ?h t"
    using assms by (auto intro: idle_read_mono thread_permits_mono simp: all_justified_snoc request_defs)
  then show ?thesis
    unfolding resume_child_def readAppThread_def
    by (intro wp_ask wp_if wp_leaves start_justified)
qed

lemma inject_justified:
  assumes "all_justified pt w a h" and "idle_read w a h t"
    and "\<And>err h'. all_justified pt w a h' \<Longrightarrow> wp (bad err) Q h'"
    and "\<And>h'. all_justified pt w a h' \<Longrightarrow> idle_read w a h' t \<Longrightarrow> notice_sent w a h' p \<Longrightarrow> wp good Q h'"
  shows "wp (injectSubagentNotice w home p (da_threadID a) (da_recoveryEventID a) bad good) Q h"
proof -
  have inject: "wp (ask (w_done w) (inject_items p (da_threadID a) (da_recoveryEventID a)) bad (\<lambda>_. good)) Q h'"
    if "all_justified pt w a h'" "idle_read w a h' t" for h'
  proof (rule wp_ask)
    let ?h = "h' @ [inject_items p (da_threadID a) (da_recoveryEventID a)]"
    have safe: "all_justified pt w a ?h" using that(1) by (simp add: all_justified_snoc)
    show "wp (bad err) Q ?h" for err by (rule assms(3) [OF safe])
    show "wp good Q ?h" if "w_done w ?h = Inr reply" for reply
      using assms(4) [OF safe idle_read_mono [OF \<open>idle_read w a h' t\<close>] notice_sent_here [OF that]] .
  qed
  show ?thesis
    unfolding injectSubagentNotice_def appThreadLoaded_def Let_def
    by (intro wp_ask wp_if inject)
      (use assms(1-3) in \<open>auto simp: all_justified_snoc intro: idle_read_mono simp del: append_assoc\<close>)
qed

lemma subagent_justified:
  assumes "all_justified pt w a h" and "idle_read w a h t"
    and "appThreadParentID (at_ParentThreadID t) (at_Source t) = p" and "p \<noteq> []"
  shows "wp (continue_subagent w a p st) (ensures pt w a) h"
proof -
  have permits: "thread_permits pt w a h' t"
    if "da_failureClass a = classEmptyResponse"
      "da_parentNotified a \<or> (recovery_event_id (da_recoveryEventID a) \<and> notice_sent w a h' p)" for h'
    using that assms(3,4) by (simp add: thread_permits_def)
  show ?thesis
    unfolding continue_subagent_def
    by (intro wp_if wp_leaves child_justified inject_justified [OF assms(1,2)])
      (use assms(1,2) permits in auto)
qed

lemma hold_free:
  "\<not> appGoalHoldReason pt g failedAt glr \<noteq> [] \<Longrightarrow>
   \<not> (g \<noteq> None \<and> (case g of None \<Rightarrow> [] | Some g \<Rightarrow> gl_Status g) = ''active'') \<Longrightarrow>
   \<not> (g \<noteq> None \<and> (case g of None \<Rightarrow> [] | Some g \<Rightarrow> gl_Status g) = ''blocked'') \<Longrightarrow> g = None"
  by (auto simp: appGoalHoldReason_def split: option.splits if_splits)

lemma thread_justified:
  assumes "all_justified pt w a h" and "idle_read w a h t"
    and "appThreadParentID (at_ParentThreadID t) (at_Source t) = []"
  shows "wp (continue_thread pt w a st) (ensures pt w a) h"
proof -
  let ?get = "goal_get (da_threadID a)"
  have permits: "thread_permits pt w a h' t"
    if "goal_read w a h' g" "g = None \<or> appHeldConversationAllowed pt g (da_failedAt a)
          (da_originTurnStartedAt a) (da_goalLimitRestart a)" for h' g
    using that assms(3) by (auto simp: thread_permits_def)
  have held: "wp (continue_held pt w a st initial g) (ensures pt w a) h'"
    if "all_justified pt w a h'" "idle_read w a h' t" "goal_read w a h' g" for h' g initial
    unfolding continue_held_def
    by (intro wp_if wp_leaves start_justified) (use that permits in auto)
  have free: "wp (continue_free pt w a st g) (ensures pt w a) h'"
    if "all_justified pt w a h'" "idle_read w a h' t" "goal_read w a h' g" for h' g
  proof -
    have quiet: "all_justified pt w a (h' @ [goal_set (da_threadID a) s])" for s
      using that(1) by (simp add: all_justified_snoc)
    have start: "wp (start_conversation w a act reason pn) (ensures pt w a) h'" if "g = None" for act reason pn
      using permits [OF \<open>goal_read w a h' g\<close>] that
      by (intro start_justified [OF \<open>all_justified pt w a h'\<close> \<open>idle_read w a h' t\<close>]) blast
    show ?thesis
      unfolding continue_free_def Let_def
      by (intro wp_if wp_leaves wp_ask start quiet that(1); (erule (2) hold_free)?)
  qed
  have "all_justified pt w a ((h @ [?get]) @ [?get])" "idle_read w a ((h @ [?get]) @ [?get]) t"
    using assms by (simp_all add: all_justified_snoc idle_read_mono del: append_assoc)
  note held [OF this] and free [OF this]
  then show ?thesis
    unfolding continue_thread_def readAppGoal_def Let_def
    by (intro wp_ask wp_if wp_leaves)
      (use assms in \<open>auto simp: all_justified_snoc goal_read_here simp del: append_assoc\<close>)
qed

lemma after_load_justified:
  assumes "all_justified pt w a h"
  shows "wp (after_load pt w a st) (ensures pt w a) h"
  unfolding after_load_def readAppThread_def Let_def
  by (intro wp_ask wp_if wp_option wp_leaves subagent_justified thread_justified)
    (use assms in \<open>auto simp: all_justified_snoc intro: idle_read_here\<close>)

lemma shared_justified:
  assumes "all_justified pt w a h"
  shows "wp (dispatch_shared pt w a) (ensures pt w a) h"
  unfolding dispatch_shared_def appThreadLoaded_def
  by (intro wp_ask wp_if wp_leaves wp_give after_load_justified)
    (use assms in \<open>auto simp: all_justified_snoc simp del: append_assoc\<close>)

lemma ipc_justified:
  assumes "all_justified pt w a h" and "rqDial \<notin> set h"
  shows "wp (dispatch_ipc c w a) (ensures pt w a) h"
proof -
  have start: "wp (ipc_start w a pn) (ensures pt w a) h'"
    if "all_justified pt w a h'" "rqDial \<notin> set h'" for h' pn
    unfolding ipc_start_def
    by (intro wp_ask wp_if wp_leaves) (use that in \<open>auto simp: all_justified_snoc justified_def\<close>)
  show ?thesis
    unfolding dispatch_ipc_def Let_def
    by (intro wp_ask wp_if wp_leaves start)
      (use assms in \<open>auto simp: all_justified_snoc simp del: append_assoc\<close>)
qed

lemma preflight_no_dial: "list_all preflight_request new \<Longrightarrow> rqDial \<notin> set new"
  by (auto simp: list_all_iff preflight_request_def)

lemma dispatch_justified: "wp (Dispatch pt c w a) (ensures pt w a) []"
proof -
  have "all_justified pt w a new" if "list_all preflight_request new" for new
    using all_justified_quiet [OF preflight_acts(2) [OF that], of pt w a "[]"] all_justified_Nil by simp
  then show ?thesis
    unfolding Dispatch_def
    by (intro wp_preflight wp_rules ipc_justified shared_justified)
      (auto simp: all_justified_Nil preflight_no_dial)
qed

text \<open>
  C5: a turn is started only on a thread that was seen idle, and only with a good reason. Every
  request of a dispatch that starts a turn is either the one request to the owner of the thread
  over the official bridge (and then the app server was not contacted), or it comes after the
  thread was read in a known state other than active; for the child of a subagent call the
  failure was an empty response and its parent had been told; for a thread of the user the latest
  reading of the goal found none, or one that allows the conversation to go on beside it. The
  input is empty; only if the app server refuses that is it the configured prompt.
\<close>

theorem turn_start_justified:
  assumes "Dispatch parse_time c w a [] = (r, log)"
    and "log = pre @ rq # post" and "starts_turn rq"
  shows "(rq = rqIpcStartTurn (da_threadID a) (da_settings a) \<and> rqDial \<notin> set pre) \<or>
    (input_permitted w a pre rq \<and> (\<exists>t. idle_read w a pre t \<and> thread_permits parse_time w a pre t))"
proof -
  have "all_justified parse_time w a log" by (rule wpD [OF dispatch_justified assms(1)])
  moreover have "occurs log pre rq" using assms(2) by (auto simp: occurs_def)
  ultimately show ?thesis
    using assms(3) unfolding all_justified_def justified_def by blast
qed

theorem turn_start_justified_witness:
  "Dispatch (\<lambda>_. None) sample_controller (sample_world None) sample_args [] =
     (Inr (dispatchedResult actionConversationContinue ''silent_turn_started_in_background'' False), sample_log) \<and>
   input_permitted (sample_world None) sample_args (butlast sample_log) (turn_start ''t'' [])"
proof -
  have "sample_log = butlast sample_log @ turn_start ''t'' [] # []" by (simp add: sample_log_def)
  from turn_start_justified [OF sample_dispatch this] sample_dispatch show ?thesis
    by (simp add: turn_start_def)
qed

subsection \<open>Blocking a goal, probing a turn, choosing the channel\<close>

definition block_justified :: "world \<Rightarrow> string \<Rightarrow> request list \<Rightarrow> bool" where
  "block_justified w threadID log \<longleftrightarrow>
     (\<forall>pre rq. occurs log pre rq \<longrightarrow> acts rq \<longrightarrow>
        rq = goal_set threadID ''blocked'' \<and>
        (\<exists>before g. pre = before @ [goal_get threadID] \<and> w_goal w pre = Inr (Some g) \<and> gl_Status g = ''active''))"

lemma block_justified_snoc:
  "block_justified w tid (h @ [rq]) \<longleftrightarrow> block_justified w tid h \<and>
     (acts rq \<longrightarrow> rq = goal_set tid ''blocked'' \<and>
        (\<exists>before g. h = before @ [goal_get tid] \<and> w_goal w h = Inr (Some g) \<and> gl_Status g = ''active''))"
  unfolding block_justified_def occurs_snoc by blast

lemma block_justified_quiet:
  "list_all (\<lambda>rq. \<not> acts rq) new \<Longrightarrow> block_justified w tid (h @ new) = block_justified w tid h"
proof (induction new arbitrary: h)
  case (Cons rq new)
  then show ?case using Cons.IH [of "h @ [rq]"] by (simp add: block_justified_snoc)
qed simp

lemma block_loaded_justified:
  "block_justified w tid h \<Longrightarrow> wp (block_loaded w tid) (\<lambda>r log. block_justified w tid log) h"
  unfolding block_loaded_def readAppGoal_def Let_def
  by (intro wp_ask wp_if wp_option wp_leaves) (auto simp: block_justified_snoc simp del: append_assoc)

lemma block_goal_justified:
  "wp (BlockGoal c w tid settings home) (\<lambda>r log. block_justified w tid log) []"
proof -
  have "block_justified w tid new" if "list_all preflight_request new" for new
    using block_justified_quiet [OF preflight_acts(1) [OF that], of w tid "[]"] by (simp add: block_justified_def)
  then show ?thesis
    unfolding BlockGoal_def appThreadLoaded_def
    by (intro wp_preflight wp_rules block_loaded_justified)
      (auto simp: block_justified_snoc simp del: append_assoc simp: block_justified_def [of _ _ "[]"])
qed

definition goal_ended :: "world \<Rightarrow> string \<Rightarrow> go_error + DispatchResult \<Rightarrow> request list \<Rightarrow> bool" where
  "goal_ended w threadID r log \<longleftrightarrow>
     (\<forall>res. r = Inr res \<longrightarrow> d_Outcome res = outcomeDispatched \<longrightarrow>
        (last log = goal_set threadID ''blocked'' \<and> accepted w log) \<or>
        (\<exists>g. w_goal w log = Inr (Some g) \<and>
           gl_Status g \<in> {''blocked'', ''paused'', ''completed'', ''complete'', ''usageLimited'', ''budgetLimited''}))"

lemma block_goal_ended: "wp (BlockGoal c w tid settings home) (goal_ended w tid) []"
  unfolding BlockGoal_def block_loaded_def helper_defs
  by (intro wp_preflight wp_rules) (auto simp: goal_ended_def accepted_def preflight_ok_def)

text \<open>
  C26: blocking a goal only ever blocks. The job starts no turn; the only thing it changes is to set
  the goal of its thread to blocked, directly after reading it as active. It reports success only
  when the app server accepted that, or when the goal was just read in a state in which it does
  not run; and its result is one that the checks on goal-block results accept.
\<close>

theorem block_goal_only_blocks:
  assumes "BlockGoal c w threadID settings home [] = (r, log)"
  shows "fits jobGoalBlock r \<and> block_justified w threadID log \<and> goal_ended w threadID r log"
  using wpD [OF block_goal_justified assms] wpD [OF block_goal_fits assms] wpD [OF block_goal_ended assms]
  by blast

theorem block_goal_only_blocks_witness:
  "BlockGoal sample_controller (sample_world (Some \<lparr>gl_Status = ''active'', gl_UpdatedAt = []\<rparr>)) ''t'' None ''home'' [] =
     (Inr (dispatchedResult actionGoalBlock ''goal_blocked_after_empty_response_limit'' False),
      [rqConfig, rqDesktopState, rqEnsure, rqDesktopState, rqDial, loaded_list, goal_get ''t'',
       goal_set ''t'' ''blocked'']) \<and>
   fits jobGoalBlock (Inr (dispatchedResult actionGoalBlock ''goal_blocked_after_empty_response_limit'' False))"
proof -
  have run: "BlockGoal sample_controller (sample_world (Some \<lparr>gl_Status = ''active'', gl_UpdatedAt = []\<rparr>)) ''t'' None ''home'' [] =
     (Inr (dispatchedResult actionGoalBlock ''goal_blocked_after_empty_response_limit'' False),
      [rqConfig, rqDesktopState, rqEnsure, rqDesktopState, rqDial, loaded_list, goal_get ''t'',
       goal_set ''t'' ''blocked''])"
    by (simp add: BlockGoal_def block_loaded_def helper_defs sample_run dispatched_def)
  from block_goal_only_blocks [OF this] run show ?thesis by blast
qed

definition probe_request :: "string \<Rightarrow> request \<Rightarrow> bool" where
  "probe_request threadID rq \<longleftrightarrow>
     preflight_request rq \<or> rq = rqDial \<or> rq = loaded_list \<or> rq = thread_read threadID"

text \<open>
  The probe of a running turn is read-only: it asks which channel there is, lists the loaded
  threads and reads the thread, and nothing else; in particular it loads no thread and starts no
  turn. It reports inactivity only from the app server itself: as unloaded, or with the status
  that was read; over the bridge, where it cannot see the turn, it reports it as active.
\<close>

theorem probe_read_only:
  assumes "RetryThreadStatus c w threadID home [] = (r, log)"
  shows "list_all (probe_request threadID) log \<and>
    (\<forall>status. r = Inr status \<longrightarrow>
       status = ''active'' \<or>
       (loaded_list \<in> set log \<and>
        (status = ''unloaded'' \<or>
         (\<exists>t. w_thread w log = Inr (Some t) \<and> at_StatusType t = status \<and> status \<noteq> []))))"
proof -
  have "list_all (probe_request threadID) new" if "list_all preflight_request new" for new
    using that by (auto simp: list_all_iff probe_request_def)
  then have "wp (RetryThreadStatus c w threadID home) (\<lambda>r log. list_all (probe_request threadID) log \<and>
    (\<forall>status. r = Inr status \<longrightarrow>
       status = ''active'' \<or>
       (loaded_list \<in> set log \<and>
        (status = ''unloaded'' \<or>
         (\<exists>t. w_thread w log = Inr (Some t) \<and> at_StatusType t = status \<and> status \<noteq> []))))) []"
    unfolding RetryThreadStatus_def appThreadLoaded_def readAppThread_def
    by (intro wp_preflight wp_rules) (auto simp: probe_request_def)
  from wpD [OF this assms] show ?thesis .
qed

theorem probe_read_only_witness:
  "RetryThreadStatus sample_controller (sample_world None) ''t'' ''home'' [] =
     (Inr ''idle'', [rqConfig, rqDesktopState, rqEnsure, rqDesktopState, rqDial, loaded_list, thread_read ''t'']) \<and>
   list_all (probe_request ''t'')
     [rqConfig, rqDesktopState, rqEnsure, rqDesktopState, rqDial, loaded_list, thread_read ''t'']"
proof -
  have run: "RetryThreadStatus sample_controller (sample_world None) ''t'' ''home'' [] =
     (Inr ''idle'', [rqConfig, rqDesktopState, rqEnsure, rqDesktopState, rqDial, loaded_list, thread_read ''t''])"
    by (simp add: RetryThreadStatus_def helper_defs sample_run)
  from probe_read_only [OF this] run show ?thesis by blast
qed

text \<open>
  The server is touched (\<open>Ensure\<close>) only under the configuration's leave, and only when the desktop
  does not offer the official bridge.
\<close>

definition ensure_permitted :: "controller \<Rightarrow> world \<Rightarrow> bool" where
  "ensure_permitted c w \<longleftrightarrow>
     (let start = (if ct_configPath c then [rqConfig] else []); desktop = start @ [rqDesktopState]
      in (ct_configPath c \<longrightarrow> w_config w [rqConfig] = Inr True) \<and>
         (\<exists>st. w_desktop w desktop = Inr st \<and>
            (st = desktopLegacyStdio \<and> ct_officialIPC c \<longrightarrow>
               w_ipcAvailable w (desktop @ [rqIpcAvailable]) \<noteq> Inr True)))"

definition ensures_permitted :: "controller \<Rightarrow> world \<Rightarrow> request list \<Rightarrow> bool" where
  "ensures_permitted c w log \<longleftrightarrow>
     (rqEnsure \<in> set log \<or> rqEnsureOwnedEnvironment \<in> set log \<longrightarrow> ensure_permitted c w)"

lemma permitted_all: "ensure_permitted c w \<Longrightarrow> ensures_permitted c w h"
  by (simp add: ensures_permitted_def)

lemma wp_legacy_answer:
  assumes "st = desktopLegacyStdio \<Longrightarrow> ct_officialIPC c \<Longrightarrow> wp (k True) Q (h @ [rqIpcAvailable])"
    and "\<And>h'. (st = desktopLegacyStdio \<and> ct_officialIPC c \<longrightarrow> w_ipcAvailable w (h @ [rqIpcAvailable]) \<noteq> Inr True) \<Longrightarrow>
      h' \<in> {h, h @ [rqIpcAvailable]} \<Longrightarrow> wp (k False) Q h'"
  shows "wp (legacy_ipc c w st k) Q h"
proof (cases "st = desktopLegacyStdio \<and> ct_officialIPC c")
  case True
  have "wp (k reply) Q (h @ [rqIpcAvailable])" if "w_ipcAvailable w (h @ [rqIpcAvailable]) = Inr reply" for reply
    using assms True that by (cases reply) auto
  with True assms(2) show ?thesis
    unfolding legacy_ipc_def officialIPCReady_def by (auto intro!: wp_ask)
next
  case False
  with assms(2) [of h] show ?thesis by (auto simp: legacy_ipc_def officialIPCReady_def)
qed

lemma wp_preflight_permitted:
  assumes "\<And>pf h. ensures_permitted c w h \<Longrightarrow> preflight_ok c pn pf \<Longrightarrow> wp (k pf) Q h"
  shows "wp (preflight c w pn k) Q []"
proof -
  have shared: "wp (ensureSharedServer c w (\<lambda>err. k (pfError err)) (
        ask (w_desktop w) rqDesktopState (\<lambda>err. k (pfError err)) (\<lambda>st.
          legacy_ipc c w st (\<lambda>ipc. k (transport_result pn ipc st))))) Q h"
    if "ensure_permitted c w" for h
    unfolding ensureSharedServer_def
    by (intro wp_ask wp_if wp_legacy_ipc assms transport_result_ok permitted_all that) auto
  have desktop: "wp (ask (w_desktop w) rqDesktopState (\<lambda>err. k (pfError err)) (\<lambda>st.
      legacy_ipc c w st (\<lambda>ipc.
        if ipc then k (pfReady desktopOfficialIPC)
        else if \<not> enabled then
          k (pfNotReady (retryLaterResult
               (if st = desktopStopped then ''codex_not_running'' else ''shared_app_server_disabled'') pn))
        else ensureSharedServer c w (\<lambda>err. k (pfError err)) (
          ask (w_desktop w) rqDesktopState (\<lambda>err. k (pfError err)) (\<lambda>st.
          legacy_ipc c w st (\<lambda>ipc. k (transport_result pn ipc st))))))) Q start"
    if "start = (if ct_configPath c then [rqConfig] else [])" and "ct_configPath c \<longrightarrow> w_config w [rqConfig] = Inr enabled"
    for enabled start
    by (intro wp_ask wp_legacy_answer wp_if assms shared)
      (use that in \<open>auto simp: ensure_permitted_def ensures_permitted_def\<close>)
  show ?thesis
  proof (cases "ct_configPath c")
    case False
    then show ?thesis
      unfolding preflight_def sharedServerEnabled_def using desktop [of "[]"] by simp
  next
    case True
    have "wp (k (pfError err)) Q [rqConfig]" for err
      by (rule assms) (simp_all add: ensures_permitted_def)
    then show ?thesis
      using True unfolding preflight_def sharedServerEnabled_def
      by (simp only: not_True_eq_False if_False) (rule wp_ask, simp, rule desktop, simp_all)
  qed
qed

lemma permitted_other [simp]:
  "rq \<noteq> rqEnsure \<Longrightarrow> rq \<noteq> rqEnsureOwnedEnvironment \<Longrightarrow>
   ensures_permitted c w (h @ [rq]) = ensures_permitted c w h"
  by (auto simp: ensures_permitted_def)

lemma dispatch_permitted: "wp (Dispatch pt c w a) (\<lambda>r log. ensures_permitted c w log) []"
  unfolding Dispatch_def dispatch_defs request_defs
  by (intro wp_preflight_permitted wp_rules)
    (auto simp: ensures_permitted_def [of c w "[]"] simp del: append_assoc)

text \<open>
  Codex's own connection is left alone unless the user asked otherwise. A dispatch starts or
  checks the shared server, or touches its environment, only if the configuration enables the
  shared mode, and only after the desktop was found without a working official bridge.
\<close>

theorem shared_server_only_if_enabled:
  assumes "Dispatch parse_time c w a [] = (r, log)"
    and "rqEnsure \<in> set log \<or> rqEnsureOwnedEnvironment \<in> set log"
  shows "ensure_permitted c w"
  using wpD [OF dispatch_permitted assms(1)] assms(2) by (simp add: ensures_permitted_def)

theorem shared_server_only_if_enabled_witness:
  "rqEnsure \<in> set sample_log \<and> ensure_permitted sample_controller (sample_world None)"
proof -
  have "rqEnsure \<in> set sample_log" by (simp add: sample_log_def)
  with shared_server_only_if_enabled [OF sample_dispatch] show ?thesis by blast
qed

end
