(* ===== verification/Notice_Properties.thy ===== *)
theory Notice_Properties
  imports Shared_Controller Goal_Recovery Samples
begin

section \<open>The recovery notice, written and read back\<close>

text \<open>
  Before it resumes a subagent, the controller writes a notice into the parent's conversation
  (\<open>injectSubagentNotice\<close>); the app server stores it as a response item of the rollout file, and
  the daemon meets it there (\<open>parseRelevantEvent\<close>) and marks the child's failure as announced
  (\<open>handleSubagentRecoveryNoticeLocked\<close>). The two ends agree: what the one writes is what the
  other accepts.
\<close>

subsection \<open>Texts inside texts\<close>

lemma member_text_sub: "(k, v) \<in> set ms \<Longrightarrow> sublist (json_text v) (members_text ms)"
proof (induction ms)
  case (Cons m ms)
  obtain j w where m: "m = (j, w)" by (cases m)
  show ?case
  proof (cases "(k, v) = m")
    case True
    then have "members_text (m # ms) =
        (CHR '','' # string_text k @ [CHR '':'']) @ json_text v @ members_text ms" by (simp add: m)
    then show ?thesis unfolding sublist_def by blast
  next
    case False
    with Cons have "sublist (json_text v) (members_text ms)" by auto
    moreover have "suffix (members_text ms) (members_text (m # ms))"
      by (simp add: m suffix_def)
    ultimately show ?thesis by (metis sublist_order.order_trans suffix_imp_sublist)
  qed
qed simp

lemma object_text_sub: "(k, v) \<in> set ms \<Longrightarrow> sublist (json_text v) (json_text (JObject ms))"
proof (cases ms)
  case (Cons m rest)
  obtain j w where m: "m = (j, w)" by (cases m)
  assume "(k, v) \<in> set ms"
  with Cons consider "v = w" | "(k, v) \<in> set rest" by (auto simp: m)
  then show ?thesis
  proof cases
    case 1
    have "json_text (JObject ms) = (CHR ''{'' # string_text j @ [CHR '':'']) @ json_text w @ (members_text rest @ ''}'')"
      unfolding Cons m json_text_compound by simp
    with 1 show ?thesis unfolding sublist_def by blast
  next
    case 2
    have "json_text (JObject ms) = (CHR ''{'' # string_text j @ CHR '':'' # json_text w) @ members_text rest @ ''}''"
      unfolding Cons m json_text_compound by simp
    then have "sublist (members_text rest) (json_text (JObject ms))" unfolding sublist_def by blast
    with member_text_sub [OF 2] show ?thesis by (rule sublist_order.order_trans)
  qed
qed simp

lemma singleton_text_sub: "sublist (json_text v) (json_text (JArray [v]))"
  unfolding sublist_def by (intro exI [of _ "''[''"] exI [of _ "'']''"]) simp

lemma string_text_sub:
  assumes "concat (map json_escape p) = p"
  shows "sublist p (string_text (p @ s))"
proof -
  have "string_text (p @ s) = [quote_char] @ p @ (concat (map json_escape s) @ [quote_char])"
    by (simp add: string_text_def assms)
  then show ?thesis unfolding sublist_def by blast
qed

lemma member_quoted:
  "(k, JString s) \<in> set ms \<Longrightarrow> concat (map json_escape s) = s \<Longrightarrow> contains_sub (json_text (JObject ms)) (quoted s)"
  using object_text_sub [of k "JString s" ms]
  by (simp add: contains_sub_sublist string_text_def quoted_def quote_char_def)

subsection \<open>The notice\<close>

definition notice_line :: "string \<Rightarrow> string \<Rightarrow> string \<Rightarrow> string \<Rightarrow> string" where
  "notice_line stamp parentID childID eventID = json_text (JObject
     [(''timestamp'', JString stamp), (''type'', JString ''response_item''),
      (''payload'', notice_item parentID childID eventID)])"

definition notice_read :: "gotime \<Rightarrow> string \<Rightarrow> string \<Rightarrow> string \<Rightarrow> RelevantEvent" where
  "notice_read timestamp parentID childID eventID =
     zero_RelevantEvent\<lparr>e_Kind := ''subagent_recovery_notice'', e_ThreadID := childID,
       e_Timestamp := timestamp, e_ParentThreadID := parentID, e_RecoveryEventID := eventID\<rparr>"

lemma recovery_id_clean:
  assumes "recovery_event_id s"
  shows "to_lower (trim_space s) = s"
proof -
  have "is_hex c \<or> c \<in> set ''car-''" if "c \<in> set s" for c
    using assms that unfolding recovery_event_id_def prefix_def list_all_iff by auto
  then have "\<not> is_space c \<and> lower_char c = c" if "c \<in> set s" for c
    using that by (fastforce simp: is_space_def is_hex_def is_digit_def lower_char_def byte_def split: if_splits)
  then show ?thesis by (simp add: trim_no_space to_lower_def map_idI)
qed

lemma validThread_uuid: "plain_uuid t \<Longrightarrow> validThread t"
  by (auto simp: validThread_def plain_uuid_def threadIDFromPath_uuid dest: uuid_nonempty)

lemma decode_notice_text:
  "decode_notice (json_text (notice_payload p c ev)) =
     Some \<lparr>rn_ParentThreadID = p, rn_ChildThreadID = c, rn_RecoveryEventID = ev,
       rn_Action = ''resume_existing_child'', rn_SpawnReplacement = False\<rparr>"
  by (simp add: decode_notice_def notice_payload_def string_field_def bool_field_def key_simps
      json_string_def json_bool_def del: json_text.simps)

lemma notice_event_ok:
  "plain_uuid p \<Longrightarrow> plain_uuid c \<Longrightarrow> p \<noteq> c \<Longrightarrow> recovery_event_id ev \<Longrightarrow>
   notice_event timestamp \<lparr>rn_ParentThreadID = p, rn_ChildThreadID = c, rn_RecoveryEventID = ev,
     rn_Action = ''resume_existing_child'', rn_SpawnReplacement = False\<rparr> = Some (notice_read timestamp p c ev)"
  by (simp add: notice_event_def notice_read_def plain_uuid_clean recovery_id_clean validThread_uuid Let_def)

lemma parseRecoveryNotice_text:
  assumes "plain_uuid p" "plain_uuid c" "p \<noteq> c" "recovery_event_id ev"
  shows "parseRecoveryNotice (json_text (notice_item p c ev)) timestamp = Some (notice_read timestamp p c ev)"
  using notice_event_ok [OF assms, of timestamp]
  by (simp add: parseRecoveryNotice_def notice_item_def string_field_def key_simps json_string_def json_content_def
      decode_content_item_def trim_prefix_def decode_notice_text del: json_text.simps)

lemma escape_prefix: "concat (map json_escape recoveryNoticePrefix) = recoveryNoticePrefix"
  by code_simp

lemma notice_has_prefix: "contains_sub (json_text (notice_item p c ev)) recoveryNoticePrefix"
proof -
  let ?note = "recoveryNoticePrefix @ json_text (notice_payload p c ev)"
  let ?part = "[(''type'', JString ''input_text''), (''text'', JString ?note)]"
  have "sublist recoveryNoticePrefix (json_text (JString ?note))"
    using string_text_sub [OF escape_prefix] by simp
  also have "sublist \<dots> (json_text (JObject ?part))"
    by (rule object_text_sub [of "''text''"]) simp
  also have "sublist \<dots> (json_text (JArray [JObject ?part]))"
    by (rule singleton_text_sub)
  also have "sublist \<dots> (json_text (notice_item p c ev))"
    unfolding notice_item_def by (rule object_text_sub [of "''content''"]) simp
  finally show ?thesis by (simp only: contains_sub_sublist)
qed

lemma notice_line_screen:
  "contains_sub (notice_line stamp p c ev) (quoted ''response_item'')"
  "contains_sub (notice_line stamp p c ev) (quoted ''message'')"
proof -
  show "contains_sub (notice_line stamp p c ev) (quoted ''response_item'')"
    unfolding notice_line_def by (rule member_quoted [of "''type''"]) (simp, code_simp)
  have "contains_sub (json_text (notice_item p c ev)) (quoted ''message'')"
    unfolding notice_item_def by (rule member_quoted [of "''type''"]) (simp, code_simp)
  moreover have "sublist (json_text (notice_item p c ev)) (notice_line stamp p c ev)"
    unfolding notice_line_def by (rule object_text_sub [of "''payload''"]) simp
  ultimately show "contains_sub (notice_line stamp p c ev) (quoted ''message'')"
    unfolding contains_sub_sublist by (rule sublist_order.order_trans)
qed

lemma notice_line_envelope:
  "decode_envelope (notice_line stamp p c ev) =
     Some \<lparr>ev_Timestamp = stamp, ev_Type = ''response_item'', ev_Payload = json_text (notice_item p c ev)\<rparr>"
  by (simp add: decode_envelope_def notice_line_def string_field_def key_simps json_string_def raw_object_text
      raw_field_def del: json_text.simps)

lemma notice_item_kind: "decode_item (json_text (notice_item p c ev)) = Some (''message'', ''developer'')"
  by (simp add: decode_item_def notice_item_def string_field_def key_simps json_string_def del: json_text.simps)

text \<open>
  C7: the notice that the controller injects into the parent's conversation is the notice the daemon
  recognises when it reads the line back: parent, child and recovery event come out as they went
  in. If the event is the child's pending failure, the daemon then marks that failure as
  announced, and nothing else of it changes.
\<close>

theorem notice_roundtrip:
  assumes "plain_uuid p" and "plain_uuid c" and "p \<noteq> c" and "recovery_event_id ev"
    and "parse_time stamp = Some t" and "t_Pending thread = Some job"
    and "ev = recoveryEventID lib c (p_EventKey job)"
  shows "parseRelevantEvent parse_time now (notice_line stamp p c ev) = Some (notice_read t p c ev) \<and>
    t_Pending (get_thread (handleSubagentRecoveryNoticeLocked lib c (notice_read t p c ev) thread d) c) =
      Some (job\<lparr>p_ParentNotified := True\<rparr>)"
proof
  have "parseResponseItemEvent parse_time now (notice_line stamp p c ev) = Some (notice_read t p c ev)"
    unfolding parseResponseItemEvent_def
    by (simp add: notice_line_screen notice_line_envelope notice_item_kind notice_has_prefix event_time_def assms(5)
        parseRecoveryNotice_text [OF assms(1-4)])
  then show "parseRelevantEvent parse_time now (notice_line stamp p c ev) = Some (notice_read t p c ev)"
    by (simp add: parseRelevantEvent_def)
  show "t_Pending (get_thread (handleSubagentRecoveryNoticeLocked lib c (notice_read t p c ev) thread d) c) =
      Some (job\<lparr>p_ParentNotified := True\<rparr>)"
    using assms(6,7) by (simp add: handleSubagentRecoveryNoticeLocked_def notice_read_def Let_def)
qed

text \<open>The recovery event of the failure of the sample thread.\<close>

definition sample_recovery :: string where
  "sample_recovery = recoveryEventID sample_lib sample_child (p_EventKey sample_pending)"

lemma sample_recovery_id: "recovery_event_id sample_recovery"
  unfolding sample_recovery_def by (rule recoveryEventID_shape) (simp add: sample_lib_def)

theorem notice_roundtrip_witness:
  "parseRelevantEvent (\<lambda>s. Some 7) 9 (notice_line ''T'' sample_parent sample_child sample_recovery) =
     Some (notice_read 7 sample_parent sample_child sample_recovery)"
proof -
  have ne: "sample_parent \<noteq> sample_child" by (simp add: sample_parent_def sample_child_def)
  have pending: "t_Pending pending_thread = Some sample_pending" by (simp add: pending_thread_def)
  show ?thesis
    by (rule conjunct1 [OF notice_roundtrip [OF sample_uuids ne sample_recovery_id _ pending sample_recovery_def,
          where parse_time = "\<lambda>s. Some 7" and t = 7 and d = sample_daemon]]) simp
qed

end
