(* ===== verification/Scanner.thy ===== *)
theory Scanner
  imports Event_Parsing Retry_State
begin

section \<open>Following the rollout files (scanner.go)\<close>

text \<open>
  A file is what an open and a read of it give: its bytes and whether the read ends in an error
  instead of the end of the file. \<open>filepath.WalkDir\<close> is the list of entries it calls back for,
  in its order; \<open>range\<close> over the map of cursors is the parameter \<open>keys\<close>, some list of its keys.
  A line becomes an event by the parameter \<open>parse\<close>, which is \<open>parseRelevantEvent\<close> with its clock.
  \<open>filepath.Clean\<close> is written out for Windows paths with a drive letter or without one; UNC
  volumes, and the prefixes it puts before a relative name with a colon and before \<open>\??\<close>, are
  left out.
\<close>

subsection \<open>Paths\<close>

definition separator :: char where
  "separator = CHR 0x5C"

fun path_elements :: "string \<Rightarrow> string list" where
  "path_elements [] = [[]]"
| "path_elements (c # cs) =
     (if is_sep c then [] # path_elements cs
      else (case path_elements cs of e # es \<Rightarrow> (c # e) # es | [] \<Rightarrow> [[c]]))"

text \<open>The elements kept so far, the last one first.\<close>

definition clean_step :: "bool \<Rightarrow> string list \<Rightarrow> string \<Rightarrow> string list" where
  "clean_step rooted stack e =
     (if e = [] \<or> e = ''.'' then stack
      else if e = ''..''
        then (case stack of
            x # xs \<Rightarrow> if x \<noteq> ''..'' then xs else e # stack
          | [] \<Rightarrow> if rooted then [] else [e])
        else e # stack)"

definition clean_volume :: "string \<Rightarrow> string \<times> string" where
  "clean_volume path =
     (case path of
        a # b # rest \<Rightarrow> if b = CHR '':'' then ([a, b], rest) else ([], path)
      | _ \<Rightarrow> ([], path))"

definition filepath_Clean :: "string \<Rightarrow> string" where
  "filepath_Clean path =
     (case clean_volume path of (vol, rest) \<Rightarrow>
        if rest = [] then path @ ''.''
        else
          let rooted = is_sep (hd rest);
              out = (if rooted then [separator] else []) @
                join_with [separator] (rev (foldl (clean_step rooted) [] (path_elements rest)))
          in vol @ (if out = [] then ''.'' else out))"

text \<open>The key of a file in the map of cursors.\<close>

definition file_key :: "string \<Rightarrow> string" where
  "file_key path = to_lower (filepath_Clean path)"

definition filePathBelongsToRoot :: "string \<Rightarrow> sessionRoot \<Rightarrow> bool" where
  "filePathBelongsToRoot path root \<longleftrightarrow> prefix (file_key (sr_CodexHome root) @ [separator]) (file_key path)"

definition scanDirectories :: "sessionRoot \<Rightarrow> string list" where
  "scanDirectories root =
     (if trim_space (sr_Sessions root) \<noteq> [] then [sr_Sessions root] else []) @
     (if trim_space (sr_ArchivedSessions root) \<noteq> [] \<and>
         \<not> equal_fold (filepath_Clean (sr_ArchivedSessions root)) (filepath_Clean (sr_Sessions root))
      then [sr_ArchivedSessions root] else [])"

subsection \<open>One file\<close>

definition line_end :: char where
  "line_end = CHR 0x0A"

text \<open>\<open>ReadBytes\<close>: the line with its end, and what follows; without an end there is no rest.\<close>

definition read_line :: "string \<Rightarrow> string \<times> string option" where
  "read_line s =
     (case dropWhile (\<lambda>c. c \<noteq> line_end) s of
        [] \<Rightarrow> (s, None)
      | c # rest \<Rightarrow> (takeWhile (\<lambda>c. c \<noteq> line_end) s @ [line_end], Some rest))"

lemma read_line_shorter: "read_line s = (line, Some rest) \<Longrightarrow> length rest < length s"
proof -
  assume "read_line s = (line, Some rest)"
  then have "dropWhile (\<lambda>c. c \<noteq> line_end) s = line_end # rest"
    by (auto simp: read_line_def dropWhile_eq_Cons_conv split: list.splits)
  then have "length (line_end # rest) \<le> length s" by (metis length_dropWhile_le)
  then show ?thesis by simp
qed

record rollout =
  ro_Path :: string
  ro_ThreadID :: string
  ro_Root :: sessionRoot
  ro_Mirrored :: bool

definition line_events :: "(string \<Rightarrow> RelevantEvent option) \<Rightarrow> rollout \<Rightarrow> string \<Rightarrow> scannedEvent list" where
  "line_events parse f line =
     (case parse line of
        None \<Rightarrow> []
      | Some event \<Rightarrow>
          if e_Kind event = ''subagent_recovery_notice'' \<and> e_ParentThreadID event \<noteq> ro_ThreadID f then []
          else [\<lparr>i_ThreadID = (if e_ThreadID event \<noteq> [] then e_ThreadID event else ro_ThreadID f),
                 i_Root = ro_Root f, i_RolloutPath = filepath_Clean (ro_Path f), i_Event = event,
                 i_Mirrored = ro_Mirrored f\<rparr>])"

text \<open>The loop: events, the offset after the last line that counts, whether the read went well.\<close>

function read_loop ::
    "(string \<Rightarrow> RelevantEvent option) \<Rightarrow> rollout \<Rightarrow> bool \<Rightarrow> int \<Rightarrow> string \<Rightarrow> scannedEvent list \<times> int \<times> bool" where
  "read_loop parse f fails current s =
     (case read_line s of
        (line, Some rest) \<Rightarrow>
          (case read_loop parse f fails (current + int (length line)) rest of
             (events, offset, ok) \<Rightarrow> (line_events parse f line @ events, offset, ok))
      | (line, None) \<Rightarrow>
          if \<not> fails then ([], current, True)
          else (if line = [] then [] else line_events parse f line, current + int (length line), False))"
  by pat_completeness auto

termination
  by (relation "measure (\<lambda>(_, _, _, _, s). length s)") (auto dest: read_line_shorter [OF sym])

declare read_loop.simps [simp del]

definition readAppendedEvents ::
    "(string \<Rightarrow> RelevantEvent option) \<Rightarrow> rollout \<Rightarrow> (string \<times> bool) option \<Rightarrow> int \<Rightarrow> scannedEvent list \<times> int \<times> bool" where
  "readAppendedEvents parse f opened offset =
     (case opened of
        None \<Rightarrow> ([], offset, False)
      | Some (bytes, fails) \<Rightarrow>
          if offset < 0 then ([], offset, False)
          else read_loop parse f fails offset (drop (nat offset) bytes))"

subsection \<open>Cursors\<close>

type_synonym cursors = "string \<rightharpoonup> FileCursor"

definition threadKnownInFiles :: "(cursors \<Rightarrow> string list) \<Rightarrow> cursors \<Rightarrow> string \<Rightarrow> bool" where
  "threadKnownInFiles keys files threadID \<longleftrightarrow>
     list_ex (\<lambda>path. equal_fold (threadIDFromPath path) threadID) (keys files)"

definition migrates :: "string \<Rightarrow> string \<Rightarrow> sessionRoot \<Rightarrow> string \<Rightarrow> bool" where
  "migrates path threadID root oldPath \<longleftrightarrow>
     \<not> (equal_fold (filepath_Clean oldPath) (filepath_Clean path) \<or>
        \<not> equal_fold (threadIDFromPath oldPath) threadID \<or>
        \<not> filePathBelongsToRoot oldPath root \<or> oldPath = file_key path)"

definition migrateFileCursor ::
    "(cursors \<Rightarrow> string list) \<Rightarrow> cursors \<Rightarrow> string \<Rightarrow> string \<Rightarrow> sessionRoot \<Rightarrow> cursors \<times> FileCursor option" where
  "migrateFileCursor keys files path threadID root =
     (case find (migrates path threadID root) (keys files) of
        None \<Rightarrow> (files, None)
      | Some oldPath \<Rightarrow>
          (case files oldPath of
             None \<Rightarrow> (files, None)
           | Some cursor \<Rightarrow> (files(file_key path \<mapsto> cursor, oldPath := None), Some cursor)))"

subsection \<open>A directory\<close>

record walk_entry =
  we_Path :: string
  we_Error :: bool
  we_IsDir :: bool
  we_Name :: string
  we_Size :: "int option"
  we_Bytes :: "(string \<times> bool) option"

record scan_world =
  sw_Parse :: "string \<Rightarrow> RelevantEvent option"
  sw_Keys :: "cursors \<Rightarrow> string list"
  sw_Initialized :: bool
  sw_Baseline :: bool

definition has_jsonl_suffix :: "string \<Rightarrow> bool" where
  "has_jsonl_suffix name \<longleftrightarrow> suffix ''.jsonl'' (to_lower name)"

definition scan_known ::
    "scan_world \<Rightarrow> sessionRoot \<Rightarrow> gotime \<Rightarrow> walk_entry \<Rightarrow> int \<Rightarrow> FileCursor option \<Rightarrow> cursors \<Rightarrow>
     scannedEvent list \<times> cursors" where
  "scan_known w root now entry len old files =
     (let key = file_key (we_Path entry);
          threadID = threadIDFromPath (we_Path entry);
          cursor = (case old of Some c \<Rightarrow> c | None \<Rightarrow> \<lparr>f_Offset = 0, f_LastSeen = 0\<rparr>);
          mirrored = (old = None \<and> threadKnownInFiles (sw_Keys w) files threadID)
      in if len < f_Offset cursor then ([], files(key \<mapsto> \<lparr>f_Offset = len, f_LastSeen = now\<rparr>))
         else if len = f_Offset cursor then ([], files(key \<mapsto> cursor\<lparr>f_LastSeen := now\<rparr>))
         else
           (case readAppendedEvents (sw_Parse w)
                \<lparr>ro_Path = we_Path entry, ro_ThreadID = threadID, ro_Root = root, ro_Mirrored = mirrored\<rparr>
                (we_Bytes entry) (f_Offset cursor) of
              (events, offset, ok) \<Rightarrow>
                if \<not> ok then ([], files)
                else (events, files(key \<mapsto> \<lparr>f_Offset = offset, f_LastSeen = now\<rparr>))))"

definition scan_entry ::
    "scan_world \<Rightarrow> sessionRoot \<Rightarrow> gotime \<Rightarrow> walk_entry \<Rightarrow> cursors \<Rightarrow> scannedEvent list \<times> cursors" where
  "scan_entry w root now entry files =
     (let key = file_key (we_Path entry); threadID = threadIDFromPath (we_Path entry)
      in if we_Error entry \<or> we_IsDir entry \<or> \<not> has_jsonl_suffix (we_Name entry) \<or> threadID = []
         then ([], files)
         else (case we_Size entry of
             None \<Rightarrow> ([], files)
           | Some len \<Rightarrow>
               (case (if files key = None \<and> \<not> sw_Baseline w
                      then migrateFileCursor (sw_Keys w) files (we_Path entry) threadID root
                      else (files, files key)) of
                  (files, cursor) \<Rightarrow>
                    if sw_Baseline w \<or> (cursor = None \<and> \<not> sw_Initialized w)
                    then ([], files(key \<mapsto> \<lparr>f_Offset = len, f_LastSeen = now\<rparr>))
                    else scan_known w root now entry len cursor files)))"

fun scan_entries ::
    "scan_world \<Rightarrow> sessionRoot \<Rightarrow> (gotime \<times> walk_entry) list \<Rightarrow> cursors \<Rightarrow> scannedEvent list \<times> cursors" where
  "scan_entries w root [] files = ([], files)"
| "scan_entries w root ((now, entry) # entries) files =
     (case scan_entry w root now entry files of
        (events, files) \<Rightarrow>
          (case scan_entries w root entries files of (later, files) \<Rightarrow> (events @ later, files)))"

text \<open>The callback never returns an error, so neither does the walk.\<close>

definition scanSessionDirectory ::
    "scan_world \<Rightarrow> sessionRoot \<Rightarrow> gotime \<Rightarrow> walk_entry list \<Rightarrow> cursors \<Rightarrow> scannedEvent list \<times> cursors" where
  "scanSessionDirectory w root now entries files = scan_entries w root (map (Pair now) entries) files"

definition scanSessions ::
    "scan_world \<Rightarrow> (string \<Rightarrow> walk_entry list) \<Rightarrow> sessionRoot list \<Rightarrow> gotime \<Rightarrow> cursors \<Rightarrow> scannedEvent list \<times> cursors" where
  "scanSessions w walk roots now files =
     fold (\<lambda>(root, directory) (events, files).
         case scanSessionDirectory w root now (walk directory) files of
           (found, files) \<Rightarrow> (events @ found, files))
       (concat (map (\<lambda>root. map (Pair root) (scanDirectories root)) roots)) ([], files)"

end
