(* ===== verification/Scanner_Properties.thy ===== *)
theory Scanner_Properties
  imports Scanner "HOL-Library.List_Lexorder" "HOL-Library.Char_ord"
begin

section \<open>What a scan delivers\<close>

subsection \<open>Reading in instalments\<close>

lemma read_line_Nil [simp]: "read_line [] = ([], None)"
  by (simp add: read_line_def)

lemma read_line_Cons:
  "read_line (c # s) =
     (if c = line_end then ([line_end], Some s) else (case read_line s of (line, rest) \<Rightarrow> (c # line, rest)))"
  by (simp add: read_line_def split: list.split del: dropWhile_eq_Nil_conv)

lemma read_line_append: "read_line s = (line, Some rest) \<Longrightarrow> read_line (s @ t) = (line, Some (rest @ t))"
  by (induction s arbitrary: line) (auto simp: read_line_Cons split: if_splits prod.splits)

lemma read_line_whole: "read_line s = (line, Some rest) \<Longrightarrow> s = line @ rest"
  by (induction s arbitrary: line) (auto simp: read_line_Cons split: if_splits prod.splits)

lemma read_loop_line:
  "read_line s = (line, Some rest) \<Longrightarrow>
   read_loop parse f fails current s =
     (case read_loop parse f fails (current + int (length line)) rest of
        (events, offset, ok) \<Rightarrow> (line_events parse f line @ events, offset, ok))"
  by (subst read_loop.simps) simp

lemma read_loop_end: "read_line s = (line, None) \<Longrightarrow> read_loop parse f False current s = ([], current, True)"
  by (subst read_loop.simps) simp

text \<open>
  A read to the end of the file takes whole lines off the front; what is left starts where the
  new offset points, and reading on from there after the file has grown is reading it at once.
\<close>

lemma read_loop_split:
  "\<exists>events n. read_loop parse f False current s = (events, current + int n, True) \<and> n \<le> length s \<and>
     (\<forall>t. read_loop parse f False current (s @ t) =
        (case read_loop parse f False (current + int n) (drop n s @ t) of
           (later, offset, ok) \<Rightarrow> (events @ later, offset, ok)))"
proof (induction s arbitrary: current rule: measure_induct_rule [of length])
  case (less s)
  show ?case
  proof (cases "read_line s")
    case (Pair line more)
    show ?thesis
    proof (cases more)
      case None
      with Pair show ?thesis by (intro exI [of _ "[]"] exI [of _ 0]) (simp add: read_loop_end)
    next
      case (Some rest)
      with Pair have line: "read_line s = (line, Some rest)" by simp
      from less [OF read_line_shorter [OF line], of "current + int (length line)"] obtain events n where
        ih: "read_loop parse f False (current + int (length line)) rest =
            (events, current + int (length line) + int n, True)" "n \<le> length rest"
          "\<forall>t. read_loop parse f False (current + int (length line)) (rest @ t) =
            (case read_loop parse f False (current + int (length line) + int n) (drop n rest @ t) of
               (later, offset, ok) \<Rightarrow> (events @ later, offset, ok))"
        by blast
      have s: "s = line @ rest" by (rule read_line_whole [OF line])
      show ?thesis
      proof (intro exI conjI allI)
        show "read_loop parse f False current s =
            (line_events parse f line @ events, current + int (length line + n), True)"
          using ih(1) by (simp add: read_loop_line [OF line] add.assoc)
        show "length line + n \<le> length s" using ih(2) by (simp add: s)
        show "read_loop parse f False current (s @ t) =
            (case read_loop parse f False (current + int (length line + n)) (drop (length line + n) s @ t) of
               (later, offset, ok) \<Rightarrow> ((line_events parse f line @ events) @ later, offset, ok))" for t
          using ih(3) [rule_format, of t] read_loop_line [OF read_line_append [OF line, of t], of parse f False current]
          by (auto simp: add.assoc s split: prod.splits)
      qed
    qed
  qed
qed

subsection \<open>Paths with a drive\<close>

text \<open>A path of a drive and plain elements, all separated alike.\<close>

definition plain_element :: "string \<Rightarrow> bool" where
  "plain_element e \<longleftrightarrow> e \<notin> {[], ''.'', ''..''} \<and> list_all (\<lambda>c. \<not> is_sep c) e"

definition drive_path :: "char \<Rightarrow> char \<Rightarrow> string list \<Rightarrow> string" where
  "drive_path sep a es = a # CHR '':'' # concat (map ((#) sep) es)"

lemma path_elements_plain: "list_all (\<lambda>c. \<not> is_sep c) e \<Longrightarrow> path_elements e = [e]"
  by (induction e) auto

lemma path_elements_front:
  "list_all (\<lambda>c. \<not> is_sep c) e \<Longrightarrow> is_sep sep \<Longrightarrow> path_elements (e @ sep # r) = e # path_elements r"
  by (induction e) auto

lemma path_elements_drive:
  assumes "is_sep sep" "\<forall>e\<in>set es. plain_element e" "es \<noteq> []"
  shows "path_elements (concat (map ((#) sep) es)) = [] # es"
proof -
  have "path_elements (e @ concat (map ((#) sep) ds)) = e # ds" if "plain_element e" "\<forall>e\<in>set ds. plain_element e" for e ds
    using that assms(1)
    by (induction ds arbitrary: e) (auto simp: plain_element_def path_elements_plain path_elements_front)
  with assms show ?thesis by (cases es) auto
qed

lemma clean_plain: "\<forall>e\<in>set es. plain_element e \<Longrightarrow> foldl (clean_step rooted) stack es = rev es @ stack"
  by (induction es arbitrary: stack) (auto simp: clean_step_def plain_element_def)

lemma join_with_single: "es \<noteq> [] \<Longrightarrow> sep # join_with [sep] es = concat (map ((#) sep) es)"
  by (cases es) (auto simp: join_with_def intro!: arg_cong [where f = concat])

lemma filepath_Clean_drive:
  assumes "is_sep sep" "\<forall>e\<in>set es. plain_element e" "es \<noteq> []"
  shows "filepath_Clean (drive_path sep a es) = drive_path separator a es"
proof -
  obtain e ds where es: "es = e # ds" using assms(3) by (cases es) auto
  have "foldl (clean_step True) [] (path_elements (concat (map ((#) sep) es))) = rev es"
    using path_elements_drive [OF assms] clean_plain [OF assms(2), of True "[]"] by (simp add: clean_step_def)
  moreover have "is_sep (hd (concat (map ((#) sep) es)))" using assms(1) by (simp add: es)
  ultimately show ?thesis
    using join_with_single [OF assms(3), of separator]
    by (simp add: filepath_Clean_def drive_path_def clean_volume_def Let_def es)
qed

lemma lower_char_plain: "byte d \<notin> {65..90} \<and> byte d \<notin> {97..122} \<Longrightarrow> lower_char c = d \<longleftrightarrow> c = d"
proof -
  assume d: "byte d \<notin> {65..90} \<and> byte d \<notin> {97..122}"
  then have "lower_char d = d" by (auto simp: lower_char_def)
  moreover have "lower_char c = d \<Longrightarrow> c = d"
    using d by (auto simp: lower_char_def byte_char_of split: if_splits)
  ultimately show ?thesis by auto
qed

lemma lower_dot [simp]: "lower_char c = CHR ''.'' \<longleftrightarrow> c = CHR ''.''"
  by (rule lower_char_plain) (simp add: byte_def)

lemma lower_sep [simp]: "is_sep (lower_char c) \<longleftrightarrow> is_sep c"
  using lower_char_plain [of "CHR ''/''" c] lower_char_plain [of separator c]
  by (auto simp: is_sep_def lower_char_def byte_def separator_def)

lemma plain_element_lower: "plain_element e \<Longrightarrow> plain_element (to_lower e)"
  by (auto simp: plain_element_def to_lower_def list_all_iff map_eq_Cons_conv)

lemma file_key_drive:
  assumes "is_sep sep" "\<forall>e\<in>set es. plain_element e" "es \<noteq> []"
  shows "file_key (drive_path sep a es) = drive_path separator (lower_char a) (map to_lower es)"
proof -
  have "to_lower (concat (map ((#) separator) es)) = concat (map ((#) separator) (map to_lower es))"
    by (induction es) (simp_all add: to_lower_def separator_def lower_char_def byte_def)
  then show ?thesis
    unfolding file_key_def filepath_Clean_drive [OF assms] by (simp add: drive_path_def to_lower_def lower_char_def byte_def)
qed


lemma length_file_key:
  assumes "is_sep sep" "\<forall>e\<in>set es. plain_element e" "es \<noteq> []"
  shows "length (file_key (drive_path sep a es)) = 2 + sum_list (map (\<lambda>e. Suc (length e)) es)"
  unfolding file_key_drive [OF assms] by (simp add: drive_path_def length_concat comp_def)

lemma is_sep_separator [simp]: "is_sep separator"
  by (simp add: is_sep_def separator_def byte_def)

text \<open>A path of a rollout of thread \<open>t\<close> under a root, and the entry of a file that reads without error.\<close>

definition rollout_path :: "sessionRoot \<Rightarrow> string \<Rightarrow> string \<Rightarrow> bool" where
  "rollout_path root t p \<longleftrightarrow> t \<noteq> [] \<and> threadIDFromPath p = t \<and> file_key (file_key p) = file_key p \<and>
     threadIDFromPath (file_key p) = t \<and> filePathBelongsToRoot (file_key p) root"

text \<open>Rollouts anywhere below the home directory are what \<open>rollout_path\<close> asks for.\<close>

lemma rollout_name_plain:
  "is_uuid t \<Longrightarrow> is_uuid u \<Longrightarrow> \<forall>c\<in>set pre. \<not> is_sep c \<Longrightarrow>
   name = pre @ t @ ''.jsonl'' \<or> name = pre @ t @ CHR ''_'' # u @ ''.jsonl'' \<Longrightarrow> plain_element name"
  using uuid_no_sep no_sep_jsonl
  by (auto simp: plain_element_def list_all_iff is_uuid_def Cons_eq_append_conv append_eq_Cons_conv)

lemma rollout_path_drive:
  assumes "is_sep sep" "\<forall>e\<in>set (home @ dirs). plain_element e" "home \<noteq> []"
    and "is_uuid t" "is_uuid u" "length pre < 37" "\<forall>c\<in>set pre. \<not> is_sep c" "sr_CodexHome root = drive_path sep a home"
    and "name = pre @ t @ ''.jsonl'' \<or> name = pre @ t @ CHR ''_'' # u @ ''.jsonl''"
  shows "rollout_path root (to_lower t) (drive_path sep a (home @ dirs @ [name]))"
proof -
  have thread: "threadIDFromPath (drive_path s b (es @ [n])) = to_lower v"
    if "is_sep s" "is_uuid v" "is_uuid w" "length p < 37" "\<forall>c\<in>set p. \<not> is_sep c"
      "n = p @ v @ ''.jsonl'' \<or> n = p @ v @ CHR ''_'' # w @ ''.jsonl''" for s b es n p v w
  proof -
    have "drive_path s b (es @ [n]) = drive_path s b es @ s # n" by (simp add: drive_path_def)
    moreover have "drive_path s b es \<noteq> []" by (simp add: drive_path_def)
    ultimately show ?thesis
      using that thread_of_rollout [of v s "drive_path s b es" p] thread_of_turn_rollout [of v w s "drive_path s b es" p]
      by auto
  qed
  have lower: "to_lower name = to_lower pre @ to_lower t @ ''.jsonl'' \<or>
      to_lower name = to_lower pre @ to_lower t @ CHR ''_'' # to_lower u @ ''.jsonl''"
    using assms(9) by (auto simp: to_lower_def lower_char_def byte_def)
  have pre: "length (to_lower pre) < 37" "\<forall>c\<in>set (to_lower pre). \<not> is_sep c"
    using assms(6,7) by (simp_all add: to_lower_def)
  have name: "plain_element name" by (rule rollout_name_plain [OF assms(4,5,7,9)])
  let ?es = "home @ dirs @ [name]" and ?ls = "map to_lower (home @ dirs) @ [to_lower name]"
  have plain: "\<forall>e\<in>set ?es. plain_element e" "\<forall>e\<in>set ?ls. plain_element e" "\<forall>e\<in>set home. plain_element e"
    using assms(2) name plain_element_lower by auto
  have key: "file_key (drive_path sep a ?es) = drive_path separator (lower_char a) ?ls"
    using file_key_drive [OF assms(1) plain(1)] by simp
  have key2: "file_key (drive_path separator (lower_char a) ?ls) = drive_path separator (lower_char a) ?ls"
    using file_key_drive [OF is_sep_separator plain(2)] by (simp add: comp_def)
  have "threadIDFromPath (drive_path sep a ?es) = to_lower t"
    using thread [OF assms(1,4-7,9), of a "home @ dirs"] by simp
  moreover have "threadIDFromPath (drive_path separator (lower_char a) ?ls) = to_lower t"
    using thread [OF is_sep_separator is_uuid_lower [OF assms(4)] is_uuid_lower [OF assms(5)] pre lower,
        of "lower_char a" "map to_lower (home @ dirs)"]
    by simp
  moreover have "prefix (drive_path separator (lower_char a) (map to_lower home) @ [separator])
      (drive_path separator (lower_char a) ?ls)"
    by (cases "map to_lower dirs @ [to_lower name]") (auto simp: drive_path_def)
  ultimately show ?thesis
    using uuid_nonempty [OF is_uuid_lower [OF assms(4)]] file_key_drive [OF assms(1) plain(3) assms(3)]
    by (simp add: rollout_path_def key key2 [simplified] filePathBelongsToRoot_def assms(8))
qed

subsection \<open>One rollout over many scans\<close>

text \<open>The entry of a file that reads without error.\<close>

definition rollout_entry :: "string \<Rightarrow> string \<Rightarrow> walk_entry" where
  "rollout_entry p s =
     \<lparr>we_Path = p, we_Error = False, we_IsDir = False, we_Name = ''rollout.jsonl'',
      we_Size = Some (int (length s)), we_Bytes = Some (s, False)\<rparr>"

text \<open>The only cursor of the thread is the one under \<open>k\<close>.\<close>

definition only_key :: "cursors \<Rightarrow> string \<Rightarrow> string \<Rightarrow> bool" where
  "only_key files t k \<longleftrightarrow> files k \<noteq> None \<and> (\<forall>k'. files k' \<noteq> None \<and> threadIDFromPath k' = t \<longrightarrow> k' = k)"

definition keys_ok :: "scan_world \<Rightarrow> bool" where
  "keys_ok w \<longleftrightarrow> (\<forall>files. finite (dom files) \<longrightarrow> set (sw_Keys w files) = dom files)"

definition what :: "scannedEvent \<Rightarrow> string \<times> RelevantEvent" where
  "what item = (i_ThreadID item, i_Event item)"

lemma line_events_what:
  "ro_ThreadID f = ro_ThreadID g \<Longrightarrow> map what (line_events parse f line) = map what (line_events parse g line)"
  by (simp add: line_events_def what_def split: option.split)

text \<open>Which file the lines come from makes no difference to the events.\<close>

lemma read_loop_what:
  assumes "ro_ThreadID f = ro_ThreadID g"
  shows "map what (fst (read_loop parse f fails current s)) = map what (fst (read_loop parse g fails current s)) \<and>
    snd (read_loop parse f fails current s) = snd (read_loop parse g fails current s)"
proof (induction s arbitrary: current rule: measure_induct_rule [of length])
  case (less s)
  obtain line more where line: "read_line s = (line, more)" by (cases "read_line s")
  show ?case
  proof (cases more)
    case None
    then show ?thesis
      using line by (subst (1 2 3 4) read_loop.simps) (simp add: line_events_what [OF assms])
  next
    case (Some rest)
    with line have line: "read_line s = (line, Some rest)" by simp
    from less [OF read_line_shorter [OF line], of "current + int (length line)"] show ?thesis
      by (auto simp: read_loop_line [OF line] line_events_what [OF assms] split: prod.splits)
  qed
qed

lemma find_unique: "k \<in> set xs \<Longrightarrow> \<forall>x\<in>set xs. P x = (x = k) \<Longrightarrow> find P xs = Some k"
  by (induction xs) auto

lemma equal_fold_thread: "equal_fold (threadIDFromPath a) (threadIDFromPath b) \<longleftrightarrow> threadIDFromPath a = threadIDFromPath b"
  by (simp add: equal_fold_def threadID_lower)

lemma migrate_rollout:
  assumes "keys_ok w" "finite (dom files)" "only_key files t (file_key old)" "files (file_key old) = Some c"
    and "rollout_path root t old" "rollout_path root t p" "file_key p \<noteq> file_key old"
  shows "migrateFileCursor (sw_Keys w) files p t root = (files(file_key p \<mapsto> c, file_key old := None), Some c)"
proof -
  let ?k = "file_key old"
  have keys: "set (sw_Keys w files) = dom files" using assms(1,2) by (simp add: keys_ok_def)
  have "migrates p t root x = (x = ?k)" if "x \<in> dom files" for x
  proof
    assume "migrates p t root x"
    then have "threadIDFromPath x = t"
      using assms(6) equal_fold_thread [of x p] by (auto simp: migrates_def rollout_path_def)
    with assms(3) that show "x = ?k" by (auto simp: only_key_def)
  next
    assume "x = ?k"
    moreover have "to_lower (filepath_Clean ?k) = ?k" using assms(5) by (simp add: rollout_path_def file_key_def)
    ultimately show "migrates p t root x"
      using assms(5,6,7) by (auto simp: migrates_def rollout_path_def equal_fold_def file_key_def)
  qed
  then have "find (migrates p t root) (sw_Keys w files) = Some ?k"
    using keys assms(4) by (intro find_unique) auto
  then show ?thesis by (simp add: migrateFileCursor_def assms(4))
qed

lemma scan_known_rollout:
  assumes "files (file_key p) = Some c" "0 \<le> f_Offset c" "f_Offset c \<le> int (length s)"
    and "ro_ThreadID f = threadIDFromPath p"
    and "read_loop (sw_Parse w) f False (f_Offset c) (drop (nat (f_Offset c)) s) = (events, offset, True)"
  shows "\<exists>found. scan_known w root now (rollout_entry p s) (int (length s)) (Some c) files =
      (found, files(file_key p \<mapsto> \<lparr>f_Offset = offset, f_LastSeen = now\<rparr>)) \<and> map what found = map what events"
proof (cases "f_Offset c = int (length s)")
  case True
  with assms(5) have "events = [] \<and> offset = f_Offset c" by (simp add: read_loop_end)
  with True show ?thesis by (cases c) (simp add: scan_known_def rollout_entry_def)
next
  case False
  let ?g = "\<lparr>ro_Path = p, ro_ThreadID = threadIDFromPath p, ro_Root = root, ro_Mirrored = False\<rparr>"
  obtain found offset' ok where g: "read_loop (sw_Parse w) ?g False (f_Offset c) (drop (nat (f_Offset c)) s) =
      (found, offset', ok)" by (metis prod_cases3)
  have "map what found = map what events \<and> offset' = offset \<and> ok"
    using read_loop_what [of ?g f "sw_Parse w" False "f_Offset c" "drop (nat (f_Offset c)) s"] assms(4,5) g by simp
  with g False assms(2,3) show ?thesis
    by (auto simp: scan_known_def rollout_entry_def readAppendedEvents_def)
qed

lemma scan_rollout:
  assumes "keys_ok w" "\<not> sw_Baseline w" "finite (dom files)" "only_key files t (file_key old)"
    and "files (file_key old) = Some c" "rollout_path root t old" "rollout_path root t p"
    and "0 \<le> f_Offset c" "f_Offset c \<le> int (length s)" "ro_ThreadID f = t"
    and "read_loop (sw_Parse w) f False (f_Offset c) (drop (nat (f_Offset c)) s) = (events, offset, True)"
  shows "\<exists>found. scan_entry w root now (rollout_entry p s) files =
      (found, files(file_key old := None, file_key p \<mapsto> \<lparr>f_Offset = offset, f_LastSeen = now\<rparr>)) \<and>
    map what found = map what events"
proof -
  have p: "threadIDFromPath p = t" "t \<noteq> []" "threadIDFromPath (file_key p) = t"
    using assms(7) by (simp_all add: rollout_path_def)
  have name: "has_jsonl_suffix ''rollout.jsonl''" by code_simp
  define moved where "moved = files(file_key p \<mapsto> c, file_key old := if file_key p = file_key old then Some c else None)"
  have "scan_entry w root now (rollout_entry p s) files =
      scan_known w root now (rollout_entry p s) (int (length s)) (Some c) moved"
  proof (cases "file_key p = file_key old")
    case True
    then have "moved = files" using assms(5) by (auto simp: moved_def)
    then show ?thesis
      using True assms(2,5) p name by (simp add: scan_entry_def rollout_entry_def)
  next
    case False
    with assms(4) p(3) have "files (file_key p) = None" by (auto simp: only_key_def)
    moreover have "migrateFileCursor (sw_Keys w) files p t root = (moved, Some c)"
      using migrate_rollout [OF assms(1,3,4,5,6,7) False] False by (simp add: moved_def)
    ultimately show ?thesis
      using assms(2) p name by (simp add: scan_entry_def rollout_entry_def)
  qed
  moreover have "moved (file_key p) = Some c" by (simp add: moved_def)
  moreover have "moved(file_key p \<mapsto> x) = files(file_key old := None, file_key p \<mapsto> x)" for x
    by (auto simp: moved_def)
  ultimately show ?thesis
    using scan_known_rollout [of moved p c s f w events offset root now] assms(8-11) p(1) by simp
qed

lemma only_key_moved:
  "only_key files t k \<Longrightarrow> threadIDFromPath k' = t \<Longrightarrow> only_key (files(k := None, k' \<mapsto> c)) t k'"
  by (auto simp: only_key_def)

type_synonym glimpse = "gotime \<times> string \<times> string"

fun grows :: "string \<Rightarrow> glimpse list \<Rightarrow> bool" where
  "grows s [] = True"
| "grows s ((now, p, s') # later) = (prefix s s' \<and> grows s' later)"

fun last_seen :: "string \<Rightarrow> glimpse list \<Rightarrow> string" where
  "last_seen s [] = s"
| "last_seen s ((now, p, s') # later) = last_seen s' later"

definition glimpses :: "glimpse list \<Rightarrow> (gotime \<times> walk_entry) list" where
  "glimpses history = map (\<lambda>(now, p, s). (now, rollout_entry p s)) history"

lemma grows_prefix: "grows s history \<Longrightarrow> prefix s (last_seen s history)"
  by (induction s history rule: grows.induct) (auto intro: prefix_order.trans)

text \<open>
  The reads of a history put together: what was found so far, followed by what a read from the
  present cursor would still find, is what a read from the starting offset finds.
\<close>

lemma scan_history:
  assumes "keys_ok w" "\<not> sw_Baseline w" "ro_ThreadID f = t"
  shows "finite (dom files) \<Longrightarrow> only_key files t (file_key old) \<Longrightarrow> files (file_key old) = Some c \<Longrightarrow>
    rollout_path root t old \<Longrightarrow> 0 \<le> f_Offset c \<Longrightarrow> f_Offset c \<le> int (length s) \<Longrightarrow>
    \<forall>(now, p, s)\<in>set history. rollout_path root t p \<Longrightarrow> grows s history \<Longrightarrow>
    \<exists>found events m k. fst (scan_entries w root (glimpses history) files) = found \<and> map what found = map what events \<and>
      only_key (snd (scan_entries w root (glimpses history) files)) t k \<and>
      (history \<noteq> [] \<longrightarrow> fst (read_loop (sw_Parse w) f False (int m) (drop m (last_seen s history))) = []) \<and>
      (\<forall>u. fst (read_loop (sw_Parse w) f False (f_Offset c) (drop (nat (f_Offset c)) (last_seen s history @ u))) =
        events @ fst (read_loop (sw_Parse w) f False (int m) (drop m (last_seen s history @ u))))"
proof (induction s history arbitrary: files old c rule: grows.induct)
  case (1 s)
  then show ?case
    by (intro exI [of _ "[]"] exI [of _ "[]"] exI [of _ "nat (f_Offset c)"]
        exI [of _ "file_key old"]) (auto simp: glimpses_def)
next
  case (2 s now p s' later)
  let ?read = "read_loop (sw_Parse w) f False"
  let ?o = "f_Offset c"
  have off: "0 \<le> ?o" "?o \<le> int (length s')" and p: "rollout_path root t p"
    using 2(6-9) prefix_length_le [of s s'] by auto
  obtain events n where read: "?read ?o (drop (nat ?o) s') = (events, ?o + int n, True)"
      "n \<le> length (drop (nat ?o) s')"
      "\<forall>u. ?read ?o (drop (nat ?o) s' @ u) =
        (case ?read (?o + int n) (drop n (drop (nat ?o) s') @ u) of
          (later, offset, ok) \<Rightarrow> (events @ later, offset, ok))"
    using read_loop_split [of "sw_Parse w" f ?o "drop (nat ?o) s'"] by blast
  define m where "m = nat ?o + n"
  define c' where "c' = \<lparr>f_Offset = int m, f_LastSeen = now\<rparr>"
  have m: "?o + int n = int m" "m \<le> length s'" using off read(2) by (simp_all add: m_def)
  define files' where "files' = files(file_key old := None, file_key p \<mapsto> c')"
  obtain found where scan: "scan_entry w root now (rollout_entry p s') files = (found, files')"
      "map what found = map what events"
    using scan_rollout [OF assms(1,2) 2(2,3,4,5) p off assms(3) read(1)] by (auto simp: files'_def c'_def m)
  have nxt: "finite (dom files')" "only_key files' t (file_key p)" "files' (file_key p) = Some c'"
      "0 \<le> f_Offset c'" "f_Offset c' \<le> int (length s')" "grows s' later"
    using 2(2,9) only_key_moved [OF 2(3), of "file_key p" c'] p m
    by (simp_all add: files'_def c'_def rollout_path_def)
  have split: "fst (?read ?o (drop (nat ?o) (s' @ u))) = events @ fst (?read (int m) (drop m (s' @ u)))" for u
  proof -
    have "drop (nat ?o) (s' @ u) = drop (nat ?o) s' @ u" "drop m (s' @ u) = drop n (drop (nat ?o) s') @ u"
      using off m(2) by (simp_all add: m_def add.commute)
    then show ?thesis
      unfolding m(1) [symmetric] using read(3) [rule_format, of u]
      by (cases "?read (?o + int n) (drop n (drop (nat ?o) s') @ u)") simp
  qed
  have paths: "\<forall>(now, p, s)\<in>set later. rollout_path root t p" using 2(8) by simp
  have m_off: "f_Offset c' = int m" by (simp add: c'_def)
  from 2(1) [OF nxt(1-3) p nxt(4,5) paths nxt(6), unfolded m_off nat_int] obtain found2 events2 m2 k where ih:
      "fst (scan_entries w root (glimpses later) files') = found2" "map what found2 = map what events2"
      "only_key (snd (scan_entries w root (glimpses later) files')) t k"
      "later \<noteq> [] \<longrightarrow> fst (?read (int m2) (drop m2 (last_seen s' later))) = []"
      "\<forall>u. fst (?read (int m) (drop m (last_seen s' later @ u))) =
        events2 @ fst (?read (int m2) (drop m2 (last_seen s' later @ u)))"
    by (elim exE conjE) (rule that, assumption+)
  obtain v where v: "last_seen s' later = s' @ v" using grows_prefix [OF nxt(6)] by (auto simp: prefix_def)
  show ?case
  proof (intro exI conjI allI impI)
    show "map what (found @ found2) = map what (events @ events2)" using scan(2) ih(2) by simp
    show "fst (scan_entries w root (glimpses ((now, p, s') # later)) files) = found @ found2"
      using scan(1) ih(1) by (auto simp: glimpses_def split: prod.split)
    show "only_key (snd (scan_entries w root (glimpses ((now, p, s') # later)) files)) t k"
      using scan(1) ih(3) by (auto simp: glimpses_def split: prod.splits)
    show "fst (?read (int m2) (drop m2 (last_seen s ((now, p, s') # later)))) = []"
    proof (cases later)
      case Nil
      with ih(5) [rule_format, of "[]"] split [of "[]"] read(1) show ?thesis by (simp add: v)
    qed (use ih(4) in simp)
    show "fst (?read ?o (drop (nat ?o) (last_seen s ((now, p, s') # later) @ u))) =
        (events @ events2) @ fst (?read (int m2) (drop m2 (last_seen s ((now, p, s') # later) @ u)))" for u
      using split [of "v @ u"] ih(5) [rule_format, of u] by (simp add: v)
  qed
qed

text \<open>
  C6: no event is lost and none is delivered twice. However often a rollout is scanned while it
  grows, in whatever pieces its bytes become visible (a line cut in the middle included), and
  wherever under its root it is moved in the meantime, the scans together deliver the events that
  one read of the whole file from the starting offset gives, in the same order; and the thread
  keeps one cursor.
\<close>

theorem scan_exactly_once:
  assumes "keys_ok w" "\<not> sw_Baseline w" "finite (dom files)" "only_key files t (file_key old)"
    and "files (file_key old) = Some c" "rollout_path root t old" "0 \<le> f_Offset c" "f_Offset c \<le> int (length s)"
    and "\<forall>(now, p, s)\<in>set history. rollout_path root t p" "grows s history" "history \<noteq> []" "ro_ThreadID f = t"
    and "scan_entries w root (glimpses history) files = (found, files')"
    and "readAppendedEvents (sw_Parse w) f (Some (last_seen s history, False)) (f_Offset c) = (events, offset, ok)"
  shows "map what found = map what events \<and> (\<exists>k. only_key files' t k)"
proof -
  from scan_history [OF assms(1,2,12,3-10)] obtain found2 events2 m where h:
      "found = found2" "map what found2 = map what events2" "\<exists>k. only_key files' t k"
      "fst (read_loop (sw_Parse w) f False (int m) (drop m (last_seen s history))) = []"
      "\<forall>u. fst (read_loop (sw_Parse w) f False (f_Offset c) (drop (nat (f_Offset c)) (last_seen s history @ u))) =
        events2 @ fst (read_loop (sw_Parse w) f False (int m) (drop m (last_seen s history @ u)))"
    using assms(11,13) by auto
  have "events = events2"
    using h(4) h(5) [rule_format, of "[]"] assms(7,14) by (simp add: readAppendedEvents_def)
  with h show ?thesis by auto
qed

text \<open>A rollout seen with half a line, then, after the thread was archived, with one line and a half.\<close>

definition sample_root :: sessionRoot where
  "sample_root = \<lparr>sr_Sessions = ''C:/h/sessions'', sr_ArchivedSessions = ''C:/h/archived_sessions'', sr_CodexHome = ''C:/h''\<rparr>"

definition sample_thread :: string where
  "sample_thread = ''0123abcd-0000-4000-8000-0123456789ab''"

definition sample_turn :: string where
  "sample_turn = ''11111111-2222-3333-4444-555555555555''"

definition sample_scan :: scan_world where
  "sample_scan = \<lparr>sw_Parse = (\<lambda>line. Some (zero_RelevantEvent\<lparr>e_Kind := line\<rparr>)),
     sw_Keys = (\<lambda>files. sorted_list_of_set (dom files)), sw_Initialized = True, sw_Baseline = False\<rparr>"

definition sample_path :: "string list \<Rightarrow> string" where
  "sample_path es = drive_path CHR ''/'' CHR ''C'' (''h'' # es)"

abbreviation live_path :: string where
  "live_path \<equiv> sample_path [''sessions'', ''r-'' @ sample_thread @ ''.jsonl'']"

abbreviation archived_path :: string where
  "archived_path \<equiv> sample_path [''archived_sessions'', ''r-'' @ sample_thread @ ''.jsonl'']"

abbreviation second_path :: string where
  "second_path \<equiv> sample_path [''sessions'', ''s-'' @ sample_thread @ CHR ''_'' # sample_turn @ ''.jsonl'']"

lemma sample_ids: "is_uuid sample_thread" "is_uuid sample_turn" "to_lower sample_thread = sample_thread"
  by (simp_all add: sample_thread_def sample_turn_def is_uuid_def uuid_dashes_def to_lower_def
      hex_ci_def is_hex_def is_digit_def lower_char_def byte_def upt_rec)

lemma sample_paths:
  "rollout_path sample_root sample_thread live_path" "rollout_path sample_root sample_thread archived_path"
  "rollout_path sample_root sample_thread second_path" "file_key second_path \<noteq> file_key live_path"
proof -
  have path: "rollout_path sample_root sample_thread (sample_path [d, n])"
    if "n = p @ sample_thread @ ''.jsonl'' \<or> n = p @ sample_thread @ CHR ''_'' # sample_turn @ ''.jsonl''"
      "d \<in> {''sessions'', ''archived_sessions''}" "p \<in> {''r-'', ''s-''}" for d n p
    using rollout_path_drive [OF _ _ _ sample_ids(1,2) _ _ _ that(1), where sep = "CHR ''/''" and a = "CHR ''C''" and
        home = "[''h'']" and dirs = "[d]" and root = sample_root] that(2,3)
    by (auto simp: sample_ids(3) sample_path_def sample_root_def drive_path_def plain_element_def is_sep_def byte_def)
  show "rollout_path sample_root sample_thread live_path" "rollout_path sample_root sample_thread archived_path"
    by (rule path [where p = "''r-''"]; simp)+
  show "rollout_path sample_root sample_thread second_path"
    by (rule path [where p = "''s-''"]; simp)
  have "plain_element (''r-'' @ sample_thread @ ''.jsonl'')"
    "plain_element (''s-'' @ sample_thread @ CHR ''_'' # sample_turn @ ''.jsonl'')"
    using rollout_name_plain [OF sample_ids(1,2), of "''r-''"] rollout_name_plain [OF sample_ids(1,2), of "''s-''"]
    by (simp_all add: is_sep_def byte_def)
  moreover have "plain_element ''h''" "plain_element ''sessions''" "is_sep CHR ''/''"
    by (simp_all add: plain_element_def is_sep_def byte_def)
  ultimately have "length (file_key live_path) \<noteq> length (file_key second_path)"
    using sample_ids(1,2) by (simp add: sample_path_def length_file_key is_uuid_def)
  then show "file_key second_path \<noteq> file_key live_path" by auto
qed

lemma sample_keys: "keys_ok sample_scan"
  by (simp add: keys_ok_def sample_scan_def)

lemma sample_only: "only_key [file_key live_path \<mapsto> c] sample_thread (file_key live_path)"
  by (simp add: only_key_def)

definition sample_history :: "glimpse list" where
  "sample_history = [(1, live_path, ''x''), (2, archived_path, ''x'' @ line_end # ''y'')]"

theorem scan_exactly_once_witness:
  "map what (fst (scan_entries sample_scan sample_root (glimpses sample_history)
      [file_key live_path \<mapsto> \<lparr>f_Offset = 0, f_LastSeen = 0\<rparr>])) =
   [(sample_thread, zero_RelevantEvent\<lparr>e_Kind := ''x'' @ [line_end]\<rparr>)]"
proof -
  let ?c = "\<lparr>f_Offset = 0, f_LastSeen = 0\<rparr>"
  let ?files = "[file_key live_path \<mapsto> ?c]"
  let ?f = "\<lparr>ro_Path = live_path, ro_ThreadID = sample_thread, ro_Root = sample_root, ro_Mirrored = False\<rparr>"
  obtain found files' where scan: "scan_entries sample_scan sample_root (glimpses sample_history) ?files = (found, files')"
    by fastforce
  obtain events offset ok where read:
      "readAppendedEvents (sw_Parse sample_scan) ?f (Some (last_seen [] sample_history, False)) (f_Offset ?c) = (events, offset, ok)"
    by (metis prod_cases3)
  have "map what events = [(sample_thread, zero_RelevantEvent\<lparr>e_Kind := ''x'' @ [line_end]\<rparr>)]"
  proof -
    have "read_line (''x'' @ line_end # ''y'') = (''x'' @ [line_end], Some ''y'')" "read_line ''y'' = (''y'', None)"
      by (simp_all add: read_line_Cons line_end_def)
    from read_loop_line [OF this(1)] read_loop_end [OF this(2)] show ?thesis
      using read by (simp add: readAppendedEvents_def sample_history_def) (auto simp: sample_scan_def line_events_def what_def zero_RelevantEvent_def)
  qed
  moreover have "map what found = map what events \<and> (\<exists>k. only_key files' sample_thread k)"
    by (rule scan_exactly_once [OF sample_keys _ _ sample_only _ sample_paths(1) _ _ _ _ _ _ scan read])
      (use sample_paths in \<open>simp_all add: sample_history_def sample_scan_def\<close>)
  ultimately show ?thesis using scan by simp
qed

text \<open>
  C27: the price of finding a moved file by its thread alone. When a thread has a second rollout
  under the same root (Codex names them by thread and turn), the first scan that meets it takes
  the cursor of the first: the first file is forgotten, and a second file shorter than what was
  read of the first is set to its end, its events never read.
\<close>

theorem second_rollout_takes_cursor:
  assumes "keys_ok w" "\<not> sw_Baseline w" "finite (dom files)" "only_key files t (file_key first)"
    and "files (file_key first) = Some c" "rollout_path root t first" "rollout_path root t second"
    and "file_key second \<noteq> file_key first" "int (length s) < f_Offset c"
  shows "scan_entry w root now (rollout_entry second s) files =
    ([], files(file_key first := None, file_key second \<mapsto> \<lparr>f_Offset = int (length s), f_LastSeen = now\<rparr>))"
proof -
  have p: "threadIDFromPath second = t" "t \<noteq> []" "threadIDFromPath (file_key second) = t"
    using assms(7) by (simp_all add: rollout_path_def)
  have name: "has_jsonl_suffix ''rollout.jsonl''" by code_simp
  have "files (file_key second) = None" using assms(4,8) p(3) by (auto simp: only_key_def)
  then show ?thesis
    using migrate_rollout [OF assms(1,3,4,5,6,7,8)] assms(2,8,9) p name
    by (auto simp: scan_entry_def scan_known_def rollout_entry_def fun_upd_twist)
qed

theorem second_rollout_takes_cursor_witness:
  "scan_entry sample_scan sample_root 2 (rollout_entry second_path ''y'')
     [file_key live_path \<mapsto> \<lparr>f_Offset = 9, f_LastSeen = 0\<rparr>] =
   ([], [file_key second_path \<mapsto> \<lparr>f_Offset = 1, f_LastSeen = 2\<rparr>])"
proof -
  let ?c = "\<lparr>f_Offset = 9, f_LastSeen = 0\<rparr>"
  have "scan_entry sample_scan sample_root 2 (rollout_entry second_path ''y'') [file_key live_path \<mapsto> ?c] =
      ([], [file_key live_path \<mapsto> ?c](file_key live_path := None,
         file_key second_path \<mapsto> \<lparr>f_Offset = int (length ''y''), f_LastSeen = 2\<rparr>))"
    by (rule second_rollout_takes_cursor [OF sample_keys _ _ sample_only _ sample_paths(1,3,4), where c = ?c])
      (simp_all add: sample_scan_def)
  then show ?thesis by simp
qed

end
