(* ===== verification/Management.thy ===== *)
theory Management
  imports Status Control Json_Text "HOL-Library.Product_Lexorder"
begin

section \<open>The management service (management.go)\<close>

text \<open>
  The control panel and the MCP server work on the files of the data directory; the directory is
  the state here. A file is missing, unreadable or holds contents. The configuration is bytes,
  written with \<open>mw_render\<close>, which stands for \<open>json.MarshalIndent\<close>; the other files are what they
  decode to. Every lock, write and removal asks \<open>mw_ok\<close> for its outcome, numbered in order.
  \<open>enableSharedAppServer\<close> and \<open>disableSharedAppServer\<close> belong to the Windows part and are
  parameters; the directory records their calls with the configuration file they found. Enabling
  takes long enough for another process to write the configuration: \<open>mw_meanwhile\<close>. What
  \<open>fmt.Errorf\<close> puts before an error is left out.
  A notice for the user is its constructor instead of its text.
\<close>

subsection \<open>The records\<close>

record ManagedRetry =
  mr_ThreadID :: string
  mr_Label :: string
  mr_State :: string
  mr_Class :: FailureClass
  mr_DueAt :: string
  mr_SecondsRemaining :: int
  mr_RecoveryAttempt :: int
  mr_MaxRecoveryAttempts :: int
  mr_ConsecutiveRetry :: int
  mr_MaxConsecutiveRetries :: int
  mr_Action :: RetryAction
  mr_CanRetryNow :: bool
  mr_CanCancel :: bool
  mr_CanRestart :: bool
  mr_StopReason :: string

datatype notice =
    noticeNone
  | noticeSharedUnchanged
  | noticeSharedEnabled
  | noticeSharedDisabled
  | noticeSettingsSaved
  | noticePromptSaved
  | noticePaused
  | noticeResumed
  | noticeRetryNow
  | noticeRestarted
  | noticeCancelled

record ManagementSnapshot =
  ms_Version :: string
  ms_Running :: bool
  ms_HeartbeatStale :: bool
  ms_Paused :: bool
  ms_RetryPrompt :: string
  ms_MaxConsecutiveRetries :: int
  ms_MaxRecoveryAttempts :: int
  ms_AuthMaxAttempts :: int
  ms_InitialDelaySeconds :: int
  ms_MaxDelaySeconds :: int
  ms_DelayIncrementSeconds :: int
  ms_DelayStrategy :: string
  ms_ShowNotifications :: bool
  ms_MemoryLimitMB :: int
  ms_MemoryUsageMB :: int
  ms_MemoryGuardTriggered :: bool
  ms_SharedAppServerMemoryUsageMB :: int
  ms_SharedAppServerMemoryLimitMB :: int
  ms_SharedAppServerMemoryGuardTriggered :: bool
  ms_RetrySafetyWarning :: "(int \<times> int) option"
  ms_SharedAppServerPort :: int
  ms_SharedAppServerEnabled :: bool
  ms_SharedAppServerRequested :: bool
  ms_DesktopTransport :: string
  ms_RecoveryMode :: string
  ms_AutomaticRecoverySupported :: bool
  ms_RecoveryCapabilityReason :: string
  ms_StartupApproved :: string
  ms_Now :: string
  ms_LastScanAt :: string
  ms_PendingRetries :: int
  ms_ActiveRetries :: int
  ms_StoppedRetries :: int
  ms_WatchedRoots :: int
  ms_LastError :: string
  ms_ControllerState :: string
  ms_Notice :: notice
  ms_Retries :: "ManagedRetry list"

record RetrySettings =
  rq_RetryPrompt :: string
  rq_MaxConsecutiveRetries :: int
  rq_MaxRecoveryAttempts :: int
  rq_AuthMaxAttempts :: "int option"
  rq_InitialDelaySeconds :: int
  rq_MaxDelaySeconds :: int
  rq_DelayIncrementSeconds :: int
  rq_DelayStrategy :: string
  rq_ShowNotifications :: bool
  rq_MemoryLimitMB :: int

subsection \<open>The data directory\<close>

datatype shared_call = scEnable Config | scDisable Config

record data_dir =
  dd_config :: file_read
  dd_control :: "ControlState json_file"
  dd_commands :: "ControlCommand list"
  dd_state :: state_file
  dd_status :: "StatusSnapshot json_file"
  dd_markers :: "string list"
  dd_calls :: "(shared_call \<times> file_read) list"
  dd_tick :: nat

record mgmt_world =
  mw_ok :: "nat \<Rightarrow> bool"
  mw_render :: "json \<Rightarrow> string"
  mw_load :: "state_file \<Rightarrow> state_error + RuntimeState"
  mw_range :: "(string \<rightharpoonup> ThreadState) \<Rightarrow> string list"
  mw_lib :: golib
  mw_ownsRuntime :: "int \<Rightarrow> bool"
  mw_startup :: string
  mw_version :: string
  mw_enable :: "nat \<Rightarrow> Config \<Rightarrow> string + Config"
  mw_disable :: "nat \<Rightarrow> Config \<Rightarrow> bool"
  mw_meanwhile :: "nat \<Rightarrow> file_read \<Rightarrow> file_read"

datatype mgmt_error =
    mgLock
  | mgConfig config_error
  | mgControl control_error
  | mgState state_error
  | mgStatusUnreadable
  | mgStatusParse
  | mgEnableCancelled
  | mgEnable string
  | mgDisable
  | mgMarker
  | mgNothingToDo
  | mgCommand "command_fault option"
  | mgSavePause control_error
  | mgRestore control_error mgmt_error

type_synonym 'a mgmt = "data_dir \<Rightarrow> (mgmt_error + 'a) \<times> data_dir"

definition succeed :: "'a \<Rightarrow> 'a mgmt" where
  "succeed x d = (Inr x, d)"

definition refuse :: "mgmt_error \<Rightarrow> 'a mgmt" where
  "refuse e d = (Inl e, d)"

definition andThen :: "'a mgmt \<Rightarrow> ('a \<Rightarrow> 'b mgmt) \<Rightarrow> 'b mgmt" where
  "andThen m f d = (case m d of (Inl e, d) \<Rightarrow> (Inl e, d) | (Inr x, d) \<Rightarrow> f x d)"

definition attempt :: "mgmt_world \<Rightarrow> bool mgmt" where
  "attempt w d = (Inr (mw_ok w (dd_tick d)), d\<lparr>dd_tick := Suc (dd_tick d)\<rparr>)"

subsection \<open>The files\<close>

definition config_bytes :: "mgmt_world \<Rightarrow> Config \<Rightarrow> file_read" where
  "config_bytes w c = FileBytes (mw_render w (JObject (encode_config c)))"

text \<open>\<open>loadOrCreateConfig\<close>: under the lock, and the migrated or first configuration is written.\<close>

definition load_unlocked :: "mgmt_world \<Rightarrow> Config mgmt" where
  "load_unlocked w = andThen (attempt w) (\<lambda>written d.
     case loadOrCreateConfigUnlocked (dd_config d) written of
       Inl e \<Rightarrow> (Inl (mgConfig e), d)
     | Inr (c, None) \<Rightarrow> (Inr c, d)
     | Inr (c, Some c') \<Rightarrow> (Inr c, d\<lparr>dd_config := config_bytes w c'\<rparr>))"

definition locked :: "mgmt_world \<Rightarrow> 'a mgmt \<Rightarrow> 'a mgmt" where
  "locked w m = andThen (attempt w) (\<lambda>held. if held then m else refuse mgLock)"

definition loadOrCreateConfig :: "mgmt_world \<Rightarrow> Config mgmt" where
  "loadOrCreateConfig w = locked w (load_unlocked w)"

definition write_config :: "mgmt_world \<Rightarrow> Config \<Rightarrow> Config mgmt" where
  "write_config w c = andThen (attempt w) (\<lambda>written d.
     if written then (Inr c, d\<lparr>dd_config := config_bytes w c\<rparr>) else (Inl (mgConfig configWriteFailed), d))"

definition update_config :: "mgmt_world \<Rightarrow> (Config \<Rightarrow> mgmt_error + Config) \<Rightarrow> Config mgmt" where
  "update_config w mutate = locked w (andThen (load_unlocked w) (\<lambda>loaded.
     case mutate loaded of
       Inl e \<Rightarrow> refuse e
     | Inr c \<Rightarrow> (case validate c of
           Some fault \<Rightarrow> refuse (mgConfig (configInvalid fault))
         | None \<Rightarrow> write_config w c)))"

definition load_control :: "mgmt_world \<Rightarrow> ControlState mgmt" where
  "load_control w = andThen (attempt w) (\<lambda>written d.
     case loadOrCreateControlState (dd_control d) written of
       Inl e \<Rightarrow> (Inl (mgControl e), d)
     | Inr (st, None) \<Rightarrow> (Inr st, d)
     | Inr (st, Some st') \<Rightarrow> (Inr st, d\<lparr>dd_control := JsonContent (Some st')\<rparr>))"

definition save_control :: "mgmt_world \<Rightarrow> bool \<Rightarrow> gotime \<Rightarrow> (control_error + ControlState) mgmt" where
  "save_control w paused now = andThen (attempt w) (\<lambda>written d.
     case saveControlState paused now written of
       Inl e \<Rightarrow> (Inr (Inl e), d)
     | Inr st \<Rightarrow> (Inr (Inr st), d\<lparr>dd_control := JsonContent (Some st)\<rparr>))"

definition load_state :: "mgmt_world \<Rightarrow> RuntimeState mgmt" where
  "load_state w d = (case mw_load w (dd_state d) of Inl e \<Rightarrow> (Inl (mgState e), d) | Inr s \<Rightarrow> (Inr s, d))"

definition loadStatusSnapshot :: "StatusSnapshot option mgmt" where
  "loadStatusSnapshot d =
     (case dd_status d of
        JsonMissing \<Rightarrow> (Inr None, d)
      | JsonUnreadable \<Rightarrow> (Inl mgStatusUnreadable, d)
      | JsonContent None \<Rightarrow> (Inl mgStatusParse, d)
      | JsonContent (Some st) \<Rightarrow> (Inr (Some st), d))"

subsection \<open>The queue\<close>

definition shortThreadID :: "string \<Rightarrow> string" where
  "shortThreadID i = (if length i \<le> 8 then i else take 8 i @ ''...'')"

text \<open>The prefix is the Chinese word for a task and a blank, in UTF-8.\<close>

definition task_label :: "string \<Rightarrow> string" where
  "task_label k = map (char_of :: nat \<Rightarrow> char) [0xE4, 0xBB, 0xBB, 0xE5, 0x8A, 0xA1, 0x20] @ shortThreadID k"

definition stoppedRetryIsVisible :: "StoppedRetry \<Rightarrow> gotime \<Rightarrow> bool" where
  "stoppedRetryIsVisible s now \<longleftrightarrow>
     (if is_zero (s_StoppedAt s) then True
      else if s_Historical s then False
      else if \<not> is_zero (s_FailedAt s) \<and> \<not> After (s_FailedAt s) now \<and>
              time_sub now (s_FailedAt s) > stoppedRetryDisplayWindow then False
      else if After (s_StoppedAt s) now then True
      else time_sub now (s_StoppedAt s) \<le> stoppedRetryDisplayWindow)"

definition seconds_remaining :: "duration \<Rightarrow> int" where
  "seconds_remaining d = (if d > 0 then go_div (i64 (d + Second - 1)) Second else 0)"

definition pending_entry :: "golib \<Rightarrow> gotime \<Rightarrow> string \<Rightarrow> PendingRetry \<Rightarrow> ManagedRetry" where
  "pending_entry lib now k p =
     \<lparr>mr_ThreadID = k, mr_Label = task_label k, mr_State = ''pending'', mr_Class = p_Class p,
      mr_DueAt = rfc3339 lib (p_DueAt p), mr_SecondsRemaining = seconds_remaining (time_sub (p_DueAt p) now),
      mr_RecoveryAttempt = p_Attempt p, mr_MaxRecoveryAttempts = p_MaxAttempts p,
      mr_ConsecutiveRetry = p_ConsecutiveRetry p, mr_MaxConsecutiveRetries = p_MaxConsecutive p,
      mr_Action = actionOther [], mr_CanRetryNow = True, mr_CanCancel = True, mr_CanRestart = False,
      mr_StopReason = []\<rparr>"

definition awaiting_entry :: "string \<Rightarrow> AwaitingRetry \<Rightarrow> ManagedRetry" where
  "awaiting_entry k a =
     \<lparr>mr_ThreadID = k, mr_Label = task_label k,
      mr_State = (if a_RetryTurnID a \<noteq> [] then ''running'' else ''starting''), mr_Class = a_Class a,
      mr_DueAt = [], mr_SecondsRemaining = 0,
      mr_RecoveryAttempt = a_Attempt a, mr_MaxRecoveryAttempts = a_MaxAttempts a,
      mr_ConsecutiveRetry = a_ConsecutiveRetry a, mr_MaxConsecutiveRetries = a_MaxConsecutive a,
      mr_Action = a_Action a, mr_CanRetryNow = False, mr_CanCancel = False, mr_CanRestart = False,
      mr_StopReason = []\<rparr>"

definition stopped_entry :: "string \<Rightarrow> StoppedRetry \<Rightarrow> ManagedRetry" where
  "stopped_entry k s =
     \<lparr>mr_ThreadID = k, mr_Label = task_label k, mr_State = ''stopped'', mr_Class = s_Class s,
      mr_DueAt = [], mr_SecondsRemaining = 0,
      mr_RecoveryAttempt = s_Attempts s, mr_MaxRecoveryAttempts = s_MaxAttempts s,
      mr_ConsecutiveRetry = s_ConsecutiveRetries s, mr_MaxConsecutiveRetries = s_MaxConsecutive s,
      mr_Action = actionOther [], mr_CanRetryNow = False, mr_CanCancel = False, mr_CanRestart = True,
      mr_StopReason = s_Reason s\<rparr>"

definition thread_entries :: "golib \<Rightarrow> gotime \<Rightarrow> string \<Rightarrow> ThreadState \<Rightarrow> ManagedRetry list" where
  "thread_entries lib now k t =
     (case t_Pending t of None \<Rightarrow> [] | Some p \<Rightarrow> [pending_entry lib now k p]) @
     (case t_Awaiting t of None \<Rightarrow> [] | Some a \<Rightarrow> [awaiting_entry k a]) @
     (case t_Stopped t of
        None \<Rightarrow> [] | Some s \<Rightarrow> if stoppedRetryIsVisible s now then [stopped_entry k s] else [])"

text \<open>The comparison sorts by these keys: pending ones last, then the text of the due time, then the id.\<close>

definition queue_key :: "ManagedRetry \<Rightarrow> bool \<times> string \<times> string" where
  "queue_key r = (mr_State r = ''pending'', mr_DueAt r, mr_ThreadID r)"

definition managedRetries :: "golib \<Rightarrow> string list \<Rightarrow> RuntimeState \<Rightarrow> gotime \<Rightarrow> ManagedRetry list" where
  "managedRetries lib ks state now =
     sort_key queue_key (concat (map (\<lambda>k. case rs_Threads state k of
         None \<Rightarrow> [] | Some t \<Rightarrow> thread_entries lib now k t) ks))"

subsection \<open>The snapshot\<close>

definition visible_retries :: "bool \<Rightarrow> ManagedRetry list \<Rightarrow> ManagedRetry list" where
  "visible_retries running retries = filter (\<lambda>r. running \<or> mr_State r = ''stopped'') retries"

definition count_state :: "(string \<Rightarrow> bool) \<Rightarrow> ManagedRetry list \<Rightarrow> int" where
  "count_state P retries = int (length (filter (\<lambda>r. P (mr_State r)) retries))"

definition stale_after :: "Config \<Rightarrow> duration" where
  "stale_after c = max (i64 (i64 (c_PollIntervalSeconds c * 4) * Second)) (15 * Second)"

definition heartbeat_stale :: "mgmt_world \<Rightarrow> gotime \<Rightarrow> Config \<Rightarrow> StatusSnapshot option \<Rightarrow> bool" where
  "heartbeat_stale w now c status =
     (case status of
        None \<Rightarrow> True
      | Some st \<Rightarrow> \<not> mw_ownsRuntime w (st_PID st) \<or> is_zero (st_LastScanAt st) \<or>
          time_sub now (st_LastScanAt st) > stale_after c)"

definition is_running :: "mgmt_world \<Rightarrow> gotime \<Rightarrow> Config \<Rightarrow> StatusSnapshot option \<Rightarrow> bool" where
  "is_running w now c status =
     (case status of None \<Rightarrow> False | Some st \<Rightarrow> st_Running st \<and> \<not> heartbeat_stale w now c status)"

definition base_snapshot ::
    "mgmt_world \<Rightarrow> gotime \<Rightarrow> Config \<Rightarrow> ControlState \<Rightarrow> RuntimeState \<Rightarrow> StatusSnapshot option \<Rightarrow> ManagementSnapshot" where
  "base_snapshot w now c control state status =
     (let running = is_running w now c status;
          retries = visible_retries running (managedRetries (mw_lib w) (mw_range w (rs_Threads state)) state now)
      in \<lparr>ms_Version = mw_version w, ms_Running = running, ms_HeartbeatStale = heartbeat_stale w now c status,
          ms_Paused = cs_Paused control, ms_RetryPrompt = c_RetryPrompt c,
          ms_MaxConsecutiveRetries = c_MaxConsecutiveRetries c, ms_MaxRecoveryAttempts = c_MaxRecoveryAttempts c,
          ms_AuthMaxAttempts = c_AuthMaxAttempts c, ms_InitialDelaySeconds = c_InitialDelaySeconds c,
          ms_MaxDelaySeconds = c_MaxDelaySeconds c, ms_DelayIncrementSeconds = c_DelayIncrementSeconds c,
          ms_DelayStrategy = c_DelayStrategy c, ms_ShowNotifications = c_ShowNotifications c,
          ms_MemoryLimitMB = c_MemoryLimitMB c, ms_MemoryUsageMB = 0, ms_MemoryGuardTriggered = False,
          ms_SharedAppServerMemoryUsageMB = 0, ms_SharedAppServerMemoryLimitMB = c_SharedAppServerMemoryLimitMB c,
          ms_SharedAppServerMemoryGuardTriggered = False, ms_RetrySafetyWarning = retrySafetyWarning c,
          ms_SharedAppServerPort = c_SharedAppServerPort c, ms_SharedAppServerEnabled = c_SharedAppServerEnabled c,
          ms_SharedAppServerRequested = c_SharedAppServerRequested c, ms_DesktopTransport = ''unknown'',
          ms_RecoveryMode = ''none'', ms_AutomaticRecoverySupported = False, ms_RecoveryCapabilityReason = [],
          ms_StartupApproved = mw_startup w, ms_Now = rfc3339 (mw_lib w) now, ms_LastScanAt = [],
          ms_PendingRetries = count_state (\<lambda>s. s = ''pending'') retries,
          ms_ActiveRetries = count_state (\<lambda>s. s \<noteq> ''pending'' \<and> s \<noteq> ''stopped'') retries,
          ms_StoppedRetries = count_state (\<lambda>s. s = ''stopped'') retries,
          ms_WatchedRoots = 0, ms_LastError = [], ms_ControllerState = [], ms_Notice = noticeNone,
          ms_Retries = retries\<rparr>)"

definition default_text :: "string \<Rightarrow> string \<Rightarrow> string" where
  "default_text s fallback = (if s = [] then fallback else s)"

definition with_status :: "mgmt_world \<Rightarrow> StatusSnapshot \<Rightarrow> ManagementSnapshot \<Rightarrow> ManagementSnapshot" where
  "with_status w st snap =
     (let capability = capabilityForControllerState (st_ControllerState st) (st_SharedAppServerEnabled st)
      in snap\<lparr>ms_Version := (if ms_Running snap then st_Version st else ms_Version snap),
          ms_WatchedRoots := st_WatchedRoots st, ms_LastError := st_LastError st,
          ms_ControllerState := st_ControllerState st,
          ms_DesktopTransport := default_text (st_DesktopTransport st) (dc_Transport capability),
          ms_RecoveryMode := default_text (st_RecoveryMode st) (dc_RecoveryMode capability),
          ms_AutomaticRecoverySupported := st_AutomaticRecoverySupported st,
          ms_RecoveryCapabilityReason := default_text (st_RecoveryCapabilityReason st) (dc_Reason capability),
          ms_MemoryUsageMB := st_MemoryUsageMB st,
          ms_MemoryLimitMB := (if st_MemoryLimitMB st > 0 then st_MemoryLimitMB st else ms_MemoryLimitMB snap),
          ms_MemoryGuardTriggered := st_MemoryGuardTriggered st,
          ms_SharedAppServerMemoryUsageMB := st_SharedAppServerMemoryUsageMB st,
          ms_SharedAppServerMemoryLimitMB := (if st_SharedAppServerMemoryLimitMB st > 0
            then st_SharedAppServerMemoryLimitMB st else ms_SharedAppServerMemoryLimitMB snap),
          ms_SharedAppServerMemoryGuardTriggered := st_SharedAppServerMemoryGuardTriggered st,
          ms_RetrySafetyWarning := (if st_RetrySafetyWarning st \<noteq> None
            then st_RetrySafetyWarning st else ms_RetrySafetyWarning snap),
          ms_LastScanAt := (if is_zero (st_LastScanAt st) then ms_LastScanAt snap
            else rfc3339 (mw_lib w) (st_LastScanAt st))\<rparr>)"

definition snapshotLocked :: "mgmt_world \<Rightarrow> gotime \<Rightarrow> ManagementSnapshot mgmt" where
  "snapshotLocked w now =
     andThen (loadOrCreateConfig w) (\<lambda>c.
     andThen (load_control w) (\<lambda>control.
     andThen (load_state w) (\<lambda>state.
     andThen loadStatusSnapshot (\<lambda>status.
       let snap = base_snapshot w now c control state status
       in succeed (case status of None \<Rightarrow> snap | Some st \<Rightarrow> with_status w st snap)))))"

definition with_notice :: "notice \<Rightarrow> ManagementSnapshot mgmt \<Rightarrow> ManagementSnapshot mgmt" where
  "with_notice n m = andThen m (\<lambda>snap. succeed (snap\<lparr>ms_Notice := n\<rparr>))"

subsection \<open>Settings\<close>

definition applyRetrySettings :: "RetrySettings \<Rightarrow> Config \<Rightarrow> Config" where
  "applyRetrySettings s c =
     c\<lparr>c_RetryPrompt := rq_RetryPrompt s, c_MaxConsecutiveRetries := rq_MaxConsecutiveRetries s,
       c_MaxRecoveryAttempts := rq_MaxRecoveryAttempts s,
       c_AuthMaxAttempts := (case rq_AuthMaxAttempts s of Some n \<Rightarrow> n | None \<Rightarrow> c_AuthMaxAttempts c),
       c_InitialDelaySeconds := rq_InitialDelaySeconds s, c_MaxDelaySeconds := rq_MaxDelaySeconds s,
       c_DelayIncrementSeconds :=
         (if rq_DelayIncrementSeconds s \<noteq> 0 \<or> rq_DelayStrategy s = delayStrategyLinear
          then rq_DelayIncrementSeconds s else c_DelayIncrementSeconds c),
       c_DelayStrategy := rq_DelayStrategy s, c_ShowNotifications := rq_ShowNotifications s,
       c_MemoryLimitMB := (if rq_MemoryLimitMB s > 0 then rq_MemoryLimitMB s else c_MemoryLimitMB c)\<rparr>"

definition setRetrySettings :: "mgmt_world \<Rightarrow> RetrySettings \<Rightarrow> gotime \<Rightarrow> ManagementSnapshot mgmt" where
  "setRetrySettings w settings now =
     andThen (update_config w (\<lambda>c. Inr (applyRetrySettings settings c))) (\<lambda>_.
       with_notice noticeSettingsSaved (snapshotLocked w now))"

definition setRetryPrompt :: "mgmt_world \<Rightarrow> string \<Rightarrow> gotime \<Rightarrow> ManagementSnapshot mgmt" where
  "setRetryPrompt w prompt now =
     andThen (update_config w (\<lambda>c. Inr (c\<lparr>c_RetryPrompt := prompt\<rparr>))) (\<lambda>_.
       with_notice noticePromptSaved (snapshotLocked w now))"

text \<open>The settings dialog: settings and the pause switch together, or the old settings again.\<close>

definition restore_config :: "mgmt_world \<Rightarrow> Config \<Rightarrow> control_error \<Rightarrow> unit mgmt" where
  "restore_config w original err d =
     (case update_config w (\<lambda>_. Inr original) d of
        (Inl rollback, d) \<Rightarrow> (Inl (mgRestore err rollback), d)
      | (Inr _, d) \<Rightarrow> (Inl (mgSavePause err), d))"

definition setLocalSettings :: "mgmt_world \<Rightarrow> RetrySettings \<Rightarrow> bool \<Rightarrow> gotime \<Rightarrow> unit mgmt" where
  "setLocalSettings w settings paused now =
     andThen (loadOrCreateConfig w) (\<lambda>original.
     andThen (update_config w (\<lambda>c. Inr (applyRetrySettings settings c))) (\<lambda>_.
     andThen (save_control w paused now) (\<lambda>saved.
       case saved of Inl err \<Rightarrow> restore_config w original err | Inr _ \<Rightarrow> succeed ())))"

definition setPaused :: "mgmt_world \<Rightarrow> bool \<Rightarrow> gotime \<Rightarrow> ManagementSnapshot mgmt" where
  "setPaused w paused now =
     andThen (save_control w paused now) (\<lambda>saved.
       case saved of
         Inl err \<Rightarrow> refuse (mgSavePause err)
       | Inr _ \<Rightarrow> with_notice (if paused then noticePaused else noticeResumed) (snapshotLocked w now))"

subsection \<open>Commands\<close>

definition queue_command :: "mgmt_world \<Rightarrow> ControlCommandAction \<Rightarrow> string \<Rightarrow> gotime \<Rightarrow> ControlCommand mgmt" where
  "queue_command w action threadID now = andThen (attempt w) (\<lambda>io d.
     case queueControlCommand action threadID now io of
       Inl fault \<Rightarrow> (Inl (mgCommand fault), d)
     | Inr command \<Rightarrow> (Inr command, d\<lparr>dd_commands := dd_commands d @ [command]\<rparr>))"

definition has_target :: "ControlCommandAction \<Rightarrow> ThreadState option \<Rightarrow> bool" where
  "has_target action thread \<longleftrightarrow>
     (case thread of
        None \<Rightarrow> False
      | Some t \<Rightarrow> if action = commandRestartRetry then t_Stopped t \<noteq> None else t_Pending t \<noteq> None)"

definition command_notice :: "ControlCommandAction \<Rightarrow> notice" where
  "command_notice action =
     (if action = commandRetryNow then noticeRetryNow
      else if action = commandRestartRetry then noticeRestarted else noticeCancelled)"

definition queueThreadCommand ::
    "mgmt_world \<Rightarrow> ControlCommandAction \<Rightarrow> string \<Rightarrow> gotime \<Rightarrow> ManagementSnapshot mgmt" where
  "queueThreadCommand w action threadID now =
     (let threadID = to_lower (trim_space threadID)
      in andThen (load_state w) (\<lambda>state.
         if \<not> has_target action (rs_Threads state threadID) then refuse mgNothingToDo
         else andThen (queue_command w action threadID now) (\<lambda>_.
           with_notice (command_notice action) (snapshotLocked w now))))"

definition retryNow :: "mgmt_world \<Rightarrow> string \<Rightarrow> gotime \<Rightarrow> ManagementSnapshot mgmt" where
  "retryNow w = queueThreadCommand w commandRetryNow"

definition cancelRetry :: "mgmt_world \<Rightarrow> string \<Rightarrow> gotime \<Rightarrow> ManagementSnapshot mgmt" where
  "cancelRetry w = queueThreadCommand w commandCancelRetry"

definition restartRetry :: "mgmt_world \<Rightarrow> string \<Rightarrow> gotime \<Rightarrow> ManagementSnapshot mgmt" where
  "restartRetry w = queueThreadCommand w commandRestartRetry"

subsection \<open>Shared mode\<close>

definition note_call :: "shared_call \<Rightarrow> data_dir \<Rightarrow> data_dir" where
  "note_call call d = d\<lparr>dd_calls := dd_calls d @ [(call, dd_config d)]\<rparr>"

definition enable_shared :: "mgmt_world \<Rightarrow> Config \<Rightarrow> Config mgmt" where
  "enable_shared w c d =
     (let d = note_call (scEnable c) d;
          d = d\<lparr>dd_config := mw_meanwhile w (dd_tick d) (dd_config d)\<rparr>
      in (case mw_enable w (dd_tick d) c of Inl err \<Rightarrow> (Inl (mgEnable err), d) | Inr c' \<Rightarrow> (Inr c', d)))"

definition disable_shared :: "mgmt_world \<Rightarrow> Config \<Rightarrow> bool mgmt" where
  "disable_shared w c d = (Inr (mw_disable w (dd_tick d) c), note_call (scDisable c) d)"

definition remove_marker :: "mgmt_world \<Rightarrow> string \<Rightarrow> unit mgmt" where
  "remove_marker w name d =
     (if name \<notin> set (dd_markers d) then succeed () d
      else andThen (attempt w) (\<lambda>removed d.
        if removed then (Inr (), d\<lparr>dd_markers := removeAll name (dd_markers d)\<rparr>) else (Inl mgMarker, d)) d)"

text \<open>The second write of the enabling branch: the user may have withdrawn the wish in between.\<close>

definition enable_confirmed :: "int \<Rightarrow> Config \<Rightarrow> mgmt_error + Config" where
  "enable_confirmed port c =
     (if \<not> c_SharedAppServerRequested c then Inl mgEnableCancelled
      else Inr (c\<lparr>c_SharedAppServerEnabled := True, c_SharedAppServerPort := port\<rparr>))"

definition persist_enabled :: "mgmt_world \<Rightarrow> Config \<Rightarrow> unit mgmt" where
  "persist_enabled w prepared d =
     (case update_config w (enable_confirmed (c_SharedAppServerPort prepared)) d of
        (Inl err, d) \<Rightarrow> andThen (disable_shared w prepared) (\<lambda>_. refuse err) d
      | (Inr _, d) \<Rightarrow>
          andThen (remove_marker w ''shared-availability.json'') (\<lambda>_. remove_marker w ''shared-fail-open.json'') d)"

definition enable_branch :: "mgmt_world \<Rightarrow> unit mgmt" where
  "enable_branch w =
     andThen (update_config w (\<lambda>c. Inr (c\<lparr>c_SharedAppServerRequested := True\<rparr>))) (\<lambda>c.
     andThen (enable_shared w c) (persist_enabled w))"

definition disable_branch :: "mgmt_world \<Rightarrow> unit mgmt" where
  "disable_branch w =
     andThen (update_config w (\<lambda>c. Inr (c\<lparr>c_SharedAppServerRequested := False, c_SharedAppServerEnabled := False\<rparr>))) (\<lambda>c.
     andThen (disable_shared w c) (\<lambda>done. if done then succeed () else refuse mgDisable))"

definition setSharedAppServerEnabled :: "mgmt_world \<Rightarrow> bool \<Rightarrow> gotime \<Rightarrow> ManagementSnapshot mgmt" where
  "setSharedAppServerEnabled w enabled now =
     andThen (loadOrCreateConfig w) (\<lambda>c.
       if c_SharedAppServerEnabled c = enabled \<and> c_SharedAppServerRequested c = enabled
       then with_notice noticeSharedUnchanged (snapshotLocked w now)
       else andThen (if enabled then enable_branch w else disable_branch w) (\<lambda>_.
         with_notice (if enabled then noticeSharedEnabled else noticeSharedDisabled) (snapshotLocked w now)))"

end
