(* ===== verification/Management_Lemmas.thy ===== *)
theory Management_Lemmas
  imports Management Samples
begin

section \<open>The configuration file as the management service sees it\<close>

text \<open>
  What a load and an update do to a configuration file, in particular to one that the program wrote
  itself, and a data directory for the examples.
\<close>

subsection \<open>The file operations\<close>

text \<open>The bytes that \<open>json.MarshalIndent\<close> writes are read back as the value they were written for.\<close>

definition render_ok :: "mgmt_world \<Rightarrow> bool" where
  "render_ok w \<longleftrightarrow> (\<forall>v. parse_json (mw_render w v) = Some v)"

lemma andThen_cases:
  "andThen m f d = (r, d') \<longleftrightarrow>
   (\<exists>e. m d = (Inl e, d') \<and> r = Inl e) \<or> (\<exists>x d1. m d = (Inr x, d1) \<and> f x d1 = (r, d'))"
  by (auto simp: andThen_def split: prod.splits sum.splits)

lemma andThen_ok:
  "andThen m f d = (Inr y, d') \<longleftrightarrow> (\<exists>x d1. m d = (Inr x, d1) \<and> f x d1 = (Inr y, d'))"
  by (auto simp: andThen_def split: prod.splits sum.splits)

lemma attempt_simp [simp]: "attempt w d = (Inr (mw_ok w (dd_tick d)), d\<lparr>dd_tick := Suc (dd_tick d)\<rparr>)"
  by (simp add: attempt_def)

text \<open>Everything but the configuration file and the counter.\<close>

definition same_rest :: "data_dir \<Rightarrow> data_dir \<Rightarrow> bool" where
  "same_rest d d' \<longleftrightarrow> dd_control d' = dd_control d \<and> dd_commands d' = dd_commands d \<and>
     dd_state d' = dd_state d \<and> dd_status d' = dd_status d \<and> dd_markers d' = dd_markers d \<and> dd_calls d' = dd_calls d"

lemma same_rest_refl [simp]: "same_rest d d" "same_rest d (d\<lparr>dd_tick := n\<rparr>)" "same_rest d (d\<lparr>dd_config := f, dd_tick := n\<rparr>)"
    "same_rest d (d\<lparr>dd_tick := n, dd_config := f\<rparr>)"
  by (simp_all add: same_rest_def)

lemma same_rest_trans: "same_rest a b \<Longrightarrow> same_rest b c \<Longrightarrow> same_rest a c"
  by (simp add: same_rest_def)

lemma load_unlocked_result:
  assumes "load_unlocked w d = (r, d')"
  shows "same_rest d d' \<and>
    (\<forall>c. r = Inr c \<longrightarrow> stable_config c \<and> dd_config d' \<in> {dd_config d, config_bytes w c}) \<and>
    (\<forall>e. r = Inl e \<longrightarrow> dd_config d' = dd_config d)"
  using assms unfolding load_unlocked_def andThen_def
  by (auto dest!: loaded_config_stable split: sum.splits option.splits)

lemma load_written:
  assumes "render_ok w" "dd_config d = config_bytes w c" "stable_config c"
  shows "load_unlocked w d = (Inr c, d\<lparr>dd_tick := Suc (dd_tick d)\<rparr>)"
  using encoded_config_reloads [OF assms(3)] assms(1,2)
  by (simp add: load_unlocked_def andThen_def loadOrCreateConfigUnlocked_def config_bytes_def render_ok_def)

lemma update_config_result:
  assumes "update_config w mutate d = (r, d')"
  shows "same_rest d d' \<and> (\<forall>c. r = Inr c \<longrightarrow> dd_config d' = config_bytes w c \<and> valid_config c \<and>
    (\<exists>loaded. stable_config loaded \<and> mutate loaded = Inr c))"
proof (cases "mw_ok w (dd_tick d)")
  case False
  with assms show ?thesis by (auto simp: update_config_def locked_def andThen_def refuse_def)
next
  case True
  let ?d1 = "d\<lparr>dd_tick := Suc (dd_tick d)\<rparr>"
  obtain r1 d2 where load: "load_unlocked w ?d1 = (r1, d2)" by fastforce
  note l = load_unlocked_result [OF load]
  have rest: "same_rest d d2" using l same_rest_trans [of d ?d1 d2] by simp
  show ?thesis
  proof (cases r1)
    case (Inl e)
    with assms True load rest show ?thesis by (auto simp: update_config_def locked_def andThen_def)
  next
    case (Inr loaded)
    with assms True load have "(r, d') = (case mutate loaded of Inl e \<Rightarrow> refuse e
      | Inr c \<Rightarrow> (case validate c of Some fault \<Rightarrow> refuse (mgConfig (configInvalid fault)) | None \<Rightarrow> write_config w c)) d2"
      by (simp add: update_config_def locked_def andThen_def)
    then show ?thesis
      using l rest Inr
      by (auto simp: refuse_def write_config_def andThen_def same_rest_def split: sum.splits option.splits if_splits)
  qed
qed

text \<open>An update of a file that the program wrote: it fails and leaves the file, or writes the new one.\<close>

lemma update_written:
  assumes "render_ok w" "dd_config d = config_bytes w c" "stable_config c" "update_config w mutate d = (r, d')"
  shows "same_rest d d' \<and> (\<forall>e. r = Inl e \<longrightarrow> dd_config d' = dd_config d) \<and>
    (\<forall>c'. r = Inr c' \<longrightarrow> mutate c = Inr c' \<and> valid_config c' \<and> dd_config d' = config_bytes w c')"
  using assms(4) load_written [OF assms(1) _ assms(3), of "d\<lparr>dd_tick := Suc (dd_tick d)\<rparr>"] assms(2)
  by (auto simp: update_config_def locked_def andThen_def refuse_def write_config_def same_rest_def
      split: sum.splits option.splits if_splits)

lemma load_config_written:
  assumes "render_ok w" "dd_config d = config_bytes w c" "stable_config c" "loadOrCreateConfig w d = (r, d')"
  shows "same_rest d d' \<and> dd_config d' = dd_config d \<and> (\<forall>c'. r = Inr c' \<longrightarrow> c' = c)"
  using assms(4) load_written [OF assms(1) _ assms(3), of "d\<lparr>dd_tick := Suc (dd_tick d)\<rparr>"] assms(2)
  by (auto simp: loadOrCreateConfig_def locked_def andThen_def refuse_def same_rest_def split: if_splits)

subsection \<open>A sample\<close>

definition sample_mgmt :: mgmt_world where
  "sample_mgmt = \<lparr>mw_ok = (\<lambda>_. True), mw_render = json_text, mw_load = (\<lambda>f. loadState f [] [] [] []),
     mw_range = (\<lambda>m. [sample_child]), mw_lib = sample_lib, mw_ownsRuntime = (\<lambda>_. True), mw_startup = ''enabled'',
     mw_version = ''1'', mw_enable = (\<lambda>_ c. Inr c), mw_disable = (\<lambda>_ _. True), mw_meanwhile = (\<lambda>_ f. f)\<rparr>"

definition sample_dir :: data_dir where
  "sample_dir = \<lparr>dd_config = config_bytes sample_mgmt defaultConfig, dd_control = JsonMissing, dd_commands = [],
     dd_state = StateContent 9 (Some (newRuntimeState\<lparr>rs_Threads := [sample_child \<mapsto> stopped_thread]\<rparr>)),
     dd_status = JsonMissing, dd_markers = [], dd_calls = [], dd_tick = 0\<rparr>"

lemma sample_render: "render_ok sample_mgmt"
  by (simp add: render_ok_def sample_mgmt_def parse_json_text del: json_text.simps)

lemma default_stable: "stable_config defaultConfig"
  by code_simp

lemma sample_config_file: "dd_config sample_dir = config_bytes sample_mgmt defaultConfig"
  by (simp add: sample_dir_def)

end
