(* ===== verification/Management_Properties.thy ===== *)
theory Management_Properties
  imports Management_Lemmas
begin

section \<open>What the control panel can rely on\<close>

subsection \<open>Settings\<close>

text \<open>
  C38: the settings dialog saves the retry settings and the pause switch together or not at all. If
  it reports success, the file holds the new settings over the old configuration and the switch
  is set; if it reports an error, the switch is as it was and so is the configuration, except
  when restoring it failed too, which the error says.
\<close>

theorem local_settings_atomic:
  assumes "render_ok w" "dd_config d = config_bytes w c" "stable_config c"
    and "setLocalSettings w s paused now d = (r, d')"
  shows "(r = Inr () \<longrightarrow> dd_config d' = config_bytes w (applyRetrySettings s c) \<and>
      valid_config (applyRetrySettings s c) \<and>
      dd_control d' = JsonContent (Some \<lparr>cs_Version = 1, cs_Paused = paused, cs_UpdatedAt = now\<rparr>)) \<and>
    (\<forall>e. r = Inl e \<longrightarrow> dd_control d' = dd_control d \<and>
      (dd_config d' = dd_config d \<or> (\<exists>err rollback. e = mgRestore err rollback)))"
proof -
  obtain r1 d1 where load: "loadOrCreateConfig w d = (r1, d1)" by fastforce
  note l = load_config_written [OF assms(1-3) load]
  show ?thesis
  proof (cases r1)
    case (Inl e)
    with assms(4) load l show ?thesis by (auto simp: setLocalSettings_def andThen_def same_rest_def)
  next
    case (Inr c1)
    then have c1: "c1 = c" using l by simp
    obtain r2 d2 where upd: "update_config w (\<lambda>c. Inr (applyRetrySettings s c)) d1 = (r2, d2)" by fastforce
    have "dd_config d1 = config_bytes w c" using l assms(2) by simp
    note u = update_written [OF assms(1) this assms(3) upd]
    show ?thesis
    proof (cases r2)
      case (Inl e)
      with assms(4) load upd u l \<open>r1 = Inr c1\<close> show ?thesis by (auto simp: setLocalSettings_def andThen_def same_rest_def)
    next
      case (Inr c2)
      then have c2: "c2 = applyRetrySettings s c" "valid_config c2" "dd_config d2 = config_bytes w c2" using u by auto
      have rest: "same_rest d d2" using l u same_rest_trans by blast
      show ?thesis
      proof (cases "mw_ok w (dd_tick d2)")
        case True
        with assms(4) load upd Inr \<open>r1 = Inr c1\<close> c2 rest show ?thesis
          by (auto simp: setLocalSettings_def andThen_def save_control_def saveControlState_def succeed_def
              currentControlVersion_def same_rest_def)
      next
        case False
        let ?d3 = "d2\<lparr>dd_tick := Suc (dd_tick d2)\<rparr>"
        have "(r, d') = restore_config w c controlWriteFailed ?d3"
          using assms(4) load upd Inr \<open>r1 = Inr c1\<close> c1 False
          by (simp add: setLocalSettings_def andThen_def save_control_def saveControlState_def)
        moreover obtain r4 d4 where restored: "update_config w (\<lambda>_. Inr c) ?d3 = (r4, d4)" by fastforce
        moreover have "dd_control d4 = dd_control d" "r4 = Inr x \<Longrightarrow> dd_config d4 = config_bytes w c" for x
          using update_config_result [OF restored] rest by (auto simp: same_rest_def)
        ultimately show ?thesis using assms(2) by (cases r4) (auto simp: restore_config_def)
      qed
    qed
  qed
qed

text \<open>A snapshot is a function of what was read.\<close>

definition full_snapshot ::
    "mgmt_world \<Rightarrow> gotime \<Rightarrow> Config \<Rightarrow> ControlState \<Rightarrow> RuntimeState \<Rightarrow> StatusSnapshot option \<Rightarrow> ManagementSnapshot" where
  "full_snapshot w now c control state status =
     (let snap = base_snapshot w now c control state status
      in case status of None \<Rightarrow> snap | Some st \<Rightarrow> with_status w st snap)"

lemma snapshot_unfold:
  "snapshotLocked w now = andThen (loadOrCreateConfig w) (\<lambda>c. andThen (load_control w) (\<lambda>control.
     andThen (load_state w) (\<lambda>state. andThen loadStatusSnapshot (\<lambda>status.
       succeed (full_snapshot w now c control state status)))))"
  by (simp add: snapshotLocked_def full_snapshot_def Let_def)

definition sample_wishes :: RetrySettings where
  "sample_wishes = \<lparr>rq_RetryPrompt = ''go on'', rq_MaxConsecutiveRetries = 3, rq_MaxRecoveryAttempts = 9,
     rq_AuthMaxAttempts = None, rq_InitialDelaySeconds = 5, rq_MaxDelaySeconds = 60, rq_DelayIncrementSeconds = 0,
     rq_DelayStrategy = ''fixed'', rq_ShowNotifications = True, rq_MemoryLimitMB = 0\<rparr>"

theorem local_settings_atomic_witness:
  "dd_control (snd (setLocalSettings sample_mgmt sample_wishes True 7 sample_dir)) =
     JsonContent (Some \<lparr>cs_Version = 1, cs_Paused = True, cs_UpdatedAt = 7\<rparr>)"
proof -
  obtain r d' where run: "setLocalSettings sample_mgmt sample_wishes True 7 sample_dir = (r, d')" by fastforce
  have ok: "mw_ok sample_mgmt n" for n by (simp add: sample_mgmt_def)
  have "validate (applyRetrySettings sample_wishes defaultConfig) = None" by code_simp
  then have "r = Inr ()"
    using run ok load_written [OF sample_render _ default_stable] sample_config_file
    by (auto simp: setLocalSettings_def loadOrCreateConfig_def update_config_def locked_def andThen_def
        write_config_def save_control_def saveControlState_def succeed_def)
  with local_settings_atomic [OF sample_render sample_config_file default_stable run] run show ?thesis by simp
qed

subsection \<open>Buttons\<close>

lemma thread_entries_cases:
  assumes "r \<in> set (thread_entries lib now k t)"
  obtains (pending) p where "t_Pending t = Some p" "r = pending_entry lib now k p"
  | (awaiting) a where "t_Awaiting t = Some a" "r = awaiting_entry k a"
  | (stopped) s where "t_Stopped t = Some s" "stoppedRetryIsVisible s now" "r = stopped_entry k s"
  using assms
  by (cases "t_Pending t"; cases "t_Awaiting t"; cases "t_Stopped t") (auto simp: thread_entries_def split: if_splits)

lemmas entry_defs = pending_entry_def awaiting_entry_def stopped_entry_def

lemma entry_thread: "r \<in> set (thread_entries lib now k t) \<Longrightarrow> mr_ThreadID r = k"
  by (erule thread_entries_cases) (simp_all add: entry_defs)

lemma managed_entry:
  assumes "r \<in> set (managedRetries lib ks state now)"
  obtains t where "rs_Threads state (mr_ThreadID r) = Some t" "r \<in> set (thread_entries lib now (mr_ThreadID r) t)"
proof -
  from assms have "\<exists>k t. rs_Threads state k = Some t \<and> r \<in> set (thread_entries lib now k t)"
    unfolding managedRetries_def by (auto split: option.splits) (metis option.exhaust)
  then show ?thesis using entry_thread that by metis
qed

text \<open>Which command a button of an entry sends.\<close>

definition offers :: "ManagedRetry \<Rightarrow> ControlCommandAction \<Rightarrow> bool" where
  "offers r action \<longleftrightarrow>
     (action = commandRetryNow \<and> mr_CanRetryNow r) \<or> (action = commandCancelRetry \<and> mr_CanCancel r) \<or>
     (action = commandRestartRetry \<and> mr_CanRestart r)"

lemma offered_entry: "r \<in> set (thread_entries lib now k t) \<Longrightarrow> offers r action \<Longrightarrow> has_target action (Some t)"
  by (erule thread_entries_cases) (auto simp: offers_def has_target_def entry_defs)

lemma offers_target:
  assumes "r \<in> set (managedRetries lib ks state now)" "offers r action"
  shows "has_target action (rs_Threads state (mr_ThreadID r))"
proof -
  obtain t where "rs_Threads state (mr_ThreadID r) = Some t" "r \<in> set (thread_entries lib now (mr_ThreadID r) t)"
    by (rule managed_entry [OF assms(1)])
  with offered_entry [OF this(2) assms(2)] show ?thesis by simp
qed

lemma load_config_rest: "loadOrCreateConfig w d = (r, d') \<Longrightarrow> same_rest d d'"
  using load_unlocked_result [of w "d\<lparr>dd_tick := Suc (dd_tick d)\<rparr>"]
  by (auto simp: loadOrCreateConfig_def locked_def andThen_def refuse_def same_rest_def split: if_splits)

lemma load_control_rest: "load_control w d = (r, d') \<Longrightarrow> dd_state d' = dd_state d \<and> dd_config d' = dd_config d"
  by (auto simp: load_control_def andThen_def split: sum.splits option.splits prod.splits)

lemma snapshot_commands: "dd_commands (snd (snapshotLocked w now d)) = dd_commands d"
proof -
  have config: "dd_commands (snd (loadOrCreateConfig w e)) = dd_commands e" for e
    using load_config_rest [of w e] by (cases "loadOrCreateConfig w e") (simp add: same_rest_def)
  have control: "dd_commands (snd (load_control w e)) = dd_commands e" for e
    by (auto simp: load_control_def andThen_def split: sum.splits option.splits)
  have keep: "(\<And>e. dd_commands (snd (m e)) = dd_commands e) \<Longrightarrow> (\<And>x e. dd_commands (snd (f x e)) = dd_commands e) \<Longrightarrow>
      dd_commands (snd (andThen m f e)) = dd_commands e" for m f e
    by (simp add: andThen_def split: prod.split sum.split) (metis snd_conv)
  show ?thesis
    unfolding snapshotLocked_def
    by (intro keep config control) (auto simp: load_state_def loadStatusSnapshot_def succeed_def Let_def
        split: sum.splits json_file.splits option.splits)
qed

lemma snapshot_retries:
  assumes "snapshotLocked w now d = (Inr snap, d1)" "mw_load w (dd_state d) = Inr state"
  shows "set (ms_Retries snap) \<subseteq> set (managedRetries (mw_lib w) (mw_range w (rs_Threads state)) state now)"
proof -
  from assms(1) obtain c d2 control d3 state' d4 status d5 where
    load: "loadOrCreateConfig w d = (Inr c, d2)" "load_control w d2 = (Inr control, d3)" "load_state w d3 = (Inr state', d4)"
    and last: "Inr (case status of None \<Rightarrow> base_snapshot w now c control state' status
      | Some st \<Rightarrow> with_status w st (base_snapshot w now c control state' status)) = (Inr snap :: mgmt_error + ManagementSnapshot)"
    unfolding snapshotLocked_def andThen_ok succeed_def Let_def prod.inject by blast
  from last have snap: "ms_Retries snap = ms_Retries (base_snapshot w now c control state' status)"
    by (auto simp: with_status_def Let_def split: option.splits)
  have "dd_state d3 = dd_state d"
    using load_config_rest [OF load(1)] load_control_rest [OF load(2)] by (simp add: same_rest_def)
  with load(3) have "state' = state" using assms(2) by (simp add: load_state_def split: sum.splits)
  with snap show ?thesis by (auto simp: base_snapshot_def visible_retries_def Let_def)
qed

text \<open>
  C37: the panel offers nothing that does not work. When an entry of the queue shows a button, the
  command behind it is accepted and queued as a valid command; and the daemon that applies it,
  if its threads are the ones the panel read, does what the button says: a retry that is due
  now, a retry that is gone, or a stopped retry that is pending again with a fresh budget.
\<close>

theorem panel_buttons_work:
  assumes "snapshotLocked w now d = (Inr snap, d1)" "mw_load w (dd_state d) = Inr state" "r \<in> set (ms_Retries snap)"
    and "offers r action" "plain_uuid (mr_ThreadID r)" "later \<noteq> 0" "mw_ok w (dd_tick d)"
    and "threads dm = rs_Threads state" "k = mr_ThreadID r"
    and "command = \<lparr>cc_Version = 1, cc_Action = action, cc_ThreadID = k, cc_CreatedAt = later\<rparr>"
    and "t = get_thread dm k" "t' = get_thread (applyControlCommandLocked command at dm) k"
  shows "dd_commands (snd (queueThreadCommand w action k later d)) = dd_commands d @ [command] \<and>
    validateCommand command = None \<and>
    (action = commandRetryNow \<longrightarrow> (\<exists>p. t_Pending t = Some p \<and> t_Pending t' = Some (p\<lparr>p_DueAt := at\<rparr>))) \<and>
    (action = commandCancelRetry \<longrightarrow> t_Pending t \<noteq> None \<and> t_Pending t' = None) \<and>
    (action = commandRestartRetry \<longrightarrow> t_Stopped t' = None \<and>
       (\<exists>s. t_Stopped t = Some s \<and> t_Pending t' = Some (restartedRetry s (d_config dm) at)))"
proof -
  have target: "has_target action (rs_Threads state k)"
    using offers_target [OF _ assms(4)] snapshot_retries [OF assms(1,2)] assms(3,9) by blast
  have id: "to_lower (trim_space k) = k" "threadIDFromPath (k @ ''.jsonl'') = to_lower k"
    using assms(5,9) plain_uuid_clean threadIDFromPath_uuid by (simp_all add: plain_uuid_def)
  have kinds: "action \<in> {commandRetryNow, commandCancelRetry, commandRestartRetry}"
    using assms(4) by (auto simp: offers_def)
  have valid: "validateCommand command = None"
    using id kinds assms(6,10) by (simp add: validateCommand_def currentControlVersion_def)
  have "queueControlCommand action k later True = Inr command"
    using valid id assms(10) by (simp add: queueControlCommand_def currentControlVersion_def)
  then have queued: "queue_command w action k later d =
      (Inr command, d\<lparr>dd_tick := Suc (dd_tick d), dd_commands := dd_commands d @ [command]\<rparr>)"
    using assms(7) by (simp add: queue_command_def andThen_def)
  have "dd_commands (snd (queueThreadCommand w action k later d)) = dd_commands d @ [command]"
    using snapshot_commands [of w later "d\<lparr>dd_tick := Suc (dd_tick d), dd_commands := dd_commands d @ [command]\<rparr>"]
      id target assms(2)
    by (simp add: queueThreadCommand_def andThen_def load_state_def queued with_notice_def succeed_def split: prod.split sum.split) (metis snd_conv)
  moreover obtain u where u: "threads dm k = Some u" "has_target action (Some u)"
    using target assms(8) by (cases "rs_Threads state k") (auto simp: has_target_def)
  ultimately show ?thesis
    using valid kinds assms(10,11,12)
    by (auto simp: has_target_def applyControlCommandLocked_def get_thread_def split: if_splits)
qed

definition sample_runtime :: RuntimeState where
  "sample_runtime = newRuntimeState\<lparr>rs_Threads := [sample_child \<mapsto> stopped_thread]\<rparr>"

lemma sample_load: "mw_load sample_mgmt (dd_state sample_dir) = Inr sample_runtime"
  by (simp add: sample_mgmt_def sample_dir_def sample_runtime_def loadState_def migrateCodex153ThreadIDs_def
      maxRuntimeStateBytes_def newRuntimeState_def)

text \<open>The panel at time 50 shows the stopped retry of the sample thread.\<close>

lemma sample_snapshot:
  "snapshotLocked sample_mgmt 50 sample_dir =
     (Inr (full_snapshot sample_mgmt 50 defaultConfig defaultControlState sample_runtime None),
      sample_dir\<lparr>dd_tick := 3, dd_control := JsonContent (Some defaultControlState)\<rparr>)"
proof -
  have "loadOrCreateConfig sample_mgmt sample_dir = (Inr defaultConfig, sample_dir\<lparr>dd_tick := 2\<rparr>)"
    using load_written [OF sample_render _ default_stable, of "sample_dir\<lparr>dd_tick := Suc (dd_tick sample_dir)\<rparr>"]
    by (simp add: loadOrCreateConfig_def locked_def andThen_def sample_mgmt_def sample_dir_def)
  moreover have "load_control sample_mgmt (sample_dir\<lparr>dd_tick := 2\<rparr>) =
      (Inr defaultControlState, sample_dir\<lparr>dd_tick := 3, dd_control := JsonContent (Some defaultControlState)\<rparr>)"
    by (simp add: load_control_def andThen_def loadOrCreateControlState_def sample_mgmt_def sample_dir_def)
  moreover have "dd_state (sample_dir\<lparr>dd_tick := 3, dd_control := x\<rparr>) = dd_state sample_dir"
    "dd_status (sample_dir\<lparr>dd_tick := 3, dd_control := x\<rparr>) = JsonMissing" for x
    by (simp_all add: sample_dir_def)
  ultimately show ?thesis
    by (simp add: snapshot_unfold andThen_def load_state_def sample_load loadStatusSnapshot_def succeed_def)
qed

lemma not_running_retries:
  "ms_Retries (full_snapshot w now c control state None) =
     visible_retries False (managedRetries (mw_lib w) (mw_range w (rs_Threads state)) state now)"
  by (simp add: full_snapshot_def base_snapshot_def is_running_def Let_def)

lemma sample_shown:
  "stopped_entry sample_child sample_stopped
     \<in> set (ms_Retries (full_snapshot sample_mgmt 50 defaultConfig defaultControlState sample_runtime None))"
  unfolding not_running_retries
  by (simp add: managedRetries_def sample_mgmt_def sample_runtime_def visible_retries_def thread_entries_def
      stopped_thread_def zero_ThreadState_def stoppedRetryIsVisible_def sample_stopped_def stopped_entry_def
      time_sub_unfold stoppedRetryDisplayWindow_def)

theorem panel_buttons_work_witness:
  "dd_commands (snd (queueThreadCommand sample_mgmt commandRestartRetry sample_child 60 sample_dir)) =
   [\<lparr>cc_Version = 1, cc_Action = commandRestartRetry, cc_ThreadID = sample_child, cc_CreatedAt = 60\<rparr>]"
proof -
  let ?r = "stopped_entry sample_child sample_stopped"
  have "mr_ThreadID ?r = sample_child" "offers ?r commandRestartRetry"
    by (simp_all add: stopped_entry_def offers_def)
  moreover have "mw_ok sample_mgmt n" for n by (simp add: sample_mgmt_def)
  moreover have "dd_commands sample_dir = []" by (simp add: sample_dir_def)
  ultimately show ?thesis
    using panel_buttons_work [OF sample_snapshot sample_load sample_shown, of commandRestartRetry 60
        "daemon_with (rs_Threads sample_runtime)" sample_child _ _ _ 70, OF _ _ _ _ _ _ refl refl refl] sample_uuids(2)
    by simp
qed

subsection \<open>Shared mode\<close>

definition set_shared :: "bool \<Rightarrow> Config \<Rightarrow> Config" where
  "set_shared b c = c\<lparr>c_SharedAppServerRequested := b, c_SharedAppServerEnabled := b\<rparr>"

text \<open>The steps, on a directory whose configuration the program wrote.\<close>

lemma status_tail:
  assumes "andThen (load_state w) (\<lambda>state. andThen loadStatusSnapshot (\<lambda>status. succeed (F state status))) d = (r, d')"
  shows "d' = d \<and> (\<forall>x. r = Inr x \<longrightarrow> (\<exists>state status. x = F state status))"
  using assms by (auto simp: andThen_def load_state_def loadStatusSnapshot_def succeed_def
      split: sum.splits json_file.splits option.splits)

lemma full_snapshot_shared:
  "ms_SharedAppServerEnabled (full_snapshot w now c control state status) = c_SharedAppServerEnabled c"
  "ms_SharedAppServerRequested (full_snapshot w now c control state status) = c_SharedAppServerRequested c"
  "ms_RetryPrompt (full_snapshot w now c control state status) = c_RetryPrompt c"
  by (simp_all add: full_snapshot_def with_status_def base_snapshot_def Let_def split: option.split)

lemma snapshot_shared:
  assumes "render_ok w" "dd_config d = config_bytes w c" "stable_config c" "snapshotLocked w now d = (r, d')"
  shows "dd_config d' = dd_config d \<and> dd_calls d' = dd_calls d \<and>
    (\<forall>snap. r = Inr snap \<longrightarrow> ms_SharedAppServerEnabled snap = c_SharedAppServerEnabled c \<and>
       ms_SharedAppServerRequested snap = c_SharedAppServerRequested c)"
proof -
  obtain r1 d1 where load: "loadOrCreateConfig w d = (r1, d1)" by fastforce
  note l = load_config_written [OF assms(1-3) load]
  obtain r2 d2 where control: "load_control w d1 = (r2, d2)" by fastforce
  have d2: "dd_config d2 = dd_config d1 \<and> dd_calls d2 = dd_calls d1"
    using control by (auto simp: load_control_def andThen_def split: sum.splits option.splits prod.splits)
  show ?thesis
  proof (cases "(\<exists>e. r1 = Inl e) \<or> (\<exists>e. r2 = Inl e)")
    case True
    with assms(4) load control l d2 show ?thesis
      by (cases r1; cases r2) (auto simp: snapshot_unfold andThen_def same_rest_def)
  next
    case False
    then obtain c1 st where r: "r1 = Inr c1" "r2 = Inr st" by (cases r1; cases r2) auto
    then have "c1 = c" using l by simp
    then have "andThen (load_state w) (\<lambda>state. andThen loadStatusSnapshot (\<lambda>status.
        succeed (full_snapshot w now c st state status))) d2 = (r, d')"
      using assms(4) load control r by (simp add: snapshot_unfold andThen_def [of "loadOrCreateConfig w"] andThen_def [of "load_control w"])
    from status_tail [OF this] l d2 show ?thesis by (auto simp: full_snapshot_shared same_rest_def)
  qed
qed

lemma with_notice_shared:
  assumes "render_ok w" "dd_config d = config_bytes w c" "stable_config c"
    and "with_notice n (snapshotLocked w now) d = (r, d')"
  shows "dd_config d' = dd_config d \<and> dd_calls d' = dd_calls d \<and>
    (\<forall>snap. r = Inr snap \<longrightarrow> ms_SharedAppServerEnabled snap = c_SharedAppServerEnabled c \<and>
       ms_SharedAppServerRequested snap = c_SharedAppServerRequested c)"
proof -
  obtain r1 d1 where snap: "snapshotLocked w now d = (r1, d1)" by fastforce
  from snapshot_shared [OF assms(1-3) snap] assms(4) snap show ?thesis
    by (cases r1) (auto simp: with_notice_def andThen_def succeed_def)
qed

lemma stable_shared:
  assumes "stable_config c" "validate c' = None"
    and "c_UnknownMaxAttempts c' = c_UnknownMaxAttempts c" "c_RetryPrompt c' = c_RetryPrompt c"
  shows "stable_config c'"
  using assms by (simp add: stable_config_def)

lemma disable_branch_result:
  assumes "render_ok w" "dd_config d = config_bytes w c" "stable_config c" "dd_calls d = []"
    and "disable_branch w d = (r, d')"
  shows "set (dd_calls d') \<subseteq> {(scDisable (set_shared False c), config_bytes w (set_shared False c))} \<and>
    (r = Inr () \<longrightarrow> stable_config (set_shared False c) \<and> dd_config d' = config_bytes w (set_shared False c))"
proof -
  obtain r1 d1 where upd: "update_config w (\<lambda>c. Inr (set_shared False c)) d = (r1, d1)" by fastforce
  note u = update_written [OF assms(1-3) upd]
  have run: "disable_branch w d = andThen (\<lambda>_. (r1, d1)) (\<lambda>c. andThen (disable_shared w c)
      (\<lambda>done. if done then succeed () else refuse mgDisable)) d"
    using upd by (simp add: disable_branch_def set_shared_def andThen_def)
  show ?thesis
  proof (cases r1)
    case (Inl e)
    with run assms(4,5) u show ?thesis by (auto simp: andThen_def same_rest_def)
  next
    case (Inr c1)
    then have c1: "c1 = set_shared False c" "validate c1 = None" "dd_config d1 = config_bytes w c1" "dd_calls d1 = []"
      using u assms(4) by (auto simp: same_rest_def)
    then have "stable_config c1" using assms(3) by (intro stable_shared [OF assms(3)]) (simp_all add: set_shared_def)
    with run assms(5) Inr c1 show ?thesis
      by (auto simp: andThen_def disable_shared_def note_call_def succeed_def refuse_def split: if_splits)
  qed
qed

lemma remove_marker_same:
  "remove_marker w name d = (r, d') \<Longrightarrow> dd_config d' = dd_config d \<and> dd_calls d' = dd_calls d"
  by (auto simp: remove_marker_def succeed_def andThen_def split: if_splits)

lemma persist_enabled_result:
  assumes "persist_enabled w prepared d = (r, d')"
  shows "(\<exists>c. dd_config d' = config_bytes w c \<and> stable_config c \<and> c_SharedAppServerEnabled c \<and> c_SharedAppServerRequested c) \<or>
    (\<exists>e c f. r = Inl e \<and> last (dd_calls d') = (scDisable c, f))"
proof -
  obtain r1 d1 where upd: "update_config w (enable_confirmed (c_SharedAppServerPort prepared)) d = (r1, d1)" by fastforce
  note u = update_config_result [OF upd]
  show ?thesis
  proof (cases r1)
    case (Inl e)
    with assms upd show ?thesis
      by (auto simp: persist_enabled_def andThen_def disable_shared_def note_call_def refuse_def)
  next
    case (Inr c)
    then obtain loaded where c: "dd_config d1 = config_bytes w c" "valid_config c" "stable_config loaded"
        "enable_confirmed (c_SharedAppServerPort prepared) loaded = Inr c"
      using u by auto
    then have "stable_config c \<and> c_SharedAppServerEnabled c \<and> c_SharedAppServerRequested c"
      by (auto simp: enable_confirmed_def stable_config_def split: if_splits)
    moreover have "dd_config d' = dd_config d1"
      using assms upd Inr
      by (auto simp: persist_enabled_def andThen_def split: prod.splits sum.splits dest!: remove_marker_same)
    ultimately show ?thesis using c(1) by auto
  qed
qed

lemma enable_branch_result:
  assumes "dd_calls d = []" "enable_branch w d = (r, d')"
  shows "dd_calls d' = [] \<and> (\<exists>e. r = Inl e) \<or> (\<exists>e. r = Inl (mgEnable e)) \<or>
    (\<exists>c. dd_config d' = config_bytes w c \<and> stable_config c \<and> c_SharedAppServerEnabled c \<and> c_SharedAppServerRequested c) \<or>
    (\<exists>e c f. r = Inl e \<and> last (dd_calls d') = (scDisable c, f))"
proof -
  obtain r1 d1 where upd: "update_config w (\<lambda>c. Inr (c\<lparr>c_SharedAppServerRequested := True\<rparr>)) d = (r1, d1)" by fastforce
  note u = update_config_result [OF upd]
  show ?thesis
  proof (cases r1)
    case (Inl e)
    with assms upd u show ?thesis by (auto simp: enable_branch_def andThen_def same_rest_def)
  next
    case (Inr c)
    obtain r2 d2 where en: "enable_shared w c d1 = (r2, d2)" by fastforce
    show ?thesis
    proof (cases r2)
      case (Inl e)
      with en have "\<exists>e'. e = mgEnable e'" by (auto simp: enable_shared_def Let_def split: sum.splits)
      with assms upd en Inl \<open>r1 = Inr c\<close> show ?thesis by (auto simp: enable_branch_def andThen_def)
    next
      case (Inr prepared)
      with assms upd en \<open>r1 = Inr c\<close> have "persist_enabled w prepared d2 = (r, d')"
        by (simp add: enable_branch_def andThen_def)
      from persist_enabled_result [OF this] show ?thesis by blast
    qed
  qed
qed



text \<open>Loading a configuration with a legacy prompt.\<close>

lemma if_Some_None: "(if a then Some x else r) = None \<longleftrightarrow> \<not> a \<and> r = None"
  by simp

lemma default_prompt_valid: "valid_config c \<Longrightarrow> valid_config (c\<lparr>c_RetryPrompt := defaultRetryPrompt\<rparr>)"
proof -
  assume "valid_config c"
  moreover have "trim_space defaultRetryPrompt \<noteq> []" "\<not> rune_count defaultRetryPrompt > maxRetryPromptRunes"
    using defaultRetryPrompt_facts by (simp_all add: maxRetryPromptRunes_def defaultRetryPrompt_def)
  ultimately show ?thesis
    unfolding validate_def if_Some_None by simp
qed

lemma legacy_prompt_replaced:
  assumes "valid_config c" "c_UnknownMaxAttempts c = n" "n < 2 ^ 63"
    and "c_RetryPrompt c = legacyRetryPrompt \<or> c_RetryPrompt c = ''Continue.''"
  defines "c' \<equiv> c\<lparr>c_RetryPrompt := defaultRetryPrompt\<rparr>"
  shows "load_parsed_config (Some (JObject (encode_config c))) ok =
    (if ok then Inr (c', Some c') else Inl configWriteFailed)"
proof -
  have version: "c_ConfigVersion c = currentConfigVersion"
    using valid_configD(1) [OF assms(1)] by (simp add: currentConfigVersion_def)
  have "migrate_config (encode_config c) c = (c', True)"
    using assms(4) version migrated_keys
    by (simp add: c'_def migrate_config_def migrate_version_def migrate_fields_def migrate_port_def
        migrate_prompt_def default_field_def has_key_encode raw_int_encode_version Let_def)
  moreover have "decode_config (encode_config c) defaultConfig = Some c"
    using encoded_config_decodes assms(1-3) by simp
  ultimately show ?thesis
    using default_prompt_valid [OF assms(1)] by (simp add: load_parsed_config_def top_members_def c'_def)
qed

text \<open>
  C39: what the panel reports after a prompt was saved is what the next load makes of it: every valid
  prompt comes back as it was typed, except the one word "Continue." with its full stop and the
  old default prompt. Those are taken for leftovers of an older version and replaced by the
  default, although the panel has just said that the prompt was saved.
\<close>

theorem saved_prompt_kept:
  assumes "render_ok w" "dd_config d = config_bytes w c" "stable_config c"
    and "setRetryPrompt w prompt now d = (Inr snap, d')"
  shows "ms_Notice snap = noticePromptSaved \<and>
    ms_RetryPrompt snap = (if prompt = legacyRetryPrompt \<or> prompt = ''Continue.'' then defaultRetryPrompt else prompt)"
proof -
  obtain r1 d1 where upd: "update_config w (\<lambda>c. Inr (c\<lparr>c_RetryPrompt := prompt\<rparr>)) d = (r1, d1)" by fastforce
  let ?c = "c\<lparr>c_RetryPrompt := prompt\<rparr>"
  note u = update_written [OF assms(1-3) upd]
  have saved: "r1 = Inr ?c" "valid_config ?c" "dd_config d1 = config_bytes w ?c"
    and run: "with_notice noticePromptSaved (snapshotLocked w now) d1 = (Inr snap, d')"
    using assms(4) upd u by (auto simp: setRetryPrompt_def andThen_def split: sum.splits)
  from run obtain base d2 where base: "snapshotLocked w now d1 = (Inr base, d2)" "snap = base\<lparr>ms_Notice := noticePromptSaved\<rparr>"
    by (auto simp: with_notice_def andThen_ok succeed_def)
  from base(1) obtain c2 d3 where load: "loadOrCreateConfig w d1 = (Inr c2, d3)" and prompt: "ms_RetryPrompt base = c_RetryPrompt c2"
    unfolding snapshot_unfold andThen_ok succeed_def prod.inject sum.inject using full_snapshot_shared(3) by metis
  have "c_RetryPrompt c2 = (if prompt = legacyRetryPrompt \<or> prompt = ''Continue.'' then defaultRetryPrompt else prompt)"
  proof (cases "prompt = legacyRetryPrompt \<or> prompt = ''Continue.''")
    case False
    then have "stable_config ?c" using assms(3) saved(2) by (simp add: stable_config_def)
    with load_config_written [OF assms(1) saved(3) _ load] False show ?thesis by auto
  next
    case True
    then show ?thesis
      using legacy_prompt_replaced [OF saved(2), of "c_UnknownMaxAttempts c"] load saved(3) assms(1,3)
      by (auto simp: loadOrCreateConfig_def locked_def andThen_def load_unlocked_def loadOrCreateConfigUnlocked_def
          config_bytes_def render_ok_def refuse_def stable_config_def split: if_splits)
  qed
  then show ?thesis using base(2) prompt by simp
qed

theorem saved_prompt_kept_witness:
  "\<exists>snap d'. setRetryPrompt sample_mgmt ''Continue.'' 9 sample_dir = (Inr snap, d') \<and>
     ms_Notice snap = noticePromptSaved \<and> ms_RetryPrompt snap = defaultRetryPrompt"
proof -
  let ?c = "defaultConfig\<lparr>c_RetryPrompt := ''Continue.''\<rparr>"
  have ok: "mw_ok sample_mgmt n" for n by (simp add: sample_mgmt_def)
  have valid: "valid_config ?c" by code_simp
  have render: "parse_json (mw_render sample_mgmt v) = Some v" for v using sample_render by (simp add: render_ok_def)
  have "c_UnknownMaxAttempts ?c = 3" by (simp add: defaultConfig_def)
  from legacy_prompt_replaced [OF valid this] have load: "load_parsed_config (Some (JObject (encode_config ?c))) True =
      Inr (defaultConfig\<lparr>c_RetryPrompt := defaultRetryPrompt\<rparr>, Some (defaultConfig\<lparr>c_RetryPrompt := defaultRetryPrompt\<rparr>))"
    by simp
  have "update_config sample_mgmt (\<lambda>c. Inr (c\<lparr>c_RetryPrompt := ''Continue.''\<rparr>)) sample_dir =
      (Inr ?c, sample_dir\<lparr>dd_tick := 3, dd_config := config_bytes sample_mgmt ?c\<rparr>)"
    using load_written [OF sample_render _ default_stable, of "sample_dir\<lparr>dd_tick := Suc (dd_tick sample_dir)\<rparr>"]
      valid sample_config_file
    by (simp add: update_config_def locked_def andThen_def write_config_def ok) (simp add: sample_dir_def)
  moreover have "\<exists>x d'. snapshotLocked sample_mgmt 9 (sample_dir\<lparr>dd_tick := 3, dd_config := config_bytes sample_mgmt ?c\<rparr>) = (Inr x, d')"
    using load sample_load
    by (simp add: snapshot_unfold andThen_def loadOrCreateConfig_def locked_def load_unlocked_def ok config_bytes_def
        loadOrCreateConfigUnlocked_def render load_control_def loadOrCreateControlState_def load_state_def
        loadStatusSnapshot_def succeed_def)
      (simp add: sample_dir_def succeed_def andThen_def load_state_def loadStatusSnapshot_def)
  ultimately obtain snap d' where run: "setRetryPrompt sample_mgmt ''Continue.'' 9 sample_dir = (Inr snap, d')"
    by (auto simp: setRetryPrompt_def andThen_def with_notice_def succeed_def)
  from saved_prompt_kept [OF sample_render sample_config_file default_stable this] run show ?thesis by simp
qed

end
