(* ===== verification/Machine.thy ===== *)
theory Machine
  imports Management Runner
begin

section \<open>The machine around the shared server\<close>

text \<open>
  What \<open>shared_server_windows.go\<close>, \<open>shared_mode_windows.go\<close> and \<open>shared_recovery_windows.go\<close> act
  on: the files of the data directory, the user's environment variables in the registry, and
  processes, ports and the clock. The first two are the state \<open>machine\<close>. The others are asked: a
  question and its answer are an entry of the log, newest first, and the record \<open>windows\<close> answers
  from the log so far, so that the answer may change with every entry. An operation is a function
  from the machine to an error or a value, and the machine it leaves.

  While a probe waits for the server, another process may write the configuration
  (\<open>wn_meanwhile\<close>). The timeouts are numbers of rounds (\<open>wn_patience\<close>) and the cancellation of a
  context is a question of its own.
\<close>

subsection \<open>Records\<close>

record sharedServerState =
  ss_PID :: int
  ss_Endpoint :: string
  ss_CodexHome :: string
  ss_Executable :: string
  ss_ExecutableHash :: string
  ss_MCPConfigHash :: string
  ss_Owner :: string
  ss_Version :: string
  ss_StartedAt :: gotime
  ss_LaunchMode :: string

record sharedEnvironmentBackup =
  be_SchemaVersion :: int
  be_Name :: string
  be_PreviousPresent :: bool
  be_PreviousValue :: string
  be_InstalledValue :: string
  be_RecordedAt :: gotime

record sharedEnvironmentResult =
  er_Changed :: bool
  er_Restored :: bool
  er_ChangedByUser :: bool

record sharedAvailability =
  av_Reason :: string
  av_AutomaticRecoveryAllowed :: bool
  av_UpdatedAt :: gotime

record sharedRecoveryRequest =
  rr_ID :: string
  rr_ExpiresAt :: gotime

text \<open>What the query for a process returns.\<close>

record process_info =
  pr_ExecutablePath :: string
  pr_CommandLine :: string
  pr_CreationDate :: string

text \<open>The manager without its logger and lock; the data directory is that of the machine.\<close>

record sharedServerManager =
  sm_config :: Config
  sm_endpoint :: string
  sm_codexHome :: string
  sm_allowAlternatePort :: bool
  sm_migrating :: bool

datatype port_state = portFree | portReserved | portOccupied | portFailed

datatype happening =
    hpDesktop bool
  | hpAlive int bool
  | hpInfo sharedServerState "process_info option"
  | hpTerminate int bool
  | hpSpawn string "string list" "int option"
  | hpProbe string bool
  | hpDial int bool
  | hpPort int port_state
  | hpHash string string
  | hpFile string bool
  | hpFound "string option"
  | hpOverride "(string \<times> string) option"
  | hpCancelled bool
  | hpDone bool
  | hpClock gotime
  | hpRounds nat
  | hpMemory int "nat option"

type_synonym happenings = "happening list"

record machine =
  mc_mgr :: sharedServerManager
  mc_dir :: data_dir
  mc_state :: "sharedServerState json_file"
  mc_backup :: "sharedEnvironmentBackup json_file"
  mc_availability :: "sharedAvailability option"
  mc_request :: "(nat \<times> sharedRecoveryRequest option) option"
  mc_result :: "(string \<times> string) option"
  mc_env :: "string \<Rightarrow> string option"
  mc_log :: happenings

record windows =
  wn_mgmt :: mgmt_world
  wn_name :: string
  wn_home :: string
  wn_expand :: "string \<Rightarrow> string"
  wn_parse_time :: "string \<Rightarrow> gotime option"
  wn_desktop :: "happenings \<Rightarrow> bool"
  wn_alive :: "happenings \<Rightarrow> int \<Rightarrow> bool"
  wn_info :: "happenings \<Rightarrow> int \<Rightarrow> process_info option"
  wn_terminate :: "happenings \<Rightarrow> int \<Rightarrow> bool"
  wn_spawn :: "happenings \<Rightarrow> string \<Rightarrow> string list \<Rightarrow> int option"
  wn_probe :: "happenings \<Rightarrow> string \<Rightarrow> bool"
  wn_dial :: "happenings \<Rightarrow> int \<Rightarrow> bool"
  wn_port :: "happenings \<Rightarrow> int \<Rightarrow> port_state"
  wn_hash :: "happenings \<Rightarrow> string \<Rightarrow> string"
  wn_file :: "happenings \<Rightarrow> string \<Rightarrow> bool"
  wn_find :: "happenings \<Rightarrow> string option"
  wn_override :: "happenings \<Rightarrow> (string \<times> string) option"
  wn_cancelled :: "happenings \<Rightarrow> bool"
  wn_ok :: "happenings \<Rightarrow> bool"
  wn_clock :: "happenings \<Rightarrow> gotime"
  wn_patience :: "happenings \<Rightarrow> nat"
  wn_memory :: "happenings \<Rightarrow> int \<Rightarrow> nat option"
  wn_meanwhile :: "happenings \<Rightarrow> file_read \<Rightarrow> file_read"

text \<open>
  \<open>mc_request\<close> is the request file, if there is one: its size and what it decodes to, \<open>mc_result\<close>
  the answer, and \<open>mc_availability\<close> what the marker \<open>shared-availability.json\<close> holds while it is
  among the markers of the data directory. \<open>wn_expand\<close> is \<open>expandPath\<close> (config.go).
\<close>

subsection \<open>Operations\<close>

type_synonym 'a act = "machine \<Rightarrow> (go_error + 'a) \<times> machine"

definition returns :: "'a \<Rightarrow> 'a act" where
  "returns x m = (Inr x, m)"

definition fails :: "go_error \<Rightarrow> 'a act" where
  "fails e m = (Inl e, m)"

definition binds :: "'a act \<Rightarrow> ('a \<Rightarrow> 'b act) \<Rightarrow> 'b act" where
  "binds a f m = (case a m of (Inl e, m) \<Rightarrow> (Inl e, m) | (Inr x, m) \<Rightarrow> f x m)"

text \<open>\<open>err := f()\<close>: the error as a value.\<close>

definition caught :: "'a act \<Rightarrow> (go_error + 'a) act" where
  "caught a m = (case a m of (r, m) \<Rightarrow> (Inr r, m))"

definition reads :: "(machine \<Rightarrow> 'a) \<Rightarrow> 'a act" where
  "reads f m = (Inr (f m), m)"

definition changes :: "(machine \<Rightarrow> machine) \<Rightarrow> unit act" where
  "changes f m = (Inr (), f m)"

definition asks :: "(happenings \<Rightarrow> 'a) \<Rightarrow> ('a \<Rightarrow> happening) \<Rightarrow> 'a act" where
  "asks f h m = (let x = f (mc_log m) in (Inr x, m\<lparr>mc_log := h x # mc_log m\<rparr>))"

text \<open>\<open>a && b\<close> of two questions, the second asked only if the first is true.\<close>

definition both :: "bool act \<Rightarrow> bool act \<Rightarrow> bool act" where
  "both a b = binds a (\<lambda>x. if x then b else returns False)"

text \<open>An operation of another manager: its own manager for the time it runs.\<close>

definition with_manager :: "sharedServerManager \<Rightarrow> 'a act \<Rightarrow> 'a act" where
  "with_manager mgr a m =
     (case a (m\<lparr>mc_mgr := mgr\<rparr>) of (r, m') \<Rightarrow> (r, m'\<lparr>mc_mgr := mc_mgr m\<rparr>))"

text \<open>An operation on the configuration file, with its errors as Go errors.\<close>

definition on_dir :: "'a mgmt \<Rightarrow> 'a act" where
  "on_dir f m =
     (case f (mc_dir m) of
        (Inl e, d) \<Rightarrow> (Inl (OtherError ''config''), m\<lparr>mc_dir := d\<rparr>)
      | (Inr x, d) \<Rightarrow> (Inr x, m\<lparr>mc_dir := d\<rparr>))"

definition join_errors :: "go_error option \<Rightarrow> go_error option \<Rightarrow> go_error option" where
  "join_errors a b =
     (case a of
        None \<Rightarrow> b
      | Some e \<Rightarrow> (case b of None \<Rightarrow> Some e | Some e' \<Rightarrow> Some (Joined e e')))"

definition outcome :: "'a act \<Rightarrow> go_error option act" where
  "outcome a = binds (caught a) (\<lambda>r. returns (case r of Inl e \<Rightarrow> Some e | Inr _ \<Rightarrow> None))"

definition raises :: "go_error option \<Rightarrow> unit act" where
  "raises e = (case e of None \<Rightarrow> returns () | Some err \<Rightarrow> fails err)"

subsection \<open>Questions\<close>

definition desktopIsRunning :: "windows \<Rightarrow> bool act" where
  "desktopIsRunning w = asks (wn_desktop w) hpDesktop"

definition processIsRunning :: "windows \<Rightarrow> int \<Rightarrow> bool act" where
  "processIsRunning w pid = asks (\<lambda>l. wn_alive w l pid) (hpAlive pid)"

definition terminateProcessTree :: "windows \<Rightarrow> int \<Rightarrow> unit act" where
  "terminateProcessTree w pid = binds (asks (\<lambda>l. wn_terminate w l pid) (hpTerminate pid)) (\<lambda>done.
     if done then returns () else fails (OtherError ''terminate''))"

definition executableHash :: "windows \<Rightarrow> string \<Rightarrow> string act" where
  "executableHash w path = asks (\<lambda>l. wn_hash w l path) (hpHash path)"

definition is_file :: "windows \<Rightarrow> string \<Rightarrow> bool act" where
  "is_file w path = asks (\<lambda>l. wn_file w l path) (hpFile path)"

definition cancelled :: "windows \<Rightarrow> bool act" where
  "cancelled w = asks (wn_cancelled w) hpCancelled"

definition succeeds :: "windows \<Rightarrow> bool act" where
  "succeeds w = asks (wn_ok w) hpDone"

definition clock :: "windows \<Rightarrow> gotime act" where
  "clock w = asks (wn_clock w) hpClock"

definition rounds :: "windows \<Rightarrow> nat act" where
  "rounds w = asks (wn_patience w) hpRounds"

definition dial :: "windows \<Rightarrow> int \<Rightarrow> bool act" where
  "dial w port = asks (\<lambda>l. wn_dial w l port) (hpDial port)"

definition probe :: "windows \<Rightarrow> string \<Rightarrow> bool act" where
  "probe w endpoint = binds (asks (\<lambda>l. wn_probe w l endpoint) (hpProbe endpoint)) (\<lambda>up.
     binds (changes (\<lambda>m. m\<lparr>mc_dir := (mc_dir m)\<lparr>dd_config := wn_meanwhile w (mc_log m) (dd_config (mc_dir m))\<rparr>\<rparr>)) (\<lambda>_.
     returns up))"

subsection \<open>A calculus of invariants\<close>

text \<open>
  \<open>keeps P a\<close>: the operation \<open>a\<close> keeps the predicate \<open>P\<close> of the machine, with whatever result.
  The rules follow the constructs above; a predicate that none of the questions can break is kept
  by everything that is composed of questions.
\<close>

named_theorems keeps_rules

definition keeps :: "(machine \<Rightarrow> bool) \<Rightarrow> 'a act \<Rightarrow> bool" where
  "keeps P a \<longleftrightarrow> (\<forall>m. P m \<longrightarrow> P (snd (a m)))"

lemma keepsI: "(\<And>m. P m \<Longrightarrow> P (snd (a m))) \<Longrightarrow> keeps P a"
  by (simp add: keeps_def)

lemma keepsD: "keeps P a \<Longrightarrow> P m \<Longrightarrow> P (snd (a m))"
  by (simp add: keeps_def)

lemma keeps_returns [keeps_rules]: "keeps P (returns x)"
  by (simp add: keeps_def returns_def)

lemma keeps_fails [keeps_rules]: "keeps P (fails e)"
  by (simp add: keeps_def fails_def)

lemma keeps_reads [keeps_rules]: "keeps P (reads f)"
  by (simp add: keeps_def reads_def)

lemma keeps_binds [keeps_rules]: "keeps P a \<Longrightarrow> (\<And>x. keeps P (f x)) \<Longrightarrow> keeps P (binds a f)"
  unfolding keeps_def binds_def by (auto split: prod.splits sum.splits dest: spec)

lemma keeps_caught [keeps_rules]: "keeps P a \<Longrightarrow> keeps P (caught a)"
  by (auto simp: keeps_def caught_def split: prod.splits)

lemma keeps_if [keeps_rules]: "keeps P a \<Longrightarrow> keeps P b \<Longrightarrow> keeps P (if c then a else b)"
  by simp

lemma keeps_option [keeps_rules]:
  "keeps P a \<Longrightarrow> (\<And>x. keeps P (f x)) \<Longrightarrow> keeps P (case z of None \<Rightarrow> a | Some x \<Rightarrow> f x)"
  by (cases z) auto

lemma keeps_sum [keeps_rules]:
  "(\<And>x. keeps P (f x)) \<Longrightarrow> (\<And>x. keeps P (g x)) \<Longrightarrow> keeps P (case z of Inl x \<Rightarrow> f x | Inr x \<Rightarrow> g x)"
  by (cases z) auto

lemma keeps_pair [keeps_rules]:
  "(\<And>x y. keeps P (f x y)) \<Longrightarrow> keeps P (case z of (x, y) \<Rightarrow> f x y)"
  by (cases z) auto

lemma keeps_both [keeps_rules]: "keeps P a \<Longrightarrow> keeps P b \<Longrightarrow> keeps P (both a b)"
  unfolding both_def by (intro keeps_rules)

lemma keeps_outcome [keeps_rules]: "keeps P a \<Longrightarrow> keeps P (outcome a)"
  unfolding outcome_def by (intro keeps_rules)

lemma keeps_raises [keeps_rules]: "keeps P (raises e)"
  unfolding raises_def by (intro keeps_rules)

lemma keeps_let [keeps_rules]: "(\<And>x. x = z \<Longrightarrow> keeps P (f x)) \<Longrightarrow> keeps P (Let z f)"
  by simp

lemma keeps_with_manager:
  assumes "\<And>m mgr. P (m\<lparr>mc_mgr := mgr\<rparr>) = P m" "keeps P a"
  shows "keeps P (with_manager mgr a)"
  using assms by (auto simp: keeps_def with_manager_def split: prod.splits) (metis snd_conv)

lemma keeps_on_dir:
  assumes "\<And>m d. P (m\<lparr>mc_dir := d\<rparr>) = P m"
  shows "keeps P (on_dir f)"
  using assms by (auto simp: keeps_def on_dir_def split: prod.splits sum.splits)

text \<open>Runs of a composition that end well.\<close>

lemma binds_Inr: "binds a f m = (Inr y, m') \<longleftrightarrow> (\<exists>x m1. a m = (Inr x, m1) \<and> f x m1 = (Inr y, m'))"
  by (auto simp: binds_def split: prod.splits sum.splits)

lemma outcome_run: "outcome a m = (Inr e, m') \<longleftrightarrow> (\<exists>r. a m = (r, m') \<and> e = (case r of Inl e \<Rightarrow> Some e | Inr _ \<Rightarrow> None))"
  by (auto simp: outcome_def binds_def caught_def returns_def split: prod.splits)

end
