(* ===== verification/Shared_Server.thy ===== *)
theory Shared_Server
  imports Machine Resume_Settings Scanner
begin

section \<open>The shared app server (shared\_server\_windows.go)\<close>

text \<open>
  Who owns a server process, when the watchdog starts one, on which port, and when it ends one.
  The process query, ports and the like are questions of \<open>Machine\<close>; the search for the Codex
  executable on the disk and the override for its MCP server are such questions too. A URL is
  parsed as \<open>net/url\<close> does it for absolute URLs; percent escapes and brackets in a host, which no
  address of this program has, are left out (such a host is refused). Log lines are left out.
\<close>

subsection \<open>Endpoints\<close>

record url =
  ur_Scheme :: string
  ur_User :: bool
  ur_Host :: string
  ur_Path :: string

definition is_letter :: "char \<Rightarrow> bool" where
  "is_letter c \<longleftrightarrow> (97 \<le> byte c \<and> byte c \<le> 122) \<or> (65 \<le> byte c \<and> byte c \<le> 90)"

definition scheme_char :: "char \<Rightarrow> bool" where
  "scheme_char c \<longleftrightarrow> is_letter c \<or> is_digit c \<or> c \<in> set ''+-.''"

definition host_char :: "char \<Rightarrow> bool" where
  "host_char c \<longleftrightarrow> is_letter c \<or> is_digit c \<or> 128 \<le> byte c \<or> c \<in> set ''-_.~!$&()*+,;=:<>'' \<or> byte c = 34 \<or> byte c = 39"

fun escapes_ok :: "string \<Rightarrow> bool" where
  "escapes_ok [] = True"
| "escapes_ok (c # cs) \<longleftrightarrow>
     (if c = CHR ''%'' then (case cs of a # b # rest \<Rightarrow> hex_ci a \<and> hex_ci b | _ \<Rightarrow> False) else True) \<and> escapes_ok cs"

definition before :: "char \<Rightarrow> string \<Rightarrow> string" where
  "before c s = takeWhile (\<lambda>d. d \<noteq> c) s"

definition behind :: "char \<Rightarrow> string \<Rightarrow> string" where
  "behind c s = drop 1 (dropWhile (\<lambda>d. d \<noteq> c) s)"

definition last_part :: "char \<Rightarrow> string \<Rightarrow> string" where
  "last_part c s = rev (before c (rev s))"

definition port_text :: "string \<Rightarrow> string" where
  "port_text host = (if CHR '':'' \<in> set host then last_part (CHR '':'') host else [])"

definition host_name :: "string \<Rightarrow> string" where
  "host_name host = (if CHR '':'' \<in> set host then rev (behind (CHR '':'') (rev host)) else host)"

definition parse_authority :: "string \<Rightarrow> (bool \<times> string) option" where
  "parse_authority authority =
     (let host = last_part (CHR ''@'') authority
      in if list_all host_char host \<and> list_all is_digit (port_text host)
         then Some (CHR ''@'' \<in> set authority, host) else None)"

definition url_Parse :: "string \<Rightarrow> url option" where
  "url_Parse raw =
     (let main = before (CHR ''#'') raw; scheme = takeWhile scheme_char main; rest = drop (length scheme) main
      in if \<not> escapes_ok (behind (CHR ''#'') raw) \<or> list_ex (\<lambda>c. byte c < 32 \<or> byte c = 127) main \<or>
            scheme = [] \<or> \<not> is_letter (hd scheme) \<or> \<not> prefix '':'' rest then None
         else
           let rest = before (CHR ''?'') (drop 1 rest)
           in if \<not> prefix ''//'' rest
              then Some \<lparr>ur_Scheme = to_lower scheme, ur_User = False, ur_Host = [], ur_Path = rest\<rparr>
              else
                let authority = before (CHR ''/'') (drop 2 rest); path = drop (length authority) (drop 2 rest)
                in if \<not> escapes_ok path then None
                   else map_option (\<lambda>(user, host).
                     \<lparr>ur_Scheme = to_lower scheme, ur_User = user, ur_Host = host, ur_Path = path\<rparr>)
                     (parse_authority authority))"

text \<open>\<open>strconv.Atoi\<close> of a port, and 0 for its errors.\<close>

definition port_number :: "string \<Rightarrow> int" where
  "port_number s =
     (let n = int (digits_value s) in if s \<noteq> [] \<and> list_all is_digit s \<and> n < 2 ^ 63 then n else 0)"

definition endpointPort :: "string \<Rightarrow> int" where
  "endpointPort endpoint = (case url_Parse endpoint of None \<Rightarrow> 0 | Some u \<Rightarrow> port_number (port_text (ur_Host u)))"

definition validSharedServerEndpoint :: "string \<Rightarrow> int \<Rightarrow> bool" where
  "validSharedServerEndpoint raw expectedPort \<longleftrightarrow>
     1024 \<le> expectedPort \<and> expectedPort \<le> 65535 \<and>
     (case url_Parse raw of
        None \<Rightarrow> False
      | Some u \<Rightarrow>
          ur_Scheme u = ''ws'' \<and> \<not> ur_User u \<and> ur_Path u = [] \<and>
          host_name (ur_Host u) = ''127.0.0.1'' \<and> port_text (ur_Host u) = int_text expectedPort)"

definition loopback_endpoint :: "int \<Rightarrow> string" where
  "loopback_endpoint port = ''ws://127.0.0.1:'' @ int_text port"

lemma digits_apart:
  assumes "list_all is_digit ds" "\<not> is_digit c"
  shows "takeWhile (\<lambda>d. d \<noteq> c) ds = ds" "dropWhile (\<lambda>d. d \<noteq> c) ds = []"
    "takeWhile (\<lambda>d. d \<noteq> c) (rev ds @ r) = rev ds @ takeWhile (\<lambda>d. d \<noteq> c) r"
    "dropWhile (\<lambda>d. d \<noteq> c) (rev ds @ r) = dropWhile (\<lambda>d. d \<noteq> c) r" "c \<notin> set ds"
proof -
  have "\<forall>d\<in>set ds. d \<noteq> c" using assms by (auto simp: list_all_iff)
  then show "takeWhile (\<lambda>d. d \<noteq> c) ds = ds" "dropWhile (\<lambda>d. d \<noteq> c) ds = []"
    "takeWhile (\<lambda>d. d \<noteq> c) (rev ds @ r) = rev ds @ takeWhile (\<lambda>d. d \<noteq> c) r"
    "dropWhile (\<lambda>d. d \<noteq> c) (rev ds @ r) = dropWhile (\<lambda>d. d \<noteq> c) r" "c \<notin> set ds"
    using takeWhile_append2 [of "rev ds" "\<lambda>d. d \<noteq> c" r] dropWhile_append2 [of "rev ds" "\<lambda>d. d \<noteq> c" r] by auto
qed

lemma separators_no_digits:
  "\<not> is_digit (CHR ''#'')" "\<not> is_digit (CHR ''?'')" "\<not> is_digit (CHR ''/'')" "\<not> is_digit (CHR ''@'')"
  "\<not> is_digit (CHR '':'')"
  by (simp_all add: is_digit_def byte_def)

lemma port_digits: "0 \<le> p \<Longrightarrow> list_all is_digit (int_text p) \<and> int_text p \<noteq> [] \<and> int (digits_value (int_text p)) = p"
  by (simp add: int_text_def nat_text_digits nat_text_ne nat_text_value)

lemma digit_host: "list_all is_digit ds \<Longrightarrow> list_all host_char ds"
  by (auto simp: list_all_iff host_char_def)

lemma digit_visible: "list_all is_digit ds \<Longrightarrow> \<not> list_ex (\<lambda>c. byte c < 32 \<or> byte c = 127) ds"
  by (auto simp: list_all_iff list_ex_iff is_digit_def)

lemma parse_loopback:
  assumes "list_all is_digit ds"
  shows "url_Parse (''ws://127.0.0.1:'' @ ds) =
    Some \<lparr>ur_Scheme = ''ws'', ur_User = False, ur_Host = ''127.0.0.1:'' @ ds, ur_Path = []\<rparr>"
proof -
  note d = separators_no_digits [THEN digits_apart(1) [OF assms]] separators_no_digits [THEN digits_apart(2) [OF assms]]
    separators_no_digits [THEN digits_apart(3) [OF assms]] separators_no_digits [THEN digits_apart(5) [OF assms]]
  have "parse_authority (''127.0.0.1:'' @ ds) = Some (False, ''127.0.0.1:'' @ ds)"
    using digit_host [OF assms] assms
    by (simp add: d parse_authority_def last_part_def before_def port_text_def host_char_def is_letter_def is_digit_def byte_def)
  then show ?thesis
    using digit_visible [OF assms, unfolded byte_def]
    by (simp add: d url_Parse_def before_def behind_def scheme_char_def is_letter_def is_digit_def byte_def to_lower_def
        lower_char_def Let_def)
qed

lemma loopback_valid:
  assumes "1024 \<le> port" "port \<le> 65535"
  shows "validSharedServerEndpoint (loopback_endpoint port) port" "endpointPort (loopback_endpoint port) = port"
proof -
  have p: "list_all is_digit (int_text port)" "int_text port \<noteq> []" "int (digits_value (int_text port)) = port"
    using port_digits [of port] assms by auto
  note d = digits_apart [OF p(1) separators_no_digits(5)]
  have t: "port_text (''127.0.0.1:'' @ int_text port) = int_text port" "host_name (''127.0.0.1:'' @ int_text port) = ''127.0.0.1''"
    by (simp_all add: d port_text_def host_name_def last_part_def before_def behind_def)
  then show "validSharedServerEndpoint (loopback_endpoint port) port" "endpointPort (loopback_endpoint port) = port"
    using parse_loopback [OF p(1)] p assms
    by (simp_all add: validSharedServerEndpoint_def loopback_endpoint_def endpointPort_def port_number_def)
qed

subsection \<open>The manager\<close>

definition sharedServerOwner :: string where
  "sharedServerOwner = ''codex-auto-retry''"

definition sharedServerLaunchMode :: string where
  "sharedServerLaunchMode = ''hidden_inherited_console_v1''"

definition sharedServerProcessStartTolerance :: duration where
  "sharedServerProcessStartTolerance = 15 * Second"

text \<open>\<open>wn_home\<close> is the expanded Codex home of the environment.\<close>

definition newSharedServerManager :: "windows \<Rightarrow> Config \<Rightarrow> sharedServerManager" where
  "newSharedServerManager w c =
     \<lparr>sm_config = c, sm_endpoint = loopback_endpoint (c_SharedAppServerPort c), sm_codexHome = wn_home w,
      sm_allowAlternatePort = False, sm_migrating = False\<rparr>"

definition manager_port :: "machine \<Rightarrow> int" where
  "manager_port m = c_SharedAppServerPort (sm_config (mc_mgr m))"

definition SupportsHome :: "sharedServerManager \<Rightarrow> string \<Rightarrow> bool" where
  "SupportsHome mgr value \<longleftrightarrow> equal_fold (filepath_Clean value) (sm_codexHome mgr)"

datatype state_read = stateMissing | stateBad | stateRead sharedServerState

definition readState :: "machine \<Rightarrow> state_read" where
  "readState m =
     (case mc_state m of
        JsonMissing \<Rightarrow> stateMissing
      | JsonContent (Some st) \<Rightarrow>
          if ss_PID st \<le> 0 \<or> ss_Executable st = [] \<or> ss_Endpoint st = [] then stateBad else stateRead st
      | _ \<Rightarrow> stateBad)"

definition write_state :: "windows \<Rightarrow> sharedServerState \<Rightarrow> unit act" where
  "write_state w st = binds (succeeds w) (\<lambda>ok.
     if ok then changes (\<lambda>m. m\<lparr>mc_state := JsonContent (Some st)\<rparr>) else fails (OtherError ''write''))"

definition remove_state :: "windows \<Rightarrow> unit act" where
  "remove_state w = binds (succeeds w) (\<lambda>ok.
     if ok then changes (\<lambda>m. m\<lparr>mc_state := JsonMissing\<rparr>) else returns ())"

subsection \<open>Ownership\<close>

definition sharedServerStateOwnedForCleanup :: "windows \<Rightarrow> sharedServerState \<Rightarrow> bool act" where
  "sharedServerStateOwnedForCleanup w st =
     (if ss_Owner st = sharedServerOwner \<and> trim_space (ss_Version st) \<noteq> [] \<and>
         validSharedServerEndpoint (ss_Endpoint st) (endpointPort (ss_Endpoint st)) \<and>
         filepath_IsAbs (ss_CodexHome st) \<and> ss_Executable st \<noteq> [] \<and> ss_ExecutableHash st \<noteq> []
      then binds (executableHash w (ss_Executable st)) (\<lambda>h. returns (ss_ExecutableHash st = h))
      else returns False)"

definition sharedServerStateOwnedByPlugin :: "windows \<Rightarrow> sharedServerState \<Rightarrow> bool act" where
  "sharedServerStateOwnedByPlugin w st =
     both (sharedServerStateOwnedForCleanup w st) (reads (\<lambda>m. endpointPort (ss_Endpoint st) = manager_port m))"

definition processCreationTimeMatches :: "windows \<Rightarrow> gotime \<Rightarrow> string \<Rightarrow> bool" where
  "processCreationTimeMatches w startedAt creationDate \<longleftrightarrow>
     \<not> is_zero startedAt \<and> trim_space creationDate \<noteq> [] \<and>
     (case wn_parse_time w (trim_space creationDate) of
        None \<Rightarrow> False
      | Some created \<Rightarrow>
          let delta = time_sub created startedAt; delta = (if delta < 0 then i64 (- delta) else delta)
          in delta \<le> sharedServerProcessStartTolerance)"

definition process_matches :: "windows \<Rightarrow> sharedServerState \<Rightarrow> process_info \<Rightarrow> bool" where
  "process_matches w st p \<longleftrightarrow>
     processCreationTimeMatches w (ss_StartedAt st) (pr_CreationDate p) \<and>
     equal_fold (filepath_Clean (pr_ExecutablePath p)) (filepath_Clean (ss_Executable st)) \<and>
     contains_sub (to_lower (pr_CommandLine p)) ''app-server'' \<and>
     contains_sub (to_lower (pr_CommandLine p)) (to_lower (ss_Endpoint st))"

definition ownsProcess :: "windows \<Rightarrow> sharedServerState \<Rightarrow> bool act" where
  "ownsProcess w st = binds (asks (\<lambda>l. wn_info w l (ss_PID st)) (hpInfo st)) (\<lambda>info.
     returns (case info of None \<Rightarrow> False | Some p \<Rightarrow> process_matches w st p))"

definition adoptSharedServerState :: "windows \<Rightarrow> sharedServerState \<Rightarrow> unit act" where
  "adoptSharedServerState w st =
     (if ss_Version st = mw_version (wn_mgmt w) then returns ()
      else write_state w (st\<lparr>ss_Version := mw_version (wn_mgmt w)\<rparr>))"

definition PrivateMemoryBytes :: "windows \<Rightarrow> nat act" where
  "PrivateMemoryBytes w = binds (reads readState) (\<lambda>r.
     case r of
       stateRead st \<Rightarrow>
         binds (both (sharedServerStateOwnedForCleanup w st) (ownsProcess w st)) (\<lambda>ours.
         if \<not> ours then fails (Sentinel errSharedServerOwnershipUnknown)
         else binds (asks (\<lambda>l. wn_memory w l (ss_PID st)) (hpMemory (ss_PID st))) (\<lambda>bytes.
         case bytes of None \<Rightarrow> fails (OtherError ''memory'') | Some n \<Rightarrow> returns n))
     | _ \<Rightarrow> fails (OtherError ''state''))"

subsection \<open>Ending the server\<close>

definition StopOwned :: "windows \<Rightarrow> unit act" where
  "StopOwned w = binds (reads readState) (\<lambda>r.
     case r of
       stateRead st \<Rightarrow>
         binds (sharedServerStateOwnedForCleanup w st) (\<lambda>ours.
         if \<not> ours then returns ()
         else binds (both (desktopIsRunning w) (processIsRunning w (ss_PID st))) (\<lambda>in_use.
         if in_use then fails (Sentinel errSharedServerMigrationDeferred)
         else binds (processIsRunning w (ss_PID st)) (\<lambda>alive.
         if \<not> alive then remove_state w
         else if is_zero (ss_StartedAt st) then fails (Sentinel errSharedServerOwnershipUnknown)
         else binds (ownsProcess w st) (\<lambda>proven.
         if \<not> proven then fails (Sentinel errSharedServerOwnershipUnknown)
         else binds (terminateProcessTree w (ss_PID st)) (\<lambda>_. remove_state w)))))
     | _ \<Rightarrow> returns ())"

subsection \<open>The port\<close>

definition stored_port :: "file_read \<Rightarrow> int option" where
  "stored_port file =
     (case file of
        FileBytes bytes \<Rightarrow>
          (case Option.bind (parse_json bytes) top_members of
             None \<Rightarrow> None
           | Some ms \<Rightarrow>
               (case dec_field json_int ''shared_app_server_port'' ms 0 of
                  None \<Rightarrow> None
                | Some port \<Rightarrow> if port < 1024 \<or> port > 65535 then None else Some port))
      | _ \<Rightarrow> None)"

definition use_port :: "int \<Rightarrow> machine \<Rightarrow> machine" where
  "use_port port m =
     m\<lparr>mc_mgr := (mc_mgr m)\<lparr>sm_config := (sm_config (mc_mgr m))\<lparr>c_SharedAppServerPort := port\<rparr>,
                           sm_endpoint := loopback_endpoint port\<rparr>\<rparr>"

definition refreshConfiguredPort :: "unit act" where
  "refreshConfiguredPort = changes (\<lambda>m.
     case stored_port (dd_config (mc_dir m)) of
       None \<Rightarrow> m
     | Some port \<Rightarrow> if port = manager_port m then m else use_port port m)"

definition updateConfiguredPort :: "windows \<Rightarrow> int \<Rightarrow> unit act" where
  "updateConfiguredPort w port = binds (reads manager_port) (\<lambda>current.
     if port = current then returns ()
     else binds (caught (on_dir (update_config (wn_mgmt w) (\<lambda>c. Inr (c\<lparr>c_SharedAppServerPort := port\<rparr>))))) (\<lambda>r.
       case r of Inl e \<Rightarrow> fails (Wrapped ''save selected shared app-server port'' e)
       | Inr _ \<Rightarrow> changes (use_port port)))"

definition port_error :: "port_state \<Rightarrow> go_error option" where
  "port_error p =
     (case p of
        portFree \<Rightarrow> None
      | portReserved \<Rightarrow> Some (Wrapped ''port'' (Sentinel errSharedServerPortReserved))
      | portOccupied \<Rightarrow> Some (Wrapped ''port'' (Sentinel errSharedServerPortConflict))
      | portFailed \<Rightarrow> Some (Wrapped ''port'' (Sentinel errSharedServerUnavailable)))"

definition checkSharedServerPort :: "windows \<Rightarrow> int \<Rightarrow> unit act" where
  "checkSharedServerPort w port =
     binds (asks (\<lambda>l. wn_port w l port) (hpPort port)) (\<lambda>p. raises (port_error p))"

definition candidate_port :: "int \<Rightarrow> nat \<Rightarrow> int" where
  "candidate_port preferred offset =
     (let c = preferred + int offset in if c > 65535 then 1024 + (c - 65536) else c)"

text \<open>The loop from offset \<open>257 - n\<close> on.\<close>

fun try_ports :: "windows \<Rightarrow> int \<Rightarrow> nat \<Rightarrow> int act" where
  "try_ports w preferred 0 = fails (OtherError ''no available loopback app-server port was found'')"
| "try_ports w preferred (Suc n) =
     (let port = candidate_port preferred (256 - n)
      in binds (outcome (checkSharedServerPort w port)) (\<lambda>err.
         if err = None then returns port else try_ports w preferred n))"

definition selectAvailableSharedServerPort :: "windows \<Rightarrow> int \<Rightarrow> int act" where
  "selectAvailableSharedServerPort w preferred =
     (if preferred < 1024 \<or> preferred > 65535 then fails (OtherError ''invalid shared app-server port'')
      else try_ports w preferred 257)"

definition selectAlternatePort :: "windows \<Rightarrow> unit act" where
  "selectAlternatePort w =
     binds (reads manager_port) (\<lambda>current.
     binds (selectAvailableSharedServerPort w current) (\<lambda>port.
     if port = current then returns () else updateConfiguredPort w port))"

end
