(* ===== verification/Shared_Mode.thy ===== *)
theory Shared_Mode
  imports Shared_Server
begin

section \<open>The route to the shared server and its cleanup (shared\_mode\_windows.go)\<close>

text \<open>
  The route is a variable of the user's environment in the registry (\<open>wn_name\<close>, a name of their
  own in the tests). The file \<open>environment-backup.json\<close> records what the watchdog put there and
  what was there before. Every read and write of the registry asks for its outcome. The broadcast
  of a change and the log lines are left out.
\<close>

subsection \<open>The registry\<close>

definition readUserEnvironment :: "windows \<Rightarrow> string \<Rightarrow> string option act" where
  "readUserEnvironment w name = binds (succeeds w) (\<lambda>ok.
     if ok then reads (\<lambda>m. mc_env m name) else fails (OtherError ''registry''))"

definition writeUserEnvironment :: "windows \<Rightarrow> string \<Rightarrow> string \<Rightarrow> unit act" where
  "writeUserEnvironment w name value = binds (succeeds w) (\<lambda>ok.
     if ok then changes (\<lambda>m. m\<lparr>mc_env := (mc_env m)(name \<mapsto> value)\<rparr>) else fails (OtherError ''registry''))"

definition restoreUserEnvironment :: "windows \<Rightarrow> string \<Rightarrow> string \<Rightarrow> bool \<Rightarrow> unit act" where
  "restoreUserEnvironment w name value was_set = binds (succeeds w) (\<lambda>ok.
     if ok then changes (\<lambda>m. m\<lparr>mc_env := (mc_env m)(name := (if was_set then Some value else None))\<rparr>)
     else fails (OtherError ''registry''))"

definition nonemptySharedEnvironmentPresent :: "windows \<Rightarrow> bool act" where
  "nonemptySharedEnvironmentPresent w = binds (readUserEnvironment w (wn_name w)) (\<lambda>v.
     returns (case v of None \<Rightarrow> False | Some value \<Rightarrow> trim_space value \<noteq> []))"

definition write_backup :: "windows \<Rightarrow> sharedEnvironmentBackup \<Rightarrow> unit act" where
  "write_backup w b = binds (succeeds w) (\<lambda>ok.
     if ok then changes (\<lambda>m. m\<lparr>mc_backup := JsonContent (Some b)\<rparr>) else fails (OtherError ''write''))"

definition put_backup_back :: "windows \<Rightarrow> sharedEnvironmentBackup json_file \<Rightarrow> unit act" where
  "put_backup_back w file = binds (succeeds w) (\<lambda>ok.
     if ok then changes (\<lambda>m. m\<lparr>mc_backup := file\<rparr>) else returns ())"

subsection \<open>Installing and restoring the route\<close>

definition productionEnvironmentName :: string where
  "productionEnvironmentName = ''CODEX_APP_SERVER_WS_URL''"

definition no_result :: sharedEnvironmentResult where
  "no_result = \<lparr>er_Changed = False, er_Restored = False, er_ChangedByUser = False\<rparr>"

definition own_backup :: "string \<Rightarrow> sharedEnvironmentBackup \<Rightarrow> bool" where
  "own_backup name b \<longleftrightarrow> be_SchemaVersion b = 1 \<and> be_Name b = name"

definition conflict :: "string \<Rightarrow> go_error" where
  "conflict detail = Wrapped detail (Sentinel errSharedAppServerEnvironmentConflict)"

text \<open>The backup to write: the old one if it allows the new value, or a first one.\<close>

definition planned_backup ::
    "string \<Rightarrow> string \<Rightarrow> string option \<Rightarrow> sharedEnvironmentBackup json_file \<Rightarrow> go_error + sharedEnvironmentBackup" where
  "planned_backup name desired current file =
     (case file of
        JsonContent b \<Rightarrow>
          (case b of
             None \<Rightarrow> Inl (conflict ''ownership record is invalid'')
           | Some b \<Rightarrow>
               if \<not> own_backup name b then Inl (conflict ''ownership record is invalid'')
               else
                 let expected = (if be_PreviousPresent b then be_PreviousValue b else [])
                 in (case current of
                       Some v \<Rightarrow>
                         if v \<noteq> be_InstalledValue b \<and> v \<noteq> expected \<and> v \<noteq> desired
                         then Inl (conflict ''different user value'') else Inr b
                     | None \<Rightarrow> Inr b))
      | JsonUnreadable \<Rightarrow> Inl (OtherError ''backup'')
      | JsonMissing \<Rightarrow>
          if current \<noteq> None \<and> current \<noteq> Some desired then Inl (conflict ''different user value'')
          else Inr \<lparr>be_SchemaVersion = 1, be_Name = name, be_PreviousPresent = (current \<noteq> None),
                    be_PreviousValue = (case current of Some v \<Rightarrow> v | None \<Rightarrow> []), be_InstalledValue = [],
                    be_RecordedAt = 0\<rparr>)"

definition setOwnedSharedEnvironmentNamed :: "windows \<Rightarrow> string \<Rightarrow> string \<Rightarrow> sharedEnvironmentResult act" where
  "setOwnedSharedEnvironmentNamed w name desired =
     (if equal_fold name productionEnvironmentName then fails (OtherError ''persistent shared routing is disabled'')
      else if \<not> validSharedServerEndpoint desired (endpointPort desired) then fails (conflict ''invalid endpoint'')
      else
        binds (readUserEnvironment w name) (\<lambda>current.
        binds (reads mc_backup) (\<lambda>file.
        case planned_backup name desired current file of
          Inl e \<Rightarrow> fails e
        | Inr b \<Rightarrow>
            binds (clock w) (\<lambda>now.
            binds (write_backup w (b\<lparr>be_InstalledValue := desired, be_RecordedAt := now\<rparr>)) (\<lambda>_.
            binds (outcome (writeUserEnvironment w name desired)) (\<lambda>err.
            case err of
              None \<Rightarrow> returns (no_result\<lparr>er_Changed := (current \<noteq> Some desired)\<rparr>)
            | Some e \<Rightarrow>
                binds (caught (restoreUserEnvironment w name (case current of Some v \<Rightarrow> v | None \<Rightarrow> []) (current \<noteq> None))) (\<lambda>_.
                binds (put_backup_back w file) (\<lambda>_. fails e))))))))"

definition setOwnedSharedEnvironment :: "windows \<Rightarrow> string \<Rightarrow> sharedEnvironmentResult act" where
  "setOwnedSharedEnvironment w desired = setOwnedSharedEnvironmentNamed w (wn_name w) desired"

text \<open>Without a backup: the route is removed if it is one of the endpoints proven to be ours.\<close>

definition retire_legacy :: "windows \<Rightarrow> string list \<Rightarrow> sharedEnvironmentResult act" where
  "retire_legacy w legacy = binds (readUserEnvironment w (wn_name w)) (\<lambda>current.
     case current of
       None \<Rightarrow> returns no_result
     | Some v \<Rightarrow>
         if list_ex (\<lambda>e. validSharedServerEndpoint e (endpointPort e) \<and> v = e) legacy
         then binds (restoreUserEnvironment w (wn_name w) [] False) (\<lambda>_. returns (no_result\<lparr>er_Restored := True\<rparr>))
         else returns no_result)"

text \<open>What the variable is to hold again: an endpoint of ours is never put back.\<close>

definition previous_value :: "sharedEnvironmentBackup \<Rightarrow> string list \<Rightarrow> string option" where
  "previous_value b legacy =
     (if \<not> be_PreviousPresent b \<or> be_PreviousValue b = be_InstalledValue b \<or>
         list_ex (\<lambda>e. be_PreviousValue b = e \<and> validSharedServerEndpoint e (endpointPort e)) legacy
      then None else Some (be_PreviousValue b))"

definition value_of :: "string option \<Rightarrow> string" where
  "value_of v = (case v of Some s \<Rightarrow> s | None \<Rightarrow> [])"

definition remove_backup :: "windows \<Rightarrow> unit act" where
  "remove_backup w = put_backup_back w JsonMissing"

definition restore_backup :: "windows \<Rightarrow> sharedEnvironmentBackup \<Rightarrow> string list \<Rightarrow> sharedEnvironmentResult act" where
  "restore_backup w b legacy = binds (readUserEnvironment w (wn_name w)) (\<lambda>current.
     let target = previous_value b legacy;
         changedByUser = (case current of None \<Rightarrow> False | Some v \<Rightarrow> v \<noteq> be_InstalledValue b \<and> v \<noteq> value_of target)
     in binds (if \<not> changedByUser \<and> current \<noteq> Some (value_of target)
               then restoreUserEnvironment w (wn_name w) (value_of target) (target \<noteq> None) else returns ()) (\<lambda>_.
        binds (remove_backup w) (\<lambda>_.
        returns (no_result\<lparr>er_Restored := \<not> changedByUser, er_ChangedByUser := changedByUser\<rparr>))))"

definition restoreOwnedSharedEnvironment :: "windows \<Rightarrow> string list \<Rightarrow> sharedEnvironmentResult act" where
  "restoreOwnedSharedEnvironment w legacy = binds (reads mc_backup) (\<lambda>file.
     case file of
       JsonMissing \<Rightarrow> retire_legacy w legacy
     | JsonUnreadable \<Rightarrow> fails (OtherError ''backup'')
     | JsonContent b \<Rightarrow>
         (case b of
            None \<Rightarrow> fails (OtherError ''shared environment ownership record is invalid'')
          | Some b \<Rightarrow>
              if own_backup (wn_name w) b then restore_backup w b legacy
              else fails (OtherError ''shared environment ownership record is invalid'')))"

subsection \<open>Cleanup\<close>

definition ownedEnvironmentBackupMatchesCurrent :: "windows \<Rightarrow> bool act" where
  "ownedEnvironmentBackupMatchesCurrent w = binds (reads mc_backup) (\<lambda>file.
     case file of
       JsonContent (Some b) \<Rightarrow>
         if own_backup (wn_name w) b \<and> validSharedServerEndpoint (be_InstalledValue b) (endpointPort (be_InstalledValue b))
         then binds (caught (readUserEnvironment w (wn_name w))) (\<lambda>r.
           returns (r = Inr (Some (be_InstalledValue b))))
         else returns False
     | _ \<Rightarrow> returns False)"

text \<open>\<open>state, err := m.readState(); err == nil && m.sharedServerStateOwnedForCleanup(state)\<close>.\<close>

definition owned_state :: "windows \<Rightarrow> sharedServerState option act" where
  "owned_state w = binds (reads readState) (\<lambda>r.
     case r of
       stateRead st \<Rightarrow> binds (sharedServerStateOwnedForCleanup w st) (\<lambda>ours. returns (if ours then Some st else None))
     | _ \<Rightarrow> returns None)"

definition hasOwnedCleanupArtifacts :: "windows \<Rightarrow> bool act" where
  "hasOwnedCleanupArtifacts w = binds (owned_state w) (\<lambda>st.
     if st \<noteq> None then returns True else ownedEnvironmentBackupMatchesCurrent w)"

definition shouldDeferStopForDesktop :: "windows \<Rightarrow> bool act" where
  "shouldDeferStopForDesktop w =
     both (desktopIsRunning w) (binds (owned_state w) (\<lambda>st.
       case st of None \<Rightarrow> returns False | Some st \<Rightarrow> processIsRunning w (ss_PID st)))"

definition ownedLegacyEndpoints :: "windows \<Rightarrow> string list act" where
  "ownedLegacyEndpoints w = binds (owned_state w) (\<lambda>st.
     case st of
       None \<Rightarrow> returns []
     | Some st \<Rightarrow>
         binds (both (processIsRunning w (ss_PID st))
                     (binds (ownsProcess w st) (\<lambda>proven. returns (\<not> proven)))) (\<lambda>unproven.
         returns (if unproven then [] else [ss_Endpoint st])))"

definition restore_route :: "windows \<Rightarrow> sharedEnvironmentResult act" where
  "restore_route w = binds (ownedLegacyEndpoints w) (restoreOwnedSharedEnvironment w)"

definition CleanupIfUnused :: "windows \<Rightarrow> unit act" where
  "CleanupIfUnused w = binds (hasOwnedCleanupArtifacts w) (\<lambda>artifacts.
     if \<not> artifacts then returns ()
     else binds (shouldDeferStopForDesktop w) (\<lambda>defer_it.
     if defer_it then fails (Sentinel errSharedServerMigrationDeferred)
     else binds (outcome (restore_route w)) (\<lambda>environmentErr.
          binds (outcome (StopOwned w)) (\<lambda>processErr.
          raises (join_errors environmentErr processErr)))))"

definition cleanupSharedServer :: "windows \<Rightarrow> unit act" where
  "cleanupSharedServer w = binds (caught (CleanupIfUnused w)) (\<lambda>_. returns ())"

definition disableSharedAppServer :: "windows \<Rightarrow> Config \<Rightarrow> unit act" where
  "disableSharedAppServer w c = with_manager (newSharedServerManager w c) (CleanupIfUnused w)"

definition EnsureOwnedEnvironment :: "windows \<Rightarrow> unit act" where
  "EnsureOwnedEnvironment w = binds (cancelled w) (\<lambda>stop.
     if stop then fails (OtherError ''context'')
     else binds (restore_route w) (\<lambda>_.
          binds (nonemptySharedEnvironmentPresent w) (\<lambda>present.
          if present then fails (Sentinel errSharedAppServerEnvironmentConflict) else returns ())))"

definition ValidateOwned :: "windows \<Rightarrow> unit act" where
  "ValidateOwned w = binds (reads readState) (\<lambda>r.
     case r of
       stateRead st \<Rightarrow>
         binds (sharedServerStateOwnedForCleanup w st) (\<lambda>ours.
         if \<not> ours then fails (OtherError ''state is not owned'')
         else binds (outcome (adoptSharedServerState w st)) (\<lambda>err.
         case err of Some e \<Rightarrow> fails (Wrapped ''adopt shared app-server state'' e) | None \<Rightarrow>
         binds (reads (\<lambda>m. validSharedServerEndpoint (ss_Endpoint st) (manager_port m) \<and>
                           SupportsHome (mc_mgr m) (ss_CodexHome st))) (\<lambda>fits.
         if \<not> fits then fails (OtherError ''state failed endpoint or home validation'')
         else binds (is_file w (ss_Executable st)) (\<lambda>file.
         if \<not> file then fails (OtherError ''executable is missing'')
         else binds (executableHash w (ss_Executable st)) (\<lambda>h.
         if ss_ExecutableHash st = [] \<or> ss_ExecutableHash st \<noteq> h then fails (OtherError ''executable hash'')
         else binds (ownsProcess w st) (\<lambda>proven.
         if \<not> proven then fails (OtherError ''process is not owned'')
         else binds (reads (\<lambda>m. sm_endpoint (mc_mgr m))) (\<lambda>endpoint.
         binds (probe w endpoint) (\<lambda>up. if up then returns () else fails (OtherError ''probe''))))))))
     )
     | _ \<Rightarrow> fails (OtherError ''state''))"

subsection \<open>The check at the start of the worker\<close>

text \<open>An error for which a route in the environment changes the sentinel.\<close>

definition unless_route :: "windows \<Rightarrow> string \<Rightarrow> unit act" where
  "unless_route w otherwise = binds (caught (nonemptySharedEnvironmentPresent w)) (\<lambda>r.
     case r of
       Inl _ \<Rightarrow> fails (Wrapped ''shared-server environment could not be checked'' (Sentinel errSharedServerUnavailable))
     | Inr routed \<Rightarrow>
         if routed then fails (conflict ''shared-server environment has no owned state'')
         else if otherwise = [] then returns ()
         else fails (Wrapped otherwise (Sentinel errSharedServerUnavailable)))"

definition unavailable :: "string \<Rightarrow> 'a act" where
  "unavailable detail = fails (Wrapped detail (Sentinel errSharedServerUnavailable))"

definition checkSharedServerStartupState :: "windows \<Rightarrow> unit act" where
  "checkSharedServerStartupState w = binds (reads readState) (\<lambda>r.
     case r of
       stateMissing \<Rightarrow>
         binds (ownedEnvironmentBackupMatchesCurrent w) (\<lambda>own.
         if own then unavailable ''owned shared-server state is missing'' else unless_route w [])
     | stateBad \<Rightarrow>
         binds (ownedEnvironmentBackupMatchesCurrent w) (\<lambda>own.
         if own then unavailable ''owned shared-server state is unreadable''
         else unless_route w ''shared-server state is unreadable'')
     | stateRead st \<Rightarrow>
         binds (sharedServerStateOwnedForCleanup w st) (\<lambda>ours.
         if \<not> ours then unless_route w ''shared-server state is not owned by this plugin''
         else binds (processIsRunning w (ss_PID st)) (\<lambda>alive.
         if \<not> alive then unavailable ''owned shared-server process is not running''
         else binds (ownsProcess w st) (\<lambda>proven.
         if \<not> proven then unavailable ''shared-server process ownership could not be verified''
         else if \<not> validSharedServerEndpoint (ss_Endpoint st) (endpointPort (ss_Endpoint st))
         then unavailable ''owned shared-server endpoint is invalid''
         else binds (probe w (ss_Endpoint st)) (\<lambda>up.
         if up then returns () else unavailable ''owned shared-server endpoint is not listening'')))))"

end
