(* ===== verification/Shared_Launch.thy ===== *)
theory Shared_Launch
  imports Shared_Mode
begin

section \<open>Starting and replacing the shared server\<close>

text \<open>
  \<open>Ensure\<close>, \<open>start\<close> and the migration of an old server (shared\_server\_windows.go), and
  \<open>enableSharedAppServer\<close> (shared\_mode\_windows.go). Each loop that waits until a deadline runs
  over a number of rounds that the machine decides.
\<close>

subsection \<open>The new process\<close>

definition sharedServerStartArguments :: "string \<Rightarrow> string \<Rightarrow> string list" where
  "sharedServerStartArguments endpoint mcpOverride =
     [''-c'', ''features.code_mode_host=true'', ''app-server'', ''--analytics-default-enabled''] @
     (if trim_space mcpOverride \<noteq> [] then [''-c'', mcpOverride] else []) @ [''--listen'', endpoint]"

definition replaceEnvironmentValue :: "string list \<Rightarrow> string \<Rightarrow> string \<Rightarrow> string list" where
  "replaceEnvironmentValue environment key value =
     filter (\<lambda>item. \<not> prefix (to_lower key @ ''='') (to_lower item)) environment @ [key @ ''='' @ value]"

definition loadCodexAppMCPOverride :: "windows \<Rightarrow> (string \<times> string) act" where
  "loadCodexAppMCPOverride w = binds (asks (wn_override w) hpOverride) (\<lambda>r.
     case r of
       None \<Rightarrow> fails (Wrapped ''codex_app MCP configuration'' (Sentinel errSharedAppServerConfigInvalid))
     | Some x \<Rightarrow> returns x)"

definition sharedServerNeedsMigration :: "sharedServerState \<Rightarrow> string \<Rightarrow> bool" where
  "sharedServerNeedsMigration st desiredMCPConfigHash \<longleftrightarrow>
     ss_LaunchMode st \<noteq> sharedServerLaunchMode \<or> ss_MCPConfigHash st \<noteq> desiredMCPConfigHash"

definition scheduleLaunchMigration :: "unit act" where
  "scheduleLaunchMigration = changes (\<lambda>m. m\<lparr>mc_mgr := (mc_mgr m)\<lparr>sm_migrating := True\<rparr>\<rparr>)"

definition start_server :: "windows \<Rightarrow> string \<Rightarrow> unit act" where
  "start_server w executable =
     binds (is_file w executable) (\<lambda>file.
     if \<not> file then fails (OtherError ''Codex executable is missing'')
     else binds (executableHash w executable) (\<lambda>hash.
     if hash = [] then fails (OtherError ''Codex executable hash could not be verified'')
     else binds (loadCodexAppMCPOverride w) (\<lambda>(mcpOverride, mcpConfigHash).
     binds (reads mc_mgr) (\<lambda>mgr.
     let arguments = sharedServerStartArguments (sm_endpoint mgr) mcpOverride
     in binds (asks (\<lambda>l. wn_spawn w l executable arguments) (hpSpawn executable arguments)) (\<lambda>pid.
     case pid of
       None \<Rightarrow> fails (OtherError ''start'')
     | Some pid \<Rightarrow>
         binds (clock w) (\<lambda>now.
         binds (outcome (write_state w
           \<lparr>ss_PID = pid, ss_Endpoint = sm_endpoint mgr, ss_CodexHome = sm_codexHome mgr, ss_Executable = executable,
            ss_ExecutableHash = hash, ss_MCPConfigHash = mcpConfigHash, ss_Owner = sharedServerOwner,
            ss_Version = mw_version (wn_mgmt w), ss_StartedAt = now, ss_LaunchMode = sharedServerLaunchMode\<rparr>)) (\<lambda>err.
         case err of
           None \<Rightarrow> returns ()
         | Some e \<Rightarrow> binds (caught (terminateProcessTree w pid)) (\<lambda>_. fails e))))))))"

subsection \<open>Ensure\<close>

definition after_adoption :: "windows \<Rightarrow> sharedServerState \<Rightarrow> bool act \<Rightarrow> bool act" where
  "after_adoption w st act = binds (outcome (adoptSharedServerState w st)) (\<lambda>err.
     case err of Some e \<Rightarrow> fails (Wrapped ''adopt shared app-server state'' e) | None \<Rightarrow> act)"

definition healthy :: "string \<Rightarrow> sharedServerState \<Rightarrow> bool act" where
  "healthy desired st =
     binds (if sharedServerNeedsMigration st desired then scheduleLaunchMigration else returns ()) (\<lambda>_. returns True)"

definition probe_own :: "windows \<Rightarrow> bool act" where
  "probe_own w = binds (reads (\<lambda>m. sm_endpoint (mc_mgr m))) (probe w)"

text \<open>The recorded server, on whatever port it runs. True: the server is ready.\<close>

definition ensure_recorded :: "windows \<Rightarrow> string \<Rightarrow> bool act" where
  "ensure_recorded w desired = binds (reads readState) (\<lambda>r.
     case r of
       stateRead st \<Rightarrow>
         binds (both (sharedServerStateOwnedForCleanup w st) (ownsProcess w st)) (\<lambda>ours.
         let port = endpointPort (ss_Endpoint st)
         in if \<not> (ours \<and> 1024 \<le> port \<and> port \<le> 65535) then returns False
            else binds (reads (\<lambda>m. ss_Endpoint st \<noteq> sm_endpoint (mc_mgr m))) (\<lambda>elsewhere.
                 binds (if elsewhere then updateConfiguredPort w port else returns ()) (\<lambda>_.
                 binds (probe_own w) (\<lambda>up.
                 if up then after_adoption w st (healthy desired st) else returns False))))
     | _ \<Rightarrow> returns False)"

text \<open>Whether the state is ours and its process verified; and if not, whether it still claims this endpoint.\<close>

definition plugin_process :: "windows \<Rightarrow> state_read \<Rightarrow> bool act" where
  "plugin_process w r =
     (case r of
        stateRead st \<Rightarrow> both (sharedServerStateOwnedByPlugin w st) (ownsProcess w st)
      | _ \<Rightarrow> returns False)"

definition claims_endpoint :: "windows \<Rightarrow> state_read \<Rightarrow> bool act" where
  "claims_endpoint w r =
     (case r of
        stateRead st \<Rightarrow>
          both (sharedServerStateOwnedForCleanup w st)
               (both (reads (\<lambda>m. ss_Endpoint st = sm_endpoint (mc_mgr m))) (processIsRunning w (ss_PID st)))
      | _ \<Rightarrow> returns False)"

definition other_port :: "windows \<Rightarrow> state_read \<Rightarrow> unit act" where
  "other_port w r = binds (claims_endpoint w r) (\<lambda>claimed.
     if claimed then fails (Sentinel errSharedServerPortConflict)
     else binds (reads (\<lambda>m. sm_allowAlternatePort (mc_mgr m))) (\<lambda>allowed.
     if \<not> allowed then fails (Sentinel errSharedServerPortConflict) else selectAlternatePort w))"

text \<open>Something answers at the endpoint.\<close>

definition ensure_answering :: "windows \<Rightarrow> string \<Rightarrow> bool act" where
  "ensure_answering w desired = binds (probe_own w) (\<lambda>up.
     if \<not> up then returns False
     else binds (reads readState) (\<lambda>r.
          binds (plugin_process w r) (\<lambda>ours.
          case r of
            stateRead st \<Rightarrow>
              if ours then after_adoption w st (healthy desired st)
              else binds (other_port w r) (\<lambda>_. returns False)
          | _ \<Rightarrow> binds (other_port w r) (\<lambda>_. returns False))))"

fun await_handshake :: "windows \<Rightarrow> nat \<Rightarrow> bool act" where
  "await_handshake w 0 = returns False"
| "await_handshake w (Suc n) = binds (probe_own w) (\<lambda>up.
     if up then returns True
     else binds (cancelled w) (\<lambda>stop.
     if stop then fails (OtherError ''context'') else await_handshake w n))"

text \<open>Something listens at the port without answering.\<close>

definition ensure_listening :: "windows \<Rightarrow> string \<Rightarrow> bool act" where
  "ensure_listening w desired = binds (reads manager_port) (\<lambda>port.
     binds (dial w port) (\<lambda>open.
     if \<not> open then returns False
     else binds (reads readState) (\<lambda>r.
          binds (plugin_process w r) (\<lambda>ours.
          case r of
            stateRead st \<Rightarrow>
              if \<not> ours then binds (other_port w r) (\<lambda>_. returns False)
              else after_adoption w st
                (binds (rounds w) (\<lambda>n. binds (await_handshake w n) (\<lambda>ready.
                 if ready then healthy desired st
                 else binds (desktopIsRunning w) (\<lambda>desktop.
                 if desktop then fails (Sentinel errSharedServerMigrationDeferred)
                 else binds (StopOwned w) (\<lambda>_. returns False)))))
          | _ \<Rightarrow> binds (other_port w r) (\<lambda>_. returns False)))))"

definition ensure_port :: "windows \<Rightarrow> unit act" where
  "ensure_port w = binds (reads manager_port) (\<lambda>port.
     binds (outcome (checkSharedServerPort w port)) (\<lambda>err.
     case err of
       None \<Rightarrow> returns ()
     | Some e \<Rightarrow>
         if \<not> errors_Is err errSharedServerPortConflict \<and> \<not> errors_Is err errSharedServerPortReserved then fails e
         else binds (reads (\<lambda>m. sm_allowAlternatePort (mc_mgr m))) (\<lambda>allowed.
              if \<not> allowed then fails e
              else binds (outcome (selectAlternatePort w)) (\<lambda>selectErr.
              if selectErr \<noteq> None then fails e else returns ()))))"

definition clean_and_fail :: "windows \<Rightarrow> go_error \<Rightarrow> unit act" where
  "clean_and_fail w e = binds (cleanupSharedServer w) (\<lambda>_. fails e)"

text \<open>The loop after the start.\<close>

fun await_server :: "windows \<Rightarrow> nat \<Rightarrow> unit act" where
  "await_server w 0 = clean_and_fail w (Sentinel errSharedServerUnavailable)"
| "await_server w (Suc n) = binds (probe_own w) (\<lambda>up.
     if up then
       binds (reads readState) (\<lambda>r.
       binds (plugin_process w r) (\<lambda>ours.
       case r of
         stateRead st \<Rightarrow>
           if \<not> ours then clean_and_fail w (Sentinel errSharedServerUnavailable)
           else binds (outcome (adoptSharedServerState w st)) (\<lambda>err.
             case err of None \<Rightarrow> returns ()
             | Some e \<Rightarrow> clean_and_fail w (Wrapped ''adopt shared app-server state'' e))
       | _ \<Rightarrow> clean_and_fail w (Sentinel errSharedServerUnavailable)))
     else binds (cancelled w) (\<lambda>stop.
       if stop then clean_and_fail w (OtherError ''context'') else await_server w n))"

definition launch :: "windows \<Rightarrow> unit act" where
  "launch w = binds (asks (wn_find w) hpFound) (\<lambda>executable.
     case executable of
       None \<Rightarrow> fails (Wrapped ''executable'' (Sentinel errSharedServerUnavailable))
     | Some path \<Rightarrow>
         binds (outcome (start_server w path)) (\<lambda>err.
         if err \<noteq> None then fails (Wrapped ''start'' (Sentinel errSharedServerUnavailable))
         else binds (rounds w) (await_server w)))"

definition Ensure :: "windows \<Rightarrow> unit act" where
  "Ensure w =
     binds refreshConfiguredPort (\<lambda>_.
     binds (loadCodexAppMCPOverride w) (\<lambda>(_, desired).
     binds (ensure_recorded w desired) (\<lambda>ready. if ready then returns () else
     binds (ensure_answering w desired) (\<lambda>ready. if ready then returns () else
     binds (ensure_listening w desired) (\<lambda>ready. if ready then returns () else
     binds (ensure_port w) (\<lambda>_. launch w))))))"

subsection \<open>Replacing an old server\<close>

fun await_closed :: "windows \<Rightarrow> int \<Rightarrow> nat \<Rightarrow> unit act" where
  "await_closed w port 0 = returns ()"
| "await_closed w port (Suc n) = binds (dial w port) (\<lambda>open.
     if \<not> open then returns ()
     else binds (cancelled w) (\<lambda>stop. if stop then fails (OtherError ''context'') else await_closed w port n))"

definition restart_with :: "windows \<Rightarrow> string \<Rightarrow> unit act" where
  "restart_with w executable = binds (executableHash w executable) (\<lambda>hash.
     if hash = [] then fails (OtherError ''Codex executable hash could not be verified'') else start_server w executable)"

definition migrateLegacyLaunch :: "windows \<Rightarrow> unit act" where
  "migrateLegacyLaunch w = binds (reads readState) (\<lambda>r.
     case r of
       stateRead st \<Rightarrow>
         binds (loadCodexAppMCPOverride w) (\<lambda>(_, desired).
         if \<not> sharedServerNeedsMigration st desired then returns ()
         else binds (desktopIsRunning w) (\<lambda>desktop.
         if desktop then fails (Sentinel errSharedServerMigrationDeferred)
         else binds (probe_own w) (\<lambda>up.
         binds (if \<not> up then returns ()
                else binds (both (reads (\<lambda>m. validSharedServerEndpoint (ss_Endpoint st) (manager_port m) \<and>
                                             SupportsHome (mc_mgr m) (ss_CodexHome st)))
                                 (ownsProcess w st)) (\<lambda>ours.
                     if \<not> ours then fails (Sentinel errSharedServerPortConflict)
                     else terminateProcessTree w (ss_PID st))) (\<lambda>_.
         binds (reads manager_port) (\<lambda>port.
         binds (rounds w) (\<lambda>n.
         binds (await_closed w port n) (\<lambda>_.
         binds (dial w port) (\<lambda>open.
         if open then fails (Sentinel errSharedServerPortConflict)
         else binds (is_file w (ss_Executable st)) (\<lambda>file.
              if file then restart_with w (ss_Executable st)
              else binds (asks (wn_find w) hpFound) (\<lambda>executable.
                case executable of
                  None \<Rightarrow> fails (OtherError ''Codex CLI executable was not found'')
                | Some path \<Rightarrow> restart_with w path))))))))))
     | _ \<Rightarrow> fails (OtherError ''state''))"

subsection \<open>Enabling\<close>

definition enableSharedAppServer :: "windows \<Rightarrow> Config \<Rightarrow> Config act" where
  "enableSharedAppServer w c =
     with_manager ((newSharedServerManager w c)\<lparr>sm_allowAlternatePort := True,
                    sm_config := c\<lparr>c_SharedAppServerEnabled := True\<rparr>\<rparr>)
       (binds (caught (Ensure w)) (\<lambda>r.
        case r of Inl e \<Rightarrow> fails (Wrapped ''shared app-server health check failed'' e) | Inr _ \<Rightarrow>
        binds (caught (ValidateOwned w)) (\<lambda>r.
        case r of
          Inl e \<Rightarrow> binds (cleanupSharedServer w) (\<lambda>_. fails (Wrapped ''shared app-server ownership check failed'' e))
        | Inr _ \<Rightarrow>
            binds (reads (\<lambda>m. validSharedServerEndpoint (sm_endpoint (mc_mgr m)) (manager_port m))) (\<lambda>valid.
            if \<not> valid
            then binds (cleanupSharedServer w) (\<lambda>_. fails (OtherError ''not the expected loopback address''))
            else binds (caught (EnsureOwnedEnvironment w)) (\<lambda>r.
              case r of
                Inl e \<Rightarrow> binds (cleanupSharedServer w) (\<lambda>_. fails e)
              | Inr _ \<Rightarrow> reads (\<lambda>m. sm_config (mc_mgr m)))))))"

end
