(* ===== verification/Shared_Recovery.thy ===== *)
theory Shared_Recovery
  imports Shared_Launch
begin

section \<open>Giving up and recovering the shared server\<close>

text \<open>
  Fail-open (shared\_mode\_windows.go), its callers at the start of the worker (main.go) and at run
  time (runner.go), and the recovery that a launcher requests (shared\_recovery\_windows.go). The
  markers are files of the data directory.
\<close>

subsection \<open>Configuration and markers\<close>

text \<open>\<open>updateConfigFile\<close> with a mutation that asks the machine itself.\<close>

definition load_locked :: "windows \<Rightarrow> Config act" where
  "load_locked w = on_dir (locked (wn_mgmt w) (load_unlocked (wn_mgmt w)))"

definition update_asking :: "windows \<Rightarrow> (Config \<Rightarrow> Config act) \<Rightarrow> Config act" where
  "update_asking w mutate = binds (load_locked w) (\<lambda>latest. binds (mutate latest) (\<lambda>c.
     if validate c \<noteq> None then fails (OtherError ''config'') else on_dir (write_config (wn_mgmt w) c)))"

definition sharedFailOpenMarkerName :: string where
  "sharedFailOpenMarkerName = ''shared-fail-open.json''"

definition availabilityName :: string where
  "availabilityName = ''shared-availability.json''"

definition set_marker :: "string \<Rightarrow> bool \<Rightarrow> machine \<Rightarrow> machine" where
  "set_marker name on m =
     m\<lparr>mc_dir := (mc_dir m)\<lparr>dd_markers :=
       (if on then name # removeAll name (dd_markers (mc_dir m)) else removeAll name (dd_markers (mc_dir m)))\<rparr>\<rparr>"

definition write_marker :: "windows \<Rightarrow> string \<Rightarrow> (machine \<Rightarrow> machine) \<Rightarrow> unit act" where
  "write_marker w name contents = binds (succeeds w) (\<lambda>ok.
     if ok then changes (\<lambda>m. contents (set_marker name True m)) else fails (OtherError ''write''))"

definition remove_file :: "windows \<Rightarrow> string \<Rightarrow> unit act" where
  "remove_file w name = binds (succeeds w) (\<lambda>ok. if ok then changes (set_marker name False) else returns ())"

definition recordSharedUnavailable :: "windows \<Rightarrow> string \<Rightarrow> unit act" where
  "recordSharedUnavailable w reason = binds (clock w) (\<lambda>now.
     write_marker w availabilityName (\<lambda>m. m\<lparr>mc_availability := Some
       \<lparr>av_Reason = reason,
        av_AutomaticRecoveryAllowed =
          (reason \<noteq> ''shared_app_server_memory_limit_exceeded'' \<and> reason \<noteq> ''memory_limit_exceeded''),
        av_UpdatedAt = now\<rparr>\<rparr>))"

subsection \<open>Fail-open\<close>

definition failOpenSharedBackendCleanup :: "windows \<Rightarrow> Config \<Rightarrow> unit act" where
  "failOpenSharedBackendCleanup w c = with_manager (newSharedServerManager w c)
     (binds (hasOwnedCleanupArtifacts w) (\<lambda>ownedEvidence.
      binds (caught (restore_route w)) (\<lambda>restored.
      binds (caught (nonemptySharedEnvironmentPresent w)) (\<lambda>left.
      let err = (case restored of Inl e \<Rightarrow> Some e | Inr _ \<Rightarrow> None);
          explained = (case restored of Inl _ \<Rightarrow> False | Inr r \<Rightarrow> er_Restored r \<or> er_ChangedByUser r);
          err = (case left of
              Inl _ \<Rightarrow> join_errors err (Some (conflict ''shared endpoint ownership could not be checked''))
            | Inr still \<Rightarrow>
                if still \<and> (err \<noteq> None \<or> \<not> ownedEvidence \<or> \<not> explained)
                then join_errors err (Some (conflict ''shared endpoint ownership is unknown'')) else err)
      in binds (outcome (StopOwned w)) (\<lambda>processErr. raises (join_errors err processErr))))))"

text \<open>The disabled preference in the file; the configuration is known as soon as it is loaded.\<close>

definition persist_disabled :: "windows \<Rightarrow> Config \<Rightarrow> (Config \<times> go_error option) act" where
  "persist_disabled w c = binds (caught (load_locked w)) (\<lambda>r.
     case r of
       Inl e \<Rightarrow> returns (c, Some e)
     | Inr latest \<Rightarrow>
         let latest = latest\<lparr>c_SharedAppServerEnabled := False\<rparr>
         in if validate latest \<noteq> None then returns (c, Some (OtherError ''config''))
            else binds (outcome (on_dir (write_config (wn_mgmt w) latest))) (\<lambda>err. returns (latest, err)))"

definition failOpenSharedAppServer :: "windows \<Rightarrow> Config \<Rightarrow> (Config \<times> go_error option) act" where
  "failOpenSharedAppServer w c =
     (let c = c\<lparr>c_SharedAppServerEnabled := False\<rparr>
      in if validate c \<noteq> None then returns (c, Some (OtherError ''config''))
         else
           binds (outcome (write_marker w sharedFailOpenMarkerName id)) (\<lambda>markerErr.
           binds (persist_disabled w c) (\<lambda>(c, persistErr).
           binds (outcome (failOpenSharedBackendCleanup w c)) (\<lambda>cleanupErr.
           let durable = (markerErr = None \<and> persistErr = None);
               cleanupErr = (if durable \<and> cleanupErr = Some (Sentinel errSharedServerMigrationDeferred)
                             then None else cleanupErr)
           in binds (if durable \<and> cleanupErr = None then remove_file w sharedFailOpenMarkerName else returns ()) (\<lambda>_.
              returns (c, join_errors (join_errors markerErr persistErr) cleanupErr))))))"

definition cleanupSharedBackendWithoutConfig :: "windows \<Rightarrow> unit act" where
  "cleanupSharedBackendWithoutConfig w = binds (reads readState) (\<lambda>r.
     case r of
       stateRead st \<Rightarrow>
         let port = endpointPort (ss_Endpoint st)
         in if port < 1024 \<or> port > 65535 \<or> \<not> validSharedServerEndpoint (ss_Endpoint st) port
            then with_manager (newSharedServerManager w defaultConfig) (CleanupIfUnused w)
            else with_manager
              ((newSharedServerManager w (defaultConfig\<lparr>c_SharedAppServerPort := port\<rparr>))\<lparr>sm_codexHome := wn_expand w (ss_CodexHome st)\<rparr>)
              (binds (sharedServerStateOwnedByPlugin w st) (\<lambda>_. CleanupIfUnused w))
     | _ \<Rightarrow> with_manager (newSharedServerManager w defaultConfig) (CleanupIfUnused w))"

definition cleanupSharedBackend :: "windows \<Rightarrow> unit act" where
  "cleanupSharedBackend w = binds (caught (on_dir (loadOrCreateConfig (wn_mgmt w)))) (\<lambda>r.
     case r of
       Inr c \<Rightarrow> disableSharedAppServer w c
     | Inl _ \<Rightarrow> binds (caught (cleanupSharedBackendWithoutConfig w)) (\<lambda>r.
         case r of Inl e \<Rightarrow> fails (Wrapped ''fallback cleanup'' e) | Inr _ \<Rightarrow> returns ()))"

text \<open>The two callers in runner.go.\<close>

definition FailOpenSharedBackend :: "windows \<Rightarrow> unit act" where
  "FailOpenSharedBackend w = binds (caught (on_dir (loadOrCreateConfig (wn_mgmt w)))) (\<lambda>r.
     case r of
       Inl e \<Rightarrow> binds (outcome (cleanupSharedBackend w)) (\<lambda>err.
         if err \<noteq> None then fails (Wrapped ''load config'' e) else returns ())
     | Inr c \<Rightarrow>
         let c = c\<lparr>c_SharedAppServerEnabled := False\<rparr>
         in if validate c \<noteq> None then fails (OtherError ''config'')
            else binds (failOpenSharedAppServer w c) (\<lambda>(_, err). raises err))"

definition ReconcileSharedBackendCleanup :: "windows \<Rightarrow> unit act" where
  "ReconcileSharedBackendCleanup w = binds (caught (on_dir (loadOrCreateConfig (wn_mgmt w)))) (\<lambda>r.
     if (case r of Inr c \<Rightarrow> c_SharedAppServerEnabled c | Inl _ \<Rightarrow> False) then returns () else cleanupSharedBackend w)"

subsection \<open>The start of the worker (main.go)\<close>

record startupFailOpenResult =
  sf_Config :: Config
  sf_Reason :: string
  sf_CleanupErr :: "go_error option"
  sf_CanContinue :: bool

definition completeStartupFailOpen :: "windows \<Rightarrow> Config \<Rightarrow> startupFailOpenResult act" where
  "completeStartupFailOpen w c = binds (failOpenSharedAppServer w c) (\<lambda>(updated, err).
     case err of
       None \<Rightarrow> returns \<lparr>sf_Config = updated, sf_Reason = [], sf_CleanupErr = None, sf_CanContinue = True\<rparr>
     | Some e \<Rightarrow>
         if errors_Is (Some e) errSharedAppServerEnvironmentConflict
         then returns \<lparr>sf_Config = updated, sf_Reason = [], sf_CleanupErr = Some e, sf_CanContinue = False\<rparr>
         else binds (caught (on_dir (loadOrCreateConfig (wn_mgmt w)))) (\<lambda>r.
           case r of
             Inl readErr \<Rightarrow> returns \<lparr>sf_Config = updated, sf_Reason = [],
               sf_CleanupErr = Some (Joined e readErr), sf_CanContinue = False\<rparr>
           | Inr persisted \<Rightarrow>
               returns (if c_SharedAppServerEnabled persisted
                 then \<lparr>sf_Config = updated, sf_Reason = [], sf_CleanupErr = Some e, sf_CanContinue = False\<rparr>
                 else \<lparr>sf_Config = persisted, sf_Reason = [], sf_CleanupErr = Some e, sf_CanContinue = True\<rparr>)))"

definition prepareSharedBackendAtStartup :: "windows \<Rightarrow> Config \<Rightarrow> startupFailOpenResult act" where
  "prepareSharedBackendAtStartup w c =
     (if \<not> c_SharedAppServerEnabled c
      then returns \<lparr>sf_Config = c, sf_Reason = [], sf_CleanupErr = None, sf_CanContinue = True\<rparr>
      else binds (outcome (with_manager (newSharedServerManager w c) (checkSharedServerStartupState w))) (\<lambda>err.
        case err of
          None \<Rightarrow> returns \<lparr>sf_Config = c, sf_Reason = [], sf_CleanupErr = None, sf_CanContinue = True\<rparr>
        | Some e \<Rightarrow>
            let reason = controllerFailureReason zero_DispatchResult (Some e)
            in binds (caught (recordSharedUnavailable w reason)) (\<lambda>_.
               binds (completeStartupFailOpen w c) (\<lambda>r. returns (r\<lparr>sf_Reason := reason\<rparr>)))))"

subsection \<open>The recovery a launcher requests\<close>

definition sharedRecoveryID :: "string \<Rightarrow> bool" where
  "sharedRecoveryID s \<longleftrightarrow> length s = 32 \<and> list_all is_hex s"

definition stored_availability :: "machine \<Rightarrow> sharedAvailability json_file" where
  "stored_availability m =
     (if availabilityName \<in> set (dd_markers (mc_dir m)) then JsonContent (mc_availability m) else JsonMissing)"

text \<open>The preparation: \<open>Inl\<close> the reason it ended with, \<open>Inr\<close> the port of the new server.\<close>

definition wish_kept :: "windows \<Rightarrow> Config \<Rightarrow> Config act" where
  "wish_kept w latest =
     (if \<not> c_SharedAppServerRequested latest then fails (OtherError ''shared preparation was cancelled'')
      else binds (cancelled w) (\<lambda>stop.
           if stop then fails (OtherError ''shared preparation was cancelled'')
           else returns (latest\<lparr>c_SharedAppServerEnabled := False\<rparr>)))"

definition confirm_prepared :: "windows \<Rightarrow> int \<Rightarrow> Config \<Rightarrow> Config act" where
  "confirm_prepared w port latest =
     (if \<not> c_SharedAppServerRequested latest then fails (OtherError ''shared preparation was superseded'')
      else binds (cancelled w) (\<lambda>stop.
           if stop then fails (OtherError ''shared preparation was superseded'')
           else binds (desktopIsRunning w) (\<lambda>desktop.
                if desktop then fails (OtherError ''shared preparation was superseded'')
                else returns (latest\<lparr>c_SharedAppServerEnabled := True, c_SharedAppServerPort := port\<rparr>))))"

definition prepare_server :: "windows \<Rightarrow> Config \<Rightarrow> string act" where
  "prepare_server w c =
     binds (outcome (failOpenSharedBackendCleanup w c)) (\<lambda>err.
     if err \<noteq> None then returns ''cleanup_not_safe''
     else binds (caught (enableSharedAppServer w c)) (\<lambda>r.
       case r of
         Inl _ \<Rightarrow> binds (caught (recordSharedUnavailable w ''backend_prepare_failed'')) (\<lambda>_.
           returns ''backend_prepare_failed'')
       | Inr prepared \<Rightarrow>
           binds (outcome (update_asking w (confirm_prepared w (c_SharedAppServerPort prepared)))) (\<lambda>err.
           if err \<noteq> None
           then binds (with_manager (newSharedServerManager w prepared) (cleanupSharedServer w)) (\<lambda>_.
             returns ''recovery_cancelled'')
           else binds (remove_file w sharedFailOpenMarkerName) (\<lambda>_.
                binds (remove_file w availabilityName) (\<lambda>_. returns ''prepared'')))))"

definition recovery_reason :: "windows \<Rightarrow> bool \<Rightarrow> gotime \<Rightarrow> gotime \<Rightarrow> string act" where
  "recovery_reason w busy expiresAt now =
     (if \<not> After expiresAt now \<or> time_sub expiresAt now > 15 * Second then returns ''request_expired''
      else binds (desktopIsRunning w) (\<lambda>desktop.
      if desktop then returns ''desktop_already_running''
      else if busy then returns ''worker_busy''
      else binds (caught (on_dir (loadOrCreateConfig (wn_mgmt w)))) (\<lambda>r.
      case r of
        Inl _ \<Rightarrow> returns ''config_unavailable''
      | Inr c \<Rightarrow>
          if \<not> c_SharedAppServerRequested c then returns ''preference_disabled''
          else binds (both (reads (\<lambda>m. stored_availability m \<noteq> JsonMissing)) (binds (succeeds w) (\<lambda>ok. returns (\<not> ok)))) (\<lambda>unreadable.
          if unreadable then returns ''availability_unreadable''
          else binds (reads stored_availability) (\<lambda>file.
          if (case file of JsonContent (Some a) \<Rightarrow> \<not> av_AutomaticRecoveryAllowed a | JsonContent None \<Rightarrow> True | _ \<Rightarrow> False)
          then returns ''manual_recovery_required''
          else binds (caught (update_asking w (wish_kept w))) (\<lambda>r.
          case r of Inl _ \<Rightarrow> returns ''recovery_cancelled'' | Inr c \<Rightarrow> prepare_server w c)))))) "

text \<open>\<open>None\<close>: there was no request to answer.\<close>

definition shared_recovery :: "windows \<Rightarrow> bool \<Rightarrow> gotime \<Rightarrow> string option act" where
  "shared_recovery w busy now = binds (reads mc_request) (\<lambda>file.
     case file of
       None \<Rightarrow> returns None
     | Some (bytes, contents) \<Rightarrow>
         binds (succeeds w) (\<lambda>ok.
         if bytes > 4096
         then binds (if ok then changes (\<lambda>m. m\<lparr>mc_request := None\<rparr>) else returns ()) (\<lambda>_. returns None)
         else if \<not> ok then returns None
         else binds (changes (\<lambda>m. m\<lparr>mc_request := None\<rparr>)) (\<lambda>_.
         case contents of
           None \<Rightarrow> returns None
         | Some request \<Rightarrow>
             if \<not> sharedRecoveryID (rr_ID request) then returns None
             else binds (recovery_reason w busy (rr_ExpiresAt request) now) (\<lambda>reason.
                  binds (succeeds w) (\<lambda>ok.
                  binds (if ok then changes (\<lambda>m. m\<lparr>mc_result := Some (rr_ID request, reason)\<rparr>) else returns ()) (\<lambda>_.
                  returns (Some reason)))))))"

text \<open>With the daemon: after a preparation it reloads the configuration and probes at once.\<close>

definition processSharedRecovery ::
    "windows \<Rightarrow> string list \<Rightarrow> gotime \<Rightarrow> (daemon \<times> machine) \<Rightarrow> (daemon \<times> machine)" where
  "processSharedRecovery w ks now s =
     (case s of (d, m) \<Rightarrow>
        (case shared_recovery w (d_active d \<noteq> []) now m of
           (Inr (Some reason), m') \<Rightarrow>
             if reason \<noteq> ''prepared'' then (d, m')
             else (case on_dir (loadOrCreateConfig (wn_mgmt w)) m' of (r, m') \<Rightarrow>
               ((reloadConfigLocked (case r of Inl _ \<Rightarrow> Inl ''config'' | Inr c \<Rightarrow> Inr c) now ks d)\<lparr>d_lastControllerProbe := 0\<rparr>, m'))
         | (_, m') \<Rightarrow> (d, m')))"

end
