(* ===== verification/Worker_Start.thy ===== *)
theory Worker_Start
  imports Shared_Recovery Daemon
begin

section \<open>The start of the worker (main.go)\<close>

text \<open>
  What \<open>main\<close> does between the lock of the instance and the run of the daemon: the configuration,
  a fail-open that was interrupted, the cleanup of a disabled shared server, the gate, the preparation
  of the controller, and the daemon with its first controller state. The preparation
  (\<open>runner.Prepare\<close>), the question whether there are sessions to watch and the order of the threads
  are parameters. A marker that cannot be examined counts as absent. The log is left out.
\<close>

record worker_world =
  ww_Prepare :: "Config \<Rightarrow> unit act"
  ww_HasRoots :: "Config \<Rightarrow> machine \<Rightarrow> bool"
  ww_Keys :: "string list"

text \<open>A stage either ends the start or goes on with a configuration and the reason of a fail-open.\<close>

type_synonym stage = "(Config \<times> string) option"

definition go_on :: "startupFailOpenResult \<Rightarrow> string \<Rightarrow> stage" where
  "go_on r reason = (if sf_CanContinue r then Some (sf_Config r, reason) else None)"

definition interrupted_fail_open :: "windows \<Rightarrow> Config \<Rightarrow> stage act" where
  "interrupted_fail_open w c =
     binds (reads (\<lambda>m. sharedFailOpenMarkerName \<in> set (dd_markers (mc_dir m)))) (\<lambda>marked.
     if \<not> marked then returns (Some (c, []))
     else binds (completeStartupFailOpen w c) (\<lambda>r.
          binds (if sf_CanContinue r \<and> sf_CleanupErr r = None then remove_file w sharedFailOpenMarkerName else returns ()) (\<lambda>_.
          returns (go_on r ''shared_app_server_startup_recovery''))))"

definition cleanup_if_disabled :: "windows \<Rightarrow> Config \<Rightarrow> unit act" where
  "cleanup_if_disabled w c =
     (if c_SharedAppServerEnabled c then returns ()
      else binds (caught (with_manager (newSharedServerManager w c) (CleanupIfUnused w))) (\<lambda>_. returns ()))"

definition gate :: "windows \<Rightarrow> Config \<Rightarrow> string \<Rightarrow> stage act" where
  "gate w c reason =
     (if \<not> c_SharedAppServerEnabled c then returns (Some (c, reason))
      else binds (prepareSharedBackendAtStartup w c) (\<lambda>r.
           returns (if sf_Reason r = [] then Some (c, reason) else go_on r (sf_Reason r))))"

definition prepare_controller :: "worker_world \<Rightarrow> Config \<Rightarrow> go_error option act" where
  "prepare_controller ww c = binds (reads (ww_HasRoots ww c)) (\<lambda>roots.
     if c_SharedAppServerEnabled c \<or> roots then outcome (ww_Prepare ww c) else returns None)"

definition after_preparation :: "windows \<Rightarrow> Config \<Rightarrow> string \<Rightarrow> go_error option \<Rightarrow> stage act" where
  "after_preparation w c reason prepareErr =
     (let prepareReason = controllerFailureReason zero_DispatchResult prepareErr
      in if c_SharedAppServerEnabled c \<and> prepareErr \<noteq> None \<and> controllerFailureNeedsFailOpen prepareReason
         then binds (completeStartupFailOpen w c) (\<lambda>r. returns (go_on r prepareReason))
         else returns (Some (c, reason)))"

text \<open>The controller state and the last error of the new daemon.\<close>

definition first_state :: "Config \<Rightarrow> string \<Rightarrow> go_error option \<Rightarrow> daemon \<Rightarrow> daemon" where
  "first_state c reason prepareErr d =
     (if \<not> c_SharedAppServerEnabled c
      then (if reason \<noteq> [] then d\<lparr>d_controllerState := reason, d_lastError := reason\<rparr>
            else d\<lparr>d_controllerState := ''shared_app_server_disabled''\<rparr>)
      else if prepareErr \<noteq> None
      then (let prepareReason = controllerFailureReason zero_DispatchResult prepareErr
            in d\<lparr>d_controllerState := prepareReason, d_lastError := prepareReason\<rparr>)
      else d\<lparr>d_controllerState := ''ready''\<rparr>)"

text \<open>\<open>newDaemon\<close> writes the configuration if the file is gone, and fails if a file cannot be loaded.\<close>

definition load_daemon :: "windows \<Rightarrow> worker_world \<Rightarrow> Config \<Rightarrow> daemon option act" where
  "load_daemon w ww c =
     binds (reads (\<lambda>m. dd_config (mc_dir m) = FileMissing)) (\<lambda>missing.
     binds (if missing then outcome (update_asking w (\<lambda>_. returns c)) else returns None) (\<lambda>err.
     if err \<noteq> None then returns None
     else binds (caught (on_dir (load_state (wn_mgmt w)))) (\<lambda>state. case state of Inl _ \<Rightarrow> returns None | Inr st \<Rightarrow>
          binds (caught (on_dir (load_control (wn_mgmt w)))) (\<lambda>control. case control of Inl _ \<Rightarrow> returns None | Inr control \<Rightarrow>
          binds (clock w) (\<lambda>startedAt. binds (clock w) (\<lambda>now.
          returns (Some (newDaemon c st (cs_Paused control) startedAt now (ww_Keys ww)))))))))"

text \<open>\<open>None\<close>: the worker ends without running.\<close>

definition start_worker :: "windows \<Rightarrow> worker_world \<Rightarrow> daemon option act" where
  "start_worker w ww = binds (caught (on_dir (loadOrCreateConfig (wn_mgmt w)))) (\<lambda>r.
     case r of
       Inl _ \<Rightarrow> binds (caught (cleanupSharedBackend w)) (\<lambda>_. returns None)
     | Inr c \<Rightarrow>
         binds (interrupted_fail_open w c) (\<lambda>s. case s of None \<Rightarrow> returns None | Some (c, reason) \<Rightarrow>
         binds (cleanup_if_disabled w c) (\<lambda>_.
         binds (gate w c reason) (\<lambda>s. case s of None \<Rightarrow> returns None | Some (c, reason) \<Rightarrow>
         binds (prepare_controller ww c) (\<lambda>prepareErr.
         binds (after_preparation w c reason prepareErr) (\<lambda>s. case s of None \<Rightarrow> returns None | Some (c, reason) \<Rightarrow>
         binds (load_daemon w ww c) (\<lambda>d.
         returns (map_option (first_state c reason prepareErr) d))))))))"

end
