(* ===== verification/Shared_Invariants.thy ===== *)
theory Shared_Invariants
  imports Shared_Recovery Management_Lemmas
begin

section \<open>Invariants of the shared server\<close>

text \<open>
  The operations on the shared server are long and touch the machine through few hands: the files
  of the watchdog, the restoring of the route, and the three places that end a process. The locale
  states what a predicate has to survive there; then every operation keeps it.
\<close>

lemma keeps_asks:
  assumes "\<And>m x. P m \<Longrightarrow> P (m\<lparr>mc_log := h x # mc_log m\<rparr>)"
  shows "keeps P (asks f h)"
  using assms by (simp add: keeps_def asks_def Let_def)

lemma keeps_changes: "(\<And>m. P m \<Longrightarrow> P (f m)) \<Longrightarrow> keeps P (changes f)"
  by (simp add: keeps_def changes_def)

lemma keeps_state_read:
  "keeps P a \<Longrightarrow> keeps P b \<Longrightarrow> (\<And>st. keeps P (f st)) \<Longrightarrow>
   keeps P (case r of stateMissing \<Rightarrow> a | stateBad \<Rightarrow> b | stateRead st \<Rightarrow> f st)"
  by (cases r) auto

lemma keeps_json_file:
  "keeps P a \<Longrightarrow> keeps P b \<Longrightarrow> (\<And>x. keeps P (f x)) \<Longrightarrow>
   keeps P (case r of JsonMissing \<Rightarrow> a | JsonUnreadable \<Rightarrow> b | JsonContent x \<Rightarrow> f x)"
  by (cases r) auto

definition ends_process :: "happening \<Rightarrow> bool" where
  "ends_process h \<longleftrightarrow> (case h of hpTerminate _ _ \<Rightarrow> True | _ \<Rightarrow> False)"

lemma ends_process_simps [simp]:
  "\<not> ends_process (hpDesktop a)" "\<not> ends_process (hpAlive p a)" "\<not> ends_process (hpInfo st i)"
  "\<not> ends_process (hpSpawn e args pid)" "\<not> ends_process (hpProbe e a)" "\<not> ends_process (hpDial p a)"
  "\<not> ends_process (hpPort p s)" "\<not> ends_process (hpHash e e')" "\<not> ends_process (hpFile e a)"
  "\<not> ends_process (hpFound f)" "\<not> ends_process (hpOverride v)" "\<not> ends_process (hpCancelled a)"
  "\<not> ends_process (hpDone a)" "\<not> ends_process (hpClock t)" "\<not> ends_process (hpRounds n)"
  "\<not> ends_process (hpMemory p n')" "ends_process (hpTerminate p a)"
  by (simp_all add: ends_process_def)

locale shared_invariant =
  fixes w :: windows and P :: "machine \<Rightarrow> bool"
  assumes harmless: "P m \<Longrightarrow> \<not> ends_process h \<Longrightarrow> P (m\<lparr>mc_log := h # mc_log m\<rparr>)"
    and manager [simp]: "P (m\<lparr>mc_mgr := mgr\<rparr>) = P m"
    and directory [simp]: "P (m\<lparr>mc_dir := d\<rparr>) = P m"
    and state_file [simp]: "P (m\<lparr>mc_state := s\<rparr>) = P m"
    and availability_file [simp]: "P (m\<lparr>mc_availability := a\<rparr>) = P m"
    and request_file [simp]: "P (m\<lparr>mc_request := q\<rparr>) = P m"
    and result_file [simp]: "P (m\<lparr>mc_result := r\<rparr>) = P m"
    and restores: "keeps P (restoreOwnedSharedEnvironment w legacy)"
    and stops: "keeps P (StopOwned w)"
    and starts: "keeps P (start_server w executable)"
    and replaces: "keeps P (migrateLegacyLaunch w)"
begin

lemma asking: "(\<And>x. \<not> ends_process (h x)) \<Longrightarrow> keeps P (asks f h)"
  by (rule keeps_asks) (simp add: harmless)

lemma changing: "(\<And>m. P (f m) = P m) \<Longrightarrow> keeps P (changes f)"
  by (rule keeps_changes) simp

lemma dir_keeps: "keeps P (on_dir f)"
  by (rule keeps_on_dir) simp

lemma manager_keeps: "keeps P a \<Longrightarrow> keeps P (with_manager mgr a)"
  by (rule keeps_with_manager) simp_all

lemmas basic = keeps_rules asking changing dir_keeps manager_keeps

lemma questions:
  "keeps P (desktopIsRunning w)" "keeps P (processIsRunning w pid)" "keeps P (executableHash w e)"
  "keeps P (is_file w e)" "keeps P (cancelled w)" "keeps P (succeeds w)" "keeps P (clock w)"
  "keeps P (rounds w)" "keeps P (dial w port)" "keeps P (probe w e)" "keeps P (ownsProcess w st)"
  "keeps P (loadCodexAppMCPOverride w)"
  unfolding desktopIsRunning_def processIsRunning_def executableHash_def is_file_def cancelled_def
    succeeds_def clock_def rounds_def dial_def probe_def ownsProcess_def loadCodexAppMCPOverride_def
  by (intro basic; simp)+

lemma files:
  "keeps P (write_state w st)" "keeps P (remove_file w name)" "keeps P (load_locked w)"
  "keeps P (write_marker w name (\<lambda>m. m\<lparr>mc_availability := a\<rparr>))" "keeps P (write_marker w name id)"
  "keeps P (recordSharedUnavailable w reason)"
  unfolding write_state_def remove_file_def load_locked_def write_marker_def recordSharedUnavailable_def
  by (intro basic questions; simp add: set_marker_def)+

lemma environment:
  "keeps P (readUserEnvironment w name)" "keeps P (nonemptySharedEnvironmentPresent w)"
  unfolding readUserEnvironment_def nonemptySharedEnvironmentPresent_def
  by (intro basic questions)+

lemma ownership:
  "keeps P (sharedServerStateOwnedForCleanup w st)" "keeps P (sharedServerStateOwnedByPlugin w st)"
  "keeps P (adoptSharedServerState w st)"
  unfolding sharedServerStateOwnedForCleanup_def sharedServerStateOwnedByPlugin_def adoptSharedServerState_def
  by (intro basic questions files)+

lemmas steps = basic questions files environment ownership keeps_state_read keeps_json_file
  restores stops starts replaces

lemma evidence:
  "keeps P (ownedEnvironmentBackupMatchesCurrent w)" "keeps P (owned_state w)"
  "keeps P (hasOwnedCleanupArtifacts w)" "keeps P (shouldDeferStopForDesktop w)"
  "keeps P (ownedLegacyEndpoints w)" "keeps P (restore_route w)"
proof -
  show a: "keeps P (ownedEnvironmentBackupMatchesCurrent w)" "keeps P (owned_state w)"
    unfolding ownedEnvironmentBackupMatchesCurrent_def owned_state_def by (intro steps)+
  show "keeps P (hasOwnedCleanupArtifacts w)" "keeps P (shouldDeferStopForDesktop w)"
    unfolding hasOwnedCleanupArtifacts_def shouldDeferStopForDesktop_def by (intro steps a)+
  show b: "keeps P (ownedLegacyEndpoints w)"
    unfolding ownedLegacyEndpoints_def by (intro steps a)
  show "keeps P (restore_route w)"
    unfolding restore_route_def by (intro steps b)
qed

lemma cleanup_keeps:
  "keeps P (CleanupIfUnused w)" "keeps P (cleanupSharedServer w)" "keeps P (disableSharedAppServer w c)"
proof -
  show a: "keeps P (CleanupIfUnused w)" unfolding CleanupIfUnused_def by (intro steps evidence)
  show "keeps P (cleanupSharedServer w)" "keeps P (disableSharedAppServer w c)"
    unfolding cleanupSharedServer_def disableSharedAppServer_def by (intro steps a)+
qed

lemma ports:
  "keeps P (checkSharedServerPort w port)" "keeps P (selectAvailableSharedServerPort w port)"
  "keeps P (updateConfiguredPort w port)" "keeps P (selectAlternatePort w)"
proof -
  show a: "keeps P (checkSharedServerPort w port)" for port
    unfolding checkSharedServerPort_def by (intro steps; simp)
  have t: "keeps P (try_ports w port n)" for port n
    by (induction n) (simp_all only: try_ports.simps, (intro steps a | assumption)+)
  show b: "keeps P (selectAvailableSharedServerPort w port)" for port
    unfolding selectAvailableSharedServerPort_def by (intro steps t)
  show c: "keeps P (updateConfiguredPort w port)" for port
    unfolding updateConfiguredPort_def by (intro steps; simp add: use_port_def)
  show "keeps P (selectAlternatePort w)"
    unfolding selectAlternatePort_def by (intro steps b c)
qed

lemma probes: "keeps P (probe_own w)" "keeps P (plugin_process w r)" "keeps P (claims_endpoint w r)"
  unfolding probe_own_def plugin_process_def claims_endpoint_def by (intro steps)+

lemma adoption:
  "keeps P (healthy desired st)" "keeps P a \<Longrightarrow> keeps P (after_adoption w st a)" "keeps P (other_port w r)"
  unfolding healthy_def after_adoption_def other_port_def scheduleLaunchMigration_def
  by (intro steps ports probes; simp)+

lemma waiting: "keeps P (await_handshake w n)" "keeps P (await_server w n)" "keeps P (launch w)"
proof -
  show "keeps P (await_handshake w n)"
    by (induction n) (simp_all only: await_handshake.simps, (intro steps probes | assumption)+)
  have f: "keeps P (clean_and_fail w e)" for e
    unfolding clean_and_fail_def by (intro steps cleanup_keeps)
  show a: "keeps P (await_server w n)" for n
    by (induction n) (simp_all only: await_server.simps, (intro steps probes f | assumption)+)
  show "keeps P (launch w)"
    unfolding launch_def by (intro steps a; simp)
qed

lemma ensure_keeps: "keeps P (Ensure w)"
proof -
  have a: "keeps P (ensure_recorded w desired)" for desired
    unfolding ensure_recorded_def by (intro steps probes adoption ports)
  have b: "keeps P (ensure_answering w desired)" for desired
    unfolding ensure_answering_def by (intro steps probes adoption)
  have c: "keeps P (ensure_listening w desired)" for desired
    unfolding ensure_listening_def by (intro steps probes adoption waiting)
  have d: "keeps P (ensure_port w)"
    unfolding ensure_port_def by (intro steps ports)
  have e: "keeps P refreshConfiguredPort"
    unfolding refreshConfiguredPort_def by (rule changing) (simp add: use_port_def split: option.splits)
  show ?thesis
    unfolding Ensure_def by (intro steps a b c d e waiting)
qed

lemma enable_keeps: "keeps P (enableSharedAppServer w c)"
proof -
  have a: "keeps P (ValidateOwned w)" unfolding ValidateOwned_def by (intro steps)
  have b: "keeps P (EnsureOwnedEnvironment w)" unfolding EnsureOwnedEnvironment_def by (intro steps evidence)
  show ?thesis unfolding enableSharedAppServer_def by (intro steps ensure_keeps a b cleanup_keeps)
qed

lemma fail_open_keeps:
  "keeps P (failOpenSharedBackendCleanup w c)" "keeps P (failOpenSharedAppServer w c)"
  "keeps P (cleanupSharedBackend w)" "keeps P (FailOpenSharedBackend w)"
  "keeps P (ReconcileSharedBackendCleanup w)"
proof -
  show a: "keeps P (failOpenSharedBackendCleanup w c)" for c
    unfolding failOpenSharedBackendCleanup_def by (intro steps evidence)
  have b: "keeps P (persist_disabled w c)" for c
    unfolding persist_disabled_def by (intro steps)
  show d: "keeps P (failOpenSharedAppServer w c)" for c
    unfolding failOpenSharedAppServer_def by (intro steps a b)
  have e: "keeps P (cleanupSharedBackendWithoutConfig w)"
    unfolding cleanupSharedBackendWithoutConfig_def by (intro steps cleanup_keeps)
  show f: "keeps P (cleanupSharedBackend w)"
    unfolding cleanupSharedBackend_def by (intro steps cleanup_keeps e)
  show "keeps P (FailOpenSharedBackend w)" "keeps P (ReconcileSharedBackendCleanup w)"
    unfolding FailOpenSharedBackend_def ReconcileSharedBackendCleanup_def by (intro steps f d)+
qed

lemma startup_keeps: "keeps P (checkSharedServerStartupState w)" "keeps P (prepareSharedBackendAtStartup w c)"
proof -
  have a: "keeps P (unless_route w s)" for s unfolding unless_route_def by (intro steps)
  show b: "keeps P (checkSharedServerStartupState w)"
    unfolding checkSharedServerStartupState_def unavailable_def by (intro steps a evidence)
  have d: "keeps P (completeStartupFailOpen w c)" for c
    unfolding completeStartupFailOpen_def by (intro steps fail_open_keeps)
  show "keeps P (prepareSharedBackendAtStartup w c)"
    unfolding prepareSharedBackendAtStartup_def by (intro steps b d)
qed

lemma recovery_keeps: "keeps P (shared_recovery w busy now)"
proof -
  have a: "(\<And>c. keeps P (f c)) \<Longrightarrow> keeps P (update_asking w f)" for f
    unfolding update_asking_def by (intro steps)
  have b: "keeps P (wish_kept w c)" "keeps P (confirm_prepared w port c)" for c port
    unfolding wish_kept_def confirm_prepared_def by (intro steps)+
  have c: "keeps P (prepare_server w c)" for c
    unfolding prepare_server_def by (intro steps fail_open_keeps enable_keeps cleanup_keeps a b)
  have d: "keeps P (recovery_reason w busy e now)" for e
    unfolding recovery_reason_def by (intro steps a b c)
  show ?thesis
    unfolding shared_recovery_def by (intro steps d; simp)
qed

end

end
