(* ===== verification/Shared_Properties.thy ===== *)
theory Shared_Properties
  imports Shared_Invariants
begin

section \<open>What holds of the shared server\<close>

subsection \<open>Processes are ended only when they are proven to be ours\<close>

text \<open>
  The log is newest first. \<open>unused\<close>: at the last report the Desktop was not running, or the process
  was reported gone since. A termination is justified if the entry before it is a query that
  matches a record for that process, with the process unused, or if the process was started
  just before and its record could not be written.
\<close>

fun unused :: "int \<Rightarrow> happenings \<Rightarrow> bool" where
  "unused pid [] = False"
| "unused pid (h # l) =
     (case h of
        hpDesktop running \<Rightarrow> \<not> running
      | hpAlive p alive \<Rightarrow> (p = pid \<and> \<not> alive) \<or> unused pid l
      | _ \<Rightarrow> unused pid l)"

definition proven :: "windows \<Rightarrow> int \<Rightarrow> happenings \<Rightarrow> bool" where
  "proven w pid l \<longleftrightarrow>
     (case l of
        hpInfo st (Some p) # l' \<Rightarrow> ss_PID st = pid \<and> process_matches w st p \<and> unused pid l'
      | hpDone written # hpClock _ # hpSpawn _ _ (Some pid') # _ \<Rightarrow> \<not> written \<and> pid' = pid
      | _ \<Rightarrow> False)"

fun justified :: "windows \<Rightarrow> happenings \<Rightarrow> bool" where
  "justified w [] = True"
| "justified w (h # l) = ((case h of hpTerminate pid _ \<Rightarrow> proven w pid l | _ \<Rightarrow> True) \<and> justified w l)"

lemma justified_harmless: "justified w l \<Longrightarrow> \<not> ends_process h \<Longrightarrow> justified w (h # l)"
  by (cases h) auto

lemmas act_defs = returns_def fails_def binds_def caught_def reads_def changes_def asks_def both_def
  outcome_def raises_def with_manager_def desktopIsRunning_def processIsRunning_def terminateProcessTree_def
  executableHash_def is_file_def succeeds_def clock_def ownsProcess_def Let_def

abbreviation (input) justified_log :: "windows \<Rightarrow> machine \<Rightarrow> bool" where
  "justified_log w m \<equiv> justified w (mc_log m)"

lemma asks_harmless: "(\<And>x. \<not> ends_process (h x)) \<Longrightarrow> keeps (justified_log w) (asks f h)"
  by (rule keeps_asks) (auto intro: justified_harmless simp del: justified.simps)

lemma cleanup_ownership_keeps: "keeps (justified_log w) (sharedServerStateOwnedForCleanup w st)"
  unfolding sharedServerStateOwnedForCleanup_def executableHash_def by (intro keeps_rules asks_harmless; simp)

lemma stop_process_justified:
  "keeps (justified_log w)
     (binds (both (desktopIsRunning w) (processIsRunning w (ss_PID st))) (\<lambda>in_use.
        if in_use then fails (Sentinel errSharedServerMigrationDeferred)
        else binds (processIsRunning w (ss_PID st)) (\<lambda>alive.
        if \<not> alive then remove_state w
        else if is_zero (ss_StartedAt st) then fails (Sentinel errSharedServerOwnershipUnknown)
        else binds (ownsProcess w st) (\<lambda>proven.
        if \<not> proven then fails (Sentinel errSharedServerOwnershipUnknown)
        else binds (terminateProcessTree w (ss_PID st)) (\<lambda>_. remove_state w)))))"
  by (rule keepsI) (auto simp: act_defs remove_state_def proven_def split: option.splits)

lemma stop_justified: "keeps (justified_log w) (StopOwned w)"
  unfolding StopOwned_def
  by (intro keeps_binds [OF keeps_reads] keeps_state_read keeps_returns
      keeps_binds [OF cleanup_ownership_keeps] keeps_if stop_process_justified)

lemma spawn_justified: "keeps (justified_log w) (start_server w executable)"
proof -
  have spawn: "keeps (justified_log w)
     (binds (asks f (hpSpawn executable arguments)) (\<lambda>pid.
       case pid of
         None \<Rightarrow> fails (OtherError ''start'')
       | Some pid \<Rightarrow>
           binds (clock w) (\<lambda>now.
           binds (outcome (write_state w (st pid now))) (\<lambda>err.
           case err of
             None \<Rightarrow> returns ()
           | Some e \<Rightarrow> binds (caught (terminateProcessTree w pid)) (\<lambda>_. fails e)))))" for f arguments st
    by (rule keepsI) (auto simp: act_defs write_state_def proven_def split: option.splits)
  show ?thesis
    unfolding start_server_def is_file_def executableHash_def loadCodexAppMCPOverride_def
    by (intro keeps_rules asks_harmless spawn; simp)
qed

lemma replace_step:
  assumes "\<And>u. keeps (justified_log w) (R u)"
  shows "keeps (justified_log w)
     (binds (desktopIsRunning w) (\<lambda>desktop.
        if desktop then fails e
        else binds (probe_own w) (\<lambda>up.
        binds (if \<not> up then returns ()
               else binds (both (reads f) (ownsProcess w st)) (\<lambda>ours.
                    if \<not> ours then fails e' else terminateProcessTree w (ss_PID st))) R)))"
  by (rule keepsI)
    (auto simp: act_defs probe_own_def probe_def proven_def split: option.splits intro!: keepsD [OF assms])

lemma replace_justified: "keeps (justified_log w) (migrateLegacyLaunch w)"
proof -
  have closed: "keeps (justified_log w) (await_closed w port n)" for port n
    by (induction n) (simp_all only: await_closed.simps dial_def cancelled_def,
      (intro keeps_rules asks_harmless | assumption | simp)+)
  have restart: "keeps (justified_log w) (restart_with w e)" for e
    unfolding restart_with_def executableHash_def by (intro keeps_rules asks_harmless spawn_justified; simp)
  have rest: "keeps (justified_log w)
      (binds (reads manager_port) (\<lambda>port. binds (rounds w) (\<lambda>n. binds (await_closed w port n) (\<lambda>_.
       binds (dial w port) (\<lambda>open.
       if open then fails (Sentinel errSharedServerPortConflict)
       else binds (is_file w (ss_Executable st)) (\<lambda>file.
            if file then restart_with w (ss_Executable st)
            else binds (asks (wn_find w) hpFound) (\<lambda>executable.
              case executable of
                None \<Rightarrow> fails (OtherError ''Codex CLI executable was not found'')
              | Some path \<Rightarrow> restart_with w path)))))))" for st
    unfolding rounds_def dial_def is_file_def by (intro keeps_rules asks_harmless closed restart; simp)
  show ?thesis
    unfolding migrateLegacyLaunch_def loadCodexAppMCPOverride_def
    by (intro keeps_binds [OF keeps_reads] keeps_state_read keeps_rules asks_harmless replace_step rest; simp)
qed

lemma restore_justified: "keeps (justified_log w) (restoreOwnedSharedEnvironment w legacy)"
proof -
  have change: "keeps (justified_log w) (changes f)" if "\<And>m. mc_log (f m) = mc_log m" for f
    using that by (simp add: keeps_changes)
  have "keeps (justified_log w) (readUserEnvironment w name)"
    "keeps (justified_log w) (restoreUserEnvironment w name v b)" "keeps (justified_log w) (put_backup_back w backup)"
    for name v b backup
    unfolding readUserEnvironment_def restoreUserEnvironment_def put_backup_back_def succeeds_def
    by (intro keeps_rules asks_harmless change; simp)+
  then show ?thesis
    unfolding restoreOwnedSharedEnvironment_def retire_legacy_def restore_backup_def remove_backup_def
    by (intro keeps_rules keeps_json_file) auto
qed

interpretation ended: shared_invariant w "\<lambda>m. justified w (mc_log m)" for w
  by unfold_locales
    (simp_all add: restore_justified stop_justified spawn_justified replace_justified justified_harmless del: justified.simps)

text \<open>
  C28: whatever the watchdog does with the shared server, enabling, disabling, cleaning up, failing open,
  starting up, recovering or replacing an old server, whatever the outcome and whatever the system
  answers: it ends a process only right after a query showed that the process matches the record it
  keeps of its server (start time, executable, command line and endpoint), with the Desktop not
  running or the process reported gone since; or it ends the process it has just started itself.
\<close>

theorem server_ended_only_if_proven:
  assumes "justified w (mc_log m)"
  shows "justified w (mc_log (snd (Ensure w m))) \<and>
    justified w (mc_log (snd (enableSharedAppServer w c m))) \<and>
    justified w (mc_log (snd (disableSharedAppServer w c m))) \<and>
    justified w (mc_log (snd (cleanupSharedBackend w m))) \<and>
    justified w (mc_log (snd (FailOpenSharedBackend w m))) \<and>
    justified w (mc_log (snd (ReconcileSharedBackendCleanup w m))) \<and>
    justified w (mc_log (snd (prepareSharedBackendAtStartup w c m))) \<and>
    justified w (mc_log (snd (shared_recovery w busy now m))) \<and>
    justified w (mc_log (snd (migrateLegacyLaunch w m)))"
  by (intro conjI) (fact keepsD [OF ended.ensure_keeps assms]
    keepsD [OF ended.enable_keeps assms]
    keepsD [OF ended.cleanup_keeps(3) assms]
    keepsD [OF ended.fail_open_keeps(3) assms]
    keepsD [OF ended.fail_open_keeps(4) assms]
    keepsD [OF ended.fail_open_keeps(5) assms]
    keepsD [OF ended.startup_keeps(2) assms]
    keepsD [OF ended.recovery_keeps assms]
    keepsD [OF replace_justified assms])+

text \<open>A running server of ours, and a machine without the Desktop whose route leads to it.\<close>

definition sample_server :: sharedServerState where
  "sample_server =
     \<lparr>ss_PID = 42, ss_Endpoint = loopback_endpoint 4321, ss_CodexHome = ''C:/u'', ss_Executable = ''C:/x'',
      ss_ExecutableHash = ''ab'', ss_MCPConfigHash = [], ss_Owner = sharedServerOwner, ss_Version = ''1'',
      ss_StartedAt = 1000, ss_LaunchMode = sharedServerLaunchMode\<rparr>"

definition sample_process :: process_info where
  "sample_process =
     \<lparr>pr_ExecutablePath = ''C:/x'', pr_CommandLine = ''app-server'' @ loopback_endpoint 4321, pr_CreationDate = ''t''\<rparr>"

definition sample_windows :: windows where
  "sample_windows =
     \<lparr>wn_mgmt = sample_mgmt, wn_name = productionEnvironmentName, wn_home = ''C:/u'', wn_expand = id,
      wn_parse_time = (\<lambda>_. Some 1000), wn_desktop = (\<lambda>_. False), wn_alive = (\<lambda>_ pid. pid = 42),
      wn_info = (\<lambda>_ pid. Some sample_process), wn_terminate = (\<lambda>_ _. True), wn_spawn = (\<lambda>_ _ _. Some 42),
      wn_probe = (\<lambda>_ _. True), wn_dial = (\<lambda>_ _. False), wn_port = (\<lambda>_ _. portFree), wn_hash = (\<lambda>_ _. ''ab''),
      wn_file = (\<lambda>_ _. True), wn_find = (\<lambda>_. Some ''C:/x''), wn_override = (\<lambda>_. Some ([], [])),
      wn_cancelled = (\<lambda>_. False), wn_ok = (\<lambda>_. True), wn_clock = (\<lambda>_. 1000), wn_patience = (\<lambda>_. 3),
      wn_memory = (\<lambda>_ _. Some 5), wn_meanwhile = (\<lambda>_ file. file)\<rparr>"

definition sample_machine :: "string option \<Rightarrow> machine" where
  "sample_machine route =
     \<lparr>mc_mgr = newSharedServerManager sample_windows defaultConfig, mc_dir = sample_dir,
      mc_state = JsonContent (Some sample_server), mc_backup = JsonMissing, mc_availability = None,
      mc_request = None, mc_result = None, mc_env = [productionEnvironmentName \<mapsto> the route], mc_log = []\<rparr>"

lemma sample_endpoint: "validSharedServerEndpoint (loopback_endpoint 4321) 4321" "endpointPort (loopback_endpoint 4321) = 4321"
  by (rule loopback_valid; simp)+

lemma sample_owned: "sharedServerStateOwnedForCleanup sample_windows sample_server m = (Inr True, m\<lparr>mc_log := hpHash ''C:/x'' ''ab'' # mc_log m\<rparr>)"
  by (simp add: sharedServerStateOwnedForCleanup_def sample_server_def sample_endpoint act_defs sample_windows_def
      filepath_IsAbs_def is_sep_def trim_space_def is_space_def byte_def)

lemma sample_matches: "process_matches sample_windows sample_server sample_process"
proof -
  have "contains_sub (to_lower (pr_CommandLine sample_process)) ''app-server''"
    "contains_sub (to_lower (pr_CommandLine sample_process)) (to_lower (ss_Endpoint sample_server))"
    unfolding contains_sub_sublist sample_process_def sample_server_def process_info.simps sharedServerState.simps to_lower_append
    by (simp_all add: to_lower_def lower_char_def byte_def sublist_append_leftI del: append_Cons append_Nil)
  moreover have "processCreationTimeMatches sample_windows (ss_StartedAt sample_server) (pr_CreationDate sample_process)"
    by (simp add: processCreationTimeMatches_def sample_windows_def sample_server_def sample_process_def
        sharedServerProcessStartTolerance_def trim_space_def is_space_def byte_def)
  ultimately show ?thesis
    by (simp add: process_matches_def) (simp add: sample_process_def sample_server_def equal_fold_def)
qed

lemma sample_proven: "ownsProcess sample_windows sample_server m =
    (Inr True, m\<lparr>mc_log := hpInfo sample_server (Some sample_process) # mc_log m\<rparr>)"
  using sample_matches by (simp add: ownsProcess_def binds_def asks_def returns_def Let_def sample_windows_def)

lemma sample_read: "mc_state m = JsonContent (Some sample_server) \<Longrightarrow> readState m = stateRead sample_server"
  by (simp add: readState_def) (simp add: sample_server_def loopback_endpoint_def)

lemma sample_answers [simp]:
  "wn_mgmt sample_windows = sample_mgmt" "wn_name sample_windows = productionEnvironmentName"
  "wn_parse_time sample_windows t = Some 1000" "wn_desktop sample_windows l = False"
  "wn_alive sample_windows l pid = (pid = 42)" "wn_info sample_windows l pid = Some sample_process"
  "wn_terminate sample_windows l pid = True" "wn_spawn sample_windows l e args = Some 42"
  "wn_probe sample_windows l e = True" "wn_dial sample_windows l port = False" "wn_port sample_windows l port = portFree"
  "wn_hash sample_windows l e = ''ab''" "wn_file sample_windows l e = True" "wn_find sample_windows l = Some ''C:/x''"
  "wn_override sample_windows l = Some ([], [])" "wn_cancelled sample_windows l = False" "wn_ok sample_windows l = True"
  "wn_clock sample_windows l = 1000" "wn_patience sample_windows l = 3" "wn_meanwhile sample_windows l f = f"
  by (simp_all add: sample_windows_def)

lemma sample_fields: "ss_PID sample_server = 42" "ss_StartedAt sample_server = 1000" "ss_Endpoint sample_server = loopback_endpoint 4321"
  by (simp_all add: sample_server_def)

lemma sample_owned_state: "mc_state m = JsonContent (Some sample_server) \<Longrightarrow>
    owned_state sample_windows m = (Inr (Some sample_server), m\<lparr>mc_log := hpHash ''C:/x'' ''ab'' # mc_log m\<rparr>)"
  using sample_owned by (simp add: owned_state_def binds_def reads_def sample_read returns_def)

lemma sample_stop:
  assumes "mc_state m = JsonContent (Some sample_server)"
  shows "hpTerminate 42 True \<in> set (mc_log (snd (StopOwned sample_windows m)))"
  using assms
  by (simp add: StopOwned_def binds_def reads_def sample_read sample_owned)
    (simp add: act_defs sample_fields sample_matches remove_state_def)

lemma sample_restore:
  assumes "mc_state m = JsonContent (Some sample_server)"
  shows "mc_state (snd (restore_route sample_windows m)) = JsonContent (Some sample_server)"
proof -
  have "keeps (\<lambda>m. mc_state m = JsonContent (Some sample_server)) (restore_route sample_windows)"
    unfolding restore_route_def ownedLegacyEndpoints_def owned_state_def sharedServerStateOwnedForCleanup_def
      restoreOwnedSharedEnvironment_def retire_legacy_def restore_backup_def remove_backup_def put_backup_back_def
      restoreUserEnvironment_def readUserEnvironment_def succeeds_def executableHash_def processIsRunning_def ownsProcess_def
    by (intro keeps_rules keeps_state_read keeps_json_file keeps_asks keeps_changes; simp)
  from keepsD [OF this, of m] assms show ?thesis by simp
qed

lemma run_asks: "binds (asks f h) k m = k (f (mc_log m)) (m\<lparr>mc_log := h (f (mc_log m)) # mc_log m\<rparr>)"
  by (simp add: binds_def asks_def Let_def)

lemma run_returns: "binds (returns x) k m = k x m"
  by (simp add: binds_def returns_def)

lemma run_nested: "binds (binds a f) k m = binds a (\<lambda>x. binds (f x) k) m"
  by (simp add: binds_def split: prod.splits sum.splits)

lemma run_known: "a m = (Inr x, m1) \<Longrightarrow> binds a k m = k x m1"
  by (simp add: binds_def)

lemmas runs = run_asks run_returns run_nested

text \<open>Two operations whose errors are joined: both run.\<close>

lemma joined_run:
  "snd (binds (outcome a) (\<lambda>e. binds (outcome b) (\<lambda>e'. raises (f e e'))) m) = snd (b (snd (a m)))"
  by (simp add: outcome_def binds_def caught_def returns_def raises_def fails_def split: prod.splits option.splits)

theorem server_ended_only_if_proven_witness:
  "let m = snd (disableSharedAppServer sample_windows defaultConfig (sample_machine (Some (loopback_endpoint 4321))))
   in justified sample_windows (mc_log m) \<and> hpTerminate 42 True \<in> set (mc_log m)"
proof -
  let ?m = "sample_machine (Some (loopback_endpoint 4321))"
  have "justified sample_windows (mc_log ?m)" by (simp add: sample_machine_def)
  note server_ended_only_if_proven [OF this, THEN conjunct2, THEN conjunct2, THEN conjunct1]
  moreover have "hpTerminate 42 True \<in> set (mc_log (snd (disableSharedAppServer sample_windows defaultConfig ?m)))"
  proof -
    let ?n = "?m\<lparr>mc_log := [hpDesktop False, hpHash ''C:/x'' ''ab'']\<rparr>"
    have st: "mc_state ?m = JsonContent (Some sample_server)" by (simp add: sample_machine_def)
    have mgr: "?m\<lparr>mc_mgr := newSharedServerManager sample_windows defaultConfig\<rparr> = ?m" by (simp add: sample_machine_def)
    have "hpTerminate 42 True \<in> set (mc_log (snd (StopOwned sample_windows (snd (restore_route sample_windows ?n)))))"
      using sample_restore [of ?n] st by (intro sample_stop) simp
    moreover have "CleanupIfUnused sample_windows ?m =
      binds (outcome (restore_route sample_windows)) (\<lambda>e. binds (outcome (StopOwned sample_windows))
        (\<lambda>e'. raises (join_errors e e'))) ?n"
      unfolding CleanupIfUnused_def hasOwnedCleanupArtifacts_def run_nested run_known [of "owned_state sample_windows", OF sample_owned_state [OF st]]
      by (simp add: shouldDeferStopForDesktop_def both_def desktopIsRunning_def runs) (simp add: sample_machine_def)
    ultimately have "hpTerminate 42 True \<in> set (mc_log (snd (CleanupIfUnused sample_windows ?m)))"
      by (simp only: joined_run)
    then show ?thesis
      by (cases "CleanupIfUnused sample_windows ?m") (simp add: disableSharedAppServer_def with_manager_def mgr)
  qed
  ultimately show ?thesis by (simp only: Let_def)
qed

subsection \<open>A route of the user stays\<close>

definition foreign_route :: "windows \<Rightarrow> string \<Rightarrow> machine \<Rightarrow> bool" where
  "foreign_route w v m \<longleftrightarrow>
     \<not> validSharedServerEndpoint v (endpointPort v) \<and> mc_env m (wn_name w) = Some v \<and>
     (case mc_backup m of
        JsonContent (Some b) \<Rightarrow> own_backup (wn_name w) b \<longrightarrow> be_InstalledValue b \<noteq> v
      | _ \<Rightarrow> True)"

lemma foreign_route_simps [simp]:
  "foreign_route w v (m\<lparr>mc_log := l\<rparr>) = foreign_route w v m"
  "foreign_route w v (m\<lparr>mc_mgr := mgr\<rparr>) = foreign_route w v m"
  "foreign_route w v (m\<lparr>mc_dir := d\<rparr>) = foreign_route w v m"
  "foreign_route w v (m\<lparr>mc_state := st\<rparr>) = foreign_route w v m"
  "foreign_route w v (m\<lparr>mc_availability := a\<rparr>) = foreign_route w v m"
  "foreign_route w v (m\<lparr>mc_request := q\<rparr>) = foreign_route w v m"
  "foreign_route w v (m\<lparr>mc_result := r\<rparr>) = foreign_route w v m"
  by (simp_all add: foreign_route_def)

lemma foreign_kept_by_questions:
  "keeps (foreign_route w v) (asks f h)" "keeps (foreign_route w v) (readUserEnvironment w name)"
  "keeps (foreign_route w v) (probe w e)"
  unfolding readUserEnvironment_def succeeds_def probe_def
  by (intro keeps_rules keeps_asks keeps_changes; simp)+

lemma foreign_kept_by_restore:
  "keeps (foreign_route w v) (restoreOwnedSharedEnvironment w legacy)"
proof (rule keepsI)
  fix m assume f: "foreign_route w v m"
  have "\<not> (list_ex (\<lambda>e. validSharedServerEndpoint e (endpointPort e) \<and> v = e) legacy)"
    using f by (auto simp: list_ex_iff foreign_route_def)
  then have a: "foreign_route w v (snd (retire_legacy w legacy m))"
    using f by (simp add: retire_legacy_def readUserEnvironment_def act_defs) (auto simp: foreign_route_def returns_def)
  have b: "foreign_route w v (snd (restore_backup w b legacy m))"
    if "mc_backup m = JsonContent (Some b)" "own_backup (wn_name w) b" for b
    using f that
    by (cases "previous_value b legacy")
      (auto simp: restore_backup_def remove_backup_def put_backup_back_def restoreUserEnvironment_def
        readUserEnvironment_def act_defs foreign_route_def)
  show "foreign_route w v (snd (restoreOwnedSharedEnvironment w legacy m))"
    using f a b
    by (auto simp: restoreOwnedSharedEnvironment_def binds_def reads_def fails_def split: json_file.split option.split)
qed

lemma foreign_kept_elsewhere:
  "keeps (foreign_route w v) (StopOwned w)" "keeps (foreign_route w v) (start_server w e)"
  "keeps (foreign_route w v) (migrateLegacyLaunch w)"
proof -
  note q = keeps_rules keeps_state_read foreign_kept_by_questions keeps_changes
  have w: "keeps (foreign_route w v) (write_state w st)" "keeps (foreign_route w v) (remove_state w)"
    "keeps (foreign_route w v) (terminateProcessTree w pid)" "keeps (foreign_route w v) (ownsProcess w st)" for st pid
    unfolding write_state_def remove_state_def succeeds_def terminateProcessTree_def ownsProcess_def
    by (intro q; simp)+
  show "keeps (foreign_route w v) (StopOwned w)"
    unfolding StopOwned_def sharedServerStateOwnedForCleanup_def executableHash_def desktopIsRunning_def processIsRunning_def
    by (intro q w)
  show s: "keeps (foreign_route w v) (start_server w e)" for e
    unfolding start_server_def is_file_def executableHash_def loadCodexAppMCPOverride_def clock_def
    by (intro q w)
  have r: "keeps (foreign_route w v) (restart_with w e)" for e
    unfolding restart_with_def executableHash_def by (intro q s)
  have c: "keeps (foreign_route w v) (await_closed w port n)" for port n
    by (induction n) (simp_all only: await_closed.simps dial_def cancelled_def, (intro q | assumption)+)
  show "keeps (foreign_route w v) (migrateLegacyLaunch w)"
    unfolding migrateLegacyLaunch_def loadCodexAppMCPOverride_def desktopIsRunning_def probe_own_def rounds_def dial_def is_file_def
    by (intro q w c r)
qed

interpretation route: shared_invariant w "foreign_route w v" for w v
  by unfold_locales (simp_all add: foreign_kept_by_restore foreign_kept_elsewhere)

lemma foreign_value:
  "keeps (foreign_route w v) a \<Longrightarrow> foreign_route w v m \<Longrightarrow> mc_env (snd (a m)) (wn_name w) = Some v"
proof -
  assume "keeps (foreign_route w v) a" "foreign_route w v m"
  then have "foreign_route w v (snd (a m))" unfolding keeps_def by simp
  then show ?thesis by (simp add: foreign_route_def)
qed



end
