(* ===== verification/Recovery_Properties.thy ===== *)
theory Recovery_Properties
  imports Shared_Properties
begin

section \<open>Bounds, fail-open and recovery of the shared server\<close>

subsection \<open>The window for the start of a process\<close>

text \<open>
  C34: a process counts as the recorded one when it was created within fifteen seconds of the recorded
  start, before or after. There is one exception: a creation time more than 292 years earlier
  saturates the difference, whose negation overflows to a negative number, and counts too.
\<close>

theorem start_time_window:
  assumes "wn_parse_time w (trim_space creationDate) = Some created" "trim_space creationDate \<noteq> []" "startedAt \<noteq> 0"
  shows "processCreationTimeMatches w startedAt creationDate \<longleftrightarrow>
    \<bar>created - startedAt\<bar> \<le> 15 * Second \<or> created - startedAt \<le> - (2 ^ 63)"
proof (cases "created - startedAt \<le> - (2 ^ 63)")
  case True
  then have "time_sub created startedAt = - (2 ^ 63)" by (simp add: time_sub_unfold)
  moreover have "i64 (2 ^ 63) = - (2 ^ 63)" by (simp add: i64_def)
  ultimately show ?thesis
    using assms True by (simp add: processCreationTimeMatches_def sharedServerProcessStartTolerance_def)
next
  case False
  then have "time_sub created startedAt = min (2 ^ 63 - 1) (created - startedAt)" by (auto simp: time_sub_unfold)
  moreover have "i64 (- (created - startedAt)) = - (created - startedAt)" if "created - startedAt < 0"
    using False that by (intro i64_id) auto
  ultimately show ?thesis
    using assms False
    by (auto simp: processCreationTimeMatches_def sharedServerProcessStartTolerance_def min_def abs_if split: if_splits)
qed

theorem start_time_window_witness:
  "processCreationTimeMatches sample_windows 1000 ''t'' \<and>
   (let w = sample_windows\<lparr>wn_parse_time := (\<lambda>_. Some 5)\<rparr>
    in processCreationTimeMatches w (2 ^ 63 + 5) ''t'' \<and> \<not> processCreationTimeMatches w (2 ^ 63 + 4) ''t'')"
proof -
  let ?w = "sample_windows\<lparr>wn_parse_time := (\<lambda>_. Some 5)\<rparr>"
  have t: "trim_space ''t'' \<noteq> []" by (simp add: trim_space_def is_space_def byte_def)
  have a: "wn_parse_time sample_windows (trim_space ''t'') = Some 1000" by simp
  have b: "wn_parse_time ?w (trim_space ''t'') = Some 5" by simp
  have "processCreationTimeMatches sample_windows 1000 ''t''"
    by (subst start_time_window [OF a t]) simp_all
  moreover have "processCreationTimeMatches ?w (2 ^ 63 + 5) ''t''"
    by (subst start_time_window [OF b t]) simp_all
  moreover have "\<not> processCreationTimeMatches ?w (2 ^ 63 + 4) ''t''"
    by (subst start_time_window [OF b t]) simp_all
  ultimately show ?thesis unfolding Let_def by blast
qed

subsection \<open>The scan for a port\<close>

lemma candidate_range: "1024 \<le> p \<Longrightarrow> p \<le> 65535 \<Longrightarrow> k \<le> 256 \<Longrightarrow> 1024 \<le> candidate_port p k \<and> candidate_port p k \<le> 65535"
  by (simp add: candidate_port_def Let_def)

text \<open>The entries of a scan that found the ports from offset \<open>k\<close> on in the states \<open>ss\<close>, newest first.\<close>

fun port_entries :: "int \<Rightarrow> nat \<Rightarrow> port_state list \<Rightarrow> happenings" where
  "port_entries p k [] = []"
| "port_entries p k (s # ss) = port_entries p (Suc k) ss @ [hpPort (candidate_port p k) s]"

lemma check_port_run:
  "outcome (checkSharedServerPort w port) m =
   (let s = wn_port w (mc_log m) port in (Inr (port_error s), m\<lparr>mc_log := hpPort port s # mc_log m\<rparr>))"
  by (cases "port_error (wn_port w (mc_log m) port)")
    (simp_all add: checkSharedServerPort_def outcome_def binds_def caught_def asks_def raises_def returns_def fails_def Let_def)

lemma port_error_free: "port_error s = None \<longleftrightarrow> s = portFree"
  by (cases s) (simp_all add: port_error_def)

lemma try_ports_run:
  assumes "try_ports w p n m = (r, m')" "n \<le> 257"
  shows "\<exists>ss. portFree \<notin> set ss \<and>
    (case r of
       Inl _ \<Rightarrow> length ss = n \<and> mc_log m' = port_entries p (257 - n) ss @ mc_log m
     | Inr port \<Rightarrow> length ss < n \<and> port = candidate_port p (257 - n + length ss) \<and>
         mc_log m' = hpPort port portFree # port_entries p (257 - n) ss @ mc_log m)"
  using assms
proof (induction n arbitrary: m)
  case 0
  then show ?case by (auto simp: fails_def intro!: exI [of _ "[]"])
next
  case (Suc n)
  let ?port = "candidate_port p (256 - n)" and ?s = "wn_port w (mc_log m) (candidate_port p (256 - n))"
  let ?m = "m\<lparr>mc_log := hpPort ?port ?s # mc_log m\<rparr>"
  have k: "257 - Suc n = 256 - n" by simp
  show ?case
  proof (cases "?s = portFree")
    case True
    then have "r = Inr ?port" "m' = ?m"
      using Suc.prems(1) by (simp_all add: binds_def check_port_run Let_def port_error_free returns_def)
    with True show ?thesis by (auto simp: k intro!: exI [of _ "[]"])
  next
    case False
    then have "try_ports w p n ?m = (r, m')"
      using Suc.prems(1) by (simp add: binds_def check_port_run Let_def port_error_free)
    from Suc.IH [OF this] Suc.prems(2) obtain ss where ss: "portFree \<notin> set ss"
      "case r of
         Inl _ \<Rightarrow> length ss = n \<and> mc_log m' = port_entries p (257 - n) ss @ mc_log ?m
       | Inr port \<Rightarrow> length ss < n \<and> port = candidate_port p (257 - n + length ss) \<and>
           mc_log m' = hpPort port portFree # port_entries p (257 - n) ss @ mc_log ?m" by auto
    have offset: "257 - n = Suc (256 - n)" using Suc.prems(2) by simp
    show ?thesis
      using ss False unfolding k by (intro exI [of _ "?s # ss"]) (auto simp: offset split: sum.splits)
  qed
qed

text \<open>
  The scan tries the configured port and then the next ones, at most 257 in all, going on at 1024
  after 65535, and takes the first free one; it fails only when it found none of them free. The
  port it returns is always one that a shared server may use.
\<close>

theorem port_scan_first_free:
  assumes "1024 \<le> p" "p \<le> 65535" "selectAvailableSharedServerPort w p m = (r, m')"
  shows "\<exists>ss. portFree \<notin> set ss \<and>
    (case r of
       Inl _ \<Rightarrow> length ss = 257 \<and> mc_log m' = port_entries p 0 ss @ mc_log m
     | Inr port \<Rightarrow> length ss \<le> 256 \<and> port = candidate_port p (length ss) \<and> 1024 \<le> port \<and> port \<le> 65535 \<and>
         mc_log m' = hpPort port portFree # port_entries p 0 ss @ mc_log m)"
proof -
  from assms have "try_ports w p 257 m = (r, m')" by (simp add: selectAvailableSharedServerPort_def del: try_ports.simps)
  from try_ports_run [OF this order_refl] obtain ss where "portFree \<notin> set ss"
    "case r of
       Inl _ \<Rightarrow> length ss = 257 \<and> mc_log m' = port_entries p 0 ss @ mc_log m
     | Inr port \<Rightarrow> length ss < 257 \<and> port = candidate_port p (length ss) \<and>
         mc_log m' = hpPort port portFree # port_entries p 0 ss @ mc_log m"
    unfolding diff_self_eq_0 add_0 by blast
  with candidate_range [OF assms(1,2)] show ?thesis
    by (intro exI [of _ ss]) (auto split: sum.splits)
qed

theorem port_scan_first_free_witness:
  "let w = sample_windows\<lparr>wn_port := (\<lambda>_ port. if port < 65536 \<and> 65534 < port then portReserved else portFree)\<rparr>
   in fst (selectAvailableSharedServerPort w 65535 (sample_machine None)) = Inr 1024"
proof -
  let ?w = "sample_windows\<lparr>wn_port := (\<lambda>_ port. if port < 65536 \<and> 65534 < port then portReserved else portFree)\<rparr>"
  let ?m = "sample_machine None"
  obtain r m' where run: "selectAvailableSharedServerPort ?w 65535 ?m = (r, m')" by fastforce
  have "257 = Suc (Suc 255)" by simp
  with run have r: "r = Inr 1024"
    by (simp only: selectAvailableSharedServerPort_def try_ports.simps)
      (simp add: binds_def check_port_run Let_def port_error_def returns_def candidate_port_def)
  from port_scan_first_free [OF _ _ run] r have "r = Inr (candidate_port 65535 1)"
    by (auto simp: candidate_port_def)
  with run show ?thesis by (simp add: candidate_port_def)
qed

subsection \<open>Fail-open\<close>

text \<open>What only asks, or only touches the record of the server, leaves everything else.\<close>

lemma quiet_keeps:
  assumes "\<And>m l. P (m\<lparr>mc_log := l\<rparr>) = P m" "\<And>m s. P (m\<lparr>mc_state := s\<rparr>) = P m"
  shows "keeps P (hasOwnedCleanupArtifacts w)" "keeps P (ownedLegacyEndpoints w)"
    "keeps P (nonemptySharedEnvironmentPresent w)" "keeps P (StopOwned w)"
proof -
  note q = keeps_rules keeps_state_read keeps_json_file keeps_asks keeps_changes
  note d = owned_state_def sharedServerStateOwnedForCleanup_def executableHash_def processIsRunning_def ownsProcess_def
    desktopIsRunning_def readUserEnvironment_def succeeds_def
  show "keeps P (hasOwnedCleanupArtifacts w)"
    unfolding hasOwnedCleanupArtifacts_def ownedEnvironmentBackupMatchesCurrent_def d by (intro q; simp add: assms)
  show "keeps P (ownedLegacyEndpoints w)"
    unfolding ownedLegacyEndpoints_def d by (intro q; simp add: assms)
  show "keeps P (nonemptySharedEnvironmentPresent w)"
    unfolding nonemptySharedEnvironmentPresent_def d by (intro q; simp add: assms)
  show "keeps P (StopOwned w)"
    unfolding StopOwned_def terminateProcessTree_def remove_state_def d by (intro q; simp add: assms)
qed

text \<open>The route after a restoring that explains what it left.\<close>

definition route_left :: "windows \<Rightarrow> sharedEnvironmentBackup json_file \<Rightarrow> machine \<Rightarrow> bool" where
  "route_left w backup m \<longleftrightarrow>
     (case mc_env m (wn_name w) of
        None \<Rightarrow> True
      | Some v \<Rightarrow> trim_space v = [] \<or>
          (\<exists>b. backup = JsonContent (Some b) \<and> own_backup (wn_name w) b \<and> v \<noteq> be_InstalledValue b))"

lemma previous_not_installed: "previous_value b legacy = Some v \<Longrightarrow> v \<noteq> be_InstalledValue b"
  by (auto simp: previous_value_def split: if_splits)

lemma restored_route:
  assumes "restoreOwnedSharedEnvironment w legacy m = (Inr r, m1)" "er_Restored r \<or> er_ChangedByUser r"
  shows "route_left w (mc_backup m) m1"
proof (cases "mc_backup m")
  case JsonMissing
  then show ?thesis
    using assms
    by (auto simp: restoreOwnedSharedEnvironment_def retire_legacy_def readUserEnvironment_def restoreUserEnvironment_def
        binds_Inr reads_def asks_def succeeds_def returns_def fails_def changes_def no_result_def route_left_def Let_def
        split: option.splits if_splits)
next
  case JsonUnreadable
  then show ?thesis using assms by (auto simp: restoreOwnedSharedEnvironment_def binds_Inr reads_def fails_def)
next
  case (JsonContent x)
  then obtain b where b: "mc_backup m = JsonContent (Some b)" "own_backup (wn_name w) b"
    "restore_backup w b legacy m = (Inr r, m1)"
    using assms by (auto simp: restoreOwnedSharedEnvironment_def binds_Inr reads_def fails_def split: option.splits if_splits)
  let ?target = "previous_value b legacy"
  obtain m2 where read: "readUserEnvironment w (wn_name w) m = (Inr (mc_env m (wn_name w)), m2)" "mc_env m2 = mc_env m"
    using b(3) by (auto simp: restore_backup_def readUserEnvironment_def binds_Inr reads_def asks_def succeeds_def fails_def
        Let_def split: if_splits)
  let ?changed = "case mc_env m (wn_name w) of None \<Rightarrow> False | Some v \<Rightarrow> v \<noteq> be_InstalledValue b \<and> v \<noteq> value_of ?target"
  have gone: "mc_env (snd (remove_backup w n)) = mc_env n" for n
    by (simp add: remove_backup_def put_backup_back_def binds_def asks_def succeeds_def changes_def returns_def Let_def)
  from b(3) obtain m3 where m3: "mc_env m1 = mc_env m3"
    "(if \<not> ?changed \<and> mc_env m (wn_name w) \<noteq> Some (value_of ?target)
      then restoreUserEnvironment w (wn_name w) (value_of ?target) (?target \<noteq> None) else returns ()) m2 = (Inr (), m3)"
    unfolding restore_backup_def binds_Inr Let_def using read(1) gone
    by (auto simp: returns_def) (metis snd_conv)+
  show ?thesis
  proof (cases "\<not> ?changed \<and> mc_env m (wn_name w) \<noteq> Some (value_of ?target)")
    case True
    with m3 have "mc_env m1 (wn_name w) = ?target"
      by (cases ?target)
        (auto simp: restoreUserEnvironment_def binds_Inr asks_def succeeds_def fails_def changes_def value_of_def Let_def split: if_splits)
    then show ?thesis
      using b(1,2) previous_not_installed by (auto simp: route_left_def split: option.splits)
  next
    case False
    with m3 read(2) have "mc_env m1 = mc_env m" by (auto simp: returns_def)
    with False b(1,2) show ?thesis
      using previous_not_installed [of b legacy]
      by (cases ?target; cases "mc_env m (wn_name w)") (auto simp: route_left_def value_of_def trim_space_Nil)
  qed
qed

lemma with_manager_run:
  "with_manager mgr a m = (r, m') \<longleftrightarrow> (\<exists>m1. a (m\<lparr>mc_mgr := mgr\<rparr>) = (r, m1) \<and> m' = m1\<lparr>mc_mgr := mc_mgr m\<rparr>)"
  by (auto simp: with_manager_def split: prod.splits)

lemma binds_caught: "binds (caught a) f m = f (fst (a m)) (snd (a m))"
  by (simp add: binds_def caught_def split: prod.splits)

lemma binds_outcome: "binds (outcome a) f m = f (case fst (a m) of Inl e \<Rightarrow> Some e | Inr _ \<Rightarrow> None) (snd (a m))"
  by (simp add: binds_def outcome_def caught_def returns_def split: prod.splits)

lemma raises_run: "raises e m = (case e of None \<Rightarrow> (Inr (), m) | Some err \<Rightarrow> (Inl err, m))"
  by (simp add: raises_def returns_def fails_def split: option.splits)

lemma has_artifacts_ok: "\<exists>b m1. hasOwnedCleanupArtifacts w m = (Inr b, m1)"
proof -
  have "\<exists>st m1. owned_state w m = (Inr st, m1)"
    by (simp add: owned_state_def sharedServerStateOwnedForCleanup_def executableHash_def binds_def reads_def asks_def returns_def
        Let_def split: state_read.splits)
  moreover have "\<exists>b m1. ownedEnvironmentBackupMatchesCurrent w m = (Inr b, m1)" for m
    by (simp add: ownedEnvironmentBackupMatchesCurrent_def binds_caught binds_def [of "reads _"] reads_def returns_def
        split: json_file.splits option.splits) (auto intro: exI [of _ False])
  ultimately show ?thesis by (fastforce simp: hasOwnedCleanupArtifacts_def binds_def returns_def)
qed

lemma nonempty_read:
  assumes "nonemptySharedEnvironmentPresent w m = (Inr b, m')"
  shows "mc_env m' = mc_env m \<and> (b \<longleftrightarrow> (\<exists>v. mc_env m (wn_name w) = Some v \<and> trim_space v \<noteq> []))"
  using assms
  by (auto simp: nonemptySharedEnvironmentPresent_def readUserEnvironment_def succeeds_def asks_def reads_def returns_def fails_def
      binds_Inr Let_def split: if_splits option.splits)

lemma join_plain: "join_errors (join_errors e (Some (conflict s))) e' \<noteq> None"
    "join_errors (join_errors e (Some (conflict s))) e' \<noteq> Some (Sentinel x)"
    "join_errors e e' = None \<longleftrightarrow> e = None \<and> e' = None"
  by (auto simp: join_errors_def conflict_def split: option.splits)

lemma cleanup_route:
  assumes "failOpenSharedBackendCleanup w c m = (r, m')" "r = Inr () \<or> r = Inl (Sentinel x)"
  shows "route_left w (mc_backup m) m'"
proof -
  let ?m0 = "m\<lparr>mc_mgr := newSharedServerManager w c\<rparr>"
  obtain ev m1 where ev: "hasOwnedCleanupArtifacts w ?m0 = (Inr ev, m1)" using has_artifacts_ok by blast
  obtain restored m2 where restored: "restore_route w m1 = (restored, m2)" by fastforce
  obtain left m3 where left: "nonemptySharedEnvironmentPresent w m2 = (left, m3)" by fastforce
  obtain pr m4 where stop: "StopOwned w m3 = (pr, m4)" by fastforce
  let ?P = "\<lambda>B E m. mc_backup m = B \<and> mc_env m = E"
  have keep: "mc_backup m1 = mc_backup m" "mc_env m4 = mc_env m3"
    using keepsD [OF quiet_keeps(1) [of "?P (mc_backup m) (mc_env m)" w], of ?m0] ev
      keepsD [OF quiet_keeps(4) [of "?P (mc_backup m3) (mc_env m3)" w], of m3] stop by auto
  let ?err = "case restored of Inl e \<Rightarrow> Some e | Inr _ \<Rightarrow> None"
  let ?explained = "case restored of Inl _ \<Rightarrow> False | Inr r \<Rightarrow> er_Restored r \<or> er_ChangedByUser r"
  let ?e = "case left of
      Inl _ \<Rightarrow> join_errors ?err (Some (conflict ''shared endpoint ownership could not be checked''))
    | Inr still \<Rightarrow> if still \<and> (?err \<noteq> None \<or> \<not> ev \<or> \<not> ?explained)
        then join_errors ?err (Some (conflict ''shared endpoint ownership is unknown'')) else ?err"
  have "failOpenSharedBackendCleanup w c m =
      (case join_errors ?e (case pr of Inl e \<Rightarrow> Some e | Inr _ \<Rightarrow> None) of None \<Rightarrow> Inr () | Some e \<Rightarrow> Inl e,
       m4\<lparr>mc_mgr := mc_mgr m\<rparr>)"
    unfolding failOpenSharedBackendCleanup_def with_manager_def binds_caught binds_outcome Let_def
      binds_def [of "hasOwnedCleanupArtifacts w"] ev restored left stop fst_conv snd_conv sum.case prod.case raises_run
    by (cases "join_errors ?e (case pr of Inl e \<Rightarrow> Some e | Inr _ \<Rightarrow> None)") simp_all
  then have env: "mc_env m' = mc_env m3"
    and r: "(case join_errors ?e (case pr of Inl e \<Rightarrow> Some e | Inr _ \<Rightarrow> None) of None \<Rightarrow> Inr () | Some e \<Rightarrow> Inl e) = r"
    using keep assms(1) by auto
  have same: "route_left w B m' = route_left w B m3" for B using env by (simp add: route_left_def)
  show ?thesis
  proof (cases left)
    case (Inl e)
    with r assms(2) show ?thesis using join_plain by (auto split: option.splits)
  next
    case (Inr still)
    note read = nonempty_read [OF left [unfolded Inr]]
    show ?thesis
    proof (cases still)
      case False
      with read same show ?thesis by (auto simp: route_left_def split: option.splits)
    next
      case True
      with r assms(2) Inr have ok: "\<not> (?err \<noteq> None \<or> \<not> ev \<or> \<not> ?explained)"
        using join_plain by (auto split: option.splits if_splits)
      then obtain res where res: "restored = Inr res" "er_Restored res \<or> er_ChangedByUser res"
        by (cases restored) auto
      obtain legacy n where n: "ownedLegacyEndpoints w m1 = (Inr legacy, n)" "restoreOwnedSharedEnvironment w legacy n = (Inr res, m2)"
        using restored res(1) by (auto simp: restore_route_def binds_Inr)
      have "mc_backup n = mc_backup m"
        using keepsD [OF quiet_keeps(2) [of "?P (mc_backup m1) (mc_env m1)" w], of m1] n(1) keep by auto
      with restored_route [OF n(2) res(2)] have "route_left w (mc_backup m) m2" by simp
      with read same show ?thesis by (simp add: route_left_def)
    qed
  qed
qed

text \<open>What happens to the configuration file on the way.\<close>

lemma on_dir_run: "on_dir f m = (r, m') \<Longrightarrow> \<exists>x d. f (mc_dir m) = (x, d) \<and> m' = m\<lparr>mc_dir := d\<rparr> \<and> (\<forall>y. r = Inr y \<longrightarrow> x = Inr y)"
  by (cases "f (mc_dir m)") (auto simp: on_dir_def split: sum.splits)

lemma write_config_run:
  "write_config w c d = (Inr x, d') \<Longrightarrow> x = c \<and> dd_config d' = config_bytes w c"
  by (auto simp: write_config_def andThen_def split: if_splits)

lemma persist_disabled_run:
  assumes "persist_disabled w c m = (Inr (c', None), m')"
  shows "validate c' = None \<and> \<not> c_SharedAppServerEnabled c' \<and> dd_config (mc_dir m') = config_bytes (wn_mgmt w) c' \<and>
    mc_env m' = mc_env m \<and> mc_backup m' = mc_backup m"
proof -
  obtain r m1 where load: "load_locked w m = (r, m1)" by fastforce
  obtain d where m1: "m1 = m\<lparr>mc_dir := d\<rparr>" using on_dir_run [OF load [unfolded load_locked_def]] by blast
  from assms load obtain latest where r: "r = Inr latest"
    by (cases r) (auto simp: persist_disabled_def binds_caught returns_def)
  let ?c = "latest\<lparr>c_SharedAppServerEnabled := False\<rparr>"
  obtain x m2 where written: "on_dir (write_config (wn_mgmt w) ?c) m1 = (x, m2)" by fastforce
  from assms load r written have ok: "validate ?c = None" "c' = ?c" "x = Inr (case x of Inr y \<Rightarrow> y | Inl _ \<Rightarrow> c)" "m' = m2"
    by (auto simp: persist_disabled_def binds_caught binds_outcome returns_def Let_def split: if_splits sum.splits)
  from on_dir_run [OF written] obtain y d' where "write_config (wn_mgmt w) ?c d = (Inr y, d')" "m2 = m1\<lparr>mc_dir := d'\<rparr>"
    using ok(3) m1 by fastforce
  with write_config_run have "dd_config d' = config_bytes (wn_mgmt w) ?c" by blast
  with ok m1 \<open>m2 = m1\<lparr>mc_dir := d'\<rparr>\<close> show ?thesis by simp
qed

lemma cleanup_keeps_dir: "keeps (\<lambda>m. mc_dir m = d) (failOpenSharedBackendCleanup w c)"
proof -
  have "keeps (\<lambda>m. mc_dir m = d) (restoreOwnedSharedEnvironment w legacy)" for legacy
    unfolding restoreOwnedSharedEnvironment_def retire_legacy_def restore_backup_def remove_backup_def put_backup_back_def
      restoreUserEnvironment_def readUserEnvironment_def succeeds_def
    by (intro keeps_rules keeps_json_file keeps_asks keeps_changes; simp)
  then show ?thesis
    unfolding failOpenSharedBackendCleanup_def restore_route_def
    by (intro keeps_with_manager keeps_rules quiet_keeps; simp)
qed

lemma write_marker_run: "write_marker w name f m = (Inr (), m') \<Longrightarrow> \<exists>l. m' = f (set_marker name True (m\<lparr>mc_log := l\<rparr>))"
  by (auto simp: write_marker_def succeeds_def asks_def binds_Inr changes_def fails_def Let_def split: if_splits)

lemma remove_file_run: "mc_env (snd (remove_file w name m)) = mc_env m" "dd_config (mc_dir (snd (remove_file w name m))) = dd_config (mc_dir m)"
  by (simp_all add: remove_file_def succeeds_def asks_def binds_def changes_def returns_def set_marker_def Let_def)

lemma fail_open_result:
  assumes "failOpenSharedAppServer w c m = (Inr (c', None), m')"
  shows "validate c' = None \<and> \<not> c_SharedAppServerEnabled c' \<and> dd_config (mc_dir m') = config_bytes (wn_mgmt w) c' \<and>
    route_left w (mc_backup m) m'"
proof -
  let ?c = "c\<lparr>c_SharedAppServerEnabled := False\<rparr>"
  obtain r1 m1 where marker: "write_marker w sharedFailOpenMarkerName id m = (r1, m1)" by fastforce
  obtain r2 m2 where persist: "persist_disabled w ?c m1 = (r2, m2)" by fastforce
  let ?e1 = "case r1 of Inl e \<Rightarrow> Some e | Inr _ \<Rightarrow> None"
  have valid: "validate ?c = None" using assms by (auto simp: failOpenSharedAppServer_def returns_def Let_def split: if_splits)
  have start: "failOpenSharedAppServer w c m = binds (persist_disabled w ?c) (\<lambda>(c, e). binds (outcome (failOpenSharedBackendCleanup w c)) (\<lambda>f.
      let f' = (if (?e1 = None \<and> e = None) \<and> f = Some (Sentinel errSharedServerMigrationDeferred) then None else f)
      in binds (if (?e1 = None \<and> e = None) \<and> f' = None then remove_file w sharedFailOpenMarkerName else returns ()) (\<lambda>_.
         returns (c, join_errors (join_errors ?e1 e) f')))) m1"
    unfolding failOpenSharedAppServer_def Let_def valid simp_thms if_False
      binds_outcome [of "write_marker w sharedFailOpenMarkerName id"] marker fst_conv snd_conv ..
  obtain c1 e where r2: "r2 = Inr (c1, e)"
    using assms persist unfolding start binds_def [of "persist_disabled w ?c"] by (cases r2) auto
  obtain r3 m3 where cleanup: "failOpenSharedBackendCleanup w c1 m2 = (r3, m3)" by fastforce
  let ?e3 = "case r3 of Inl e \<Rightarrow> Some e | Inr _ \<Rightarrow> None"
  let ?durable = "?e1 = None \<and> e = None"
  let ?f = "if ?durable \<and> ?e3 = Some (Sentinel errSharedServerMigrationDeferred) then None else ?e3"
  have rest: "binds (if ?durable \<and> ?f = None then remove_file w sharedFailOpenMarkerName else returns ()) (\<lambda>_.
      returns (c1, join_errors (join_errors ?e1 e) ?f)) m3 = (Inr (c', None), m')"
    using assms unfolding start binds_def [of "persist_disabled w ?c"] persist r2 prod.case sum.case binds_outcome cleanup
      fst_conv snd_conv Let_def .
  then have "join_errors (join_errors ?e1 e) ?f = None" "c' = c1"
    by (auto simp: binds_Inr returns_def)
  then have all: "r1 = Inr ()" "e = None" "r3 = Inr () \<or> r3 = Inl (Sentinel errSharedServerMigrationDeferred)" "c' = c1"
    by (auto simp: join_plain(3) split: sum.splits if_splits)
  have final: "m' = m3 \<or> m' = snd (remove_file w sharedFailOpenMarkerName m3)"
    using rest by (auto simp: binds_Inr returns_def split: if_splits)
  note p = persist_disabled_run [OF persist [unfolded r2 all(2)]]
  have "mc_env m1 = mc_env m" "mc_backup m1 = mc_backup m"
    using write_marker_run [OF marker [unfolded all(1)]] by (auto simp: set_marker_def)
  moreover have "mc_dir m3 = mc_dir m2" using keepsD [OF cleanup_keeps_dir, of m2 "mc_dir m2" w c1] cleanup by simp
  moreover have "route_left w (mc_backup m2) m3" by (rule cleanup_route [OF cleanup all(3)])
  moreover have "mc_env m' = mc_env m3" "dd_config (mc_dir m') = dd_config (mc_dir m3)"
    using final remove_file_run [of w sharedFailOpenMarkerName m3] by auto
  ultimately show ?thesis using p all(4) by (simp add: route_left_def)
qed


text \<open>A machine whose route leads to a server that is gone, with the backup of the route.\<close>

definition routed_machine :: machine where
  "routed_machine = (sample_machine (Some (loopback_endpoint 4321)))\<lparr>mc_state := JsonMissing,
     mc_backup := JsonContent (Some \<lparr>be_SchemaVersion = 1, be_Name = productionEnvironmentName, be_PreviousPresent = False,
       be_PreviousValue = [], be_InstalledValue = loopback_endpoint 4321, be_RecordedAt = 1000\<rparr>)\<rparr>"

lemma sample_persist:
  assumes "dd_config (mc_dir m) = config_bytes sample_mgmt defaultConfig"
  shows "\<exists>d. persist_disabled sample_windows c m = (Inr (defaultConfig\<lparr>c_SharedAppServerEnabled := False\<rparr>, None), m\<lparr>mc_dir := d\<rparr>)"
proof -
  have ok: "mw_ok sample_mgmt n" for n by (simp add: sample_mgmt_def)
  have disabled: "defaultConfig\<lparr>c_SharedAppServerEnabled := False\<rparr> = defaultConfig" "validate defaultConfig = None" by code_simp+
  obtain d where "load_locked sample_windows m = (Inr defaultConfig, m\<lparr>mc_dir := d\<rparr>)"
    using load_written [OF sample_render _ default_stable, of "(mc_dir m)\<lparr>dd_tick := Suc (dd_tick (mc_dir m))\<rparr>"] assms
    by (simp add: load_locked_def on_dir_def locked_def andThen_def ok)
  then show ?thesis
    unfolding persist_disabled_def binds_caught by (simp add: disabled binds_outcome on_dir_def write_config_def andThen_def ok returns_def Let_def)
      (rule exI, rule refl)
qed

lemma routed_cleanup:
  assumes "mc_state m = JsonMissing" "mc_backup m = mc_backup routed_machine" "mc_env m = mc_env routed_machine"
  shows "fst (failOpenSharedBackendCleanup sample_windows c m) = Inr ()"
proof -
  have missing: "readState m = stateMissing" if "mc_state m = JsonMissing" for m using that by (simp add: readState_def)
  have "\<exists>l. hasOwnedCleanupArtifacts sample_windows (m\<lparr>mc_mgr := g\<rparr>) = (Inr True, m\<lparr>mc_mgr := g, mc_log := l\<rparr>)" for g
    using assms
    by (simp add: hasOwnedCleanupArtifacts_def owned_state_def ownedEnvironmentBackupMatchesCurrent_def act_defs missing
        routed_machine_def own_backup_def sample_endpoint readUserEnvironment_def succeeds_def sample_machine_def) (rule exI, rule refl)
  moreover have "\<exists>r l. restore_route sample_windows (m\<lparr>mc_mgr := g, mc_log := k\<rparr>) =
      (Inr r, m\<lparr>mc_mgr := g, mc_log := l, mc_backup := JsonMissing, mc_env := Map.empty\<rparr>)" for g k
    using assms
    by (simp add: restore_route_def ownedLegacyEndpoints_def owned_state_def act_defs missing restoreOwnedSharedEnvironment_def
        restore_backup_def routed_machine_def own_backup_def readUserEnvironment_def succeeds_def sample_machine_def
        restoreUserEnvironment_def previous_value_def remove_backup_def put_backup_back_def value_of_def loopback_endpoint_def)
      (rule exI [of _ "hpDone True # hpDone True # hpDone True # k"], simp)
  ultimately obtain l1 r l2 where runs:
    "hasOwnedCleanupArtifacts sample_windows (m\<lparr>mc_mgr := newSharedServerManager sample_windows c\<rparr>) =
       (Inr True, m\<lparr>mc_mgr := newSharedServerManager sample_windows c, mc_log := l1\<rparr>)"
    "restore_route sample_windows (m\<lparr>mc_mgr := newSharedServerManager sample_windows c, mc_log := l1\<rparr>) =
       (Inr r, m\<lparr>mc_mgr := newSharedServerManager sample_windows c, mc_log := l2, mc_backup := JsonMissing, mc_env := Map.empty\<rparr>)"
    by metis
  show ?thesis
    unfolding failOpenSharedBackendCleanup_def with_manager_def binds_caught binds_outcome Let_def
      binds_def [of "hasOwnedCleanupArtifacts sample_windows"] runs fst_conv snd_conv sum.case prod.case raises_run
    using assms(1)
    by (simp add: nonemptySharedEnvironmentPresent_def readUserEnvironment_def succeeds_def StopOwned_def act_defs missing join_errors_def)
qed

lemma routed_fail_open:
  assumes "mc_state m = JsonMissing" "mc_backup m = mc_backup routed_machine" "mc_env m = mc_env routed_machine"
    "dd_config (mc_dir m) = config_bytes sample_mgmt defaultConfig" "validate (c\<lparr>c_SharedAppServerEnabled := False\<rparr>) = None"
  shows "\<exists>m'. failOpenSharedAppServer sample_windows c m = (Inr (defaultConfig\<lparr>c_SharedAppServerEnabled := False\<rparr>, None), m')"
proof -
  let ?m = "\<lambda>l. set_marker sharedFailOpenMarkerName True (m\<lparr>mc_log := l\<rparr>)"
  let ?c = "c\<lparr>c_SharedAppServerEnabled := False\<rparr>"
  let ?d = "defaultConfig\<lparr>c_SharedAppServerEnabled := False\<rparr>"
  obtain l where marker: "write_marker sample_windows sharedFailOpenMarkerName id m = (Inr (), ?m l)"
    by (simp add: write_marker_def succeeds_def act_defs)
  have "dd_config (mc_dir (?m l)) = config_bytes sample_mgmt defaultConfig"
    using assms(4) by (simp add: set_marker_def)
  from sample_persist [OF this] obtain d where persist:
    "persist_disabled sample_windows ?c (?m l) = (Inr (?d, None), (?m l)\<lparr>mc_dir := d\<rparr>)" by blast
  have "fst (failOpenSharedBackendCleanup sample_windows ?d ((?m l)\<lparr>mc_dir := d\<rparr>)) = Inr ()"
    by (rule routed_cleanup) (use assms(1-3) in \<open>simp_all add: set_marker_def\<close>)
  then obtain m3 where cleanup: "failOpenSharedBackendCleanup sample_windows ?d ((?m l)\<lparr>mc_dir := d\<rparr>) = (Inr (), m3)"
    by (metis prod.collapse)
  obtain m4 where "remove_file sample_windows sharedFailOpenMarkerName m3 = (Inr (), m4)"
    by (simp add: remove_file_def succeeds_def act_defs)
  then have "failOpenSharedAppServer sample_windows c m = (Inr (?d, None), m4)"
    using assms(5)
    by (simp add: failOpenSharedAppServer_def binds_outcome marker binds_def [of "persist_disabled _ _"] persist cleanup
        binds_def [of "remove_file _ _"] returns_def join_errors_def)
  then show ?thesis by blast
qed

lemma routed_fields: "mc_state routed_machine = JsonMissing" "dd_config (mc_dir routed_machine) = config_bytes sample_mgmt defaultConfig"
  by (simp_all add: routed_machine_def sample_machine_def sample_config_file)


subsection \<open>The start of the worker\<close>

definition startup_check :: "windows \<Rightarrow> Config \<Rightarrow> unit act" where
  "startup_check w c = with_manager (newSharedServerManager w c) (checkSharedServerStartupState w)"

lemma startup_completed:
  assumes "completeStartupFailOpen w c m = (Inr res, m')" "sf_CanContinue res"
  shows "\<not> c_SharedAppServerEnabled (sf_Config res) \<and>
    \<not> errors_Is (sf_CleanupErr res) errSharedAppServerEnvironmentConflict \<and>
    (dd_config (mc_dir m') = config_bytes (wn_mgmt w) (sf_Config res) \<or>
     (\<exists>d. loadOrCreateConfig (wn_mgmt w) d = (Inr (sf_Config res), mc_dir m')))"
proof -
  from assms(1) obtain c1 e m1 where fo: "failOpenSharedAppServer w c m = (Inr (c1, e), m1)"
    unfolding completeStartupFailOpen_def by (auto simp: binds_Inr)
  show ?thesis
  proof (cases e)
    case None
    with assms fo have "res = \<lparr>sf_Config = c1, sf_Reason = [], sf_CleanupErr = None, sf_CanContinue = True\<rparr>" "m' = m1"
      by (auto simp: completeStartupFailOpen_def binds_Inr returns_def)
    with fail_open_result [OF fo [unfolded None]] show ?thesis by simp
  next
    case (Some err)
    obtain x m2 where load: "on_dir (loadOrCreateConfig (wn_mgmt w)) m1 = (x, m2)" by fastforce
    have run: "completeStartupFailOpen w c m =
        (if errors_Is (Some err) errSharedAppServerEnvironmentConflict
         then (Inr \<lparr>sf_Config = c1, sf_Reason = [], sf_CleanupErr = Some err, sf_CanContinue = False\<rparr>, m1)
         else (Inr (case x of
             Inl e \<Rightarrow> \<lparr>sf_Config = c1, sf_Reason = [], sf_CleanupErr = Some (Joined err e), sf_CanContinue = False\<rparr>
           | Inr p \<Rightarrow> if c_SharedAppServerEnabled p
               then \<lparr>sf_Config = c1, sf_Reason = [], sf_CleanupErr = Some err, sf_CanContinue = False\<rparr>
               else \<lparr>sf_Config = p, sf_Reason = [], sf_CleanupErr = Some err, sf_CanContinue = True\<rparr>), m2))"
      unfolding completeStartupFailOpen_def binds_def [of "failOpenSharedAppServer w c"] fo Some prod.case sum.case option.case
      by (cases x) (simp_all add: binds_caught load returns_def)
    from assms run obtain p where p: "\<not> errors_Is (Some err) errSharedAppServerEnvironmentConflict" "x = Inr p"
      "\<not> c_SharedAppServerEnabled p" "sf_Config res = p" "sf_CleanupErr res = Some err" "m' = m2"
      by (cases x) (auto split: if_splits)
    from on_dir_run [OF load] p(2) obtain d where "loadOrCreateConfig (wn_mgmt w) (mc_dir m1) = (Inr p, d)" "m2 = m1\<lparr>mc_dir := d\<rparr>"
      by blast
    with p show ?thesis by auto
  qed
qed

lemma prepare_at_startup:
  assumes "prepareSharedBackendAtStartup w c m = (Inr res, m')" "c_SharedAppServerEnabled c"
  shows "startup_check w c m = (Inr (), m') \<and>
      res = \<lparr>sf_Config = c, sf_Reason = [], sf_CleanupErr = None, sf_CanContinue = True\<rparr> \<or>
    (\<exists>e m1 m2 r. startup_check w c m = (Inl e, m1) \<and> completeStartupFailOpen w c m2 = (Inr r, m') \<and>
      res = r\<lparr>sf_Reason := controllerFailureReason zero_DispatchResult (Some e)\<rparr>)"
proof (cases "startup_check w c m")
  case (Pair x m1)
  show ?thesis
  proof (cases x)
    case (Inr u)
    with assms Pair show ?thesis
      by (simp add: prepareSharedBackendAtStartup_def startup_check_def binds_outcome returns_def)
  next
    case (Inl e)
    let ?reason = "controllerFailureReason zero_DispatchResult (Some e)"
    obtain a m2 where mark: "recordSharedUnavailable w ?reason m1 = (a, m2)" by fastforce
    have "prepareSharedBackendAtStartup w c m =
        binds (completeStartupFailOpen w c) (\<lambda>r. returns (r\<lparr>sf_Reason := ?reason\<rparr>)) m2"
      using assms(2) Pair Inl mark
      by (simp add: prepareSharedBackendAtStartup_def startup_check_def binds_outcome binds_caught Let_def)
    with assms(1) Pair Inl show ?thesis by (auto simp: binds_Inr returns_def)
  qed
qed

text \<open>
  The gate at the start of the worker: it lets the worker continue in shared mode only with the
  configuration it was given and after the check of the recorded server has passed. Otherwise it lets
  it continue only with shared mode switched off, in the configuration that is in the file then, and
  never while an address of unknown origin is left in the route.
\<close>

theorem startup_gate:
  assumes "prepareSharedBackendAtStartup w c m = (Inr res, m')" "sf_CanContinue res"
  shows "sf_Config res = c \<and> sf_Reason res = [] \<and>
      (c_SharedAppServerEnabled c \<longrightarrow> fst (startup_check w c m) = Inr ()) \<or>
    \<not> c_SharedAppServerEnabled (sf_Config res) \<and>
      \<not> errors_Is (sf_CleanupErr res) errSharedAppServerEnvironmentConflict \<and>
      (dd_config (mc_dir m') = config_bytes (wn_mgmt w) (sf_Config res) \<or>
       (\<exists>d. loadOrCreateConfig (wn_mgmt w) d = (Inr (sf_Config res), mc_dir m')))"
proof (cases "c_SharedAppServerEnabled c")
  case False
  with assms(1) have "res = \<lparr>sf_Config = c, sf_Reason = [], sf_CleanupErr = None, sf_CanContinue = True\<rparr>"
    by (simp add: prepareSharedBackendAtStartup_def returns_def)
  with False show ?thesis by simp
next
  case True
  from prepare_at_startup [OF assms(1) this] show ?thesis
    using startup_completed [of w c _ _ m'] assms(2) by fastforce
qed

theorem startup_gate_witness:
  "case prepareSharedBackendAtStartup sample_windows (defaultConfig\<lparr>c_SharedAppServerEnabled := True\<rparr>) routed_machine of
     (Inr res, m) \<Rightarrow> sf_CanContinue res \<and> \<not> c_SharedAppServerEnabled (sf_Config res)
   | _ \<Rightarrow> False"
proof -
  let ?c = "defaultConfig\<lparr>c_SharedAppServerEnabled := True\<rparr>" and ?w = sample_windows
  have on: "c_SharedAppServerEnabled ?c = True" by simp
  obtain e l g where check: "startup_check ?w ?c routed_machine = (Inl e, routed_machine\<lparr>mc_mgr := g, mc_log := l\<rparr>)"
    by (simp add: startup_check_def with_manager_def checkSharedServerStartupState_def readState_def routed_machine_def
        ownedEnvironmentBackupMatchesCurrent_def own_backup_def sample_endpoint readUserEnvironment_def succeeds_def
        sample_machine_def unavailable_def act_defs)
  let ?reason = "controllerFailureReason zero_DispatchResult (Some e)"
  obtain m2 where mark: "recordSharedUnavailable ?w ?reason (routed_machine\<lparr>mc_mgr := g, mc_log := l\<rparr>) = (Inr (), m2)"
    and same: "mc_state m2 = JsonMissing" "mc_backup m2 = mc_backup routed_machine" "mc_env m2 = mc_env routed_machine"
      "dd_config (mc_dir m2) = config_bytes sample_mgmt defaultConfig"
    using routed_fields
    by (simp add: recordSharedUnavailable_def write_marker_def clock_def succeeds_def act_defs set_marker_def)
  have "validate (?c\<lparr>c_SharedAppServerEnabled := False\<rparr>) = None" by code_simp
  then obtain m3 where "failOpenSharedAppServer ?w ?c m2 = (Inr (defaultConfig\<lparr>c_SharedAppServerEnabled := False\<rparr>, None), m3)"
    using routed_fail_open [OF same] by blast
  then have completed: "completeStartupFailOpen ?w ?c m2 =
      (Inr \<lparr>sf_Config = defaultConfig\<lparr>c_SharedAppServerEnabled := False\<rparr>, sf_Reason = [], sf_CleanupErr = None,
            sf_CanContinue = True\<rparr>, m3)"
    by (simp add: completeStartupFailOpen_def binds_def [of "failOpenSharedAppServer _ _"] returns_def)
  have run: "prepareSharedBackendAtStartup ?w ?c routed_machine =
      (Inr \<lparr>sf_Config = defaultConfig\<lparr>c_SharedAppServerEnabled := False\<rparr>, sf_Reason = ?reason, sf_CleanupErr = None,
            sf_CanContinue = True\<rparr>, m3)"
    unfolding prepareSharedBackendAtStartup_def startup_check_def [symmetric] on not_True_eq_False if_False binds_outcome
      binds_caught check fst_conv snd_conv sum.case option.case Let_def mark
      binds_def [of "completeStartupFailOpen sample_windows c" for c] completed prod.case
    by (simp add: returns_def)
  have goes: "sf_CanContinue \<lparr>sf_Config = d, sf_Reason = r, sf_CleanupErr = None, sf_CanContinue = True\<rparr>" for d r by simp
  have "fst (startup_check ?w ?c routed_machine) \<noteq> Inr ()" by (simp add: check)
  with startup_gate [OF run goes] on show ?thesis unfolding run prod.case sum.case using goes by blast
qed

end
