(* ===== verification/Worker_Properties.thy ===== *)
theory Worker_Properties
  imports Worker_Start Recovery_Properties Service_Properties Daemon_System
begin

section \<open>Shared mode at the start of the worker\<close>

text \<open>
  What has to be true for a worker to run in shared mode. The lemmas follow one stage of the start
  each: whatever goes on in shared mode has changed nothing.
\<close>

lemma gate_enabled:
  assumes "gate w c reason m = (Inr (Some (c', reason')), m')" "c_SharedAppServerEnabled c'"
  shows "c' = c \<and> reason' = reason \<and> startup_check w c m = (Inr (), m')"
proof -
  from assms have on: "c_SharedAppServerEnabled c" by (auto simp: gate_def returns_def split: if_splits)
  with assms(1) obtain r where r: "prepareSharedBackendAtStartup w c m = (Inr r, m')"
    "(if sf_Reason r = [] then Some (c, reason) else go_on r (sf_Reason r)) = Some (c', reason')"
    by (auto simp: gate_def binds_Inr returns_def)
  from prepare_at_startup [OF r(1) on] show ?thesis
  proof
    assume "startup_check w c m = (Inr (), m') \<and> r = \<lparr>sf_Config = c, sf_Reason = [], sf_CleanupErr = None, sf_CanContinue = True\<rparr>"
    with r(2) show ?thesis by simp
  next
    assume "\<exists>e m1 m2 r1. startup_check w c m = (Inl e, m1) \<and> completeStartupFailOpen w c m2 = (Inr r1, m') \<and>
      r = r1\<lparr>sf_Reason := controllerFailureReason zero_DispatchResult (Some e)\<rparr>"
    then obtain e m2 r1 where f: "completeStartupFailOpen w c m2 = (Inr r1, m')"
      "r = r1\<lparr>sf_Reason := controllerFailureReason zero_DispatchResult (Some e)\<rparr>" by blast
    with r(2) failure_reason_safe [of zero_DispatchResult "Some e"] have "sf_CanContinue r1" "c' = sf_Config r1"
      by (auto simp: go_on_def split: if_splits)
    with startup_completed [OF f(1)] assms(2) show ?thesis by simp
  qed
qed

lemma interrupted_enabled:
  assumes "interrupted_fail_open w c m = (Inr (Some (c', reason)), m')" "c_SharedAppServerEnabled c'"
  shows "c' = c \<and> reason = [] \<and> m' = m \<and> sharedFailOpenMarkerName \<notin> set (dd_markers (mc_dir m))"
proof (cases "sharedFailOpenMarkerName \<in> set (dd_markers (mc_dir m))")
  case False
  with assms show ?thesis by (simp add: interrupted_fail_open_def binds_def reads_def returns_def)
next
  case True
  with assms(1) obtain r m1 where "completeStartupFailOpen w c m = (Inr r, m1)" "go_on r ''shared_app_server_startup_recovery'' = Some (c', reason)"
    by (auto simp: interrupted_fail_open_def binds_Inr reads_def returns_def)
  with startup_completed [of w c m r m1] assms(2) show ?thesis by (auto simp: go_on_def split: if_splits)
qed

lemma after_preparation_enabled:
  assumes "after_preparation w c reason e m = (Inr (Some (c', reason')), m')" "c_SharedAppServerEnabled c'"
  shows "c' = c \<and> reason' = reason \<and>
    (e = None \<or> \<not> controllerFailureNeedsFailOpen (controllerFailureReason zero_DispatchResult e))"
  using assms startup_completed
  by (fastforce simp: after_preparation_def Let_def binds_Inr returns_def go_on_def split: if_splits)

text \<open>What an operation gives when it succeeds.\<close>

definition yields :: "('a \<Rightarrow> bool) \<Rightarrow> 'a act \<Rightarrow> bool" where
  "yields P a \<longleftrightarrow> (\<forall>m x m'. a m = (Inr x, m') \<longrightarrow> P x)"

lemma yields_rules:
  "P x \<Longrightarrow> yields P (returns x)"
  "(\<And>x. yields P (f x)) \<Longrightarrow> yields P (binds a f)"
  "yields P b \<Longrightarrow> yields P c \<Longrightarrow> yields P (if t then b else c)"
  "(\<And>x. yields P (g x)) \<Longrightarrow> (\<And>x. yields P (h x)) \<Longrightarrow> yields P (case s of Inl x \<Rightarrow> g x | Inr x \<Rightarrow> h x)"
  by (auto simp: yields_def returns_def binds_Inr split: sum.splits)

lemma load_daemon_config: "load_daemon w ww c m = (Inr (Some d), m') \<Longrightarrow> d_config d = c"
proof -
  have "yields (\<lambda>r. \<forall>d. r = Some d \<longrightarrow> d_config d = c) (load_daemon w ww c)"
    unfolding load_daemon_def by (intro yields_rules) (simp_all add: newDaemon_frame)
  then show "load_daemon w ww c m = (Inr (Some d), m') \<Longrightarrow> d_config d = c" unfolding yields_def by blast
qed

lemma first_state_config [simp]: "d_config (first_state c reason e d) = d_config d"
  by (simp add: first_state_def Let_def)

text \<open>
  C30: a worker runs in shared mode only if no fail-open was left unfinished, the recorded server
  passed its check, and the controller could be prepared, or failed in a way that does not ask for a
  fail-open and is then its controller state. It runs with the configuration that was loaded. In
  every other case it runs with shared mode off, or not at all.
\<close>

theorem shared_mode_entered_checked:
  assumes "start_worker w ww m = (Inr (Some d), m')" "c_SharedAppServerEnabled (d_config d)"
  shows "\<exists>c m1 m2 e m3.
    on_dir (loadOrCreateConfig (wn_mgmt w)) m = (Inr c, m1) \<and> d_config d = c \<and>
    sharedFailOpenMarkerName \<notin> set (dd_markers (mc_dir m1)) \<and>
    startup_check w c m1 = (Inr (), m2) \<and>
    outcome (ww_Prepare ww c) m2 = (Inr e, m3) \<and>
    (case e of
       None \<Rightarrow> d_controllerState d = ''ready''
     | Some _ \<Rightarrow> d_controllerState d = controllerFailureReason zero_DispatchResult e \<and>
         \<not> controllerFailureNeedsFailOpen (d_controllerState d))"
proof -
  from assms(1) obtain c m1 where load: "on_dir (loadOrCreateConfig (wn_mgmt w)) m = (Inr c, m1)"
    by (auto simp: start_worker_def binds_caught returns_def binds_Inr split: sum.splits) (metis prod.collapse)
  from assms(1) obtain c1 r1 ma mb c2 r2 mc e md c3 r3 me dd where stages:
    "interrupted_fail_open w c m1 = (Inr (Some (c1, r1)), ma)"
    "cleanup_if_disabled w c1 ma = (Inr (), mb)"
    "gate w c1 r1 mb = (Inr (Some (c2, r2)), mc)"
    "prepare_controller ww c2 mc = (Inr e, md)"
    "after_preparation w c2 r2 e md = (Inr (Some (c3, r3)), me)"
    "load_daemon w ww c3 me = (Inr (Some dd), m')" "d = first_state c3 r3 e dd"
    unfolding start_worker_def binds_caught load fst_conv snd_conv sum.case
    by (auto simp: binds_Inr returns_def split: option.splits prod.splits)
  have c3: "d_config d = c3" using load_daemon_config [OF stages(6)] stages(7) by simp
  with assms(2) have on: "c_SharedAppServerEnabled c3" by simp
  note p = after_preparation_enabled [OF stages(5) on]
  with on have on2: "c_SharedAppServerEnabled c2" by simp
  note g = gate_enabled [OF stages(3) on2]
  with on2 have on1: "c_SharedAppServerEnabled c1" by simp
  note i = interrupted_enabled [OF stages(1) on1]
  from stages(2) on1 have "mb = ma" by (simp add: cleanup_if_disabled_def returns_def)
  with i g have "startup_check w c m1 = (Inr (), mc)" by simp
  moreover have "outcome (ww_Prepare ww c) mc = (Inr e, md)"
    using stages(4) on2 i g by (simp add: prepare_controller_def binds_def reads_def)
  moreover have "case e of None \<Rightarrow> d_controllerState d = ''ready''
     | Some _ \<Rightarrow> d_controllerState d = controllerFailureReason zero_DispatchResult e \<and>
         \<not> controllerFailureNeedsFailOpen (d_controllerState d)"
    using stages(7) on p by (cases e) (auto simp: first_state_def Let_def)
  ultimately show ?thesis using load c3 p g i by auto
qed

text \<open>A machine with a healthy server of ours and a configuration that asks for shared mode.\<close>

definition routing_config :: Config where
  "routing_config = defaultConfig\<lparr>c_SharedAppServerEnabled := True, c_SharedAppServerRequested := True\<rparr>"

definition shared_machine :: machine where
  "shared_machine = (sample_machine None)\<lparr>mc_dir := sample_dir\<lparr>dd_config := config_bytes sample_mgmt routing_config\<rparr>\<rparr>"

definition sample_worker :: worker_world where
  "sample_worker = \<lparr>ww_Prepare = (\<lambda>_. returns ()), ww_HasRoots = (\<lambda>_ _. True), ww_Keys = [sample_child]\<rparr>"

lemma shared_loads:
  assumes "dd_config (mc_dir m) = config_bytes sample_mgmt routing_config"
  shows "on_dir (loadOrCreateConfig sample_mgmt) m =
    (Inr routing_config, m\<lparr>mc_dir := (mc_dir m)\<lparr>dd_tick := Suc (Suc (dd_tick (mc_dir m)))\<rparr>\<rparr>)"
proof -
  have "stable_config routing_config" by code_simp
  from load_written [OF sample_render _ this, of "(mc_dir m)\<lparr>dd_tick := Suc (dd_tick (mc_dir m))\<rparr>"] assms show ?thesis
    by (simp add: on_dir_def loadOrCreateConfig_def locked_def andThen_def) (simp add: sample_mgmt_def)
qed

lemma healthy_check:
  assumes "mc_state m = JsonContent (Some sample_server)"
  shows "\<exists>l. startup_check sample_windows c m = (Inr (), m\<lparr>mc_log := l\<rparr>)"
  using assms
  by (simp add: startup_check_def with_manager_def checkSharedServerStartupState_def act_defs sample_read sample_owned
      processIsRunning_def sample_matches ownsProcess_def sample_fields sample_endpoint probe_def)
    (rule exI, rule refl)

lemma sample_state_loads:
  assumes "mc_dir m = sample_dir\<lparr>dd_config := f, dd_tick := n\<rparr>"
  shows "\<exists>st. on_dir (load_state sample_mgmt) m = (Inr st, m)"
    "\<exists>c d. on_dir (load_control sample_mgmt) m = (Inr c, m\<lparr>mc_dir := d\<rparr>)"
  using assms
  by (simp_all add: on_dir_def load_state_def load_control_def sample_mgmt_def sample_dir_def loadState_def
      loadOrCreateControlState_def andThen_def maxRuntimeStateBytes_def) (rule exI, rule refl)

theorem shared_mode_entered_checked_witness:
  "case start_worker sample_windows sample_worker shared_machine of
     (Inr (Some d), m) \<Rightarrow> c_SharedAppServerEnabled (d_config d) \<and> d_controllerState d = ''ready''
   | _ \<Rightarrow> False"
proof -
  let ?w = sample_windows
  let ?d = "sample_dir\<lparr>dd_config := config_bytes sample_mgmt routing_config, dd_tick := 2\<rparr>"
  let ?m1 = "shared_machine\<lparr>mc_dir := ?d\<rparr>"
  have load: "on_dir (loadOrCreateConfig (wn_mgmt ?w)) shared_machine = (Inr routing_config, ?m1)"
    using shared_loads [of shared_machine] by (simp add: shared_machine_def sample_dir_def numeral_2_eq_2)
  have on: "c_SharedAppServerEnabled routing_config = True" by (simp add: routing_config_def)
  have first: "interrupted_fail_open ?w routing_config ?m1 = (Inr (Some (routing_config, [])), ?m1)"
    by (simp add: interrupted_fail_open_def binds_def reads_def returns_def sample_dir_def)
  obtain l where "startup_check ?w routing_config ?m1 = (Inr (), ?m1\<lparr>mc_log := l\<rparr>)"
    using healthy_check [of ?m1] by (auto simp: shared_machine_def sample_machine_def)
  then have "prepareSharedBackendAtStartup ?w routing_config ?m1 =
      (Inr \<lparr>sf_Config = routing_config, sf_Reason = [], sf_CleanupErr = None, sf_CanContinue = True\<rparr>, ?m1\<lparr>mc_log := l\<rparr>)"
    by (simp add: on prepareSharedBackendAtStartup_def startup_check_def [symmetric] binds_outcome returns_def)
  then have second: "gate ?w routing_config [] ?m1 = (Inr (Some (routing_config, [])), ?m1\<lparr>mc_log := l\<rparr>)"
    by (simp add: gate_def on binds_def [of "prepareSharedBackendAtStartup _ _"] returns_def)
  let ?m2 = "?m1\<lparr>mc_log := l\<rparr>"
  obtain st where state: "on_dir (load_state sample_mgmt) ?m2 = (Inr st, ?m2)"
    using sample_state_loads(1) [of ?m2 2 "config_bytes sample_mgmt routing_config"] by auto
  obtain c d where control: "on_dir (load_control sample_mgmt) ?m2 = (Inr c, ?m2\<lparr>mc_dir := d\<rparr>)"
    using sample_state_loads(2) [of ?m2 2 "config_bytes sample_mgmt routing_config"] by auto
  have there: "(dd_config (mc_dir ?m2) = FileMissing) = False" by (simp add: config_bytes_def)
  obtain dd m' where daemon: "load_daemon ?w sample_worker routing_config ?m2 = (Inr (Some dd), m')"
    unfolding load_daemon_def binds_def [of "reads _"] reads_def there if_False binds_def [of "returns _"] returns_def
      sum.case prod.case not_None_eq
    by (simp add: binds_caught state control clock_def run_asks returns_def)
  have kept: "cleanup_if_disabled ?w routing_config ?m1 = (Inr (), ?m1)" by (simp add: cleanup_if_disabled_def on returns_def)
  have prepared: "prepare_controller sample_worker routing_config ?m2 = (Inr None, ?m2)"
    by (simp add: prepare_controller_def binds_def reads_def on outcome_def caught_def sample_worker_def returns_def)
  have after: "after_preparation ?w routing_config [] None ?m2 = (Inr (Some (routing_config, [])), ?m2)"
    by (simp add: after_preparation_def returns_def Let_def)
  have run: "start_worker ?w sample_worker shared_machine = (Inr (Some (first_state routing_config [] None dd)), m')"
    unfolding start_worker_def binds_caught load fst_conv snd_conv sum.case binds_def [of "interrupted_fail_open _ _"] first
      binds_def [of "cleanup_if_disabled _ _"] kept binds_def [of "gate _ _ _"] second
      binds_def [of "prepare_controller _ _"] prepared binds_def [of "after_preparation _ _ _ _"] after
      binds_def [of "load_daemon _ _ _"] daemon prod.case option.case
    by (simp add: returns_def)
  have "c_SharedAppServerEnabled (d_config (first_state routing_config [] None dd))"
    using load_daemon_config [OF daemon] on by simp
  from shared_mode_entered_checked [OF run this] this show ?thesis
    unfolding run by (auto simp: first_state_def on split: option.splits)
qed

end
