(* ===== verification/Desktop_Ipc.thy ===== *)
theory Desktop_Ipc
  imports Shared_Controller
begin

section \<open>The pipe to the Desktop (codex\_ipc\_windows.go)\<close>

text \<open>
  The pipe is a stream of bytes in each direction. What the Desktop will have written is the string
  \<open>pp_in\<close>; what the watchdog wrote is the list of messages \<open>pp_out\<close>, each of which goes out as one
  frame. Each write asks \<open>pp_ok\<close> for its outcome, request ids come from \<open>pp_random\<close>: sixteen
  random bytes, or nothing and the clock. A cancelled context shows as a pipe that ends.
\<close>

subsection \<open>Frames\<close>

definition put_uint32 :: "nat \<Rightarrow> string" where
  "put_uint32 n = map (\<lambda>i. char_of (n div 256 ^ i)) [0, 1, 2, 3]"

definition get_uint32 :: "string \<Rightarrow> nat" where
  "get_uint32 s = (case s of [a, b, c, d] \<Rightarrow> byte a + 256 * byte b + 256 ^ 2 * byte c + 256 ^ 3 * byte d | _ \<Rightarrow> 0)"

definition max_frame :: nat where
  "max_frame = 256 * 1024 * 1024"

definition writeFrame :: "string \<Rightarrow> string" where
  "writeFrame data = put_uint32 (length data mod 2 ^ 32) @ data"

datatype frame_read = frameClosed | frameInvalid | framePayload string string

definition readFrame :: "string \<Rightarrow> frame_read" where
  "readFrame s =
     (if length s < 4 then frameClosed
      else let n = get_uint32 (take 4 s); rest = drop 4 s
           in if n = 0 \<or> n > max_frame then frameInvalid
              else if length rest < n then frameClosed
              else framePayload (take n rest) (drop n rest))"

lemma readFrame_shorter: "readFrame s = framePayload p rest \<Longrightarrow> length rest < length s"
  by (auto simp: readFrame_def Let_def split: if_splits)

lemma get_put_uint32: "n < 2 ^ 32 \<Longrightarrow> get_uint32 (put_uint32 n) = n"
proof -
  assume n: "n < 2 ^ 32"
  have low: "byte (char_of k) = k mod 256" for k :: nat by (simp add: byte_def)
  define a b c where "a = n div 256" and "b = a div 256" and "c = b div 256"
  have "n = 256 * a + n mod 256" "a = 256 * b + a mod 256" "b = 256 * c + b mod 256" "c mod 256 = c"
    using n by (simp_all add: a_def b_def c_def)
  then have "n = n mod 256 + 256 * (a mod 256) + 65536 * (b mod 256) + 16777216 * (c mod 256)" by linarith
  moreover have "n div 16777216 mod 256 = n div 16777216" using n by simp
  ultimately show ?thesis
    by (simp add: get_uint32_def put_uint32_def low a_def b_def c_def div_mult2_eq [symmetric])
qed

lemma readFrame_writeFrame:
  assumes "data \<noteq> []" "length data \<le> max_frame"
  shows "readFrame (writeFrame data @ rest) = framePayload data rest"
proof -
  have "length data < 2 ^ 32" using assms(2) by (simp add: max_frame_def)
  moreover have "length (put_uint32 n) = 4" for n by (simp add: put_uint32_def)
  ultimately show ?thesis
    using assms by (simp add: readFrame_def writeFrame_def get_put_uint32 Let_def)
qed

subsection \<open>Messages\<close>

record codexIPCResponse =
  ir_Type :: string
  ir_RequestID :: string
  ir_ResultType :: string
  ir_Method :: string
  ir_Error :: string
  ir_HandledByClient :: string
  ir_Result :: string

definition decode_response :: "string \<Rightarrow> codexIPCResponse option" where
  "decode_response payload =
     (case unmarshal_struct payload of
        None \<Rightarrow> None
      | Some ms \<Rightarrow>
          Option.bind (string_field ''type'' ms) (\<lambda>t.
          Option.bind (string_field ''requestId'' ms) (\<lambda>i.
          Option.bind (string_field ''resultType'' ms) (\<lambda>r.
          Option.bind (string_field ''method'' ms) (\<lambda>m.
          Option.bind (string_field ''error'' ms) (\<lambda>e.
          Option.bind (string_field ''handledByClientId'' ms) (\<lambda>h.
          Some \<lparr>ir_Type = t, ir_RequestID = i, ir_ResultType = r, ir_Method = m, ir_Error = e,
                ir_HandledByClient = h, ir_Result = raw_field ''result'' (raw_object payload)\<rparr>)))))))"

text \<open>\<open>newCodexIPCRequestID\<close>: the random bytes as a UUID, or the clock when there are none.\<close>

definition newCodexIPCRequestID :: "8 word list option \<Rightarrow> gotime \<Rightarrow> string" where
  "newCodexIPCRequestID raw now =
     (case raw of
        None \<Rightarrow> ''car-ipc-'' @ int_text (i64 (now - unix_epoch))
      | Some bytes \<Rightarrow>
          let h = hex_encode bytes
          in take 8 h @ ''-'' @ take 4 (drop 8 h) @ ''-'' @ take 4 (drop 12 h) @ ''-'' @ take 4 (drop 16 h) @ ''-'' @ drop 20 h)"

record pipe =
  pp_in :: string
  pp_out :: "json list"
  pp_ok :: "nat \<Rightarrow> bool"
  pp_random :: "nat \<Rightarrow> 8 word list option \<times> gotime"
  pp_ids :: nat
  pp_writes :: nat

definition next_id :: "pipe \<Rightarrow> string" where
  "next_id p = (case pp_random p (pp_ids p) of (raw, now) \<Rightarrow> newCodexIPCRequestID raw now)"

definition send :: "json \<Rightarrow> pipe \<Rightarrow> bool \<times> pipe" where
  "send msg p =
     (let sent = pp_ok p (pp_writes p); p = p\<lparr>pp_writes := Suc (pp_writes p)\<rparr>
      in (sent, if sent then p\<lparr>pp_out := pp_out p @ [msg]\<rparr> else p))"

definition discovery_response :: "string \<Rightarrow> json" where
  "discovery_response requestID = JObject
     [(''type'', JString ''client-discovery-response''), (''requestId'', JString requestID),
      (''response'', JObject [(''canHandle'', JBool False)])]"

definition request_message :: "string \<Rightarrow> string \<Rightarrow> string \<Rightarrow> int \<Rightarrow> json \<Rightarrow> string \<Rightarrow> json" where
  "request_message requestID client rpc_method version params target = JObject
     ([(''type'', JString ''request''), (''requestId'', JString requestID), (''sourceClientId'', JString client),
       (''version'', JInt version), (''method'', JString rpc_method), (''params'', params)] @
      (if target \<noteq> [] then [(''targetClientId'', JString target)] else []))"

text \<open>The loop of \<open>requestTo\<close> after the request was written.\<close>

function await_reply :: "string \<Rightarrow> pipe \<Rightarrow> (go_error + codexIPCResponse) \<times> pipe" where
  "await_reply requestID p =
     (case readFrame (pp_in p) of
        frameClosed \<Rightarrow> (Inl (OtherError ''closed''), p)
      | frameInvalid \<Rightarrow> (Inl (OtherError ''invalid Codex IPC frame length''), p)
      | framePayload payload rest \<Rightarrow>
          let p = p\<lparr>pp_in := rest\<rparr>
          in case decode_response payload of
               None \<Rightarrow> (Inl (OtherError ''json''), p)
             | Some response \<Rightarrow>
                 if ir_Type response = ''broadcast'' then await_reply requestID p
                 else if ir_Type response = ''client-discovery-request''
                   then await_reply requestID (snd (send (discovery_response (ir_RequestID response)) p))
                 else if ir_RequestID response \<noteq> requestID then await_reply requestID p
                 else if ir_ResultType response = ''error''
                   then (if ir_Error response = ''no-client-found'' then (Inl (Sentinel errCodexIPCOwnerMissing), p)
                         else (Inl (Wrapped ''Codex official IPC request failed'' (Sentinel errAppServerRequest)), p))
                 else (Inr response, p))"
  by pat_completeness auto

termination
  by (relation "measure (\<lambda>(_, p). length (pp_in p))") (auto simp: send_def Let_def dest: readFrame_shorter)

declare await_reply.simps [simp del]

definition requestTo :: "string \<Rightarrow> string \<Rightarrow> int \<Rightarrow> json \<Rightarrow> string \<Rightarrow> pipe \<Rightarrow> (go_error + codexIPCResponse) \<times> pipe" where
  "requestTo client rpc_method version params target p =
     (let requestID = next_id p; p = p\<lparr>pp_ids := Suc (pp_ids p)\<rparr>
      in case send (request_message requestID client rpc_method version params target) p of
           (sent, p) \<Rightarrow> if sent then await_reply requestID p else (Inl (OtherError ''write''), p))"

subsection \<open>Turns\<close>

definition string_or_null :: "string \<Rightarrow> json" where
  "string_or_null s = (case parse_json s of Some v \<Rightarrow> v | None \<Rightarrow> JNull)"

definition officialIPCSandboxPolicy :: "ResumeSettings \<Rightarrow> json" where
  "officialIPCSandboxPolicy settings =
     (if se_Permissions settings = '':danger-full-access'' then JObject [(''type'', JString ''dangerFullAccess'')]
      else if se_Permissions settings = '':read-only'' then JObject [(''type'', JString ''readOnly'')]
      else JObject [(''type'', JString ''workspaceWrite''),
                    (''writableRoots'', JArray (map JString (se_RuntimeWorkspaceRoots settings)))])"

definition officialIPCStartRequest :: "string \<Rightarrow> ResumeSettings \<Rightarrow> string \<Rightarrow> json" where
  "officialIPCStartRequest threadID settings messageID = JObject
     [(''threadId'', JString threadID), (''clientUserMessageId'', JString messageID), (''input'', JArray []),
      (''cwd'', JString (se_CWD settings)), (''approvalPolicy'', string_or_null (se_ApprovalPolicy settings)),
      (''approvalsReviewer'', JString (se_ApprovalsReviewer settings)),
      (''sandboxPolicy'', officialIPCSandboxPolicy settings), (''permissions'', JString (se_Permissions settings)),
      (''runtimeWorkspaceRoots'', JArray (map JString (se_RuntimeWorkspaceRoots settings))),
      (''model'', JString (se_Model settings)), (''serviceTier'', JString (se_ServiceTier settings)),
      (''effort'', JString (se_Effort settings)), (''multiAgentMode'', JString ''explicitRequestOnly''),
      (''summary'', JString (se_Summary settings)), (''personality'', JString (se_Personality settings)),
      (''collaborationMode'', JObject
         [(''mode'', JString ''default''),
          (''settings'', JObject
             [(''model'', JString (se_Model settings)), (''reasoning_effort'', JString (se_Effort settings)),
              (''developer_instructions'', JNull)])]),
      (''outputSchema'', JNull)]"

text \<open>\<open>dialCodexIPC\<close> on an opened pipe: the client id that the Desktop assigns.\<close>

definition dialCodexIPC :: "pipe \<Rightarrow> (go_error + string) \<times> pipe" where
  "dialCodexIPC p =
     (case requestTo ''initializing-client'' ''initialize'' 0 (JObject [(''clientType'', JString ''codex-auto-retry'')]) [] p of
        (Inl e, p) \<Rightarrow> (Inl e, p)
      | (Inr response, p) \<Rightarrow>
          if ir_ResultType response \<noteq> ''success'' \<or> ir_Result response = []
          then (Inl (OtherError ''Codex official IPC is unavailable''), p)
          else (case Option.bind (unmarshal_struct (ir_Result response)) (string_field ''clientId'') of
                  None \<Rightarrow> (Inl (OtherError ''Codex official IPC is unavailable''), p)
                | Some client \<Rightarrow>
                    if client = [] then (Inl (OtherError ''Codex official IPC is unavailable''), p) else (Inr client, p)))"

definition Available :: "pipe option \<Rightarrow> bool" where
  "Available pipe = (case pipe of None \<Rightarrow> False | Some p \<Rightarrow> (case dialCodexIPC p of (Inr _, _) \<Rightarrow> True | _ \<Rightarrow> False))"

text \<open>Who owns the thread: the reply, if it names an owner.\<close>

definition find_owner :: "string \<Rightarrow> string \<Rightarrow> pipe \<Rightarrow> (go_error + codexIPCResponse) \<times> pipe" where
  "find_owner client threadID p =
     (case requestTo client ''thread-owner-discovery'' 1
             (JObject [(''hostId'', JString ''local''), (''conversationId'', JString threadID)]) [] p of
        (Inl e, p) \<Rightarrow> (Inl e, p)
      | (Inr owner, p) \<Rightarrow>
          if ir_ResultType owner \<noteq> ''success'' \<or> ir_HandledByClient owner = []
          then (Inl (Sentinel errCodexIPCOwnerMissing), p) else (Inr owner, p))"

definition turn_params :: "string \<Rightarrow> ResumeSettings \<Rightarrow> string \<Rightarrow> json list \<Rightarrow> json" where
  "turn_params threadID settings messageID items = JObject
     [(''conversationId'', JString threadID),
      (''turnStart'', JObject
         [(''request'', officialIPCStartRequest threadID settings messageID),
          (''context'', JObject [(''inheritThreadSettings'', JBool True), (''responseItems'', JArray items)])])]"

definition start_turn_at :: "string \<Rightarrow> string \<Rightarrow> ResumeSettings \<Rightarrow> json list \<Rightarrow> string \<Rightarrow> pipe \<Rightarrow> (go_error + unit) \<times> pipe" where
  "start_turn_at client threadID settings items owner p =
     (let params = turn_params threadID settings (next_id p) items; p = p\<lparr>pp_ids := Suc (pp_ids p)\<rparr>
      in case requestTo client ''thread-follower-start-turn'' 2 params owner p of
           (Inl e, p) \<Rightarrow> (Inl e, p)
         | (Inr _, p) \<Rightarrow> (Inr (), p))"

definition clean_thread_id :: "string \<Rightarrow> string" where
  "clean_thread_id s = to_lower (trim_space s)"

definition is_thread_id :: "string \<Rightarrow> bool" where
  "is_thread_id threadID \<longleftrightarrow> thread_match (threadID @ ''.jsonl'') \<noteq> None"

definition StartTurn :: "string \<Rightarrow> ResumeSettings \<Rightarrow> pipe \<Rightarrow> (go_error + unit) \<times> pipe" where
  "StartTurn threadID settings p =
     (let threadID = clean_thread_id threadID
      in if \<not> is_thread_id threadID then (Inl (OtherError ''invalid thread id''), p)
         else (case dialCodexIPC p of
             (Inl e, p) \<Rightarrow> (Inl e, p)
           | (Inr client, p) \<Rightarrow>
               (case find_owner client threadID p of
                  (Inl e, p) \<Rightarrow> (Inl e, p)
                | (Inr owner, p) \<Rightarrow> start_turn_at client threadID settings [] (ir_HandledByClient owner) p)))"

definition accepts_notices :: "codexIPCResponse \<Rightarrow> bool" where
  "accepts_notices owner \<longleftrightarrow>
     ir_Result owner \<noteq> [] \<and>
     Option.bind (unmarshal_struct (ir_Result owner)) (bool_field ''supportsUntrustedAppInput'') = Some True"

definition NotifySubagentRecovery ::
    "string \<Rightarrow> string \<Rightarrow> string \<Rightarrow> ResumeSettings \<Rightarrow> pipe \<Rightarrow> (go_error + unit) \<times> pipe" where
  "NotifySubagentRecovery parentID childID eventID settings p =
     (let parentID = clean_thread_id parentID; childID = clean_thread_id childID
      in if \<not> recovery_event_id eventID \<or> \<not> is_thread_id parentID \<or> \<not> is_thread_id childID
         then (Inl (OtherError ''invalid subagent recovery identity''), p)
         else (case dialCodexIPC p of
             (Inl e, p) \<Rightarrow> (Inl e, p)
           | (Inr client, p) \<Rightarrow>
               (case find_owner client parentID p of
                  (Inl e, p) \<Rightarrow> (Inl e, p)
                | (Inr owner, p) \<Rightarrow>
                    if \<not> accepts_notices owner
                    then (Inl (OtherError ''Codex parent owner does not accept recovery events''), p)
                    else start_turn_at client parentID settings [notice_item parentID childID eventID]
                           (ir_HandledByClient owner) p)))"

end
