(* ===== verification/App_Rpc.thy ===== *)
theory App_Rpc
  imports Shared_Controller
begin

section \<open>The connection to the app server (app\_server\_rpc.go)\<close>

text \<open>
  A websocket delivers whole messages: \<open>cn_in\<close> is what the server will have sent before the
  connection ends or the deadline passes; a read then is an error. What the watchdog sent is
  \<open>cn_out\<close>. The destination of a result is a function from its text to a value, absent for \<open>nil\<close>.
\<close>

record appServerWireMessage =
  wm_ID :: string
  wm_Method :: string
  wm_Result :: string
  wm_Error :: "(int \<times> string) option"

definition decode_error :: "(string \<times> json) list option \<Rightarrow> (int \<times> string) option option" where
  "decode_error ms =
     (case ms of
        None \<Rightarrow> Some None
      | Some xs \<Rightarrow>
          Option.bind (dec_field json_int ''code'' xs 0) (\<lambda>code.
          Option.bind (string_field ''message'' xs) (\<lambda>msg. Some (Some (code, msg)))))"

definition decode_wire :: "string \<Rightarrow> appServerWireMessage option" where
  "decode_wire data =
     (case unmarshal_struct data of
        None \<Rightarrow> None
      | Some ms \<Rightarrow>
          Option.bind (string_field ''jsonrpc'' ms) (\<lambda>_.
          Option.bind (string_field ''method'' ms) (\<lambda>rpc_method.
          Option.bind (Option.bind (dec_pointer ''error'' ms None) decode_error) (\<lambda>err.
          Some \<lparr>wm_ID = raw_field ''id'' (raw_object data), wm_Method = rpc_method,
                wm_Result = raw_field ''result'' (raw_object data), wm_Error = err\<rparr>))))"

text \<open>\<open>json.Unmarshal(message.ID, &responseID)\<close>; \<open>null\<close> leaves the zero.\<close>

definition response_id :: "string \<Rightarrow> int option" where
  "response_id raw =
     (case parse_json raw of
        Some JNull \<Rightarrow> Some 0
      | Some v \<Rightarrow> json_int v
      | None \<Rightarrow> None)"

record connection =
  cn_in :: "string list"
  cn_out :: "json list"
  cn_ok :: "nat \<Rightarrow> bool"
  cn_nextID :: int
  cn_writes :: nat

definition write_json :: "json \<Rightarrow> connection \<Rightarrow> bool \<times> connection" where
  "write_json msg c =
     (let sent = cn_ok c (cn_writes c); c = c\<lparr>cn_writes := Suc (cn_writes c)\<rparr>
      in (sent, if sent then c\<lparr>cn_out := cn_out c @ [msg]\<rparr> else c))"

definition rejection :: "string \<Rightarrow> json" where
  "rejection raw_id = JObject
     [(''jsonrpc'', JString ''2.0''), (''id'', (case parse_json raw_id of Some v \<Rightarrow> v | None \<Rightarrow> JNull)),
      (''error'', JObject [(''code'', JInt (- 32601)),
        (''message'', JString ''Interactive request unavailable in background recovery'')])]"

definition rpc_request :: "int \<Rightarrow> string \<Rightarrow> json \<Rightarrow> json" where
  "rpc_request i rpc_method params = JObject
     [(''jsonrpc'', JString ''2.0''), (''id'', JInt i), (''method'', JString rpc_method), (''params'', params)]"

definition is_server_request :: "appServerWireMessage \<Rightarrow> bool" where
  "is_server_request m \<longleftrightarrow> wm_Method m \<noteq> [] \<and> wm_ID m \<noteq> [] \<and> wm_ID m \<noteq> ''null''"

definition is_reply_to :: "int \<Rightarrow> appServerWireMessage \<Rightarrow> bool" where
  "is_reply_to i m \<longleftrightarrow> wm_ID m \<noteq> [] \<and> response_id (wm_ID m) = Some i"

definition call_result ::
    "string \<Rightarrow> (string \<Rightarrow> 'a option) option \<Rightarrow> appServerWireMessage \<Rightarrow> go_error + 'a option" where
  "call_result rpc_method destination m =
     (case wm_Error m of
        Some (code, msg) \<Rightarrow> Inl (appServerRequestError rpc_method code msg)
      | None \<Rightarrow>
          (case destination of
             None \<Rightarrow> Inr None
           | Some decode \<Rightarrow>
               if wm_Result m = [] \<or> wm_Result m = ''null'' then Inr None
               else (case decode (wm_Result m) of
                       None \<Rightarrow> Inl (appServerCallError rpc_method (OtherError ''decode app-server result''))
                     | Some x \<Rightarrow> Inr (Some x))))"

text \<open>The loop over the messages that arrive.\<close>

fun await_call ::
    "int \<Rightarrow> string \<Rightarrow> (string \<Rightarrow> 'a option) option \<Rightarrow> string list \<Rightarrow> connection \<Rightarrow> (go_error + 'a option) \<times> connection" where
  "await_call i rpc_method destination [] c =
     (Inl (appServerCallError rpc_method (OtherError ''read'')), c\<lparr>cn_in := []\<rparr>)"
| "await_call i rpc_method destination (data # rest) c =
     (case decode_wire data of
        None \<Rightarrow> await_call i rpc_method destination rest c
      | Some m \<Rightarrow>
          if is_server_request m then await_call i rpc_method destination rest (snd (write_json (rejection (wm_ID m)) c))
          else if \<not> is_reply_to i m then await_call i rpc_method destination rest c
          else (call_result rpc_method destination m, c\<lparr>cn_in := rest\<rparr>))"

definition Call ::
    "string \<Rightarrow> json \<Rightarrow> (string \<Rightarrow> 'a option) option \<Rightarrow> connection \<Rightarrow> (go_error + 'a option) \<times> connection" where
  "Call rpc_method params destination c =
     (let i = cn_nextID c + 1; c = c\<lparr>cn_nextID := i\<rparr>
      in case write_json (rpc_request i rpc_method params) c of
           (sent, c) \<Rightarrow>
             if sent then await_call i rpc_method destination (cn_in c) c
             else (Inl (appServerCallError rpc_method (OtherError ''write'')), c))"

definition Notify :: "string \<Rightarrow> json \<Rightarrow> connection \<Rightarrow> go_error option \<times> connection" where
  "Notify rpc_method params c =
     (case write_json (JObject [(''jsonrpc'', JString ''2.0''), (''method'', JString rpc_method), (''params'', params)]) c of
        (sent, c) \<Rightarrow> (if sent then None else Some (OtherError ''write''), c))"

text \<open>\<open>dialAppServerRPC\<close> on a connection that was opened.\<close>

definition initialize_params :: "string \<Rightarrow> json" where
  "initialize_params appVersion = JObject
     [(''clientInfo'', JObject [(''name'', JString ''codex_auto_retry''), (''version'', JString appVersion)]),
      (''capabilities'', JObject [(''experimentalApi'', JBool True)])]"

definition dialAppServerRPC :: "string \<Rightarrow> connection \<Rightarrow> go_error option \<times> connection" where
  "dialAppServerRPC appVersion c =
     (case Call ''initialize'' (initialize_params appVersion) (None :: (string \<Rightarrow> unit option) option) (c\<lparr>cn_nextID := 1\<rparr>) of
        (Inl e, c) \<Rightarrow> (Some e, c)
      | (Inr _, c) \<Rightarrow> Notify ''initialized'' (JObject []) c)"

end
