(* ===== verification/Connection_Properties.thy ===== *)
theory Connection_Properties
  imports Desktop_Ipc App_Rpc
begin

section \<open>Requests and their replies\<close>

text \<open>
  What the two connections guarantee to their callers: a call ends with the reply to its own request
  whatever else arrives in between, and a turn is started at most once, at the owner of the thread.
\<close>

subsection \<open>The app server\<close>

text \<open>The messages up to the reply, and what a reader that only looks for the reply would find.\<close>

definition answers :: "int \<Rightarrow> appServerWireMessage \<Rightarrow> bool" where
  "answers i m \<longleftrightarrow> \<not> is_server_request m \<and> wm_ID m \<noteq> [] \<and> response_id (wm_ID m) = Some i"

definition readable :: "string list \<Rightarrow> appServerWireMessage list" where
  "readable data = List.map_filter decode_wire data"

definition own_reply :: "int \<Rightarrow> string list \<Rightarrow> appServerWireMessage option" where
  "own_reply i data = find (answers i) (readable data)"

definition requests_before :: "int \<Rightarrow> string list \<Rightarrow> appServerWireMessage list" where
  "requests_before i data = filter is_server_request (takeWhile (\<lambda>m. \<not> answers i m) (readable data))"

lemma readable_simps [simp]:
  "readable [] = []"
  "readable (x # xs) = (case decode_wire x of None \<Rightarrow> readable xs | Some m \<Rightarrow> m # readable xs)"
  by (simp_all add: readable_def List.map_filter_simps split: option.split)

fun reject_all :: "appServerWireMessage list \<Rightarrow> connection \<Rightarrow> connection" where
  "reject_all [] c = c"
| "reject_all (m # ms) c = reject_all ms (snd (write_json (rejection (wm_ID m)) c))"

lemma write_json_in [simp]: "cn_in (snd (write_json msg c)) = cn_in c" "cn_nextID (snd (write_json msg c)) = cn_nextID c"
    "cn_ok (snd (write_json msg c)) = cn_ok c"
  by (simp_all add: write_json_def Let_def)

lemma reject_all_keeps [simp]: "cn_nextID (reject_all ms c) = cn_nextID c" "cn_ok (reject_all ms c) = cn_ok c"
  by (induction ms arbitrary: c) simp_all

lemma reject_all_out:
  "(\<And>n. cn_ok c n) \<Longrightarrow> cn_out (reject_all ms c) = cn_out c @ map (\<lambda>m. rejection (wm_ID m)) ms"
  by (induction ms arbitrary: c) (simp_all add: write_json_def Let_def)

lemma write_json_reads: "snd (write_json msg (c\<lparr>cn_in := xs\<rparr>)) = (snd (write_json msg c))\<lparr>cn_in := xs\<rparr>"
  by (simp add: write_json_def Let_def)

lemma await_call_reply:
  "fst (await_call i rpc_method destination data c) =
     (case own_reply i data of
        None \<Rightarrow> Inl (appServerCallError rpc_method (OtherError ''read''))
      | Some m \<Rightarrow> call_result rpc_method destination m)"
  by (induction i rpc_method destination data c rule: await_call.induct)
    (auto simp: own_reply_def answers_def is_reply_to_def split: option.split)

lemma await_call_writes:
  "\<exists>rest. snd (await_call i rpc_method destination data c) = (reject_all (requests_before i data) c)\<lparr>cn_in := rest\<rparr>"
  by (induction i rpc_method destination data c rule: await_call.induct)
    (auto simp: requests_before_def answers_def is_reply_to_def split: option.split)

text \<open>
  C33: a call on the app server writes one request under a number of its own and then ends with the
  first message that answers this number, decoded as the caller asked, or with an error when none
  comes. Whatever arrives before it is dropped, answers to earlier requests included, except for
  requests of the server, each of which is rejected at once. A call whose request could not be written
  reads nothing.
\<close>

theorem call_gets_own_reply:
  "case Call rpc_method params destination c of (r, c') \<Rightarrow>
     let i = cn_nextID c + 1; (sent, c1) = write_json (rpc_request i rpc_method params) (c\<lparr>cn_nextID := i\<rparr>)
     in cn_nextID c' = i \<and>
        (if sent
         then r = (case own_reply i (cn_in c) of
               None \<Rightarrow> Inl (appServerCallError rpc_method (OtherError ''read''))
             | Some m \<Rightarrow> call_result rpc_method destination m) \<and>
           cn_out c' = cn_out (reject_all (requests_before i (cn_in c)) c1)
         else r = Inl (appServerCallError rpc_method (OtherError ''write'')) \<and> c' = c1)"
proof -
  let ?i = "cn_nextID c + 1" and ?c = "c\<lparr>cn_nextID := cn_nextID c + 1\<rparr>"
  obtain sent c1 where w: "write_json (rpc_request ?i rpc_method params) ?c = (sent, c1)" by fastforce
  have "cn_in c1 = cn_in c" "cn_nextID c1 = ?i"
    using write_json_in [of "rpc_request ?i rpc_method params" ?c] w by simp_all
  moreover obtain rest where
    "snd (await_call ?i rpc_method destination (cn_in c) c1) = (reject_all (requests_before ?i (cn_in c)) c1)\<lparr>cn_in := rest\<rparr>"
    using await_call_writes by blast
  ultimately show ?thesis
    using await_call_reply [of ?i rpc_method destination "cn_in c" c1] w
    by (cases "await_call ?i rpc_method destination (cn_in c) c1") (auto simp: Call_def Let_def split: option.splits)
qed

subsection \<open>The frames of the pipe\<close>

text \<open>Reading frames until the stream ends.\<close>

function read_frames :: "string \<Rightarrow> string list" where
  "read_frames s =
     (case readFrame s of framePayload payload rest \<Rightarrow> payload # read_frames rest | _ \<Rightarrow> [])"
  by pat_completeness auto

termination
  by (relation "measure length") (auto dest: readFrame_shorter)

declare read_frames.simps [simp del]

text \<open>
  The frames of messages of up to 256 MiB, written one after the other, are read back as exactly
  these messages, whatever bytes they hold.
\<close>

theorem frames_roundtrip:
  assumes "\<forall>m\<in>set messages. m \<noteq> [] \<and> length m \<le> max_frame"
  shows "read_frames (concat (map writeFrame messages)) = messages"
  using assms
proof (induction messages)
  case Nil
  then show ?case by (simp add: read_frames.simps readFrame_def)
next
  case (Cons m messages)
  then show ?case by (simp add: read_frames.simps readFrame_writeFrame)
qed

theorem frames_roundtrip_witness: "read_frames (concat (map writeFrame [''ab'', [CHR 0x00, CHR 0xFF], ''c''])) = [''ab'', [CHR 0x00, CHR 0xFF], ''c'']"
  by (rule frames_roundtrip) (simp add: max_frame_def)

subsection \<open>Turns through the Desktop\<close>

definition starts_turn :: "json \<Rightarrow> bool" where
  "starts_turn msg \<longleftrightarrow> (case msg of JObject ms \<Rightarrow> map_of ms ''method'' = Some (JString ''thread-follower-start-turn'') | _ \<Rightarrow> False)"

lemma starts_turn_simps [simp]:
  "\<not> starts_turn (discovery_response i)"
  "starts_turn (request_message i client rpc_method version params target) \<longleftrightarrow> rpc_method = ''thread-follower-start-turn''"
  by (simp_all add: starts_turn_def discovery_response_def request_message_def)

definition turns_started :: "pipe \<Rightarrow> json list" where
  "turns_started p = filter starts_turn (pp_out p)"

lemma send_turns:
  "send msg p = (sent, p') \<Longrightarrow> turns_started p' = turns_started p @ (if sent \<and> starts_turn msg then [msg] else [])"
  by (auto simp: send_def turns_started_def Let_def)

lemma await_reply_turns: "turns_started (snd (await_reply i p)) = turns_started p"
proof (induction i p rule: await_reply.induct)
  case (1 i p)
  have [simp]: "turns_started (p\<lparr>pp_in := rest\<rparr>) = turns_started p" for p rest by (simp add: turns_started_def)
  have [simp]: "turns_started (snd (send (discovery_response j) p)) = turns_started p" for j p
    using send_turns [of "discovery_response j" p] by (cases "send (discovery_response j) p") auto
  show ?case
    unfolding await_reply.simps [of i p]
    using 1 by (auto simp: Let_def split: frame_read.split option.split)
qed

lemma await_reply_own: "await_reply i p = (Inr response, p') \<Longrightarrow> ir_RequestID response = i"
proof (induction i p rule: await_reply.induct)
  case (1 i p)
  note run = 1(4) [unfolded await_reply.simps [of i p]]
  show ?case
  proof (cases "readFrame (pp_in p)")
    case frame: (framePayload payload rest)
    show ?thesis
    proof (cases "decode_response payload")
      case None
      with run frame show ?thesis by simp
    next
      case (Some r)
      note IH = 1(1-3) [OF frame refl Some]
      have eq: "(if ir_Type r = ''broadcast'' then await_reply i (p\<lparr>pp_in := rest\<rparr>)
          else if ir_Type r = ''client-discovery-request''
            then await_reply i (snd (send (discovery_response (ir_RequestID r)) (p\<lparr>pp_in := rest\<rparr>)))
          else if ir_RequestID r \<noteq> i then await_reply i (p\<lparr>pp_in := rest\<rparr>)
          else if ir_ResultType r = ''error''
            then (if ir_Error r = ''no-client-found'' then (Inl (Sentinel errCodexIPCOwnerMissing), p\<lparr>pp_in := rest\<rparr>)
                  else (Inl (Wrapped ''Codex official IPC request failed'' (Sentinel errAppServerRequest)), p\<lparr>pp_in := rest\<rparr>))
          else (Inr r, p\<lparr>pp_in := rest\<rparr>)) = (Inr response, p')"
        using run unfolding frame frame_read.case Let_def Some option.case .
      show ?thesis
        using eq IH
        by (cases "ir_Type r = ''broadcast''"; cases "ir_Type r = ''client-discovery-request''"; cases "ir_RequestID r = i")
          (simp_all split: if_splits)
    qed
  qed (use run in simp_all)
qed

lemma requestTo_turns:
  "requestTo client rpc_method version params target p = (r, p') \<Longrightarrow>
     (turns_started p' = turns_started p \<and> (rpc_method = ''thread-follower-start-turn'' \<longrightarrow> isl r)) \<or>
     (rpc_method = ''thread-follower-start-turn'' \<and>
      turns_started p' = turns_started p @ [request_message (next_id p) client rpc_method version params target])"
proof -
  assume run: "requestTo client rpc_method version params target p = (r, p')"
  let ?msg = "request_message (next_id p) client rpc_method version params target" and ?p = "p\<lparr>pp_ids := Suc (pp_ids p)\<rparr>"
  obtain sent p1 where s: "send ?msg ?p = (sent, p1)" by fastforce
  have "turns_started p1 = turns_started p @ (if sent \<and> starts_turn ?msg then [?msg] else [])"
    using send_turns [OF s] by (simp add: turns_started_def)
  then show ?thesis
    using run s await_reply_turns [of "next_id p" p1] by (auto simp: requestTo_def Let_def split: if_splits)
qed

lemma dial_turns: "dialCodexIPC p = (r, p') \<Longrightarrow> turns_started p' = turns_started p"
  by (auto simp: dialCodexIPC_def dest!: requestTo_turns split: prod.splits sum.splits option.splits if_splits)

lemma find_owner_turns: "find_owner client threadID p = (r, p') \<Longrightarrow> turns_started p' = turns_started p"
  by (auto simp: find_owner_def dest!: requestTo_turns split: prod.splits sum.splits if_splits)

lemma start_turn_at_turns:
  "start_turn_at client threadID settings items owner p = (r, p') \<Longrightarrow>
     (turns_started p' = turns_started p \<and> isl r) \<or>
     (\<exists>i messageID. turns_started p' = turns_started p @
        [request_message i client ''thread-follower-start-turn'' 2 (turn_params threadID settings messageID items) owner])"
  by (fastforce simp: start_turn_at_def Let_def turns_started_def dest!: requestTo_turns split: prod.splits sum.splits)

text \<open>The one turn that an operation may have started: asked of the Desktop it dialled, at the owner it named.\<close>

definition one_turn_at_owner :: "(codexIPCResponse \<Rightarrow> bool) \<Rightarrow> string \<Rightarrow> ResumeSettings \<Rightarrow> json list \<Rightarrow> pipe \<Rightarrow> pipe \<Rightarrow> bool" where
  "one_turn_at_owner fits threadID settings items p p' \<longleftrightarrow>
     (\<exists>client p1 owner p2 i messageID.
        dialCodexIPC p = (Inr client, p1) \<and> find_owner client threadID p1 = (Inr owner, p2) \<and>
        ir_RequestID owner = next_id p1 \<and> ir_ResultType owner = ''success'' \<and> ir_HandledByClient owner \<noteq> [] \<and>
        fits owner \<and>
        turns_started p' = turns_started p @
          [request_message i client ''thread-follower-start-turn'' 2 (turn_params threadID settings messageID items)
             (ir_HandledByClient owner)])"

lemma find_owner_named: "find_owner client threadID p = (Inr owner, p') \<Longrightarrow>
    ir_RequestID owner = next_id p \<and> ir_ResultType owner = ''success'' \<and> ir_HandledByClient owner \<noteq> []"
  by (auto simp: find_owner_def requestTo_def Let_def dest: await_reply_own split: prod.splits sum.splits if_splits)

lemma turn_at_owner:
  assumes "dialCodexIPC p = (Inr client, p1)" "find_owner client threadID p1 = (Inr owner, p2)" "fits owner"
    "start_turn_at client threadID settings items (ir_HandledByClient owner) p2 = (r, p')"
  shows "turns_started p' = turns_started p \<and> isl r \<or> one_turn_at_owner fits threadID settings items p p'"
  using start_turn_at_turns [OF assms(4)] dial_turns [OF assms(1)] find_owner_turns [OF assms(2)]
    find_owner_named [OF assms(2)] assms(1-3)
  unfolding one_turn_at_owner_def by auto

text \<open>
  C32: continuing a thread through the Desktop, and announcing the recovery of a subagent, either fails
  without a request to start a turn, or writes exactly one such request. It names the thread in its
  clean form, carries no input (the announcement: the one notice), and goes to the client that the
  Desktop named as the owner of this very thread in its reply to our question; for the announcement one that accepts such input. A
  success is reported only in the second case.
\<close>

theorem desktop_turn_once:
  "case StartTurn threadID settings p of (r, p') \<Rightarrow>
     case NotifySubagentRecovery parentID childID eventID settings q of (s, q') \<Rightarrow>
       (turns_started p' = turns_started p \<and> isl r \<or>
        is_thread_id (clean_thread_id threadID) \<and>
        one_turn_at_owner (\<lambda>_. True) (clean_thread_id threadID) settings [] p p') \<and>
       (turns_started q' = turns_started q \<and> isl s \<or>
        is_thread_id (clean_thread_id parentID) \<and> is_thread_id (clean_thread_id childID) \<and> recovery_event_id eventID \<and>
        one_turn_at_owner accepts_notices (clean_thread_id parentID) settings
          [notice_item (clean_thread_id parentID) (clean_thread_id childID) eventID] q q')"
proof -
  obtain r p' s q' where runs: "StartTurn threadID settings p = (r, p')"
    "NotifySubagentRecovery parentID childID eventID settings q = (s, q')" by fastforce
  have "turns_started p' = turns_started p \<and> isl r \<or>
      is_thread_id (clean_thread_id threadID) \<and> one_turn_at_owner (\<lambda>_. True) (clean_thread_id threadID) settings [] p p'"
    using runs(1) turn_at_owner [where fits = "\<lambda>_. True"]
    by (auto simp: StartTurn_def Let_def dial_turns find_owner_turns split: if_splits prod.splits sum.splits)
  moreover have "turns_started q' = turns_started q \<and> isl s \<or>
      is_thread_id (clean_thread_id parentID) \<and> is_thread_id (clean_thread_id childID) \<and> recovery_event_id eventID \<and>
      one_turn_at_owner accepts_notices (clean_thread_id parentID) settings
        [notice_item (clean_thread_id parentID) (clean_thread_id childID) eventID] q q'"
    using runs(2) turn_at_owner [where fits = accepts_notices]
    by (auto simp: NotifySubagentRecovery_def Let_def dial_turns find_owner_turns split: if_splits prod.splits sum.splits)
  ultimately show ?thesis using runs by simp
qed

end
