(* ===== verification/Lookup.thy ===== *)
theory Lookup
  imports Scanner Resume_Settings "HOL-Library.List_Lexorder" "HOL-Library.Char_ord" "HOL-Library.AList"
begin

section \<open>Looking up rollouts (resume\_settings.go, thread\_parent.go, roots.go)\<close>

text \<open>
  What the watchdog finds on disk: the rollout of a thread that was written last, the settings and
  the parent of a thread in it, and the roots to watch. \<open>filepath.WalkDir\<close> is the list of entries it
  calls back for, \<open>open_file\<close> what opening and reading a file gives: its bytes and whether the read
  ends in an error. \<open>sort.Slice\<close> is taken to keep the order of entries with equal times, as it does
  for up to twelve of them.
\<close>

definition filepath_Join :: "string \<Rightarrow> string \<Rightarrow> string" where
  "filepath_Join a b = (if a = [] then (if b = [] then [] else filepath_Clean b) else filepath_Clean (a @ separator # b))"

text \<open>\<open>filepath.Ext\<close>: from the last dot of the last element on; and the directory of a path.\<close>

definition filepath_Ext :: "string \<Rightarrow> string" where
  "filepath_Ext path =
     (let name = rev (takeWhile (\<lambda>c. \<not> is_sep c) (rev path));
          suffix = takeWhile (\<lambda>c. c \<noteq> CHR ''.'') (rev name)
      in if CHR ''.'' \<in> set name then CHR ''.'' # rev suffix else [])"

definition filepath_Dir :: "string \<Rightarrow> string" where
  "filepath_Dir path =
     (case clean_volume path of (vol, rest) \<Rightarrow>
        vol @ filepath_Clean (rev (dropWhile (\<lambda>c. \<not> is_sep c) (rev rest))))"

subsection \<open>The newest rollout of a thread\<close>

record found_file =
  ff_Path :: string
  ff_Error :: bool
  ff_IsDir :: bool
  ff_Updated :: "int option"

record disk =
  dk_Walk :: "string \<Rightarrow> found_file list"
  dk_Open :: "string \<Rightarrow> (string \<times> bool) option"
  dk_IsDir :: "string \<Rightarrow> bool"
  dk_Expand :: "string \<Rightarrow> string"
  dk_CodexHome :: string
  dk_UserHome :: "string option"
  dk_Glob :: "string \<Rightarrow> string list"

definition thread_candidate :: "string \<Rightarrow> found_file \<Rightarrow> (string \<times> int) option" where
  "thread_candidate threadID f =
     (if ff_Error f \<or> ff_IsDir f \<or> threadIDFromPath (ff_Path f) \<noteq> threadID then None
      else map_option (\<lambda>updated. (filepath_Clean (ff_Path f), updated)) (ff_Updated f))"

definition thread_candidates :: "disk \<Rightarrow> string \<Rightarrow> string \<Rightarrow> (string \<times> int) list" where
  "thread_candidates disk codexHome threadID =
     concat (map (\<lambda>directory. List.map_filter (thread_candidate threadID) (dk_Walk disk (filepath_Join codexHome directory)))
       [''sessions'', ''archived_sessions''])"

definition newest_first :: "(string \<times> int) list \<Rightarrow> (string \<times> int) list" where
  "newest_first candidates = sort_key (\<lambda>(_, updated). - updated) candidates"

definition valid_identity :: "string \<Rightarrow> string \<Rightarrow> bool" where
  "valid_identity codexHome threadID \<longleftrightarrow> filepath_IsAbs codexHome \<and> thread_match (threadID @ ''.jsonl'') \<noteq> None"

subsection \<open>Settings\<close>

definition load_settings_at :: "disk \<Rightarrow> string \<Rightarrow> string + ResumeSettings" where
  "load_settings_at disk path =
     (let path = filepath_Clean (trim_space path)
      in if path = ''.'' \<or> \<not> equal_fold (filepath_Ext path) ''.jsonl'' then Inl ''resume settings unavailable''
         else (case dk_Open disk path of
             None \<Rightarrow> Inl ''rollout open''
           | Some (content, fails) \<Rightarrow> if fails then Inl ''rollout read'' else loadLatestResumeSettings content))"

definition findThreadResumeSettings :: "disk \<Rightarrow> string \<Rightarrow> string \<Rightarrow> string + ResumeSettings" where
  "findThreadResumeSettings disk codexHome threadID =
     (let codexHome = filepath_Clean (trim_space codexHome); threadID = to_lower (trim_space threadID)
      in if \<not> valid_identity codexHome threadID then Inl ''resume settings unavailable''
         else (case newest_first (thread_candidates disk codexHome threadID) of
             [] \<Rightarrow> Inl ''parent rollout missing''
           | (path, _) # _ \<Rightarrow> load_settings_at disk path))"

subsection \<open>The parent\<close>

definition parent_values :: "(string \<times> json) list \<Rightarrow> string list option" where
  "parent_values ms =
     do {
       direct \<leftarrow> string_field ''parent_thread_id'' ms;
       payload \<leftarrow> dec_nested ''payload'' ms;
       first \<leftarrow> string_field ''parent_thread_id'' payload;
       second \<leftarrow> string_field ''parentThreadId'' payload;
       source \<leftarrow> dec_nested ''source'' ms;
       agent \<leftarrow> dec_nested ''subAgent'' source;
       spawn \<leftarrow> dec_nested ''thread_spawn'' agent;
       nested \<leftarrow> string_field ''parent_thread_id'' spawn;
       Some [direct, first, second, nested]
     }"

definition first_thread_id :: "string list \<Rightarrow> string" where
  "first_thread_id values =
     (case find (\<lambda>v. thread_match (v @ ''.jsonl'') \<noteq> None) (map (\<lambda>v. to_lower (trim_space v)) values) of
        Some v \<Rightarrow> v
      | None \<Rightarrow> [])"

text \<open>A line: \<open>None\<close> is no metadata, the search goes on; otherwise the line decides.\<close>

definition inspect_parent :: "string \<Rightarrow> string option" where
  "inspect_parent line =
     (if \<not> contains_sub line ''parent_thread_id'' \<and> \<not> contains_sub line ''parentThreadId'' then None
      else map_option first_thread_id (Option.bind (unmarshal_struct line) parent_values))"

text \<open>
  \<open>bufio.Scanner\<close> with a buffer of 256 KiB: a line, with its end, that does not fit is an error; what
  stands before an error of the read is still delivered.
\<close>

definition max_token :: nat where
  "max_token = 256 * 1024"

function scan_parent :: "bool \<Rightarrow> string \<Rightarrow> string + string" where
  "scan_parent fails s =
     (case read_line s of
        (line, Some rest) \<Rightarrow>
          if length line > max_token then Inl ''token too long''
          else (case inspect_parent (trim_carriage (butlast line)) of
              Some parent \<Rightarrow> Inr parent
            | None \<Rightarrow> scan_parent fails rest)
      | (line, None) \<Rightarrow>
          if length line \<ge> max_token then Inl ''token too long''
          else (case (if line = [] then None else inspect_parent (trim_carriage line)) of
              Some parent \<Rightarrow> Inr parent
            | None \<Rightarrow> if fails then Inl ''read'' else Inr []))"
  by pat_completeness auto

termination
  by (relation "measure (\<lambda>(_, s). length s)") (auto dest: read_line_shorter [OF sym])

declare scan_parent.simps [simp del]

definition findThreadParentID :: "disk \<Rightarrow> string \<Rightarrow> string \<Rightarrow> string + string" where
  "findThreadParentID disk codexHome threadID =
     (let codexHome = filepath_Clean (trim_space codexHome); threadID = to_lower (trim_space threadID)
      in if \<not> valid_identity codexHome threadID then Inl ''invalid thread identity''
         else (case newest_first (thread_candidates disk codexHome threadID) of
             [] \<Rightarrow> Inr []
           | (path, _) # _ \<Rightarrow>
               (case dk_Open disk path of None \<Rightarrow> Inr [] | Some (content, fails) \<Rightarrow> scan_parent fails content)))"

subsection \<open>The roots\<close>

type_synonym roots = "(string \<times> sessionRoot) list"

definition add_root :: "disk \<Rightarrow> string \<Rightarrow> roots \<Rightarrow> roots" where
  "add_root disk path seen =
     (let path = dk_Expand disk path;
          base = to_lower (filepath_Base path);
          home = (if base = ''sessions'' \<or> base = ''archived_sessions'' then filepath_Dir path else path);
          sessions = filepath_Join home ''sessions'';
          archived = filepath_Join home ''archived_sessions''
      in if \<not> dk_IsDir disk sessions \<and> \<not> dk_IsDir disk archived then seen
         else let home = filepath_Clean home
              in AList.update (to_lower home)
                   \<lparr>sr_Sessions = (if dk_IsDir disk sessions then sessions else []),
                    sr_ArchivedSessions = (if dk_IsDir disk archived then archived else []),
                    sr_CodexHome = home\<rparr> seen)"

definition root_paths :: "disk \<Rightarrow> Config \<Rightarrow> string list" where
  "root_paths disk c =
     (if c_IncludeDefaultHome c \<and> dk_CodexHome disk \<noteq> [] then [dk_CodexHome disk] else []) @
     (case dk_UserHome disk of
        None \<Rightarrow> []
      | Some home \<Rightarrow>
          (if c_IncludeDefaultHome c then [filepath_Join home ''.codex''] else []) @
          (if c_IncludeCockpitHomes c
           then dk_Glob disk (filepath_Join home (join_with [separator]
                  [''.antigravity_cockpit'', ''instances'', ''codex'', ''*'', ''sessions'']))
           else [])) @
     c_SessionRoots c"

definition discoverSessionRoots :: "disk \<Rightarrow> Config \<Rightarrow> sessionRoot list" where
  "discoverSessionRoots disk c =
     (let seen = fold (add_root disk) (root_paths disk c) []
      in map (the \<circ> map_of seen) (sort (map fst seen)))"

subsection \<open>What the lookups give\<close>

definition clean_thread :: "string \<Rightarrow> bool" where
  "clean_thread p \<longleftrightarrow> p = [] \<or> thread_match (p @ ''.jsonl'') \<noteq> None \<and> to_lower p = p"

lemma first_thread_id_clean: "clean_thread (first_thread_id values)"
proof (cases "find (\<lambda>v. thread_match (v @ ''.jsonl'') \<noteq> None) (map (\<lambda>v. to_lower (trim_space v)) values)")
  case None
  then show ?thesis by (simp add: first_thread_id_def clean_thread_def)
next
  case (Some v)
  then have "thread_match (v @ ''.jsonl'') \<noteq> None" "v \<in> (\<lambda>v. to_lower (trim_space v)) ` set values"
    by (auto simp: find_Some_iff)
  with Some show ?thesis by (auto simp: first_thread_id_def clean_thread_def)
qed

lemma inspect_parent_clean: "inspect_parent line = Some p \<Longrightarrow> clean_thread p"
  using first_thread_id_clean by (auto simp: inspect_parent_def split: if_splits)

lemma scan_parent_clean: "scan_parent fails s = Inr p \<Longrightarrow> clean_thread p"
proof (induction fails s rule: scan_parent.induct)
  case (1 fails s)
  note run = 1(2) [unfolded scan_parent.simps [of fails s]]
  have none: "clean_thread []" by (simp add: clean_thread_def)
  obtain l r where l: "read_line s = (l, r)" by fastforce
  show ?case
  proof (cases r)
    case None
    with run l none inspect_parent_clean show ?thesis by (auto split: if_splits option.splits)
  next
    case (Some rest)
    note IH = 1(1) [OF l [symmetric] Some]
    show ?thesis
      using run l Some IH inspect_parent_clean by (auto split: if_splits option.splits)
  qed
qed

text \<open>The parent found for a thread is none, or a thread id in its clean form.\<close>

lemma findThreadParentID_clean: "findThreadParentID disk codexHome threadID = Inr p \<Longrightarrow> clean_thread p"
  using scan_parent_clean
  by (auto simp: findThreadParentID_def Let_def clean_thread_def split: if_splits list.splits option.splits prod.splits)

text \<open>Every root stands for a home of its own and has one of the two directories.\<close>

definition root_ok :: "disk \<Rightarrow> string \<Rightarrow> sessionRoot \<Rightarrow> bool" where
  "root_ok disk key r \<longleftrightarrow> key = to_lower (sr_CodexHome r) \<and>
     (sr_Sessions r \<noteq> [] \<and> dk_IsDir disk (sr_Sessions r) \<or> sr_ArchivedSessions r \<noteq> [] \<and> dk_IsDir disk (sr_ArchivedSessions r))"

definition seen_ok :: "disk \<Rightarrow> roots \<Rightarrow> bool" where
  "seen_ok disk seen \<longleftrightarrow> distinct (map fst seen) \<and> (\<forall>k r. map_of seen k = Some r \<longrightarrow> root_ok disk k r)"

lemma filepath_Clean_nonempty [simp]: "filepath_Clean path \<noteq> []"
  by (auto simp: filepath_Clean_def Let_def split: prod.split)

lemma filepath_Join_nonempty [simp]: "filepath_Join a (x # b) \<noteq> []"
  by (simp add: filepath_Join_def)

lemma update_ok: "seen_ok disk seen \<Longrightarrow> root_ok disk k r \<Longrightarrow> seen_ok disk (AList.update k r seen)"
  by (simp add: seen_ok_def distinct_update update_conv)

lemma add_root_ok: "seen_ok disk seen \<Longrightarrow> seen_ok disk (add_root disk path seen)"
  unfolding add_root_def Let_def by (rule if_split [THEN iffD2]) (auto intro!: update_ok simp: root_ok_def)

lemma roots_ok: "seen_ok disk seen \<Longrightarrow> seen_ok disk (fold (add_root disk) paths seen)"
  by (induction paths arbitrary: seen) (simp_all add: add_root_ok)

lemma discovered_roots:
  "let roots = discoverSessionRoots disk c; keys = map (\<lambda>r. to_lower (sr_CodexHome r)) roots
   in distinct keys \<and> sorted keys \<and> list_all (\<lambda>r. root_ok disk (to_lower (sr_CodexHome r)) r) roots"
proof -
  define seen where "seen = fold (add_root disk) (root_paths disk c) []"
  have ok: "seen_ok disk seen" unfolding seen_def by (rule roots_ok) (simp add: seen_ok_def)
  have found: "root_ok disk k (the (map_of seen k))" if "k \<in> fst ` set seen" for k
    using ok that map_of_eq_None_iff [of seen k] by (cases "map_of seen k") (auto simp: seen_ok_def)
  then have "to_lower (sr_CodexHome (the (map_of seen k))) = k" if "k \<in> fst ` set seen" for k
    using that by (simp add: root_ok_def)
  then have "map (\<lambda>k. to_lower (sr_CodexHome (the (map_of seen k)))) (sort (map fst seen)) = sort (map fst seen)"
    by (intro map_idI) simp
  then have "map (\<lambda>r. to_lower (sr_CodexHome r)) (discoverSessionRoots disk c) = sort (map fst seen)"
    by (simp add: discoverSessionRoots_def seen_def [symmetric] Let_def o_def)
  moreover have "list_all (\<lambda>r. root_ok disk (to_lower (sr_CodexHome r)) r) (discoverSessionRoots disk c)"
    using found by (auto simp: discoverSessionRoots_def seen_def [symmetric] Let_def list_all_iff root_ok_def)
  ultimately show ?thesis using ok by (simp add: Let_def seen_ok_def)
qed

end
