(* ===== verification/Frontends.thy ===== *)
theory Frontends
  imports Management_Lemmas Json_Raw Runner
begin

section \<open>The ways in: MCP tools and the command line (mcp\_server.go, main.go)\<close>

text \<open>
  Every tool of the MCP server and every local command of \<open>main\<close> is one operation of the management
  service. The SDK checks the input of a tool against its schema and is not modelled; an input is the
  struct it decodes. The hints are those the server announces for its tools.
\<close>

subsection \<open>Tools\<close>

record setRetrySettingsInput =
  si_RetryPrompt :: string
  si_MaxConsecutiveRetries :: int
  si_MaxRecoveryAttempts :: int
  si_AuthMaxAttempts :: "int option"
  si_InitialDelaySeconds :: int
  si_MaxDelaySeconds :: int
  si_DelayIncrementSeconds :: int
  si_DelayStrategy :: string
  si_ShowNotifications :: bool
  si_MemoryLimitMB :: "int option"

datatype tool_call =
    get_auto_retry_status
  | set_retry_prompt string
  | set_retry_settings setRetrySettingsInput
  | set_auto_retry_paused bool
  | set_shared_app_server_enabled bool
  | tool_retry_now string
  | tool_cancel_retry string
  | tool_restart_retry string

definition input_settings :: "setRetrySettingsInput \<Rightarrow> RetrySettings" where
  "input_settings i =
     \<lparr>rq_RetryPrompt = si_RetryPrompt i, rq_MaxConsecutiveRetries = si_MaxConsecutiveRetries i,
      rq_MaxRecoveryAttempts = si_MaxRecoveryAttempts i, rq_AuthMaxAttempts = si_AuthMaxAttempts i,
      rq_InitialDelaySeconds = si_InitialDelaySeconds i, rq_MaxDelaySeconds = si_MaxDelaySeconds i,
      rq_DelayIncrementSeconds = si_DelayIncrementSeconds i, rq_DelayStrategy = si_DelayStrategy i,
      rq_ShowNotifications = si_ShowNotifications i,
      rq_MemoryLimitMB = (case si_MemoryLimitMB i of Some n \<Rightarrow> n | None \<Rightarrow> 0)\<rparr>"

definition call_tool :: "mgmt_world \<Rightarrow> tool_call \<Rightarrow> gotime \<Rightarrow> ManagementSnapshot mgmt" where
  "call_tool w tool now =
     (case tool of
        get_auto_retry_status \<Rightarrow> snapshotLocked w now
      | set_retry_prompt prompt \<Rightarrow> setRetryPrompt w prompt now
      | set_retry_settings i \<Rightarrow> setRetrySettings w (input_settings i) now
      | set_auto_retry_paused paused \<Rightarrow> setPaused w paused now
      | set_shared_app_server_enabled on \<Rightarrow> setSharedAppServerEnabled w on now
      | tool_retry_now threadID \<Rightarrow> retryNow w threadID now
      | tool_cancel_retry threadID \<Rightarrow> cancelRetry w threadID now
      | tool_restart_retry threadID \<Rightarrow> restartRetry w threadID now)"

definition read_only_hint :: "tool_call \<Rightarrow> bool" where
  "read_only_hint tool \<longleftrightarrow> tool = get_auto_retry_status"

definition idempotent_hint :: "tool_call \<Rightarrow> bool" where
  "idempotent_hint tool \<longleftrightarrow>
     (case tool of
        set_retry_prompt _ \<Rightarrow> True
      | set_retry_settings _ \<Rightarrow> True
      | set_auto_retry_paused _ \<Rightarrow> True
      | set_shared_app_server_enabled _ \<Rightarrow> True
      | tool_cancel_retry _ \<Rightarrow> True
      | _ \<Rightarrow> False)"

subsection \<open>Local commands\<close>

record localSettingsPayload =
  lp_Settings :: RetrySettings
  lp_Paused :: bool
  lp_SharedAppServerEnabled :: "bool option"

definition dec_optional :: "(json \<Rightarrow> 'a option) \<Rightarrow> string \<Rightarrow> (string \<times> json) list \<Rightarrow> 'a option option" where
  "dec_optional dec name ms =
     fold (\<lambda>(k, v) old. if \<not> equal_fold k name then old
       else Option.bind old (\<lambda>_. if v = JNull then Some None else map_option Some (dec v))) ms (Some None)"

definition decode_local_settings :: "string \<Rightarrow> localSettingsPayload option" where
  "decode_local_settings bytes =
     do {
       ms \<leftarrow> unmarshal_struct bytes;
       prompt \<leftarrow> string_field ''retry_prompt'' ms;
       consecutive \<leftarrow> dec_field json_int ''max_consecutive_retries'' ms 0;
       recovery \<leftarrow> dec_field json_int ''max_recovery_attempts'' ms 0;
       auth \<leftarrow> dec_optional json_int ''auth_max_attempts'' ms;
       initial \<leftarrow> dec_field json_int ''initial_delay_seconds'' ms 0;
       max_delay \<leftarrow> dec_field json_int ''max_delay_seconds'' ms 0;
       increment \<leftarrow> dec_field json_int ''delay_increment_seconds'' ms 0;
       strategy \<leftarrow> string_field ''delay_strategy'' ms;
       notifications \<leftarrow> bool_field ''show_notifications'' ms;
       memory \<leftarrow> dec_field json_int ''memory_limit_mb'' ms 0;
       paused \<leftarrow> bool_field ''paused'' ms;
       shared \<leftarrow> dec_optional json_bool ''shared_app_server_enabled'' ms;
       Some \<lparr>lp_Settings =
           \<lparr>rq_RetryPrompt = prompt, rq_MaxConsecutiveRetries = consecutive, rq_MaxRecoveryAttempts = recovery,
            rq_AuthMaxAttempts = auth, rq_InitialDelaySeconds = initial, rq_MaxDelaySeconds = max_delay,
            rq_DelayIncrementSeconds = increment, rq_DelayStrategy = strategy, rq_ShowNotifications = notifications,
            rq_MemoryLimitMB = memory\<rparr>,
         lp_Paused = paused, lp_SharedAppServerEnabled = shared\<rparr>
     }"

datatype local_error = leNoFile | leUnreadable | leDecode | leAction | leService mgmt_error

text \<open>\<open>file\<close> is the contents of the settings file, if one is named and can be read.\<close>

definition saveLocalSettings ::
    "mgmt_world \<Rightarrow> string \<Rightarrow> string option \<Rightarrow> gotime \<Rightarrow> data_dir \<Rightarrow> (local_error + unit) \<times> data_dir" where
  "saveLocalSettings w settingsPath file now d =
     (if settingsPath = [] then (Inl leNoFile, d)
      else case file of
        None \<Rightarrow> (Inl leUnreadable, d)
      | Some bytes \<Rightarrow>
          (case decode_local_settings bytes of
             None \<Rightarrow> (Inl leDecode, d)
           | Some payload \<Rightarrow>
               (case (case lp_SharedAppServerEnabled payload of
                        None \<Rightarrow> (Inr (), d)
                      | Some on \<Rightarrow>
                          (case setSharedAppServerEnabled w on now d of
                             (Inl e, d) \<Rightarrow> (Inl (leService e), d)
                           | (Inr _, d) \<Rightarrow> (Inr (), d))) of
                  (Inl e, d) \<Rightarrow> (Inl e, d)
                | (Inr _, d) \<Rightarrow>
                    (case setLocalSettings w (lp_Settings payload) (lp_Paused payload) now d of
                       (Inl e, d) \<Rightarrow> (Inl (leService e), d)
                     | (Inr _, d) \<Rightarrow> (Inr (), d)))))"

definition localSettingsExitCode :: "go_error \<Rightarrow> int" where
  "localSettingsExitCode e =
     (if errors_Is (Some e) errSharedServerPortReserved then 2
      else if errors_Is (Some e) errSharedServerPortConflict then 3 else 1)"

definition runLocalControl ::
    "mgmt_world \<Rightarrow> string \<Rightarrow> string \<Rightarrow> gotime \<Rightarrow> data_dir \<Rightarrow> (local_error + unit) \<times> data_dir" where
  "runLocalControl w action threadID now d =
     (case (if action = ''retry_now'' then Some (retryNow w threadID now d)
            else if action = ''cancel_retry'' then Some (cancelRetry w threadID now d)
            else if action = ''restart_retry'' then Some (restartRetry w threadID now d) else None) of
        None \<Rightarrow> (Inl leAction, d)
      | Some (Inl e, d) \<Rightarrow> (Inl (leService e), d)
      | Some (Inr _, d) \<Rightarrow> (Inr (), d))"

subsection \<open>What the hints promise\<close>

text \<open>
  The status tool is announced as read-only. It leaves every file alone once the configuration and
  the control file are up to date; the first call on an empty directory writes the configuration.
\<close>

lemma load_rest:
  "load_state w d = (r, d') \<Longrightarrow> d' = d" "loadStatusSnapshot d = (q, d') \<Longrightarrow> d' = d"
  by (auto simp: load_state_def loadStatusSnapshot_def split: sum.splits json_file.splits option.splits)

lemma status_tool_settled:
  assumes "render_ok w" "dd_config d = config_bytes w c" "stable_config c"
    "\<And>written. \<exists>st. loadOrCreateControlState (dd_control d) written = Inr (st, None)"
    "read_only_hint tool" "call_tool w tool now d = (r, d')"
  shows "\<exists>n. d' = d\<lparr>dd_tick := n\<rparr>"
proof -
  have config: "loadOrCreateConfig w d = (x, d1) \<Longrightarrow> \<exists>n. d1 = d\<lparr>dd_tick := n\<rparr>" for x d1
    using load_written [OF assms(1) _ assms(3), of "d\<lparr>dd_tick := Suc (dd_tick d)\<rparr>"] assms(2)
    by (auto simp: loadOrCreateConfig_def locked_def andThen_def refuse_def split: if_splits)
  have control: "load_control w (d\<lparr>dd_tick := n\<rparr>) = (y, d2) \<Longrightarrow> \<exists>n. d2 = d\<lparr>dd_tick := n\<rparr>" for n y d2
    using assms(4) [of "mw_ok w n"] by (auto simp: load_control_def andThen_def)
  from assms(5,6) have "snapshotLocked w now d = (r, d')" by (simp add: read_only_hint_def call_tool_def)
  then show ?thesis
    unfolding snapshotLocked_def
    by (auto simp: andThen_cases succeed_def Let_def dest!: config control load_rest)
qed

lemma status_tool_first_call:
  assumes "dd_config d = FileMissing" "call_tool w get_auto_retry_status now d = (Inr snap, d')" "mw_ok w (Suc (dd_tick d))"
  shows "dd_config d' = config_bytes w defaultConfig"
proof -
  have other: "load_control w d1 = (y, d2) \<Longrightarrow> dd_config d2 = dd_config d1" for y d1 d2
    by (auto simp: load_control_def andThen_def split: sum.splits option.splits)
  have "loadOrCreateConfig w d = (Inr c, d1) \<Longrightarrow> dd_config d1 = config_bytes w defaultConfig" for c d1
    using assms(1,3)
    by (auto simp: loadOrCreateConfig_def locked_def andThen_def refuse_def load_unlocked_def loadOrCreateConfigUnlocked_def
        split: if_splits)
  with assms(2) show ?thesis
    by (auto simp: call_tool_def snapshotLocked_def andThen_ok succeed_def Let_def dest!: other load_rest)
qed

end
