(* ===== verification/Windows_Glue.thy ===== *)
theory Windows_Glue
  imports Scanner
begin

section \<open>Decisions on what Windows answers\<close>

text \<open>
  The decisions of process\_windows.go, startup\_approval\_windows.go and
  desktop\_transport\_windows.go, with the answers of the system calls as arguments; the script that
  PowerShell runs is one of them.
\<close>

subsection \<open>Processes\<close>

datatype win_error = ERROR_INVALID_PARAMETER | ERROR_INVALID_HANDLE | ERROR_NOT_FOUND | ERROR_OTHER

definition stillActive :: nat where
  "stillActive = 259"

definition processGoneError :: "win_error \<Rightarrow> bool" where
  "processGoneError e \<longleftrightarrow> e = ERROR_INVALID_PARAMETER \<or> e = ERROR_INVALID_HANDLE \<or> e = ERROR_NOT_FOUND"

text \<open>Opening a process and asking for its exit code: the error of the step that failed, or the code.\<close>

definition process_running :: "int \<Rightarrow> win_error + nat \<Rightarrow> bool" where
  "process_running pid query =
     (if pid \<le> 0 then False
      else (case query of Inl e \<Rightarrow> \<not> processGoneError e | Inr exitCode \<Rightarrow> exitCode = stillActive))"

text \<open>\<open>terminateProcessTree\<close>: whether it reports success.\<close>

definition tree_ended :: "int \<Rightarrow> bool \<Rightarrow> win_error + nat \<Rightarrow> bool" where
  "tree_ended pid killed query =
     (if pid \<le> 0 then False else \<not> (\<not> killed \<and> process_running pid query))"

definition isCodexDesktopExecutable :: "string \<Rightarrow> bool" where
  "isCodexDesktopExecutable path =
     (let normalized = to_lower (filepath_Clean path)
      in contains_sub normalized (separator # ''windowsapps'' @ separator # ''openai.codex_'') \<or>
         contains_sub normalized (separator # ''openai'' @ separator # ''codex'' @ [separator]))"

text \<open>The snapshot of all processes: names, and the paths of those whose path can be read.\<close>

definition codexDesktopRunning :: "(string \<times> string option) list option \<Rightarrow> bool" where
  "codexDesktopRunning snapshot =
     (case snapshot of
        None \<Rightarrow> True
      | Some entries \<Rightarrow> list_ex (\<lambda>(exe, path).
          equal_fold exe ''ChatGPT.exe'' \<and>
          (case path of None \<Rightarrow> True | Some p \<Rightarrow> isCodexDesktopExecutable p)) entries)"

text \<open>\<open>processOwnsRuntime\<close>: \<open>expected\<close> is the path of the executable in the data directory if it is there.\<close>

definition processOwnsRuntime :: "int \<Rightarrow> win_error + nat \<Rightarrow> string option \<Rightarrow> string option \<Rightarrow> bool" where
  "processOwnsRuntime pid query expected actual =
     (if pid \<le> 0 then False
      else (case query of
          Inl _ \<Rightarrow> False
        | Inr exitCode \<Rightarrow>
            if exitCode \<noteq> stillActive then False
            else (case expected of
                None \<Rightarrow> True
              | Some e \<Rightarrow> (case actual of None \<Rightarrow> False | Some a \<Rightarrow> equal_fold (filepath_Clean a) (filepath_Clean e)))))"

text \<open>
  A process that is proven to be gone is not running; every other doubt counts as running. The owner
  of the runtime is decided the other way round: there a doubt is no.
\<close>

lemma doubt_is_running:
  "0 < pid \<Longrightarrow> process_running pid (Inl e) \<longleftrightarrow> e = ERROR_OTHER"
  "processOwnsRuntime pid query expected actual \<Longrightarrow> process_running pid query"
  by (cases e; simp add: process_running_def processGoneError_def)
    (auto simp: processOwnsRuntime_def process_running_def split: if_splits sum.splits)

text \<open>
  The Desktop is looked for under one of its two names only: a Desktop that runs as \<open>Codex.exe\<close>
  counts as not running.
\<close>

lemma other_desktop_name_missed:
  "list_all (\<lambda>(exe, path). \<not> equal_fold exe ''ChatGPT.exe'') entries \<Longrightarrow> \<not> codexDesktopRunning (Some entries)"
  by (auto simp: codexDesktopRunning_def list_all_iff list_ex_iff)

subsection \<open>PowerShell\<close>

text \<open>\<open>lookup\<close> is what \<open>exec.LookPath\<close> finds, \<open>windir\<close> the variable \<open>WINDIR\<close>.\<close>

definition resolvePowerShellExecutable ::
    "(string \<Rightarrow> string) \<Rightarrow> (string \<Rightarrow> bool) \<Rightarrow> string option \<Rightarrow> string \<Rightarrow> string \<Rightarrow> string option" where
  "resolvePowerShellExecutable expand is_exe lookup windir configured =
     (let configured = trim_space configured
      in if configured \<noteq> []
         then (let configured = expand configured in if is_exe configured then Some configured else None)
         else case lookup of
           Some executable \<Rightarrow> Some executable
         | None \<Rightarrow>
             if windir = [] then None
             else (let candidate = filepath_Clean (join_with [separator]
                       [windir, ''System32'', ''WindowsPowerShell'', ''v1.0'', ''powershell.exe''])
                   in if is_exe candidate then Some candidate else None))"

text \<open>The state that the script of the transport check printed; \<open>None\<close> is the error.\<close>

datatype printed_transport = printedStopped | printedLegacyStdio | printedSharedServer | printedUnknown

definition read_transport :: "string \<Rightarrow> printed_transport option" where
  "read_transport stdout =
     (let s = trim_space stdout
      in if s = ''stopped'' then Some printedStopped
         else if s = ''legacy_stdio'' then Some printedLegacyStdio
         else if s = ''shared_server'' then Some printedSharedServer
         else if s = ''unknown'' then Some printedUnknown else None)"

subsection \<open>Start at sign-in\<close>

text \<open>The approval marker is the bytes of a registry value, if there is one.\<close>

definition readStartupApprovalStatus :: "nat list option \<Rightarrow> string" where
  "readStartupApprovalStatus marker =
     (case marker of
        Some (a # b # c # d # rest) \<Rightarrow>
          if b \<noteq> 0 \<or> c \<noteq> 0 \<or> d \<noteq> 0 then ''unknown''
          else if a = 2 then ''enabled'' else if a = 3 then ''disabled'' else ''unknown''
      | _ \<Rightarrow> ''unknown'')"

definition quote :: char where
  "quote = CHR 0x22"

definition startupEntryMatchesExecutable :: "(string \<Rightarrow> string option) \<Rightarrow> string \<Rightarrow> string \<Rightarrow> bool" where
  "startupEntryMatchesExecutable absolute entry executable =
     (let path = trim_space entry
      in if path = [] then False
         else let path =
                (if hd path = quote
                 then (if quote \<in> set (tl path) then takeWhile (\<lambda>c. c \<noteq> quote) (tl path) else path)
                 else takeWhile (\<lambda>c. \<not> is_space c) path)
              in (case (absolute (filepath_Clean path), absolute (filepath_Clean executable)) of
                    (Some left, Some right) \<Rightarrow> equal_fold left right
                  | _ \<Rightarrow> False))"

text \<open>
  \<open>ensureStartupApproval\<close>: whether it succeeds, and the marker afterwards. \<open>entry\<close> is the value of the
  Run key, \<open>key_ok\<close> whether the key of the marker can be opened or made, \<open>set_ok\<close> whether the value can be set.
\<close>

definition ensureStartupApproval ::
    "(string \<Rightarrow> string option) \<Rightarrow> string \<Rightarrow> string option \<Rightarrow> bool \<Rightarrow> bool \<Rightarrow> nat list option \<Rightarrow> bool \<times> nat list option" where
  "ensureStartupApproval absolute executable entry key_ok set_ok marker =
     (if trim_space executable = [] then (True, marker)
      else case entry of
        None \<Rightarrow> (True, marker)
      | Some e \<Rightarrow>
          if \<not> startupEntryMatchesExecutable absolute e executable then (True, marker)
          else if \<not> key_ok then (False, marker)
          else
            let bytes = (case marker of Some bs \<Rightarrow> if length bs < 12 then replicate 12 0 else bs | None \<Rightarrow> replicate 12 0)
            in if take 4 bytes = [2, 0, 0, 0] then (True, marker)
               else if set_ok then (True, Some ([2, 0, 0, 0] @ drop 4 bytes)) else (False, marker))"

text \<open>The repair only touches the marker of the matching entry, and then leaves it enabled.\<close>

lemma approval_repaired:
  assumes "ensureStartupApproval absolute executable entry key_ok set_ok marker = (ok, marker')"
  shows "marker' = marker \<or>
    (\<exists>e. entry = Some e \<and> startupEntryMatchesExecutable absolute e executable) \<and> readStartupApprovalStatus marker' = ''enabled''"
  using assms
  by (auto simp: ensureStartupApproval_def Let_def readStartupApprovalStatus_def split: if_splits option.splits)

lemma take4: "take 4 bs = [a, b, c, d] \<Longrightarrow> \<exists>rest. bs = a # b # c # d # rest"
  by (cases bs; cases "tl bs"; cases "tl (tl bs)"; cases "tl (tl (tl bs))") auto

lemma four_zeros: "replicate 4 (0::nat) = [0, 0, 0, 0]"
  by (simp add: numeral_eq_Suc)

lemma approval_enabled:
  assumes "ensureStartupApproval absolute executable (Some e) True True marker = (ok, marker')"
    "trim_space executable \<noteq> []" "startupEntryMatchesExecutable absolute e executable"
  shows "ok \<and> readStartupApprovalStatus marker' = ''enabled''"
  using assms
  by (auto simp: ensureStartupApproval_def Let_def readStartupApprovalStatus_def four_zeros dest!: take4 split: if_splits option.splits)

end
