(* ===== verification/Log_Files.thy ===== *)
theory Log_Files
  imports Prelude
begin

section \<open>The log files (logger.go)\<close>

text \<open>
  The active log is file 0, its backups are the files 1, 2 and on. Each call of the file system may
  fail, which the code ignores; \<open>ok\<close> says which of them succeed.
\<close>

type_synonym logs = "nat \<Rightarrow> string option"

definition maxLogBytes :: nat where
  "maxLogBytes = 5 * 1024 * 1024"

definition maxLogFiles :: nat where
  "maxLogFiles = 4"

definition remove_log :: "bool \<Rightarrow> nat \<Rightarrow> logs \<Rightarrow> logs" where
  "remove_log ok i files = (if ok then files(i := None) else files)"

text \<open>A rename needs its source and replaces its target.\<close>

definition rename_log :: "bool \<Rightarrow> nat \<Rightarrow> nat \<Rightarrow> logs \<Rightarrow> logs" where
  "rename_log ok i j files = (if ok \<and> files i \<noteq> None then files(j := files i, i := None) else files)"

fun shift_logs :: "(nat \<Rightarrow> bool) \<Rightarrow> nat \<Rightarrow> logs \<Rightarrow> logs" where
  "shift_logs ok 0 files = files"
| "shift_logs ok (Suc i) files =
     shift_logs ok i (rename_log (ok (2 * Suc i + 1)) (Suc i) (Suc (Suc i)) (remove_log (ok (2 * Suc i)) (Suc (Suc i)) files))"

definition rotateLogFiles :: "(nat \<Rightarrow> bool) \<Rightarrow> logs \<Rightarrow> logs" where
  "rotateLogFiles ok files =
     rename_log (ok 1) 0 1 (remove_log (ok 0) 1
       (shift_logs ok (maxLogFiles - 2) (remove_log (ok 8) maxLogFiles files)))"

text \<open>\<open>newSafeLogger\<close>: the files before the active one is opened for appending.\<close>

definition open_log :: "bool \<Rightarrow> (nat \<Rightarrow> bool) \<Rightarrow> logs \<Rightarrow> logs" where
  "open_log removed ok files =
     (let files = remove_log removed maxLogFiles files
      in (case files 0 of
            Some text_so_far \<Rightarrow> if length text_so_far > maxLogBytes then rotateLogFiles ok files else files
          | None \<Rightarrow> files))"

lemma log_numbers: "maxLogFiles - 2 = Suc (Suc 0)" "maxLogFiles = Suc (Suc (Suc (Suc 0)))"
  by (simp_all add: maxLogFiles_def)

text \<open>A rotation moves every log up by one, drops the oldest and leaves the active log to be made.\<close>

lemma rotation_shifts:
  assumes "\<And>n. ok n"
  shows "rotateLogFiles ok files = (\<lambda>i. if i = 0 \<or> i = maxLogFiles then None else if i < maxLogFiles then files (i - 1) else files i)"
proof -
  have move: "rename_log True i j (remove_log True j f) = f(j := f i, i := None)" if "i \<noteq> j" for i j and f :: logs
    using that by (auto simp: rename_log_def remove_log_def fun_eq_iff)
  have "rotateLogFiles ok files = (files(4 := None, 3 := files 2, 2 := None, 2 := files 1, 1 := None, 1 := files 0, 0 := None))"
    unfolding rotateLogFiles_def log_numbers shift_logs.simps
    by (simp add: move assms numeral_eq_Suc) (simp add: remove_log_def fun_eq_iff)
  then show ?thesis
    by (auto simp: fun_eq_iff maxLogFiles_def less_Suc_eq numeral_eq_Suc)
qed

lemma shift_keeps_active: "shift_logs ok n files 0 = files 0"
  by (induction n arbitrary: files) (simp_all add: rename_log_def remove_log_def)

text \<open>Even when calls fail, the active log is not lost: it is still there, or the first backup.\<close>

lemma active_log_kept:
  assumes "files 0 = Some t"
  shows "rotateLogFiles ok files 0 = Some t \<or> rotateLogFiles ok files 1 = Some t"
  using assms shift_keeps_active [of ok "maxLogFiles - 2" "remove_log (ok 8) maxLogFiles files"]
  by (simp add: rotateLogFiles_def rename_log_def remove_log_def maxLogFiles_def)

end
