(* ===== verification/Atomic_Write.thy ===== *)
theory Atomic_Write
  imports Supervisor
begin

section \<open>Writing a file as a whole (jsonio.go)\<close>

text \<open>
  \<open>writeJSONAtomic\<close> writes a temporary file beside the target and renames it. Each step may fail; a
  write that fails may have written some of the bytes. \<open>rename\<close> says which of the calls of
  \<open>os.Rename\<close> succeed, \<open>removes\<close> whether the deferred removal of the temporary file does.
\<close>

datatype write_step = stepDirectory | stepMarshal | stepCreate | stepChmod | stepWrite | stepSync | stepClose

record target =
  tg_File :: "string option"
  tg_Temp :: "string option"

definition writeJSONAtomic ::
    "(write_step \<Rightarrow> bool) \<Rightarrow> nat \<Rightarrow> bool \<Rightarrow> (nat \<Rightarrow> bool) \<Rightarrow> string \<Rightarrow> target \<Rightarrow> bool \<times> target" where
  "writeJSONAtomic ok partial removes rename json t =
     (let data = json @ [CHR 0x0A];
          give_up = (\<lambda>temp. (False, t\<lparr>tg_Temp := (if removes then None else Some temp)\<rparr>))
      in if \<not> ok stepDirectory \<or> \<not> ok stepMarshal \<or> \<not> ok stepCreate then (False, t)
         else if \<not> ok stepChmod then give_up []
         else if \<not> ok stepWrite then give_up (take partial data)
         else if \<not> ok stepSync \<or> \<not> ok stepClose then give_up data
         else if \<not> fst (replaceFileWithRetry rename) then give_up data
         else (True, t\<lparr>tg_File := Some data, tg_Temp := None\<rparr>))"

text \<open>Whatever fails, the target holds its old contents or the whole of the new ones, and the result says which.\<close>

lemma written_or_unchanged:
  assumes "writeJSONAtomic ok partial removes rename json t = (done, t')"
  shows "tg_File t' = (if done then Some (json @ [CHR 0x0A]) else tg_File t)"
    "done \<Longrightarrow> tg_Temp t' = None" "removes \<Longrightarrow> tg_Temp t = None \<Longrightarrow> tg_Temp t' = None"
  using assms by (auto simp: writeJSONAtomic_def Let_def split: if_splits)

text \<open>It fails only if a step fails or twelve renames in a row do.\<close>

lemma write_succeeds:
  "fst (writeJSONAtomic ok partial removes rename json t) \<longleftrightarrow>
     (\<forall>s. ok s) \<and> (\<exists>n. 1 \<le> n \<and> n \<le> 12 \<and> rename n)"
proof -
  obtain r calls waits where run: "replaceFileWithRetry rename = (r, calls, waits)" by (metis prod_cases3)
  then have "replace_loop rename 1 (Suc 11) (15 * Millisecond) = (r, calls, waits)"
    by (simp add: replaceFileWithRetry_def atomicReplaceAttempts_def numeral_eq_Suc)
  from replace_loop_result [OF _ _ this] have r: "r \<longleftrightarrow> (\<exists>n. 1 \<le> n \<and> n \<le> 12 \<and> rename n)"
    by (simp add: atomicReplaceMaxDelay_def)
  have steps: "(\<forall>s. ok s) \<longleftrightarrow> ok stepDirectory \<and> ok stepMarshal \<and> ok stepCreate \<and> ok stepChmod \<and> ok stepWrite \<and> ok stepSync \<and> ok stepClose"
    by (metis write_step.exhaust)
  show ?thesis unfolding steps r [symmetric] by (auto simp: writeJSONAtomic_def Let_def run)
qed

end
