(* ===== verification/Go_Text.thy ===== *)
theory Go_Text
  imports Json_Text
begin

section \<open>Text: runes, UTF-16 and quoted strings\<close>

text \<open>
  What the code uses of Go for text that leaves it: the runes of a string (\<open>unicode/utf8\<close>),
  UTF-16 for Windows, and \<open>strconv.Quote\<close>, with a reader of TOML's basic strings as the
  reference for what was quoted. Which runes beyond ASCII are printable (\<open>strconv.IsPrint\<close>)
  is a table of Go and stays a parameter.
\<close>

subsection \<open>Runes\<close>

definition in_bytes :: "nat \<Rightarrow> nat \<Rightarrow> char \<Rightarrow> bool" where
  "in_bytes lo hi c \<longleftrightarrow> lo \<le> byte c \<and> byte c \<le> hi"

definition low_bits :: "char \<Rightarrow> nat" where
  "low_bits c = byte c - 128"

text \<open>The range of the byte after the first, for a sequence of three or four bytes.\<close>

definition second_range :: "nat \<Rightarrow> nat \<times> nat" where
  "second_range b =
     (if b = 224 then (160, 191) else if b = 237 then (128, 159)
      else if b = 240 then (144, 191) else if b = 244 then (128, 143) else (128, 191))"

definition rune_error :: nat where
  "rune_error = 65533"

text \<open>\<open>utf8.DecodeRuneInString\<close> of a string that is not empty: the rune and its width.\<close>

definition next_rune :: "string \<Rightarrow> nat \<times> nat" where
  "next_rune s =
     (let b = byte (hd s); (lo, hi) = second_range b
      in if b < 128 then (b, 1)
         else case tl s of
           [] \<Rightarrow> (rune_error, 1)
         | c1 # r \<Rightarrow>
             if 194 \<le> b \<and> b \<le> 223
             then (if in_bytes 128 191 c1 then ((b - 192) * 64 + low_bits c1, 2) else (rune_error, 1))
             else if 224 \<le> b \<and> b \<le> 244 \<and> in_bytes lo hi c1
             then (case r of
                 [] \<Rightarrow> (rune_error, 1)
               | c2 # q \<Rightarrow>
                   if \<not> in_bytes 128 191 c2 then (rune_error, 1)
                   else if b \<le> 239 then ((b - 224) * 4096 + low_bits c1 * 64 + low_bits c2, 3)
                   else (case q of
                       [] \<Rightarrow> (rune_error, 1)
                     | c3 # _ \<Rightarrow>
                         if in_bytes 128 191 c3
                         then ((b - 240) * 262144 + low_bits c1 * 4096 + low_bits c2 * 64 + low_bits c3, 4)
                         else (rune_error, 1)))
             else (rune_error, 1))"

lemma next_rune_cases:
  assumes "s \<noteq> []"
  obtains (ascii) "byte (hd s) < 128" "next_rune s = (byte (hd s), 1)"
    | (bad) "128 \<le> byte (hd s)" "next_rune s = (rune_error, 1)"
    | (two) c c1 r where "s = c # c1 # r" "194 \<le> byte c" "byte c \<le> 223" "in_bytes 128 191 c1"
        "next_rune s = ((byte c - 192) * 64 + low_bits c1, 2)"
    | (three) c c1 c2 r where "s = c # c1 # c2 # r" "224 \<le> byte c" "byte c \<le> 239"
        "in_bytes (fst (second_range (byte c))) (snd (second_range (byte c))) c1" "in_bytes 128 191 c2"
        "next_rune s = ((byte c - 224) * 4096 + low_bits c1 * 64 + low_bits c2, 3)"
    | (four) c c1 c2 c3 r where "s = c # c1 # c2 # c3 # r" "240 \<le> byte c" "byte c \<le> 244"
        "in_bytes (fst (second_range (byte c))) (snd (second_range (byte c))) c1" "in_bytes 128 191 c2"
        "in_bytes 128 191 c3"
        "next_rune s =
           ((byte c - 240) * 262144 + low_bits c1 * 4096 + low_bits c2 * 64 + low_bits c3, 4)"
proof (cases "byte (hd s) < 128")
  case True
  then show ?thesis by (intro ascii) (simp_all add: next_rune_def)
next
  case big: False
  then have b: "128 \<le> byte (hd s)" by simp
  show ?thesis
  proof (cases "next_rune s = (rune_error, 1)")
    case True
    with b show ?thesis by (rule bad)
  next
    case False
    from assms obtain c t where s: "s = c # t" by (cases s) auto
    obtain lo hi where range: "second_range (byte c) = (lo, hi)" by fastforce
    from False big s obtain c1 r where t: "t = c1 # r"
      by (cases t) (auto simp: next_rune_def)
    consider "194 \<le> byte c" "byte c \<le> 223" "in_bytes 128 191 c1"
      | "224 \<le> byte c" "byte c \<le> 244" "in_bytes lo hi c1"
      using False big s t range by (auto simp: next_rune_def Let_def split: if_splits)
    then show ?thesis
    proof cases
      case 1
      then show ?thesis using s t by (intro two [of c c1 r]) (simp_all add: next_rune_def split: prod.split)
    next
      case 2
      from False 2 big s t range obtain c2 q where r: "r = c2 # q" and c2: "in_bytes 128 191 c2"
        by (cases r) (auto simp: next_rune_def Let_def split: if_splits)
      show ?thesis
      proof (cases "byte c \<le> 239")
        case True
        then show ?thesis using 2 s t r c2 range by (intro three [of c c1 c2 q]) (simp_all add: next_rune_def)
      next
        case False': False
        from False 2 False' big s t r c2 range obtain c3 q' where "q = c3 # q'" "in_bytes 128 191 c3"
          by (cases q) (auto simp: next_rune_def Let_def split: if_splits)
        then show ?thesis using 2 False' s t r c2 range
          by (intro four [of c c1 c2 c3 q']) (simp_all add: next_rune_def)
      qed
    qed
  qed
qed

lemma next_rune_width:
  assumes "s \<noteq> []"
  shows "0 < snd (next_rune s) \<and> snd (next_rune s) \<le> length s"
  using assms by (cases rule: next_rune_cases) (use assms in \<open>auto simp: Suc_le_eq\<close>)

lemma next_rune_shorter: "s \<noteq> [] \<Longrightarrow> (r, w) = next_rune s \<Longrightarrow> length s - w < length s"
  using next_rune_width [of s] by (cases "next_rune s") auto

text \<open>The runes of a string, each with the bytes it was read from.\<close>

function runes :: "string \<Rightarrow> (nat \<times> string) list" where
  "runes s =
     (if s = [] then []
      else case next_rune s of (r, w) \<Rightarrow> (r, take w s) # runes (drop w s))"
  by pat_completeness auto
termination
  by (relation "measure length") (auto dest: next_rune_shorter)

declare runes.simps [simp del]

lemma runes_Nil [simp]: "runes [] = []"
  by (simp add: runes.simps)

lemma runes_step: "s \<noteq> [] \<Longrightarrow> next_rune s = (r, w) \<Longrightarrow> runes s = (r, take w s) # runes (drop w s)"
  by (simp add: runes.simps [of s])

lemma runes_concat: "concat (map snd (runes s)) = s"
proof (induction s rule: runes.induct)
  case (1 s)
  obtain r w where next_s: "next_rune s = (r, w)" by fastforce
  show ?case
  proof (cases "s = []")
    case False
    with 1 next_s show ?thesis by (simp add: runes_step)
  qed simp
qed

subsection \<open>\<open>strconv.Quote\<close>\<close>

definition hex_text :: "nat \<Rightarrow> nat \<Rightarrow> string" where
  "hex_text digits n = rev (map (\<lambda>i. hex_digit (n div 16 ^ i mod 16)) [0..<digits])"

definition go_escapes :: "(nat \<times> char) list" where
  "go_escapes = [(34, CHR 0x22), (92, CHR 0x5C), (7, CHR ''a''), (8, CHR ''b''), (12, CHR ''f''),
     (10, CHR ''n''), (13, CHR ''r''), (9, CHR ''t''), (11, CHR ''v'')]"

definition quote_rune :: "(nat \<Rightarrow> bool) \<Rightarrow> nat \<times> string \<Rightarrow> string" where
  "quote_rune printable = (\<lambda>(r, bytes).
     if r = rune_error \<and> length bytes = 1 then CHR 0x5C # CHR ''x'' # hex_text 2 (byte (hd bytes))
     else case map_of go_escapes r of
       Some c \<Rightarrow> [CHR 0x5C, c]
     | None \<Rightarrow>
         if (if r < 128 then 32 \<le> r \<and> r < 127 else printable r) then bytes
         else if r < 32 \<or> r = 127 then CHR 0x5C # CHR ''x'' # hex_text 2 r
         else if r < 65536 then CHR 0x5C # CHR ''u'' # hex_text 4 r
         else CHR 0x5C # CHR ''U'' # hex_text 8 r)"

definition go_quote :: "(nat \<Rightarrow> bool) \<Rightarrow> string \<Rightarrow> string" where
  "go_quote printable s = quote_char # concat (map (quote_rune printable) (runes s)) @ [quote_char]"

subsection \<open>A basic string of TOML 1.0\<close>

text \<open>
  The reader that TOML prescribes for what follows the opening quote: the text up to the closing
  quote and the rest. Control characters other than the tab are refused, and so is every escape
  that TOML does not name.
\<close>

definition toml_escapes :: "(char \<times> char) list" where
  "toml_escapes = [(CHR ''b'', CHR 0x08), (CHR ''t'', CHR 0x09), (CHR ''n'', CHR 0x0A), (CHR ''f'', CHR 0x0C),
     (CHR ''r'', CHR 0x0D), (CHR 0x22, CHR 0x22), (CHR 0x5C, CHR 0x5C)]"

definition hex_number :: "nat \<Rightarrow> string \<Rightarrow> nat option" where
  "hex_number digits s =
     (if length s < digits then None
      else fold (\<lambda>c n. Option.bind n (\<lambda>n. map_option (\<lambda>d. 16 * n + d) (hex_value c))) (take digits s) (Some 0))"

definition toml_scalar :: "nat \<Rightarrow> string option" where
  "toml_scalar n = (if n < 55296 \<or> 57344 \<le> n \<and> n < 1114112 then Some (utf8_encode n) else None)"

definition toml_escape :: "string \<Rightarrow> (string \<times> string) option" where
  "toml_escape s =
     (case s of
        [] \<Rightarrow> None
      | e # es \<Rightarrow>
          let digits = (if e = CHR ''u'' then 4 else if e = CHR ''U'' then 8 else 0)
          in if digits = 0 then map_option (\<lambda>c. ([c], es)) (map_of toml_escapes e)
             else map_option (\<lambda>x. (x, drop digits es)) (Option.bind (hex_number digits es) toml_scalar))"

lemma toml_escape_length: "toml_escape s = Some (x, r) \<Longrightarrow> length r < length s"
  by (auto simp: toml_escape_def Let_def split: list.splits if_splits)

function toml_chars :: "string \<Rightarrow> (string \<times> string) option" where
  "toml_chars [] = None"
| "toml_chars (c # cs) =
     (if c = CHR 0x22 then Some ([], cs)
      else if c = CHR 0x5C then
        (case toml_escape cs of
           None \<Rightarrow> None
         | Some (x, r) \<Rightarrow> map_option (\<lambda>(t, r'). (x @ t, r')) (toml_chars r))
      else if byte c < 32 \<and> c \<noteq> CHR 0x09 \<or> byte c = 127 then None
      else map_option (\<lambda>(t, r'). (c # t, r')) (toml_chars cs))"
  by pat_completeness auto
termination
  by (relation "measure length") (auto dest!: toml_escape_length)

definition toml_string :: "string \<Rightarrow> string option" where
  "toml_string s =
     (case s of
        [] \<Rightarrow> None
      | c # cs \<Rightarrow> if c \<noteq> quote_char then None
          else (case toml_chars cs of Some (t, []) \<Rightarrow> Some t | _ \<Rightarrow> None))"

text \<open>The runes whose escape is TOML as well: not an invalid byte, and no control character but these five.\<close>

definition toml_rune :: "nat \<times> string \<Rightarrow> bool" where
  "toml_rune = (\<lambda>(r, bytes).
     \<not> (r = rune_error \<and> length bytes = 1) \<and> (r < 32 \<longrightarrow> r \<in> {8, 9, 10, 12, 13}) \<and> r \<noteq> 127)"

subsection \<open>What was quoted reads back\<close>

lemma base64: "y < 64 \<Longrightarrow> (n * 64 + y) div 64 = n" "y < 64 \<Longrightarrow> (n * 64 + y) mod 64 = y" for n y :: nat
  by simp_all

lemma div_div_64: "n div 4096 = n div 64 div 64" "n div 262144 = n div 64 div 64 div 64" for n :: nat
  by (simp_all add: div_mult2_eq [symmetric])

text \<open>The runes that are not errors are encoded by the bytes they were read from, all beyond ASCII.\<close>

lemma next_rune_encode:
  assumes "s \<noteq> []" "next_rune s = (r, w)" "\<not> (r = rune_error \<and> w = 1)" "\<not> byte (hd s) < 128"
  shows "utf8_encode r = take w s" "128 \<le> r" "r < 55296 \<or> 57344 \<le> r \<and> r < 1114112"
    "list_all (\<lambda>c. 128 \<le> byte c) (take w s)"
proof -
  have "utf8_encode r = take w s \<and> 128 \<le> r \<and> (r < 55296 \<or> 57344 \<le> r \<and> r < 1114112) \<and>
      list_all (\<lambda>c. 128 \<le> byte c) (take w s)"
    using assms(1)
  proof (cases rule: next_rune_cases)
    case ascii
    with assms show ?thesis by simp
  next
    case bad
    with assms show ?thesis by simp
  next
    case (two c c1 t)
    define b x where "b = byte c - 192" and "x = byte c1 - 128"
    with two have b: "byte c = b + 192" "2 \<le> b" "b < 32" and x: "byte c1 = x + 128" "x < 64"
      by (auto simp: in_bytes_def)
    from two assms(2) b x have r: "r = b * 64 + x" "w = 2" by (auto simp: low_bits_def)
    have "char_of (192 + b) = c" "char_of (128 + x) = c1"
      using b x char_of_byte [of c] char_of_byte [of c1] by (simp_all add: add.commute)
    with b x r two(1) show ?thesis by (simp add: utf8_encode_def)
  next
    case (three c c1 c2 t)
    define b x y where "b = byte c - 224" and "x = byte c1 - 128" and "y = byte c2 - 128"
    with three have b: "byte c = b + 224" "b < 16" and x: "byte c1 = x + 128" "x < 64"
      and y: "byte c2 = y + 128" "y < 64" and low: "b = 0 \<Longrightarrow> 32 \<le> x" "b = 13 \<Longrightarrow> x < 32"
      by (auto simp: in_bytes_def second_range_def split: if_splits)
    from three assms(2) b x y have r: "r = b * 4096 + x * 64 + y" "w = 3" by (auto simp: low_bits_def)
    have cs: "char_of (224 + b) = c" "char_of (128 + x) = c1" "char_of (128 + y) = c2"
      using b x y char_of_byte [of c] char_of_byte [of c1] char_of_byte [of c2] by (simp_all add: add.commute)
    have "r = (b * 64 + x) * 64 + y" using r(1) by simp
    with x(2) y(2) have parts: "r div 64 div 64 = b" "r div 64 mod 64 = x" "r mod 64 = y"
      by (simp_all only: base64)
    have "2048 \<le> r" using r low(1) by (cases "b = 0") simp_all
    moreover have "r < 65536" using r b x y by simp
    moreover have "r < 55296 \<or> 57344 \<le> r"
      using r x y low(2) by (cases "b < 13"; cases "b = 13") simp_all
    ultimately show ?thesis using parts cs r(2) three(1) b(1) x(1) y(1)
      by (simp add: utf8_encode_def div_div_64)
  next
    case (four c c1 c2 c3 t)
    define b x y z where "b = byte c - 240" and "x = byte c1 - 128" and "y = byte c2 - 128" and "z = byte c3 - 128"
    with four have b: "byte c = b + 240" "b \<le> 4" and x: "byte c1 = x + 128" "x < 64"
      and y: "byte c2 = y + 128" "y < 64" and z: "byte c3 = z + 128" "z < 64"
      and low: "b = 0 \<Longrightarrow> 16 \<le> x" "b = 4 \<Longrightarrow> x < 16"
      by (auto simp: in_bytes_def second_range_def split: if_splits)
    from four assms(2) b x y z have r: "r = b * 262144 + x * 4096 + y * 64 + z" "w = 4"
      by (auto simp: low_bits_def)
    have cs: "char_of (240 + b) = c" "char_of (128 + x) = c1" "char_of (128 + y) = c2" "char_of (128 + z) = c3"
      using b x y z char_of_byte [of c] char_of_byte [of c1] char_of_byte [of c2] char_of_byte [of c3]
      by (simp_all add: add.commute)
    have "r = ((b * 64 + x) * 64 + y) * 64 + z" using r(1) by simp
    with x(2) y(2) z(2) have parts: "r div 64 div 64 div 64 = b" "r div 64 div 64 mod 64 = x"
        "r div 64 mod 64 = y" "r mod 64 = z"
      by (simp_all only: base64)
    have "65536 \<le> r" using r low(1) by (cases "b = 0") simp_all
    moreover have "r < 1114112" using r b x y z low(2) by (cases "b = 4") simp_all
    ultimately show ?thesis using parts cs r(2) four(1) b(1) x(1) y(1) z(1)
      by (simp add: utf8_encode_def div_div_64)
  qed
  then show "utf8_encode r = take w s" "128 \<le> r" "r < 55296 \<or> 57344 \<le> r \<and> r < 1114112"
    "list_all (\<lambda>c. 128 \<le> byte c) (take w s)" by blast+
qed

lemma hex_text_Suc: "hex_text (Suc d) n = hex_text d (n div 16) @ [hex_digit (n mod 16)]"
proof -
  have "map (\<lambda>i. hex_digit (n div 16 ^ i mod 16)) [0..<Suc d] =
      hex_digit (n mod 16) # map (\<lambda>i. hex_digit (n div 16 div 16 ^ i mod 16)) [0..<d]"
    by (simp add: upt_conv_Cons map_Suc_upt [symmetric] div_mult2_eq del: upt_Suc)
  then show ?thesis by (simp add: hex_text_def del: upt_Suc)
qed

lemma length_hex_text [simp]: "length (hex_text d n) = d"
  by (simp add: hex_text_def)

lemma hex_number_text: "n < 16 ^ d \<Longrightarrow> hex_number d (hex_text d n @ rest) = Some n"
proof -
  have "n < 16 ^ d \<Longrightarrow>
      fold (\<lambda>c n. Option.bind n (\<lambda>n. map_option (\<lambda>d. 16 * n + d) (hex_value c))) (hex_text d n) (Some 0) = Some n"
  proof (induction d arbitrary: n)
    case 0
    then show ?case by (simp add: hex_text_def)
  next
    case (Suc d)
    then have "n div 16 < 16 ^ d" by (simp add: less_mult_imp_div_less mult.commute)
    with Suc show ?case by (simp add: hex_text_Suc hex_value_digit)
  qed
  then show "n < 16 ^ d \<Longrightarrow> ?thesis" by (simp add: hex_number_def)
qed

lemma toml_chars_plain:
  "list_all (\<lambda>c. 128 \<le> byte c) bs \<Longrightarrow>
   toml_chars (bs @ rest) = map_option (\<lambda>(t, r). (bs @ t, r)) (toml_chars rest)"
proof (induction bs)
  case (Cons c bs)
  then have "c \<noteq> CHR 0x22" "c \<noteq> CHR 0x5C" by (auto simp: byte_def)
  with Cons show ?case by (cases "toml_chars rest") (auto simp: split_beta)
qed (simp add: map_option_case split: option.split)

text \<open>One quoted rune: its bytes, or a text that TOML refuses.\<close>

lemma toml_u_escape:
  "n < 16 ^ digits \<Longrightarrow> digits = (if e = CHR ''u'' then 4 else if e = CHR ''U'' then 8 else 0) \<Longrightarrow> 0 < digits \<Longrightarrow>
   toml_escape (e # hex_text digits n @ rest) = map_option (\<lambda>x. (x, rest)) (toml_scalar n)"
  by (simp add: toml_escape_def Let_def hex_number_text)

lemma toml_chars_escape:
  "toml_chars (CHR 0x5C # cs) =
     (case toml_escape cs of None \<Rightarrow> None | Some (x, r) \<Rightarrow> map_option (\<lambda>(t, r'). (x @ t, r')) (toml_chars r))"
  by simp

lemma toml_x_escape: "toml_chars (CHR 0x5C # CHR ''x'' # cs) = None"
  by (simp add: toml_escape_def toml_escapes_def)

lemma byte_inject: "byte c = byte d \<longleftrightarrow> c = d"
  by (simp add: byte_def)

lemma toml_chars_ascii:
  assumes "byte c < 128"
  shows "toml_chars (quote_rune printable (byte c, [c]) @ rest) =
     (if toml_rune (byte c, [c]) then map_option (\<lambda>(t, r). (c # t, r)) (toml_chars rest) else None)"
proof (cases "map_of go_escapes (byte c)")
  case None
  then have not: "byte c \<noteq> 34" "byte c \<noteq> 92" "byte c \<notin> {7, 8, 9, 10, 11, 12, 13}"
    by (auto simp: go_escapes_def split: if_splits)
  then have "c \<noteq> CHR 0x22" "c \<noteq> CHR 0x5C" "c \<noteq> CHR 0x09" by (auto simp: byte_def)
  with None not assms show ?thesis
    by (auto simp: quote_rune_def rune_error_def toml_rune_def toml_x_escape simp del: toml_chars.simps(2))
      (auto simp: byte_def)
next
  case (Some e)
  define table where "table = [(CHR 0x22, CHR 0x22), (CHR 0x5C, CHR 0x5C), (CHR 0x07, CHR ''a''),
    (CHR 0x08, CHR ''b''), (CHR 0x0C, CHR ''f''), (CHR 0x0A, CHR ''n''), (CHR 0x0D, CHR ''r''),
    (CHR 0x09, CHR ''t''), (CHR 0x0B, CHR ''v'')]"
  have "set go_escapes = map_prod byte id ` set table" by (simp add: go_escapes_def table_def byte_def)
  with map_of_SomeD [OF Some] have "(byte c, e) \<in> map_prod byte id ` set table" by simp
  then obtain d where "byte c = byte d" "(d, e) \<in> set table" by (rule imageE) (force simp: map_prod_def)
  then have "(c, e) \<in> set table" by (simp add: byte_inject)
  then consider "c = CHR 0x22" | "c = CHR 0x5C" | "c = CHR 0x07" | "c = CHR 0x08" | "c = CHR 0x0C" | "c = CHR 0x0A"
    | "c = CHR 0x0D" | "c = CHR 0x09" | "c = CHR 0x0B" by (auto simp: table_def)
  then show ?thesis
    by cases (simp_all add: go_escapes_def quote_rune_def rune_error_def toml_rune_def byte_def toml_escape_def
        toml_escapes_def)
qed

lemma toml_chars_rune:
  assumes "s \<noteq> []" "next_rune s = (r, w)"
  shows "toml_chars (quote_rune printable (r, take w s) @ rest) =
     (if toml_rune (r, take w s) then map_option (\<lambda>(t, r'). (take w s @ t, r')) (toml_chars rest) else None)"
proof -
  from assms(1) have w: "length (take w s) = w" using next_rune_width [of s] assms(2) by simp
  consider (ascii) "byte (hd s) < 128" | (bad) "r = rune_error" "w = 1" "\<not> byte (hd s) < 128"
    | (wide) "\<not> (r = rune_error \<and> w = 1)" "\<not> byte (hd s) < 128" by blast
  then show ?thesis
  proof cases
    case ascii
    with assms have "r = byte (hd s)" "take w s = [hd s]"
      by (auto simp: next_rune_def Let_def split: prod.splits if_splits) (cases s; simp)
    with toml_chars_ascii [OF ascii] show ?thesis by simp
  next
    case bad
    with w show ?thesis by (simp add: quote_rune_def toml_rune_def toml_x_escape del: toml_chars.simps(2))
  next
    case wide
    note enc = next_rune_encode [OF assms wide]
    from enc(2) have "map_of go_escapes r = None" by (auto simp: go_escapes_def)
    moreover from enc(1,3) have "toml_scalar r = Some (take w s)" by (auto simp: toml_scalar_def)
    moreover from enc(3) have "r < 16 ^ 8" by auto
    moreover have "toml_rune (r, take w s)" using wide enc(2) w by (simp add: toml_rune_def)
    ultimately show ?thesis
      using enc(2,3) wide w toml_chars_plain [OF enc(4), of rest]
        toml_u_escape [of r 4 "CHR ''u''" rest] toml_u_escape [of r 8 "CHR ''U''" rest]
      by (auto simp: quote_rune_def toml_chars_escape simp del: toml_chars.simps(2))
  qed
qed

lemma toml_chars_quoted:
  "toml_chars (concat (map (quote_rune printable) (runes s)) @ [quote_char]) =
     (if list_all toml_rune (runes s) then Some (s, []) else None)"
proof (induction s rule: runes.induct)
  case (1 s)
  obtain r w where next_s: "next_rune s = (r, w)" by fastforce
  show ?case
  proof (cases "s = []")
    case True
    then show ?thesis by (simp add: quote_char_def)
  next
    case False
    with 1 next_s have "toml_chars (concat (map (quote_rune printable) (runes (drop w s))) @ [quote_char]) =
        (if list_all toml_rune (runes (drop w s)) then Some (drop w s, []) else None)" by simp
    then show ?thesis
      unfolding runes_step [OF False next_s] by (simp add: toml_chars_rune [OF False next_s])
  qed
qed

lemma toml_string_quoted:
  "toml_string (go_quote printable s) = (if list_all toml_rune (runes s) then Some s else None)"
  by (simp add: toml_string_def go_quote_def toml_chars_quoted)

end
