(* ===== verification/Codex_Mcp.thy ===== *)
theory Codex_Mcp
  imports Go_Text Json_Raw Lookup
begin

section \<open>The MCP definition of the Desktop (codex\_app\_mcp\_windows.go)\<close>

text \<open>
  A shared server must be started with the MCP definition that the Desktop would pass on its command
  line: the plugin file that holds it is looked for, read as JSON, cleaned and written as an inline
  table of TOML. The tree of a JSON value does not keep how a fraction was spelled, so the literal of
  such a number (\<open>json.Number\<close>) is a parameter, as is the table of the printable runes.
\<close>

subsection \<open>TOML\<close>

definition lookup_last :: "string \<Rightarrow> (string \<times> 'a) list \<Rightarrow> 'a option" where
  "lookup_last k ms = map_of (rev ms) k"

definition sorted_keys :: "(string \<times> 'a) list \<Rightarrow> string list" where
  "sorted_keys ms = sort (remdups (map fst ms))"

text \<open>A JSON object became a Go map, which holds the last value of a key; its keys are visited in order.\<close>

fun tomlInlineValue :: "(nat \<Rightarrow> bool) \<Rightarrow> (int \<Rightarrow> int \<Rightarrow> string) \<Rightarrow> json \<Rightarrow> string option" where
  "tomlInlineValue printable literal (JString s) = Some (go_quote printable s)"
| "tomlInlineValue printable literal (JBool b) = Some (if b then ''true'' else ''false'')"
| "tomlInlineValue printable literal (JInt i) = Some (int_text i)"
| "tomlInlineValue printable literal (JFloat m e) = Some (literal m e)"
| "tomlInlineValue printable literal (JArray vs) =
     map_option (\<lambda>values. ''['' @ join_with '', '' values @ '']'')
       (those (map (tomlInlineValue printable literal) vs))"
| "tomlInlineValue printable literal (JObject ms) =
     (let encoded = map (\<lambda>(k, v). (k, tomlInlineValue printable literal v)) ms
      in map_option (\<lambda>parts. ''{'' @ join_with '','' parts @ ''}'')
           (those (map (\<lambda>k. map_option (\<lambda>e. go_quote printable k @ ''='' @ e) (Option.bind (lookup_last k encoded) id))
             (sorted_keys encoded))))"
| "tomlInlineValue printable literal JNull = None"

definition jsonToTOMLInline :: "(nat \<Rightarrow> bool) \<Rightarrow> (int \<Rightarrow> int \<Rightarrow> string) \<Rightarrow> string \<Rightarrow> string option" where
  "jsonToTOMLInline printable literal raw = Option.bind (parse_json raw) (tomlInlineValue printable literal)"

subsection \<open>The override\<close>

text \<open>A field of type \<open>map[string]json.RawMessage\<close>: every object given for it is added to the map.\<close>

fun dec_map :: "string \<Rightarrow> (string \<times> json) list \<Rightarrow> (string \<times> json) list \<Rightarrow> (string \<times> json) list option" where
  "dec_map name [] old = Some old"
| "dec_map name ((k, v) # ms) old =
     (if equal_fold k name
      then (case v of
          JNull \<Rightarrow> dec_map name ms []
        | JObject xs \<Rightarrow> dec_map name ms (old @ xs)
        | _ \<Rightarrow> None)
      else dec_map name ms old)"

text \<open>\<open>json.Unmarshal\<close> into a string variable: \<open>null\<close> leaves it empty.\<close>

definition string_value :: "json \<Rightarrow> string option" where
  "string_value v = (if v = JNull then Some [] else json_string v)"

datatype override_error =
    ovUnreadable | ovSyntax | ovNotObject | ovEmpty | ovCommand | ovNoTransport | ovCwd | ovValue | ovStat

definition transport_error :: "(string \<times> json) list \<Rightarrow> override_error option" where
  "transport_error object =
     (case map_of object ''command'' of
        Some command \<Rightarrow>
          (case string_value command of
             None \<Rightarrow> Some ovCommand
           | Some value \<Rightarrow> if trim_space value = [] then Some ovCommand else None)
      | None \<Rightarrow>
          (case map_of object ''url'' of
             None \<Rightarrow> Some ovNoTransport
           | Some endpoint \<Rightarrow> if endpoint = JNull then Some ovNoTransport else None))"

definition absolute_cwd :: "string \<Rightarrow> (string \<times> json) list \<Rightarrow> override_error + (string \<times> json) list" where
  "absolute_cwd path object =
     (case map_of object ''cwd'' of
        None \<Rightarrow> Inr object
      | Some cwd \<Rightarrow>
          (case string_value cwd of
             None \<Rightarrow> Inl ovCwd
           | Some value \<Rightarrow>
               if value \<noteq> [] \<and> \<not> filepath_IsAbs value
               then Inr (AList.update ''cwd'' (JString (filepath_Clean (filepath_Join (filepath_Dir path) value))) object)
               else Inr object))"

definition clean_definition :: "string \<Rightarrow> json \<Rightarrow> override_error + (string \<times> json) list" where
  "clean_definition path raw =
     (case raw of
        JObject xs \<Rightarrow>
          let object = json_map xs
          in if object = [] then Inl ovEmpty
             else let object = AList.delete ''type'' object
               in (case transport_error object of Some e \<Rightarrow> Inl e | None \<Rightarrow> absolute_cwd path object)
      | JNull \<Rightarrow> Inl ovEmpty
      | _ \<Rightarrow> Inl ovNotObject)"

text \<open>
  \<open>data\<close> is what reading the file gives. The object is marshalled, with its keys in order, and
  parsed again before it is written as TOML, which gives the value of its tree.
\<close>

definition codexAppMCPOverrideFromFile ::
    "(nat \<Rightarrow> bool) \<Rightarrow> (int \<Rightarrow> int \<Rightarrow> string) \<Rightarrow> string \<Rightarrow> string option \<Rightarrow> override_error + string" where
  "codexAppMCPOverrideFromFile printable literal path data =
     (case data of
        None \<Rightarrow> Inl ovUnreadable
      | Some bytes \<Rightarrow>
          (case Option.bind (unmarshal_struct bytes) (\<lambda>ms. dec_map ''mcpServers'' ms []) of
             None \<Rightarrow> Inl ovSyntax
           | Some servers \<Rightarrow>
               (case lookup_last ''codex_app'' servers of
                  None \<Rightarrow> Inr []
                | Some raw \<Rightarrow>
                    (case clean_definition path raw of
                       Inl e \<Rightarrow> Inl e
                     | Inr object \<Rightarrow>
                         (case tomlInlineValue printable literal (JObject object) of
                            None \<Rightarrow> Inl ovValue
                          | Some value \<Rightarrow> Inr (''mcp_servers.codex_app='' @ value))))))"

subsection \<open>Where the definition is\<close>

datatype stat_result = statFile | statDir | statMissing | statError

record mcp_disk =
  md_Stat :: "string \<Rightarrow> stat_result"
  md_Home :: string
  md_Resources :: string
  md_Entries :: "((string \<times> bool) list) option"
  md_CacheMissing :: bool
  md_ModTime :: "string \<Rightarrow> int"
  md_Read :: "string \<Rightarrow> string option"

definition join_path :: "string list \<Rightarrow> string" where
  "join_path parts = (case filter (\<lambda>p. p \<noteq> []) parts of [] \<Rightarrow> [] | ps \<Rightarrow> filepath_Clean (join_with [separator] ps))"

definition mcp_candidate :: "string \<Rightarrow> string" where
  "mcp_candidate root =
     join_path [if equal_fold (filepath_Base (filepath_Clean root)) ''codex-app-tools'' then root
       else join_path [root, ''plugins'', ''openai-bundled'', ''plugins'', ''codex-app-tools''], ''desktop-mcp.json'']"

text \<open>The fixed places in order: \<open>Some\<close> ends the search. A place that was tried is not tried again.\<close>

fun try_roots :: "mcp_disk \<Rightarrow> string list \<Rightarrow> string list \<Rightarrow> (override_error + string) option" where
  "try_roots disk [] seen = None"
| "try_roots disk (root # roots) seen =
     (let root = trim_space root; candidate = mcp_candidate root; key = to_lower (filepath_Clean candidate)
      in if root = [] \<or> key \<in> set seen then try_roots disk roots seen
         else (case md_Stat disk candidate of
             statFile \<Rightarrow> Some (Inr candidate)
           | statError \<Rightarrow> Some (Inl ovStat)
           | _ \<Rightarrow> try_roots disk roots (key # seen)))"

definition fixed_roots :: "mcp_disk \<Rightarrow> string list" where
  "fixed_roots disk =
     [trim_space (md_Resources disk), join_path [md_Home disk, ''.codex'', ''electron-bundled-plugins''],
      join_path [md_Home disk, ''.codex'', ''.tmp'', ''bundled-marketplaces'', ''openai-bundled'']]"

definition cached_candidates :: "mcp_disk \<Rightarrow> (string \<times> bool) list \<Rightarrow> string list" where
  "cached_candidates disk entries =
     filter (\<lambda>path. md_Stat disk path = statFile)
       (map (\<lambda>(name, _). join_path [md_Home disk, ''.codex'', ''plugins'', ''cache'', ''openai-bundled'',
           ''codex-app-tools'', name, ''desktop-mcp.json'']) (filter snd entries))"

text \<open>The newest first, and of the same age the one with the greater path.\<close>

definition newest_candidate :: "mcp_disk \<Rightarrow> string list \<Rightarrow> string list" where
  "newest_candidate disk paths = rev (sort_key (md_ModTime disk) (sort paths))"

definition findCodexAppMCPConfig :: "mcp_disk \<Rightarrow> override_error + string option" where
  "findCodexAppMCPConfig disk =
     (case try_roots disk (fixed_roots disk) [] of
        Some (Inl e) \<Rightarrow> Inl e
      | Some (Inr path) \<Rightarrow> Inr (Some path)
      | None \<Rightarrow>
          (case md_Entries disk of
             None \<Rightarrow> if md_CacheMissing disk then Inr None else Inl ovStat
           | Some entries \<Rightarrow>
               (case newest_candidate disk (cached_candidates disk entries) of
                  [] \<Rightarrow> Inr None
                | path # _ \<Rightarrow> Inr (Some path))))"

text \<open>\<open>digest\<close> is the SHA-256 of a string in hexadecimal.\<close>

definition load_override ::
    "(nat \<Rightarrow> bool) \<Rightarrow> (int \<Rightarrow> int \<Rightarrow> string) \<Rightarrow> (string \<Rightarrow> string) \<Rightarrow> mcp_disk \<Rightarrow> override_error + string \<times> string" where
  "load_override printable literal digest disk =
     (case findCodexAppMCPConfig disk of
        Inl e \<Rightarrow> Inl e
      | Inr None \<Rightarrow> Inr ([], [])
      | Inr (Some path) \<Rightarrow>
          (case codexAppMCPOverrideFromFile printable literal path (md_Read disk path) of
             Inl e \<Rightarrow> Inl e
           | Inr override \<Rightarrow> Inr (if override = [] then ([], []) else (override, digest override))))"

subsection \<open>Properties\<close>

text \<open>A value has no TOML text exactly if a null is left in it.\<close>

fun live_null :: "json \<Rightarrow> bool" where
  "live_null JNull = True"
| "live_null (JArray vs) = list_ex live_null vs"
| "live_null (JObject ms) =
     (let nulls = map (\<lambda>(k, v). (k, live_null v)) ms
      in list_ex (\<lambda>k. lookup_last k nulls = Some True) (map fst ms))"
| "live_null _ = False"

lemma those_None: "those xs = None \<longleftrightarrow> None \<in> set xs"
  by (induction xs) (auto split: option.split)

lemma lookup_last_map: "lookup_last k (map (\<lambda>(k, v). (k, f v)) ms) = map_option f (lookup_last k ms)"
  by (simp add: lookup_last_def rev_map map_of_map)

lemma lookup_last_in: "lookup_last k ms = Some v \<Longrightarrow> (k, v) \<in> set ms"
  by (auto simp: lookup_last_def dest: map_of_SomeD)

lemma lookup_last_key: "k \<in> fst ` set ms \<Longrightarrow> \<exists>v. lookup_last k ms = Some v"
  by (auto simp: lookup_last_def simp flip: not_None_eq simp: map_of_eq_None_iff)

lemma toml_fails_on_null: "tomlInlineValue printable literal v = None \<longleftrightarrow> live_null v"
proof (induction v rule: live_null.induct)
  case (2 vs)
  then show ?case by (auto simp: those_None list_ex_iff image_iff) (metis)+
next
  case (3 ms)
  let ?enc = "map (\<lambda>(k, v). (k, tomlInlineValue printable literal v)) ms"
  have member: "(Option.bind (lookup_last k ?enc) id = None) \<longleftrightarrow>
      lookup_last k (map (\<lambda>(k, v). (k, live_null v)) ms) = Some True" if k: "k \<in> fst ` set ms" for k
  proof -
    from lookup_last_key [OF k] obtain v where v: "lookup_last k ms = Some v" by blast
    from 3 lookup_last_in [OF v] have "tomlInlineValue printable literal v = None \<longleftrightarrow> live_null v" by blast
    with v show ?thesis by (simp add: lookup_last_map)
  qed
  have "tomlInlineValue printable literal (JObject ms) = None \<longleftrightarrow>
      (\<exists>k\<in>fst ` set ms. Option.bind (lookup_last k ?enc) id = None)"
    by (auto simp: those_None sorted_keys_def image_iff Let_def split_def)
  also have "\<dots> \<longleftrightarrow> live_null (JObject ms)"
    using member by (auto simp: list_ex_iff Let_def)
  finally show ?case .
qed simp_all

text \<open>The object behind the override: the definition in the file, without its type and with an absolute directory.\<close>

definition defined_server :: "string option \<Rightarrow> json option" where
  "defined_server data =
     Option.bind data (\<lambda>bytes. Option.bind (unmarshal_struct bytes) (\<lambda>ms.
       Option.bind (dec_map ''mcpServers'' ms []) (lookup_last ''codex_app'')))"

definition effective_cwd :: "string \<Rightarrow> json \<Rightarrow> json" where
  "effective_cwd path v =
     (case v of
        JString d \<Rightarrow> if d \<noteq> [] \<and> \<not> filepath_IsAbs d then JString (filepath_Clean (filepath_Join (filepath_Dir path) d)) else v
      | _ \<Rightarrow> v)"

definition has_transport :: "(string \<rightharpoonup> json) \<Rightarrow> bool" where
  "has_transport object \<longleftrightarrow>
     (case object ''command'' of
        Some v \<Rightarrow> (case v of JString c \<Rightarrow> trim_space c \<noteq> [] | _ \<Rightarrow> False)
      | None \<Rightarrow> object ''url'' \<notin> {None, Some JNull})"

lemma map_of_json_map: "map_of (json_map ms) = map_of (rev ms)"
proof -
  have "map_of (fold (\<lambda>(k, v). AList.update k v) ms acc) = map_of acc ++ map_of (rev ms)" for acc
    by (induction ms arbitrary: acc) (auto simp: update_conv' map_add_def fun_eq_iff split: option.split)
  then show ?thesis by (simp add: json_map_def)
qed

lemma transport_ok: "transport_error object = None \<longleftrightarrow> has_transport (map_of object)"
  by (auto simp: transport_error_def has_transport_def string_value_def json_string_def
      split: option.splits json.splits if_splits)

lemma absolute_cwd_result:
  "absolute_cwd path object = Inr object' \<Longrightarrow>
   map_of object' = (map_of object)(''cwd'' := map_option (effective_cwd path) (map_of object ''cwd''))"
  by (auto simp: absolute_cwd_def effective_cwd_def string_value_def json_string_def update_conv' fun_eq_iff
      split: option.splits json.splits if_splits)

text \<open>
  An override is the definition of the plugin file written as TOML, member by member: nothing
  is left out but the field that only the plugin format knows, a relative working directory is taken
  from the directory of the file, and it names a command that is not blank or, without one, an address.
  Without a definition in the file there is no override, and every other file is refused.
\<close>

theorem override_faithful:
  "case codexAppMCPOverrideFromFile printable literal path data of
     Inl e \<Rightarrow> True
   | Inr override \<Rightarrow>
       override = [] \<and> defined_server data = None \<or>
       (\<exists>xs object value. defined_server data = Some (JObject xs) \<and>
          map_of object = (map_of (rev xs))(''type'' := None,
            ''cwd'' := map_option (effective_cwd path) (map_of (rev xs) ''cwd'')) \<and>
          has_transport (map_of object) \<and>
          tomlInlineValue printable literal (JObject object) = Some value \<and>
          override = ''mcp_servers.codex_app='' @ value)"
proof (cases "codexAppMCPOverrideFromFile printable literal path data")
  case (Inr override)
  then obtain bytes servers where bytes: "data = Some bytes"
      "Option.bind (unmarshal_struct bytes) (\<lambda>ms. dec_map ''mcpServers'' ms []) = Some servers"
    by (auto simp: codexAppMCPOverrideFromFile_def split: option.splits)
  then have server: "defined_server data = lookup_last ''codex_app'' servers"
    by (auto simp: defined_server_def bind_eq_Some_conv)
  show ?thesis
  proof (cases "lookup_last ''codex_app'' servers")
    case None
    with Inr bytes server show ?thesis by (simp add: codexAppMCPOverrideFromFile_def)
  next
    case (Some raw)
    with Inr bytes obtain object body where object: "clean_definition path raw = Inr object"
        "tomlInlineValue printable literal (JObject object) = Some body"
        "override = ''mcp_servers.codex_app='' @ body"
      by (auto simp: codexAppMCPOverrideFromFile_def simp del: tomlInlineValue.simps
          split: sum.splits option.splits)
    from object(1) obtain xs where xs: "raw = JObject xs"
        "transport_error (AList.delete ''type'' (json_map xs)) = None"
        "absolute_cwd path (AList.delete ''type'' (json_map xs)) = Inr object"
      by (auto simp: clean_definition_def Let_def split: json.splits if_splits option.splits)
    have members: "map_of object = (map_of (rev xs))(''type'' := None,
        ''cwd'' := map_option (effective_cwd path) (map_of (rev xs) ''cwd''))"
      using absolute_cwd_result [OF xs(3)] by (simp add: delete_conv' map_of_json_map)
    from xs(2) have "has_transport (map_of object)"
      unfolding members transport_ok delete_conv' map_of_json_map by (simp add: has_transport_def split: option.splits)
    moreover have "defined_server data = Some (JObject xs)" using server Some xs(1) by simp
    ultimately show ?thesis unfolding Inr sum.case using members object(2,3) by blast
  qed
qed simp

text \<open>
  C35: a string of the definition is read back by Codex as it was, character for character, exactly
  if it has no control characters but backspace, tab, line feed, form feed and carriage return, no
  delete character and no byte that is not UTF-8; with any of these the override is not TOML.
\<close>

theorem toml_string_survives:
  "Option.bind (tomlInlineValue printable literal (JString s)) toml_string =
     (if list_all toml_rune (runes s) then Some s else None)"
  by (simp add: toml_string_quoted)

end
