(* ===== verification/Command_Line.thy ===== *)
theory Command_Line
  imports Lookup
begin

section \<open>The command line (main.go, supervisor.go, config.go)\<close>

text \<open>
  How \<open>main\<close> reads its arguments: the mode, the flags as \<open>flag.FlagSet\<close> parses them (its error is
  dropped, so that a bad flag ends the parse and what was read so far counts), the data directory
  and the settings that come from the environment. \<open>os.Getenv\<close>, the home directory and Windows'
  full path of a name are the record \<open>shell\<close>.
\<close>

subsection \<open>Flags\<close>

record cmd_flags =
  cf_dataDir :: string
  cf_settingsFile :: string
  cf_action :: string
  cf_threadID :: string
  cf_noTray :: bool
  cf_supervised :: bool

definition no_flags :: cmd_flags where
  "no_flags = \<lparr>cf_dataDir = [], cf_settingsFile = [], cf_action = [], cf_threadID = [],
     cf_noTray = False, cf_supervised = False\<rparr>"

definition string_flag :: "string \<Rightarrow> (string \<Rightarrow> cmd_flags \<Rightarrow> cmd_flags) option" where
  "string_flag name =
     (if name = ''data-dir'' then Some (\<lambda>v f. f\<lparr>cf_dataDir := v\<rparr>)
      else if name = ''settings-file'' then Some (\<lambda>v f. f\<lparr>cf_settingsFile := v\<rparr>)
      else if name = ''action'' then Some (\<lambda>v f. f\<lparr>cf_action := v\<rparr>)
      else if name = ''thread-id'' then Some (\<lambda>v f. f\<lparr>cf_threadID := v\<rparr>) else None)"

definition bool_flag :: "string \<Rightarrow> (bool \<Rightarrow> cmd_flags \<Rightarrow> cmd_flags) option" where
  "bool_flag name =
     (if name = ''no-tray'' then Some (\<lambda>v f. f\<lparr>cf_noTray := v\<rparr>)
      else if name = ''supervised'' then Some (\<lambda>v f. f\<lparr>cf_supervised := v\<rparr>) else None)"

definition ParseBool :: "string \<Rightarrow> bool option" where
  "ParseBool s =
     (if s \<in> set [''1'', ''t'', ''T'', ''true'', ''TRUE'', ''True''] then Some True
      else if s \<in> set [''0'', ''f'', ''F'', ''false'', ''FALSE'', ''False''] then Some False else None)"

text \<open>
  The name of a flag and the value after an equals sign. \<open>None\<close>: not a flag, the terminator, or not
  well formed; each ends the parse.
\<close>

definition flag_name :: "string \<Rightarrow> (string \<times> string option) option" where
  "flag_name s =
     (if length s < 2 \<or> hd s \<noteq> CHR ''-'' then None
      else let name = (if s ! 1 = CHR ''-'' then drop 2 s else drop 1 s)
        in if name = [] \<or> hd name = CHR ''-'' \<or> hd name = CHR ''='' then None
           else let rest = dropWhile (\<lambda>c. c \<noteq> CHR ''='') name
             in Some (takeWhile (\<lambda>c. c \<noteq> CHR ''='') name, if rest = [] then None else Some (tl rest)))"

fun parse_flags :: "string list \<Rightarrow> cmd_flags \<Rightarrow> cmd_flags" where
  "parse_flags [] f = f"
| "parse_flags (s # args) f =
     (case flag_name s of
        None \<Rightarrow> f
      | Some (name, given) \<Rightarrow>
          (case bool_flag name of
             Some set_flag \<Rightarrow>
               (case given of
                  None \<Rightarrow> parse_flags args (set_flag True f)
                | Some v \<Rightarrow>
                    (case ParseBool v of
                       None \<Rightarrow> set_flag False f
                     | Some b \<Rightarrow> parse_flags args (set_flag b f)))
           | None \<Rightarrow>
               (case string_flag name of
                  None \<Rightarrow> f
                | Some set_flag \<Rightarrow>
                    (case given of
                       Some v \<Rightarrow> parse_flags args (set_flag v f)
                     | None \<Rightarrow> (case args of [] \<Rightarrow> f | v # rest \<Rightarrow> parse_flags rest (set_flag v f))))))"

definition modes :: "string list" where
  "modes = [''run'', ''supervise'', ''mcp'', ''save-settings'', ''control'']"

definition read_arguments :: "string list \<Rightarrow> string \<times> cmd_flags" where
  "read_arguments arguments =
     (case arguments of
        [] \<Rightarrow> (''run'', no_flags)
      | a # rest \<Rightarrow> if a \<in> set modes then (a, parse_flags rest no_flags) else (''run'', parse_flags arguments no_flags))"

subsection \<open>Paths from outside\<close>

record shell =
  sh_Getenv :: "string \<Rightarrow> string"
  sh_Home :: "string option"
  sh_FullPath :: "string \<Rightarrow> string option"
  sh_Executable :: "string option"

definition special_var :: "char \<Rightarrow> bool" where
  "special_var c \<longleftrightarrow> c \<in> set ''*#$@!?-'' \<or> is_digit c"

definition alpha_num :: "char \<Rightarrow> bool" where
  "alpha_num c \<longleftrightarrow> c = CHR ''_'' \<or> is_digit c \<or> (97 \<le> byte (lower_char c) \<and> byte (lower_char c) \<le> 122)"

text \<open>\<open>getShellName\<close> of what follows a dollar sign: the name and how many characters it takes.\<close>

definition shell_name :: "string \<Rightarrow> string \<times> nat" where
  "shell_name s =
     (if hd s = CHR ''{''
      then (if 2 < length s \<and> special_var (s ! 1) \<and> s ! 2 = CHR ''}'' then ([s ! 1], 3)
            else let name = takeWhile (\<lambda>c. c \<noteq> CHR ''}'') (tl s)
              in if length name = length (tl s) then ([], 1)
                 else if name = [] then ([], 2) else (name, length name + 2))
      else if special_var (hd s) then ([hd s], 1)
      else let name = takeWhile alpha_num s in (name, length name))"

function expand_env :: "(string \<Rightarrow> string) \<Rightarrow> string \<Rightarrow> string" where
  "expand_env getenv [] = []"
| "expand_env getenv (c # cs) =
     (if c \<noteq> CHR ''$'' \<or> cs = [] then c # expand_env getenv cs
      else case shell_name cs of (name, w) \<Rightarrow>
        (if name \<noteq> [] then getenv name else if w = 0 then [c] else []) @ expand_env getenv (drop w cs))"
  by pat_completeness auto
termination
  by (relation "measure (length \<circ> snd)") auto

definition expandPath :: "shell \<Rightarrow> string \<Rightarrow> string" where
  "expandPath sh v =
     (let v = expand_env (sh_Getenv sh) (trim_space v);
          v = (if v = ''~'' \<or> prefix [CHR ''~'', separator] v \<or> prefix ''~/'' v
               then (case sh_Home sh of None \<Rightarrow> v | Some home \<Rightarrow> filepath_Join home (dropWhile is_sep (tl v)))
               else v)
      in case sh_FullPath sh v of Some full \<Rightarrow> filepath_Clean full | None \<Rightarrow> filepath_Clean v)"

subsection \<open>What is run\<close>

datatype invocation =
    saveSettings string string
  | control string string string
  | mcpServer string
  | supervisor string bool
  | worker string bool bool
  | nothing

definition or_env :: "shell \<Rightarrow> string \<Rightarrow> string \<Rightarrow> string" where
  "or_env sh v name = (if v = [] then sh_Getenv sh name else v)"

definition data_directory :: "shell \<Rightarrow> cmd_flags \<Rightarrow> string option" where
  "data_directory sh f =
     (let dir = or_env sh (cf_dataDir f) ''CODEX_AUTO_RETRY_DATA_DIR''
      in map_option (expandPath sh) (if dir \<noteq> [] then Some dir else map_option filepath_Dir (sh_Executable sh)))"

text \<open>\<open>made\<close>: the directory is there or could be made.\<close>

definition main_dispatch :: "shell \<Rightarrow> (string \<Rightarrow> bool) \<Rightarrow> string list \<Rightarrow> invocation" where
  "main_dispatch sh made arguments =
     (case read_arguments arguments of (mode, f) \<Rightarrow>
        (case data_directory sh f of
           None \<Rightarrow> nothing
         | Some dataDir \<Rightarrow>
             if \<not> made dataDir then nothing
             else if mode = ''save-settings''
             then saveSettings dataDir (or_env sh (cf_settingsFile f) ''CODEX_AUTO_RETRY_SETTINGS_FILE'')
             else if mode = ''control''
             then control dataDir (or_env sh (cf_action f) ''CODEX_AUTO_RETRY_ACTION'')
                    (or_env sh (cf_threadID f) ''CODEX_AUTO_RETRY_THREAD_ID'')
             else if mode = ''mcp'' then mcpServer dataDir
             else if mode = ''supervise'' then supervisor dataDir (cf_noTray f)
             else worker dataDir (cf_noTray f) (cf_supervised f)))"

text \<open>The arguments the supervisor starts its worker with.\<close>

definition worker_arguments :: "string \<Rightarrow> bool \<Rightarrow> string list" where
  "worker_arguments dataDir noTray =
     [''run'', ''--data-dir'', dataDir] @ [''--supervised''] @ (if noTray then [''--no-tray''] else [])"

subsection \<open>Properties\<close>

lemma flag_names:
  "flag_name ''--data-dir'' = Some (''data-dir'', None)"
  "flag_name ''--supervised'' = Some (''supervised'', None)"
  "flag_name ''--no-tray'' = Some (''no-tray'', None)"
  by (simp_all add: flag_name_def Let_def)

lemma worker_flags:
  "read_arguments (worker_arguments dataDir noTray) =
     (''run'', no_flags\<lparr>cf_dataDir := dataDir, cf_noTray := noTray, cf_supervised := True\<rparr>)"
  by (simp add: worker_arguments_def read_arguments_def modes_def flag_names bool_flag_def string_flag_def
      no_flags_def)

text \<open>
  The command line that the supervisor starts its worker with says to \<open>main\<close> what the supervisor
  meant: a worker of its own directory, supervised, with the tray if the supervisor has one, whatever
  the directory is called. The directory is expanded a second time on the way.
\<close>

theorem worker_command_line:
  "main_dispatch sh made (worker_arguments (expandPath sh v) noTray) =
     (let dataDir = expandPath sh (expandPath sh v)
      in if made dataDir then worker dataDir noTray True else nothing)"
proof -
  have "expandPath sh v \<noteq> []" by (simp add: expandPath_def Let_def split: option.split)
  then show ?thesis
    by (simp add: main_dispatch_def worker_flags data_directory_def or_env_def Let_def)
qed

lemma expand_env_plain: "CHR ''$'' \<notin> set s \<Longrightarrow> expand_env getenv s = s"
  by (induction s) auto

text \<open>
  The directory of the executable is expanded like a path the user wrote: with a dollar sign in it
  the watchdog works in another directory.
\<close>

definition dollar_shell :: shell where
  "dollar_shell = \<lparr>sh_Getenv = (\<lambda>_. []), sh_Home = None, sh_FullPath = Some,
     sh_Executable = Some (''C:/tools'' @ [separator] @ ''$retry'' @ [separator] @ ''watch.exe'')\<rparr>"

lemma dollar_directory_lost:
  "data_directory dollar_shell no_flags = Some (''C:'' @ [separator] @ ''tools'')"
  by code_simp

end
