(* ===== verification/Tray.thy ===== *)
theory Tray
  imports Management_Lemmas Go_Text
begin

section \<open>The icon in the notification area (tray\_windows.go)\<close>

text \<open>
  The tray runs one message at a time on a thread of its own. Its state is the record of \<open>trayApp\<close>
  with what Windows shows: the icon with its tip, once it was added, and the balloons so far. The
  code drops the result of every call but the one that adds the icon; a change is taken to succeed on
  an icon that is there. Texts are kept as the code has them, before they are cut to the size of the
  Windows structure (\<open>copyUTF16\<close>). The window itself is not modelled.
\<close>

subsection \<open>Texts\<close>

definition utf8 :: "nat list \<Rightarrow> string" where
  "utf8 codes = concat (map utf8_encode codes)"

definition app_name :: string where
  "app_name = ''Codex Auto Retry''"

definition tip_unreadable :: string where
  "tip_unreadable = utf8 [0x72B6, 0x6001, 0x8BFB, 0x53D6, 0x5931, 0x8D25]"

definition tip_running :: string where
  "tip_running = utf8 [0x8FD0, 0x884C, 0x4E2D]"

definition tip_official :: string where
  "tip_official =
     utf8 [0x5F53, 0x524D, 0x4E3A, 0x5B98, 0x65B9, 0x540E, 0x53F0, 0xFF1B, 0x8BF7, 0x901A, 0x8FC7,
     0x5B89, 0x5168, 0x542F, 0x52A8, 0x5165, 0x53E3, 0x63A5, 0x5165, 0x5171, 0x4EAB, 0x901A, 0x9053]"

definition tip_codex_gone :: string where
  "tip_codex_gone = ''Codex '' @ utf8 [0x5DF2, 0x9000, 0x51FA, 0xFF0C, 0x91CD, 0x8BD5, 0x5DF2, 0x505C, 0x6B62]"

definition tip_disabled :: string where
  "tip_disabled =
     utf8 [0x5171, 0x4EAB, 0x540E, 0x53F0, 0x5DF2, 0x5173, 0x95ED, 0xFF0C, 0x91CD, 0x8BD5, 0x672A,
     0x6267, 0x884C]"

definition tip_reserved :: string where
  "tip_reserved =
     utf8 [0x5171, 0x4EAB, 0x7AEF, 0x53E3, 0x88AB] @ '' Windows '' @ utf8 [0x4FDD, 0x7559, 0xFF0C,
     0x91CD, 0x8BD5, 0x672A, 0x6267, 0x884C]"

definition tip_conflict :: string where
  "tip_conflict =
     utf8 [0x9996, 0x9009, 0x7AEF, 0x53E3, 0x4E0D, 0x53EF, 0x7528, 0xFF0C, 0x5F53, 0x524D, 0x7AEF,
     0x53E3] @ '' ''"

definition tip_migration :: string where
  "tip_migration =
     utf8 [0x7B49, 0x5F85] @ '' Codex '' @ utf8 [0x5173, 0x95ED, 0x540E, 0x5B8C, 0x6210, 0x540E, 0x53F0,
     0x8FC1, 0x79FB]"

definition tip_paused :: string where
  "tip_paused = utf8 [0x5DF2, 0x6682, 0x505C]"

definition title_restart :: string where
  "title_restart = utf8 [0x9700, 0x8981, 0x91CD, 0x542F] @ '' Codex''"

definition balloon_restart :: string where
  "balloon_restart =
     utf8 [0x91CD, 0x542F, 0x4E00, 0x6B21] @ '' Codex '' @ utf8 [0x540E, 0xFF0C, 0x7B49, 0x5F85, 0x4E2D,
     0x7684, 0x81EA, 0x52A8, 0x91CD, 0x8BD5, 0x4F1A, 0x81EA, 0x884C, 0x6062, 0x590D, 0x3002]"

definition title_exited :: string where
  "title_exited = ''Codex '' @ utf8 [0x5DF2, 0x9000, 0x51FA]"

definition balloon_exited :: string where
  "balloon_exited =
     utf8 [0x76F8, 0x5173, 0x4EFB, 0x52A1, 0x5DF2, 0x505C, 0x6B62, 0x81EA, 0x52A8, 0x91CD, 0x8BD5,
     0x3002, 0x542F, 0x52A8] @ '' Codex '' @ utf8 [0x540E, 0x53EF, 0x4ECE, 0x8BBE, 0x7F6E, 0x4E2D,
     0x91CD, 0x65B0, 0x5F00, 0x59CB, 0x3002]"

definition title_shared :: string where
  "title_shared = utf8 [0x5171, 0x4EAB, 0x540E, 0x53F0, 0x5DF2, 0x5173, 0x95ED]"

definition balloon_shared :: string where
  "balloon_shared =
     utf8 [0x81EA, 0x52A8, 0x6062, 0x590D, 0x672A, 0x6267, 0x884C, 0x3002, 0x8BF7, 0x6253, 0x5F00,
     0x5171, 0x4EAB, 0x540E, 0x53F0, 0x6A21, 0x5F0F, 0xFF0C, 0x7136, 0x540E, 0x91CD, 0x65B0, 0x5F00,
     0x59CB, 0x8BE5, 0x4EFB, 0x52A1, 0x3002]"

definition title_block :: string where
  "title_block = utf8 [0x76EE, 0x6807, 0x505C, 0x6B62, 0x5931, 0x8D25]"

definition balloon_block :: string where
  "balloon_block =
     utf8 [0x76EE, 0x6807, 0x6062, 0x590D, 0x5DF2, 0x505C, 0x6B62, 0xFF0C, 0x4F46, 0x81EA, 0x52A8,
     0x8BBE, 0x4E3A, 0x53D7, 0x963B, 0x5931, 0x8D25, 0x3002, 0x8BF7, 0x4ECE, 0x9762, 0x677F, 0x91CD,
     0x65B0, 0x5F00, 0x59CB, 0x6216, 0x68C0, 0x67E5] @ '' Codex '' @ utf8 [0x72B6, 0x6001, 0x3002]"

definition title_goal :: string where
  "title_goal = utf8 [0x76EE, 0x6807, 0x5DF2, 0x81EA, 0x52A8, 0x505C, 0x6B62]"

definition balloon_goal :: string where
  "balloon_goal =
     utf8 [0x76EE, 0x6807, 0x8FDE, 0x7EED, 0x7A7A, 0x56DE, 0x590D, 0x8FBE, 0x5230, 0x4E0A, 0x9650,
     0xFF0C, 0x76EE, 0x6807, 0x6062, 0x590D, 0x5DF2, 0x505C, 0x6B62, 0x3002]"

definition title_limit :: string where
  "title_limit = utf8 [0x81EA, 0x52A8, 0x91CD, 0x8BD5, 0x5DF2, 0x505C, 0x6B62]"

text \<open>\<open>copyUTF16\<close> into a zeroed buffer: cut to its size, and the last unit is always zero.\<close>

definition utf16_rune :: "nat \<Rightarrow> nat list" where
  "utf16_rune r = (if r < 65536 then [r] else [55296 + (r - 65536) div 1024, 56320 + (r - 65536) mod 1024])"

definition UTF16FromString :: "string \<Rightarrow> nat list" where
  "UTF16FromString s =
     (if CHR 0x00 \<in> set s then [] else concat (map (utf16_rune \<circ> fst) (runes s)) @ [0])"

definition copyUTF16 :: "nat list \<Rightarrow> string \<Rightarrow> nat list" where
  "copyUTF16 destination v =
     (let encoded = take (length destination) (UTF16FromString v);
          copied = encoded @ drop (length encoded) destination
      in if destination = [] then [] else copied[length destination - 1 := 0])"

subsection \<open>State\<close>

record tray =
  ty_lastTip :: string
  ty_lastIcon :: string
  ty_lastStopped :: int
  ty_lastGoalStopped :: int
  ty_lastGoalFailed :: int
  ty_lastRestartRequired :: int
  ty_lastCodexStopped :: int
  ty_lastSharedDisabled :: int
  ty_initialized :: bool
  ty_settingsOpen :: bool
  ty_script :: "string option"
  ty_shown :: "(string \<times> string) option"
  ty_balloons :: "(string \<times> string) list"

text \<open>\<open>script\<close> is the settings script that an earlier run left in the data directory.\<close>

definition new_tray :: "string option \<Rightarrow> tray" where
  "new_tray script = \<lparr>ty_lastTip = [], ty_lastIcon = [], ty_lastStopped = 0, ty_lastGoalStopped = 0, ty_lastGoalFailed = 0,
     ty_lastRestartRequired = 0, ty_lastCodexStopped = 0, ty_lastSharedDisabled = 0, ty_initialized = False,
     ty_settingsOpen = False, ty_script = script, ty_shown = None, ty_balloons = []\<rparr>"

definition addIcon :: "bool \<Rightarrow> tray \<Rightarrow> bool \<times> tray" where
  "addIcon ok t = (ok, if ok then t\<lparr>ty_shown := Some (''running'', app_name)\<rparr> else t)"

definition removeIcon :: "tray \<Rightarrow> tray" where
  "removeIcon t = t\<lparr>ty_shown := None\<rparr>"

definition setVisual :: "string \<Rightarrow> string \<Rightarrow> tray \<Rightarrow> tray" where
  "setVisual iconState tip t =
     (let iconState = (if iconState = [] then ''running'' else iconState)
      in if tip = ty_lastTip t \<and> iconState = ty_lastIcon t then t
         else t\<lparr>ty_lastTip := tip, ty_lastIcon := iconState, ty_shown := map_option (\<lambda>_. (iconState, tip)) (ty_shown t)\<rparr>)"

definition setTip :: "string \<Rightarrow> tray \<Rightarrow> tray" where
  "setTip tip t = setVisual (ty_lastIcon t) tip t"

definition notify :: "string \<times> string \<Rightarrow> tray \<Rightarrow> tray" where
  "notify b t = t\<lparr>ty_balloons := ty_balloons t @ [b]\<rparr>"

subsection \<open>Refresh\<close>

definition stoppedReasonCount :: "ManagedRetry list \<Rightarrow> string \<Rightarrow> int" where
  "stoppedReasonCount retries reason =
     int (length (filter (\<lambda>r. mr_State r = ''stopped'' \<and> mr_StopReason r = reason) retries))"

definition limit_reasons :: "string list" where
  "limit_reasons = [''recovery_attempt_limit'', ''consecutive_retry_limit'', ''retry_limit'', ''auth_attempt_limit'']"

definition retryLimitStoppedCount :: "ManagedRetry list \<Rightarrow> int" where
  "retryLimitStoppedCount retries =
     int (length (filter (\<lambda>r. mr_State r = ''stopped'' \<and> mr_StopReason r \<in> set limit_reasons) retries))"

definition goalEmptyResponseStoppedCount :: "ManagedRetry list \<Rightarrow> int" where
  "goalEmptyResponseStoppedCount retries = stoppedReasonCount retries goalEmptyResponseStopReason"

definition goalEmptyResponseBlockFailedCount :: "ManagedRetry list \<Rightarrow> int" where
  "goalEmptyResponseBlockFailedCount retries = stoppedReasonCount retries goalEmptyResponseBlockFailReason"

fun nextRetrySeconds :: "ManagedRetry list \<Rightarrow> int option \<Rightarrow> int option" where
  "nextRetrySeconds [] found = found"
| "nextRetrySeconds (r # rs) found =
     (if mr_State r \<noteq> ''pending'' then nextRetrySeconds rs found
      else nextRetrySeconds rs (case found of
          None \<Rightarrow> Some (mr_SecondsRemaining r)
        | Some s \<Rightarrow> if mr_SecondsRemaining r < s then Some (mr_SecondsRemaining r) else found))"

definition tray_tip :: "string \<Rightarrow> string" where
  "tray_tip s = app_name @ '' - '' @ s"

text \<open>The state of the icon and the tip for a snapshot.\<close>

definition visual :: "ManagementSnapshot \<Rightarrow> string \<times> string" where
  "visual snap =
     (let state = ms_ControllerState snap
      in if state = ''codex_restart_required'' then (''paused'', tray_tip tip_official)
         else if state = ''codex_not_running'' \<and> ms_StoppedRetries snap > 0 then (''stopped'', tray_tip tip_codex_gone)
         else if state = ''shared_app_server_disabled'' then (''paused'', tray_tip tip_disabled)
         else if state = ''shared_app_server_port_reserved'' then (''stopped'', tray_tip tip_reserved)
         else if state = ''shared_app_server_port_conflict''
         then (''paused'', tray_tip (tip_conflict @ int_text (ms_SharedAppServerPort snap)))
         else if state = ''shared_app_server_migration_deferred'' then (''paused'', tray_tip tip_migration)
         else if ms_Paused snap then (''paused'', tray_tip tip_paused)
         else if ms_ActiveRetries snap > 0
         then (''active'', tray_tip (utf8 [0x6B63, 0x5728, 0x91CD, 0x8BD5] @ '' '' @ int_text (ms_ActiveRetries snap)
           @ '' '' @ utf8 [0x4E2A, 0x4EFB, 0x52A1]))
         else (case nextRetrySeconds (ms_Retries snap) None of
             Some soonest \<Rightarrow> (''waiting'', tray_tip (int_text soonest @ '' ''
               @ utf8 [0x79D2, 0x540E, 0x81EA, 0x52A8, 0x91CD, 0x8BD5]))
           | None \<Rightarrow>
               if ms_StoppedRetries snap > 0
               then (''stopped'', tray_tip (int_text (ms_StoppedRetries snap) @ '' ''
                 @ utf8 [0x4E2A, 0x4EFB, 0x52A1, 0x5DF2, 0x505C, 0x6B62, 0x91CD, 0x8BD5]))
               else (''running'', tray_tip tip_running)))"

text \<open>The kinds of balloon, most important first: its count, the count shown last, its texts.\<close>

definition balloon_kinds :: "ManagementSnapshot \<Rightarrow> tray \<Rightarrow> (int \<times> int \<times> string \<times> string) list" where
  "balloon_kinds snap t =
     (let retries = ms_Retries snap; limitStopped = retryLimitStoppedCount retries
      in [(stoppedReasonCount retries ''codex_restart_required'', ty_lastRestartRequired t, title_restart, balloon_restart),
          (stoppedReasonCount retries ''codex_not_running'', ty_lastCodexStopped t, title_exited, balloon_exited),
          (stoppedReasonCount retries ''shared_app_server_disabled'', ty_lastSharedDisabled t, title_shared, balloon_shared),
          (goalEmptyResponseBlockFailedCount retries, ty_lastGoalFailed t, title_block, balloon_block),
          (goalEmptyResponseStoppedCount retries, ty_lastGoalStopped t, title_goal, balloon_goal),
          (limitStopped, ty_lastStopped t, title_limit, utf8 [0x6709] @ '' '' @ int_text limitStopped @ '' ''
             @ utf8 [0x4E2A, 0x4EFB, 0x52A1, 0x5DF2, 0x8FBE, 0x5230, 0x91CD, 0x8BD5, 0x4E0A, 0x9650, 0x3002])])"

definition new_balloon :: "ManagementSnapshot \<Rightarrow> tray \<Rightarrow> (string \<times> string) option" where
  "new_balloon snap t =
     (if \<not> (ty_initialized t \<and> ms_ShowNotifications snap) then None
      else map_option (\<lambda>(_, _, b). b) (find (\<lambda>(count, last, _). count > last) (balloon_kinds snap t)))"

definition remember_counts :: "ManagementSnapshot \<Rightarrow> tray \<Rightarrow> tray" where
  "remember_counts snap t =
     (let retries = ms_Retries snap
      in t\<lparr>ty_lastStopped := retryLimitStoppedCount retries,
           ty_lastGoalStopped := goalEmptyResponseStoppedCount retries,
           ty_lastGoalFailed := goalEmptyResponseBlockFailedCount retries,
           ty_lastRestartRequired := stoppedReasonCount retries ''codex_restart_required'',
           ty_lastCodexStopped := stoppedReasonCount retries ''codex_not_running'',
           ty_lastSharedDisabled := stoppedReasonCount retries ''shared_app_server_disabled'',
           ty_initialized := True\<rparr>)"

definition show_snapshot :: "ManagementSnapshot \<Rightarrow> tray \<Rightarrow> tray" where
  "show_snapshot snap t =
     (let t = (case visual snap of (iconState, tip) \<Rightarrow> setVisual iconState tip t)
      in remember_counts snap (case new_balloon snap t of None \<Rightarrow> t | Some b \<Rightarrow> notify b t))"

definition refresh :: "mgmt_world \<Rightarrow> gotime \<Rightarrow> tray \<times> data_dir \<Rightarrow> tray \<times> data_dir" where
  "refresh w now = (\<lambda>(t, d).
     (case snapshotLocked w now d of
        (Inl _, d) \<Rightarrow> (setTip (tray_tip tip_unreadable) t, d)
      | (Inr snap, d) \<Rightarrow> (show_snapshot snap t, d)))"

subsection \<open>Messages\<close>

text \<open>The icon again after Explorer was restarted: without it nothing is refreshed.\<close>

definition restoreIcon :: "mgmt_world \<Rightarrow> gotime \<Rightarrow> bool \<Rightarrow> tray \<times> data_dir \<Rightarrow> tray \<times> data_dir" where
  "restoreIcon w now added = (\<lambda>(t, d).
     (case addIcon added (removeIcon (t\<lparr>ty_lastTip := [], ty_lastIcon := []\<rparr>)) of
        (ok, t) \<Rightarrow> if ok then refresh w now (t, d) else (t, d)))"

datatype tray_command = menuOpenSettings | menuTogglePause | menuExit

subsection \<open>The settings dialog\<close>

text \<open>What the dialog needs: the script that is part of the program, and what may fail on the way.\<close>

record settings_env =
  se_Content :: string
  se_WriteOK :: bool
  se_Shell :: "string \<Rightarrow> bool"
  se_Executable :: bool
  se_Starts :: bool

definition ensureUTF8BOM :: "string \<Rightarrow> string" where
  "ensureUTF8BOM content =
     (let bom = [CHR 0xEF, CHR 0xBB, CHR 0xBF] in if prefix bom content then content else bom @ content)"

definition ensureSettingsScript :: "settings_env \<Rightarrow> tray \<Rightarrow> bool \<times> tray" where
  "ensureSettingsScript env t =
     (let content = ensureUTF8BOM (se_Content env)
      in if ty_script t = Some content then (True, t)
         else if se_WriteOK env then (True, t\<lparr>ty_script := Some content\<rparr>) else (False, t))"

text \<open>A dialog that is open is not opened again; every failure closes it at once.\<close>

definition openSettings :: "mgmt_world \<Rightarrow> settings_env \<Rightarrow> tray \<times> data_dir \<Rightarrow> tray \<times> data_dir" where
  "openSettings w env = (\<lambda>(t, d).
     if ty_settingsOpen t then (t, d)
     else (case ensureSettingsScript env t of
         (False, t) \<Rightarrow> (t, d)
       | (True, t) \<Rightarrow>
           (case loadOrCreateConfig w d of
              (Inl _, d) \<Rightarrow> (t, d)
            | (Inr c, d) \<Rightarrow>
                if se_Shell env (c_PowerShellExecutable c) \<and> se_Executable env \<and> se_Starts env
                then (t\<lparr>ty_settingsOpen := True\<rparr>, d) else (t, d))))"

subsection \<open>The loop\<close>

datatype tray_message =
    explorerGone
  | taskbarCreated bool
  | timerMessage
  | doubleClick settings_env
  | rightClick "tray_command option" settings_env
  | commandMessage tray_command settings_env
  | settingsFinished
  | destroyMessage

definition togglePause :: "mgmt_world \<Rightarrow> gotime \<Rightarrow> data_dir \<Rightarrow> data_dir" where
  "togglePause w now d =
     (case snapshotLocked w now d of
        (Inl _, d) \<Rightarrow> d
      | (Inr snap, d) \<Rightarrow> snd (setPaused w (\<not> ms_Paused snap) now d))"

definition handleCommand :: "mgmt_world \<Rightarrow> gotime \<Rightarrow> tray_command \<Rightarrow> settings_env \<Rightarrow> tray \<times> data_dir \<Rightarrow> tray \<times> data_dir" where
  "handleCommand w now command env = (\<lambda>(t, d).
     (case command of
        menuOpenSettings \<Rightarrow> openSettings w env (t, d)
      | menuTogglePause \<Rightarrow> refresh w now (t, togglePause w now d)
      | menuExit \<Rightarrow> (t, d)))"

text \<open>The menu: a line with the tip, which cannot be chosen, and the commands.\<close>

definition menu_items :: "bool \<Rightarrow> tray \<Rightarrow> (string \<times> tray_command option) list" where
  "menu_items paused t =
     [(trim_prefix (app_name @ '' - '') (ty_lastTip t), None),
      (utf8 [0x6253, 0x5F00, 0x8BBE, 0x7F6E, 0x2026], Some menuOpenSettings),
      (utf8 (if paused then [0x6062, 0x590D, 0x81EA, 0x52A8, 0x91CD, 0x8BD5]
         else [0x6682, 0x505C, 0x81EA, 0x52A8, 0x91CD, 0x8BD5]), Some menuTogglePause),
      (utf8 [0x9000, 0x51FA], Some menuExit)]"

text \<open>\<open>choice\<close> is the command the user picks, if any; a snapshot that fails shows the switch as not paused.\<close>

definition showMenu ::
    "mgmt_world \<Rightarrow> gotime \<Rightarrow> tray_command option \<Rightarrow> settings_env \<Rightarrow> tray \<times> data_dir \<Rightarrow>
     (string \<times> tray_command option) list \<times> tray \<times> data_dir" where
  "showMenu w now choice env = (\<lambda>(t, d).
     (case snapshotLocked w now d of
        (r, d) \<Rightarrow>
          (menu_items (case r of Inl _ \<Rightarrow> False | Inr snap \<Rightarrow> ms_Paused snap) t,
           (case choice of None \<Rightarrow> (t, d) | Some command \<Rightarrow> handleCommand w now command env (t, d)))))"

text \<open>One message; \<open>explorerGone\<close> is what Windows does when its shell ends.\<close>

definition trayWndProc :: "mgmt_world \<Rightarrow> gotime \<Rightarrow> tray_message \<Rightarrow> tray \<times> data_dir \<Rightarrow> tray \<times> data_dir" where
  "trayWndProc w now message s =
     (case message of
        explorerGone \<Rightarrow> (removeIcon (fst s), snd s)
      | taskbarCreated added \<Rightarrow> restoreIcon w now added s
      | timerMessage \<Rightarrow> refresh w now s
      | doubleClick env \<Rightarrow> openSettings w env s
      | rightClick choice env \<Rightarrow> snd (showMenu w now choice env s)
      | commandMessage command env \<Rightarrow> handleCommand w now command env s
      | settingsFinished \<Rightarrow> ((fst s)\<lparr>ty_settingsOpen := False\<rparr>, snd s)
      | destroyMessage \<Rightarrow> (removeIcon (fst s), snd s))"

text \<open>\<open>runTray\<close> up to its loop; \<open>None\<close>: the icon could not be added.\<close>

definition start_tray :: "mgmt_world \<Rightarrow> gotime \<Rightarrow> bool \<Rightarrow> string option \<Rightarrow> data_dir \<Rightarrow> (tray \<times> data_dir) option" where
  "start_tray w now added script d =
     (case addIcon added (new_tray script) of (ok, t) \<Rightarrow> if ok then Some (refresh w now (t, d)) else None)"

definition run_tray :: "mgmt_world \<Rightarrow> (gotime \<times> tray_message) list \<Rightarrow> tray \<times> data_dir \<Rightarrow> tray \<times> data_dir" where
  "run_tray w messages s = fold (\<lambda>(now, message). trayWndProc w now message) messages s"

subsection \<open>What is shown\<close>

text \<open>An icon that is there shows what the tray remembers to have set.\<close>

definition in_step :: "tray \<Rightarrow> bool" where
  "in_step t \<longleftrightarrow> ty_shown t \<in> {None, Some (ty_lastIcon t, ty_lastTip t)}"

lemma setVisual_in_step: "in_step t \<or> (ty_lastTip t = [] \<and> tip \<noteq> []) \<Longrightarrow> in_step (setVisual icon tip t)"
  by (cases "ty_shown t") (auto simp: setVisual_def in_step_def Let_def)

lemma visual_tip: "snd (visual snap) \<noteq> []" "fst (visual snap) \<noteq> []"
  by (auto simp: visual_def Let_def tray_tip_def app_name_def split: option.split)

lemma refresh_in_step:
  assumes "in_step (fst s) \<or> ty_lastTip (fst s) = []"
  shows "in_step (fst (refresh w now s))"
proof -
  have shown: "in_step (remember_counts snap t) \<longleftrightarrow> in_step t" "in_step (notify b t) \<longleftrightarrow> in_step t" for snap t b
    by (simp_all add: in_step_def remember_counts_def notify_def Let_def)
  have "in_step (setVisual icon tip (fst s))" if "tip \<noteq> []" for icon tip
    using assms that by (intro setVisual_in_step) auto
  moreover have "tray_tip x \<noteq> []" for x by (simp add: tray_tip_def app_name_def)
  ultimately show ?thesis using visual_tip(1)
    by (simp add: refresh_def setTip_def show_snapshot_def Let_def shown split_beta split: sum.split option.split)
qed

lemma in_step_simps [simp]:
  "in_step (removeIcon t)" "in_step (t\<lparr>ty_settingsOpen := b\<rparr>) \<longleftrightarrow> in_step t"
  by (simp_all add: in_step_def removeIcon_def)

lemma openSettings_in_step [simp]: "in_step (fst (openSettings w env s)) \<longleftrightarrow> in_step (fst s)"
  by (auto simp: openSettings_def ensureSettingsScript_def in_step_def Let_def split: prod.split sum.split)

lemma no_icon_in_step: "ty_shown t = None \<Longrightarrow> in_step t"
  by (simp add: in_step_def)

lemma restoreIcon_in_step: "in_step (fst (restoreIcon w now added s))"
proof (cases added)
  case True
  then show ?thesis by (simp add: restoreIcon_def addIcon_def split_beta refresh_in_step removeIcon_def)
next
  case False
  then show ?thesis by (simp add: restoreIcon_def addIcon_def split_beta removeIcon_def no_icon_in_step)
qed

lemma handleCommand_in_step: "in_step (fst s) \<Longrightarrow> in_step (fst (handleCommand w now command env s))"
  by (cases command) (auto simp: handleCommand_def split_beta intro!: refresh_in_step)

lemma message_in_step: "in_step (fst s) \<Longrightarrow> in_step (fst (trayWndProc w now message s))"
  by (cases message)
    (auto simp: trayWndProc_def showMenu_def split_beta restoreIcon_in_step
      intro!: refresh_in_step handleCommand_in_step split: option.split)

lemma run_in_step: "in_step (fst s) \<Longrightarrow> in_step (fst (run_tray w messages s))"
proof (induction messages arbitrary: s)
  case (Cons m messages)
  obtain now message where "m = (now, message)" by fastforce
  with Cons.IH [OF message_in_step [OF Cons.prems]] show ?case by (simp add: run_tray_def)
qed (simp add: run_tray_def)

text \<open>
  In every run of the tray, whatever messages arrive and whenever Explorer is restarted, an icon that
  is shown has the state and the tip that the tray set last.
\<close>

theorem tray_in_step:
  "case start_tray w now added script d of None \<Rightarrow> True | Some s \<Rightarrow> in_step (fst (run_tray w messages s))"
proof -
  have "in_step (fst (refresh w now ((new_tray script)\<lparr>ty_shown := Some (''running'', app_name)\<rparr>, d)))"
    by (rule refresh_in_step) (simp add: new_tray_def)
  then show ?thesis by (simp add: start_tray_def addIcon_def run_in_step)
qed

subsection \<open>Balloons\<close>

text \<open>
  A snapshot is announced once: the first one gives no balloon, and the same one again gives none
  either. A snapshot gives at most one balloon, of the most important kind that has grown; whatever
  else has grown with it is never announced.
\<close>

lemma setVisual_keeps [simp]:
  "ty_initialized (setVisual i tip t) = ty_initialized t" "ty_balloons (setVisual i tip t) = ty_balloons t"
  "balloon_kinds snap (setVisual i tip t) = balloon_kinds snap t"
  by (simp_all add: setVisual_def balloon_kinds_def Let_def)

theorem snapshot_announced_once:
  "ty_balloons (show_snapshot snap t) =
     ty_balloons t @ (case new_balloon snap t of None \<Rightarrow> [] | Some b \<Rightarrow> [b]) \<and>
   new_balloon snap (show_snapshot snap t) = None"
proof (rule conjI)
  have new: "new_balloon snap (setVisual i tip t) = new_balloon snap t" for i tip
    by (simp add: new_balloon_def)
  show "ty_balloons (show_snapshot snap t) = ty_balloons t @ (case new_balloon snap t of None \<Rightarrow> [] | Some b \<Rightarrow> [b])"
    by (simp add: show_snapshot_def Let_def new remember_counts_def notify_def split: prod.split option.split)
  have "count \<le> last" if "(count, last, b) \<in> set (balloon_kinds snap (remember_counts snap t'))" for count last b t'
    using that by (auto simp: balloon_kinds_def remember_counts_def Let_def)
  then have "new_balloon snap (remember_counts snap t') = None" for t'
    by (force simp: new_balloon_def find_None_iff)
  then show "new_balloon snap (show_snapshot snap t) = None" by (simp add: show_snapshot_def Let_def)
qed

lemma copyUTF16_ends: "destination \<noteq> [] \<Longrightarrow> last (copyUTF16 destination v) = 0"
  by (simp add: copyUTF16_def Let_def last_list_update)

end
