(* ===== verification/Spec2Isabelle.thy ===== *)
theory Spec2Isabelle
  imports Dispatch_Properties Retry_Properties Lifecycle_Properties Input_Properties
    Store_Properties Service_Properties Controller_Properties Notice_Properties Scanner_Properties
    Management_Properties Worker_Properties Connection_Properties Lookup Frontends
    Windows_Glue Log_Files Atomic_Write Codex_Mcp Command_Line Tray
begin

text \<open>
  A verification library for Codex Auto Retry, the watchdog under \<open>src/scripts/source\<close>.

  The program follows the rollout files of Codex threads, recognises turns that ended with a
  provider error, waits, and continues the thread through the Codex app server, within budgets
  that the user configures. A supervisor process restarts the watchdog, a control panel sends it
  commands through files, and a memory guard ends it before it grows too large.

  \<^bold>\<open>Theories and code.\<close> Foundations:

  \<^item> \<open>Prelude\<close>: what the code uses of Go: times and 64-bit durations, ASCII case folding and
    trimming, loops over maps as folds over an arbitrary key order (locale \<open>keyed_loop\<close>).
  \<^item> \<open>Model\<close> (\<open>model.go\<close>): the records and enumerations, field by field, and the table
    \<open>capabilityForControllerState\<close>.
  \<^item> \<open>Go_Json\<close>, \<open>Json_Text\<close>, \<open>Json_Raw\<close>: \<open>encoding/json\<close> as the code relies on it: the parser from
    bytes, the text that \<open>Marshal\<close> writes, members of type \<open>json.RawMessage\<close>.

  What comes in:

  \<^item> \<open>Classifier\<close> (\<open>classifier.go\<close>): error text to retry decision, with the status pattern.
  \<^item> \<open>Thread_Id\<close>, \<open>Scanner\<close> (\<open>scanner.go\<close>): thread and turn ids in rollout file names; the cursors of
    the rollout files and the scan that reads what was appended to them.
  \<^item> \<open>Events\<close>, \<open>Event_Parsing\<close> (\<open>events.go\<close>): event keys, recovery ids, the text of an error, and a
    line of a rollout as an event.
  \<^item> \<open>Resume_Settings\<close> (\<open>resume_settings.go\<close>): the settings a thread is resumed with.
  \<^item> \<open>Lookup\<close> (\<open>resume_settings.go\<close>, \<open>thread_parent.go\<close>, \<open>roots.go\<close>): the newest rollout of a thread,
    its settings and its parent, and the roots to watch, over what the file system answers.
  \<^item> \<open>Config\<close> (\<open>config.go\<close>, \<open>config_lock.go\<close>): decoding, defaults, migration, validation,
    and the locked read-modify-write.

  The retry engine:

  \<^item> \<open>Runner\<close> (\<open>runner.go\<close>): errors, delays, reason codes, the checks on a controller's reply, \<open>Resume\<close>.
  \<^item> \<open>State_Store\<close> (\<open>state.go\<close>, \<open>state_migration.go\<close>): loading, repairing, migrating,
    pruning and trimming the runtime state.
  \<^item> \<open>Thread_Rules\<close>, \<open>Retry_State\<close>, \<open>Goal_Recovery\<close> (\<open>retry_state.go\<close>, \<open>goal_recovery.go\<close>,
    \<open>transport_recovery.go\<close>, \<open>subagent_recovery.go\<close>): one function from daemon to daemon for each
    event handler, for control commands, configuration reload and the goal-block job.
  \<^item> \<open>Daemon_State\<close>, \<open>Dispatch\<close>, \<open>Status\<close>, \<open>Daemon\<close> (\<open>daemon.go\<close>): the daemon's record and
    every section it runs under its mutex; locale \<open>thread_loop\<close> holds what its loops share, and
    \<open>Dispatch_Lemmas\<close> interprets it for each loop and proves that every operation keeps the
    thread invariant \<open>threads_ok\<close>.
  \<^item> \<open>Daemon_System\<close>: the goroutines as a transition system. A state is the daemon with its
    started jobs; a step is one critical section, so every interleaving is a path.

  What goes out to Codex:

  \<^item> \<open>App_Server\<close>, \<open>Shared_Controller\<close> (\<open>shared_controller.go\<close>): the decisions on one reply, and the
    operations of the controller as computations over requests; their state is the list of the
    requests made, and an arbitrary \<open>world\<close> answers them.
  \<^item> \<open>App_Rpc\<close> (\<open>app_server_rpc.go\<close>) and \<open>Desktop_Ipc\<close> (\<open>codex_ipc_windows.go\<close>): the two connections,
    down to the messages and the frames of bytes.
  \<^item> \<open>Machine\<close>: the machine the shared server runs on. Its state holds the files, the user
    environment and a log of everything asked of Windows; the record \<open>windows\<close> answers from the log,
    so an answer may depend on all that happened before. \<open>keeps\<close> is a calculus of invariants for the
    operations.
  \<^item> \<open>Shared_Server\<close>, \<open>Shared_Launch\<close> (\<open>shared_server_windows.go\<close>), \<open>Shared_Mode\<close>
    (\<open>shared_mode_windows.go\<close>), \<open>Shared_Recovery\<close> (\<open>shared_recovery_windows.go\<close> and the callers in
    \<open>main.go\<close> and \<open>runner.go\<close>), \<open>Worker_Start\<close> (\<open>main.go\<close>): ownership, port, start, adoption and end of the server, the route in
    the user environment, fail-open, the recovery on request, and the start of the worker from its
    configuration to the new daemon.
    \<open>Shared_Invariants\<close> is the locale \<open>shared_invariant\<close>: a predicate that four basic operations keep
    is kept by all of them; each safety property of the server is an interpretation.

  Around it:

  \<^item> \<open>Management\<close> (\<open>management.go\<close>): the service behind the panel, over the files of the data
    directory, with the lemmas of \<open>Management_Lemmas\<close>; \<open>Frontends\<close> (\<open>mcp_server.go\<close>, \<open>main.go\<close>):
    the tools and the local commands that call it; \<open>Tray\<close> (\<open>tray_windows.go\<close>): the icon, its balloons, menu
    and settings dialog, one window message at a time.
  \<^item> \<open>Command_Line\<close> (\<open>main.go\<close>, \<open>config.go\<close>): the arguments, the data directory and what is run.
  \<^item> \<open>Go_Text\<close>, \<open>Codex_Mcp\<close> (\<open>codex_app_mcp_windows.go\<close>): runes and quoted strings; the MCP definition that a
    shared server is started with, as TOML.
  \<^item> \<open>Memory_Guard\<close>, \<open>Supervisor\<close>, \<open>Control\<close> (\<open>memory_guard.go\<close>, \<open>supervisor.go\<close>, \<open>jsonio.go\<close>,
    \<open>control.go\<close>): the guard, the restart loop, the bounded file replacement, the panel's files.
  \<^item> \<open>Atomic_Write\<close> (\<open>jsonio.go\<close>), \<open>Log_Files\<close> (\<open>logger.go\<close>), \<open>Windows_Glue\<close> (\<open>process_windows.go\<close>,
    \<open>startup_approval_windows.go\<close>, \<open>runner.go\<close>): how files are written and rotated, and the decisions on
    what Windows answers.
  \<^item> \<open>Samples\<close>: concrete threads, daemons and events for the witnesses.

  \<^bold>\<open>What the theorems show.\<close> \<open>Dispatch_Properties\<close>: the system invariant, that only due and
  permitted retries are dispatched, earliest first and with none left behind while a slot is
  free, what a job's result does, when a stopped retry may rejoin. \<open>Retry_Properties\<close>: a failure
  advances a chain by one, every chain ends within its budget, and each way the user can take
  over ends it. \<open>Lifecycle_Properties\<close>: what is concluded from reports of the app server.
  \<open>Scanner_Properties\<close>: reading in instalments delivers each event once. \<open>Notice_Properties\<close>: the
  recovery notice that the controller writes is the one the daemon reads. \<open>Controller_Properties\<close>: a
  dispatch starts at most one turn, only after it has read that it may. \<open>Connection_Properties\<close>: a
  call gets its own reply, the Desktop is asked for a turn at most once. \<open>Shared_Properties\<close> and
  \<open>Recovery_Properties\<close>: a process is ended only when it is proven to be ours, a route of the user
  stays, fail-open leaves shared mode off and no route of its own, bounds of the port scan and of the
  time window. \<open>Codex_Mcp\<close>: the override is the definition of the plugin file, and which strings survive it. \<open>Tray\<close>:
  the icon shows what was set last, a snapshot is announced once. \<open>Worker_Properties\<close>: a worker enters shared mode only after its server was checked. \<open>Management_Properties\<close>: the switch of shared mode, the buttons
  and the settings of the panel. \<open>Input_Properties\<close>: classifier, file names, event keys, command
  queue. \<open>Store_Properties\<close>: repair, migration and bounds of the state. \<open>Service_Properties\<close>: delays,
  reason codes, results, memory limit, restarts, status report; \<open>Config\<close> and \<open>Resume_Settings\<close> have
  theorems of their own.

  \<^bold>\<open>Parameters.\<close> SHA-256 and the RFC 3339 format of a time (record \<open>golib\<close>), \<open>time.Parse\<close>
  (\<open>parse_time\<close>, \<open>wn_parse_time\<close>), the printable runes, file reads and writes (their outcome is an argument), what the
  controller replies, what the app server reports (\<open>world\<close>), the answers of the system to the
  management service (\<open>mgmt_world\<close>) and to the shared server (\<open>windows\<close>), the clock. The order in which
  Go visits a map is an argument (\<open>range_order\<close>).

  \<^bold>\<open>Bounds and fuel.\<close> The JSON parser recurses on fuel, twice the length of its input: more
  never changes a result (\<open>parse_more_fuel\<close>). The loops of the shared server that wait until a
  deadline run for a number of rounds that the environment chooses (\<open>wn_patience\<close>), so every number
  is covered. The reading of a pipe ends because each frame shortens what is left. The other recursions
  are structural: the delay loops run over the attempt number, the supervisor over the list of
  worker runs, the replacement over its twelve attempts, the port scan over its 257 candidates.

  \<^bold>\<open>Not modelled.\<close> The ticker (\<open>run\<close>) and the shutdown of the process, the window of the tray,
  the SDK of the MCP server, what is written to the log, and the system calls themselves: directory
  walks, the search for the Codex executable, process queries, the broadcast of a changed environment,
  the websocket. The configuration file may be changed by others only while the shared server is probed
  and while the management service works on the server. \<open>filepath.Clean\<close> is modelled for paths with a
  drive or without a volume, not for UNC and device paths; \<open>url.Parse\<close> without percent escapes and brackets in
  a host; JSON numbers are integers where the code reads integers, their fractions are not kept. The strings are
  bytes; the Unicode parts of Go's case folding and trimming are left out, as the code applies
  them to ASCII identifiers and key words.
\<close>

end
